(* ===== verification/Go_Prelude.thy ===== *)
theory Go_Prelude
  imports Main "HOL-Library.Word"
begin

text \<open>
  The part of Go and of its standard library that the modelled code uses, and the generic
  lemmas the component theories share:
  \<^item> errors as values (\<open>gerror\<close>, with the wrapping of \<^verbatim>\<open>fmt.Errorf("...: %w", err)\<close>) and the
    outcome of a call, which is a result, an error or a panic;
  \<^item> calls with effects: a computation takes the history of the calls made so far and returns
    its outcome with the extended history (\<open>io\<close>), so ordering and interleaving are visible;
  \<^item> strings (\<^verbatim>\<open>strings.ReplaceAll\<close>, \<^verbatim>\<open>Split\<close>, \<^verbatim>\<open>Join\<close>, \<^verbatim>\<open>ToLower\<close>), decimal printing and
    \<^verbatim>\<open>strconv.ParseInt\<close>, as byte lists;
  \<^item> maps that may be nil, whose reads are total and whose writes panic on nil.
\<close>

named_theorems go_io \<open>unfolding rules for effectful computations\<close>
named_theorems go_str \<open>facts on strings\<close>

section \<open>Decimal numbers\<close>

definition digit_char :: "nat \<Rightarrow> char" where
  "digit_char d = char_of (48 + d :: nat)"

fun show_nat :: "nat \<Rightarrow> string" where
  "show_nat n = (if n < 10 then [digit_char n] else show_nat (n div 10) @ [digit_char (n mod 10)])"

declare show_nat.simps [simp del]

definition show_int :: "int \<Rightarrow> string" where
  "show_int i = (if i < 0 then CHR ''-'' # show_nat (nat (- i)) else show_nat (nat i))"

section \<open>Errors and outcomes\<close>

text \<open>
  \<^verbatim>\<open>apierrors.IsNotFound\<close> and \<^verbatim>\<open>IsAlreadyExists\<close> look at the reason of an API status error;
  every other error of code outside the repository is an \<open>ApiError OtherReason\<close>.
  \<open>NumError f s k\<close> is a \<^verbatim>\<open>strconv.NumError\<close>: the function, the parsed text, the complaint.
  \<open>CodedError\<close> is an error with a number, \<^verbatim>\<open>xerror.New(code, msg)\<close> of the recovery agent.
\<close>

datatype api_reason = NotFound | AlreadyExists | OtherReason

datatype gerror =
    NewError string
  | WrapError string gerror
  | NumError string string string
  | ApiError api_reason string
  | CodedError int string

fun error_text :: "gerror \<Rightarrow> string" where
  "error_text (NewError m) = m"
| "error_text (WrapError p e) = p @ error_text e"
| "error_text (NumError f s k) = f @ '': parsing '' @ [CHR 0x22] @ s @ [CHR 0x22] @ '': '' @ k"
| "error_text (ApiError r m) = m"
| "error_text (CodedError c m) = show_int c @ ''-'' @ m"

fun IsNotFound :: "gerror \<Rightarrow> bool" where
  "IsNotFound (ApiError NotFound m) = True"
| "IsNotFound (WrapError p e) = IsNotFound e"
| "IsNotFound _ = False"

fun IsAlreadyExists :: "gerror \<Rightarrow> bool" where
  "IsAlreadyExists (ApiError AlreadyExists m) = True"
| "IsAlreadyExists (WrapError p e) = IsAlreadyExists e"
| "IsAlreadyExists _ = False"

datatype 'a outcome = Ok 'a | Fail gerror | Panic string

section \<open>Computations with effects\<close>

type_synonym ('c, 'a) io = "'c list \<Rightarrow> 'a outcome \<times> 'c list"

definition ret :: "'a \<Rightarrow> ('c, 'a) io" where
  "ret x = (\<lambda>tr. (Ok x, tr))"

definition fail :: "gerror \<Rightarrow> ('c, 'a) io" where
  "fail e = (\<lambda>tr. (Fail e, tr))"

definition panic :: "string \<Rightarrow> ('c, 'a) io" where
  "panic m = (\<lambda>tr. (Panic m, tr))"

text \<open>\<open>bind_io\<close> is sequencing with the early return \<^verbatim>\<open>if err != nil { return err }\<close>.\<close>

definition bind_io :: "('c, 'a) io \<Rightarrow> ('a \<Rightarrow> ('c, 'b) io) \<Rightarrow> ('c, 'b) io" where
  "bind_io m f = (\<lambda>tr. case m tr of
       (Ok x, tr') \<Rightarrow> f x tr'
     | (Fail e, tr') \<Rightarrow> (Fail e, tr')
     | (Panic p, tr') \<Rightarrow> (Panic p, tr'))"

text \<open>\<open>attempt\<close> hands the error to the caller, who looks at it himself.\<close>

definition attempt :: "('c, 'a) io \<Rightarrow> ('c, gerror + 'a) io" where
  "attempt m = (\<lambda>tr. case m tr of
       (Ok x, tr') \<Rightarrow> (Ok (Inr x), tr')
     | (Fail e, tr') \<Rightarrow> (Ok (Inl e), tr')
     | (Panic p, tr') \<Rightarrow> (Panic p, tr'))"

text \<open>\<open>wrap_err p\<close> is \<^verbatim>\<open>fmt.Errorf("p%w", err)\<close> on the error path.\<close>

definition wrap_err :: "string \<Rightarrow> ('c, 'a) io \<Rightarrow> ('c, 'a) io" where
  "wrap_err p m = (\<lambda>tr. case m tr of
       (Ok x, tr') \<Rightarrow> (Ok x, tr')
     | (Fail e, tr') \<Rightarrow> (Fail (WrapError p e), tr')
     | (Panic q, tr') \<Rightarrow> (Panic q, tr'))"

text \<open>\<open>flat_err p\<close> is \<^verbatim>\<open>fmt.Errorf("p%v", err)\<close>: the text of the error without the error itself.\<close>

definition flat_err :: "string \<Rightarrow> ('c, 'a) io \<Rightarrow> ('c, 'a) io" where
  "flat_err p m = (\<lambda>tr. case m tr of
       (Ok x, tr') \<Rightarrow> (Ok x, tr')
     | (Fail e, tr') \<Rightarrow> (Fail (NewError (p @ error_text e)), tr')
     | (Panic q, tr') \<Rightarrow> (Panic q, tr'))"

text \<open>
  \<open>call c a\<close> is one call of code outside the repository: it is recorded, and its answer \<open>a\<close>,
  a function of the history, is given by the environment. \<open>emit c\<close> is a call with no answer.
\<close>

definition call :: "'c \<Rightarrow> ('c list \<Rightarrow> gerror + 'a) \<Rightarrow> ('c, 'a) io" where
  "call c a = (\<lambda>tr. (case a tr of Inl e \<Rightarrow> Fail e | Inr x \<Rightarrow> Ok x, tr @ [c]))"

definition emit :: "'c \<Rightarrow> ('c, unit) io" where
  "emit c = (\<lambda>tr. (Ok (), tr @ [c]))"

definition lift_outcome :: "'a outcome \<Rightarrow> ('c, 'a) io" where
  "lift_outcome r = (\<lambda>tr. (r, tr))"

text \<open>\<open>deferred d m\<close> runs \<open>d\<close> when \<open>m\<close> leaves, whatever its outcome (\<^verbatim>\<open>defer\<close>).\<close>

definition deferred :: "'c \<Rightarrow> ('c, 'a) io \<Rightarrow> ('c, 'a) io" where
  "deferred d m = (\<lambda>tr. case m tr of (r, tr') \<Rightarrow> (r, tr' @ [d]))"

fun seq_io :: "('a \<Rightarrow> ('c, unit) io) \<Rightarrow> 'a list \<Rightarrow> ('c, unit) io" where
  "seq_io f [] = ret ()"
| "seq_io f (x # xs) = bind_io (f x) (\<lambda>_. seq_io f xs)"

text \<open>Sequencing of code that has no effects but may panic.\<close>

definition obind :: "'a outcome \<Rightarrow> ('a \<Rightarrow> 'b outcome) \<Rightarrow> 'b outcome" where
  "obind r f = (case r of Ok x \<Rightarrow> f x | Fail e \<Rightarrow> Fail e | Panic p \<Rightarrow> Panic p)"

lemma obind_simps [simp]:
  "obind (Ok x) f = f x" "obind (Fail e) f = Fail e" "obind (Panic p) f = Panic p"
  by (simp_all add: obind_def)

lemma obind_assoc: "obind (obind m f) g = obind m (\<lambda>x. obind (f x) g)"
  by (cases m) simp_all

lemma obind_Ok_iff: "obind r f = Ok y \<longleftrightarrow> (\<exists>x. r = Ok x \<and> f x = Ok y)"
  by (cases r) simp_all

section \<open>Nil-able maps\<close>

text \<open>\<open>None\<close> is the nil map. Reading gives the zero value where the key is absent.\<close>

type_synonym gomap = "(string \<rightharpoonup> string) option"

definition mlookup :: "gomap \<Rightarrow> string \<Rightarrow> string option" where
  "mlookup m k = (case m of None \<Rightarrow> None | Some f \<Rightarrow> f k)"

definition mget :: "gomap \<Rightarrow> string \<Rightarrow> string" where
  "mget m k = (case mlookup m k of None \<Rightarrow> [] | Some v \<Rightarrow> v)"

definition mput :: "gomap \<Rightarrow> string \<Rightarrow> string \<Rightarrow> gomap outcome" where
  "mput m k v = (case m of None \<Rightarrow> Panic ''assignment to entry in nil map''
                 | Some f \<Rightarrow> Ok (Some (f(k \<mapsto> v))))"

text \<open>\<^verbatim>\<open>v, ok := m[k]; !ok || v == ""\<close>\<close>

definition mmissing :: "gomap \<Rightarrow> string \<Rightarrow> bool" where
  "mmissing m k = (mget m k = [])"

section \<open>Nil-able slices\<close>

text \<open>
  \<open>None\<close> is the nil slice, which \<^verbatim>\<open>range\<close>, \<^verbatim>\<open>len\<close> and \<^verbatim>\<open>append\<close> treat as an empty one, but
  which \<^verbatim>\<open>reflect.DeepEqual\<close> tells from it. Appending nothing leaves nil as it is.
\<close>

type_synonym 'a goslice = "'a list option"

definition items :: "'a goslice \<Rightarrow> 'a list" where
  "items s = (case s of None \<Rightarrow> [] | Some xs \<Rightarrow> xs)"

definition slice_append :: "'a goslice \<Rightarrow> 'a list \<Rightarrow> 'a goslice" where
  "slice_append s xs = (if xs = [] then s else Some (items s @ xs))"

lemma items_simps [simp]: "items None = []" "items (Some xs) = xs"
  by (simp_all add: items_def)

lemma items_slice_append [simp]: "items (slice_append s xs) = items s @ xs"
  by (simp add: slice_append_def)

section \<open>Strings and numbers\<close>

definition replace_char :: "char \<Rightarrow> char \<Rightarrow> string \<Rightarrow> string" where
  "replace_char a b s = map (\<lambda>c. if c = a then b else c) s"

text \<open>\<^verbatim>\<open>strings.Split\<close> with a one-byte separator: never the empty list.\<close>

fun split_on :: "char \<Rightarrow> string \<Rightarrow> string list" where
  "split_on sep [] = [[]]"
| "split_on sep (c # cs) =
     (if c = sep then [] # split_on sep cs
      else (case split_on sep cs of [] \<Rightarrow> [[c]] | w # ws \<Rightarrow> (c # w) # ws))"

fun join :: "string \<Rightarrow> string list \<Rightarrow> string" where
  "join sep [] = []"
| "join sep [x] = x"
| "join sep (x # y # xs) = x @ sep @ join sep (y # xs)"

definition lower_char :: "char \<Rightarrow> char" where
  "lower_char c = (if 65 \<le> (of_char c :: nat) \<and> (of_char c :: nat) \<le> 90
                   then char_of ((of_char c :: nat) + 32) else c)"

definition to_lower :: "string \<Rightarrow> string" where
  "to_lower s = map lower_char s"

definition is_digit :: "char \<Rightarrow> bool" where
  "is_digit c = (48 \<le> (of_char c :: nat) \<and> (of_char c :: nat) \<le> 57)"

definition digits_val :: "string \<Rightarrow> nat" where
  "digits_val s = foldl (\<lambda>a c. 10 * a + ((of_char c :: nat) - 48)) 0 s"

text \<open>
  \<^verbatim>\<open>strconv.ParseInt(s, 10, bits)\<close>: an optional sign, at least one digit, and the value in
  the range of a signed integer of that many bits. \<open>f\<close> is the name in the error.
\<close>

definition parse_int :: "string \<Rightarrow> nat \<Rightarrow> string \<Rightarrow> gerror + int" where
  "parse_int f bits s =
     (let neg = (s \<noteq> [] \<and> hd s = CHR ''-'');
          ds = (if s \<noteq> [] \<and> (hd s = CHR ''-'' \<or> hd s = CHR ''+'') then tl s else s)
      in if ds = [] \<or> \<not> list_all is_digit ds then Inl (NumError f s ''invalid syntax'')
         else let v = (if neg then - int (digits_val ds) else int (digits_val ds))
              in if v < - (2 ^ (bits - 1)) \<or> 2 ^ (bits - 1) \<le> v
                 then Inl (NumError f s ''value out of range'') else Inr v)"

type_synonym i32 = "32 word"
type_synonym u64 = "64 word"

text \<open>A number that fits into an \<^verbatim>\<open>int32\<close> survives the conversion.\<close>

lemma sint_word_of_int_i32: "- (2 ^ 31) \<le> v \<Longrightarrow> v < 2 ^ 31 \<Longrightarrow> sint (word_of_int v :: i32) = v"
  by (simp add: signed_of_int signed_take_bit_int_eq_self)

lemma sint_word_of_nat_i32: "n < 2 ^ 31 \<Longrightarrow> sint (word_of_nat n :: i32) = int n"
  using sint_word_of_int_i32 [of "int n"] by simp

section \<open>Lemmas on computations\<close>

lemma ret_apply [simp, go_io]: "ret x tr = (Ok x, tr)"
  by (simp add: ret_def)

lemma fail_apply [simp, go_io]: "fail e tr = (Fail e, tr)"
  by (simp add: fail_def)

lemma panic_apply [simp, go_io]: "panic m tr = (Panic m, tr)"
  by (simp add: panic_def)

lemma emit_apply [simp, go_io]: "emit c tr = (Ok (), tr @ [c])"
  by (simp add: emit_def)

lemma lift_outcome_apply [simp, go_io]: "lift_outcome r tr = (r, tr)"
  by (simp add: lift_outcome_def)

lemma bind_ret [simp]: "bind_io (ret x) f = f x"
  by (simp add: bind_io_def ret_def)

lemma bind_io_ret_right [simp]: "bind_io m ret = m"
  by (rule ext) (simp add: bind_io_def ret_def split: prod.split outcome.split)

lemma bind_io_assoc: "bind_io (bind_io m f) g = bind_io m (\<lambda>x. bind_io (f x) g)"
  by (rule ext) (simp add: bind_io_def split: prod.split outcome.split)

lemma bind_fail [simp]: "bind_io (fail e) f = fail e"
  by (simp add: bind_io_def fail_def)

lemma bind_panic [simp]: "bind_io (panic p) f = panic p"
  by (simp add: bind_io_def panic_def)

text \<open>
  How a sequence came to its result: the first part either finished, or its error or panic is
  the outcome of the whole.
\<close>

lemma bind_io_cases:
  assumes "bind_io m f tr = (r, tr')"
  obtains (ok) x tr1 where "m tr = (Ok x, tr1)" "f x tr1 = (r, tr')"
    | (fail) e where "m tr = (Fail e, tr')" "r = Fail e"
    | (panic) p where "m tr = (Panic p, tr')" "r = Panic p"
  using assms by (auto simp: bind_io_def split: prod.splits outcome.splits)

lemma bind_io_Ok_iff:
  "bind_io m f tr = (Ok y, tr') \<longleftrightarrow> (\<exists>x tr1. m tr = (Ok x, tr1) \<and> f x tr1 = (Ok y, tr'))"
  by (auto simp: bind_io_def split: prod.splits outcome.splits)

lemma bind_io_OkE:
  assumes "bind_io m f tr = (Ok y, tr')"
  obtains x tr1 where "m tr = (Ok x, tr1)" "f x tr1 = (Ok y, tr')"
  using assms by (auto simp: bind_io_Ok_iff)

lemma attempt_Ok_iff:
  "attempt m tr = (Ok y, tr') \<longleftrightarrow>
     (\<exists>x. y = Inr x \<and> m tr = (Ok x, tr')) \<or> (\<exists>e. y = Inl e \<and> m tr = (Fail e, tr'))"
  by (auto simp: attempt_def split: prod.splits outcome.splits)

lemma wrap_err_Ok_iff [simp]: "wrap_err p m tr = (Ok y, tr') \<longleftrightarrow> m tr = (Ok y, tr')"
  by (auto simp: wrap_err_def split: prod.splits outcome.splits)

lemma flat_err_Ok_iff [simp]: "flat_err p m tr = (Ok y, tr') \<longleftrightarrow> m tr = (Ok y, tr')"
  by (auto simp: flat_err_def split: prod.splits outcome.splits)

lemma call_Ok_iff: "call c a tr = (Ok y, tr') \<longleftrightarrow> a tr = Inr y \<and> tr' = tr @ [c]"
  by (auto simp: call_def split: sum.splits)

text \<open>A call whose error is looked at by the caller hands over its answer as it is.\<close>

lemma bind_attempt_call [simp, go_io]: "bind_io (attempt (call c a)) f tr = f (a tr) (tr @ [c])"
  by (simp add: bind_io_def attempt_def call_def split: sum.split)

lemma bind_call:
  "bind_io (call c a) f tr = (case a tr of Inl e \<Rightarrow> (Fail e, tr @ [c]) | Inr x \<Rightarrow> f x (tr @ [c]))"
  by (simp add: bind_io_def call_def split: sum.split)

lemma deferred_Ok_iff:
  "deferred d m tr = (Ok y, tr') \<longleftrightarrow> (\<exists>tr1. m tr = (Ok y, tr1) \<and> tr' = tr1 @ [d])"
  by (auto simp: deferred_def split: prod.splits)

text \<open>A loop whose every completed step adds one call adds one call per element, in order.\<close>

lemma seq_io_trace:
  assumes step: "\<And>x tr tr'. f x tr = (Ok (), tr') \<Longrightarrow> tr' = tr @ [g x]"
    and "seq_io f xs tr = (Ok (), tr')"
  shows "tr' = tr @ map g xs"
  using assms(2)
proof (induction xs arbitrary: tr)
  case Nil
  then show ?case by simp
next
  case (Cons x xs)
  then obtain tr1 where "f x tr = (Ok (), tr1)" and "seq_io f xs tr1 = (Ok (), tr')"
    by (auto simp: bind_io_Ok_iff)
  with Cons.IH step show ?case by fastforce
qed

lemma append_Cons_after:
  "xs @ c # ys = as @ bs \<Longrightarrow> c \<notin> set as \<Longrightarrow> \<exists>zs. xs = as @ zs \<and> bs = zs @ c # ys"
proof (induction as arbitrary: xs)
  case Nil
  then show ?case by simp
next
  case (Cons a as)
  then show ?case by (cases xs) auto
qed

lemmas io_Ok = bind_io_Ok_iff attempt_Ok_iff call_Ok_iff deferred_Ok_iff

end
