(* ===== verification/Api_Types.thy ===== *)
theory Api_Types
  imports Go_Prelude
begin

text \<open>
  The API objects of \<^verbatim>\<open>shardingsphere-operator/api/v1alpha1\<close> that the storage node controller
  reads and writes: \<^verbatim>\<open>StorageNode\<close> with its status and its conditions (file
  \<^verbatim>\<open>storage_node_types.go\<close>), \<^verbatim>\<open>StorageProvider\<close> (\<^verbatim>\<open>storageprovider_types.go\<close>) and the part of
  \<^verbatim>\<open>ComputeNode\<close> (\<^verbatim>\<open>compute_node_types.go\<close>) that says how to log in to a proxy. A Go string type
  with named constants is a datatype with one constructor per constant and one for every other
  text. Timestamps are integers; \<open>None\<close> is the zero or nil time.
\<close>

section \<open>Object metadata\<close>

type_synonym gotime = int

record ObjectMeta =
  meta_Name :: string
  meta_Namespace :: string
  meta_Annotations :: gomap
  meta_Labels :: gomap
  meta_Finalizers :: "string list"
  meta_DeletionTimestamp :: "gotime option"

type_synonym NamespacedName = "string \<times> string"

section \<open>StorageNode\<close>

datatype StorageNodePhaseStatus =
    PhaseReady | PhaseNotReady | PhaseDeleting | PhaseDeleteComplete | PhaseOther string

datatype StorageNodeConditionType =
    TypeAvailable | TypeClusterReady | TypeRegistered | TypeOther string

datatype ConditionStatus = ConditionTrue | ConditionFalse | ConditionUnknown

record StorageNodeCondition =
  cond_Type :: StorageNodeConditionType
  cond_Status :: ConditionStatus
  cond_LastUpdateTime :: "gotime option"
  cond_Reason :: string
  cond_Message :: string

type_synonym StorageNodeConditions = "StorageNodeCondition list"

record Endpoint =
  ep_Address :: string
  ep_Port :: i32

record ClusterStatus =
  cls_Status :: string
  cls_PrimaryEndpoint :: Endpoint
  cls_ReaderEndpoints :: "Endpoint list"
  cls_Properties :: gomap

record InstanceStatus =
  ins_Status :: string
  ins_Endpoint :: Endpoint
  ins_Properties :: gomap

record StorageNodeStatus =
  sns_ObservedGeneration :: int
  sns_Phase :: StorageNodePhaseStatus
  sns_Conditions :: StorageNodeConditions
  sns_Cluster :: ClusterStatus
  sns_Instances :: "InstanceStatus list"
  sns_Registered :: bool

record StorageNode =
  sn_meta :: ObjectMeta
  sn_StorageProviderName :: string
  sn_Schema :: string
  sn_Replicas :: i32
  sn_Status :: StorageNodeStatus

abbreviation sn_Name :: "StorageNode \<Rightarrow> string" where
  "sn_Name n \<equiv> meta_Name (sn_meta n)"

abbreviation sn_Namespace :: "StorageNode \<Rightarrow> string" where
  "sn_Namespace n \<equiv> meta_Namespace (sn_meta n)"

abbreviation sn_Annotations :: "StorageNode \<Rightarrow> gomap" where
  "sn_Annotations n \<equiv> meta_Annotations (sn_meta n)"

abbreviation sn_Finalizers :: "StorageNode \<Rightarrow> string list" where
  "sn_Finalizers n \<equiv> meta_Finalizers (sn_meta n)"

abbreviation sn_Phase :: "StorageNode \<Rightarrow> StorageNodePhaseStatus" where
  "sn_Phase n \<equiv> sns_Phase (sn_Status n)"

text \<open>The zero values of Go: what \<^verbatim>\<open>v1alpha1.ClusterStatus{}\<close> and \<^verbatim>\<open>v1alpha1.Endpoint{}\<close> denote.\<close>

definition zero_Endpoint :: Endpoint where
  "zero_Endpoint = \<lparr>ep_Address = [], ep_Port = 0\<rparr>"

definition zero_ClusterStatus :: ClusterStatus where
  "zero_ClusterStatus = \<lparr>cls_Status = [], cls_PrimaryEndpoint = zero_Endpoint,
     cls_ReaderEndpoints = [], cls_Properties = None\<rparr>"

section \<open>The conditions of a storage node\<close>

definition AddCondition :: "StorageNodeCondition \<Rightarrow> StorageNodeConditions \<Rightarrow> StorageNodeConditions" where
  "AddCondition c cs = cs @ [c]"

text \<open>
  The loop of \<^verbatim>\<open>UpsertCondition\<close>: the first entry of that type is replaced in place, and the
  condition is appended when the loop finds none.
\<close>

fun upsert_loop :: "StorageNodeCondition \<Rightarrow> StorageNodeConditions \<Rightarrow> StorageNodeConditions option" where
  "upsert_loop c [] = None"
| "upsert_loop c (e # es) =
     (if cond_Type e = cond_Type c then Some (c # es)
      else map_option (\<lambda>r. e # r) (upsert_loop c es))"

definition UpsertCondition :: "StorageNodeCondition \<Rightarrow> StorageNodeConditions \<Rightarrow> StorageNodeConditions" where
  "UpsertCondition c cs = (case upsert_loop c cs of Some r \<Rightarrow> r | None \<Rightarrow> AddCondition c cs)"

fun RemoveCondition :: "StorageNodeConditionType \<Rightarrow> StorageNodeConditions \<Rightarrow> StorageNodeConditions" where
  "RemoveCondition t [] = []"
| "RemoveCondition t (e # es) =
     (if cond_Type e \<noteq> t then e # RemoveCondition t es else RemoveCondition t es)"

section \<open>StorageProvider\<close>

definition AnnotationsClusterIdentifier :: string where
  "AnnotationsClusterIdentifier = ''storageproviders.shardingsphere.apache.org/cluster-identifier''"
definition AnnotationsInstanceIdentifier :: string where
  "AnnotationsInstanceIdentifier = ''storageproviders.shardingsphere.apache.org/instance-identifier''"
definition AnnotationsInstanceDBName :: string where
  "AnnotationsInstanceDBName = ''storageproviders.shardingsphere.apache.org/instance-db-name''"
definition AnnotationsMasterUsername :: string where
  "AnnotationsMasterUsername = ''storageproviders.shardingsphere.apache.org/master-username''"
definition AnnotationsMasterUserPassword :: string where
  "AnnotationsMasterUserPassword = ''storageproviders.shardingsphere.apache.org/master-user-password''"
definition AnnotationsFinalSnapshotIdentifier :: string where
  "AnnotationsFinalSnapshotIdentifier =
     ''storageproviders.shardingsphere.apache.org/final-snapshot-identifier''"

definition ProvisionerAWSRDSInstance :: string where
  "ProvisionerAWSRDSInstance = ''storageproviders.shardingsphere.apache.org/aws-rds-instance''"
definition ProvisionerAWSRDSCluster :: string where
  "ProvisionerAWSRDSCluster = ''storageproviders.shardingsphere.apache.org/aws-rds-cluster''"
definition ProvisionerAWSAurora :: string where
  "ProvisionerAWSAurora = ''storageproviders.shardingsphere.apache.org/aws-aurora''"
definition ProvisionerCloudNativePG :: string where
  "ProvisionerCloudNativePG = ''storageproviders.shardingsphere.apache.org/cloud-native-pg''"

lemmas annotation_defs = AnnotationsClusterIdentifier_def AnnotationsInstanceIdentifier_def
  AnnotationsInstanceDBName_def AnnotationsMasterUsername_def AnnotationsMasterUserPassword_def
  AnnotationsFinalSnapshotIdentifier_def

lemmas provisioner_defs = ProvisionerAWSRDSInstance_def ProvisionerAWSRDSCluster_def
  ProvisionerAWSAurora_def ProvisionerCloudNativePG_def

datatype StorageReclaimPolicy = PolicyDeleteWithFinalSnapshot | PolicyDelete | PolicyRetain | PolicyOther string

record StorageProvider =
  sp_Name :: string
  sp_Provisioner :: string
  sp_Parameters :: gomap
  sp_ReclaimPolicy :: StorageReclaimPolicy

section \<open>ComputeNode, as a proxy to log in to, and its service\<close>

record ComputeNodeUser =
  usr_User :: string
  usr_Password :: string

record ComputeNodeAuthority =
  auth_Users :: "ComputeNodeUser goslice"
  auth_Privilege :: string

record Repository =
  repo_Type :: string
  repo_Props :: gomap

record ComputeNodeServerMode =
  mode_Repository :: Repository
  mode_Type :: string

record ServerConfig =
  srv_Authority :: ComputeNodeAuthority
  srv_Mode :: ComputeNodeServerMode
  srv_Props :: gomap

text \<open>\<^verbatim>\<open>v1alpha1.ServerConfig{}\<close>\<close>

definition zero_ServerConfig :: ServerConfig where
  "zero_ServerConfig = \<lparr>srv_Authority = \<lparr>auth_Users = None, auth_Privilege = []\<rparr>,
     srv_Mode = \<lparr>mode_Repository = \<lparr>repo_Type = [], repo_Props = None\<rparr>, mode_Type = []\<rparr>,
     srv_Props = None\<rparr>"

record ProxyNode =
  pn_Name :: string
  pn_Namespace :: string
  pn_ServerConfig :: ServerConfig

record ProxyService =
  svc_Name :: string
  svc_Namespace :: string
  svc_Ports :: "i32 list"

lemma srv_Props_zero [simp]: "srv_Props zero_ServerConfig = None"
  by (simp add: zero_ServerConfig_def)

section \<open>Lemmas on conditions\<close>

definition find_condition :: "StorageNodeConditionType \<Rightarrow> StorageNodeConditions \<Rightarrow> StorageNodeCondition option" where
  "find_condition t cs = find (\<lambda>c. cond_Type c = t) cs"

definition distinct_types :: "StorageNodeConditions \<Rightarrow> bool" where
  "distinct_types cs = distinct (map cond_Type cs)"

lemma RemoveCondition_filter: "RemoveCondition t cs = filter (\<lambda>e. cond_Type e \<noteq> t) cs"
  by (induction cs) auto

lemma upsert_loop_None_iff: "upsert_loop c cs = None \<longleftrightarrow> cond_Type c \<notin> cond_Type ` set cs"
  by (induction cs) auto

lemma UpsertCondition_Nil [simp]: "UpsertCondition c [] = [c]"
  by (simp add: UpsertCondition_def AddCondition_def)

lemma UpsertCondition_Cons [simp]:
  "UpsertCondition c (e # es) =
     (if cond_Type e = cond_Type c then c # es else e # UpsertCondition c es)"
  by (auto simp: UpsertCondition_def AddCondition_def split: option.splits)

lemma find_UpsertCondition:
  "find_condition t (UpsertCondition c cs) = (if t = cond_Type c then Some c else find_condition t cs)"
  by (induction cs) (auto simp: find_condition_def)

lemma find_RemoveCondition:
  "find_condition t (RemoveCondition u cs) = (if t = u then None else find_condition t cs)"
  by (induction cs) (auto simp: find_condition_def)

lemma types_UpsertCondition:
  "cond_Type ` set (UpsertCondition c cs) = insert (cond_Type c) (cond_Type ` set cs)"
  by (induction cs) auto

lemma distinct_UpsertCondition: "distinct_types cs \<Longrightarrow> distinct_types (UpsertCondition c cs)"
proof (induction cs)
  case Nil
  then show ?case by (simp add: distinct_types_def)
next
  case (Cons e es)
  have "cond_Type ` set (UpsertCondition c es) = insert (cond_Type c) (cond_Type ` set es)"
    by (rule types_UpsertCondition)
  with Cons show ?case by (auto simp: distinct_types_def)
qed

lemma distinct_RemoveCondition: "distinct_types cs \<Longrightarrow> distinct_types (RemoveCondition t cs)"
  by (induction cs) (auto simp: distinct_types_def RemoveCondition_filter)

text \<open>
  The contract of a keyed list of entries, as the status code uses it: an upsert is what a
  lookup by key sees afterwards, a removal hides the key, other keys are untouched, and no
  operation makes a key occur twice. The store without removal is what the pod builders offer too.
\<close>

locale keyed_store =
  fixes key :: "'c \<Rightarrow> 't"
    and upsert :: "'c \<Rightarrow> 's \<Rightarrow> 's"
    and lookup :: "'t \<Rightarrow> 's \<Rightarrow> 'c option"
    and wf :: "'s \<Rightarrow> bool"
  assumes lookup_upsert: "lookup t (upsert c s) = (if t = key c then Some c else lookup t s)"
    and wf_upsert: "wf s \<Longrightarrow> wf (upsert c s)"
begin

text \<open>Seen as a finite map, an upsert is a map update.\<close>

definition view :: "'s \<Rightarrow> 't \<rightharpoonup> 'c" where
  "view s = (\<lambda>t. lookup t s)"

lemma view_upsert: "view (upsert c s) = (view s)(key c \<mapsto> c)"
  by (rule ext) (simp add: view_def lookup_upsert)

lemma wf_fold_upsert: "wf s \<Longrightarrow> wf (fold upsert cs s)"
  by (induction cs arbitrary: s) (auto intro: wf_upsert)

lemma lookup_fold_upsert_other: "t \<notin> key ` set cs \<Longrightarrow> lookup t (fold upsert cs s) = lookup t s"
  by (induction cs arbitrary: s) (auto simp: lookup_upsert)

lemma lookup_fold_upsert:
  assumes "distinct (map key cs)" and "c \<in> set cs"
  shows "lookup (key c) (fold upsert cs s) = Some c"
  using assms
proof (induction cs arbitrary: s)
  case Nil
  then show ?case by simp
next
  case (Cons d ds)
  show ?case
  proof (cases "c = d")
    case True
    with Cons.prems show ?thesis by (simp add: lookup_fold_upsert_other lookup_upsert)
  next
    case False
    with Cons show ?thesis by simp
  qed
qed

end

text \<open>A store with removal as well: a removal hides the key and nothing else.\<close>

locale keyed_entries = keyed_store key upsert lookup wf
  for key :: "'c \<Rightarrow> 't" and upsert :: "'c \<Rightarrow> 's \<Rightarrow> 's" and lookup :: "'t \<Rightarrow> 's \<Rightarrow> 'c option"
    and wf :: "'s \<Rightarrow> bool" +
  fixes remove :: "'t \<Rightarrow> 's \<Rightarrow> 's"
  assumes lookup_remove: "lookup t (remove u s) = (if t = u then None else lookup t s)"
    and wf_remove: "wf s \<Longrightarrow> wf (remove t s)"
begin

lemma view_remove: "view (remove t s) = (view s)(t := None)"
  by (rule ext) (simp add: view_def lookup_remove)

lemma upsert_after_remove: "lookup (key c) (upsert c (remove u s)) = Some c"
  by (simp add: lookup_upsert)

end

interpretation conditions: keyed_entries cond_Type UpsertCondition find_condition distinct_types RemoveCondition
  by unfold_locales
    (simp_all add: find_UpsertCondition find_RemoveCondition distinct_UpsertCondition
      distinct_RemoveCondition)

end
