(* ===== verification/Io_Calls.thy ===== *)
theory Io_Calls
  imports Go_Prelude
begin

text \<open>
  Reasoning about the calls that computations make: which calls they are limited to, which ones
  they add to a history, and in which order, with the rules for every way of composing
  computations. All controllers and commands are verified with these rules.
\<close>

section \<open>Which calls a computation can make\<close>

text \<open>
  \<open>within P m\<close>: whatever history \<open>m\<close> starts from, the calls it adds all satisfy \<open>P\<close>, and it
  takes nothing away. \<open>added m tr\<close> are the calls it adds.
\<close>

definition within :: "('c \<Rightarrow> bool) \<Rightarrow> ('c, 'a) io \<Rightarrow> bool" where
  "within P m \<longleftrightarrow> (\<forall>tr. \<exists>new. snd (m tr) = tr @ new \<and> list_all P new)"

definition added :: "('c, 'a) io \<Rightarrow> 'c list \<Rightarrow> 'c list" where
  "added m tr = drop (length tr) (snd (m tr))"

named_theorems within_intros \<open>how calls compose\<close>

lemma within_ret [within_intros, simp]: "within P (ret x)"
  by (simp add: within_def)

lemma within_fail [within_intros, simp]: "within P (fail x)"
  by (simp add: within_def)

lemma within_panic [within_intros, simp]: "within P (panic x)"
  by (simp add: within_def)

lemma within_lift [within_intros, simp]: "within P (lift_outcome x)"
  by (simp add: within_def)

lemma within_emit [within_intros, simp]: "P c \<Longrightarrow> within P (emit c)"
  by (simp add: within_def)

lemma within_call [within_intros, simp]: "P c \<Longrightarrow> within P (call c a)"
  by (simp add: within_def call_def)

lemma withinE:
  assumes "within P m" "m tr = (r, tr')"
  obtains new where "tr' = tr @ new" "list_all P new"
  using assms unfolding within_def by (metis snd_conv)

text \<open>The continuation only has to be looked at on the results the first part can give.\<close>

lemma within_bind_Ok:
  assumes "within P m" and "\<And>x tr tr'. m tr = (Ok x, tr') \<Longrightarrow> within P (f x)"
  shows "within P (bind_io m f)"
  unfolding within_def
proof
  fix tr
  obtain r tr1 where run: "m tr = (r, tr1)" by fastforce
  with assms(1) obtain a where a: "tr1 = tr @ a" "list_all P a" by (rule withinE)
  show "\<exists>new. snd (bind_io m f tr) = tr @ new \<and> list_all P new"
  proof (cases r)
    case (Ok x)
    with run assms(2) have "within P (f x)" by blast
    then obtain b where "snd (f x tr1) = tr1 @ b" "list_all P b" by (auto simp: within_def)
    with run Ok a show ?thesis by (simp add: bind_io_def)
  qed (use run a in \<open>simp_all add: bind_io_def\<close>)
qed

lemma within_bind [within_intros]:
  "within P m \<Longrightarrow> (\<And>x. within P (f x)) \<Longrightarrow> within P (bind_io m f)"
  by (rule within_bind_Ok)

lemma snd_attempt [simp]: "snd (attempt m tr) = snd (m tr)"
  by (simp add: attempt_def split: prod.split outcome.split)

lemma snd_wrap_err [simp]: "snd (wrap_err p m tr) = snd (m tr)"
  by (simp add: wrap_err_def split: prod.split outcome.split)

lemma within_attempt [within_intros]: "within P m \<Longrightarrow> within P (attempt m)"
  by (simp add: within_def)

lemma within_wrap_err [within_intros]: "within P m \<Longrightarrow> within P (wrap_err p m)"
  by (simp add: within_def)

lemma snd_flat_err [simp]: "snd (flat_err p m tr) = snd (m tr)"
  by (simp add: flat_err_def split: prod.split outcome.split)

lemma within_flat_err [within_intros]: "within P m \<Longrightarrow> within P (flat_err p m)"
  by (simp add: within_def)

lemma snd_deferred [simp]: "snd (deferred d m tr) = snd (m tr) @ [d]"
  by (simp add: deferred_def split: prod.split)

lemma within_deferred [within_intros]: "within P m \<Longrightarrow> P d \<Longrightarrow> within P (deferred d m)"
proof -
  assume m: "within P m" and d: "P d"
  have "\<exists>new. snd (m tr) @ [d] = tr @ new \<and> list_all P new" for tr
  proof -
    from m obtain new where "snd (m tr) = tr @ new" "list_all P new" by (auto simp: within_def)
    with d show ?thesis by (intro exI [of _ "new @ [d]"]) simp
  qed
  then show ?thesis by (simp add: within_def)
qed

lemma within_Let [within_intros]: "within P (f x) \<Longrightarrow> within P (Let x f)"
  by simp

lemma within_if [within_intros]:
  "(b \<Longrightarrow> within P m) \<Longrightarrow> (\<not> b \<Longrightarrow> within P n) \<Longrightarrow> within P (if b then m else n)"
  by simp

lemma within_case_option [within_intros]:
  "within P m \<Longrightarrow> (\<And>x. within P (f x)) \<Longrightarrow> within P (case z of None \<Rightarrow> m | Some x \<Rightarrow> f x)"
  by (cases z) simp_all

lemma within_case_sum [within_intros]:
  "(\<And>x. within P (f x)) \<Longrightarrow> (\<And>x. within P (g x)) \<Longrightarrow> within P (case z of Inl x \<Rightarrow> f x | Inr x \<Rightarrow> g x)"
  by (cases z) simp_all

lemma within_case_prod [within_intros]:
  "(\<And>x y. within P (f x y)) \<Longrightarrow> within P (case z of (x, y) \<Rightarrow> f x y)"
  by (cases z) simp_all

lemma within_seq_io [within_intros]: "(\<And>x. within P (f x)) \<Longrightarrow> within P (seq_io f xs)"
  by (induction xs) (auto intro: within_bind)

lemma within_mono: "within P m \<Longrightarrow> (\<And>c. P c \<Longrightarrow> Q c) \<Longrightarrow> within Q m"
  by (auto simp: within_def list_all_iff) metis

lemma within_added: "within P m \<Longrightarrow> c \<in> set (added m tr) \<Longrightarrow> P c"
  by (auto simp: within_def added_def list_all_iff) (metis append_eq_conv_conj)

lemma snd_added: "within P m \<Longrightarrow> snd (m tr) = tr @ added m tr"
  by (auto simp: within_def added_def) (metis append_eq_conv_conj)

lemma list_all_added: "within P m \<Longrightarrow> list_all P (added m tr)"
  by (auto simp: within_def added_def) (metis append_eq_conv_conj)

lemma extends_snd: "within P m \<Longrightarrow> length tr \<le> length (snd (m tr))"
  by (simp add: snd_added)

text \<open>The calls of a sequence are those of its first part, then, if that succeeds, those of the second.\<close>

lemma added_bind:
  assumes "within P m" and "\<And>x. within Q (f x)"
  shows "added (bind_io m f) tr = added m tr @
    (case fst (m tr) of Ok x \<Rightarrow> added (f x) (snd (m tr)) | _ \<Rightarrow> [])"
proof (cases "m tr")
  case (Pair r tr1)
  have m: "tr1 = tr @ added m tr" using snd_added [OF assms(1), of tr] Pair by simp
  show ?thesis
  proof (cases r)
    case (Ok x)
    have "snd (bind_io m f tr) = tr1 @ added (f x) tr1"
      using Pair Ok snd_added [OF assms(2), of x tr1] by (simp add: bind_io_def)
    then have "snd (bind_io m f tr) = tr @ (added m tr @ added (f x) tr1)"
      using m by (metis append.assoc)
    then have "added (bind_io m f) tr = added m tr @ added (f x) tr1"
      by (simp add: added_def [of "bind_io m f"])
    with Pair Ok show ?thesis by simp
  qed (use Pair in \<open>simp_all add: bind_io_def added_def\<close>)
qed

lemma added_bind_second:
  assumes "m tr = (Ok x, tr1)" and "within P m" and "\<And>x. within Q (f x)"
  shows "set (added (f x) tr1) \<subseteq> set (added (bind_io m f) tr)"
  using assms(1) added_bind [where f = f and tr = tr, OF assms(2,3)] by auto

lemma added_bind_first:
  assumes "within P m" and "\<And>x. within Q (f x)"
  shows "set (added m tr) \<subseteq> set (added (bind_io m f) tr)"
  using added_bind [where f = f and tr = tr, OF assms] by auto

text \<open>A computation that has the run of another one after some more calls.\<close>

lemma added_shift:
  assumes "m h = m' (h @ xs)" and "within P m'"
  shows "added m h = xs @ added m' (h @ xs)"
  using assms(1) snd_added [OF assms(2), of "h @ xs"] by (simp add: added_def [of m])

text \<open>
  Ordering: if the first part of a sequence makes no call of the class \<open>D\<close>, a call of that class
  comes after all calls of the first part, which succeeded.
\<close>

lemma class_after_first_part:
  assumes "added (bind_io m f) tr = before @ c # after" and "D c"
    and "within (\<lambda>c. \<not> D c) m" and "\<And>x. within Q (f x)"
  obtains x ys where "fst (m tr) = Ok x" "before = added m tr @ ys"
    "added (f x) (snd (m tr)) = ys @ c # after"
proof -
  let ?rest = "case fst (m tr) of Ok x \<Rightarrow> added (f x) (snd (m tr)) | _ \<Rightarrow> []"
  have "before @ c # after = added m tr @ ?rest"
    using assms(1) added_bind [where f = f and tr = tr, OF assms(3,4)] by simp
  moreover have "c \<notin> set (added m tr)" using within_added [OF assms(3)] assms(2) by blast
  ultimately obtain ys where "before = added m tr @ ys" "?rest = ys @ c # after"
    using append_Cons_after by metis
  then show thesis by (cases "fst (m tr)") (auto intro: that)
qed

text \<open>\<open>answered m x h\<close>: in the history \<open>h\<close>, computation \<open>m\<close> was run and gave \<open>x\<close>.\<close>

definition answered :: "('c, 'a) io \<Rightarrow> 'a \<Rightarrow> 'c list \<Rightarrow> bool" where
  "answered m x h \<longleftrightarrow> (\<exists>h1 h2 rest. m h1 = (Ok x, h2) \<and> h = h2 @ rest)"

lemma answered_grows: "answered m x h \<Longrightarrow> answered m x (h @ new)"
  unfolding answered_def by (metis append.assoc)

lemma answered_now: "m h1 = (Ok x, h) \<Longrightarrow> answered m x h"
  unfolding answered_def by (metis append_Nil2)

lemma answered_flat_err [simp]: "answered (flat_err p m) x h \<longleftrightarrow> answered m x h"
  by (simp add: answered_def)

text \<open>
  An elimination rule that follows a run through its parts up to a call of the class \<open>D\<close>; \<open>B\<close> is the
  whole history before the call.
\<close>

lemma class_in_second_part:
  assumes "added (bind_io m f) h = before @ c # after" and "B = h @ before" and "D c"
    and "within (\<lambda>c. \<not> D c) m" and "\<And>x. within (\<lambda>_. True) (f x)"
  obtains x h' ys where "answered m x B" "added (f x) h' = ys @ c # after" "B = h' @ ys"
proof -
  from assms(1,3-) obtain x ys where x: "fst (m h) = Ok x" "before = added m h @ ys"
    "added (f x) (snd (m h)) = ys @ c # after"
    by (rule class_after_first_part)
  moreover have "snd (m h) = h @ added m h" using assms(4) by (rule snd_added)
  ultimately have run: "m h = (Ok x, h @ added m h)" "B = (h @ added m h) @ ys" "added (f x) (h @ added m h) = ys @ c # after"
    using assms(2) by (cases "m h", auto)+
  then have "answered m x B" unfolding answered_def by blast
  from that [OF this run(3,2)] show thesis .
qed

lemma added_attempt [simp]: "added (attempt m) tr = added m tr"
  by (simp add: added_def)

lemma added_wrap_err [simp]: "added (wrap_err p m) tr = added m tr"
  by (simp add: added_def)

lemma added_fail [simp]: "added (fail x) tr = []"
  by (simp add: added_def)

lemma added_ret [simp]: "added (ret x) tr = []"
  by (simp add: added_def)

lemma fst_attempt:
  "fst (attempt m tr) = (case fst (m tr) of Ok x \<Rightarrow> Ok (Inr x) | Fail e \<Rightarrow> Ok (Inl e) | Panic p \<Rightarrow> Panic p)"
  by (simp add: attempt_def split: prod.split outcome.split)

lemma within_read: "(\<And>tr. within P (f tr)) \<Longrightarrow> within P (\<lambda>tr. f tr tr)"
  by (simp add: within_def)

section \<open>Monitors\<close>

text \<open>
  A monitor is an automaton that reads the calls. \<open>monitored d s m Q\<close>: started in state \<open>s\<close>, the
  monitor is in a state that satisfies \<open>Q\<close> together with the outcome of \<open>m\<close> when \<open>m\<close> ends, however it
  ends. The rules compute weakest preconditions.
\<close>

definition monitored :: "('c \<Rightarrow> 's \<Rightarrow> 's) \<Rightarrow> 's \<Rightarrow> ('c, 'a) io \<Rightarrow> ('a outcome \<Rightarrow> 's \<Rightarrow> bool) \<Rightarrow> bool" where
  "monitored d s m Q \<longleftrightarrow> (\<forall>tr. \<exists>new. snd (m tr) = tr @ new \<and> Q (fst (m tr)) (fold d new s))"

named_theorems monitor_rules \<open>weakest preconditions of monitored computations\<close>

lemma monitored_added: "monitored d s m Q \<Longrightarrow> Q (fst (m tr)) (fold d (added m tr) s)"
  by (auto simp: monitored_def added_def) (metis append_eq_conv_conj)

lemma monitored_conseq:
  "monitored d s m Q \<Longrightarrow> (\<And>r s. Q r s \<Longrightarrow> Q' r s) \<Longrightarrow> monitored d s m Q'"
  unfolding monitored_def by meson

lemma monitored_ret [monitor_rules]: "Q (Ok x) s \<Longrightarrow> monitored d s (ret x) Q"
  by (simp add: monitored_def)

lemma monitored_fail [monitor_rules]: "Q (Fail x) s \<Longrightarrow> monitored d s (fail x) Q"
  by (simp add: monitored_def)

lemma monitored_call [monitor_rules]:
  "(\<And>x. Q (Ok x) (d c s)) \<Longrightarrow> (\<And>e. Q (Fail e) (d c s)) \<Longrightarrow> monitored d s (call c a) Q"
  by (simp add: monitored_def call_def split: sum.split)

lemma monitored_bind [monitor_rules]:
  assumes "monitored d s m (\<lambda>r s. case r of Ok x \<Rightarrow> monitored d s (f x) Q | Fail e \<Rightarrow> Q (Fail e) s | Panic p \<Rightarrow> Q (Panic p) s)"
  shows "monitored d s (bind_io m f) Q"
  unfolding monitored_def
proof
  fix tr
  from assms obtain new where new: "snd (m tr) = tr @ new"
    "case fst (m tr) of Ok x \<Rightarrow> monitored d (fold d new s) (f x) Q
       | Fail e \<Rightarrow> Q (Fail e) (fold d new s) | Panic p \<Rightarrow> Q (Panic p) (fold d new s)"
    unfolding monitored_def by meson
  show "\<exists>new. snd (bind_io m f tr) = tr @ new \<and> Q (fst (bind_io m f tr)) (fold d new s)"
  proof (cases "fst (m tr)")
    case (Ok x)
    with new(2) have "monitored d (fold d new s) (f x) Q" by simp
    then obtain new2 where "snd (f x (tr @ new)) = (tr @ new) @ new2"
      "Q (fst (f x (tr @ new))) (fold d new2 (fold d new s))"
      unfolding monitored_def by meson
    with Ok new(1) show ?thesis
      by (intro exI [of _ "new @ new2"]) (simp add: bind_io_def split_beta)
  qed (use new in \<open>auto simp: bind_io_def split_beta\<close>)
qed

lemma monitored_attempt [monitor_rules]:
  "monitored d s m (\<lambda>r. case r of Ok x \<Rightarrow> Q (Ok (Inr x)) | Fail e \<Rightarrow> Q (Ok (Inl e)) | Panic p \<Rightarrow> Q (Panic p))
     \<Longrightarrow> monitored d s (attempt m) Q"
  by (auto simp: monitored_def fst_attempt split: outcome.splits)

lemma fst_flat_err:
  "fst (flat_err p m tr) = (case fst (m tr) of Ok x \<Rightarrow> Ok x | Fail e \<Rightarrow> Fail (NewError (p @ error_text e)) | Panic q \<Rightarrow> Panic q)"
  by (simp add: flat_err_def split: prod.split outcome.split)

lemma monitored_flat_err [monitor_rules]:
  "monitored d s m (\<lambda>r. case r of Ok x \<Rightarrow> Q (Ok x) | Fail e \<Rightarrow> Q (Fail (NewError (p @ error_text e))) | Panic p \<Rightarrow> Q (Panic p))
     \<Longrightarrow> monitored d s (flat_err p m) Q"
  by (auto simp: monitored_def fst_flat_err split: outcome.splits)

text \<open>A computation whose calls the monitor ignores.\<close>

lemma monitored_within:
  assumes "within (\<lambda>c. d c s = s) m" and "\<And>r. Q r s"
  shows "monitored d s m Q"
  unfolding monitored_def
proof
  fix tr
  from assms(1) obtain new where new: "snd (m tr) = tr @ new" "list_all (\<lambda>c. d c s = s) new"
    by (auto simp: within_def)
  from new(2) have "fold d new s = s" by (induction new) auto
  with new(1) assms(2) show "\<exists>new. snd (m tr) = tr @ new \<and> Q (fst (m tr)) (fold d new s)" by auto
qed

section \<open>Computations that return no error\<close>

definition no_fail :: "('c, 'a) io \<Rightarrow> bool" where
  "no_fail m \<longleftrightarrow> (\<forall>tr err. fst (m tr) \<noteq> Fail err)"

named_theorems no_fail_intros \<open>how computations that return no error compose\<close>

lemma no_fail_ret [no_fail_intros]: "no_fail (ret x)"
  by (simp add: no_fail_def)

lemma no_fail_attempt [no_fail_intros]: "no_fail (attempt m)"
  by (simp add: no_fail_def fst_attempt split: outcome.split)

lemma no_fail_call [no_fail_intros]: "no_fail (call c (\<lambda>tr. Inr (a tr)))"
  by (simp add: no_fail_def call_def)

lemma no_fail_bind [no_fail_intros]:
  "no_fail m \<Longrightarrow> (\<And>x. no_fail (f x)) \<Longrightarrow> no_fail (bind_io m f)"
  by (auto simp: no_fail_def bind_io_def split_beta split: outcome.split)

lemma no_fail_if [no_fail_intros]:
  "(b \<Longrightarrow> no_fail m) \<Longrightarrow> (\<not> b \<Longrightarrow> no_fail n) \<Longrightarrow> no_fail (if b then m else n)"
  by simp

lemma no_fail_Let [no_fail_intros]: "no_fail (f x) \<Longrightarrow> no_fail (Let x f)"
  by simp

lemma no_fail_case_option [no_fail_intros]:
  "no_fail m \<Longrightarrow> (\<And>x. no_fail (f x)) \<Longrightarrow> no_fail (case z of None \<Rightarrow> m | Some x \<Rightarrow> f x)"
  by (cases z) simp_all

lemma no_fail_case_sum [no_fail_intros]:
  "(\<And>x. no_fail (f x)) \<Longrightarrow> (\<And>x. no_fail (g x)) \<Longrightarrow> no_fail (case z of Inl x \<Rightarrow> f x | Inr x \<Rightarrow> g x)"
  by (cases z) simp_all

lemma no_fail_case_prod [no_fail_intros]:
  "(\<And>x y. no_fail (f x y)) \<Longrightarrow> no_fail (case z of (x, y) \<Rightarrow> f x y)"
  by (cases z) simp_all

end
