(* ===== verification/Environment.thy ===== *)
theory Environment
  imports Api_Types Io_Calls
begin

text \<open>
  Everything the storage node controller calls that is not code of the repository: the
  Kubernetes API server behind the controller-runtime client, the event recorder, the
  database-mesh SDK for AWS RDS, the CloudNativePG API, \<^verbatim>\<open>database/sql\<close>, the clock, the random
  source and the order in which \<^verbatim>\<open>range\<close> visits a map. A value of type \<open>env\<close> is one such
  environment: every answer is a function of the whole history of calls, so an environment may
  fail at any moment and change its mind. The definitions of the controller take the
  environment as an argument; the properties hold for every environment unless a hypothesis
  about its answers is written out.

  The specification of a CloudNativePG cluster is a value of a type outside the repository; the
  controller only builds it and compares two of them, so it is an opaque code here.
\<close>

section \<open>Results of a reconciliation\<close>

text \<open>\<^verbatim>\<open>ctrl.Result\<close>; durations are in seconds.\<close>

record ctrl_Result =
  Requeue :: bool
  RequeueAfter :: int

definition defaultRequeueTime :: int where
  "defaultRequeueTime = 10"

definition res_empty :: ctrl_Result where
  "res_empty = \<lparr>Requeue = False, RequeueAfter = 0\<rparr>"

definition res_requeue :: ctrl_Result where
  "res_requeue = \<lparr>Requeue = True, RequeueAfter = 0\<rparr>"

definition res_after :: ctrl_Result where
  "res_after = \<lparr>Requeue = False, RequeueAfter = defaultRequeueTime\<rparr>"

type_synonym reconcile_result = "ctrl_Result \<times> gerror option"

section \<open>Objects that may be missing or already there\<close>

definition error_of :: "gerror + 'a \<Rightarrow> gerror option" where
  "error_of r = (case r of Inl err \<Rightarrow> Some err | Inr x \<Rightarrow> None)"

text \<open>\<^verbatim>\<open>GetByNamespacedName\<close>: an object that is not found is nil without an error.\<close>

definition nil_if_missing :: "('c, 'a) io \<Rightarrow> ('c, 'a option) io" where
  "nil_if_missing m = bind_io (attempt m) (\<lambda>r. case r of
     Inl err \<Rightarrow> if IsNotFound err then ret None else fail err
   | Inr x \<Rightarrow> ret (Some x))"

text \<open>\<^verbatim>\<open>if err != nil && IsAlreadyExists(err) || err == nil { return nil }; return err\<close>\<close>

definition allow_existing :: "('c, unit) io \<Rightarrow> ('c, unit) io" where
  "allow_existing m = bind_io (attempt m) (\<lambda>r. case r of
     Inl err \<Rightarrow> if IsAlreadyExists err then ret () else fail err
   | Inr x \<Rightarrow> ret ())"

section \<open>Values exchanged with the SDKs\<close>

record DescInstance =
  di_DBInstanceStatus :: string
  di_Endpoint :: Endpoint

record DescCluster =
  dc_Status :: string
  dc_PrimaryEndpoint :: string
  dc_ReaderEndpoint :: string
  dc_Port :: i32

record InstanceRequest =
  ir_Engine :: string
  ir_EngineVersion :: string
  ir_DBInstanceClass :: string
  ir_DBInstanceIdentifier :: string
  ir_MasterUsername :: string
  ir_MasterUserPassword :: string
  ir_AllocatedStorage :: i32
  ir_DBName :: "string option"

record ClusterRequest =
  cr_Engine :: string
  cr_EngineVersion :: string
  cr_DBClusterIdentifier :: string
  cr_MasterUsername :: string
  cr_MasterUserPassword :: string
  cr_AllocatedStorage :: i32
  cr_DBClusterInstanceClass :: string
  cr_IOPS :: i32
  cr_StorageType :: string
  cr_DatabaseName :: "string option"
  cr_PublicAccessible :: bool
  cr_VpcSecurityGroupIds :: "string list option"

record AuroraRequest =
  ar_DBInstanceClass :: string
  ar_Engine :: string
  ar_EngineVersion :: string
  ar_DBClusterIdentifier :: string
  ar_MasterUsername :: string
  ar_MasterUserPassword :: string
  ar_InstanceNumber :: i32
  ar_DBName :: "string option"
  ar_PublicAccessible :: bool
  ar_VpcSecurityGroupIds :: "string list option"

text \<open>Which deletion options the client set before it called \<^verbatim>\<open>Delete\<close>; \<open>None\<close> is not set.\<close>

record DeleteRequest =
  dr_Identifier :: string
  dr_DeleteAutomateBackups :: "bool option"
  dr_SkipFinalSnapshot :: "bool option"
  dr_FinalSnapshotIdentifier :: "string option"

record CnpgCluster =
  cnpg_meta :: ObjectMeta
  cnpg_Spec :: nat
  cnpg_Phase :: string
  cnpg_WriteService :: string
  cnpg_ReadService :: string
  cnpg_InstancesStatus :: "(string \<times> string list) list"

text \<open>The rows of a query: what each \<^verbatim>\<open>rows.Scan\<close> gives, and what \<^verbatim>\<open>rows.Err\<close> says at the end.\<close>

type_synonym sql_rows = "(gerror + string \<times> string) list \<times> gerror option"

datatype event_type = EventNormal | EventWarning

section \<open>The calls\<close>

datatype call =
    KubeGetStorageNode NamespacedName
  | KubeGetStorageProvider string
  | KubeUpdateStorageNode StorageNode
  | KubeUpdateStorageNodeStatus StorageNode
  | KubeGetComputeNode NamespacedName
  | KubeGetService NamespacedName
  | RecordEvent StorageNode event_type string string
  | AwsBuildSession string
  | RdsDescribeInstance string
  | RdsDescribeInstances "(string \<times> string list) list"
  | RdsCreateInstance InstanceRequest
  | RdsDeleteInstance DeleteRequest
  | RdsDescribeCluster string
  | RdsCreateCluster ClusterRequest
  | RdsDeleteCluster DeleteRequest
  | AuroraDescribe string
  | AuroraCreate AuroraRequest
  | AuroraDelete DeleteRequest
  | RandInt nat
  | RandStringN nat
  | RandStringCustom nat string
  | SqlOpen string string
  | SqlPing
  | SqlExec string
  | SqlQuery string
  | SqlCloseRows
  | SqlClose
  | CnpgGet NamespacedName
  | CnpgCreate CnpgCluster
  | CnpgUpdate CnpgCluster
  | CnpgDelete CnpgCluster

type_synonym 'a sio = "(call, 'a) io"

record env =
  DBInstanceStatusAvailable :: string
  DBInstanceStatusDeleting :: string
  DBClusterStatusAvailable :: string
  DBClusterStatusDeleting :: string
  CnpgPhaseHealthy :: string
  CnpgPodHealthy :: string
  kube_get_storage_node :: "call list \<Rightarrow> NamespacedName \<Rightarrow> gerror + StorageNode"
  kube_get_storage_provider :: "call list \<Rightarrow> string \<Rightarrow> gerror + StorageProvider"
  kube_update_storage_node :: "call list \<Rightarrow> StorageNode \<Rightarrow> gerror + StorageNode"
  kube_update_storage_node_status :: "call list \<Rightarrow> StorageNode \<Rightarrow> gerror + StorageNode"
  kube_get_compute_node :: "call list \<Rightarrow> NamespacedName \<Rightarrow> gerror + ProxyNode"
  kube_get_service :: "call list \<Rightarrow> NamespacedName \<Rightarrow> gerror + ProxyService"
  rds_describe_instance :: "call list \<Rightarrow> string \<Rightarrow> gerror + DescInstance option"
  rds_describe_instances :: "call list \<Rightarrow> (string \<times> string list) list \<Rightarrow> gerror + DescInstance list"
  rds_create_instance :: "call list \<Rightarrow> InstanceRequest \<Rightarrow> gerror + unit"
  rds_delete_instance :: "call list \<Rightarrow> DeleteRequest \<Rightarrow> gerror + unit"
  rds_describe_cluster :: "call list \<Rightarrow> string \<Rightarrow> gerror + DescCluster option"
  rds_create_cluster :: "call list \<Rightarrow> ClusterRequest \<Rightarrow> gerror + unit"
  rds_delete_cluster :: "call list \<Rightarrow> DeleteRequest \<Rightarrow> gerror + unit"
  aurora_describe :: "call list \<Rightarrow> string \<Rightarrow> gerror + DescCluster option"
  aurora_create :: "call list \<Rightarrow> AuroraRequest \<Rightarrow> gerror + unit"
  aurora_delete :: "call list \<Rightarrow> DeleteRequest \<Rightarrow> gerror + unit"
  rand_int :: "call list \<Rightarrow> nat \<Rightarrow> gerror + nat"
  rand_stringN :: "call list \<Rightarrow> nat \<Rightarrow> string"
  rand_string_custom :: "call list \<Rightarrow> nat \<Rightarrow> string \<Rightarrow> string"
  range_order :: "call list \<Rightarrow> string list \<Rightarrow> string list"
  sql_open :: "call list \<Rightarrow> string \<Rightarrow> string \<Rightarrow> gerror + unit"
  sql_ping :: "call list \<Rightarrow> gerror + unit"
  sql_exec :: "call list \<Rightarrow> string \<Rightarrow> gerror + unit"
  sql_query :: "call list \<Rightarrow> string \<Rightarrow> gerror + sql_rows"
  cnpg_get :: "call list \<Rightarrow> NamespacedName \<Rightarrow> gerror + CnpgCluster"
  cnpg_create :: "call list \<Rightarrow> CnpgCluster \<Rightarrow> gerror + unit"
  cnpg_update :: "call list \<Rightarrow> CnpgCluster \<Rightarrow> gerror + unit"
  cnpg_delete :: "call list \<Rightarrow> CnpgCluster \<Rightarrow> gerror + unit"
  cnpg_build :: "StorageNode \<Rightarrow> StorageProvider \<Rightarrow> CnpgCluster"
  clock_now :: "call list \<Rightarrow> nat \<Rightarrow> gotime"

section \<open>Facts\<close>

lemma within_nil_if_missing [within_intros]: "within P m \<Longrightarrow> within P (nil_if_missing m)"
  unfolding nil_if_missing_def by (intro within_intros)

lemma within_allow_existing [within_intros]: "within P m \<Longrightarrow> within P (allow_existing m)"
  unfolding allow_existing_def by (intro within_intros)

end
