(* ===== verification/Storage_Node_Status.thy ===== *)
theory Storage_Node_Status
  imports Environment
begin

text \<open>
  The status of a storage node as \<^verbatim>\<open>pkg/controllers/storage_node_controller.go\<close> computes it:
  \<^verbatim>\<open>computeDesiredState\<close>, \<^verbatim>\<open>computeNewConditions\<close>, \<^verbatim>\<open>allInstancesReady\<close> and the functions that
  copy what the cloud reports into the status. The Go code shares the backing array of the
  condition slice between the old and the new status; the old one is not read afterwards, so
  conditions are plain lists here. \<open>clk k\<close> is what the \<open>k\<close>-th call of \<^verbatim>\<open>metav1.Now\<close> returns.
\<close>

section \<open>Phase and conditions\<close>

fun allInstancesReady_loop :: "env \<Rightarrow> InstanceStatus list \<Rightarrow> bool" where
  "allInstancesReady_loop e [] = True"
| "allInstancesReady_loop e (i # is) =
     (if \<not> (ins_Status i = DBInstanceStatusAvailable e) then False else allInstancesReady_loop e is)"

definition allInstancesReady :: "env \<Rightarrow> InstanceStatus list \<Rightarrow> bool" where
  "allInstancesReady e instances = (if length instances = 0 then False else allInstancesReady_loop e instances)"

definition mk_condition ::
  "StorageNodeConditionType \<Rightarrow> ConditionStatus \<Rightarrow> gotime \<Rightarrow> string \<Rightarrow> StorageNodeCondition" where
  "mk_condition t s now reason = \<lparr>cond_Type = t, cond_Status = s, cond_LastUpdateTime = Some now,
     cond_Reason = reason, cond_Message = []\<rparr>"

definition computeNewConditions ::
  "env \<Rightarrow> (nat \<Rightarrow> gotime) \<Rightarrow> StorageNodeStatus \<Rightarrow> StorageNodeStatus \<Rightarrow> string \<Rightarrow> StorageNodeConditions" where
  "computeNewConditions e clk desiredState status clusterStatus =
     (let cs0 = sns_Conditions status;
          cs1 = (if clusterStatus \<noteq> [] then
                   if clusterStatus = DBClusterStatusAvailable e
                   then UpsertCondition (mk_condition TypeClusterReady ConditionTrue (clk 0) ''Cluster is ready'') cs0
                   else UpsertCondition (mk_condition TypeClusterReady ConditionFalse (clk 0) ''Cluster is not ready'') cs0
                 else RemoveCondition TypeClusterReady cs0);
          cs2 = (if sns_Phase desiredState = PhaseReady
                 then UpsertCondition (mk_condition TypeAvailable ConditionTrue (clk 1) ''All instances are ready'') cs1
                 else UpsertCondition (mk_condition TypeAvailable ConditionFalse (clk 1)
                        ''One or more instances are not ready'') cs1)
      in if sns_Registered status
         then UpsertCondition (mk_condition TypeRegistered ConditionTrue (clk 2) ''StorageNode is registered'') cs2
         else UpsertCondition (mk_condition TypeRegistered ConditionFalse (clk 2) ''StorageNode is not registered'') cs2)"

definition desiredPhase :: "env \<Rightarrow> StorageNodeStatus \<Rightarrow> StorageNodePhaseStatus" where
  "desiredPhase e status =
     (let clusterStatus = cls_Status (sns_Cluster status)
      in if sns_Phase status = PhaseDeleting then
           if clusterStatus = [] \<and> length (sns_Instances status) = 0 then PhaseDeleteComplete
           else sns_Phase status
         else if (clusterStatus = [] \<or> clusterStatus = DBClusterStatusAvailable e) \<and>
                 allInstancesReady e (sns_Instances status)
         then PhaseReady else PhaseNotReady)"

definition computeDesiredState :: "env \<Rightarrow> (nat \<Rightarrow> gotime) \<Rightarrow> StorageNodeStatus \<Rightarrow> StorageNodeStatus" where
  "computeDesiredState e clk status =
     (let desiredState = status\<lparr>sns_Phase := desiredPhase e status\<rparr>
      in desiredState\<lparr>sns_Conditions :=
           computeNewConditions e clk desiredState status (cls_Status (sns_Cluster status))\<rparr>)"

section \<open>Copying what the cloud reports\<close>

definition instance_status :: "DescInstance \<Rightarrow> InstanceStatus" where
  "instance_status i = \<lparr>ins_Status = di_DBInstanceStatus i, ins_Endpoint = di_Endpoint i, ins_Properties = None\<rparr>"

definition with_status :: "StorageNode \<Rightarrow> (StorageNodeStatus \<Rightarrow> StorageNodeStatus) \<Rightarrow> StorageNode" where
  "with_status node f = node\<lparr>sn_Status := f (sn_Status node)\<rparr>"

definition updateAWSRDSInstanceStatus :: "StorageNode \<Rightarrow> DescInstance option \<Rightarrow> StorageNode" where
  "updateAWSRDSInstanceStatus node inst =
     (case inst of
        None \<Rightarrow> with_status node (\<lambda>s. s\<lparr>sns_Instances := []\<rparr>)
      | Some i \<Rightarrow> with_status node (\<lambda>s. s\<lparr>sns_Instances := [instance_status i]\<rparr>))"

definition cluster_status_of :: "DescCluster option \<Rightarrow> ClusterStatus" where
  "cluster_status_of cluster =
     (case cluster of
        None \<Rightarrow> zero_ClusterStatus
      | Some c \<Rightarrow> \<lparr>cls_Status = dc_Status c,
          cls_PrimaryEndpoint = \<lparr>ep_Address = dc_PrimaryEndpoint c, ep_Port = dc_Port c\<rparr>,
          cls_ReaderEndpoints = [\<lparr>ep_Address = dc_ReaderEndpoint c, ep_Port = dc_Port c\<rparr>],
          cls_Properties = None\<rparr>)"

fun cnpg_pod_instances :: "string \<Rightarrow> string list \<Rightarrow> InstanceStatus list" where
  "cnpg_pod_instances stat [] = []"
| "cnpg_pod_instances stat (pg # pgs) =
     \<lparr>ins_Status = stat, ins_Endpoint = \<lparr>ep_Address = pg, ep_Port = 5432\<rparr>, ins_Properties = None\<rparr>
       # cnpg_pod_instances stat pgs"

fun cnpg_instances :: "env \<Rightarrow> (string \<times> string list) list \<Rightarrow> InstanceStatus list" where
  "cnpg_instances e [] = []"
| "cnpg_instances e ((s, pgins) # rest) =
     cnpg_pod_instances (if s = CnpgPodHealthy e then ''available'' else s) pgins @ cnpg_instances e rest"

definition updateCloudNativePGCluster :: "env \<Rightarrow> StorageNode \<Rightarrow> CnpgCluster option \<Rightarrow> StorageNode" where
  "updateCloudNativePGCluster e node cluster =
     (case cluster of
        None \<Rightarrow> node
      | Some c \<Rightarrow>
          let healthy = (cnpg_Phase c = CnpgPhaseHealthy e)
          in with_status node (\<lambda>s. s\<lparr>
               sns_Phase := (if healthy then PhaseReady else PhaseNotReady),
               sns_Cluster := \<lparr>cls_Status = (if healthy then ''available'' else []),
                 cls_PrimaryEndpoint = \<lparr>ep_Address = cnpg_WriteService c, ep_Port = 5432\<rparr>,
                 cls_ReaderEndpoints = [\<lparr>ep_Address = cnpg_ReadService c, ep_Port = 5432\<rparr>],
                 cls_Properties = None\<rparr>,
               sns_Instances := cnpg_instances e (cnpg_InstancesStatus c)\<rparr>))"

section \<open>Data source of a registered storage unit\<close>

text \<open>
  \<^verbatim>\<open>getDSName\<close> and the two ways to find host, port and credentials. Reading the first instance
  of an empty list is an index-out-of-range panic.
\<close>

definition getDSName :: "StorageNode \<Rightarrow> string" where
  "getDSName node = ''ds_'' @ replace_char (CHR ''-'') (CHR ''_'') (sn_Name node)"

definition datasource_user :: "StorageNode \<Rightarrow> StorageProvider \<Rightarrow> string" where
  "datasource_user node sp =
     (let u = mget (sn_Annotations node) AnnotationsMasterUsername
      in if u = [] then mget (sp_Parameters sp) ''masterUsername'' else u)"

definition datasource_password :: "StorageNode \<Rightarrow> StorageProvider \<Rightarrow> string" where
  "datasource_password node sp =
     (let p = mget (sn_Annotations node) AnnotationsMasterUserPassword
      in if p = [] then mget (sp_Parameters sp) ''masterUserPassword'' else p)"

definition getDatasourceInfoFromInstance ::
  "StorageNode \<Rightarrow> StorageProvider \<Rightarrow> (string \<times> i32 \<times> string \<times> string) outcome" where
  "getDatasourceInfoFromInstance node sp =
     (case sns_Instances (sn_Status node) of
        [] \<Rightarrow> Panic ''index out of range''
      | ins # _ \<Rightarrow> Ok (ep_Address (ins_Endpoint ins), ep_Port (ins_Endpoint ins),
                       datasource_user node sp, datasource_password node sp))"

definition getDatasourceInfoFromCluster ::
  "StorageNode \<Rightarrow> StorageProvider \<Rightarrow> (string \<times> i32 \<times> string \<times> string) outcome" where
  "getDatasourceInfoFromCluster node sp =
     (let cluster = sns_Cluster (sn_Status node)
      in Ok (ep_Address (cls_PrimaryEndpoint cluster), ep_Port (cls_PrimaryEndpoint cluster),
             datasource_user node sp, datasource_password node sp))"

end
