(* ===== verification/Rds_Client.thy ===== *)
theory Rds_Client
  imports Environment
begin

text \<open>
  The RDS client, \<^verbatim>\<open>pkg/reconcile/storagenode/aws\<close>: validation of the parameters of a storage
  provider, creation, description and deletion of RDS instances (\<^verbatim>\<open>rdsinstance.go\<close>), RDS
  clusters (\<^verbatim>\<open>rdscluster.go\<close>) and Aurora clusters (\<^verbatim>\<open>aurora.go\<close>). The parameter map is the
  provider's own map, so the validation returns the changed map. \<^verbatim>\<open>range\<close> visits the required
  parameters in the order \<open>range_order\<close> gives, which decides which error is reported first.
\<close>

section \<open>Required parameters\<close>

text \<open>The map literal \<^verbatim>\<open>requiredParams\<close>, as key and complaint.\<close>

type_synonym required = "(string \<times> string) list"

definition ordered_required :: "env \<Rightarrow> call list \<Rightarrow> required \<Rightarrow> required" where
  "ordered_required e tr req =
     map (\<lambda>k. (k, case map_of req k of Some v \<Rightarrow> v | None \<Rightarrow> [])) (range_order e tr (map fst req))"

fun check_required :: "required \<Rightarrow> gomap \<Rightarrow> gerror option" where
  "check_required [] params = None"
| "check_required ((k, v) # ks) params =
     (if mmissing params k then Some (NewError v) else check_required ks params)"

section \<open>Aurora clusters\<close>

definition aurora_required :: required where
  "aurora_required =
    [(''instanceClass'', ''instance class is empty''),
     (''engine'', ''engine is empty''),
     (''engineVersion'', ''engine version is empty''),
     (''clusterIdentifier'', ''cluster identifier is empty''),
     (''masterUsername'', ''master username is empty''),
     (''masterUserPassword'', ''master user password is empty'')]"

definition validateCreateAuroraParams :: "env \<Rightarrow> StorageNode \<Rightarrow> gomap \<Rightarrow> gomap sio" where
  "validateCreateAuroraParams e node params = (\<lambda>tr.
     (if mmissing (sn_Annotations node) AnnotationsClusterIdentifier
      then fail (NewError ''cluster identifier is empty'')
      else bind_io (lift_outcome (mput params ''clusterIdentifier''
                      (mget (sn_Annotations node) AnnotationsClusterIdentifier))) (\<lambda>params.
        if length (mget params ''clusterIdentifier'') > 50
        then fail (NewError ''cluster identifier is too long, max length is 50'')
        else case check_required (ordered_required e tr aurora_required) params of
               Some err \<Rightarrow> fail err | None \<Rightarrow> ret params)) tr)"

definition public_accessible :: "gomap \<Rightarrow> bool" where
  "public_accessible params = (mlookup params ''publicAccessible'' \<noteq> Some ''false'')"

definition security_groups :: "gomap \<Rightarrow> string list option" where
  "security_groups params =
     (if mget params ''vpcSecurityGroupIds'' \<noteq> []
      then Some (split_on (CHR '','') (mget params ''vpcSecurityGroupIds'')) else None)"

definition CreateAuroraCluster :: "env \<Rightarrow> StorageNode \<Rightarrow> gomap \<Rightarrow> gomap sio" where
  "CreateAuroraCluster e node params =
     bind_io (validateCreateAuroraParams e node params) (\<lambda>params.
       let req = \<lparr>ar_DBInstanceClass = mget params ''instanceClass'',
                  ar_Engine = mget params ''engine'',
                  ar_EngineVersion = mget params ''engineVersion'',
                  ar_DBClusterIdentifier = mget params ''clusterIdentifier'',
                  ar_MasterUsername = mget params ''masterUsername'',
                  ar_MasterUserPassword = mget params ''masterUserPassword'',
                  ar_InstanceNumber = sn_Replicas node,
                  ar_DBName = mlookup (sn_Annotations node) AnnotationsInstanceDBName,
                  ar_PublicAccessible = public_accessible params,
                  ar_VpcSecurityGroupIds = security_groups params\<rparr>
       in bind_io (flat_err ''create aurora cluster failed, ''
                    (call (AuroraCreate req) (\<lambda>tr. aurora_create e tr req))) (\<lambda>_. ret params))"

definition GetAuroraCluster :: "env \<Rightarrow> StorageNode \<Rightarrow> DescCluster option sio" where
  "GetAuroraCluster e node =
     (case mlookup (sn_Annotations node) AnnotationsClusterIdentifier of
        None \<Rightarrow> fail (NewError ''cluster identifier is empty'')
      | Some identifier \<Rightarrow> call (AuroraDescribe identifier) (\<lambda>tr. aurora_describe e tr identifier))"

definition aurora_delete_request :: "string \<Rightarrow> StorageReclaimPolicy \<Rightarrow> DeleteRequest" where
  "aurora_delete_request identifier policy =
     (case policy of
        PolicyDelete \<Rightarrow> \<lparr>dr_Identifier = identifier, dr_DeleteAutomateBackups = Some True,
          dr_SkipFinalSnapshot = Some True, dr_FinalSnapshotIdentifier = None\<rparr>
      | PolicyRetain \<Rightarrow> \<lparr>dr_Identifier = identifier, dr_DeleteAutomateBackups = Some False,
          dr_SkipFinalSnapshot = Some True, dr_FinalSnapshotIdentifier = None\<rparr>
      | PolicyDeleteWithFinalSnapshot \<Rightarrow> \<lparr>dr_Identifier = identifier, dr_DeleteAutomateBackups = Some True,
          dr_SkipFinalSnapshot = Some False, dr_FinalSnapshotIdentifier = None\<rparr>
      | PolicyOther s \<Rightarrow> \<lparr>dr_Identifier = identifier, dr_DeleteAutomateBackups = None,
          dr_SkipFinalSnapshot = None, dr_FinalSnapshotIdentifier = None\<rparr>)"

definition DeleteAuroraCluster :: "env \<Rightarrow> StorageNode \<Rightarrow> StorageProvider \<Rightarrow> unit sio" where
  "DeleteAuroraCluster e node sp =
     (case mlookup (sn_Annotations node) AnnotationsClusterIdentifier of
        None \<Rightarrow> fail (NewError ''cluster identifier is empty'')
      | Some identifier \<Rightarrow>
          let req = aurora_delete_request identifier (sp_ReclaimPolicy sp)
          in call (AuroraDelete req) (\<lambda>tr. aurora_delete e tr req))"

section \<open>RDS clusters\<close>

definition cluster_required :: required where
  "cluster_required = aurora_required @
    [(''allocatedStorage'', ''allocated storage is empty''),
     (''iops'', ''iops is empty''),
     (''storageType'', ''storage type is empty'')]"

definition check_engine :: "gomap \<Rightarrow> gerror option" where
  "check_engine params =
     (if mget params ''engine'' = ''mysql'' \<and> hd (split_on (CHR ''.'') (mget params ''engineVersion'')) \<noteq> ''8''
      then Some (NewError ''mysql engine version is not supported, only support 8.x'')
      else if mget params ''storageType'' \<noteq> ''io1''
      then Some (NewError ''storage type is not supported, only support io1'')
      else None)"

definition validateCreateRDSClusterParams :: "env \<Rightarrow> StorageNode \<Rightarrow> gomap \<Rightarrow> gomap sio" where
  "validateCreateRDSClusterParams e node params = (\<lambda>tr.
     (if mmissing (sn_Annotations node) AnnotationsClusterIdentifier
      then fail (NewError ''cluster identifier is empty'')
      else bind_io (lift_outcome (mput params ''clusterIdentifier''
                      (mget (sn_Annotations node) AnnotationsClusterIdentifier))) (\<lambda>params.
        if length (mget params ''clusterIdentifier'') > 50
        then fail (NewError ''cluster identifier is too long, max length is 50'')
        else case check_required (ordered_required e tr cluster_required) params of
               Some err \<Rightarrow> fail err
             | None \<Rightarrow> (case check_engine params of Some err \<Rightarrow> fail err | None \<Rightarrow> ret params))) tr)"

definition getAllocatedStorage :: "string \<Rightarrow> gerror + int" where
  "getAllocatedStorage s =
     (case parse_int ''strconv.Atoi'' 64 s of
        Inl err \<Rightarrow> Inl (NewError (''allocated storage is not a number, '' @ error_text err))
      | Inr n \<Rightarrow> if n < 100 \<or> n > 65536
                then Inl (NewError ''allocated storage is out of range, min is 100, max is 65536'')
                else Inr n)"

definition getIOPS :: "string \<Rightarrow> gerror + int" where
  "getIOPS s =
     (case parse_int ''strconv.Atoi'' 64 s of
        Inl err \<Rightarrow> Inl (NewError (''iops is not a number, '' @ error_text err))
      | Inr n \<Rightarrow> if n < 1000 \<or> n > 256000
                then Inl (NewError ''iops is out of range, min is 1000, max is 256000'')
                else Inr n)"

definition from_sum :: "gerror + 'a \<Rightarrow> ('c, 'a) io" where
  "from_sum r = (case r of Inl e \<Rightarrow> fail e | Inr x \<Rightarrow> ret x)"

definition cluster_request :: "StorageNode \<Rightarrow> gomap \<Rightarrow> int \<Rightarrow> int \<Rightarrow> ClusterRequest" where
  "cluster_request node params allocatedStorage iops =
     \<lparr>cr_Engine = mget params ''engine'',
      cr_EngineVersion = mget params ''engineVersion'',
      cr_DBClusterIdentifier = mget params ''clusterIdentifier'',
      cr_MasterUsername = mget params ''masterUsername'',
      cr_MasterUserPassword = mget params ''masterUserPassword'',
      cr_AllocatedStorage = word_of_int allocatedStorage,
      cr_DBClusterInstanceClass = mget params ''instanceClass'',
      cr_IOPS = word_of_int iops,
      cr_StorageType = mget params ''storageType'',
      cr_DatabaseName = (if mmissing (sn_Annotations node) AnnotationsInstanceDBName then None
                         else mlookup (sn_Annotations node) AnnotationsInstanceDBName),
      cr_PublicAccessible = public_accessible params,
      cr_VpcSecurityGroupIds = security_groups params\<rparr>"

definition CreateRDSCluster :: "env \<Rightarrow> StorageNode \<Rightarrow> gomap \<Rightarrow> gomap sio" where
  "CreateRDSCluster e node params =
     bind_io (validateCreateRDSClusterParams e node params) (\<lambda>params.
     bind_io (from_sum (getAllocatedStorage (mget params ''allocatedStorage''))) (\<lambda>allocatedStorage.
     bind_io (from_sum (getIOPS (mget params ''iops''))) (\<lambda>iops.
       if iops > allocatedStorage * 50 \<or> iops * 2 < allocatedStorage
       then fail (NewError (''the IOPS to GiB ratio must be between 0.5 and 50, current iops is ''
              @ show_int iops @ '', allocated storage is '' @ show_int allocatedStorage))
       else let req = cluster_request node params allocatedStorage iops
            in bind_io (flat_err ''create rds cluster failed, ''
                 (call (RdsCreateCluster req) (\<lambda>tr. rds_create_cluster e tr req))) (\<lambda>_. ret params))))"

definition GetRDSCluster :: "env \<Rightarrow> StorageNode \<Rightarrow> DescCluster option sio" where
  "GetRDSCluster e node =
     (case mlookup (sn_Annotations node) AnnotationsClusterIdentifier of
        None \<Rightarrow> fail (NewError ''cluster identifier is empty'')
      | Some identifier \<Rightarrow> call (RdsDescribeCluster identifier) (\<lambda>tr. rds_describe_cluster e tr identifier))"

definition rds_cluster_delete_request ::
  "env \<Rightarrow> StorageNode \<Rightarrow> string \<Rightarrow> string \<Rightarrow> StorageReclaimPolicy \<Rightarrow> gerror + DeleteRequest" where
  "rds_cluster_delete_request e node identifier status policy =
     (let req = \<lparr>dr_Identifier = identifier, dr_DeleteAutomateBackups = None,
                 dr_SkipFinalSnapshot = None, dr_FinalSnapshotIdentifier = None\<rparr>
      in case policy of
           PolicyDelete \<Rightarrow> Inr (req\<lparr>dr_SkipFinalSnapshot := Some True\<rparr>)
         | PolicyDeleteWithFinalSnapshot \<Rightarrow>
             if mmissing (sn_Annotations node) AnnotationsFinalSnapshotIdentifier
             then Inl (NewError ''final snapshot identifier is empty'')
             else if status \<noteq> DBClusterStatusAvailable e
             then Inl (NewError ''rds cluster is not available, can not delete with final snapshot'')
             else Inr (req\<lparr>dr_FinalSnapshotIdentifier :=
                          Some (mget (sn_Annotations node) AnnotationsFinalSnapshotIdentifier),
                        dr_SkipFinalSnapshot := Some False\<rparr>)
         | PolicyRetain \<Rightarrow> Inl (NewError ''rds cluster does not support retain policy'')
         | PolicyOther s \<Rightarrow> Inr req)"

definition DeleteRDSCluster :: "env \<Rightarrow> StorageNode \<Rightarrow> StorageProvider \<Rightarrow> unit sio" where
  "DeleteRDSCluster e node sp =
     (case mlookup (sn_Annotations node) AnnotationsClusterIdentifier of
        None \<Rightarrow> fail (NewError ''cluster identifier is empty'')
      | Some identifier \<Rightarrow>
          bind_io (flat_err ''describe rds cluster failed, ''
            (call (RdsDescribeCluster identifier) (\<lambda>tr. rds_describe_cluster e tr identifier)))
            (\<lambda>cluster. case cluster of
                None \<Rightarrow> ret ()
              | Some c \<Rightarrow> if dc_Status c = DBClusterStatusDeleting e then ret ()
                  else bind_io (from_sum (rds_cluster_delete_request e node identifier (dc_Status c)
                                  (sp_ReclaimPolicy sp)))
                       (\<lambda>req. call (RdsDeleteCluster req) (\<lambda>tr. rds_delete_cluster e tr req))))"

section \<open>RDS instances\<close>

definition instance_required :: required where
  "instance_required =
    [(''engine'', ''engine is empty''),
     (''engineVersion'', ''engine version is empty''),
     (''instanceClass'', ''instance class is empty''),
     (''masterUsername'', ''master username is empty''),
     (''masterUserPassword'', ''master user password is empty''),
     (''allocatedStorage'', ''allocated storage is empty'')]"

definition username_char :: "char \<Rightarrow> bool" where
  "username_char c = (let n = (of_char c :: nat) in
     (97 \<le> n \<and> n \<le> 122) \<or> (65 \<le> n \<and> n \<le> 90) \<or> is_digit c \<or> c = CHR ''_'' \<or> c = CHR ''-'')"

text \<open>\<^verbatim>\<open>ReplaceAllString\<close> of two or more \<open>c\<close> by one: every run of \<open>c\<close> becomes a single \<open>c\<close>.\<close>

fun squeeze :: "char \<Rightarrow> string \<Rightarrow> string" where
  "squeeze c [] = []"
| "squeeze c [x] = [x]"
| "squeeze c (x # y # s) =
     (if x = c \<and> y = c then squeeze c (y # s) else x # squeeze c (y # s))"

definition validateusername :: "string \<Rightarrow> gerror + string" where
  "validateusername str =
     (if length str > 16 then Inl (NewError ''username length should be less than 16'')
      else if str = [] \<or> \<not> list_all username_char str
      then Inl (NewError ''username contains invalid characters'')
      else Inr (squeeze (CHR ''-'') (squeeze (CHR ''_'') str)))"

definition password_chars :: string where
  "password_chars = ''ABCDEFGHIJKLMNOPQRSTUVWXYZabcdefghijklmnopqrstuvwxyz0123456789!#$%^&*()_+-={}[]:;?''"

definition generate :: "env \<Rightarrow> string \<Rightarrow> string sio" where
  "generate e gentype =
     (if gentype = ''masterUsername'' then
        bind_io (attempt (call (RandInt 16) (\<lambda>tr. rand_int e tr 16))) (\<lambda>r. case r of
            Inl _ \<Rightarrow> ret []
          | Inr n \<Rightarrow> call (RandStringN (n + 1)) (\<lambda>tr. Inr (rand_stringN e tr (n + 1))))
      else if gentype = ''masterUserPassword'' then
        bind_io (attempt (call (RandInt 34) (\<lambda>tr. rand_int e tr 34))) (\<lambda>r. case r of
            Inl _ \<Rightarrow> ret []
          | Inr n \<Rightarrow> call (RandStringCustom (n + 8) password_chars)
                         (\<lambda>tr. Inr (rand_string_custom e tr (n + 8) password_chars)))
      else ret [])"

fun fill_required :: "env \<Rightarrow> required \<Rightarrow> gomap \<Rightarrow> gomap sio" where
  "fill_required e [] params = ret params"
| "fill_required e ((k, v) # ks) params =
     (if mmissing params k then
        if k = ''masterUserPassword'' \<or> k = ''masterUsername'' then
          bind_io (generate e k) (\<lambda>g.
          bind_io (lift_outcome (mput params k g)) (fill_required e ks))
        else fail (NewError v)
      else fill_required e ks params)"

definition set_annotation :: "string \<Rightarrow> string \<Rightarrow> StorageNode \<Rightarrow> StorageNode sio" where
  "set_annotation k v node =
     bind_io (lift_outcome (mput (sn_Annotations node) k v)) (\<lambda>m.
       ret (node\<lparr>sn_meta := (sn_meta node)\<lparr>meta_Annotations := m\<rparr>\<rparr>))"

definition validCreateInstanceParams :: "env \<Rightarrow> StorageNode \<Rightarrow> gomap \<Rightarrow> (StorageNode \<times> gomap) sio" where
  "validCreateInstanceParams e node params = (\<lambda>tr.
     bind_io (fill_required e (ordered_required e tr instance_required) params) (\<lambda>params.
     bind_io (case mlookup params ''masterUsername'' of
                None \<Rightarrow> ret params
              | Some username \<Rightarrow>
                  bind_io (from_sum (validateusername username)) (\<lambda>u.
                    lift_outcome (mput params ''masterUsername'' u))) (\<lambda>params.
       if mmissing (sn_Annotations node) AnnotationsInstanceIdentifier
       then fail (NewError ''instance identifier is empty'')
       else let lp = length (mget params ''masterUserPassword'')
            in if lp < 8 \<or> lp > 41
               then fail (NewError ''master user password length should be greater than 8'')
               else bind_io (set_annotation AnnotationsMasterUserPassword
                               (mget params ''masterUserPassword'') node) (\<lambda>node.
                    ret (node, params)))) tr)"

definition instance_request :: "StorageNode \<Rightarrow> gomap \<Rightarrow> int \<Rightarrow> InstanceRequest" where
  "instance_request node params storage =
     \<lparr>ir_Engine = mget params ''engine'',
      ir_EngineVersion = mget params ''engineVersion'',
      ir_DBInstanceClass = mget params ''instanceClass'',
      ir_DBInstanceIdentifier = mget (sn_Annotations node) AnnotationsInstanceIdentifier,
      ir_MasterUsername = mget params ''masterUsername'',
      ir_MasterUserPassword = mget params ''masterUserPassword'',
      ir_AllocatedStorage = word_of_int storage,
      ir_DBName = mlookup params (mget (sn_Annotations node) AnnotationsInstanceDBName)\<rparr>"

definition CreateInstance :: "env \<Rightarrow> StorageNode \<Rightarrow> gomap \<Rightarrow> (StorageNode \<times> gomap) sio" where
  "CreateInstance e node params =
     bind_io (validCreateInstanceParams e node params) (\<lambda>(node, params).
     bind_io (from_sum (case parse_int ''strconv.ParseInt'' 64 (mget params ''allocatedStorage'') of
                Inl err \<Rightarrow> Inl (NewError (''allocated storage is not a number: '' @ error_text err))
              | Inr n \<Rightarrow> Inr n)) (\<lambda>storage.
       let req = instance_request node params storage
       in bind_io (call (RdsCreateInstance req) (\<lambda>tr. rds_create_instance e tr req)) (\<lambda>_.
            ret (node, params))))"

definition GetInstance :: "env \<Rightarrow> StorageNode \<Rightarrow> DescInstance option sio" where
  "GetInstance e node =
     (case mlookup (sn_Annotations node) AnnotationsInstanceIdentifier of
        None \<Rightarrow> fail (NewError ''instance identifier is empty'')
      | Some identifier \<Rightarrow> call (RdsDescribeInstance identifier) (\<lambda>tr. rds_describe_instance e tr identifier))"

definition GetInstanceByIdentifier :: "env \<Rightarrow> string \<Rightarrow> DescInstance option sio" where
  "GetInstanceByIdentifier e identifier =
     call (RdsDescribeInstance identifier) (\<lambda>tr. rds_describe_instance e tr identifier)"

definition GetInstancesByFilters :: "env \<Rightarrow> (string \<times> string list) list \<Rightarrow> DescInstance list sio" where
  "GetInstancesByFilters e filters =
     call (RdsDescribeInstances filters) (\<lambda>tr. rds_describe_instances e tr filters)"

definition instance_delete_request :: "string \<Rightarrow> StorageReclaimPolicy \<Rightarrow> DeleteRequest" where
  "instance_delete_request identifier policy =
     (let (isDeleteBackup, isSkipFinalSnapshot) =
        (case policy of
           PolicyDeleteWithFinalSnapshot \<Rightarrow> (True, False)
         | PolicyDelete \<Rightarrow> (True, True)
         | PolicyRetain \<Rightarrow> (False, True)
         | PolicyOther s \<Rightarrow> (False, False))
      in \<lparr>dr_Identifier = identifier, dr_DeleteAutomateBackups = Some isDeleteBackup,
          dr_SkipFinalSnapshot = Some isSkipFinalSnapshot, dr_FinalSnapshotIdentifier = None\<rparr>)"

definition DeleteInstance :: "env \<Rightarrow> StorageNode \<Rightarrow> StorageProvider \<Rightarrow> unit sio" where
  "DeleteInstance e node sp =
     (case mlookup (sn_Annotations node) AnnotationsInstanceIdentifier of
        None \<Rightarrow> fail (NewError ''instance identifier is empty'')
      | Some identifier \<Rightarrow>
          bind_io (GetInstance e node) (\<lambda>ins. case ins of
              None \<Rightarrow> ret ()
            | Some i \<Rightarrow> if di_DBInstanceStatus i = DBInstanceStatusDeleting e then ret ()
                else let req = instance_delete_request identifier (sp_ReclaimPolicy sp)
                     in call (RdsDeleteInstance req) (\<lambda>tr. rds_delete_instance e tr req)))"

end
