(* ===== verification/Proxy_Server.thy ===== *)
theory Proxy_Server
  imports Environment
begin

text \<open>
  \<^verbatim>\<open>pkg/shardingsphere/shardingsphere.go\<close>: the connection to a ShardingSphere proxy and the
  DistSQL statements that create a logic database and register or unregister a storage unit.
  The statements are sent through \<^verbatim>\<open>database/sql\<close>, whose answers are the environment's. The
  handle \<open>server\<close> carries no data beyond the connection.
\<close>

section \<open>Statements\<close>

definition dq :: "string \<Rightarrow> string" where
  "dq s = [CHR 0x22] @ s @ [CHR 0x22]"

definition DistSQLCreateDatabase :: "string \<Rightarrow> string" where
  "DistSQLCreateDatabase db = ''CREATE DATABASE IF NOT EXISTS '' @ db @ '';''"

definition DistSQLUseDatabase :: "string \<Rightarrow> string" where
  "DistSQLUseDatabase db = ''USE '' @ db @ '';''"

definition DistSQLRegisterStorageUnit ::
  "string \<Rightarrow> string \<Rightarrow> u64 \<Rightarrow> string \<Rightarrow> string \<Rightarrow> string \<Rightarrow> string" where
  "DistSQLRegisterStorageUnit ds host port db user password =
     ''REGISTER STORAGE UNIT IF NOT EXISTS '' @ ds @ '' (HOST='' @ dq host @ '',PORT='' @ show_nat (unat port) @
     '',DB='' @ dq db @ '',USER='' @ dq user @ '',PASSWORD='' @ dq password @ '');''"

definition DistSQLShowRulesUsed :: "string \<Rightarrow> string" where
  "DistSQLShowRulesUsed ds = ''SHOW RULES USED STORAGE UNIT '' @ ds @ '';''"

definition DistSQLUnRegisterStorageUnit :: "string \<Rightarrow> string" where
  "DistSQLUnRegisterStorageUnit ds = ''UNREGISTER STORAGE UNIT '' @ ds @ '';''"

definition DistSQLDropRule :: "string \<Rightarrow> string \<Rightarrow> string" where
  "DistSQLDropRule ty name = ''DROP '' @ ty @ '' RULE '' @ name @ '';''"

definition ruleTypeMap :: "string \<rightharpoonup> string" where
  "ruleTypeMap = [''sharding'' \<mapsto> ''SHARDING TABLE'']"

record Rule =
  rule_Type :: string
  rule_Name :: string

section \<open>Operations\<close>

definition NewServer :: "env \<Rightarrow> string \<Rightarrow> string \<Rightarrow> u64 \<Rightarrow> string \<Rightarrow> string \<Rightarrow> unit sio" where
  "NewServer e driver host port user password =
     (if driver \<noteq> ''mysql'' \<and> driver \<noteq> ''postgres''
      then fail (NewError (''unsupported database driver: '' @ driver))
      else if host = [] \<or> port = 0 \<or> user = [] \<or> password = []
      then fail (NewError (''invalid database config, host='' @ host @ '', port='' @ show_nat (unat port) @
                           '', user='' @ user @ '', password='' @ password))
      else let dataSourceName = user @ '':'' @ password @ ''@tcp('' @ host @ '':'' @ show_nat (unat port) @ '')/''
        in bind_io (wrap_err (''open database='' @ dataSourceName @ '' error: '')
                     (call (SqlOpen driver dataSourceName) (\<lambda>tr. sql_open e tr driver dataSourceName))) (\<lambda>_.
           wrap_err (''ping database='' @ dataSourceName @ '' error: '') (call SqlPing (sql_ping e))))"

definition Exec :: "env \<Rightarrow> string \<Rightarrow> unit sio" where
  "Exec e distSQL = call (SqlExec distSQL) (\<lambda>tr. sql_exec e tr distSQL)"

definition CreateDatabase :: "env \<Rightarrow> string \<Rightarrow> unit sio" where
  "CreateDatabase e dbName =
     wrap_err ''create database error: '' (Exec e (DistSQLCreateDatabase dbName))"

definition RegisterStorageUnit ::
  "env \<Rightarrow> string \<Rightarrow> string \<Rightarrow> string \<Rightarrow> u64 \<Rightarrow> string \<Rightarrow> string \<Rightarrow> string \<Rightarrow> unit sio" where
  "RegisterStorageUnit e logicDBName dsName dsHost dsPort dsDBName dsUser dsPassword =
     bind_io (wrap_err ''use database error: '' (Exec e (DistSQLUseDatabase logicDBName))) (\<lambda>_.
       wrap_err ''register database error: ''
         (Exec e (DistSQLRegisterStorageUnit dsName dsHost dsPort dsDBName dsUser dsPassword)))"

fun scan_rows :: "(gerror + string \<times> string) list \<Rightarrow> gerror + Rule list" where
  "scan_rows [] = Inr []"
| "scan_rows (Inl err # rows) = Inl (WrapError ''scan rules used error: '' err)"
| "scan_rows (Inr (t, n) # rows) =
     (case scan_rows rows of Inl err \<Rightarrow> Inl err
      | Inr rules \<Rightarrow> Inr (\<lparr>rule_Type = t, rule_Name = n\<rparr> # rules))"

definition getRulesUsed :: "env \<Rightarrow> string \<Rightarrow> Rule list sio" where
  "getRulesUsed e dsName =
     bind_io (wrap_err ''get rules used error: ''
        (call (SqlQuery (DistSQLShowRulesUsed dsName)) (\<lambda>tr. sql_query e tr (DistSQLShowRulesUsed dsName))))
       (\<lambda>(rows, rows_err). deferred SqlCloseRows
          (case scan_rows rows of
             Inl err \<Rightarrow> fail err
           | Inr rules \<Rightarrow> (case rows_err of
                 Some err \<Rightarrow> fail (WrapError ''rows error: '' err)
               | None \<Rightarrow> ret rules)))"

definition rule_type_text :: "string \<Rightarrow> string" where
  "rule_type_text t = (case ruleTypeMap t of None \<Rightarrow> [] | Some s \<Rightarrow> s)"

definition dropRule :: "env \<Rightarrow> string \<Rightarrow> string \<Rightarrow> unit sio" where
  "dropRule e ruleType ruleName =
     flat_err ''drop rule fail, err: '' (Exec e (DistSQLDropRule (rule_type_text ruleType) ruleName))"

definition UnRegisterStorageUnit :: "env \<Rightarrow> string \<Rightarrow> string \<Rightarrow> unit sio" where
  "UnRegisterStorageUnit e logicDBName dsName =
     bind_io (wrap_err ''use database error: '' (Exec e (DistSQLUseDatabase logicDBName))) (\<lambda>_.
     bind_io (wrap_err ''get rules used error: '' (getRulesUsed e dsName)) (\<lambda>rules.
     bind_io (seq_io (\<lambda>rule. wrap_err ''drop rule error: '' (dropRule e (rule_Type rule) (rule_Name rule))) rules) (\<lambda>_.
       wrap_err ''unregister database error: '' (Exec e (DistSQLUnRegisterStorageUnit dsName)))))"

section \<open>What the operations send\<close>

lemma scan_rows_all:
  "scan_rows (map (\<lambda>r. Inr (rule_Type r, rule_Name r)) rules) = Inr rules"
  by (induction rules) auto

lemma scan_rows_rows:
  "scan_rows rows = Inr rules \<Longrightarrow> rows = map (\<lambda>r. Inr (rule_Type r, rule_Name r)) rules"
  by (induction rows arbitrary: rules rule: scan_rows.induct) (auto split: sum.splits)

lemma getRulesUsed_Ok:
  assumes "getRulesUsed e ds tr = (Ok rules, tr')"
  shows "sql_query e tr (DistSQLShowRulesUsed ds) = Inr (map (\<lambda>r. Inr (rule_Type r, rule_Name r)) rules, None) \<and>
    tr' = tr @ [SqlQuery (DistSQLShowRulesUsed ds), SqlCloseRows]"
proof -
  from assms obtain rows err where q: "sql_query e tr (DistSQLShowRulesUsed ds) = Inr (rows, err)"
    and rest: "deferred SqlCloseRows (case scan_rows rows of Inl err \<Rightarrow> fail err
        | Inr rules \<Rightarrow> (case err of Some err \<Rightarrow> fail (WrapError ''rows error: '' err) | None \<Rightarrow> ret rules))
      (tr @ [SqlQuery (DistSQLShowRulesUsed ds)]) = (Ok rules, tr')"
    by (auto simp: getRulesUsed_def io_Ok)
  from rest have "scan_rows rows = Inr rules" "err = None"
    "tr' = tr @ [SqlQuery (DistSQLShowRulesUsed ds), SqlCloseRows]"
    by (auto simp: deferred_Ok_iff split: sum.splits option.splits)
  with q scan_rows_rows show ?thesis by blast
qed

fun sql_call :: "call \<Rightarrow> bool" where
  "sql_call (SqlOpen d s) = True"
| "sql_call SqlPing = True"
| "sql_call (SqlExec s) = True"
| "sql_call (SqlQuery s) = True"
| "sql_call SqlCloseRows = True"
| "sql_call SqlClose = True"
| "sql_call _ = False"

lemma within_Exec [within_intros]: "P (SqlExec s) \<Longrightarrow> within P (Exec e s)"
  by (simp add: Exec_def)

lemma NewServer_sql: "within sql_call (NewServer e d h p u pw)"
  by (auto simp: NewServer_def Let_def intro!: within_intros)

lemma CreateDatabase_sql: "within sql_call (CreateDatabase e db)"
  by (auto simp: CreateDatabase_def intro!: within_intros)

lemma RegisterStorageUnit_sql: "within sql_call (RegisterStorageUnit e l d h p n u w)"
  by (auto simp: RegisterStorageUnit_def intro!: within_intros)

lemma getRulesUsed_sql: "within sql_call (getRulesUsed e ds)"
  unfolding getRulesUsed_def
  by (intro within_bind within_wrap_err within_call within_case_prod within_deferred
      within_case_sum within_case_option within_fail within_ret) simp_all

lemma UnRegisterStorageUnit_sql: "within sql_call (UnRegisterStorageUnit e l d)"
  unfolding UnRegisterStorageUnit_def dropRule_def
  by (intro within_bind within_wrap_err within_flat_err within_Exec within_seq_io getRulesUsed_sql) simp_all

lemmas server_sql = NewServer_sql CreateDatabase_sql RegisterStorageUnit_sql UnRegisterStorageUnit_sql

text \<open>A successful run of the loop over the used rules sends one \<^verbatim>\<open>DROP\<close> per rule, in order.\<close>

lemma drop_loop_trace:
  assumes "seq_io (\<lambda>r. wrap_err p (dropRule e (rule_Type r) (rule_Name r))) rules tr = (Ok (), tr')"
  shows "tr' = tr @ map (\<lambda>r. SqlExec (DistSQLDropRule (rule_type_text (rule_Type r)) (rule_Name r))) rules"
  by (rule seq_io_trace [OF _ assms]) (auto simp: dropRule_def Exec_def call_Ok_iff)

end
