(* ===== verification/Storage_Node_Controller.thy ===== *)
theory Storage_Node_Controller
  imports Storage_Node_Status Rds_Client Proxy_Server
begin

text \<open>
  The reconcile loop of storage nodes, \<^verbatim>\<open>pkg/controllers/storage_node_controller.go\<close>. A handler
  that changes \<^verbatim>\<open>node\<close> or the parameter map of the provider in place returns the changed values;
  on an error path the local objects are dropped, as the caller drops them. \<^verbatim>\<open>Reconcile\<close> and
  the two halves \<^verbatim>\<open>reconcile\<close> and \<^verbatim>\<open>finalize\<close> return the pair of result and error of
  controller-runtime. A successful update replaces the node by what the server answered.
  Log lines are left out; events are calls.
\<close>

record StorageNodeReconciler =
  AwsRegion :: string
  AwsAccessKeyID :: string
  AwsSecretAccessKey :: string

definition FinalizerName :: string where
  "FinalizerName = ''shardingsphere.apache.org/finalizer''"
definition ChaosFinalizerName :: string where
  "ChaosFinalizerName = ''shardingsphere.apache.org/finalizer''"
definition AnnotationKeyRegisterStorageUnitEnabled :: string where
  "AnnotationKeyRegisterStorageUnitEnabled = ''shardingsphere.apache.org/register-storage-unit-enabled''"
definition AnnotationKeyComputeNodeName :: string where
  "AnnotationKeyComputeNodeName = ''shardingsphere.apache.org/compute-node-name''"
definition AnnotationKeyLogicDatabaseName :: string where
  "AnnotationKeyLogicDatabaseName = ''shardingsphere.apache.org/logic-database-name''"
definition ShardingSphereProtocolType :: string where
  "ShardingSphereProtocolType = ''proxy-frontend-database-protocol-type''"

section \<open>Small parts\<close>

definition event :: "StorageNode \<Rightarrow> event_type \<Rightarrow> string \<Rightarrow> string \<Rightarrow> unit sio" where
  "event node ty reason msg = emit (RecordEvent node ty reason msg)"

definition full_name :: "StorageNode \<Rightarrow> string" where
  "full_name node = sn_Namespace node @ ''/'' @ sn_Name node"

text \<open>The session of a region is built the first time it is asked for.\<close>

fun is_session :: "string \<Rightarrow> call \<Rightarrow> bool" where
  "is_session region (AwsBuildSession s) = (s = region)"
| "is_session region _ = False"

definition getAwsRdsClient :: "StorageNodeReconciler \<Rightarrow> unit sio" where
  "getAwsRdsClient r = (\<lambda>tr. if list_ex (is_session (AwsRegion r)) tr then (Ok (), tr)
                             else emit (AwsBuildSession (AwsRegion r)) tr)"

definition is_aws_provisioner :: "string \<Rightarrow> bool" where
  "is_aws_provisioner p =
     (p = ProvisionerAWSRDSInstance \<or> p = ProvisionerAWSAurora \<or> p = ProvisionerAWSRDSCluster)"

definition getStorageProvider :: "env \<Rightarrow> StorageNodeReconciler \<Rightarrow> StorageNode \<Rightarrow> StorageProvider sio" where
  "getStorageProvider e r node =
     (if sn_StorageProviderName node = [] then
        bind_io (event node EventWarning ''storageProviderNameIsNil'' ''storageProviderName is nil'') (\<lambda>_.
          fail (NewError ''storageProviderName is nil''))
      else bind_io (attempt (call (KubeGetStorageProvider (sn_StorageProviderName node))
                     (\<lambda>tr. kube_get_storage_provider e tr (sn_StorageProviderName node)))) (\<lambda>got.
        case got of
          Inl err \<Rightarrow> bind_io (event node EventWarning ''storageProviderNotFound''
              (''storageProvider '' @ sn_StorageProviderName node @ '' not found'')) (\<lambda>_. fail err)
        | Inr sp \<Rightarrow>
            if is_aws_provisioner (sp_Provisioner sp) \<and>
               (AwsRegion r = [] \<or> AwsAccessKeyID r = [] \<or> AwsSecretAccessKey r = [])
            then bind_io (event node EventWarning ''awsCredentialsNotSet'' ''aws credentials not set'') (\<lambda>_.
                   fail (NewError ''aws credentials not set''))
            else ret sp))"

definition updateStorageNode :: "env \<Rightarrow> StorageNode \<Rightarrow> StorageNode sio" where
  "updateStorageNode e node = call (KubeUpdateStorageNode node) (\<lambda>tr. kube_update_storage_node e tr node)"

definition updateStorageNodeStatus :: "env \<Rightarrow> StorageNode \<Rightarrow> StorageNode sio" where
  "updateStorageNodeStatus e node =
     call (KubeUpdateStorageNodeStatus node) (\<lambda>tr. kube_update_storage_node_status e tr node)"

definition set_finalizers :: "string list \<Rightarrow> StorageNode \<Rightarrow> StorageNode" where
  "set_finalizers fs node = node\<lparr>sn_meta := (sn_meta node)\<lparr>meta_Finalizers := fs\<rparr>\<rparr>"

text \<open>
  \<^verbatim>\<open>reflect.DeepEqual(oldStatus, desiredState)\<close> compares a pointer with a structure. Values of
  different types are never deeply equal, so the comparison is constant.
\<close>

definition DeepEqual_pointer_struct :: "StorageNodeStatus \<Rightarrow> StorageNodeStatus \<Rightarrow> bool" where
  "DeepEqual_pointer_struct oldStatus desiredState = False"

definition writeDesiredStatus :: "env \<Rightarrow> StorageNodeStatus \<Rightarrow> StorageNode \<Rightarrow> reconcile_result sio" where
  "writeDesiredStatus e oldStatus node = (\<lambda>tr.
     (let desiredState = computeDesiredState e (clock_now e tr) (sn_Status node)
      in if \<not> DeepEqual_pointer_struct oldStatus desiredState then
           bind_io (attempt (updateStorageNodeStatus e (node\<lparr>sn_Status := desiredState\<rparr>))) (\<lambda>u. case u of
               Inl err \<Rightarrow> ret (res_requeue, Some err)
             | Inr _ \<Rightarrow> ret (res_after, None))
         else ret (res_after, None)) tr)"

section \<open>Registration in a proxy\<close>

fun check_annotations :: "string list \<Rightarrow> StorageNode \<Rightarrow> unit sio" where
  "check_annotations [] node = ret ()"
| "check_annotations (anno # annos) node =
     (if mmissing (sn_Annotations node) anno then
        bind_io (event node EventWarning ''RegisterChecking''
          (''Waiting to register storage unit for node '' @ full_name node @ '': annotation '' @ anno @ '' is required'')) (\<lambda>_.
          fail (NewError (''annotation '' @ anno @ '' is required'')))
      else check_annotations annos node)"

definition validateComputeNodeAnnotations :: "StorageNode \<Rightarrow> unit sio" where
  "validateComputeNodeAnnotations node =
     check_annotations [AnnotationKeyLogicDatabaseName, AnnotationsInstanceDBName, AnnotationKeyComputeNodeName] node"

definition protocol_driver :: "gomap \<Rightarrow> string" where
  "protocol_driver props =
     to_lower (if mmissing props ShardingSphereProtocolType then ''mysql'' else mget props ShardingSphereProtocolType)"

definition getServiceByNamespacedName :: "env \<Rightarrow> NamespacedName \<Rightarrow> ProxyService option sio" where
  "getServiceByNamespacedName e nn =
     bind_io (attempt (call (KubeGetService nn) (\<lambda>tr. kube_get_service e tr nn))) (\<lambda>r. case r of
         Inl err \<Rightarrow> if IsNotFound err then ret None else fail err
       | Inr svc \<Rightarrow> ret (Some svc))"

definition getShardingsphereServer :: "env \<Rightarrow> StorageNode \<Rightarrow> unit sio" where
  "getShardingsphereServer e node =
     (let nn = (sn_Namespace node, mget (sn_Annotations node) AnnotationKeyComputeNodeName)
      in bind_io (wrap_err ''get compute node failed: ''
                    (call (KubeGetComputeNode nn) (\<lambda>tr. kube_get_compute_node e tr nn))) (\<lambda>cn.
         let serverConf = pn_ServerConfig cn
         in case items (auth_Users (srv_Authority serverConf)) of
              [] \<Rightarrow> fail (NewError (''no user in compute node '' @ pn_Namespace cn @ ''/'' @ pn_Name cn))
            | user # _ \<Rightarrow>
                bind_io (wrap_err ''get service failed: '' (getServiceByNamespacedName e nn)) (\<lambda>svc. case svc of
                    None \<Rightarrow> fail (NewError ''get service failed: %!w(<nil>)'')
                  | Some s \<Rightarrow> (case svc_Ports s of
                        [] \<Rightarrow> panic ''index out of range''
                      | p # _ \<Rightarrow> wrap_err ''new shardingsphere server failed: ''
                          (NewServer e (protocol_driver (srv_Props serverConf))
                             (svc_Name s @ ''.'' @ svc_Namespace s) (word_of_int (sint p))
                             (hd (split_on (CHR ''@'') (usr_User user))) (usr_Password user))))))"

definition datasource_info :: "StorageNode \<Rightarrow> StorageProvider \<Rightarrow> (string \<times> i32 \<times> string \<times> string) outcome" where
  "datasource_info node sp =
     (if cls_Status (sns_Cluster (sn_Status node)) = [] then getDatasourceInfoFromInstance node sp
      else getDatasourceInfoFromCluster node sp)"

definition registerStorageUnit :: "env \<Rightarrow> StorageNode \<Rightarrow> StorageProvider \<Rightarrow> StorageNode sio" where
  "registerStorageUnit e node sp =
     (if mget (sn_Annotations node) AnnotationKeyRegisterStorageUnitEnabled \<noteq> ''true'' then ret node
      else bind_io (validateComputeNodeAnnotations node) (\<lambda>_.
        if sns_Registered (sn_Status node) then ret node
        else if sn_Phase node \<noteq> PhaseReady then
          bind_io (event node EventWarning ''RegisterWaiting''
            (''Waiting to register storage unit for node '' @ full_name node @ '': node is not ready'')) (\<lambda>_. ret node)
        else
          let logicDBName = mget (sn_Annotations node) AnnotationKeyLogicDatabaseName;
              dbName = mget (sn_Annotations node) AnnotationsInstanceDBName
          in bind_io (wrap_err ''getShardingsphereServer failed: '' (getShardingsphereServer e node)) (\<lambda>_.
             deferred SqlClose
              (bind_io (wrap_err ''create database failed: '' (CreateDatabase e logicDBName)) (\<lambda>_.
               bind_io (event node EventNormal ''LogicDatabaseCreated''
                          (''LogicDatabase '' @ logicDBName @ '' is created'')) (\<lambda>_.
               bind_io (lift_outcome (datasource_info node sp)) (\<lambda>(host, port, username, password).
               bind_io (wrap_err ''register storage node failed: ''
                 (RegisterStorageUnit e logicDBName (getDSName node) host (word_of_int (sint port)) dbName username password)) (\<lambda>_.
               bind_io (event node EventNormal ''StorageUnitRegistered''
                 (''StorageUnit '' @ host @ '':'' @ show_int (sint port) @ ''/'' @ dbName @ '' is registered'')) (\<lambda>_.
               ret (with_status node (\<lambda>s. s\<lparr>sns_Registered := True\<rparr>)))))))))))"

definition unregisterStorageUnit :: "env \<Rightarrow> StorageNode \<Rightarrow> StorageNode sio" where
  "unregisterStorageUnit e node =
     (if \<not> sns_Registered (sn_Status node) then ret node
      else bind_io (validateComputeNodeAnnotations node) (\<lambda>_.
        let logicDBName = mget (sn_Annotations node) AnnotationKeyLogicDatabaseName
        in bind_io (wrap_err ''getShardingsphereServer failed: '' (getShardingsphereServer e node)) (\<lambda>_.
           deferred SqlClose
             (bind_io (wrap_err ''unregister storage unit failed: ''
                (UnRegisterStorageUnit e logicDBName (getDSName node))) (\<lambda>_.
              bind_io (event node EventNormal ''StorageUnitUnRegistered''
                (''StorageUnit of node '' @ full_name node @ '' is unregistered'')) (\<lambda>_.
              ret (with_status node (\<lambda>s. s\<lparr>sns_Registered := False\<rparr>))))))))"

section \<open>AWS resources\<close>

definition updateClusterStatus :: "env \<Rightarrow> StorageNode \<Rightarrow> DescCluster option \<Rightarrow> StorageNode sio" where
  "updateClusterStatus e node cluster =
     (let node = with_status node (\<lambda>s. s\<lparr>sns_Cluster := cluster_status_of cluster\<rparr>);
          identifier = mget (sn_Annotations node) AnnotationsClusterIdentifier
      in bind_io (wrap_err ''GetInstances failed, err:''
           (GetInstancesByFilters e [(''db-cluster-id'', [identifier])])) (\<lambda>instances.
         ret (with_status node (\<lambda>s. s\<lparr>sns_Instances := map instance_status instances\<rparr>))))"

definition with_params :: "StorageProvider \<Rightarrow> gomap \<Rightarrow> StorageProvider" where
  "with_params sp params = sp\<lparr>sp_Parameters := params\<rparr>"

definition reconcileAwsRdsInstance :: "env \<Rightarrow> StorageNode \<Rightarrow> StorageProvider \<Rightarrow> (StorageNode \<times> StorageProvider) sio" where
  "reconcileAwsRdsInstance e node sp =
     bind_io (GetInstance e node) (\<lambda>inst.
       if inst = None \<and> sn_Phase node \<noteq> PhaseDeleting then
         bind_io (CreateInstance e node (sp_Parameters sp)) (\<lambda>(node, params).
         bind_io (GetInstance e node) (\<lambda>inst.
           ret (updateAWSRDSInstanceStatus node inst, with_params sp params)))
       else ret (updateAWSRDSInstanceStatus node inst, sp))"

definition reconcileAwsRDSCluster :: "env \<Rightarrow> StorageNode \<Rightarrow> StorageProvider \<Rightarrow> (StorageNode \<times> StorageProvider) sio" where
  "reconcileAwsRDSCluster e node sp =
     bind_io (GetRDSCluster e node) (\<lambda>rc.
     bind_io (if rc = None then
                bind_io (CreateRDSCluster e node (sp_Parameters sp)) (\<lambda>params.
                bind_io (GetRDSCluster e node) (\<lambda>rc. ret (rc, with_params sp params)))
              else ret (rc, sp)) (\<lambda>(rc, sp).
     bind_io (wrap_err ''updateClusterStatus failed: '' (updateClusterStatus e node rc)) (\<lambda>node.
       ret (node, sp))))"

definition reconcileAwsAurora :: "env \<Rightarrow> StorageNode \<Rightarrow> StorageProvider \<Rightarrow> (StorageNode \<times> StorageProvider) sio" where
  "reconcileAwsAurora e node sp =
     bind_io (GetAuroraCluster e node) (\<lambda>ac.
     bind_io (if ac = None then
                bind_io (CreateAuroraCluster e node (sp_Parameters sp)) (\<lambda>params.
                bind_io (GetAuroraCluster e node) (\<lambda>ac. ret (ac, with_params sp params)))
              else ret (ac, sp)) (\<lambda>(ac, sp).
     bind_io (wrap_err ''updateClusterStatus failed: '' (updateClusterStatus e node ac)) (\<lambda>node.
       ret (node, sp))))"

definition report_delete :: "StorageNode \<Rightarrow> string \<Rightarrow> string \<Rightarrow> unit sio \<Rightarrow> unit sio" where
  "report_delete node what identifier del =
     bind_io (attempt del) (\<lambda>r. case r of
         Inl err \<Rightarrow> bind_io (event node EventWarning ''DeleteFailed''
             (''Failed to delete '' @ what @ '' '' @ identifier @ '': '' @ error_text err)) (\<lambda>_. fail err)
       | Inr _ \<Rightarrow> event node EventNormal ''Deleting'' (what @ '' '' @ identifier @ '' is deleting''))"

definition deleteAWSRDSInstance :: "env \<Rightarrow> StorageNode \<Rightarrow> StorageProvider \<Rightarrow> StorageNode sio" where
  "deleteAWSRDSInstance e node sp =
     (let identifier = mget (sn_Annotations node) AnnotationsInstanceIdentifier
      in if identifier = [] then ret node
         else bind_io (GetInstance e node) (\<lambda>inst.
              bind_io (case inst of
                  None \<Rightarrow> ret ()
                | Some i \<Rightarrow> if di_DBInstanceStatus i \<noteq> DBInstanceStatusDeleting e
                            then report_delete node ''instance'' identifier (DeleteInstance e node sp)
                            else ret ()) (\<lambda>_.
              ret (updateAWSRDSInstanceStatus node inst))))"

definition deleteAWSRDSCluster :: "env \<Rightarrow> StorageNode \<Rightarrow> StorageProvider \<Rightarrow> StorageNode sio" where
  "deleteAWSRDSCluster e node sp =
     (let identifier = mget (sn_Annotations node) AnnotationsClusterIdentifier
      in if identifier = [] then ret node
         else bind_io (wrap_err ''get rds cluster failed: '' (GetRDSCluster e node)) (\<lambda>cluster.
              bind_io (case cluster of
                  None \<Rightarrow> ret ()
                | Some c \<Rightarrow> if dc_Status c \<noteq> DBClusterStatusDeleting e
                            then report_delete node ''rds cluster'' identifier (DeleteRDSCluster e node sp)
                            else ret ()) (\<lambda>_.
              wrap_err ''updateClusterStatus failed: '' (updateClusterStatus e node cluster))))"

definition deleteAWSAurora :: "env \<Rightarrow> StorageNode \<Rightarrow> StorageProvider \<Rightarrow> StorageNode sio" where
  "deleteAWSAurora e node sp =
     (let identifier = mget (sn_Annotations node) AnnotationsClusterIdentifier
      in if identifier = [] then ret node
         else bind_io (wrap_err ''get aurora cluster failed: '' (GetAuroraCluster e node)) (\<lambda>cluster.
              bind_io (case cluster of
                  None \<Rightarrow> ret ()
                | Some c \<Rightarrow> if dc_Status c \<noteq> DBClusterStatusDeleting e
                            then report_delete node ''aurora cluster'' identifier (DeleteAuroraCluster e node sp)
                            else ret ()) (\<lambda>_.
              wrap_err ''updateClusterStatus failed: '' (updateClusterStatus e node cluster))))"

definition deleteDatabaseCluster :: "env \<Rightarrow> StorageNodeReconciler \<Rightarrow> StorageNode \<Rightarrow> StorageProvider \<Rightarrow> StorageNode sio" where
  "deleteDatabaseCluster e r node sp =
     (if sp_Provisioner sp = ProvisionerAWSRDSInstance then
        wrap_err ''delete aws rds instance failed: ''
          (bind_io (getAwsRdsClient r) (\<lambda>_. deleteAWSRDSInstance e node sp))
      else if sp_Provisioner sp = ProvisionerAWSRDSCluster then
        wrap_err ''delete aws rds cluster failed: ''
          (bind_io (getAwsRdsClient r) (\<lambda>_. deleteAWSRDSCluster e node sp))
      else if sp_Provisioner sp = ProvisionerAWSAurora then
        wrap_err ''delete aws aurora cluster failed: ''
          (bind_io (getAwsRdsClient r) (\<lambda>_. deleteAWSAurora e node sp))
      else fail (NewError (''unsupported database provisioner '' @ sp_Provisioner sp)))"

section \<open>CloudNativePG resources\<close>

definition GetClusterByNamespacedName :: "env \<Rightarrow> NamespacedName \<Rightarrow> CnpgCluster option sio" where
  "GetClusterByNamespacedName e nn =
     bind_io (attempt (call (CnpgGet nn) (\<lambda>tr. cnpg_get e tr nn))) (\<lambda>r. case r of
         Inl err \<Rightarrow> if IsNotFound err then ret None else fail err
       | Inr c \<Rightarrow> ret (Some c))"

definition createCloudNativePGCluster :: "env \<Rightarrow> StorageNode \<Rightarrow> StorageProvider \<Rightarrow> unit sio" where
  "createCloudNativePGCluster e node sp =
     (let cluster = cnpg_build e node sp
      in bind_io (attempt (call (CnpgCreate cluster) (\<lambda>tr. cnpg_create e tr cluster))) (\<lambda>r. case r of
             Inr _ \<Rightarrow> ret ()
           | Inl err \<Rightarrow> if IsAlreadyExists err then ret () else fail err))"

definition r_updateCloudNativePGCluster :: "env \<Rightarrow> StorageNode \<Rightarrow> StorageProvider \<Rightarrow> CnpgCluster \<Rightarrow> unit sio" where
  "r_updateCloudNativePGCluster e node sp cluster =
     (let ex = (cnpg_build e node sp)\<lparr>cnpg_meta := cnpg_meta cluster\<rparr>
      in if cnpg_Spec cluster \<noteq> cnpg_Spec ex then call (CnpgUpdate ex) (\<lambda>tr. cnpg_update e tr ex)
         else ret ())"

definition reconcileCloudNativePG :: "env \<Rightarrow> StorageNode \<Rightarrow> StorageProvider \<Rightarrow> (StorageNode \<times> StorageProvider) sio" where
  "reconcileCloudNativePG e node sp =
     bind_io (GetClusterByNamespacedName e (sn_Namespace node, sn_Name node)) (\<lambda>cluster.
       let node = updateCloudNativePGCluster e node cluster
       in bind_io (case cluster of
              Some c \<Rightarrow> r_updateCloudNativePGCluster e node sp c
            | None \<Rightarrow> createCloudNativePGCluster e node sp) (\<lambda>_. ret (node, sp)))"

definition finalizeCloudNativePG :: "env \<Rightarrow> StorageNode \<Rightarrow> StorageProvider \<Rightarrow> reconcile_result sio" where
  "finalizeCloudNativePG e node sp =
     bind_io (attempt (GetClusterByNamespacedName e (sn_Namespace node, sn_Name node))) (\<lambda>got. case got of
         Inl err \<Rightarrow> ret (res_requeue, Some err)
       | Inr cluster \<Rightarrow>
           bind_io (attempt (case cluster of
                 None \<Rightarrow> ret ()
               | Some c \<Rightarrow> call (CnpgDelete c) (\<lambda>tr. cnpg_delete e tr c))) (\<lambda>del. case del of
             Inl err \<Rightarrow> ret (res_requeue, Some err)
           | Inr _ \<Rightarrow>
               bind_io (attempt (updateStorageNode e
                   (set_finalizers (removeAll ChaosFinalizerName (sn_Finalizers node)) node))) (\<lambda>u. case u of
                 Inl err \<Rightarrow> ret (res_empty, Some err)
               | Inr _ \<Rightarrow> ret (res_after, None))))"

section \<open>The handlers\<close>

definition finalize_resources :: "env \<Rightarrow> StorageNodeReconciler \<Rightarrow> StorageNodeStatus \<Rightarrow> StorageNode \<Rightarrow> StorageProvider \<Rightarrow> reconcile_result sio" where
  "finalize_resources e r oldStatus node sp =
     (if sp_Provisioner sp = ProvisionerCloudNativePG then finalizeCloudNativePG e node sp
      else bind_io (attempt (unregisterStorageUnit e node)) (\<lambda>u. case u of
          Inl err \<Rightarrow> ret (res_after, Some err)
        | Inr node \<Rightarrow> bind_io (attempt (deleteDatabaseCluster e r node sp)) (\<lambda>d. case d of
            Inl err \<Rightarrow> ret (res_after, Some err)
          | Inr node \<Rightarrow> writeDesiredStatus e oldStatus node)))"

definition finalize :: "env \<Rightarrow> StorageNodeReconciler \<Rightarrow> StorageNode \<Rightarrow> StorageProvider \<Rightarrow> reconcile_result sio" where
  "finalize e r node sp =
     (let oldStatus = sn_Status node
      in case sn_Phase node of
           PhaseDeleteComplete \<Rightarrow>
             bind_io (attempt (updateStorageNode e
                 (set_finalizers (filter (\<lambda>f. f \<noteq> FinalizerName) (sn_Finalizers node)) node))) (\<lambda>_.
               ret (res_empty, None))
         | PhaseReady \<Rightarrow> finalize_resources e r oldStatus (with_status node (\<lambda>s. s\<lparr>sns_Phase := PhaseDeleting\<rparr>)) sp
         | PhaseNotReady \<Rightarrow> finalize_resources e r oldStatus (with_status node (\<lambda>s. s\<lparr>sns_Phase := PhaseDeleting\<rparr>)) sp
         | PhaseDeleting \<Rightarrow> finalize_resources e r oldStatus node sp
         | PhaseOther p \<Rightarrow> finalize_resources e r oldStatus node sp)"

definition reconcile_failed :: "StorageNode \<Rightarrow> string \<Rightarrow> gerror \<Rightarrow> reconcile_result sio" where
  "reconcile_failed node what err =
     bind_io (event node EventWarning ''Reconcile Failed''
       (''unable to reconcile '' @ what @ '' '' @ full_name node @ '', err:'' @ error_text err)) (\<lambda>_.
     ret (res_after, Some err))"

text \<open>
  The \<^verbatim>\<open>switch\<close> over the provisioner: the resource handler and its name in the failure event,
  \<open>None\<close> for the default branch. The RDS client is made when the argument list is evaluated.
\<close>

definition provision :: "env \<Rightarrow> StorageNodeReconciler \<Rightarrow> StorageNode \<Rightarrow> StorageProvider \<Rightarrow>
    (string \<times> (StorageNode \<times> StorageProvider) sio) option" where
  "provision e r node sp =
     (if sp_Provisioner sp = ProvisionerAWSRDSInstance then
        Some (''AWS RDS Instance'', bind_io (getAwsRdsClient r) (\<lambda>_. reconcileAwsRdsInstance e node sp))
      else if sp_Provisioner sp = ProvisionerAWSRDSCluster then
        Some (''AWS RDS Cluster'', bind_io (getAwsRdsClient r) (\<lambda>_. reconcileAwsRDSCluster e node sp))
      else if sp_Provisioner sp = ProvisionerAWSAurora then
        Some (''AWS Aurora'', bind_io (getAwsRdsClient r) (\<lambda>_. reconcileAwsAurora e node sp))
      else if sp_Provisioner sp = ProvisionerCloudNativePG then
        Some (''CloudNative PG'', reconcileCloudNativePG e node sp)
      else None)"

definition register_and_write :: "env \<Rightarrow> StorageNodeStatus \<Rightarrow> StorageNode \<Rightarrow> StorageProvider \<Rightarrow> reconcile_result sio" where
  "register_and_write e oldStatus node sp =
     bind_io (attempt (registerStorageUnit e node sp)) (\<lambda>reg. case reg of
         Inl err \<Rightarrow> bind_io (event node EventWarning ''RegisterStorageUnitFailed''
             (''unable to register storage unit '' @ full_name node)) (\<lambda>_. ret (res_requeue, Some err))
       | Inr node \<Rightarrow> writeDesiredStatus e oldStatus node)"

definition reconcile :: "env \<Rightarrow> StorageNodeReconciler \<Rightarrow> StorageProvider \<Rightarrow> StorageNode \<Rightarrow> reconcile_result sio" where
  "reconcile e r sp node =
     (case provision e r node sp of
        None \<Rightarrow> bind_io (event node EventWarning ''UnsupportedDatabaseProvisioner''
            (''unsupported database provisioner '' @ sp_Provisioner sp)) (\<lambda>_. ret (res_after, None))
      | Some (what, prov) \<Rightarrow> bind_io (attempt prov) (\<lambda>p. case p of
            Inl err \<Rightarrow> reconcile_failed node what err
          | Inr (node', sp') \<Rightarrow> register_and_write e (sn_Status node) node' sp'))"

definition addFinalizer :: "env \<Rightarrow> StorageNode \<Rightarrow> StorageNode sio" where
  "addFinalizer e node =
     (if FinalizerName \<notin> set (sn_Finalizers node)
      then updateStorageNode e (set_finalizers (sn_Finalizers node @ [FinalizerName]) node)
      else ret node)"

text \<open>\<^verbatim>\<open>Reconcile\<close> once the node has been fetched, and the whole of it.\<close>

definition Reconcile_fetched :: "env \<Rightarrow> StorageNodeReconciler \<Rightarrow> StorageNode \<Rightarrow> reconcile_result sio" where
  "Reconcile_fetched e r node =
     bind_io (attempt (getStorageProvider e r node)) (\<lambda>gsp. case gsp of
         Inl err \<Rightarrow> ret (res_requeue, Some err)
       | Inr sp \<Rightarrow>
           if meta_DeletionTimestamp (sn_meta node) = None then
             bind_io (attempt (addFinalizer e node)) (\<lambda>u. case u of
                 Inl err \<Rightarrow> ret (res_empty, Some err)
               | Inr node \<Rightarrow> reconcile e r sp node)
           else if FinalizerName \<in> set (sn_Finalizers node) then finalize e r node sp
           else reconcile e r sp node)"

definition Reconcile :: "env \<Rightarrow> StorageNodeReconciler \<Rightarrow> NamespacedName \<Rightarrow> reconcile_result sio" where
  "Reconcile e r req =
     bind_io (attempt (call (KubeGetStorageNode req) (\<lambda>tr. kube_get_storage_node e tr req))) (\<lambda>got. case got of
         Inl err \<Rightarrow> ret (res_empty, if IsNotFound err then None else Some err)
       | Inr node \<Rightarrow> Reconcile_fetched e r node)"

end
