(* ===== verification/Storage_Node_Examples.thy ===== *)
theory Storage_Node_Examples
  imports Storage_Node_Controller
begin

text \<open>
  Concrete environments, nodes and providers at which the properties of the storage node
  controller are instantiated. They model no code.
\<close>

section \<open>A concrete environment\<close>

text \<open>
  An environment in which nothing exists and every write succeeds, to be adapted field by field
  where a property is instantiated at a concrete input.
\<close>

definition absent :: "gerror + 'a" where
  "absent = Inl (ApiError NotFound ''not found'')"

definition quiet_env :: env where
  "quiet_env = \<lparr>DBInstanceStatusAvailable = ''available'', DBInstanceStatusDeleting = ''deleting'',
     DBClusterStatusAvailable = ''available'', DBClusterStatusDeleting = ''deleting'',
     CnpgPhaseHealthy = ''Cluster in healthy state'', CnpgPodHealthy = ''healthy'',
     kube_get_storage_node = (\<lambda>_ _. absent), kube_get_storage_provider = (\<lambda>_ _. absent),
     kube_update_storage_node = (\<lambda>_ n. Inr n), kube_update_storage_node_status = (\<lambda>_ n. Inr n),
     kube_get_compute_node = (\<lambda>_ _. absent), kube_get_service = (\<lambda>_ _. absent),
     rds_describe_instance = (\<lambda>_ _. Inr None), rds_describe_instances = (\<lambda>_ _. Inr []),
     rds_create_instance = (\<lambda>_ _. Inr ()), rds_delete_instance = (\<lambda>_ _. Inr ()),
     rds_describe_cluster = (\<lambda>_ _. Inr None), rds_create_cluster = (\<lambda>_ _. Inr ()),
     rds_delete_cluster = (\<lambda>_ _. Inr ()), aurora_describe = (\<lambda>_ _. Inr None),
     aurora_create = (\<lambda>_ _. Inr ()), aurora_delete = (\<lambda>_ _. Inr ()),
     rand_int = (\<lambda>_ _. Inr 0), rand_stringN = (\<lambda>_ n. replicate n (CHR ''x'')),
     rand_string_custom = (\<lambda>_ n _. replicate n (CHR ''x'')), range_order = (\<lambda>_ ks. ks),
     sql_open = (\<lambda>_ _ _. Inr ()), sql_ping = (\<lambda>_. Inr ()), sql_exec = (\<lambda>_ _. Inr ()),
     sql_query = (\<lambda>_ _. Inr ([], None)), cnpg_get = (\<lambda>_ _. absent), cnpg_create = (\<lambda>_ _. Inr ()),
     cnpg_update = (\<lambda>_ _. Inr ()), cnpg_delete = (\<lambda>_ _. Inr ()),
     cnpg_build = (\<lambda>n sp. \<lparr>cnpg_meta = sn_meta n, cnpg_Spec = 0, cnpg_Phase = [],
        cnpg_WriteService = [], cnpg_ReadService = [], cnpg_InstancesStatus = []\<rparr>),
     clock_now = (\<lambda>_ k. int k)\<rparr>"

definition demo_node :: StorageNode where
  "demo_node = \<lparr>sn_meta = \<lparr>meta_Name = ''order-db'', meta_Namespace = ''prod'',
       meta_Annotations = Some [AnnotationsInstanceIdentifier \<mapsto> ''order-db'',
         AnnotationsClusterIdentifier \<mapsto> ''order-db''],
       meta_Labels = None, meta_Finalizers = [FinalizerName], meta_DeletionTimestamp = Some 7\<rparr>,
     sn_StorageProviderName = ''rds'', sn_Schema = [], sn_Replicas = 1,
     sn_Status = \<lparr>sns_ObservedGeneration = 1, sns_Phase = PhaseReady, sns_Conditions = [],
       sns_Cluster = zero_ClusterStatus, sns_Instances = [], sns_Registered = False\<rparr>\<rparr>"

definition demo_provider :: StorageProvider where
  "demo_provider = \<lparr>sp_Name = ''rds'', sp_Provisioner = ProvisionerAWSRDSInstance,
     sp_Parameters = Some [''engine'' \<mapsto> ''mysql'', ''engineVersion'' \<mapsto> ''8.0'',
       ''instanceClass'' \<mapsto> ''db.t3'', ''masterUsername'' \<mapsto> ''root'',
       ''masterUserPassword'' \<mapsto> ''secret-123'', ''allocatedStorage'' \<mapsto> ''100''],
     sp_ReclaimPolicy = PolicyDelete\<rparr>"

definition demo_reconciler :: StorageNodeReconciler where
  "demo_reconciler = \<lparr>AwsRegion = ''eu'', AwsAccessKeyID = ''k'', AwsSecretAccessKey = ''s''\<rparr>"

definition demo_instance :: DescInstance where
  "demo_instance = \<lparr>di_DBInstanceStatus = ''available'', di_Endpoint = \<lparr>ep_Address = ''h'', ep_Port = 3306\<rparr>\<rparr>"

definition demo_env :: env where
  "demo_env = quiet_env\<lparr>kube_get_storage_node := (\<lambda>_ _. Inr demo_node),
     kube_get_storage_provider := (\<lambda>_ _. Inr demo_provider),
     rds_describe_instance := (\<lambda>_ _. Inr (Some demo_instance))\<rparr>"

definition demo_registered_node :: StorageNode where
  "demo_registered_node = demo_node\<lparr>
     sn_meta := (sn_meta demo_node)\<lparr>meta_Annotations :=
       Some [AnnotationsInstanceIdentifier \<mapsto> ''order-db'', AnnotationsInstanceDBName \<mapsto> ''orders'',
         AnnotationKeyRegisterStorageUnitEnabled \<mapsto> ''true'',
         AnnotationKeyLogicDatabaseName \<mapsto> ''shop'', AnnotationKeyComputeNodeName \<mapsto> ''proxy'']\<rparr>,
     sn_Status := (sn_Status demo_node)\<lparr>sns_Registered := True\<rparr>\<rparr>"

definition demo_proxy_env :: env where
  "demo_proxy_env = demo_env\<lparr>
     kube_get_compute_node := (\<lambda>_ _. Inr \<lparr>pn_Name = ''proxy'', pn_Namespace = ''prod'',
       pn_ServerConfig = zero_ServerConfig\<lparr>srv_Authority :=
         \<lparr>auth_Users = Some [\<lparr>usr_User = ''root@%'', usr_Password = ''pw''\<rparr>], auth_Privilege = []\<rparr>\<rparr>\<rparr>),
     kube_get_service := (\<lambda>_ _. Inr \<lparr>svc_Name = ''proxy'', svc_Namespace = ''prod'', svc_Ports = [3307]\<rparr>),
     sql_query := (\<lambda>_ _. Inr ([Inr (''sharding'', ''t_order'')], None))\<rparr>"

definition demo_complete_node :: StorageNode where
  "demo_complete_node = with_status demo_node (\<lambda>s. s\<lparr>sns_Phase := PhaseDeleteComplete\<rparr>)"

definition demo_complete_env :: env where
  "demo_complete_env = demo_env\<lparr>kube_get_storage_node := (\<lambda>_ _. Inr demo_complete_node)\<rparr>"

definition demo_new_node :: StorageNode where
  "demo_new_node = with_status demo_registered_node (\<lambda>s. s\<lparr>sns_Registered := False\<rparr>)"

text \<open>The proxy does not accept connections.\<close>

definition demo_down_env :: env where
  "demo_down_env = demo_proxy_env\<lparr>sql_open := (\<lambda>_ _ _. Inl (ApiError OtherReason ''refused''))\<rparr>"

end
