(* ===== verification/Storage_Node_Safety.thy ===== *)
theory Storage_Node_Safety
  imports Storage_Node_Examples
begin

text \<open>
  Which calls the handlers of the storage node controller can make, and in which order. The
  first part classifies the calls and says for every operation, generically in the predicate,
  which calls it is limited to; the properties follow by composition.
\<close>

section \<open>Classes of calls\<close>

fun destructive :: "call \<Rightarrow> bool" where
  "destructive (RdsDeleteInstance q) = True"
| "destructive (RdsDeleteCluster q) = True"
| "destructive (AuroraDelete q) = True"
| "destructive (CnpgDelete c) = True"
| "destructive _ = False"

fun creative :: "call \<Rightarrow> bool" where
  "creative (RdsCreateInstance q) = True"
| "creative (RdsCreateCluster q) = True"
| "creative (AuroraCreate q) = True"
| "creative (CnpgCreate c) = True"
| "creative _ = False"

text \<open>Calls that neither create nor delete a database nor write a storage node.\<close>

fun neutral :: "call \<Rightarrow> bool" where
  "neutral (KubeUpdateStorageNode n) = False"
| "neutral (KubeUpdateStorageNodeStatus n) = False"
| "neutral (CnpgUpdate c) = False"
| "neutral c = (\<not> destructive c \<and> \<not> creative c)"

text \<open>Neutral calls that do not go to a proxy either.\<close>

fun plain :: "call \<Rightarrow> bool" where
  "plain (SqlOpen d s) = False"
| "plain SqlPing = False"
| "plain (SqlExec s) = False"
| "plain (SqlQuery s) = False"
| "plain SqlCloseRows = False"
| "plain SqlClose = False"
| "plain c = neutral c"

lemma plain_neutral [simp]: "plain c \<Longrightarrow> neutral c" "plain c \<Longrightarrow> \<not> sql_call c"
  by (cases c; simp)+

section \<open>Limits of the operations\<close>

lemma within_from_sum [within_intros]: "within P (from_sum r)"
  by (simp add: from_sum_def within_case_sum)

lemma within_event [within_intros]: "P (RecordEvent n t r m) \<Longrightarrow> within P (event n t r m)"
  by (simp add: event_def)

lemma within_sql [within_intros]:
  assumes "\<And>c. sql_call c \<Longrightarrow> P c"
  shows "within P (NewServer e d h p u w)" "within P (CreateDatabase e db)"
    "within P (RegisterStorageUnit e l d h p n u w)" "within P (UnRegisterStorageUnit e l d)"
  by (rule server_sql [THEN within_mono]; erule assms)+

lemma sql_call_neutral: "sql_call c \<Longrightarrow> neutral c"
  by (cases c) simp_all

lemma within_getAwsRdsClient [within_intros]:
  "(\<And>s. P (AwsBuildSession s)) \<Longrightarrow> within P (getAwsRdsClient r)"
  by (simp add: within_def getAwsRdsClient_def)

lemma within_describe [within_intros]:
  assumes "\<And>c. plain c \<Longrightarrow> P c"
  shows "within P (GetInstance e n)" "within P (GetRDSCluster e n)" "within P (GetAuroraCluster e n)"
    "within P (GetInstancesByFilters e f)" "within P (GetClusterByNamespacedName e nn)"
    "within P (getServiceByNamespacedName e nn)"
  unfolding GetInstance_def GetRDSCluster_def GetAuroraCluster_def GetInstancesByFilters_def
    GetClusterByNamespacedName_def getServiceByNamespacedName_def
  by (intro within_intros; simp add: assms)+

lemma within_check_annotations [within_intros]:
  "(\<And>c. plain c \<Longrightarrow> P c) \<Longrightarrow> within P (check_annotations as n)"
  by (induction as) (simp_all add: event_def within_bind)

lemma within_getShardingsphereServer [within_intros]:
  assumes "\<And>c. neutral c \<Longrightarrow> P c"
  shows "within P (getShardingsphereServer e n)"
  unfolding getShardingsphereServer_def Let_def
  by (auto split: list.split intro!: within_intros simp: assms sql_call_neutral)

lemma within_registration [within_intros]:
  assumes "\<And>c. neutral c \<Longrightarrow> P c"
  shows "within P (registerStorageUnit e n sp)" "within P (unregisterStorageUnit e n)"
  unfolding registerStorageUnit_def unregisterStorageUnit_def Let_def validateComputeNodeAnnotations_def
  by (intro within_intros; simp add: assms sql_call_neutral)+

lemma within_getStorageProvider [within_intros]:
  assumes "\<And>c. plain c \<Longrightarrow> P c"
  shows "within P (getStorageProvider e r n)"
  unfolding getStorageProvider_def by (intro within_intros; simp add: assms)

lemma within_updateClusterStatus [within_intros]:
  assumes "\<And>c. plain c \<Longrightarrow> P c"
  shows "within P (updateClusterStatus e n c)"
  unfolding updateClusterStatus_def Let_def by (intro within_intros; simp add: assms)

lemma within_generate [within_intros]:
  assumes "\<And>c. plain c \<Longrightarrow> P c"
  shows "within P (generate e k)"
  unfolding generate_def by (intro within_intros; simp add: assms)

lemma within_fill_required [within_intros]:
  "(\<And>c. plain c \<Longrightarrow> P c) \<Longrightarrow> within P (fill_required e ks params)"
  by (induction ks arbitrary: params) (auto intro!: within_intros)

lemma within_validation [within_intros]:
  assumes "\<And>c. plain c \<Longrightarrow> P c"
  shows "within P (validCreateInstanceParams e n params)"
    "within P (validateCreateRDSClusterParams e n params)"
    "within P (validateCreateAuroraParams e n params)"
  unfolding validCreateInstanceParams_def validateCreateRDSClusterParams_def
    validateCreateAuroraParams_def set_annotation_def Let_def
  by (rule within_read; (intro within_intros; simp add: assms))+

lemma within_create [within_intros]:
  assumes "\<And>c. plain c \<or> creative c \<Longrightarrow> P c"
  shows "within P (CreateInstance e n params)" "within P (CreateRDSCluster e n params)"
    "within P (CreateAuroraCluster e n params)" "within P (createCloudNativePGCluster e n sp)"
  unfolding CreateInstance_def CreateRDSCluster_def CreateAuroraCluster_def
    createCloudNativePGCluster_def Let_def
  by (intro within_intros; simp add: assms)+

lemma within_delete [within_intros]:
  assumes "\<And>c. plain c \<or> destructive c \<Longrightarrow> P c"
  shows "within P (DeleteInstance e n sp)" "within P (DeleteRDSCluster e n sp)"
    "within P (DeleteAuroraCluster e n sp)"
  unfolding DeleteInstance_def DeleteRDSCluster_def DeleteAuroraCluster_def Let_def
  by (intro within_intros; simp add: assms)+

lemma within_report_delete [within_intros]:
  "within P d \<Longrightarrow> (\<And>c. plain c \<Longrightarrow> P c) \<Longrightarrow> within P (report_delete n w i d)"
  unfolding report_delete_def by (intro within_intros; simp)

lemma within_deleteDatabaseCluster [within_intros]:
  assumes "\<And>c. plain c \<or> destructive c \<Longrightarrow> P c"
  shows "within P (deleteDatabaseCluster e r n sp)"
  unfolding deleteDatabaseCluster_def deleteAWSRDSInstance_def deleteAWSRDSCluster_def
    deleteAWSAurora_def Let_def
  by (intro within_intros; simp add: assms)

lemma within_reconcile_resource [within_intros]:
  assumes "\<And>c. plain c \<or> creative c \<Longrightarrow> P c"
  shows "within P (reconcileAwsRdsInstance e n sp)" "within P (reconcileAwsRDSCluster e n sp)"
    "within P (reconcileAwsAurora e n sp)"
  unfolding reconcileAwsRdsInstance_def reconcileAwsRDSCluster_def reconcileAwsAurora_def
  by (intro within_intros; simp add: assms)+

lemma within_reconcileCloudNativePG [within_intros]:
  assumes "\<And>c. plain c \<or> creative c \<Longrightarrow> P c" and "\<And>c. P (CnpgUpdate c)"
  shows "within P (reconcileCloudNativePG e n sp)"
  unfolding reconcileCloudNativePG_def r_updateCloudNativePGCluster_def Let_def
  by (intro within_intros; simp add: assms)

lemma within_writeDesiredStatus:
  "(\<And>tr. P (KubeUpdateStorageNodeStatus
       (n\<lparr>sn_Status := computeDesiredState e (clock_now e tr) (sn_Status n)\<rparr>))) \<Longrightarrow>
   within P (writeDesiredStatus e old n)"
  unfolding writeDesiredStatus_def Let_def updateStorageNodeStatus_def
  by (rule within_read) (intro within_intros; simp)

lemma within_provision:
  assumes "\<And>c. plain c \<or> creative c \<Longrightarrow> P c" and "\<And>c. P (CnpgUpdate c)"
    and "provision e r n sp = Some (what, prov)"
  shows "within P prov"
  using assms(3) unfolding provision_def
  by (auto split: if_splits intro!: within_intros simp: assms(1,2))

text \<open>
  The calls of \<^verbatim>\<open>reconcile\<close>: those of the provisioner, neutral ones, and one status write on
  what the provisioner and the registration made of the node.
\<close>

lemma within_reconcile_parts:
  assumes P: "\<And>c. plain c \<or> creative c \<Longrightarrow> P c" "\<And>c. P (CnpgUpdate c)"
    and register: "\<And>what prov tr tr1 n1 sp1. provision e r n sp = Some (what, prov) \<Longrightarrow>
      prov tr = (Ok (n1, sp1), tr1) \<Longrightarrow> within P (registerStorageUnit e n1 sp1)"
    and written: "\<And>what prov tr tr1 n1 sp1 tr2 tr3 n2 tr4. provision e r n sp = Some (what, prov) \<Longrightarrow>
      prov tr = (Ok (n1, sp1), tr1) \<Longrightarrow> registerStorageUnit e n1 sp1 tr2 = (Ok n2, tr3) \<Longrightarrow>
      P (KubeUpdateStorageNodeStatus
        (n2\<lparr>sn_Status := computeDesiredState e (clock_now e tr4) (sn_Status n2)\<rparr>))"
  shows "within P (reconcile e r sp n)"
proof (cases "provision e r n sp")
  case None
  then show ?thesis unfolding reconcile_def by (simp add: event_def P within_intros)
next
  case (Some wp)
  obtain what prov where wp: "wp = (what, prov)" by fastforce
  have prov: "within P prov" by (rule within_provision) (use Some wp in \<open>auto simp: P\<close>)
  have reg: "within P (register_and_write e old n1 sp1)"
    if "prov tr = (Ok (n1, sp1), tr1)" for tr n1 sp1 tr1 old
    unfolding register_and_write_def
    by (rule within_bind_Ok)
      (auto simp: attempt_Ok_iff P event_def split: sum.split
        intro!: within_attempt within_bind within_emit within_ret within_writeDesiredStatus
          register [OF Some [unfolded wp] that] written [OF Some [unfolded wp] that])
  show ?thesis
    unfolding reconcile_def reconcile_failed_def Some wp option.case prod.case
    by (rule within_bind_Ok)
      (auto simp: attempt_Ok_iff P prov split: sum.split prod.split intro!: within_intros reg)
qed

lemma within_reconcile_tracked:
  assumes P: "\<And>c. neutral c \<or> creative c \<Longrightarrow> P c" "\<And>c. P (CnpgUpdate c)"
    and written: "\<And>what prov tr tr1 n1 sp1 tr2 tr3 n2 tr4. provision e r n sp = Some (what, prov) \<Longrightarrow>
      prov tr = (Ok (n1, sp1), tr1) \<Longrightarrow> registerStorageUnit e n1 sp1 tr2 = (Ok n2, tr3) \<Longrightarrow>
      P (KubeUpdateStorageNodeStatus
        (n2\<lparr>sn_Status := computeDesiredState e (clock_now e tr4) (sn_Status n2)\<rparr>))"
  shows "within P (reconcile e r sp n)"
proof (rule within_reconcile_parts)
  show "P c" if "plain c \<or> creative c" for c using that by (auto simp: P)
  show "within P (registerStorageUnit e m q)" for m q by (rule within_registration) (simp add: P)
qed (fact P(2) written)+

lemma within_reconcile:
  assumes "\<And>c. neutral c \<or> creative c \<Longrightarrow> P c" and "\<And>c. P (CnpgUpdate c)"
    and "\<And>n. P (KubeUpdateStorageNodeStatus n)"
  shows "within P (reconcile e r sp n)"
  by (rule within_reconcile_tracked) (simp_all add: assms)

lemma within_finalizeCloudNativePG:
  assumes "\<And>c. neutral c \<or> destructive c \<Longrightarrow> P c"
    and "P (KubeUpdateStorageNode (set_finalizers (removeAll ChaosFinalizerName (sn_Finalizers n)) n))"
  shows "within P (finalizeCloudNativePG e n sp)"
  unfolding finalizeCloudNativePG_def updateStorageNode_def by (intro within_intros; simp add: assms)

text \<open>The two ways through \<^verbatim>\<open>finalize\<close>: drop the finalizer, or work on the resources.\<close>

lemma within_finalizeI:
  assumes "\<And>m. sn_Phase node \<noteq> PhaseDeleteComplete \<Longrightarrow>
      m \<in> {node, with_status node (\<lambda>s. s\<lparr>sns_Phase := PhaseDeleting\<rparr>)} \<Longrightarrow>
      within P (finalize_resources e r (sn_Status node) m sp)"
    and "sn_Phase node = PhaseDeleteComplete \<Longrightarrow> P (KubeUpdateStorageNode
      (set_finalizers (filter (\<lambda>f. f \<noteq> FinalizerName) (sn_Finalizers node)) node))"
  shows "within P (finalize e r node sp)"
  unfolding finalize_def Let_def updateStorageNode_def using assms
  by (auto split: StorageNodePhaseStatus.split intro!: within_intros)

lemma within_finalize:
  assumes "\<And>c. neutral c \<or> destructive c \<Longrightarrow> P c" and "\<And>n. P (KubeUpdateStorageNode n)"
    and "\<And>n. P (KubeUpdateStorageNodeStatus n)"
  shows "within P (finalize e r n sp)"
  by (rule within_finalizeI, unfold finalize_resources_def,
      intro within_intros within_writeDesiredStatus within_finalizeCloudNativePG) (auto simp: assms)

lemma within_Reconcile_fetched:
  assumes P: "\<And>c. neutral c \<Longrightarrow> P c"
    and rec: "\<And>sp m. meta_DeletionTimestamp (sn_meta n) = None \<or> FinalizerName \<notin> set (sn_Finalizers n) \<Longrightarrow>
      within P (reconcile e r sp m)"
    and fin: "\<And>sp. meta_DeletionTimestamp (sn_meta n) \<noteq> None \<Longrightarrow> FinalizerName \<in> set (sn_Finalizers n) \<Longrightarrow>
      within P (finalize e r n sp)"
    and upd: "meta_DeletionTimestamp (sn_meta n) = None \<Longrightarrow>
      P (KubeUpdateStorageNode (set_finalizers (sn_Finalizers n @ [FinalizerName]) n))"
  shows "within P (Reconcile_fetched e r n)"
  unfolding Reconcile_fetched_def addFinalizer_def updateStorageNode_def
  by (intro within_intros) (auto simp: P upd intro: rec fin)

lemma Reconcile_fetched_extends: "within (\<lambda>_. True) (Reconcile_fetched e r n)"
  by (rule within_Reconcile_fetched) (auto intro: within_reconcile within_finalize)

lemma Reconcile_added:
  "added (Reconcile e r req) tr = KubeGetStorageNode req #
     (case kube_get_storage_node e tr req of Inl _ \<Rightarrow> []
      | Inr n \<Rightarrow> added (Reconcile_fetched e r n) (tr @ [KubeGetStorageNode req]))"
proof -
  have "snd (Reconcile e r req tr) = tr @ KubeGetStorageNode req #
     (case kube_get_storage_node e tr req of Inl _ \<Rightarrow> []
      | Inr n \<Rightarrow> added (Reconcile_fetched e r n) (tr @ [KubeGetStorageNode req]))"
    by (simp add: Reconcile_def snd_added [OF Reconcile_fetched_extends] split: sum.split)
  then show ?thesis by (simp add: added_def [of "Reconcile e r req"])
qed

lemma Reconcile_call_cases:
  assumes "c \<in> set (added (Reconcile e r req) tr)"
  obtains "c = KubeGetStorageNode req"
    | n where "kube_get_storage_node e tr req = Inr n"
        "c \<in> set (added (Reconcile_fetched e r n) (tr @ [KubeGetStorageNode req]))"
  using assms by (cases "kube_get_storage_node e tr req") (auto simp: Reconcile_added)

section \<open>Properties of the reconcile loop\<close>



lemma neutral_not [simp]: "neutral c \<Longrightarrow> \<not> destructive c" "neutral c \<Longrightarrow> \<not> creative c"
  "neutral c \<Longrightarrow> c \<noteq> KubeUpdateStorageNode n" "neutral c \<Longrightarrow> c \<noteq> KubeUpdateStorageNodeStatus n"
  by (cases c; simp)+

lemma creative_not [simp]: "creative c \<Longrightarrow> \<not> destructive c"
  "creative c \<Longrightarrow> c \<noteq> KubeUpdateStorageNode n" "creative c \<Longrightarrow> c \<noteq> KubeUpdateStorageNodeStatus n"
  by (cases c; simp)+

lemma destructive_not [simp]: "destructive c \<Longrightarrow> \<not> creative c"
  "destructive c \<Longrightarrow> c \<noteq> KubeUpdateStorageNode n" "destructive c \<Longrightarrow> c \<noteq> KubeUpdateStorageNodeStatus n"
  by (cases c; simp)+

lemma UnRegisterStorageUnit_sends:
  "UnRegisterStorageUnit e l d tr = (Ok (), tr') \<Longrightarrow> \<exists>new. tr' = tr @ new \<and>
     SqlExec (DistSQLUnRegisterStorageUnit d) \<in> set new"
proof -
  assume run: "UnRegisterStorageUnit e l d tr = (Ok (), tr')"
  then have "\<exists>tr1. tr' = tr1 @ [SqlExec (DistSQLUnRegisterStorageUnit d)]"
    by (auto simp: UnRegisterStorageUnit_def Exec_def io_Ok)
  moreover from UnRegisterStorageUnit_sql run obtain new where "tr' = tr @ new" by (rule withinE)
  moreover have "new \<noteq> []" if "tr' = tr @ new" for new
    using that run withinE [OF getRulesUsed_sql]
    by (auto simp: UnRegisterStorageUnit_def Exec_def io_Ok dest!: drop_loop_trace elim!: withinE [OF getRulesUsed_sql])
  ultimately show ?thesis by (metis append_eq_append_conv2 last_appendR last_in_set last_snoc self_append_conv)
qed

lemma unregister_sends:
  assumes "unregisterStorageUnit e n tr = (Ok n', tr')" and "sns_Registered (sn_Status n)"
  shows "SqlExec (DistSQLUnRegisterStorageUnit (getDSName n)) \<in> set (added (unregisterStorageUnit e n) tr)"
proof -
  have ext: "within neutral (unregisterStorageUnit e n)" by (rule within_registration)
  have srv: "within neutral (getShardingsphereServer e n)" by (rule within_getShardingsphereServer)
  have val: "within neutral (validateComputeNodeAnnotations n)"
    unfolding validateComputeNodeAnnotations_def by (rule within_check_annotations) simp
  from assms obtain tr1 tr2 tr3 where
    1: "validateComputeNodeAnnotations n tr = (Ok (), tr1)" and
    2: "getShardingsphereServer e n tr1 = (Ok (), tr2)" and
    3: "UnRegisterStorageUnit e (mget (sn_Annotations n) AnnotationKeyLogicDatabaseName) (getDSName n) tr2 = (Ok (), tr3)" and
    4: "\<exists>new. tr' = tr3 @ new"
    by (auto simp: unregisterStorageUnit_def io_Ok event_def)
  from val 1 obtain a where a: "tr1 = tr @ a" by (rule withinE)
  from srv 2 obtain b where b: "tr2 = tr1 @ b" by (rule withinE)
  from UnRegisterStorageUnit_sends [OF 3] obtain c where
    c: "tr3 = tr2 @ c" "SqlExec (DistSQLUnRegisterStorageUnit (getDSName n)) \<in> set c" by blast
  from a b c 4 assms(1) show ?thesis by (auto simp: added_def)
qed

text \<open>
  C2. When a registered storage node that is not on CloudNativePG is finalized, every call that
  deletes its database comes after the \<^verbatim>\<open>UNREGISTER STORAGE UNIT\<close> statement for its data
  source has been sent to the proxy.
\<close>

theorem finalize_unregisters_before_delete:
  assumes "added (finalize e r node sp) tr = before @ c # after" and "destructive c"
    and "sns_Registered (sn_Status node)" and "sp_Provisioner sp \<noteq> ProvisionerCloudNativePG"
  shows "SqlExec (DistSQLUnRegisterStorageUnit (getDSName node)) \<in> set before"
proof -
  let ?un = "SqlExec (DistSQLUnRegisterStorageUnit (getDSName node))"
  have res: "?un \<in> set before"
    if run: "added (finalize_resources e r old m sp) tr = before @ c # after"
      and m: "sns_Registered (sn_Status m)" "getDSName m = getDSName node" for old m
  proof -
    have un: "within (\<lambda>c. \<not> destructive c) (unregisterStorageUnit e m)" by (rule within_registration) simp
    have "added (bind_io (attempt (unregisterStorageUnit e m)) (\<lambda>u. case u of
          Inl err \<Rightarrow> ret (res_after, Some err)
        | Inr node \<Rightarrow> bind_io (attempt (deleteDatabaseCluster e r node sp)) (\<lambda>d. case d of
            Inl err \<Rightarrow> ret (res_after, Some err)
          | Inr node \<Rightarrow> writeDesiredStatus e old node))) tr = before @ c # after"
      using run assms(4) by (simp add: finalize_resources_def)
    then obtain u ys where u: "fst (attempt (unregisterStorageUnit e m) tr) = Ok u"
      and before: "before = added (unregisterStorageUnit e m) tr @ ys"
      and rest: "added (case u of Inl err \<Rightarrow> ret (res_after, Some err)
        | Inr node \<Rightarrow> bind_io (attempt (deleteDatabaseCluster e r node sp)) (\<lambda>d. case d of
            Inl err \<Rightarrow> ret (res_after, Some err)
          | Inr node \<Rightarrow> writeDesiredStatus e old node)) (snd (unregisterStorageUnit e m tr)) = ys @ c # after"
      using assms(2) within_attempt [OF un]
      by (rule class_after_first_part [where Q = "\<lambda>_. True"])
        (auto intro!: within_intros within_writeDesiredStatus)
    then obtain m' where "fst (unregisterStorageUnit e m tr) = Ok m'"
      by (cases u) (auto simp: fst_attempt split: outcome.splits)
    then have "?un \<in> set (added (unregisterStorageUnit e m) tr)"
      using unregister_sends [of e m tr m'] m by (metis prod.collapse)
    with before show ?thesis by simp
  qed
  show ?thesis
  proof (cases "sn_Phase node")
    case PhaseDeleteComplete
    then have "added (finalize e r node sp) tr = [KubeUpdateStorageNode
        (set_finalizers (filter (\<lambda>f. f \<noteq> FinalizerName) (sn_Finalizers node)) node)]"
      by (simp add: finalize_def added_def updateStorageNode_def)
    with assms(1,2) show ?thesis by (auto simp: Cons_eq_append_conv)
  qed (use assms res in \<open>simp_all add: finalize_def with_status_def getDSName_def\<close>)
qed

theorem finalize_unregisters_before_delete_witness:
  "\<exists>before c after.
     added (finalize demo_proxy_env demo_reconciler demo_registered_node demo_provider) [] = before @ c # after \<and>
     destructive c \<and> SqlExec (DistSQLUnRegisterStorageUnit (getDSName demo_registered_node)) \<in> set before"
proof -
  have "list_ex destructive (added (finalize demo_proxy_env demo_reconciler demo_registered_node demo_provider) [])"
    by code_simp
  then obtain c where "c \<in> set (added (finalize demo_proxy_env demo_reconciler demo_registered_node demo_provider) [])"
    and c: "destructive c" by (auto simp: list_ex_iff)
  then obtain before after where
    run: "added (finalize demo_proxy_env demo_reconciler demo_registered_node demo_provider) [] = before @ c # after"
    by (meson split_list)
  have "sns_Registered (sn_Status demo_registered_node)" by (simp add: demo_registered_node_def)
  moreover have "sp_Provisioner demo_provider \<noteq> ProvisionerCloudNativePG"
    by (simp add: demo_provider_def provisioner_defs)
  ultimately show ?thesis using run c finalize_unregisters_before_delete [OF run c] by blast
qed

text \<open>
  C3. A reconciliation writes a storage node without the operator's finalizer only for a node
  that is being deleted and carries it, and only in phase \<^verbatim>\<open>DeleteComplete\<close> or on CloudNativePG.
\<close>

theorem finalizer_removed_only_when_complete:
  assumes "KubeUpdateStorageNode n \<in> set (added (Reconcile e r req) tr)"
    and "FinalizerName \<notin> set (sn_Finalizers n)"
  shows "\<exists>node. kube_get_storage_node e tr req = Inr node \<and>
    meta_DeletionTimestamp (sn_meta node) \<noteq> None \<and> FinalizerName \<in> set (sn_Finalizers node) \<and>
    (sn_Phase node = PhaseDeleteComplete \<or>
     (\<exists>tr' sp. kube_get_storage_provider e tr' (sn_StorageProviderName node) = Inr sp \<and>
        sp_Provisioner sp = ProvisionerCloudNativePG))"
  using assms(1)
proof (cases rule: Reconcile_call_cases)
  case 1
  then show ?thesis by simp
next
  case (2 node)
  let ?keeps = "\<lambda>c. \<forall>n. c = KubeUpdateStorageNode n \<longrightarrow> FinalizerName \<in> set (sn_Finalizers n)"
  have fin: "within ?keeps (finalize e r node sp)"
    if "sn_Phase node \<noteq> PhaseDeleteComplete" "sp_Provisioner sp \<noteq> ProvisionerCloudNativePG" for sp
    using that by (intro within_finalizeI)
      (auto simp: finalize_resources_def intro!: within_intros within_writeDesiredStatus)
  have sp: "\<exists>h. kube_get_storage_provider e h (sn_StorageProviderName node) = Inr sp"
    if "getStorageProvider e r node h = (Ok sp, h')" for h h' sp
    using that by (auto simp: getStorageProvider_def io_Ok event_def split: if_splits sum.splits)
  show ?thesis
  proof (rule ccontr)
    assume neg: "\<not> ?thesis"
    have "within ?keeps (Reconcile_fetched e r node)"
      unfolding Reconcile_fetched_def addFinalizer_def updateStorageNode_def
      by (rule within_bind_Ok)
        (use neg 2(1) sp in \<open>auto simp: attempt_Ok_iff set_finalizers_def split: sum.split
          intro!: within_intros within_reconcile fin dest: sp\<close>)
    with 2(2) assms(2) show False by (auto dest: within_added)
  qed
qed

fun drops_finalizer :: "call \<Rightarrow> bool" where
  "drops_finalizer (KubeUpdateStorageNode n) = (FinalizerName \<notin> set (sn_Finalizers n))"
| "drops_finalizer _ = False"

lemma drops_finalizer_iff:
  "drops_finalizer c \<longleftrightarrow> (\<exists>n. c = KubeUpdateStorageNode n \<and> FinalizerName \<notin> set (sn_Finalizers n))"
  by (cases c) simp_all

theorem finalizer_removed_only_when_complete_witness:
  "\<exists>n node. drops_finalizer (KubeUpdateStorageNode n) \<and>
     kube_get_storage_node demo_complete_env [] (''prod'', ''order-db'') = Inr node \<and>
     sn_Phase node = PhaseDeleteComplete \<and> FinalizerName \<in> set (sn_Finalizers node)"
proof -
  let ?run = "added (Reconcile demo_complete_env demo_reconciler (''prod'', ''order-db'')) []"
  have "list_ex drops_finalizer ?run" by code_simp
  then obtain n where n: "KubeUpdateStorageNode n \<in> set ?run" "FinalizerName \<notin> set (sn_Finalizers n)"
    by (auto simp: list_ex_iff drops_finalizer_iff)
  have "sn_Phase demo_complete_node = PhaseDeleteComplete" by (simp add: demo_complete_node_def with_status_def)
  with finalizer_removed_only_when_complete [OF n] n(2) show ?thesis
    by (auto simp: demo_complete_env_def)
qed

end
