(* ===== verification/Storage_Node_Lifecycle.thy ===== *)
theory Storage_Node_Lifecycle
  imports Storage_Node_Safety
begin

text \<open>
  What the storage node controller does to a node's status: which parts of the node a handler
  leaves alone, that every status it writes is consistent with its conditions, when a node is
  registered, and that a deletion reaches its end.
\<close>

section \<open>What provisioning and registration leave alone\<close>

text \<open>
  \<open>same_but_password m n\<close>: same name, conditions and registration, and the same annotations
  except for the master password that the creation of an RDS instance writes back.
\<close>

definition same_but_password :: "StorageNode \<Rightarrow> StorageNode \<Rightarrow> bool" where
  "same_but_password m n \<longleftrightarrow>
     sn_Name m = sn_Name n \<and> sns_Conditions (sn_Status m) = sns_Conditions (sn_Status n) \<and>
     sns_Registered (sn_Status m) = sns_Registered (sn_Status n) \<and>
     (\<forall>k. k \<noteq> AnnotationsMasterUserPassword \<longrightarrow>
        mlookup (sn_Annotations m) k = mlookup (sn_Annotations n) k)"

lemma same_but_password_refl [simp]: "same_but_password n n"
  by (simp add: same_but_password_def)

lemma updateAWSRDSInstanceStatus_frame [simp]:
  "same_but_password (updateAWSRDSInstanceStatus m i) n = same_but_password m n"
  "sn_Phase (updateAWSRDSInstanceStatus m i) = sn_Phase m"
  "sns_Cluster (sn_Status (updateAWSRDSInstanceStatus m i)) = sns_Cluster (sn_Status m)"
  "sn_meta (updateAWSRDSInstanceStatus m i) = sn_meta m"
  by (simp_all add: updateAWSRDSInstanceStatus_def with_status_def same_but_password_def split: option.split)

lemma CreateInstance_frame:
  assumes "CreateInstance e n params tr = (Ok (m, params'), tr')"
  shows "same_but_password m n \<and> sn_Status m = sn_Status n"
  using assms
  by (auto simp: CreateInstance_def validCreateInstanceParams_def set_annotation_def mput_def Let_def
      io_Ok from_sum_def same_but_password_def mlookup_def
      split: if_splits option.splits sum.splits)

lemma updateClusterStatus_frame:
  assumes "updateClusterStatus e n c tr = (Ok m, tr')"
  shows "same_but_password m n \<and> sn_Phase m = sn_Phase n"
  using assms
  by (auto simp: updateClusterStatus_def io_Ok with_status_def same_but_password_def GetInstancesByFilters_def Let_def)

lemma provision_frame:
  assumes "provision e r n sp = Some (what, prov)" and "prov tr = (Ok (m, sp'), tr')"
  shows "same_but_password m n \<and> (sp_Provisioner sp \<noteq> ProvisionerCloudNativePG \<longrightarrow> sn_Phase m = sn_Phase n)"
proof -
  have rds: "same_but_password m n \<and> sn_Phase m = sn_Phase n"
    if "reconcileAwsRdsInstance e n sp h = (Ok (m, sp'), tr')" for h
    using that by (auto simp: reconcileAwsRdsInstance_def io_Ok split: if_splits dest!: CreateInstance_frame)
  have cluster: "same_but_password m n \<and> sn_Phase m = sn_Phase n"
    if "reconcileAwsRDSCluster e n sp h = (Ok (m, sp'), tr')" for h
    using that by (auto simp: reconcileAwsRDSCluster_def io_Ok split: if_splits dest!: updateClusterStatus_frame)
  have aurora: "same_but_password m n \<and> sn_Phase m = sn_Phase n"
    if "reconcileAwsAurora e n sp h = (Ok (m, sp'), tr')" for h
    using that by (auto simp: reconcileAwsAurora_def io_Ok split: if_splits dest!: updateClusterStatus_frame)
  have cnpg: "same_but_password m n" if "reconcileCloudNativePG e n sp h = (Ok (m, sp'), tr')" for h
    using that by (auto simp: reconcileCloudNativePG_def io_Ok updateCloudNativePGCluster_def
        with_status_def same_but_password_def Let_def split: option.splits)
  from assms show ?thesis
    by (auto simp: provision_def io_Ok split: if_splits dest!: rds cluster aurora dest: cnpg)
qed

lemma register_frame:
  assumes "registerStorageUnit e n sp tr = (Ok m, tr')"
  shows "sns_Conditions (sn_Status m) = sns_Conditions (sn_Status n) \<and> sn_Phase m = sn_Phase n \<and> sn_meta m = sn_meta n"
  using assms
  by (auto simp: registerStorageUnit_def io_Ok event_def with_status_def Let_def split: if_splits)

lemma unregister_frame:
  assumes "unregisterStorageUnit e n tr = (Ok m, tr')"
  shows "m = with_status n (\<lambda>s. s\<lparr>sns_Registered := False\<rparr>)"
  using assms
  by (auto simp: unregisterStorageUnit_def io_Ok event_def with_status_def Let_def split: if_splits)

lemma deleteDatabaseCluster_frame:
  assumes "deleteDatabaseCluster e r n sp tr = (Ok m, tr')"
  shows "sns_Conditions (sn_Status m) = sns_Conditions (sn_Status n) \<and> sn_Phase m = sn_Phase n \<and> sn_meta m = sn_meta n"
  using assms
  by (auto simp: deleteDatabaseCluster_def deleteAWSRDSInstance_def deleteAWSRDSCluster_def
      deleteAWSAurora_def updateClusterStatus_def with_status_def updateAWSRDSInstanceStatus_def
      Let_def io_Ok split: if_splits option.splits)

section \<open>The written status\<close>

definition flag :: "bool \<Rightarrow> ConditionStatus" where
  "flag b = (if b then ConditionTrue else ConditionFalse)"

definition condition_says :: "StorageNodeConditions \<Rightarrow> StorageNodeConditionType \<Rightarrow> bool \<Rightarrow> bool" where
  "condition_says cs t b = (case find_condition t cs of None \<Rightarrow> False | Some c \<Rightarrow> cond_Status c = flag b)"

text \<open>
  The conditions of a status tell the truth about its other fields: one condition per type,
  \<^verbatim>\<open>Available\<close> true exactly in phase \<^verbatim>\<open>Ready\<close>, \<^verbatim>\<open>Registered\<close> as the field says, and \<^verbatim>\<open>ClusterReady\<close>
  present exactly when a cluster status is reported and true exactly when it is available.
\<close>

definition conditions_reflect :: "env \<Rightarrow> StorageNodeStatus \<Rightarrow> bool" where
  "conditions_reflect e st =
     (let cs = sns_Conditions st; cluster = cls_Status (sns_Cluster st)
      in distinct_types cs \<and>
         condition_says cs TypeAvailable (sns_Phase st = PhaseReady) \<and>
         condition_says cs TypeRegistered (sns_Registered st) \<and>
         (if cluster = [] then find_condition TypeClusterReady cs = None
          else condition_says cs TypeClusterReady (cluster = DBClusterStatusAvailable e)))"

lemma mk_condition_sel [simp]: "cond_Type (mk_condition t s n r) = t" "cond_Status (mk_condition t s n r) = s"
  by (simp_all add: mk_condition_def)

lemma computeNewConditions_distinct:
  "distinct_types (sns_Conditions status) \<Longrightarrow> distinct_types (computeNewConditions e clk d status c)"
  by (simp add: computeNewConditions_def Let_def conditions.wf_upsert conditions.wf_remove)

lemma computeNewConditions_says:
  "condition_says (computeNewConditions e clk d status c) TypeAvailable b = (b = (sns_Phase d = PhaseReady))"
  "condition_says (computeNewConditions e clk d status c) TypeRegistered b = (b = sns_Registered status)"
  "c \<noteq> [] \<Longrightarrow> condition_says (computeNewConditions e clk d status c) TypeClusterReady b = (b = (c = DBClusterStatusAvailable e))"
  "c = [] \<Longrightarrow> find_condition TypeClusterReady (computeNewConditions e clk d status c) = None"
  by (simp_all add: condition_says_def flag_def computeNewConditions_def Let_def
      conditions.lookup_upsert conditions.lookup_remove)

lemma computeDesiredState_reflects:
  "distinct_types (sns_Conditions status) \<Longrightarrow> conditions_reflect e (computeDesiredState e clk status)"
  by (simp add: conditions_reflect_def computeDesiredState_def Let_def computeNewConditions_says
      computeNewConditions_distinct)

text \<open>
  The status writes of \<^verbatim>\<open>finalize\<close>: what the deletion handler made of the node, in the phase the
  first \<^verbatim>\<open>switch\<close> chose, with the conditions of the node.
\<close>

definition finalizing_phase :: "StorageNodePhaseStatus \<Rightarrow> StorageNodePhaseStatus" where
  "finalizing_phase p = (if p = PhaseReady \<or> p = PhaseNotReady then PhaseDeleting else p)"

lemma within_finalize_tracked:
  assumes P: "\<And>c. neutral c \<or> destructive c \<Longrightarrow> P c" "\<And>n. P (KubeUpdateStorageNode n)"
    and written: "\<And>m tr. sns_Conditions (sn_Status m) = sns_Conditions (sn_Status node) \<Longrightarrow>
      sn_Phase m = finalizing_phase (sn_Phase node) \<Longrightarrow>
      P (KubeUpdateStorageNodeStatus
        (m\<lparr>sn_Status := computeDesiredState e (clock_now e tr) (sn_Status m)\<rparr>))"
  shows "within P (finalize e r node sp)"
proof -
  have res: "within P (finalize_resources e r old m sp)"
    if m: "sns_Conditions (sn_Status m) = sns_Conditions (sn_Status node)"
      "sn_Phase m = finalizing_phase (sn_Phase node)" for old m
  proof -
    have del: "within P (bind_io (attempt (deleteDatabaseCluster e r k sp)) (\<lambda>d. case d of
            Inl err \<Rightarrow> ret (res_after, Some err) | Inr node \<Rightarrow> writeDesiredStatus e old node))"
      if "unregisterStorageUnit e m h = (Ok k, h')" for k h h'
      by (rule within_bind_Ok)
        (use m unregister_frame [OF that] in \<open>auto simp: P attempt_Ok_iff with_status_def split: sum.split
          intro!: within_intros within_writeDesiredStatus written dest: deleteDatabaseCluster_frame\<close>)
    show ?thesis
    proof (cases "sp_Provisioner sp = ProvisionerCloudNativePG")
      case True
      then show ?thesis by (simp add: finalize_resources_def within_finalizeCloudNativePG P)
    next
      case False
      have "within P (bind_io (attempt (unregisterStorageUnit e m)) (\<lambda>u. case u of
          Inl err \<Rightarrow> ret (res_after, Some err)
        | Inr node \<Rightarrow> bind_io (attempt (deleteDatabaseCluster e r node sp)) (\<lambda>d. case d of
            Inl err \<Rightarrow> ret (res_after, Some err) | Inr node \<Rightarrow> writeDesiredStatus e old node)))"
        by (rule within_bind_Ok)
          (auto simp: P attempt_Ok_iff split: sum.split intro!: within_intros del)
      with False show ?thesis by (simp add: finalize_resources_def)
    qed
  qed
  show ?thesis
    unfolding finalize_def Let_def updateStorageNode_def
    by (auto split: StorageNodePhaseStatus.split intro!: within_intros res
        simp: P with_status_def finalizing_phase_def)
qed

text \<open>
  C4. Every status that a reconciliation or a finalization of a storage node writes tells the
  truth in its conditions, given that the node it works on lists each condition type at most
  once; so the invariant is kept from one round to the next.
\<close>

theorem written_status_consistent:
  assumes "KubeUpdateStorageNodeStatus n \<in> set (added (reconcile e r sp node) tr @ added (finalize e r node sp) tr')"
    and "distinct_types (sns_Conditions (sn_Status node))"
  shows "conditions_reflect e (sn_Status n)"
proof -
  let ?P = "\<lambda>c. \<forall>n. c = KubeUpdateStorageNodeStatus n \<longrightarrow> conditions_reflect e (sn_Status n)"
  have "within ?P (finalize e r node sp)"
    using assms(2) by (intro within_finalize_tracked) (auto intro!: computeDesiredState_reflects)
  moreover have "within ?P (reconcile e r sp node)"
    using assms(2)
    by (intro within_reconcile_tracked)
      (auto intro!: computeDesiredState_reflects dest!: provision_frame register_frame
        simp: same_but_password_def)
  ultimately show ?thesis using assms(1) by (auto dest!: within_added)
qed


section \<open>A deletion comes to its end\<close>

text \<open>
  What the API server keeps: a status write changes the status only, any other write leaves the
  status alone, as documented for the status subresource. \<open>stored n0 tr\<close> is the node after the
  history \<open>tr\<close>.
\<close>

fun apply_write :: "call \<Rightarrow> StorageNode \<Rightarrow> StorageNode" where
  "apply_write (KubeUpdateStorageNode m) n = m\<lparr>sn_Status := sn_Status n\<rparr>"
| "apply_write (KubeUpdateStorageNodeStatus m) n = n\<lparr>sn_Status := sn_Status m\<rparr>"
| "apply_write _ n = n"

definition stored :: "StorageNode \<Rightarrow> call list \<Rightarrow> StorageNode" where
  "stored n0 tr = fold apply_write tr n0"

lemma stored_append: "stored n0 (tr @ tr') = stored (stored n0 tr) tr'"
  by (simp add: stored_def)

lemma stored_Cons: "stored n (c # tr) = stored (apply_write c n) tr"
  by (simp add: stored_def)

lemma stored_Nil [simp]: "stored n [] = n"
  by (simp add: stored_def)

lemma apply_write_neutral: "neutral c \<Longrightarrow> apply_write c n = n"
  by (cases c) simp_all

lemma stored_neutral: "list_all neutral cs \<Longrightarrow> stored n cs = n"
  by (induction cs arbitrary: n) (simp_all add: stored_Cons apply_write_neutral)

lemma getAwsRdsClient_run:
  obtains s where "getAwsRdsClient r h = (Ok (), h @ s)" "list_all neutral s"
  by (cases "list_ex (is_session (AwsRegion r)) h") (auto simp: getAwsRdsClient_def)

lemma writeDesiredStatus_ok:
  assumes "\<And>h m. \<exists>x. kube_update_storage_node_status e h m = Inr x"
  shows "writeDesiredStatus e old n h = (Ok (res_after, None), h @ [KubeUpdateStorageNodeStatus
    (n\<lparr>sn_Status := computeDesiredState e (clock_now e h) (sn_Status n)\<rparr>)])"
proof -
  obtain x where "kube_update_storage_node_status e h
    (n\<lparr>sn_Status := computeDesiredState e (clock_now e h) (sn_Status n)\<rparr>) = Inr x" using assms by blast
  then show ?thesis
    by (simp add: writeDesiredStatus_def updateStorageNodeStatus_def DeepEqual_pointer_struct_def Let_def)
qed

text \<open>One finalization of a node on an RDS instance that is gone writes \<^verbatim>\<open>DeleteComplete\<close>.\<close>

lemma finalize_gone:
  assumes node: "sn_Phase n \<in> {PhaseReady, PhaseNotReady, PhaseDeleting}" "\<not> sns_Registered (sn_Status n)"
      "cls_Status (sns_Cluster (sn_Status n)) = []"
      "mlookup (sn_Annotations n) AnnotationsInstanceIdentifier = Some ident" "ident \<noteq> []"
    and sp: "sp_Provisioner sp = ProvisionerAWSRDSInstance"
    and gone: "\<And>h. rds_describe_instance e h ident = Inr None"
    and writes: "\<And>h m. \<exists>x. kube_update_storage_node_status e h m = Inr x"
  obtains calls m where "finalize e r n sp h = (Ok (res_after, None), h @ calls @ [KubeUpdateStorageNodeStatus m])"
    "list_all neutral calls" "sn_Phase m = PhaseDeleteComplete"
proof -
  obtain s where s: "getAwsRdsClient r h = (Ok (), h @ s)" "list_all neutral s" by (rule getAwsRdsClient_run)
  let ?n = "with_status n (\<lambda>st. st\<lparr>sns_Phase := PhaseDeleting, sns_Instances := []\<rparr>)"
  let ?calls = "s @ [RdsDescribeInstance ident]"
  let ?m = "?n\<lparr>sn_Status := computeDesiredState e (clock_now e (h @ ?calls)) (sn_Status ?n)\<rparr>"
  have cnpg: "sp_Provisioner sp \<noteq> ProvisionerCloudNativePG" using sp by (simp add: provisioner_defs)
  have res: "finalize_resources e r old k sp h = (Ok (res_after, None), (h @ ?calls) @ [KubeUpdateStorageNodeStatus ?m])"
    if "k = with_status n (\<lambda>st. st\<lparr>sns_Phase := PhaseDeleting\<rparr>)" for old k
    using that node(2,4,5) cnpg sp s(1) gone
    by (simp add: finalize_resources_def unregisterStorageUnit_def with_status_def deleteDatabaseCluster_def
        deleteAWSRDSInstance_def mget_def GetInstance_def bind_io_def attempt_def wrap_err_def call_def
        updateAWSRDSInstanceStatus_def writeDesiredStatus_ok [OF writes])
  have same: "n = with_status n (\<lambda>st. st\<lparr>sns_Phase := PhaseDeleting\<rparr>)" if "sn_Phase n = PhaseDeleting"
    using that by (simp add: with_status_def)
  have "finalize e r n sp h = (Ok (res_after, None), h @ ?calls @ [KubeUpdateStorageNodeStatus ?m])"
    using node(1) res same by (auto simp: finalize_def)
  moreover have "list_all neutral ?calls" using s(2) by simp
  moreover have "sn_Phase ?m = PhaseDeleteComplete"
    using node(3) by (simp add: computeDesiredState_def desiredPhase_def with_status_def Let_def)
  ultimately show thesis by (rule that)
qed

lemma Reconcile_finalizing:
  assumes "kube_get_storage_node e h req = Inr n"
    and "kube_get_storage_provider e (h @ [KubeGetStorageNode req]) (sn_StorageProviderName n) = Inr sp"
    and "sn_StorageProviderName n \<noteq> []" "AwsRegion r \<noteq> []" "AwsAccessKeyID r \<noteq> []" "AwsSecretAccessKey r \<noteq> []"
    and "meta_DeletionTimestamp (sn_meta n) \<noteq> None" "FinalizerName \<in> set (sn_Finalizers n)"
  shows "Reconcile e r req h = finalize e r n sp
    (h @ [KubeGetStorageNode req, KubeGetStorageProvider (sn_StorageProviderName n)])"
  using assms
  by (auto simp: Reconcile_def Reconcile_fetched_def getStorageProvider_def bind_io_def attempt_def call_def)


section \<open>Registration\<close>

definition registration_allowed :: "StorageNode \<Rightarrow> bool" where
  "registration_allowed n =
     (mget (sn_Annotations n) AnnotationKeyRegisterStorageUnitEnabled = ''true'' \<and>
      \<not> mmissing (sn_Annotations n) AnnotationKeyLogicDatabaseName \<and>
      \<not> mmissing (sn_Annotations n) AnnotationsInstanceDBName \<and>
      \<not> mmissing (sn_Annotations n) AnnotationKeyComputeNodeName \<and>
      \<not> sns_Registered (sn_Status n))"

lemma validateComputeNodeAnnotations_Ok:
  "validateComputeNodeAnnotations n tr = (Ok (), tr') \<Longrightarrow>
     \<not> mmissing (sn_Annotations n) AnnotationKeyLogicDatabaseName \<and>
     \<not> mmissing (sn_Annotations n) AnnotationsInstanceDBName \<and>
     \<not> mmissing (sn_Annotations n) AnnotationKeyComputeNodeName"
  by (simp add: validateComputeNodeAnnotations_def bind_io_Ok_iff split: if_splits)

lemma within_register:
  assumes P: "\<And>c. neutral c \<Longrightarrow> \<not> sql_call c \<Longrightarrow> P c"
    and sql: "\<And>c. registration_allowed n \<Longrightarrow> sn_Phase n = PhaseReady \<Longrightarrow> neutral c \<Longrightarrow> P c"
  shows "within P (registerStorageUnit e n sp)"
proof -
  have val: "within P (validateComputeNodeAnnotations n)"
    unfolding validateComputeNodeAnnotations_def
    by (simp add: event_def P within_bind)
  show ?thesis
  proof (cases "mget (sn_Annotations n) AnnotationKeyRegisterStorageUnitEnabled = ''true''")
    case False
    then show ?thesis by (simp add: registerStorageUnit_def)
  next
    case enabled: True
    show ?thesis
      unfolding registerStorageUnit_def Let_def
      by (simp only: enabled simp_thms if_False, rule within_bind_Ok [OF val])
        (use enabled in \<open>auto dest!: validateComputeNodeAnnotations_Ok simp: registration_allowed_def P sql
          sql_call_neutral event_def intro!: within_intros\<close>)
  qed
qed


section \<open>Instances of the properties\<close>

fun status_write :: "call \<Rightarrow> bool" where
  "status_write (KubeUpdateStorageNodeStatus n) = True"
| "status_write _ = False"

lemma status_write_iff: "status_write c \<longleftrightarrow> (\<exists>n. c = KubeUpdateStorageNodeStatus n)"
  by (cases c) simp_all

theorem written_status_consistent_witness:
  "\<exists>n. KubeUpdateStorageNodeStatus n \<in> set (added (reconcile demo_env demo_reconciler demo_provider demo_node) [] @
        added (finalize demo_env demo_reconciler demo_node demo_provider) []) \<and>
     distinct_types (sns_Conditions (sn_Status demo_node)) \<and> conditions_reflect demo_env (sn_Status n)"
proof -
  let ?run = "added (reconcile demo_env demo_reconciler demo_provider demo_node) [] @
        added (finalize demo_env demo_reconciler demo_node demo_provider) []"
  have "list_ex status_write ?run" by code_simp
  then obtain n where n: "KubeUpdateStorageNodeStatus n \<in> set ?run"
    by (auto simp only: list_ex_iff status_write_iff)
  have d: "distinct_types (sns_Conditions (sn_Status demo_node))"
    by (simp add: demo_node_def distinct_types_def)
  from n d written_status_consistent [OF n d] show ?thesis by blast
qed


definition demo_store_env :: env where
  "demo_store_env = quiet_env\<lparr>kube_get_storage_node := (\<lambda>h _. Inr (stored demo_node h)),
     kube_get_storage_provider := (\<lambda>_ _. Inr demo_provider)\<rparr>"


lemmas demo_defs = demo_down_env_def demo_proxy_env_def demo_env_def quiet_env_def demo_new_node_def
  demo_registered_node_def demo_node_def demo_provider_def demo_reconciler_def demo_instance_def
  with_status_def annotation_defs AnnotationKeyRegisterStorageUnitEnabled_def
  AnnotationKeyLogicDatabaseName_def AnnotationKeyComputeNodeName_def

lemmas run_defs = bind_io_def attempt_def call_def wrap_err_def mget_def mlookup_def mmissing_def


section \<open>Names of data sources\<close>

definition label_char :: "char \<Rightarrow> bool" where
  "label_char c = ((97 \<le> (of_char c :: nat) \<and> (of_char c :: nat) \<le> 122) \<or> is_digit c \<or> c = CHR ''-'')"

definition ds_char :: "char \<Rightarrow> bool" where
  "ds_char c = ((97 \<le> (of_char c :: nat) \<and> (of_char c :: nat) \<le> 122) \<or>
     (65 \<le> (of_char c :: nat) \<and> (of_char c :: nat) \<le> 90) \<or> is_digit c \<or> c = CHR ''_'')"

lemma label_char_not_underscore: "label_char c \<Longrightarrow> c \<noteq> CHR ''_''"
  by (auto simp: label_char_def is_digit_def)

lemma replace_char_inj:
  "CHR ''_'' \<notin> set s \<Longrightarrow> CHR ''_'' \<notin> set t \<Longrightarrow>
   replace_char (CHR ''-'') (CHR ''_'') s = replace_char (CHR ''-'') (CHR ''_'') t \<longleftrightarrow> s = t"
proof (induction s arbitrary: t)
  case Nil
  then show ?case by (cases t) (simp_all add: replace_char_def)
next
  case (Cons a s)
  then show ?case by (cases t) (auto simp: replace_char_def split: if_splits)
qed

text \<open>
  C8. For storage nodes whose names are DNS labels, the data source name has the form DistSQL
  asks for (a letter first, then letters, digits and underscores only), and two nodes get the
  same data source name exactly when they have the same name.
\<close>

theorem getDSName_valid_and_injective:
  assumes "list_all label_char (sn_Name n)" and "list_all label_char (sn_Name m)"
  shows "list_all ds_char (getDSName n) \<and> hd (getDSName n) = CHR ''d'' \<and>
    (getDSName n = getDSName m \<longleftrightarrow> sn_Name n = sn_Name m)"
proof -
  have ds: "ds_char (if c = CHR ''-'' then CHR ''_'' else c)" if "label_char c" for c
    using that by (auto simp: label_char_def ds_char_def)
  have "ds_char (CHR ''d'')" "ds_char (CHR ''s'')" "ds_char (CHR ''_'')" by (simp_all add: ds_char_def)
  then have "list_all ds_char (getDSName n)"
    using assms(1) ds unfolding getDSName_def replace_char_def list_all_iff by (auto split: if_splits) metis
  moreover have "getDSName n = getDSName m \<longleftrightarrow> sn_Name n = sn_Name m"
    using assms replace_char_inj [of "sn_Name n" "sn_Name m"]
    by (simp add: getDSName_def list_all_iff) (metis label_char_not_underscore)
  ultimately show ?thesis by (simp add: getDSName_def)
qed

theorem getDSName_valid_and_injective_witness:
  "list_all ds_char (getDSName demo_node) \<and> getDSName demo_node = ''ds_order_db'' \<and>
   (getDSName demo_node = getDSName demo_new_node \<longleftrightarrow> sn_Name demo_node = sn_Name demo_new_node)"
proof -
  have "list_all label_char (sn_Name demo_node)" "list_all label_char (sn_Name demo_new_node)"
    by (simp_all add: demo_defs label_char_def)
  from getDSName_valid_and_injective [OF this] show ?thesis
    by (simp add: getDSName_def replace_char_def demo_defs)
qed

section \<open>Two defects of the reconcile loop\<close>

lemma cnpg_pod_instances_status: "i \<in> set (cnpg_pod_instances s ps) \<Longrightarrow> ins_Status i = s"
  by (induction ps) auto

lemma cnpg_instances_available:
  assumes "\<forall>(s, pods) \<in> set pods. s = CnpgPodHealthy e" and "i \<in> set (cnpg_instances e pods)"
  shows "ins_Status i = ''available''"
  using assms by (induction pods) (auto dest: cnpg_pod_instances_status)

lemma allInstancesReady_iff:
  "allInstancesReady e is \<longleftrightarrow> is \<noteq> [] \<and> (\<forall>i \<in> set is. ins_Status i = DBInstanceStatusAvailable e)"
proof -
  have "allInstancesReady_loop e is \<longleftrightarrow> (\<forall>i \<in> set is. ins_Status i = DBInstanceStatusAvailable e)"
    by (induction "is") auto
  then show ?thesis by (simp add: allInstancesReady_def)
qed

text \<open>
  C9. A CloudNativePG cluster that is not healthy is reported as \<^verbatim>\<open>Ready\<close> as soon as all its pods
  are: the handler sets \<^verbatim>\<open>NotReady\<close> but leaves the cluster status empty, and
  \<^verbatim>\<open>computeDesiredState\<close> takes an empty cluster status for a node without a cluster.
\<close>

theorem unhealthy_cnpg_cluster_reported_ready:
  assumes "cnpg_Phase c \<noteq> CnpgPhaseHealthy e"
    and "\<forall>(s, pods) \<in> set (cnpg_InstancesStatus c). s = CnpgPodHealthy e"
    and "cnpg_instances e (cnpg_InstancesStatus c) \<noteq> []" and "DBInstanceStatusAvailable e = ''available''"
  shows "sn_Phase (updateCloudNativePGCluster e node (Some c)) = PhaseNotReady \<and>
    sns_Phase (computeDesiredState e clk (sn_Status (updateCloudNativePGCluster e node (Some c)))) = PhaseReady"
  using assms
  by (auto simp: updateCloudNativePGCluster_def with_status_def computeDesiredState_def desiredPhase_def
      allInstancesReady_iff Let_def dest: cnpg_instances_available)

theorem unhealthy_cnpg_cluster_reported_ready_witness:
  "sns_Phase (computeDesiredState quiet_env int (sn_Status (updateCloudNativePGCluster quiet_env demo_node
     (Some \<lparr>cnpg_meta = sn_meta demo_node, cnpg_Spec = 0, cnpg_Phase = ''Failing over'', cnpg_WriteService = ''rw'',
        cnpg_ReadService = ''ro'', cnpg_InstancesStatus = [(''healthy'', [''pod-1'', ''pod-2''])]\<rparr>)))) = PhaseReady"
  by (rule unhealthy_cnpg_cluster_reported_ready [THEN conjunct2]) (simp_all add: quiet_env_def)

lemma extends [simp]: "within (\<lambda>_. True) (CreateInstance e n p)" "within (\<lambda>_. True) (GetInstance e n)"
  "within (\<lambda>_. True) (getAwsRdsClient r)" "within (\<lambda>_. True) (reconcileAwsRdsInstance e n sp)"
  "within (\<lambda>_. True) (validCreateInstanceParams e n p)" "within (\<lambda>_. True) (reconcile e r sp n)"
  by (intro within_intros within_reconcile; simp)+

lemma CreateInstance_asks:
  assumes "fst (validCreateInstanceParams e node params h) = Ok (n, p)"
    and "parse_int ''strconv.ParseInt'' 64 (mget p ''allocatedStorage'') = Inr v"
  shows "\<exists>q. RdsCreateInstance q \<in> set (added (CreateInstance e node params) h)"
proof -
  let ?f = "\<lambda>(node, params). bind_io (from_sum (case parse_int ''strconv.ParseInt'' 64 (mget params ''allocatedStorage'') of
                Inl err \<Rightarrow> Inl (NewError (''allocated storage is not a number: '' @ error_text err))
              | Inr n \<Rightarrow> Inr n)) (\<lambda>storage. let req = instance_request node params storage
       in bind_io (call (RdsCreateInstance req) (\<lambda>tr. rds_create_instance e tr req)) (\<lambda>_. ret (node, params)))"
  obtain h1 where run: "validCreateInstanceParams e node params h = (Ok (n, p), h1)"
    using assms(1) by (metis prod.collapse)
  have "within (\<lambda>_. True) (?f x)" for x
    unfolding Let_def by (intro within_intros; simp)
  then have "set (added (?f (n, p)) h1) \<subseteq> set (added (CreateInstance e node params) h)"
    unfolding CreateInstance_def by (rule added_bind_second [OF run extends(5)])
  moreover have "RdsCreateInstance (instance_request n p v) \<in> set (added (?f (n, p)) h1)"
    using assms(2) by (simp add: from_sum_def added_def bind_io_def call_def Let_def split: sum.split)
  ultimately show ?thesis by blast
qed

lemma reconcileAwsRdsInstance_asks:
  assumes "rds_describe_instance e h ident = Inr None" "sn_Phase node \<noteq> PhaseDeleting"
    "mlookup (sn_Annotations node) AnnotationsInstanceIdentifier = Some ident"
  shows "set (added (CreateInstance e node (sp_Parameters sp)) (h @ [RdsDescribeInstance ident]))
    \<subseteq> set (added (reconcileAwsRdsInstance e node sp) h)"
proof -
  let ?rest = "\<lambda>(node, params). bind_io (GetInstance e node) (\<lambda>inst.
      ret (updateAWSRDSInstanceStatus node inst, with_params sp params))"
  have ext: "within (\<lambda>_. True) (?rest x)" for x by (intro within_intros; simp)
  have "reconcileAwsRdsInstance e node sp h =
      bind_io (CreateInstance e node (sp_Parameters sp)) ?rest (h @ [RdsDescribeInstance ident])"
    using assms by (simp add: reconcileAwsRdsInstance_def GetInstance_def bind_call)
  from added_shift [of "reconcileAwsRdsInstance e node sp" h, OF this within_bind [where f = ?rest, OF extends(1) ext]]
  have "set (added (bind_io (CreateInstance e node (sp_Parameters sp)) ?rest) (h @ [RdsDescribeInstance ident]))
      \<subseteq> set (added (reconcileAwsRdsInstance e node sp) h)" by auto
  with added_bind_first [where f = ?rest, OF extends(1) ext] show ?thesis by blast
qed


definition demo_gone_node :: StorageNode where
  "demo_gone_node = set_finalizers [] (with_status demo_node (\<lambda>s. s\<lparr>sns_Phase := PhaseDeleteComplete\<rparr>))"

definition demo_gone_env :: env where
  "demo_gone_env = quiet_env\<lparr>kube_get_storage_node := (\<lambda>_ _. Inr demo_gone_node),
     kube_get_storage_provider := (\<lambda>_ _. Inr demo_provider)\<rparr>"


end
