(* ===== verification/Rds_Properties.thy ===== *)
theory Rds_Properties
  imports Storage_Node_Lifecycle
begin

text \<open>
  What the RDS client and the proxy connection promise to the controller: which requests can be
  sent to AWS and with which numbers in them, which user names come out of the validation, and
  which statements are sent to ShardingSphere-Proxy, in which order.
\<close>

section \<open>Sizes in the requests\<close>

lemma from_sum_Ok_iff [simp]: "from_sum s tr = (Ok x, tr') \<longleftrightarrow> s = Inr x \<and> tr' = tr"
  by (auto simp: from_sum_def split: sum.split)

lemma sint_i32_range: "- (2 ^ 31) \<le> sint (w :: i32) \<and> sint w < 2 ^ 31"
  using sint_ge [of w] sint_lt [of w] by simp

lemma getAllocatedStorage_range: "getAllocatedStorage s = Inr n \<Longrightarrow> 100 \<le> n \<and> n \<le> 65536"
  by (auto simp: getAllocatedStorage_def split: sum.splits if_splits)

lemma getIOPS_range: "getIOPS s = Inr n \<Longrightarrow> 1000 \<le> n \<and> n \<le> 256000"
  by (auto simp: getIOPS_def split: sum.splits if_splits)

lemma validateCreateRDSClusterParams_Ok:
  assumes "validateCreateRDSClusterParams e node params tr = (Ok p, tr')"
  shows "mget p ''clusterIdentifier'' = mget (sn_Annotations node) AnnotationsClusterIdentifier \<and>
    mget p ''clusterIdentifier'' \<noteq> [] \<and> length (mget p ''clusterIdentifier'') \<le> 50 \<and>
    mget p ''storageType'' = ''io1'' \<and>
    (mget p ''engine'' = ''mysql'' \<longrightarrow> hd (split_on (CHR ''.'') (mget p ''engineVersion'')) = ''8'')"
  using assms
  by (auto simp: validateCreateRDSClusterParams_def bind_io_def check_engine_def mput_def mmissing_def
      mget_def mlookup_def split: if_splits option.splits outcome.splits)

lemma within_validateCreateRDSClusterParams: "within (\<lambda>_. False) (validateCreateRDSClusterParams e node params)"
  unfolding validateCreateRDSClusterParams_def
  by (rule within_read) (intro within_intros)



definition demo_cluster_params :: gomap where
  "demo_cluster_params = Some [''engine'' \<mapsto> ''mysql'', ''engineVersion'' \<mapsto> ''8.0'', ''instanceClass'' \<mapsto> ''db.t3'',
     ''masterUsername'' \<mapsto> ''root'', ''masterUserPassword'' \<mapsto> ''secret-123'', ''allocatedStorage'' \<mapsto> ''100'',
     ''iops'' \<mapsto> ''1000'', ''storageType'' \<mapsto> ''io1'']"

lemmas client_defs = bind_io_def from_sum_def mput_def call_def flat_err_def mget_def mlookup_def mmissing_def
  ordered_required_def parse_int_def digits_val_def is_digit_def Let_def quiet_env_def demo_node_def annotation_defs


section \<open>User names and instance requests\<close>

fun no_doubled :: "char \<Rightarrow> string \<Rightarrow> bool" where
  "no_doubled c (x # y # s) = (\<not> (x = c \<and> y = c) \<and> no_doubled c (y # s))"
| "no_doubled c s = True"

lemma hd_squeeze [simp]: "s \<noteq> [] \<Longrightarrow> hd (squeeze c s) = hd s"
  by (induction c s rule: squeeze.induct) auto

lemma squeeze_Nil_iff [simp]: "squeeze c s = [] \<longleftrightarrow> s = []"
  by (induction c s rule: squeeze.induct) auto

lemma length_squeeze: "length (squeeze c s) \<le> length s"
  by (induction c s rule: squeeze.induct) auto

lemma set_squeeze [simp]: "set (squeeze c s) = set s"
  by (induction c s rule: squeeze.induct) auto

lemma no_doubled_Cons: "no_doubled c (x # s) \<longleftrightarrow> (s \<noteq> [] \<longrightarrow> \<not> (x = c \<and> hd s = c)) \<and> no_doubled c s"
  by (cases s) auto

lemma no_doubled_squeeze: "no_doubled c (squeeze c s)"
  by (induction c s rule: squeeze.induct) (auto simp: no_doubled_Cons)

lemma no_doubled_squeeze_other: "no_doubled d s \<Longrightarrow> no_doubled d (squeeze c s)"
  by (induction c s rule: squeeze.induct) (auto simp: no_doubled_Cons)

lemma squeeze_id: "no_doubled c s \<Longrightarrow> squeeze c s = s"
  by (induction c s rule: squeeze.induct) auto

lemma validateusername_shape:
  assumes "validateusername s = Inr u"
  shows "u \<noteq> [] \<and> length u \<le> 16 \<and> set u = set s \<and> list_all username_char s \<and>
    no_doubled (CHR ''_'') u \<and> no_doubled (CHR ''-'') u"
proof -
  have u: "u = squeeze (CHR ''-'') (squeeze (CHR ''_'') s)" and s: "s \<noteq> []" "length s \<le> 16" "list_all username_char s"
    using assms by (auto simp: validateusername_def split: if_splits)
  have "length u \<le> 16" using u s length_squeeze [of "CHR ''-''"] length_squeeze [of "CHR ''_''" s]
    by (metis le_trans)
  then show ?thesis using u s by (simp add: no_doubled_squeeze no_doubled_squeeze_other)
qed

lemma validateusername_again: "validateusername s = Inr u \<Longrightarrow> validateusername u = Inr u"
  using validateusername_shape [of s u] by (auto simp: validateusername_def squeeze_id list_all_iff)

text \<open>
  A user name that passes the validation is one RDS accepts: 1 to 16 letters, digits,
  underscores and hyphens with no underscore and no hyphen doubled, made of the same characters
  as the name that was given, and validating it again changes nothing.
\<close>

theorem validateusername_ok:
  assumes "validateusername s = Inr u"
  shows "1 \<le> length u \<and> length u \<le> 16 \<and> list_all username_char u \<and> set u = set s \<and>
    no_doubled (CHR ''_'') u \<and> no_doubled (CHR ''-'') u \<and> validateusername u = Inr u"
  using validateusername_shape [OF assms] validateusername_again [OF assms]
  by (auto simp: list_all_iff Suc_le_eq)

theorem validateusername_ok_witness:
  "validateusername ''shard__ing--x'' = Inr ''shard_ing-x'' \<and> list_all username_char ''shard_ing-x''"
proof -
  have run: "validateusername ''shard__ing--x'' = Inr ''shard_ing-x''"
    by (simp add: validateusername_def username_char_def is_digit_def)
  with validateusername_ok [OF run] show ?thesis by blast
qed

definition ranges_over :: "env \<Rightarrow> bool" where
  "ranges_over e \<longleftrightarrow> (\<forall>tr ks. set (range_order e tr ks) = set ks)"

lemma set_ordered_required:
  "ranges_over e \<Longrightarrow> fst ` set (ordered_required e tr req) = fst ` set req"
  by (simp add: ranges_over_def ordered_required_def image_image)

lemma mget_mput: "mput m k v = Ok m' \<Longrightarrow> mget m' j = (if j = k then v else mget m j)"
  by (auto simp: mput_def mget_def mlookup_def split: option.splits)

lemma mlookup_mput: "mput m k v = Ok m' \<Longrightarrow> mlookup m' j = (if j = k then Some v else mlookup m j)"
  by (auto simp: mput_def mlookup_def split: option.splits)

lemma fill_required_Ok:
  assumes "fill_required e ks params tr = (Ok p, tr')"
  shows "(\<forall>k \<in> fst ` set ks. mlookup p k \<noteq> None) \<and>
    (\<forall>k. k \<noteq> ''masterUserPassword'' \<longrightarrow> k \<noteq> ''masterUsername'' \<longrightarrow>
       mget p k = mget params k \<and> (k \<in> fst ` set ks \<longrightarrow> mget params k \<noteq> [])) \<and>
    (\<forall>k. mlookup params k \<noteq> None \<longrightarrow> mlookup p k \<noteq> None)"
  using assms
proof (induction ks arbitrary: params tr)
  case Nil
  then show ?case by simp
next
  case (Cons kv ks)
  obtain k v where kv: "kv = (k, v)" by fastforce
  show ?case
  proof (cases "mmissing params k")
    case True
    with Cons.prems kv obtain g m tr1 where k: "k = ''masterUserPassword'' \<or> k = ''masterUsername''"
      and m: "mput params k g = Ok m" "fill_required e ks m tr1 = (Ok p, tr')"
      by (auto simp: bind_io_Ok_iff split: if_splits)
    from Cons.IH [OF m(2)] mget_mput [OF m(1)] mlookup_mput [OF m(1)] k kv show ?thesis by auto
  next
    case False
    with Cons.prems kv have "fill_required e ks params tr = (Ok p, tr')" by simp
    moreover have "mget params k \<noteq> []" "mlookup params k \<noteq> None"
      using False by (auto simp: mmissing_def mget_def split: option.splits)
    ultimately show ?thesis using Cons.IH kv by auto
  qed
qed

lemma validCreateInstanceParams_Ok:
  assumes "ranges_over e" and "validCreateInstanceParams e node params tr = (Ok (n, p), tr')"
  shows "(\<forall>k \<in> {''engine'', ''engineVersion'', ''instanceClass'', ''allocatedStorage''}.
      mget p k = mget params k \<and> mget params k \<noteq> []) \<and>
    validateusername (mget p ''masterUsername'') = Inr (mget p ''masterUsername'') \<and>
    8 \<le> length (mget p ''masterUserPassword'') \<and> length (mget p ''masterUserPassword'') \<le> 41 \<and>
    mget (sn_Annotations node) AnnotationsInstanceIdentifier \<noteq> [] \<and>
    mget (sn_Annotations n) AnnotationsInstanceIdentifier = mget (sn_Annotations node) AnnotationsInstanceIdentifier \<and>
    mget (sn_Annotations n) AnnotationsMasterUserPassword = mget p ''masterUserPassword''"
proof -
  from assms(2) obtain p1 tr1 m where p1: "fill_required e (ordered_required e tr instance_required) params tr = (Ok p1, tr1)"
    and user: "case mlookup p1 ''masterUsername'' of None \<Rightarrow> p = p1
      | Some u \<Rightarrow> \<exists>v. validateusername u = Inr v \<and> mput p1 ''masterUsername'' v = Ok p"
    and rest: "mget (sn_Annotations node) AnnotationsInstanceIdentifier \<noteq> []"
      "8 \<le> length (mget p ''masterUserPassword'')" "length (mget p ''masterUserPassword'') \<le> 41"
    and n: "mput (sn_Annotations node) AnnotationsMasterUserPassword (mget p ''masterUserPassword'') = Ok m"
      "sn_Annotations n = m"
    by (auto simp: validCreateInstanceParams_def set_annotation_def io_Ok mmissing_def Let_def not_less
        split: if_splits option.splits)
  note f = fill_required_Ok [OF p1, unfolded set_ordered_required [OF assms(1)]]
  then obtain u v where u: "validateusername u = Inr v" "mput p1 ''masterUsername'' v = Ok p"
    using user by (auto simp: instance_required_def)
  have p: "mget p k = (if k = ''masterUsername'' then v else mget p1 k)" for k by (rule mget_mput [OF u(2)])
  have "mget p k = mget params k \<and> mget params k \<noteq> []"
    if "k \<in> {''engine'', ''engineVersion'', ''instanceClass'', ''allocatedStorage''}" for k
  proof -
    have "k \<noteq> ''masterUserPassword''" "k \<noteq> ''masterUsername''" "k \<in> fst ` set instance_required"
      using that by (auto simp: instance_required_def)
    with f p show ?thesis by simp
  qed
  moreover have "mget p ''masterUsername'' = v" by (simp add: p)
  moreover have "mget (sn_Annotations n) k =
      (if k = AnnotationsMasterUserPassword then mget p ''masterUserPassword'' else mget (sn_Annotations node) k)" for k
    using mget_mput [OF n(1)] n(2) by simp
  moreover have "AnnotationsInstanceIdentifier \<noteq> AnnotationsMasterUserPassword" by (simp add: annotation_defs)
  ultimately show ?thesis using validateusername_again [OF u(1)] rest by simp
qed

text \<open>
  C12. Every request for an RDS instance carries the identifier of the node's annotation, a user
  name and a password that RDS accepts, a non-empty engine, version and class, and a size that
  was parsed from the parameter as a 64-bit number; the 32-bit field holds that size exactly when
  it fits, and another one otherwise.
\<close>

theorem CreateInstance_request:
  assumes "ranges_over e" and "RdsCreateInstance q \<in> set (added (CreateInstance e node params) tr)"
  shows "ir_DBInstanceIdentifier q = mget (sn_Annotations node) AnnotationsInstanceIdentifier \<and>
    ir_DBInstanceIdentifier q \<noteq> [] \<and> ir_Engine q \<noteq> [] \<and> ir_EngineVersion q \<noteq> [] \<and> ir_DBInstanceClass q \<noteq> [] \<and>
    validateusername (ir_MasterUsername q) = Inr (ir_MasterUsername q) \<and>
    8 \<le> length (ir_MasterUserPassword q) \<and> length (ir_MasterUserPassword q) \<le> 41 \<and>
    (\<exists>v. parse_int ''strconv.ParseInt'' 64 (mget params ''allocatedStorage'') = Inr v \<and>
       (sint (ir_AllocatedStorage q) = v \<longleftrightarrow> - (2 ^ 31) \<le> v \<and> v < 2 ^ 31))"
    (is "?ok q")
proof -
  have "within (\<lambda>c. \<forall>q. c = RdsCreateInstance q \<longrightarrow> ?ok q) (CreateInstance e node params)"
    unfolding CreateInstance_def
  proof (rule within_bind_Ok)
    show "within (\<lambda>c. \<forall>q. c = RdsCreateInstance q \<longrightarrow> ?ok q) (validCreateInstanceParams e node params)"
      by (rule within_validation) auto
    fix x tr tr' assume x: "validCreateInstanceParams e node params tr = (Ok x, tr')"
    obtain n p where np: "x = (n, p)" by fastforce
    note ok = validCreateInstanceParams_Ok [OF assms(1) x [unfolded np]]
    have "?ok (instance_request n p v)" if "parse_int ''strconv.ParseInt'' 64 (mget p ''allocatedStorage'') = Inr v" for v
      using that ok sint_word_of_int_i32 [of v] sint_i32_range [of "word_of_int v"]
      by (auto simp: instance_request_def)
    then show "within (\<lambda>c. \<forall>q. c = RdsCreateInstance q \<longrightarrow> ?ok q) (case x of (node, params) \<Rightarrow>
       bind_io (from_sum (case parse_int ''strconv.ParseInt'' 64 (mget params ''allocatedStorage'') of
                Inl err \<Rightarrow> Inl (NewError (''allocated storage is not a number: '' @ error_text err))
              | Inr n \<Rightarrow> Inr n)) (\<lambda>storage.
         let req = instance_request node params storage
         in bind_io (call (RdsCreateInstance req) (\<lambda>tr. rds_create_instance e tr req)) (\<lambda>_. ret (node, params))))"
      unfolding np Let_def prod.case
      by (intro within_bind_Ok within_call within_ret within_from_sum) (auto split: sum.splits)
  qed
  from within_added [OF this assms(2)] show ?thesis by blast
qed


theorem CreateInstance_request_witness:
  "\<exists>q. RdsCreateInstance q \<in> set (added (CreateInstance quiet_env demo_node (Some [''engine'' \<mapsto> ''mysql'',
      ''engineVersion'' \<mapsto> ''8.0'', ''instanceClass'' \<mapsto> ''db.t3'', ''masterUsername'' \<mapsto> ''root'',
      ''masterUserPassword'' \<mapsto> ''secret-123'', ''allocatedStorage'' \<mapsto> ''4294967396''])) []) \<and>
     sint (ir_AllocatedStorage q) = 100 \<and> 8 \<le> length (ir_MasterUserPassword q)"
    (is "\<exists>q. RdsCreateInstance q \<in> set (added (CreateInstance _ _ ?params) []) \<and> _")
proof -
  have "\<exists>q. RdsCreateInstance q \<in> set (added (CreateInstance quiet_env demo_node ?params) []) \<and>
      ir_AllocatedStorage q = 100"
    by (simp add: added_def CreateInstance_def validCreateInstanceParams_def instance_required_def instance_request_def
        validateusername_def username_char_def set_annotation_def client_defs)
  then obtain q where q: "RdsCreateInstance q \<in> set (added (CreateInstance quiet_env demo_node ?params) [])"
    "ir_AllocatedStorage q = 100" by blast
  have "ranges_over quiet_env" by (simp add: ranges_over_def quiet_env_def)
  from CreateInstance_request [OF this q(1)] q show ?thesis by (intro exI [of _ q]) simp
qed

section \<open>Deleting RDS clusters\<close>

fun kube_write :: "call \<Rightarrow> bool" where
  "kube_write (KubeUpdateStorageNode n) = True"
| "kube_write (KubeUpdateStorageNodeStatus n) = True"
| "kube_write _ = False"

lemma DeleteRDSCluster_retain:
  assumes "\<And>h. \<exists>c. rds_describe_cluster e h ident = Inr (Some c) \<and> dc_Status c \<noteq> DBClusterStatusDeleting e"
    and "mget (sn_Annotations node) AnnotationsClusterIdentifier = ident" "ident \<noteq> []"
    and "sp_ReclaimPolicy sp = PolicyRetain"
  shows "\<exists>err tr'. deleteAWSRDSCluster e node sp tr = (Fail err, tr')"
proof -
  have id: "mlookup (sn_Annotations node) AnnotationsClusterIdentifier = Some ident"
    using assms(2,3) by (auto simp: mget_def split: option.splits)
  obtain c where c: "rds_describe_cluster e tr ident = Inr (Some c)" "dc_Status c \<noteq> DBClusterStatusDeleting e"
    using assms(1) by blast
  obtain d where d: "rds_describe_cluster e (tr @ [RdsDescribeCluster ident]) ident = Inr (Some d)"
    "dc_Status d \<noteq> DBClusterStatusDeleting e" using assms(1) by blast
  have "\<exists>err tr'. DeleteRDSCluster e node sp (tr @ [RdsDescribeCluster ident]) = (Fail err, tr')"
    using d assms(4) by (simp add: DeleteRDSCluster_def id bind_io_def flat_err_def call_def from_sum_def
        rds_cluster_delete_request_def)
  with c assms(2,3) show ?thesis
    by (auto simp: deleteAWSRDSCluster_def GetRDSCluster_def id bind_io_def wrap_err_def call_def report_delete_def
        attempt_def event_def)
qed

lemma retained_delete:
  assumes "sp_ReclaimPolicy sp = PolicyRetain" "sp_Provisioner sp = ProvisionerAWSRDSCluster"
    and P: "\<And>c. plain c \<Longrightarrow> P c"
  shows "within P (deleteDatabaseCluster e r n sp)"
proof -
  have del: "within P (DeleteRDSCluster e n sp)"
    unfolding DeleteRDSCluster_def rds_cluster_delete_request_def assms(1) from_sum_def Let_def
      StorageReclaimPolicy.case sum.case bind_fail
    by (intro within_intros; simp add: P)
  have "deleteDatabaseCluster e r n sp = wrap_err ''delete aws rds cluster failed: ''
      (bind_io (getAwsRdsClient r) (\<lambda>_. deleteAWSRDSCluster e n sp))"
    using assms(2) by (simp add: deleteDatabaseCluster_def provisioner_defs)
  then show ?thesis unfolding deleteAWSRDSCluster_def Let_def
    by simp (intro conjI impI within_intros del; simp add: P)
qed

text \<open>
  C13. A storage node on an RDS cluster whose provider has the reclaim policy \<^verbatim>\<open>Retain\<close> (the
  default of the resource) is never finalized while its cluster exists: no pass of \<^verbatim>\<open>finalize\<close>
  deletes the cluster, and none writes the node, so its phase and its finalizer stay.
\<close>

theorem retained_rds_cluster_blocks_finalize:
  assumes "\<And>h. \<exists>c. rds_describe_cluster e h ident = Inr (Some c) \<and> dc_Status c \<noteq> DBClusterStatusDeleting e"
    and "mget (sn_Annotations node) AnnotationsClusterIdentifier = ident" "ident \<noteq> []"
    and "sp_ReclaimPolicy sp = PolicyRetain" "sp_Provisioner sp = ProvisionerAWSRDSCluster"
    and "sn_Phase node \<noteq> PhaseDeleteComplete"
  shows "list_all (\<lambda>c. \<not> kube_write c \<and> \<not> destructive c) (added (finalize e r node sp) tr)"
proof -
  let ?Q = "\<lambda>c. \<not> kube_write c \<and> \<not> destructive c"
  have quiet: "?Q c" if "neutral c \<or> plain c" for c
    using that by (cases c) auto
  have "within ?Q (finalize_resources e r old n sp)"
    if n: "sn_Annotations n = sn_Annotations node" for old n
  proof -
    have "\<exists>err tr'. deleteDatabaseCluster e r m sp tr = (Fail err, tr')"
      if m: "sn_Annotations m = sn_Annotations node" for m tr
    proof -
      obtain s where "getAwsRdsClient r tr = (Ok (), tr @ s)" by (rule getAwsRdsClient_run)
      moreover obtain err tr' where "deleteAWSRDSCluster e m sp (tr @ s) = (Fail err, tr')"
        using DeleteRDSCluster_retain [OF assms(1), of m sp "tr @ s"] assms(2-4) m by auto
      ultimately show ?thesis using assms(5)
        by (simp add: deleteDatabaseCluster_def provisioner_defs wrap_err_def bind_io_def)
    qed
    then have "\<not> (deleteDatabaseCluster e r m sp tr = (Ok y, tr'))" if "sn_Annotations m = sn_Annotations node" for m tr y tr'
      using that by (metis outcome.distinct(1) prod.inject)
    then have del: "within ?Q (bind_io (attempt (deleteDatabaseCluster e r m sp)) (\<lambda>d. case d of
            Inl err \<Rightarrow> ret (res_after, Some err) | Inr node \<Rightarrow> writeDesiredStatus e old node))"
      if "sn_Annotations m = sn_Annotations node" for m
      using that by (intro within_bind_Ok within_attempt retained_delete [OF assms(4,5)])
        (auto simp: attempt_Ok_iff quiet)
    have "sn_Annotations m = sn_Annotations node" if "unregisterStorageUnit e n tr = (Ok m, tr')" for m tr tr'
      using unregister_frame [OF that] n by (simp add: with_status_def)
    with del show ?thesis using assms(5) unfolding finalize_resources_def
      by (auto simp: provisioner_defs attempt_Ok_iff quiet intro!: within_bind_Ok within_attempt within_registration)
  qed
  then have "within (\<lambda>c. \<not> kube_write c \<and> \<not> destructive c) (finalize e r node sp)"
    using assms(6) by (auto simp: finalize_def Let_def with_status_def split: StorageNodePhaseStatus.split)
  then show ?thesis by (rule list_all_added)
qed


definition demo_retain_env :: env where
  "demo_retain_env = quiet_env\<lparr>rds_describe_cluster := (\<lambda>_ _. Inr (Some \<lparr>dc_Status = ''available'',
     dc_PrimaryEndpoint = ''rw'', dc_ReaderEndpoint = ''ro'', dc_Port = 3306\<rparr>))\<rparr>"

theorem retained_rds_cluster_blocks_finalize_witness:
  "list_all (\<lambda>c. \<not> kube_write c \<and> \<not> destructive c) (added (finalize demo_retain_env demo_reconciler demo_node
     (demo_provider\<lparr>sp_Provisioner := ProvisionerAWSRDSCluster, sp_ReclaimPolicy := PolicyRetain\<rparr>)) [])"
  by (rule retained_rds_cluster_blocks_finalize [where ident = "''order-db''"])
    (simp_all add: demo_retain_env_def quiet_env_def demo_node_def mget_def mlookup_def annotation_defs)

section \<open>Required parameters\<close>

lemma check_required_None: "check_required ks p = None \<longleftrightarrow> (\<forall>k \<in> fst ` set ks. \<not> mmissing p k)"
  by (induction ks p rule: check_required.induct) auto

text \<open>
  C14. Whether the parameters of an Aurora cluster pass the validation does not depend on the
  order in which Go visits the map of required parameters: they do exactly when the provider has
  a parameter map with every required entry, and the node's annotation gives a cluster
  identifier of 1 to 50 bytes; the identifier itself is taken from the annotation.
\<close>

theorem validateCreateAuroraParams_iff:
  assumes "ranges_over e"
  shows "(\<exists>p. fst (validateCreateAuroraParams e node params tr) = Ok p) \<longleftrightarrow>
    params \<noteq> None \<and> mget (sn_Annotations node) AnnotationsClusterIdentifier \<noteq> [] \<and>
    length (mget (sn_Annotations node) AnnotationsClusterIdentifier) \<le> 50 \<and>
    (\<forall>k \<in> {''instanceClass'', ''engine'', ''engineVersion'', ''masterUsername'', ''masterUserPassword''}.
       mget params k \<noteq> [])"
proof (cases "mput params ''clusterIdentifier'' (mget (sn_Annotations node) AnnotationsClusterIdentifier)")
  case (Ok p)
  have "check_required (ordered_required e tr aurora_required) p = None \<longleftrightarrow>
      (\<forall>k \<in> fst ` set aurora_required. mget p k \<noteq> [])"
    by (simp add: check_required_None mmissing_def set_ordered_required [OF assms])
  moreover have "params \<noteq> None" using Ok by (auto simp: mput_def split: option.splits)
  ultimately show ?thesis using Ok mget_mput [OF Ok]
    by (auto simp: validateCreateAuroraParams_def bind_io_def mmissing_def aurora_required_def split: option.splits)
qed (auto simp: validateCreateAuroraParams_def bind_io_def mput_def split: option.splits)

theorem validateCreateAuroraParams_iff_witness:
  "\<exists>p. fst (validateCreateAuroraParams (quiet_env\<lparr>range_order := (\<lambda>_. rev)\<rparr>) demo_node demo_cluster_params []) = Ok p"
proof -
  have r: "ranges_over (quiet_env\<lparr>range_order := (\<lambda>_. rev)\<rparr>)" by (simp add: ranges_over_def)
  have len: "length ''order-db'' \<le> 50" by simp
  show ?thesis unfolding validateCreateAuroraParams_iff [OF r]
    using len by (simp add: demo_cluster_params_def demo_node_def mget_def mlookup_def annotation_defs)
qed

section \<open>Statements sent to the proxy\<close>

text \<open>
  C15. Unregistering a storage unit, when it succeeds, has sent exactly these statements in this
  order: the switch to the logic database, the query for the rules that use the data source, one
  \<^verbatim>\<open>DROP\<close> for every rule the query returned in the order of its rows, and the \<^verbatim>\<open>UNREGISTER\<close> last.
\<close>

theorem UnRegisterStorageUnit_trace:
  assumes "UnRegisterStorageUnit e db ds tr = (Ok (), tr')"
  shows "\<exists>rules :: Rule list. sql_query e (tr @ [SqlExec (DistSQLUseDatabase db)]) (DistSQLShowRulesUsed ds) =
      Inr (map (\<lambda>r. Inr (rule_Type r, rule_Name r)) rules, None) \<and>
    tr' = tr @ [SqlExec (DistSQLUseDatabase db), SqlQuery (DistSQLShowRulesUsed ds), SqlCloseRows] @
      map (\<lambda>r. SqlExec (DistSQLDropRule (rule_type_text (rule_Type r)) (rule_Name r))) rules @
      [SqlExec (DistSQLUnRegisterStorageUnit ds)]"
proof -
  from assms obtain rules tr1 tr2 where run:
    "getRulesUsed e ds (tr @ [SqlExec (DistSQLUseDatabase db)]) = (Ok rules, tr1)"
    "seq_io (\<lambda>r. wrap_err ''drop rule error: '' (dropRule e (rule_Type r) (rule_Name r))) rules tr1 = (Ok (), tr2)"
    "tr' = tr2 @ [SqlExec (DistSQLUnRegisterStorageUnit ds)]"
    by (auto simp: UnRegisterStorageUnit_def Exec_def io_Ok)
  from getRulesUsed_Ok [OF run(1)] drop_loop_trace [OF run(2)] run(3) show ?thesis
    by (intro exI [of _ rules]) simp
qed

theorem UnRegisterStorageUnit_trace_witness:
  "snd (UnRegisterStorageUnit quiet_env ''db'' ''ds'' []) =
     [SqlExec (DistSQLUseDatabase ''db''), SqlQuery (DistSQLShowRulesUsed ''ds''), SqlCloseRows,
      SqlExec (DistSQLUnRegisterStorageUnit ''ds'')]"
proof -
  have "fst (UnRegisterStorageUnit quiet_env ''db'' ''ds'' []) = Ok ()"
    by (simp add: UnRegisterStorageUnit_def getRulesUsed_def Exec_def bind_io_def wrap_err_def call_def
        deferred_def quiet_env_def)
  then obtain tr' where run: "UnRegisterStorageUnit quiet_env ''db'' ''ds'' [] = (Ok (), tr')"
    by (metis prod.collapse)
  from UnRegisterStorageUnit_trace [OF run] run show ?thesis by (auto simp: quiet_env_def)
qed

end
