(* ===== verification/Pod_Builders.thy ===== *)
theory Pod_Builders
  imports Api_Types
begin

text \<open>
  The builders of Kubernetes objects that the compute node controller uses: metadata
  (\<^verbatim>\<open>pkg/kubernetes/metadata/builder.go\<close>), containers (\<^verbatim>\<open>container/container.go\<close>), pod
  specifications (\<^verbatim>\<open>pod/builder.go\<close>), deployments with their shared volumes
  (\<^verbatim>\<open>deployment/builder.go\<close>). A builder wraps a pointer to the object under construction, so its
  state is that object and a setter is a function on it; a builder that points into the container
  list of a pod is the index it points at.

  The objects are types of the Kubernetes API, outside the repository. A record has the fields the
  builders write; the fields nobody here writes are one opaque code (\<open>..._Rest\<close>, 0 where all of
  them are zero), and so are values that are only handed on: probes, resources, owner references.
\<close>

section \<open>The objects\<close>

record KubeMeta = ObjectMeta +
  meta_OwnerReferences :: "nat goslice"
  meta_Rest :: nat

record LabelSelector =
  sel_MatchLabels :: gomap
  sel_MatchExpressions :: nat

record ContainerPort =
  cp_Name :: string
  cp_HostIP :: string
  cp_ContainerPort :: i32
  cp_Protocol :: string

record EnvVar =
  ev_Name :: string
  ev_Value :: string

record VolumeMount =
  vm_Name :: string
  vm_MountPath :: string
  vm_SubPath :: string

record KeyToPath =
  kp_Key :: string
  kp_Path :: string

record ConfigMapVolumeSource =
  cmv_Name :: string
  cmv_Items :: "KeyToPath goslice"

record Volume =
  vol_Name :: string
  vol_EmptyDir :: bool
  vol_ConfigMap :: "ConfigMapVolumeSource option"

record Container =
  con_Name :: string
  con_Image :: string
  con_Command :: "string goslice"
  con_Args :: "string goslice"
  con_Ports :: "ContainerPort goslice"
  con_Env :: "EnvVar goslice"
  con_Resources :: nat
  con_VolumeMounts :: "VolumeMount goslice"
  con_LivenessProbe :: "nat option"
  con_ReadinessProbe :: "nat option"
  con_StartupProbe :: "nat option"
  con_ImagePullPolicy :: string
  con_Rest :: nat

record PodSpec =
  ps_Volumes :: "Volume goslice"
  ps_InitContainers :: "Container goslice"
  ps_Containers :: "Container goslice"
  ps_TerminationGracePeriodSeconds :: "int option"
  ps_ImagePullSecrets :: "string goslice"
  ps_Rest :: nat

record PodTemplateSpec =
  pt_meta :: KubeMeta
  pt_Spec :: PodSpec

text \<open>\<^verbatim>\<open>intstr.IntOrString\<close>: \<open>FromInt\<close> is what \<^verbatim>\<open>intstr.FromInt\<close> makes.\<close>

datatype IntOrString = FromInt int | FromString string

record DeploymentSpec =
  ds_Replicas :: "i32 option"
  ds_Selector :: "LabelSelector option"
  ds_Template :: PodTemplateSpec
  ds_StrategyType :: string
  ds_MaxUnavailable :: "IntOrString option"
  ds_MaxSurge :: "IntOrString option"
  ds_Rest :: nat

record Deployment =
  dep_meta :: KubeMeta
  dep_Spec :: DeploymentSpec

definition zero_meta :: KubeMeta where
  "zero_meta = \<lparr>meta_Name = [], meta_Namespace = [], meta_Annotations = None, meta_Labels = None,
     meta_Finalizers = [], meta_DeletionTimestamp = None, meta_OwnerReferences = None, meta_Rest = 0\<rparr>"

section \<open>Metadata builder\<close>

definition metadataBuilder_SetName :: "string \<Rightarrow> KubeMeta \<Rightarrow> KubeMeta" where
  "metadataBuilder_SetName name b = b\<lparr>meta_Name := name\<rparr>"

definition metadataBuilder_SetNamespace :: "string \<Rightarrow> KubeMeta \<Rightarrow> KubeMeta" where
  "metadataBuilder_SetNamespace namespace b = b\<lparr>meta_Namespace := namespace\<rparr>"

definition metadataBuilder_SetLabels :: "gomap \<Rightarrow> KubeMeta \<Rightarrow> KubeMeta" where
  "metadataBuilder_SetLabels labels b = b\<lparr>meta_Labels := labels\<rparr>"

definition metadataBuilder_SetAnnotations :: "gomap \<Rightarrow> KubeMeta \<Rightarrow> KubeMeta" where
  "metadataBuilder_SetAnnotations annos b = b\<lparr>meta_Annotations := annos\<rparr>"

definition metadataBuilder_SetOwnerReferences :: "nat goslice \<Rightarrow> KubeMeta \<Rightarrow> KubeMeta" where
  "metadataBuilder_SetOwnerReferences refs b = b\<lparr>meta_OwnerReferences := refs\<rparr>"

definition metadataBuilder_SetFinalizers :: "string list \<Rightarrow> KubeMeta \<Rightarrow> KubeMeta" where
  "metadataBuilder_SetFinalizers fs b = b\<lparr>meta_Finalizers := fs\<rparr>"

lemmas metadataBuilder_defs = metadataBuilder_SetName_def metadataBuilder_SetNamespace_def
  metadataBuilder_SetLabels_def metadataBuilder_SetAnnotations_def
  metadataBuilder_SetOwnerReferences_def metadataBuilder_SetFinalizers_def

section \<open>Lists updated by name\<close>

text \<open>
  The loop of the \<^verbatim>\<open>Update...ByName\<close> setters: the first entry of that name is overwritten and the
  setter returns; past the end the entry is appended. A nil list becomes the list of the one entry.
\<close>

fun update_by_name :: "('a \<Rightarrow> string) \<Rightarrow> 'a \<Rightarrow> 'a list \<Rightarrow> 'a list" where
  "update_by_name key c [] = [c]"
| "update_by_name key c (x # xs) = (if key x = key c then c # xs else x # update_by_name key c xs)"

definition update_slice :: "('a \<Rightarrow> string) \<Rightarrow> 'a \<Rightarrow> 'a goslice \<Rightarrow> 'a goslice" where
  "update_slice key c s = (case s of None \<Rightarrow> Some [c] | Some xs \<Rightarrow> Some (update_by_name key c xs))"

fun index_by_name :: "('a \<Rightarrow> string) \<Rightarrow> string \<Rightarrow> 'a list \<Rightarrow> nat option" where
  "index_by_name key n [] = None"
| "index_by_name key n (x # xs) =
     (if key x = n then Some 0 else map_option Suc (index_by_name key n xs))"

definition find_by_name :: "('a \<Rightarrow> string) \<Rightarrow> string \<Rightarrow> 'a list \<Rightarrow> 'a option" where
  "find_by_name key n xs = find (\<lambda>x. key x = n) xs"

lemma items_update_slice [simp]: "items (update_slice key c s) = update_by_name key c (items s)"
  by (cases s) (simp_all add: update_slice_def)

lemma find_update_by_name:
  "find_by_name key n (update_by_name key c xs) = (if n = key c then Some c else find_by_name key n xs)"
  by (induction xs) (auto simp: find_by_name_def)

lemma names_update_by_name:
  "key ` set (update_by_name key c xs) = insert (key c) (key ` set xs)"
  by (induction xs) auto

lemma distinct_update_by_name:
  "distinct (map key xs) \<Longrightarrow> distinct (map key (update_by_name key c xs))"
proof (induction xs)
  case (Cons x xs)
  have "key ` set (update_by_name key c xs) = insert (key c) (key ` set xs)"
    by (rule names_update_by_name)
  with Cons show ?case by auto
qed simp

lemma index_by_name_Some:
  "index_by_name key n xs = Some i \<Longrightarrow> i < length xs \<and> find_by_name key n xs = Some (xs ! i)"
  by (induction xs arbitrary: i) (auto simp: find_by_name_def split: if_splits)

lemma index_by_name_None: "index_by_name key n xs = None \<longleftrightarrow> find_by_name key n xs = None"
  by (induction xs) (auto simp: find_by_name_def)

lemma set_update_by_name: "set (update_by_name key c xs) \<subseteq> insert c (set xs)"
  by (induction xs) auto

lemma update_by_name_new: "key c \<notin> key ` set xs \<Longrightarrow> update_by_name key c xs = xs @ [c]"
  by (induction xs) auto

lemma index_by_name_new: "n \<notin> key ` set xs \<Longrightarrow> index_by_name key n xs = None"
  by (induction xs) auto

text \<open>Overwriting an entry that a builder pointed at with itself changes nothing.\<close>

lemma index_by_name_key: "index_by_name key n xs = Some i \<Longrightarrow> key (xs ! i) = n"
  by (induction xs arbitrary: i) (auto split: if_splits)

lemma update_by_name_self:
  "index_by_name key n xs = Some i \<Longrightarrow> update_by_name key (xs ! i) xs = xs"
  by (induction xs arbitrary: i) (auto split: if_splits simp: index_by_name_key)

section \<open>Container builder\<close>

definition DefaultContainer :: Container where
  "DefaultContainer = \<lparr>con_Name = ''default'', con_Image = ''busybox:1.35.0'', con_Command = None,
     con_Args = None, con_Ports = None, con_Env = None, con_Resources = 0, con_VolumeMounts = None,
     con_LivenessProbe = None, con_ReadinessProbe = None, con_StartupProbe = None, con_ImagePullPolicy = [], con_Rest = 0\<rparr>"

definition NewContainerBuilder :: Container where
  "NewContainerBuilder = DefaultContainer"

definition containerBuilder_SetName :: "string \<Rightarrow> Container \<Rightarrow> Container" where
  "containerBuilder_SetName name c = c\<lparr>con_Name := name\<rparr>"

definition containerBuilder_SetImage :: "string \<Rightarrow> Container \<Rightarrow> Container" where
  "containerBuilder_SetImage img c = c\<lparr>con_Image := img\<rparr>"

definition containerBuilder_SetPorts :: "ContainerPort goslice \<Rightarrow> Container \<Rightarrow> Container" where
  "containerBuilder_SetPorts ports c =
     (case ports of None \<Rightarrow> c\<lparr>con_Ports := Some []\<rparr> | Some ps \<Rightarrow> c\<lparr>con_Ports := Some ps\<rparr>)"

definition containerBuilder_SetResources :: "nat \<Rightarrow> Container \<Rightarrow> Container" where
  "containerBuilder_SetResources res c = c\<lparr>con_Resources := res\<rparr>"

definition containerBuilder_SetLivenessProbe :: "nat option \<Rightarrow> Container \<Rightarrow> Container" where
  "containerBuilder_SetLivenessProbe probe c =
     (if probe \<noteq> None then c\<lparr>con_LivenessProbe := probe\<rparr> else c)"

definition containerBuilder_SetReadinessProbe :: "nat option \<Rightarrow> Container \<Rightarrow> Container" where
  "containerBuilder_SetReadinessProbe probe c =
     (if probe \<noteq> None then c\<lparr>con_ReadinessProbe := probe\<rparr> else c)"

definition containerBuilder_SetStartupProbe :: "nat option \<Rightarrow> Container \<Rightarrow> Container" where
  "containerBuilder_SetStartupProbe probe c =
     (if probe \<noteq> None then c\<lparr>con_StartupProbe := probe\<rparr> else c)"

definition containerBuilder_SetEnv :: "EnvVar goslice \<Rightarrow> Container \<Rightarrow> Container" where
  "containerBuilder_SetEnv envs c =
     (let c = (if con_Env c = None then c\<lparr>con_Env := Some []\<rparr> else c)
      in if envs \<noteq> None then c\<lparr>con_Env := envs\<rparr> else c)"

definition containerBuilder_AppendEnv :: "EnvVar goslice \<Rightarrow> Container \<Rightarrow> Container" where
  "containerBuilder_AppendEnv envs c =
     (let c = (if con_Env c = None then c\<lparr>con_Env := Some []\<rparr> else c)
      in case envs of None \<Rightarrow> c | Some es \<Rightarrow> c\<lparr>con_Env := slice_append (con_Env c) es\<rparr>)"

definition containerBuilder_SetCommand :: "string goslice \<Rightarrow> Container \<Rightarrow> Container" where
  "containerBuilder_SetCommand cmds c = (if cmds \<noteq> None then c\<lparr>con_Command := cmds\<rparr> else c)"

definition containerBuilder_SetArgs :: "string goslice \<Rightarrow> Container \<Rightarrow> Container" where
  "containerBuilder_SetArgs args c = (if args \<noteq> None then c\<lparr>con_Args := args\<rparr> else c)"

definition containerBuilder_UpdateVolumeMountByName :: "VolumeMount \<Rightarrow> Container \<Rightarrow> Container" where
  "containerBuilder_UpdateVolumeMountByName mount c =
     c\<lparr>con_VolumeMounts := update_slice vm_Name mount (con_VolumeMounts c)\<rparr>"

definition containerBuilder_SetVolumeMounts :: "VolumeMount goslice \<Rightarrow> Container \<Rightarrow> Container" where
  "containerBuilder_SetVolumeMounts mounts c = c\<lparr>con_VolumeMounts := mounts\<rparr>"

definition containerBuilder_AppendVolumeMounts :: "VolumeMount list \<Rightarrow> Container \<Rightarrow> Container" where
  "containerBuilder_AppendVolumeMounts mounts c =
     c\<lparr>con_VolumeMounts := Some (items (con_VolumeMounts c) @ mounts)\<rparr>"

lemmas containerBuilder_defs = NewContainerBuilder_def DefaultContainer_def
  containerBuilder_SetName_def containerBuilder_SetImage_def containerBuilder_SetPorts_def
  containerBuilder_SetResources_def containerBuilder_SetLivenessProbe_def
  containerBuilder_SetReadinessProbe_def containerBuilder_SetStartupProbe_def
  containerBuilder_SetEnv_def containerBuilder_AppendEnv_def containerBuilder_SetCommand_def
  containerBuilder_SetArgs_def containerBuilder_UpdateVolumeMountByName_def
  containerBuilder_SetVolumeMounts_def containerBuilder_AppendVolumeMounts_def

section \<open>Pod specification builder\<close>

definition NewPodSpecBuilder :: PodSpec where
  "NewPodSpecBuilder = \<lparr>ps_Volumes = Some [], ps_InitContainers = Some [], ps_Containers = Some [],
     ps_TerminationGracePeriodSeconds = None, ps_ImagePullSecrets = None, ps_Rest = 0\<rparr>"

definition podSpecBuilder_SetVolumes :: "Volume goslice \<Rightarrow> PodSpec \<Rightarrow> PodSpec" where
  "podSpecBuilder_SetVolumes vs s = s\<lparr>ps_Volumes := vs\<rparr>"

definition podSpecBuilder_AppendVolumes :: "Volume list \<Rightarrow> PodSpec \<Rightarrow> PodSpec" where
  "podSpecBuilder_AppendVolumes vs s = s\<lparr>ps_Volumes := Some (items (ps_Volumes s) @ vs)\<rparr>"

definition podSpecBuilder_UpdateVolumeByName :: "Volume \<Rightarrow> PodSpec \<Rightarrow> PodSpec" where
  "podSpecBuilder_UpdateVolumeByName vol s =
     s\<lparr>ps_Volumes := update_slice vol_Name vol (ps_Volumes s)\<rparr>"

definition podSpecBuilder_SetInitContainers :: "Container goslice \<Rightarrow> PodSpec \<Rightarrow> PodSpec" where
  "podSpecBuilder_SetInitContainers cs s = s\<lparr>ps_InitContainers := cs\<rparr>"

text \<open>A nil list is first set to the new containers, which are then appended again.\<close>

definition podSpecBuilder_AppendInitContainers :: "Container goslice \<Rightarrow> PodSpec \<Rightarrow> PodSpec" where
  "podSpecBuilder_AppendInitContainers cs s =
     (let s = (if ps_InitContainers s = None then s\<lparr>ps_InitContainers := cs\<rparr> else s)
      in s\<lparr>ps_InitContainers := slice_append (ps_InitContainers s) (items cs)\<rparr>)"

definition podSpecBuilder_FindInitContainerByName :: "string \<Rightarrow> PodSpec \<Rightarrow> nat option" where
  "podSpecBuilder_FindInitContainerByName name s =
     index_by_name con_Name name (items (ps_InitContainers s))"

definition podSpecBuilder_UpdateInitContainerByName :: "Container \<Rightarrow> PodSpec \<Rightarrow> PodSpec" where
  "podSpecBuilder_UpdateInitContainerByName c s =
     s\<lparr>ps_InitContainers := update_slice con_Name c (ps_InitContainers s)\<rparr>"

definition podSpecBuilder_SetContainers :: "Container goslice \<Rightarrow> PodSpec \<Rightarrow> PodSpec" where
  "podSpecBuilder_SetContainers cs s = s\<lparr>ps_Containers := cs\<rparr>"

definition podSpecBuilder_AppendContainers :: "Container goslice \<Rightarrow> PodSpec \<Rightarrow> PodSpec" where
  "podSpecBuilder_AppendContainers cs s =
     (let s = (if ps_Containers s = None then s\<lparr>ps_Containers := cs\<rparr> else s)
      in s\<lparr>ps_Containers := slice_append (ps_Containers s) (items cs)\<rparr>)"

definition podSpecBuilder_FindContainerByName :: "string \<Rightarrow> PodSpec \<Rightarrow> nat option" where
  "podSpecBuilder_FindContainerByName name s =
     index_by_name con_Name name (items (ps_Containers s))"

definition podSpecBuilder_UpdateContainerByName :: "Container \<Rightarrow> PodSpec \<Rightarrow> PodSpec" where
  "podSpecBuilder_UpdateContainerByName c s =
     s\<lparr>ps_Containers := update_slice con_Name c (ps_Containers s)\<rparr>"

definition podSpecBuilder_SetImagePullSecrets :: "string goslice \<Rightarrow> PodSpec \<Rightarrow> PodSpec" where
  "podSpecBuilder_SetImagePullSecrets secs s = s\<lparr>ps_ImagePullSecrets := secs\<rparr>"

definition podSpecBuilder_SetTerminationGracePeriodSeconds :: "int option \<Rightarrow> PodSpec \<Rightarrow> PodSpec" where
  "podSpecBuilder_SetTerminationGracePeriodSeconds secs s =
     s\<lparr>ps_TerminationGracePeriodSeconds := secs\<rparr>"

text \<open>
  A setter of the builder that \<^verbatim>\<open>FindContainerByName\<close> returned: it writes through the pointer
  \<^verbatim>\<open>&b.spec.Containers[idx]\<close>, into the pod itself.
\<close>

definition at_container :: "nat \<Rightarrow> (Container \<Rightarrow> Container) \<Rightarrow> PodSpec \<Rightarrow> PodSpec" where
  "at_container i f s =
     s\<lparr>ps_Containers := map_option (\<lambda>cs. cs[i := f (cs ! i)]) (ps_Containers s)\<rparr>"

definition container_at :: "nat \<Rightarrow> PodSpec \<Rightarrow> Container" where
  "container_at i s = items (ps_Containers s) ! i"

definition init_container_at :: "nat \<Rightarrow> PodSpec \<Rightarrow> Container" where
  "init_container_at i s = items (ps_InitContainers s) ! i"

lemmas podSpecBuilder_defs = NewPodSpecBuilder_def podSpecBuilder_SetVolumes_def
  podSpecBuilder_AppendVolumes_def podSpecBuilder_UpdateVolumeByName_def
  podSpecBuilder_SetInitContainers_def podSpecBuilder_AppendInitContainers_def
  podSpecBuilder_FindInitContainerByName_def podSpecBuilder_UpdateInitContainerByName_def
  podSpecBuilder_SetContainers_def podSpecBuilder_AppendContainers_def
  podSpecBuilder_FindContainerByName_def podSpecBuilder_UpdateContainerByName_def
  podSpecBuilder_SetImagePullSecrets_def podSpecBuilder_SetTerminationGracePeriodSeconds_def

section \<open>Shared volumes\<close>

text \<open>
  A volume and the mounts of it, one per container. The mounts are pointers; an index past their
  end panics.
\<close>

record sharedVolume =
  sv_volume :: Volume
  sv_volumeMounts :: "VolumeMount option list"

definition zero_VolumeMount :: VolumeMount where
  "zero_VolumeMount = \<lparr>vm_Name = [], vm_MountPath = [], vm_SubPath = []\<rparr>"

definition zero_Volume :: Volume where
  "zero_Volume = \<lparr>vol_Name = [], vol_EmptyDir = False, vol_ConfigMap = None\<rparr>"

definition NewSharedVolumeAndMountBuilder :: sharedVolume where
  "NewSharedVolumeAndMountBuilder = \<lparr>sv_volume = zero_Volume, sv_volumeMounts = []\<rparr>"

definition sharedVolume_SetName :: "string \<Rightarrow> sharedVolume \<Rightarrow> sharedVolume outcome" where
  "sharedVolume_SetName name b =
     (if None \<in> set (sv_volumeMounts b) then Panic ''nil pointer dereference''
      else Ok \<lparr>sv_volume = (sv_volume b)\<lparr>vol_Name := name\<rparr>,
               sv_volumeMounts = map (map_option (\<lambda>m. m\<lparr>vm_Name := name\<rparr>)) (sv_volumeMounts b)\<rparr>)"

definition sharedVolume_SetVolumeMountSize :: "nat \<Rightarrow> sharedVolume \<Rightarrow> sharedVolume outcome" where
  "sharedVolume_SetVolumeMountSize n b =
     (let old = sv_volumeMounts b
      in if n < length old then Panic ''index out of range''
         else Ok (b\<lparr>sv_volumeMounts :=
                map (\<lambda>m. case m of None \<Rightarrow> Some zero_VolumeMount | Some vm \<Rightarrow> Some vm)
                    (old @ replicate (n - length old) None)\<rparr>))"

definition on_mount :: "nat \<Rightarrow> (VolumeMount \<Rightarrow> VolumeMount) \<Rightarrow> sharedVolume \<Rightarrow> sharedVolume outcome" where
  "on_mount idx f b =
     (if idx < length (sv_volumeMounts b)
      then Ok (b\<lparr>sv_volumeMounts := (sv_volumeMounts b)[idx := Some (f
                  (case sv_volumeMounts b ! idx of None \<Rightarrow> zero_VolumeMount | Some m \<Rightarrow> m))]\<rparr>)
      else Panic ''index out of range'')"

definition sharedVolume_SetMountPath :: "nat \<Rightarrow> string \<Rightarrow> sharedVolume \<Rightarrow> sharedVolume outcome" where
  "sharedVolume_SetMountPath idx path b = on_mount idx (\<lambda>m. m\<lparr>vm_MountPath := path\<rparr>) b"

definition sharedVolume_SetSubPath :: "nat \<Rightarrow> string \<Rightarrow> sharedVolume \<Rightarrow> sharedVolume outcome" where
  "sharedVolume_SetSubPath idx subpath b = on_mount idx (\<lambda>m. m\<lparr>vm_SubPath := subpath\<rparr>) b"

definition sharedVolume_SetVolumeSourceEmptyDir :: "sharedVolume \<Rightarrow> sharedVolume outcome" where
  "sharedVolume_SetVolumeSourceEmptyDir b = Ok (b\<lparr>sv_volume := (sv_volume b)\<lparr>vol_EmptyDir := True\<rparr>\<rparr>)"

definition sharedVolume_SetVolumeSourceConfigMap ::
  "string \<Rightarrow> KeyToPath list \<Rightarrow> sharedVolume \<Rightarrow> sharedVolume outcome" where
  "sharedVolume_SetVolumeSourceConfigMap name kps b =
     (let src = (case vol_ConfigMap (sv_volume b) of None \<Rightarrow> \<lparr>cmv_Name = [], cmv_Items = None\<rparr> | Some c \<Rightarrow> c);
          src = src\<lparr>cmv_Name := name\<rparr>;
          src = (if kps \<noteq> [] then src\<lparr>cmv_Items := Some kps\<rparr> else src)
      in Ok (b\<lparr>sv_volume := (sv_volume b)\<lparr>vol_ConfigMap := Some src\<rparr>\<rparr>))"

text \<open>
  \<^verbatim>\<open>v, vms := vb.Build()\<close> and then \<^verbatim>\<open>*vms[i]\<close>, for the mounts the callers use.
\<close>

definition built_mount :: "nat \<Rightarrow> sharedVolume \<Rightarrow> VolumeMount outcome" where
  "built_mount i b =
     (if i < length (sv_volumeMounts b)
      then case sv_volumeMounts b ! i of None \<Rightarrow> Panic ''nil pointer dereference'' | Some m \<Rightarrow> Ok m
      else Panic ''index out of range'')"

lemmas sharedVolume_defs = NewSharedVolumeAndMountBuilder_def sharedVolume_SetName_def
  sharedVolume_SetVolumeMountSize_def on_mount_def sharedVolume_SetMountPath_def
  sharedVolume_SetSubPath_def sharedVolume_SetVolumeSourceEmptyDir_def
  sharedVolume_SetVolumeSourceConfigMap_def built_mount_def zero_Volume_def zero_VolumeMount_def

section \<open>A volume with one mount\<close>

record volumeAndMount =
  vam_volume :: Volume
  vam_volumemount :: VolumeMount

definition NewVolumeAndMountBuilder :: volumeAndMount where
  "NewVolumeAndMountBuilder = \<lparr>vam_volume = zero_Volume, vam_volumemount = zero_VolumeMount\<rparr>"

definition volumeAndMount_SetName :: "string \<Rightarrow> volumeAndMount \<Rightarrow> volumeAndMount" where
  "volumeAndMount_SetName name b =
     \<lparr>vam_volume = (vam_volume b)\<lparr>vol_Name := name\<rparr>,
      vam_volumemount = (vam_volumemount b)\<lparr>vm_Name := name\<rparr>\<rparr>"

definition volumeAndMount_SetMountPath :: "string \<Rightarrow> volumeAndMount \<Rightarrow> volumeAndMount" where
  "volumeAndMount_SetMountPath path b =
     b\<lparr>vam_volumemount := (vam_volumemount b)\<lparr>vm_MountPath := path\<rparr>\<rparr>"

definition volumeAndMount_SetSubPath :: "string \<Rightarrow> volumeAndMount \<Rightarrow> volumeAndMount" where
  "volumeAndMount_SetSubPath subpath b =
     b\<lparr>vam_volumemount := (vam_volumemount b)\<lparr>vm_SubPath := subpath\<rparr>\<rparr>"

definition volumeAndMount_SetVolumeSourceEmptyDir :: "volumeAndMount \<Rightarrow> volumeAndMount" where
  "volumeAndMount_SetVolumeSourceEmptyDir b = b\<lparr>vam_volume := (vam_volume b)\<lparr>vol_EmptyDir := True\<rparr>\<rparr>"

text \<open>The name is written through \<^verbatim>\<open>b.volume.ConfigMap\<close>, which nothing allocates.\<close>

definition volumeAndMount_SetVolumeSourceConfigMap :: "string \<Rightarrow> volumeAndMount \<Rightarrow> volumeAndMount outcome" where
  "volumeAndMount_SetVolumeSourceConfigMap name b =
     (case vol_ConfigMap (vam_volume b) of
        None \<Rightarrow> Panic ''nil pointer dereference''
      | Some src \<Rightarrow> Ok (b\<lparr>vam_volume := (vam_volume b)\<lparr>vol_ConfigMap := Some (src\<lparr>cmv_Name := name\<rparr>)\<rparr>\<rparr>))"

section \<open>Deployment builder\<close>

record DeploymentBuilder =
  db_deployment :: Deployment
  db_PodSpec :: PodSpec
  db_Metadata :: KubeMeta

definition zero_PodSpec :: PodSpec where
  "zero_PodSpec = \<lparr>ps_Volumes = None, ps_InitContainers = None, ps_Containers = None,
     ps_TerminationGracePeriodSeconds = None, ps_ImagePullSecrets = None, ps_Rest = 0\<rparr>"

definition zero_Deployment :: Deployment where
  "zero_Deployment = \<lparr>dep_meta = zero_meta, dep_Spec = \<lparr>ds_Replicas = None, ds_Selector = None,
     ds_Template = \<lparr>pt_meta = zero_meta, pt_Spec = zero_PodSpec\<rparr>, ds_StrategyType = [], ds_MaxUnavailable = None,
     ds_MaxSurge = None, ds_Rest = 0\<rparr>\<rparr>"

definition NewDeploymentBuilder :: DeploymentBuilder where
  "NewDeploymentBuilder = \<lparr>db_deployment = zero_Deployment, db_PodSpec = NewPodSpecBuilder,
     db_Metadata = zero_meta\<rparr>"

definition on_spec :: "(DeploymentSpec \<Rightarrow> DeploymentSpec) \<Rightarrow> DeploymentBuilder \<Rightarrow> DeploymentBuilder" where
  "on_spec f d = d\<lparr>db_deployment := (db_deployment d)\<lparr>dep_Spec := f (dep_Spec (db_deployment d))\<rparr>\<rparr>"

definition on_pod :: "(PodSpec \<Rightarrow> PodSpec) \<Rightarrow> DeploymentBuilder \<Rightarrow> DeploymentBuilder" where
  "on_pod f d = d\<lparr>db_PodSpec := f (db_PodSpec d)\<rparr>"

definition on_metadata :: "(KubeMeta \<Rightarrow> KubeMeta) \<Rightarrow> DeploymentBuilder \<Rightarrow> DeploymentBuilder" where
  "on_metadata f d = d\<lparr>db_Metadata := f (db_Metadata d)\<rparr>"

definition deploymentBuilder_SetSelectors :: "LabelSelector option \<Rightarrow> DeploymentBuilder \<Rightarrow> DeploymentBuilder" where
  "deploymentBuilder_SetSelectors selectors = on_spec (\<lambda>s. s\<lparr>ds_Selector := selectors\<rparr>)"

definition deploymentBuilder_SetReplicas :: "i32 option \<Rightarrow> DeploymentBuilder \<Rightarrow> DeploymentBuilder" where
  "deploymentBuilder_SetReplicas r = on_spec (\<lambda>s. s\<lparr>ds_Replicas := r\<rparr>)"

definition deploymentBuilder_SetRollingUpdateStrategy ::
  "int \<Rightarrow> int \<Rightarrow> DeploymentBuilder \<Rightarrow> DeploymentBuilder" where
  "deploymentBuilder_SetRollingUpdateStrategy maxUnavailable maxSurge =
     on_spec (\<lambda>s. s\<lparr>ds_MaxSurge := Some (FromInt maxSurge), ds_MaxUnavailable := Some (FromInt maxUnavailable)\<rparr>)"

definition deploymentBuilder_SetPodTemplateMetadata :: "KubeMeta \<Rightarrow> DeploymentBuilder \<Rightarrow> DeploymentBuilder" where
  "deploymentBuilder_SetPodTemplateMetadata obj =
     on_spec (\<lambda>s. s\<lparr>ds_Template := (ds_Template s)\<lparr>pt_meta := obj\<rparr>\<rparr>)"

definition deploymentBuilder_SetPodTemplateSpec :: "PodTemplateSpec \<Rightarrow> DeploymentBuilder \<Rightarrow> DeploymentBuilder" where
  "deploymentBuilder_SetPodTemplateSpec tpl = on_spec (\<lambda>s. s\<lparr>ds_Template := tpl\<rparr>)"

definition on_template_meta :: "(KubeMeta \<Rightarrow> KubeMeta) \<Rightarrow> DeploymentBuilder \<Rightarrow> DeploymentBuilder" where
  "on_template_meta f =
     on_spec (\<lambda>s. s\<lparr>ds_Template := (ds_Template s)\<lparr>pt_meta := f (pt_meta (ds_Template s))\<rparr>\<rparr>)"

definition deploymentBuilder_SetPodTemplateAnnotations :: "gomap \<Rightarrow> DeploymentBuilder \<Rightarrow> DeploymentBuilder" where
  "deploymentBuilder_SetPodTemplateAnnotations annotations =
     on_template_meta (\<lambda>m. m\<lparr>meta_Annotations := annotations\<rparr>)"

definition deploymentBuilder_SetPodTemplateLabels :: "gomap \<Rightarrow> DeploymentBuilder \<Rightarrow> DeploymentBuilder" where
  "deploymentBuilder_SetPodTemplateLabels labels =
     on_template_meta (\<lambda>m. m\<lparr>meta_Labels := labels\<rparr>)"

text \<open>The builder after \<^verbatim>\<open>BuildDeployment\<close>, whose deployment is the result.\<close>

definition deploymentBuilder_BuildDeployment :: "DeploymentBuilder \<Rightarrow> DeploymentBuilder" where
  "deploymentBuilder_BuildDeployment d =
     d\<lparr>db_deployment := (db_deployment d)\<lparr>dep_meta := db_Metadata d\<rparr>\<rparr>"

lemmas deploymentBuilder_defs = NewDeploymentBuilder_def zero_Deployment_def zero_PodSpec_def
  zero_meta_def on_spec_def on_pod_def on_metadata_def deploymentBuilder_SetSelectors_def
  deploymentBuilder_SetReplicas_def deploymentBuilder_SetRollingUpdateStrategy_def
  deploymentBuilder_SetPodTemplateMetadata_def deploymentBuilder_SetPodTemplateSpec_def
  on_template_meta_def deploymentBuilder_SetPodTemplateAnnotations_def
  deploymentBuilder_SetPodTemplateLabels_def deploymentBuilder_BuildDeployment_def

section \<open>The lists of a pod as stores keyed by name\<close>

definition find_container :: "string \<Rightarrow> PodSpec \<Rightarrow> Container option" where
  "find_container n s = find_by_name con_Name n (items (ps_Containers s))"

definition find_init_container :: "string \<Rightarrow> PodSpec \<Rightarrow> Container option" where
  "find_init_container n s = find_by_name con_Name n (items (ps_InitContainers s))"

definition find_volume :: "string \<Rightarrow> PodSpec \<Rightarrow> Volume option" where
  "find_volume n s = find_by_name vol_Name n (items (ps_Volumes s))"

definition find_mount :: "string \<Rightarrow> Container \<Rightarrow> VolumeMount option" where
  "find_mount n c = find_by_name vm_Name n (items (con_VolumeMounts c))"

definition distinct_names :: "PodSpec \<Rightarrow> bool" where
  "distinct_names s \<longleftrightarrow> distinct (map con_Name (items (ps_Containers s)))
     \<and> distinct (map con_Name (items (ps_InitContainers s))) \<and> distinct (map vol_Name (items (ps_Volumes s)))"

lemmas find_defs = find_container_def find_init_container_def find_volume_def find_mount_def

interpretation containers: keyed_store con_Name podSpecBuilder_UpdateContainerByName find_container distinct_names
  by unfold_locales (simp_all add: podSpecBuilder_defs find_defs find_update_by_name
      distinct_names_def distinct_update_by_name)

interpretation init_containers: keyed_store con_Name podSpecBuilder_UpdateInitContainerByName
  find_init_container distinct_names
  by unfold_locales (simp_all add: podSpecBuilder_defs find_defs find_update_by_name
      distinct_names_def distinct_update_by_name)

interpretation volumes: keyed_store vol_Name podSpecBuilder_UpdateVolumeByName find_volume distinct_names
  by unfold_locales (simp_all add: podSpecBuilder_defs find_defs find_update_by_name
      distinct_names_def distinct_update_by_name)

interpretation mounts: keyed_store vm_Name containerBuilder_UpdateVolumeMountByName find_mount
  "\<lambda>c. distinct (map vm_Name (items (con_VolumeMounts c)))"
  by unfold_locales (simp_all add: containerBuilder_defs find_defs find_update_by_name
      distinct_update_by_name)

text \<open>An update of one list leaves the other two alone.\<close>

lemma find_other [simp]:
  "find_container n (podSpecBuilder_UpdateInitContainerByName c s) = find_container n s"
  "find_container n (podSpecBuilder_UpdateVolumeByName v s) = find_container n s"
  "find_init_container n (podSpecBuilder_UpdateContainerByName c s) = find_init_container n s"
  "find_init_container n (podSpecBuilder_UpdateVolumeByName v s) = find_init_container n s"
  "find_volume n (podSpecBuilder_UpdateContainerByName c s) = find_volume n s"
  "find_volume n (podSpecBuilder_UpdateInitContainerByName c s) = find_volume n s"
  by (simp_all add: podSpecBuilder_defs find_defs)

lemma nil_init_containers_appended_twice:
  "ps_InitContainers s = None \<Longrightarrow>
     items (ps_InitContainers (podSpecBuilder_AppendInitContainers cs s)) = items cs @ items cs"
  by (simp add: podSpecBuilder_defs Let_def)

lemma mount_of_config_map_panics:
  "volumeAndMount_SetVolumeSourceConfigMap n NewVolumeAndMountBuilder = Panic ''nil pointer dereference''"
  by (simp add: volumeAndMount_SetVolumeSourceConfigMap_def NewVolumeAndMountBuilder_def zero_Volume_def)

end
