(* ===== verification/Compute_Node_Types.thy ===== *)
theory Compute_Node_Types
  imports Pod_Builders
begin

text \<open>
  The compute node resource of \<^verbatim>\<open>api/v1alpha1/compute_node_types.go\<close> (a ShardingSphere-Proxy
  deployment as the user asks for it), the services and config maps the operator makes of it, and
  the library functions its builders call that are not code of the repository (\<open>lib\<close>):
  \<^verbatim>\<open>metav1.NewControllerRef\<close>, \<^verbatim>\<open>metav1.LabelSelectorAsSelector\<close>, \<^verbatim>\<open>golang.org/x/mod/semver\<close> and
  \<^verbatim>\<open>yaml.Marshal\<close>. The properties hold for every \<open>lib\<close> unless a hypothesis says otherwise.
\<close>

section \<open>ComputeNode\<close>

record GroupVersionKind =
  gvk_Group :: string
  gvk_Version :: string
  gvk_Kind :: string

record Prometheus =
  prom_Host :: string
  prom_Port :: i32
  prom_Props :: gomap

record PluginTracing =
  trc_OpenTracing :: gomap
  trc_OpenTelemetry :: gomap

text \<open>
  \<^verbatim>\<open>PluginLogging\<close> and \<^verbatim>\<open>PluginMetrics\<close> are structs of one field each (a file with its properties,
  the Prometheus settings), and so are the two tracing plugins; a pointer to one is an option.
\<close>

record AgentPlugin =
  plg_Logging :: "gomap option"
  plg_Metrics :: "Prometheus option"
  plg_Tracing :: "PluginTracing option"

record AgentConfig =
  agt_Plugins :: "AgentPlugin option"

record BootstrapConfig =
  boot_ServerConfig :: ServerConfig
  boot_LogbackConfig :: string
  boot_AgentConfig :: AgentConfig

record ProxyProbe =
  prb_LivenessProbe :: "nat option"
  prb_ReadinessProbe :: "nat option"
  prb_StartupProbe :: "nat option"

datatype ConnectorType = ConnectorTypeMySQL | ConnectorTypePostgreSQL | ConnectorTypeOther string

record StorageNodeConnector =
  snc_Type :: ConnectorType
  snc_Version :: string

record PortBinding =
  pb_Name :: string
  pb_ContainerPort :: i32
  pb_Protocol :: string
  pb_HostIP :: string
  pb_ServicePort :: i32
  pb_NodePort :: i32

datatype ServiceType =
    ServiceTypeClusterIP | ServiceTypeNodePort | ServiceTypeLoadBalancer | ServiceTypeExternalName
  | ServiceTypeOther string

record ComputeNodeSpec =
  cns_StorageNodeConnector :: "StorageNodeConnector option"
  cns_ServerVersion :: string
  cns_Replicas :: i32
  cns_Selector :: "LabelSelector option"
  cns_Probes :: "ProxyProbe option"
  cns_ImagePullSecrets :: "string goslice"
  cns_Env :: "EnvVar goslice"
  cns_Resources :: nat
  cns_PortBindings :: "PortBinding goslice"
  cns_ServiceType :: ServiceType
  cns_Bootstrap :: BootstrapConfig

datatype ComputeNodePhaseStatus =
    ComputeNodeStatusReady | ComputeNodeStatusNotReady | ComputeNodeStatusUnknown
  | ComputeNodeStatusOther string

datatype ComputeNodeConditionType =
    ComputeNodeConditionPending | ComputeNodeConditionDeployed | ComputeNodeConditionInitialized
  | ComputeNodeConditionStarted | ComputeNodeConditionReady | ComputeNodeConditionUnknown
  | ComputeNodeConditionFailed | ComputeNodeConditionSucceed | ComputeNodeConditionOther string

record ComputeNodeCondition =
  cnc_Type :: ComputeNodeConditionType
  cnc_Status :: ConditionStatus
  cnc_LastTransitionTime :: "gotime option"
  cnc_LastUpdateTime :: "gotime option"
  cnc_Reason :: string
  cnc_Message :: string

record LoadBalancerStatus =
  lb_ClusterIP :: string
  lb_Ingress :: "nat goslice"

record ComputeNodeStatus =
  cnst_Selector :: string
  cnst_Replicas :: i32
  cnst_Ready :: string
  cnst_ObservedGeneration :: int
  cnst_Phase :: ComputeNodePhaseStatus
  cnst_Conditions :: "ComputeNodeCondition goslice"
  cnst_LoadBalancer :: LoadBalancerStatus

record ComputeNode =
  cn_gvk :: GroupVersionKind
  cn_meta :: KubeMeta
  cn_Spec :: ComputeNodeSpec
  cn_Status :: ComputeNodeStatus

abbreviation cn_Name :: "ComputeNode \<Rightarrow> string" where
  "cn_Name cn \<equiv> meta_Name (cn_meta cn)"

abbreviation cn_Namespace :: "ComputeNode \<Rightarrow> string" where
  "cn_Namespace cn \<equiv> meta_Namespace (cn_meta cn)"

abbreviation cn_Annotations :: "ComputeNode \<Rightarrow> gomap" where
  "cn_Annotations cn \<equiv> meta_Annotations (cn_meta cn)"

abbreviation cn_Labels :: "ComputeNode \<Rightarrow> gomap" where
  "cn_Labels cn \<equiv> meta_Labels (cn_meta cn)"

abbreviation cn_PortBindings :: "ComputeNode \<Rightarrow> PortBinding goslice" where
  "cn_PortBindings cn \<equiv> cns_PortBindings (cn_Spec cn)"

section \<open>Services and config maps\<close>

record ServicePort =
  sp_PortName :: string
  sp_Protocol :: string
  sp_Port :: i32
  sp_TargetPort :: IntOrString
  sp_NodePort :: i32
  sp_Rest :: nat

record ServiceSpec =
  svs_Ports :: "ServicePort goslice"
  svs_Selector :: gomap
  svs_ClusterIP :: string
  svs_ClusterIPs :: "string goslice"
  svs_Type :: ServiceType
  svs_Rest :: nat

record KubeService =
  ksvc_meta :: KubeMeta
  ksvc_Spec :: ServiceSpec
  ksvc_Ingress :: "nat goslice"

record ConfigMap =
  cm_meta :: KubeMeta
  cm_Data :: gomap
  cm_BinaryData :: gomap

section \<open>Functions of other packages\<close>

record lib =
  lib_NewControllerRef :: "KubeMeta \<Rightarrow> GroupVersionKind \<Rightarrow> nat"
  lib_LabelSelectorAsSelector :: "LabelSelector option \<Rightarrow> gerror + string"
  lib_semver_IsValid :: "string \<Rightarrow> bool"
  lib_semver_Compare :: "string \<Rightarrow> string \<Rightarrow> int"
  lib_yaml_ServerConfig :: "ServerConfig \<Rightarrow> gerror + string"
  lib_yaml_AgentConfig :: "AgentConfig \<Rightarrow> gerror + string"

section \<open>Supported versions (\<open>pkg/kubernetes/helpers.go\<close>)\<close>

definition supportedShardingSphereVersion :: "string list" where
  "supportedShardingSphereVersion = [''5.3.0'', ''5.3.1'', ''5.3.2'', ''5.4.0'', ''5.4.1'']"

definition patchHeadingV :: "string \<Rightarrow> string" where
  "patchHeadingV version = ''v'' @ version"

definition IsSupportedShardingSphereVersion :: "lib \<Rightarrow> string \<Rightarrow> bool" where
  "IsSupportedShardingSphereVersion l v =
     (if \<not> lib_semver_IsValid l (patchHeadingV v) then False
      else v \<in> set supportedShardingSphereVersion)"

definition VersionBetween :: "lib \<Rightarrow> string \<Rightarrow> string \<Rightarrow> string \<Rightarrow> bool" where
  "VersionBetween l version left right =
     (if \<not> IsSupportedShardingSphereVersion l version \<or> \<not> IsSupportedShardingSphereVersion l left
         \<or> \<not> IsSupportedShardingSphereVersion l right then False
      else lib_semver_Compare l (patchHeadingV version) (patchHeadingV left) \<ge> 0
         \<and> lib_semver_Compare l (patchHeadingV version) (patchHeadingV right) \<le> 0)"

definition VersionGreaterAndEqualThan :: "lib \<Rightarrow> string \<Rightarrow> string \<Rightarrow> bool" where
  "VersionGreaterAndEqualThan l version target =
     (if \<not> IsSupportedShardingSphereVersion l target \<or> \<not> IsSupportedShardingSphereVersion l version
      then False
      else lib_semver_Compare l (patchHeadingV version) (patchHeadingV target) \<ge> 0)"

definition VersionExactEqualTo :: "lib \<Rightarrow> string \<Rightarrow> string \<Rightarrow> bool" where
  "VersionExactEqualTo l version target =
     (if \<not> IsSupportedShardingSphereVersion l target \<or> \<not> IsSupportedShardingSphereVersion l version
      then False
      else lib_semver_Compare l (patchHeadingV version) (patchHeadingV target) = 0)"

end
