(* ===== verification/Compute_Node_Constants.thy ===== *)
theory Compute_Node_Constants
  imports Compute_Node_Types
begin

text \<open>
  The constants of the compute node builders: names, paths and scripts of
  \<^verbatim>\<open>pkg/reconcile/computenode/constant.go\<close> and the file names and default contents of
  \<^verbatim>\<open>pkg/kubernetes/configmap/builders.go\<close>. Texts with line breaks, quotes, tabs and backslashes
  are put together from the characters' codes.
\<close>

section \<open>Constants\<close>

definition defaultImageName :: string where "defaultImageName = ''apache/shardingsphere-proxy''"
definition defaultContainerName :: string where "defaultContainerName = ''shardingsphere-proxy''"
definition defaultConfigVolumeName :: string where "defaultConfigVolumeName = ''shardingsphere-proxy-config''"
definition defaultConfigVolumeMountPath :: string where "defaultConfigVolumeMountPath = ''/opt/shardingsphere-proxy/conf''"
definition defaultExtlibPath :: string where "defaultExtlibPath = ''/opt/shardingsphere-proxy/ext-lib''"
definition defaultMySQLDriverEnvName :: string where "defaultMySQLDriverEnvName = ''MYSQL_CONNECTOR_VERSION''"
definition defaultMySQLDriverVolumeName :: string where "defaultMySQLDriverVolumeName = ''mysql-connector-java''"
definition defaultJavaAgentVolumeName :: string where "defaultJavaAgentVolumeName = ''java-agent-bin''"
definition defaultJavaAgentVolumeMountPath :: string where "defaultJavaAgentVolumeMountPath = ''/opt/shardingsphere-proxy/agent''"
definition defaultJavaAgentConfigVolumeName :: string where "defaultJavaAgentConfigVolumeName = ''java-agent-config''"
definition defaultJavaAgentConfigVolumeMountPath :: string where "defaultJavaAgentConfigVolumeMountPath = ''/opt/shardingsphere-proxy/agent/conf''"
definition defaultJavaToolOptionsName :: string where "defaultJavaToolOptionsName = ''JAVA_TOOL_OPTIONS''"
definition defaultAgentBinVersionEnvName :: string where "defaultAgentBinVersionEnvName = ''AGENT_BIN_VERSION''"
definition DefaultAnnotationJavaAgentEnabled :: string where "DefaultAnnotationJavaAgentEnabled = ''shardingsphere.apache.org/java-agent-enabled''"
definition commonAnnotationPrometheusMetricsPath :: string where "commonAnnotationPrometheusMetricsPath = ''prometheus.io/path''"
definition commonAnnotationPrometheusMetricsPort :: string where "commonAnnotationPrometheusMetricsPort = ''prometheus.io/port''"
definition commonAnnotationPrometheusMetricsScrape :: string where "commonAnnotationPrometheusMetricsScrape = ''prometheus.io/scrape''"
definition commonAnnotationPrometheusMetricsScheme :: string where "commonAnnotationPrometheusMetricsScheme = ''prometheus.io/scheme''"
definition ConfigDataKeyForLogback :: string where "ConfigDataKeyForLogback = ''logback.xml''"
definition ConfigDataKeyForServer :: string where "ConfigDataKeyForServer = ''server.yaml''"
definition ConfigDataKeyForAgent :: string where "ConfigDataKeyForAgent = ''agent.yaml''"
definition AnnoLogbackConfig :: string where "AnnoLogbackConfig = ''computenode.shardingsphere.org/logback''"
definition DefaultServerConfig :: string where "DefaultServerConfig = ''# Empty file is needed''"

definition downloadMysqlJarScript :: string where
  "downloadMysqlJarScript =
     ''wget https://repo1.maven.org/maven2/mysql/mysql-connector-java/${MYSQL_CONNECTOR_VERSION}/mysql-connector-java-${MYSQL_CONNECTOR_VERSION}.jar;'' @ [CHR 0x0A] @
     '' wget https://repo1.maven.org/maven2/mysql/mysql-connector-java/${MYSQL_CONNECTOR_VERSION}/mysql-connector-java-${MYSQL_CONNECTOR_VERSION}.jar.md5;'' @ [CHR 0x0A] @
     '' if [ $(md5sum /mysql-connector-java-${MYSQL_CONNECTOR_VERSION}.jar | cut -d ' ' -f1) = $(cat /mysql-connector-java-${MYSQL_CONNECTOR_VERSION}.jar.md5) ];'' @ [CHR 0x0A] @
     '' then echo success;'' @ [CHR 0x0A] @
     '' else echo failed;exit 1;fi;mv /mysql-connector-java-${MYSQL_CONNECTOR_VERSION}.jar /opt/shardingsphere-proxy/ext-lib''"

definition downloadAgentJarScript :: string where
  "downloadAgentJarScript =
     ''wget https://archive.apache.org/dist/shardingsphere/${AGENT_BIN_VERSION}/apache-shardingsphere-${AGENT_BIN_VERSION}-shardingsphere-agent-bin.tar.gz;'' @ [CHR 0x0A] @
     '' tar -zxvf apache-shardingsphere-${AGENT_BIN_VERSION}-shardingsphere-agent-bin.tar.gz -C /opt/shardingsphere-proxy/agent --strip-component 1;''"

definition replaceStartScript :: string where
  "replaceStartScript =
     ''sed -i 's#exec '' @ [CHR 0x5C] @ ''$JAVA '' @ [CHR 0x5C] @ ''${JAVA_OPTS} '' @ [CHR 0x5C] @ ''${JAVA_MEM_OPTS} -classpath '' @ [CHR 0x5C] @ ''${CLASS_PATH} '' @ [CHR 0x5C] @ ''${MAIN_CLASS}#exec '' @ [CHR 0x5C] @ ''$JAVA '' @ [CHR 0x5C] @ ''${JAVA_OPTS} '' @ [CHR 0x5C] @ ''${JAVA_MEM_OPTS} -classpath '' @ [CHR 0x5C] @ ''${CLASS_PATH} '' @ [CHR 0x5C] @ ''${AGENT_PARAM} '' @ [CHR 0x5C] @ ''${MAIN_CLASS}#g' /opt/shardingsphere-proxy/bin/start.sh;'' @ [CHR 0x0A] @
     [CHR 0x09] @ ''cp /opt/shardingsphere-proxy/bin/start.sh /opt/shardingsphere-proxy/tmpbin/start.sh;''"

definition DefaultLogback :: string where
  "DefaultLogback =
     ''<?xml version='' @ [CHR 0x22] @ ''1.0'' @ [CHR 0x22] @ ''?>'' @ [CHR 0x0A] @
     ''<configuration>'' @ [CHR 0x0A] @
     ''    <appender name='' @ [CHR 0x22] @ ''console'' @ [CHR 0x22] @ '' class='' @ [CHR 0x22] @ ''ch.qos.logback.core.ConsoleAppender'' @ [CHR 0x22] @ ''>'' @ [CHR 0x0A] @
     ''        <encoder>'' @ [CHR 0x0A] @
     ''            <pattern>[%-5level] %d{yyyy-MM-dd HH:mm:ss.SSS} [%thread] %logger{36} - %msg%n</pattern>'' @ [CHR 0x0A] @
     ''        </encoder>'' @ [CHR 0x0A] @
     ''    </appender>'' @ [CHR 0x0A] @
     ''    <appender name='' @ [CHR 0x22] @ ''sqlConsole'' @ [CHR 0x22] @ '' class='' @ [CHR 0x22] @ ''ch.qos.logback.core.ConsoleAppender'' @ [CHR 0x22] @ ''>'' @ [CHR 0x0A] @
     ''        <encoder>'' @ [CHR 0x0A] @
     ''            <pattern>[%-5level] %d{yyyy-MM-dd HH:mm:ss.SSS} [%thread] [%X{database}] [%X{user}] [%X{host}] %logger{36} - %msg%n</pattern>'' @ [CHR 0x0A] @
     ''        </encoder>'' @ [CHR 0x0A] @
     ''    </appender>'' @ [CHR 0x0A] @
     ''    '' @ [CHR 0x0A] @
     ''    <logger name='' @ [CHR 0x22] @ ''ShardingSphere-SQL'' @ [CHR 0x22] @ '' level='' @ [CHR 0x22] @ ''info'' @ [CHR 0x22] @ '' additivity='' @ [CHR 0x22] @ ''false'' @ [CHR 0x22] @ ''>'' @ [CHR 0x0A] @
     ''        <appender-ref ref='' @ [CHR 0x22] @ ''sqlConsole'' @ [CHR 0x22] @ '' />'' @ [CHR 0x0A] @
     ''    </logger>'' @ [CHR 0x0A] @
     ''    <logger name='' @ [CHR 0x22] @ ''org.apache.shardingsphere'' @ [CHR 0x22] @ '' level='' @ [CHR 0x22] @ ''info'' @ [CHR 0x22] @ '' additivity='' @ [CHR 0x22] @ ''false'' @ [CHR 0x22] @ ''>'' @ [CHR 0x0A] @
     ''        <appender-ref ref='' @ [CHR 0x22] @ ''console'' @ [CHR 0x22] @ '' />'' @ [CHR 0x0A] @
     ''    </logger>'' @ [CHR 0x0A] @
     ''    '' @ [CHR 0x0A] @
     ''    <logger name='' @ [CHR 0x22] @ ''com.zaxxer.hikari'' @ [CHR 0x22] @ '' level='' @ [CHR 0x22] @ ''error'' @ [CHR 0x22] @ '' />'' @ [CHR 0x0A] @
     ''    '' @ [CHR 0x0A] @
     ''    <logger name='' @ [CHR 0x22] @ ''com.atomikos'' @ [CHR 0x22] @ '' level='' @ [CHR 0x22] @ ''error'' @ [CHR 0x22] @ '' />'' @ [CHR 0x0A] @
     ''    '' @ [CHR 0x0A] @
     ''    <logger name='' @ [CHR 0x22] @ ''io.netty'' @ [CHR 0x22] @ '' level='' @ [CHR 0x22] @ ''error'' @ [CHR 0x22] @ '' />'' @ [CHR 0x0A] @
     ''    '' @ [CHR 0x0A] @
     ''    <root>'' @ [CHR 0x0A] @
     ''        <level value='' @ [CHR 0x22] @ ''info'' @ [CHR 0x22] @ '' />'' @ [CHR 0x0A] @
     ''        <appender-ref ref='' @ [CHR 0x22] @ ''console'' @ [CHR 0x22] @ '' />'' @ [CHR 0x0A] @
     ''    </root>'' @ [CHR 0x0A] @
     ''</configuration> '' @ [CHR 0x0A]"

lemmas volume_name_defs = defaultConfigVolumeName_def defaultMySQLDriverVolumeName_def
  defaultJavaAgentVolumeName_def defaultJavaAgentConfigVolumeName_def defaultContainerName_def

lemmas mount_path_defs = defaultConfigVolumeMountPath_def defaultExtlibPath_def
  defaultJavaAgentVolumeMountPath_def defaultJavaAgentConfigVolumeMountPath_def

end
