(* ===== verification/Compute_Node_Builders.thy ===== *)
theory Compute_Node_Builders
  imports Compute_Node_Constants
begin

text \<open>
  What the operator makes of a compute node: its deployment
  (\<^verbatim>\<open>pkg/reconcile/computenode/deployment.go\<close>, \<^verbatim>\<open>container.go\<close>), its service
  (\<^verbatim>\<open>pkg/kubernetes/service/builder.go\<close>) and its config map
  (\<^verbatim>\<open>pkg/kubernetes/configmap/builders.go\<close>, \<^verbatim>\<open>factory.go\<close>).
\<close>

section \<open>Containers\<close>

definition relativeMySQLDriverMountName :: "string \<Rightarrow> string" where
  "relativeMySQLDriverMountName v = ''mysql-connector-java-'' @ v @ ''.jar''"

definition absoluteMySQLDriverMountName :: "string \<Rightarrow> string \<Rightarrow> string" where
  "absoluteMySQLDriverMountName p v = p @ ''/'' @ relativeMySQLDriverMountName v"

definition getContainerPortsFromComputeNode :: "ComputeNode \<Rightarrow> ContainerPort goslice" where
  "getContainerPortsFromComputeNode cn = Some (map (\<lambda>pb.
       \<lparr>cp_Name = pb_Name pb, cp_HostIP = pb_HostIP pb, cp_ContainerPort = pb_ContainerPort pb,
        cp_Protocol = pb_Protocol pb\<rparr>) (items (cn_PortBindings cn)))"

definition NewShardingSphereProxyContainerBuilder :: Container where
  "NewShardingSphereProxyContainerBuilder = containerBuilder_SetName defaultContainerName NewContainerBuilder"

definition SetVersion :: "string \<Rightarrow> Container \<Rightarrow> Container" where
  "SetVersion version c = containerBuilder_SetImage (defaultImageName @ '':'' @ version) c"

definition bootstrap_container :: "string \<Rightarrow> string \<Rightarrow> string \<Rightarrow> Container" where
  "bootstrap_container name img script =
     containerBuilder_SetCommand (Some [''/bin/sh'', ''-c'', script])
       (containerBuilder_SetImage img (containerBuilder_SetName name NewContainerBuilder))"

definition NewBootstrapContainerBuilderForMysqlJar :: Container where
  "NewBootstrapContainerBuilderForMysqlJar =
     bootstrap_container ''download-mysql-jar'' ''busybox:1.36'' downloadMysqlJarScript"

definition NewBootstrapContainerBuilderForAgentBin :: Container where
  "NewBootstrapContainerBuilderForAgentBin =
     bootstrap_container ''download-agent-bin-jar'' ''busybox:1.36'' downloadAgentJarScript"

definition NewBootstrapContainerBuilderForStartScripts :: Container where
  "NewBootstrapContainerBuilderForStartScripts =
     bootstrap_container ''replace-start-script'' (defaultImageName @ '':'' @ ''5.3.2'') replaceStartScript"

section \<open>Deployment\<close>

text \<open>A chain of setters on a new shared volume, left to right.\<close>

definition shared_volume :: "(sharedVolume \<Rightarrow> sharedVolume outcome) list \<Rightarrow> sharedVolume outcome" where
  "shared_volume setters = foldl obind (Ok NewSharedVolumeAndMountBuilder) setters"

definition NewShardingSphereDeploymentBuilder :: DeploymentBuilder where
  "NewShardingSphereDeploymentBuilder = deploymentBuilder_BuildDeployment NewDeploymentBuilder"

definition prometheus_annotations :: "gomap \<Rightarrow> gomap" where
  "prometheus_annotations annos = Some [
     commonAnnotationPrometheusMetricsPath \<mapsto> mget annos commonAnnotationPrometheusMetricsPath,
     commonAnnotationPrometheusMetricsPort \<mapsto> mget annos commonAnnotationPrometheusMetricsPort,
     commonAnnotationPrometheusMetricsScrape \<mapsto> mget annos commonAnnotationPrometheusMetricsScrape,
     commonAnnotationPrometheusMetricsScheme \<mapsto> mget annos commonAnnotationPrometheusMetricsScheme]"

definition agent_enabled :: "ComputeNode \<Rightarrow> bool" where
  "agent_enabled cn \<longleftrightarrow> mlookup (cn_Annotations cn) DefaultAnnotationJavaAgentEnabled = Some ''true''"

text \<open>
  \<^verbatim>\<open>cb := d.FindInitContainerByName(name); if cb == nil { cb = fresh }\<close>. A builder that was found
  writes into the list; each caller then overwrites that entry with the same container, so the
  container may as well be taken out and put back.
\<close>

definition init_container :: "string \<Rightarrow> Container \<Rightarrow> PodSpec \<Rightarrow> Container" where
  "init_container name fresh s =
     (case podSpecBuilder_FindInitContainerByName name s of
        None \<Rightarrow> fresh | Some i \<Rightarrow> init_container_at i s)"

definition script_volume :: "sharedVolume outcome" where
  "script_volume = shared_volume [sharedVolume_SetVolumeMountSize 1,
     sharedVolume_SetName ''replace-start-script'', sharedVolume_SetVolumeSourceEmptyDir,
     sharedVolume_SetMountPath 0 ''/opt/shardingsphere-proxy/bin'']"

definition SetAgentScript :: "ComputeNode \<Rightarrow> DeploymentBuilder \<Rightarrow> DeploymentBuilder outcome" where
  "SetAgentScript cn d =
     (case podSpecBuilder_FindContainerByName ''shardingsphere-proxy'' (db_PodSpec d) of
        None \<Rightarrow> Panic ''nil pointer dereference''
      | Some proxy \<Rightarrow>
          obind script_volume (\<lambda>sv. obind (built_mount 0 sv) (\<lambda>vma.
          let d = on_pod (podSpecBuilder_AppendVolumes [sv_volume sv]) d;
              d = on_pod (at_container proxy (containerBuilder_AppendVolumeMounts [vma])) d;
              vma = vma\<lparr>vm_MountPath := ''/opt/shardingsphere-proxy/tmpbin''\<rparr>;
              cb = init_container ''replace-start-script'' NewBootstrapContainerBuilderForStartScripts (db_PodSpec d);
              cb = containerBuilder_AppendVolumeMounts [vma] cb
          in Ok (on_pod (podSpecBuilder_UpdateInitContainerByName cb) d))))"

definition agent_conf_volume :: "ComputeNode \<Rightarrow> sharedVolume outcome" where
  "agent_conf_volume cn = shared_volume [sharedVolume_SetVolumeMountSize 1,
     sharedVolume_SetName defaultJavaAgentConfigVolumeName,
     sharedVolume_SetVolumeSourceConfigMap (cn_Name cn)
       [\<lparr>kp_Key = ConfigDataKeyForAgent, kp_Path = ConfigDataKeyForAgent\<rparr>],
     sharedVolume_SetMountPath 0 defaultJavaAgentConfigVolumeMountPath]"

definition agent_volume :: "sharedVolume outcome" where
  "agent_volume = shared_volume [sharedVolume_SetVolumeMountSize 1,
     sharedVolume_SetName defaultJavaAgentVolumeName, sharedVolume_SetVolumeSourceEmptyDir,
     sharedVolume_SetMountPath 0 defaultJavaAgentVolumeMountPath]"

definition defaultJavaAgentEnvValue :: "string \<Rightarrow> string" where
  "defaultJavaAgentEnvValue version =
     ''-javaagent:/opt/shardingsphere-proxy/agent/shardingsphere-agent-'' @ version @ ''.jar''"

text \<open>How the proxy is told about the agent: an environment variable or a command line argument.\<close>

definition agent_option :: "lib \<Rightarrow> string \<Rightarrow> Container \<Rightarrow> Container" where
  "agent_option l version c =
     (if VersionBetween l version ''5.3.0'' ''5.4.0'' then
        containerBuilder_AppendEnv (Some [\<lparr>ev_Name = defaultJavaToolOptionsName,
          ev_Value = defaultJavaAgentEnvValue version\<rparr>]) c
      else if VersionGreaterAndEqualThan l version ''5.4.0'' then
        containerBuilder_SetArgs (Some [''-g'']) c
      else c)"

definition SetAgentBin :: "lib \<Rightarrow> ComputeNode \<Rightarrow> DeploymentBuilder \<Rightarrow> DeploymentBuilder outcome" where
  "SetAgentBin l cn d =
     (let version = cns_ServerVersion (cn_Spec cn);
          d = deploymentBuilder_SetPodTemplateAnnotations (prometheus_annotations (cn_Annotations cn)) d
      in case podSpecBuilder_FindContainerByName ''shardingsphere-proxy'' (db_PodSpec d) of
        None \<Rightarrow> Panic ''nil pointer dereference''
      | Some proxy \<Rightarrow>
          obind (agent_conf_volume cn) (\<lambda>conf. obind (built_mount 0 conf) (\<lambda>vmc.
          obind agent_volume (\<lambda>agent. obind (built_mount 0 agent) (\<lambda>vma.
          let d = on_pod (at_container proxy (agent_option l version)) d;
              d = on_pod (podSpecBuilder_AppendVolumes [sv_volume conf, sv_volume agent]) d;
              cb = init_container ''download-agent-bin-jar'' NewBootstrapContainerBuilderForAgentBin (db_PodSpec d);
              cb = containerBuilder_AppendEnv (Some [\<lparr>ev_Name = defaultAgentBinVersionEnvName, ev_Value = version\<rparr>])
                     (containerBuilder_AppendVolumeMounts [vma] cb);
              d = on_pod (podSpecBuilder_UpdateInitContainerByName cb) d;
              d = on_pod (at_container proxy (containerBuilder_AppendVolumeMounts [vmc, vma])) d
          in obind (if VersionExactEqualTo l version ''5.3.2'' then SetAgentScript cn d else Ok d) (\<lambda>d.
             Ok (on_pod (podSpecBuilder_UpdateContainerByName (container_at proxy (db_PodSpec d))) d)))))))"

definition mysql_volume :: "string \<Rightarrow> sharedVolume outcome" where
  "mysql_volume version = shared_volume [sharedVolume_SetVolumeMountSize 2,
     sharedVolume_SetName defaultMySQLDriverVolumeName, sharedVolume_SetVolumeSourceEmptyDir,
     sharedVolume_SetMountPath 0 defaultExtlibPath,
     sharedVolume_SetMountPath 1 (absoluteMySQLDriverMountName defaultExtlibPath version),
     sharedVolume_SetSubPath 1 (relativeMySQLDriverMountName version)]"

definition SetMySQLConnector :: "StorageNodeConnector \<Rightarrow> DeploymentBuilder \<Rightarrow> DeploymentBuilder outcome" where
  "SetMySQLConnector snc d =
     (let env = [\<lparr>ev_Name = defaultMySQLDriverEnvName, ev_Value = snc_Version snc\<rparr>]
      in case podSpecBuilder_FindContainerByName ''shardingsphere-proxy'' (db_PodSpec d) of
        None \<Rightarrow> Panic ''nil pointer dereference''
      | Some proxy \<Rightarrow>
          obind (mysql_volume (snc_Version snc)) (\<lambda>sv.
          obind (built_mount 0 sv) (\<lambda>vm0. obind (built_mount 1 sv) (\<lambda>vm1.
          let d = on_pod (at_container proxy (containerBuilder_AppendEnv (Some env))) d;
              cb = init_container ''download-mysql-jar'' NewBootstrapContainerBuilderForMysqlJar (db_PodSpec d);
              cb = containerBuilder_AppendVolumeMounts [vm0] (containerBuilder_AppendEnv (Some env) cb);
              d = on_pod (at_container proxy (containerBuilder_AppendVolumeMounts [vm1])) d;
              d = on_pod (podSpecBuilder_UpdateContainerByName (container_at proxy (db_PodSpec d))) d;
              d = on_pod (podSpecBuilder_UpdateInitContainerByName cb) d
          in Ok (on_pod (podSpecBuilder_AppendVolumes [sv_volume sv]) d)))))"

definition buildMetadata :: "lib \<Rightarrow> ComputeNode \<Rightarrow> DeploymentBuilder \<Rightarrow> DeploymentBuilder" where
  "buildMetadata l cn = on_metadata (\<lambda>m.
     metadataBuilder_SetOwnerReferences (Some [lib_NewControllerRef l (cn_meta cn) (cn_gvk cn)])
       (metadataBuilder_SetAnnotations (cn_Annotations cn)
         (metadataBuilder_SetLabels (cn_Labels cn)
           (metadataBuilder_SetNamespace (cn_Namespace cn)
             (metadataBuilder_SetName (cn_Name cn) m)))))"

definition buildProbes :: "ComputeNode \<Rightarrow> Container \<Rightarrow> Container" where
  "buildProbes cn scb =
     (case cns_Probes (cn_Spec cn) of None \<Rightarrow> scb
      | Some p \<Rightarrow>
          let scb = (if prb_LivenessProbe p \<noteq> None
                     then containerBuilder_SetLivenessProbe (prb_LivenessProbe p) scb else scb);
              scb = (if prb_ReadinessProbe p \<noteq> None
                     then containerBuilder_SetReadinessProbe (prb_ReadinessProbe p) scb else scb)
          in if prb_StartupProbe p \<noteq> None
             then containerBuilder_SetStartupProbe (prb_StartupProbe p) scb else scb)"

definition config_volume :: "ComputeNode \<Rightarrow> sharedVolume outcome" where
  "config_volume cn = shared_volume [sharedVolume_SetVolumeMountSize 1,
     sharedVolume_SetName defaultConfigVolumeName, sharedVolume_SetVolumeSourceConfigMap (cn_Name cn) [],
     sharedVolume_SetMountPath 0 defaultConfigVolumeMountPath]"

definition buildSpec :: "lib \<Rightarrow> ComputeNode \<Rightarrow> DeploymentBuilder \<Rightarrow> DeploymentBuilder outcome" where
  "buildSpec l cn d =
     (let spec = cn_Spec cn;
          d = deploymentBuilder_SetSelectors (cns_Selector spec) d;
          d = deploymentBuilder_SetReplicas (Some (cns_Replicas spec)) d;
          d = deploymentBuilder_SetRollingUpdateStrategy 0 3 d;
          tm = metadataBuilder_SetLabels (cn_Labels cn) zero_meta;
          scb = containerBuilder_SetResources (cns_Resources spec)
                  (containerBuilder_SetPorts (getContainerPortsFromComputeNode cn)
                    (SetVersion (cns_ServerVersion spec) NewShardingSphereProxyContainerBuilder));
          scb = buildProbes cn scb
      in obind (config_volume cn) (\<lambda>vc. obind (built_mount 0 vc) (\<lambda>vmc.
         let d = on_pod (podSpecBuilder_AppendVolumes [sv_volume vc]) d;
             sc = containerBuilder_AppendVolumeMounts [vmc] scb;
             d = on_pod (podSpecBuilder_AppendContainers (Some [sc])) d
         in obind (if agent_enabled cn then SetAgentBin l cn d else Ok d) (\<lambda>d.
            obind (case cns_StorageNodeConnector spec of
                     None \<Rightarrow> Ok d
                   | Some snc \<Rightarrow> if snc_Type snc = ConnectorTypeMySQL then SetMySQLConnector snc d else Ok d) (\<lambda>d.
            Ok (deploymentBuilder_SetPodTemplateSpec \<lparr>pt_meta = tm, pt_Spec = db_PodSpec d\<rparr> d))))))"

definition BuildDeployment :: "lib \<Rightarrow> ComputeNode \<Rightarrow> Deployment outcome" where
  "BuildDeployment l cn =
     obind (buildSpec l cn (buildMetadata l cn NewShardingSphereDeploymentBuilder)) (\<lambda>d.
       Ok (db_deployment (deploymentBuilder_BuildDeployment d)))"

end
