(* ===== verification/Compute_Node_Objects.thy ===== *)
theory Compute_Node_Objects
  imports Compute_Node_Builders
begin

text \<open>
  The service of a compute node (\<^verbatim>\<open>pkg/kubernetes/service/builder.go\<close>), its config map
  (\<^verbatim>\<open>pkg/kubernetes/configmap/builders.go\<close>, \<^verbatim>\<open>factory.go\<close>) and the port functions of
  \<^verbatim>\<open>pkg/controllers/compute_node_controller.go\<close>.
\<close>

section \<open>Service\<close>

definition serviceBuilder_SetName :: "string \<Rightarrow> KubeService \<Rightarrow> KubeService" where
  "serviceBuilder_SetName name s = s\<lparr>ksvc_meta := (ksvc_meta s)\<lparr>meta_Name := name\<rparr>\<rparr>"

definition serviceBuilder_SetNamespace :: "string \<Rightarrow> KubeService \<Rightarrow> KubeService" where
  "serviceBuilder_SetNamespace namespace s = s\<lparr>ksvc_meta := (ksvc_meta s)\<lparr>meta_Namespace := namespace\<rparr>\<rparr>"

definition serviceBuilder_SetLabelsAndSelectors ::
  "gomap \<Rightarrow> LabelSelector option \<Rightarrow> KubeService \<Rightarrow> KubeService outcome" where
  "serviceBuilder_SetLabelsAndSelectors labels selectors s =
     (case selectors of None \<Rightarrow> Panic ''nil pointer dereference''
      | Some sel \<Rightarrow> Ok (s\<lparr>ksvc_meta := (ksvc_meta s)\<lparr>meta_Labels := labels\<rparr>,
                        ksvc_Spec := (ksvc_Spec s)\<lparr>svs_Selector := sel_MatchLabels sel\<rparr>\<rparr>))"

definition serviceBuilder_SetAnnotations :: "gomap \<Rightarrow> KubeService \<Rightarrow> KubeService" where
  "serviceBuilder_SetAnnotations annos s = s\<lparr>ksvc_meta := (ksvc_meta s)\<lparr>meta_Annotations := annos\<rparr>\<rparr>"

definition serviceBuilder_SetType :: "ServiceType \<Rightarrow> KubeService \<Rightarrow> KubeService" where
  "serviceBuilder_SetType t s = s\<lparr>ksvc_Spec := (ksvc_Spec s)\<lparr>svs_Type := t\<rparr>\<rparr>"

definition serviceBuilder_SetPorts :: "ServicePort goslice \<Rightarrow> KubeService \<Rightarrow> KubeService" where
  "serviceBuilder_SetPorts ports s = s\<lparr>ksvc_Spec := (ksvc_Spec s)\<lparr>svs_Ports := ports\<rparr>\<rparr>"

definition DefaultService :: "lib \<Rightarrow> KubeMeta \<Rightarrow> GroupVersionKind \<Rightarrow> KubeService" where
  "DefaultService l m gvk =
     \<lparr>ksvc_meta = zero_meta\<lparr>meta_Name := ''shardingsphere-proxy'', meta_Namespace := ''default'',
        meta_Labels := Some Map.empty, meta_OwnerReferences := Some [lib_NewControllerRef l m gvk]\<rparr>,
      ksvc_Spec = \<lparr>svs_Ports = None, svs_Selector = Some Map.empty, svs_ClusterIP = [],
        svs_ClusterIPs = None, svs_Type = ServiceTypeClusterIP, svs_Rest = 0\<rparr>,
      ksvc_Ingress = None\<rparr>"

definition service_port :: "PortBinding \<Rightarrow> ServicePort" where
  "service_port pb = \<lparr>sp_PortName = pb_Name pb, sp_Protocol = pb_Protocol pb, sp_Port = pb_ServicePort pb,
     sp_TargetPort = FromInt (sint (pb_ContainerPort pb)), sp_NodePort = 0, sp_Rest = 0\<rparr>"

text \<open>\<^verbatim>\<open>cn.Spec.Bootstrap.AgentConfig.Plugins.Metrics.Prometheus.Port\<close>, through two pointers.\<close>

definition prometheus_port :: "ComputeNode \<Rightarrow> i32 outcome" where
  "prometheus_port cn =
     (case agt_Plugins (boot_AgentConfig (cns_Bootstrap (cn_Spec cn))) of
        None \<Rightarrow> Panic ''nil pointer dereference''
      | Some plg \<Rightarrow> (case plg_Metrics plg of None \<Rightarrow> Panic ''nil pointer dereference''
                    | Some prom \<Rightarrow> Ok (prom_Port prom)))"

text \<open>The first port called \<^verbatim>\<open>metrics\<close> is redirected, or such a port is added at the end.\<close>

fun set_metrics_port :: "i32 \<Rightarrow> ServicePort list \<Rightarrow> ServicePort list" where
  "set_metrics_port p [] =
     [\<lparr>sp_PortName = ''metrics'', sp_Protocol = [], sp_Port = 9090,
       sp_TargetPort = FromInt (sint p), sp_NodePort = 0, sp_Rest = 0\<rparr>]"
| "set_metrics_port p (sp # sps) =
     (if sp_PortName sp = ''metrics'' then sp\<lparr>sp_TargetPort := FromInt (sint p)\<rparr> # sps
      else sp # set_metrics_port p sps)"

definition NewService :: "lib \<Rightarrow> ComputeNode \<Rightarrow> KubeService outcome" where
  "NewService l cn =
     obind (serviceBuilder_SetLabelsAndSelectors (cn_Labels cn) (cns_Selector (cn_Spec cn))
              (serviceBuilder_SetNamespace (cn_Namespace cn)
                (serviceBuilder_SetName (cn_Name cn) (DefaultService l (cn_meta cn) (cn_gvk cn))))) (\<lambda>s.
     let s = serviceBuilder_SetType (cns_ServiceType (cn_Spec cn)) s;
         ports = map service_port (items (cn_PortBindings cn))
     in if agent_enabled cn then
          obind (prometheus_port cn) (\<lambda>p.
            Ok (serviceBuilder_SetPorts (Some (set_metrics_port p ports))
                 (serviceBuilder_SetAnnotations (prometheus_annotations (cn_Annotations cn)) s)))
        else Ok (serviceBuilder_SetPorts (Some ports) s))"

definition BuildService :: "lib \<Rightarrow> ComputeNode \<Rightarrow> KubeService outcome" where
  "BuildService l cn = NewService l cn"

section \<open>Ports\<close>

definition rebuilt_port :: "PortBinding \<Rightarrow> ServicePort \<Rightarrow> ServicePort" where
  "rebuilt_port pb sp =
     (let port = service_port pb
      in if sp_NodePort sp \<noteq> 0 then port\<lparr>sp_NodePort := sp_NodePort sp\<rparr> else port)"

definition updateNodePorts :: "PortBinding list \<Rightarrow> ServicePort list \<Rightarrow> ServicePort list" where
  "updateNodePorts portbindings svcports =
     concat (map (\<lambda>pb. map (rebuilt_port pb) (filter (\<lambda>sp. pb_Name pb = sp_PortName sp) svcports))
                 portbindings)"

text \<open>The inner loop of \<^verbatim>\<open>updateServiceNodePort\<close> stops at the first binding of that name.\<close>

fun set_node_port :: "ServicePort \<Rightarrow> PortBinding list \<Rightarrow> PortBinding list" where
  "set_node_port sp [] = []"
| "set_node_port sp (pb # pbs) =
     (if sp_PortName sp = pb_Name pb
      then (if pb_NodePort pb = 0 then pb\<lparr>pb_NodePort := sp_NodePort sp\<rparr> else pb) # pbs
      else pb # set_node_port sp pbs)"

definition updateServiceNodePort :: "PortBinding list \<Rightarrow> ServicePort list \<Rightarrow> PortBinding list" where
  "updateServiceNodePort pbs ports = foldl (\<lambda>pbs sp. set_node_port sp pbs) pbs ports"

fun updateServiceClusterIP :: "PortBinding list \<Rightarrow> PortBinding list" where
  "updateServiceClusterIP [] = []"
| "updateServiceClusterIP (pb # pbs) =
     (if pb_NodePort pb \<noteq> 0 then pb\<lparr>pb_NodePort := 0\<rparr> # pbs else pb # updateServiceClusterIP pbs)"

definition UpdateService :: "lib \<Rightarrow> ComputeNode \<Rightarrow> KubeService \<Rightarrow> KubeService outcome" where
  "UpdateService l cn svc =
     obind (NewService l cn) (\<lambda>e.
       let e = e\<lparr>ksvc_meta := ksvc_meta svc,
                 ksvc_Spec := (ksvc_Spec e)\<lparr>svs_ClusterIP := svs_ClusterIP (ksvc_Spec svc),
                                            svs_ClusterIPs := svs_ClusterIPs (ksvc_Spec svc)\<rparr>\<rparr>
       in Ok (if cns_ServiceType (cn_Spec cn) = ServiceTypeNodePort
              then e\<lparr>ksvc_Spec := (ksvc_Spec e)\<lparr>svs_Ports :=
                     Some (updateNodePorts (items (cn_PortBindings cn)) (items (svs_Ports (ksvc_Spec svc))))\<rparr>\<rparr>
              else e))"

section \<open>Config map\<close>

definition DefaultConfigMap :: "lib \<Rightarrow> KubeMeta \<Rightarrow> GroupVersionKind \<Rightarrow> ConfigMap" where
  "DefaultConfigMap l m gvk =
     \<lparr>cm_meta = zero_meta\<lparr>meta_Name := ''shardingsphere-proxy'', meta_Namespace := ''default'',
        meta_Labels := Some Map.empty, meta_OwnerReferences := Some [lib_NewControllerRef l m gvk]\<rparr>,
      cm_Data = Some Map.empty, cm_BinaryData = None\<rparr>"

text \<open>\<^verbatim>\<open>if val, ok := data[key]; ok { c.configmap.Data[key] = val }\<close>\<close>

definition copy_key :: "(string \<rightharpoonup> string) \<Rightarrow> string \<Rightarrow> (string \<rightharpoonup> string) \<Rightarrow> (string \<rightharpoonup> string)" where
  "copy_key data k m = (case data k of None \<Rightarrow> m | Some v \<Rightarrow> m(k \<mapsto> v))"

definition computeNodeConfigMapBuilder_SetData :: "(string \<rightharpoonup> string) \<Rightarrow> ConfigMap \<Rightarrow> ConfigMap" where
  "computeNodeConfigMapBuilder_SetData data c =
     c\<lparr>cm_Data := Some (copy_key data ConfigDataKeyForAgent
         (copy_key data ConfigDataKeyForLogback
           (copy_key data ConfigDataKeyForServer
             (case cm_Data c of None \<Rightarrow> Map.empty | Some m \<Rightarrow> m))))\<rparr>"

definition logback_entry :: "ComputeNode \<Rightarrow> string" where
  "logback_entry cn =
     (let logback = mget (cn_Annotations cn) AnnoLogbackConfig
      in if logback \<noteq> [] then logback else DefaultLogback)"

definition put_marshalled :: "string \<Rightarrow> gerror + string \<Rightarrow> (string \<rightharpoonup> string) \<Rightarrow> (string \<rightharpoonup> string)" where
  "put_marshalled k y data = (case y of Inl err \<Rightarrow> data | Inr text \<Rightarrow> data(k \<mapsto> text))"

definition config_data :: "lib \<Rightarrow> ComputeNode \<Rightarrow> (string \<rightharpoonup> string)" where
  "config_data l cn =
     (let boot = cns_Bootstrap (cn_Spec cn);
          data = [ConfigDataKeyForLogback \<mapsto> logback_entry cn];
          data = (if boot_ServerConfig boot \<noteq> zero_ServerConfig
                  then put_marshalled ConfigDataKeyForServer (lib_yaml_ServerConfig l (boot_ServerConfig boot)) data
                  else data(ConfigDataKeyForServer \<mapsto> DefaultServerConfig))
      in if boot_AgentConfig boot \<noteq> \<lparr>agt_Plugins = None\<rparr>
         then put_marshalled ConfigDataKeyForAgent (lib_yaml_AgentConfig l (boot_AgentConfig boot)) data
         else data)"

definition computeNodeConfigMapBuilder_Build :: "lib \<Rightarrow> ComputeNode \<Rightarrow> ConfigMap \<Rightarrow> ConfigMap" where
  "computeNodeConfigMapBuilder_Build l cn c =
     (let c = c\<lparr>cm_meta := (cm_meta c)\<lparr>meta_Name := cn_Name cn, meta_Namespace := cn_Namespace cn,
                 meta_Labels := cn_Labels cn, meta_Annotations := cn_Annotations cn\<rparr>\<rparr>
      in computeNodeConfigMapBuilder_SetData (config_data l cn) c)"

text \<open>
  The factory chooses the builder by group, version and kind. The builder for chaos experiments
  returns a nil pointer for an object that is no chaos experiment; the common builder returns the
  default config map.
\<close>

definition NewConfigMap :: "lib \<Rightarrow> ComputeNode \<Rightarrow> ConfigMap option" where
  "NewConfigMap l cn =
     (let gvk = cn_gvk cn; cm = DefaultConfigMap l (cn_meta cn) gvk
      in if gvk_Group gvk = ''shardingsphere.apache.org'' \<and> gvk_Kind gvk = ''ComputeNode''
            \<and> gvk_Version gvk = ''v1alpha1''
         then Some (computeNodeConfigMapBuilder_Build l cn cm)
         else if gvk_Group gvk = ''shardingsphere.apache.org'' \<and> gvk_Kind gvk = ''ShardingSphereChaos''
            \<and> gvk_Version gvk = ''v1alpha1''
         then None
         else Some cm)"

definition BuildConfigMap :: "lib \<Rightarrow> ComputeNode \<Rightarrow> ConfigMap option" where
  "BuildConfigMap l cn = NewConfigMap l cn"

definition UpdateComputeNodeConfigMap :: "lib \<Rightarrow> ComputeNode \<Rightarrow> ConfigMap \<Rightarrow> ConfigMap outcome" where
  "UpdateComputeNodeConfigMap l cn cur =
     (case NewConfigMap l cn of
        None \<Rightarrow> Panic ''nil pointer dereference''
      | Some now \<Rightarrow> Ok \<lparr>cm_meta = cm_meta cur, cm_Data = cm_Data now, cm_BinaryData = None\<rparr>)"

section \<open>Facts\<close>

lemma length_updateServiceClusterIP [simp]: "length (updateServiceClusterIP pbs) = length pbs"
  by (induction pbs) auto

lemma length_set_node_port [simp]: "length (set_node_port sp pbs) = length pbs"
  by (induction pbs) auto

lemma length_updateServiceNodePort [simp]: "length (updateServiceNodePort pbs ports) = length pbs"
  by (induction ports arbitrary: pbs) (auto simp: updateServiceNodePort_def)

lemma updated_bindings_empty [simp]:
  "updateServiceClusterIP pbs = [] \<longleftrightarrow> pbs = []" "updateServiceNodePort pbs ports = [] \<longleftrightarrow> pbs = []"
  by (metis length_0_conv length_updateServiceClusterIP, metis length_0_conv length_updateServiceNodePort)

text \<open>The three files are the only entries of the config map, and logback is always there.\<close>

lemma computeNodeConfigMapBuilder_data:
  "cm_Data (computeNodeConfigMapBuilder_Build l cn (DefaultConfigMap l m gvk)) = Some (config_data l cn)"
  by (rule sym) (auto simp: computeNodeConfigMapBuilder_Build_def computeNodeConfigMapBuilder_SetData_def
      DefaultConfigMap_def config_data_def copy_key_def put_marshalled_def Let_def ConfigDataKeyForAgent_def
      ConfigDataKeyForLogback_def ConfigDataKeyForServer_def fun_eq_iff split: sum.splits)

end
