(* ===== verification/Compute_Node_Status.thy ===== *)
theory Compute_Node_Status
  imports Compute_Node_Types
begin

text \<open>
  How the status of a compute node is computed from its pods and its service:
  \<^verbatim>\<open>GetConditionFromPods\<close> and its helpers in \<^verbatim>\<open>pkg/reconcile/computenode/utils.go\<close>, and
  \<^verbatim>\<open>reconcileComputeNodeStatus\<close> with its helpers in \<^verbatim>\<open>pkg/controllers/compute_node_controller.go\<close>.
  The readings of \<^verbatim>\<open>time.Now\<close> are a sequence given from outside.
\<close>

section \<open>Pods\<close>

datatype PodPhase = PodPending | PodRunning | PodSucceeded | PodFailed | PodUnknown | PodPhaseOther string

datatype PodConditionType = PodScheduled | PodInitialized | ContainersReady | PodReady | PodConditionOther string

record PodCondition =
  pc_Type :: PodConditionType
  pc_Status :: ConditionStatus

record ContainerStatus =
  cs_Name :: string
  cs_Ready :: bool

record Pod =
  pod_Phase :: PodPhase
  pod_Conditions :: "PodCondition list"
  pod_ContainerStatuses :: "ContainerStatus list"

section \<open>Conditions of pods\<close>

text \<open>
  The conditions of a pod are made with a type and nothing else, and only the type is read from
  them: the list of the types stands for them.
\<close>

fun getPreferedConditionFromPodConditions :: "PodCondition list \<Rightarrow> ComputeNodeConditionType list" where
  "getPreferedConditionFromPodConditions [] = []"
| "getPreferedConditionFromPodConditions (pc # pcs) =
     (if pc_Status pc \<noteq> ConditionTrue then []
      else (case pc_Type pc of
              PodScheduled \<Rightarrow> [ComputeNodeConditionDeployed]
            | PodInitialized \<Rightarrow> [ComputeNodeConditionInitialized]
            | ContainersReady \<Rightarrow> [ComputeNodeConditionStarted]
            | PodReady \<Rightarrow> [ComputeNodeConditionReady]
            | PodConditionOther s \<Rightarrow> []))
     @ getPreferedConditionFromPodConditions pcs"

definition getPreferedConditionFromPod :: "Pod \<Rightarrow> ComputeNodeConditionType list" where
  "getPreferedConditionFromPod pod =
     (if pod_Phase pod = PodUnknown then [ComputeNodeConditionUnknown]
      else let podConditions = getPreferedConditionFromPodConditions (pod_Conditions pod)
           in if pod_Phase pod = PodPending \<or> pod_Phase pod = PodRunning \<and> length podConditions = 4
              then ComputeNodeConditionPending # podConditions
              else if pod_Phase pod = PodFailed then [ComputeNodeConditionFailed]
              else podConditions)"

text \<open>The two readings of the clock a condition takes, after \<open>k\<close> conditions were made.\<close>

definition newCondition ::
  "(nat \<Rightarrow> gotime) \<Rightarrow> nat \<Rightarrow> ComputeNodeConditionType \<Rightarrow> string \<Rightarrow> string \<Rightarrow> ComputeNodeCondition" where
  "newCondition clock k t reason message =
     \<lparr>cnc_Type = t, cnc_Status = ConditionTrue, cnc_LastTransitionTime = Some (clock (2 * k + 1)),
      cnc_LastUpdateTime = Some (clock (2 * k)), cnc_Reason = reason, cnc_Message = message\<rparr>"

text \<open>The counter \<^verbatim>\<open>result\<close> of \<^verbatim>\<open>GetConditionFromPods\<close>.\<close>

definition result_count :: "Pod list \<Rightarrow> ComputeNodeConditionType \<Rightarrow> nat" where
  "result_count pods t =
     length (filter (\<lambda>u. u = t) (concat (map getPreferedConditionFromPod pods)))"

definition append_if :: "(nat \<Rightarrow> gotime) \<Rightarrow> bool \<Rightarrow> ComputeNodeConditionType \<Rightarrow> string \<Rightarrow> string
    \<Rightarrow> ComputeNodeCondition list \<Rightarrow> ComputeNodeCondition list" where
  "append_if clock b t reason message conds =
     (if b then conds @ [newCondition clock (length conds) t reason message] else conds)"

definition GetConditionFromPods :: "(nat \<Rightarrow> gotime) \<Rightarrow> Pod list \<Rightarrow> ComputeNodeCondition list" where
  "GetConditionFromPods clock pods =
     (if pods = [] then [newCondition clock 0 ComputeNodeConditionUnknown ''PodNotFound'' ''No pod was found'']
      else
        let result = result_count pods;
            conds = append_if clock (result ComputeNodeConditionUnknown = length pods)
              ComputeNodeConditionUnknown ''PodUnknown'' ''All pods are unknown'' [];
            conds = append_if clock (0 < result ComputeNodeConditionReady)
              ComputeNodeConditionReady ''PodReady'' ''Some pods are ready'' conds;
            conds = append_if clock (0 < result ComputeNodeConditionStarted)
              ComputeNodeConditionStarted ''PodStarted'' ''Some pods are started'' conds;
            conds = append_if clock (0 < result ComputeNodeConditionInitialized)
              ComputeNodeConditionInitialized ''PodInitialized'' ''Some pods are initialized'' conds;
            conds = append_if clock (0 < result ComputeNodeConditionDeployed)
              ComputeNodeConditionDeployed ''PodDeployed'' ''Some pods are deployed'' conds;
            conds = append_if clock (0 < result ComputeNodeConditionPending)
              ComputeNodeConditionPending ''PodPending'' ''Some pods are pending'' conds
        in append_if clock (0 < result ComputeNodeConditionFailed)
              ComputeNodeConditionFailed ''PodFailed'' ''Some pods are failed'' conds)"

section \<open>Conditions of the compute node\<close>

definition overwrite_condition :: "ComputeNodeCondition \<Rightarrow> ComputeNodeCondition \<Rightarrow> ComputeNodeCondition" where
  "overwrite_condition c e =
     (let e = e\<lparr>cnc_LastUpdateTime := cnc_LastUpdateTime c\<rparr>
      in if cnc_Type e = cnc_Type c
         then e\<lparr>cnc_Type := cnc_Type c, cnc_Status := cnc_Status c, cnc_Message := cnc_Message c,
                cnc_Reason := cnc_Reason c\<rparr>
         else if cnc_Type c = ComputeNodeConditionUnknown \<or> cnc_Type e = ComputeNodeConditionUnknown
         then e\<lparr>cnc_Status := ConditionFalse\<rparr>
         else e)"

text \<open>One round of the outer loop.\<close>

definition merge_condition :: "ComputeNodeCondition goslice \<Rightarrow> ComputeNodeCondition \<Rightarrow> ComputeNodeCondition goslice" where
  "merge_condition conditions c =
     (let found = list_ex (\<lambda>e. cnc_Type e = cnc_Type c) (items conditions);
          conditions = map_option (map (overwrite_condition c)) conditions
      in if \<not> found then slice_append conditions [c] else conditions)"

definition updateComputeNodeStatusCondition ::
  "ComputeNodeCondition goslice \<Rightarrow> ComputeNodeCondition list \<Rightarrow> ComputeNodeCondition goslice" where
  "updateComputeNodeStatusCondition conditions conds = foldl merge_condition conditions conds"

section \<open>Readiness\<close>

fun isTrueReadyPod_loop :: "PodCondition list \<Rightarrow> bool" where
  "isTrueReadyPod_loop [] = False"
| "isTrueReadyPod_loop (pc # pcs) =
     (if pc_Type pc = PodReady \<and> pc_Status pc = ConditionTrue then True else isTrueReadyPod_loop pcs)"

definition isTrueReadyPod :: "Pod \<Rightarrow> bool" where
  "isTrueReadyPod pod = isTrueReadyPod_loop (pod_Conditions pod)"

fun count_ready :: "ContainerStatus list \<Rightarrow> i32 \<Rightarrow> i32" where
  "count_ready [] cnt = cnt"
| "count_ready (cs # css) cnt =
     count_ready css (if cs_Name cs = ''shardingsphere-proxy'' \<and> cs_Ready cs then cnt + 1 else cnt)"

definition findRunningPod :: "i32 \<Rightarrow> Pod \<Rightarrow> i32" where
  "findRunningPod cnt pod =
     (if pod_Phase pod \<noteq> PodRunning then cnt
      else if isTrueReadyPod pod then count_ready (pod_ContainerStatuses pod) cnt else cnt)"

definition getReadyProxyInstances :: "Pod list \<Rightarrow> i32" where
  "getReadyProxyInstances pods = foldl findRunningPod 0 pods"

definition reconcileComputeNodeStatus ::
  "(nat \<Rightarrow> gotime) \<Rightarrow> Pod list \<Rightarrow> KubeService \<Rightarrow> ComputeNode \<Rightarrow> ComputeNode" where
  "reconcileComputeNodeStatus clock pods svc cn =
     (let conds = GetConditionFromPods clock pods;
          st = cn_Status cn;
          ready = getReadyProxyInstances pods;
          st = st\<lparr>cnst_Conditions := updateComputeNodeStatusCondition (cnst_Conditions st) conds,
                  cnst_Ready := show_int (sint ready) @ ''/'' @ show_nat (length pods),
                  cnst_Replicas := word_of_nat (length pods),
                  cnst_Phase := (if 0 < sint ready then ComputeNodeStatusReady else ComputeNodeStatusNotReady),
                  cnst_LoadBalancer := \<lparr>lb_ClusterIP = svs_ClusterIP (ksvc_Spec svc), lb_Ingress = ksvc_Ingress svc\<rparr>\<rparr>
      in cn\<lparr>cn_Status := st\<rparr>)"

section \<open>Facts\<close>

lemma isTrueReadyPod_iff:
  "isTrueReadyPod pod \<longleftrightarrow> (\<exists>pc \<in> set (pod_Conditions pod). pc_Type pc = PodReady \<and> pc_Status pc = ConditionTrue)"
proof -
  have "isTrueReadyPod_loop pcs \<longleftrightarrow> (\<exists>pc \<in> set pcs. pc_Type pc = PodReady \<and> pc_Status pc = ConditionTrue)" for pcs
    by (induction pcs) auto
  then show ?thesis by (simp add: isTrueReadyPod_def)
qed

text \<open>The ready proxy containers of a running, ready pod, and the number of them all.\<close>

definition ready_proxies :: "Pod \<Rightarrow> ContainerStatus list" where
  "ready_proxies pod =
     (if pod_Phase pod = PodRunning \<and> isTrueReadyPod pod
      then filter (\<lambda>cs. cs_Name cs = ''shardingsphere-proxy'' \<and> cs_Ready cs) (pod_ContainerStatuses pod)
      else [])"

definition ready_total :: "Pod list \<Rightarrow> nat" where
  "ready_total pods = length (concat (map ready_proxies pods))"

lemma count_ready_eq:
  "count_ready css cnt =
     cnt + word_of_nat (length (filter (\<lambda>cs. cs_Name cs = ''shardingsphere-proxy'' \<and> cs_Ready cs) css))"
  by (induction css arbitrary: cnt) (auto simp: add.commute)

lemma findRunningPod_eq: "findRunningPod cnt pod = cnt + word_of_nat (length (ready_proxies pod))"
  by (simp add: findRunningPod_def ready_proxies_def count_ready_eq)

lemma getReadyProxyInstances_eq: "getReadyProxyInstances pods = word_of_nat (ready_total pods)"
proof -
  have "foldl findRunningPod cnt pods = cnt + word_of_nat (ready_total pods)" for cnt
    by (induction pods arbitrary: cnt) (auto simp: ready_total_def findRunningPod_eq)
  then show ?thesis by (simp add: getReadyProxyInstances_def)
qed

text \<open>Which types the pods report: every pod unknown, or none of the seven of them unknown.\<close>

definition reported :: "Pod list \<Rightarrow> ComputeNodeConditionType \<Rightarrow> bool" where
  "reported pods t \<longleftrightarrow>
     (if t = ComputeNodeConditionUnknown then list_all (\<lambda>p. pod_Phase p = PodUnknown) pods
      else list_ex (\<lambda>p. t \<in> set (getPreferedConditionFromPod p)) pods)"

lemma unknown_notin_pod_conditions: "ComputeNodeConditionUnknown \<notin> set (getPreferedConditionFromPodConditions pcs)"
  by (induction pcs) (auto split: PodConditionType.splits)

lemma getPrefered_unknown:
  "getPreferedConditionFromPod p = [ComputeNodeConditionUnknown] \<longleftrightarrow> pod_Phase p = PodUnknown"
  "ComputeNodeConditionUnknown \<in> set (getPreferedConditionFromPod p) \<longleftrightarrow> pod_Phase p = PodUnknown"
  using unknown_notin_pod_conditions [of "pod_Conditions p"]
  by (auto simp: getPreferedConditionFromPod_def Let_def)

lemma result_count_Cons:
  "result_count (p # pods) t =
     length (filter (\<lambda>u. u = t) (getPreferedConditionFromPod p)) + result_count pods t"
  by (simp add: result_count_def)

lemma result_count_pos: "0 < result_count pods t \<longleftrightarrow> list_ex (\<lambda>p. t \<in> set (getPreferedConditionFromPod p)) pods"
  by (auto simp: result_count_def filter_empty_conv list_ex_iff)

lemma count_unknown_pod:
  "length (filter (\<lambda>u. u = ComputeNodeConditionUnknown) (getPreferedConditionFromPod p)) =
     (if pod_Phase p = PodUnknown then 1 else 0)"
proof (cases "pod_Phase p = PodUnknown")
  case True
  then show ?thesis by (simp add: getPreferedConditionFromPod_def)
next
  case False
  then show ?thesis using getPrefered_unknown(2) [of p] by (auto simp: filter_empty_conv)
qed

lemma result_count_unknown:
  "result_count pods ComputeNodeConditionUnknown = length (filter (\<lambda>p. pod_Phase p = PodUnknown) pods)"
  by (induction pods) (auto simp: result_count_Cons count_unknown_pod, simp add: result_count_def)

lemma all_unknown_iff:
  "result_count pods ComputeNodeConditionUnknown = length pods \<longleftrightarrow> list_all (\<lambda>p. pod_Phase p = PodUnknown) pods"
proof -
  have "length (filter P pods) = length pods \<longleftrightarrow> list_all P pods" for P
    by (induction pods) (auto, metis Suc_n_not_le_n length_filter_le)
  then show ?thesis by (simp add: result_count_unknown)
qed

text \<open>The conditions \<open>GetConditionFromPods\<close> returns: one per reported type, each of them true.\<close>

definition condition_order :: "ComputeNodeConditionType list" where
  "condition_order = [ComputeNodeConditionUnknown, ComputeNodeConditionReady, ComputeNodeConditionStarted,
     ComputeNodeConditionInitialized, ComputeNodeConditionDeployed, ComputeNodeConditionPending,
     ComputeNodeConditionFailed]"

lemma map_type_append_if [simp]:
  "map cnc_Type (append_if clock b t r m cs) = map cnc_Type cs @ (if b then [t] else [])"
  by (simp add: append_if_def newCondition_def)

lemma append_if_true [simp]:
  "list_all (\<lambda>c. cnc_Status c = ConditionTrue) (append_if clock b t r m cs) \<longleftrightarrow>
     list_all (\<lambda>c. cnc_Status c = ConditionTrue) cs"
  by (simp add: append_if_def newCondition_def)

lemma types_GetConditionFromPods:
  "map cnc_Type (GetConditionFromPods clock pods) = filter (reported pods) condition_order"
proof (cases "pods = []")
  case True
  then show ?thesis by (simp add: GetConditionFromPods_def newCondition_def reported_def condition_order_def)
next
  case False
  then show ?thesis
    by (simp add: GetConditionFromPods_def Let_def result_count_pos all_unknown_iff reported_def
        condition_order_def)
qed

lemma true_GetConditionFromPods:
  "list_all (\<lambda>c. cnc_Status c = ConditionTrue) (GetConditionFromPods clock pods)"
  by (simp add: GetConditionFromPods_def Let_def newCondition_def)

lemma reported_in_order: "reported pods t \<Longrightarrow> t \<in> set condition_order"
proof -
  have pcs: "set (getPreferedConditionFromPodConditions pcs) \<subseteq> set condition_order" for pcs
    by (induction pcs) (auto simp: condition_order_def split: PodConditionType.splits)
  have "set (getPreferedConditionFromPod p) \<subseteq> set condition_order" for p
    using pcs [of "pod_Conditions p"]
    by (auto simp: getPreferedConditionFromPod_def Let_def condition_order_def)
  then show "reported pods t \<Longrightarrow> t \<in> set condition_order"
    by (auto simp: reported_def list_ex_iff condition_order_def split: if_splits)
qed

lemma unknown_is_reported_alone:
  assumes "reported pods ComputeNodeConditionUnknown" and "reported pods t"
  shows "t = ComputeNodeConditionUnknown"
proof (rule ccontr)
  assume t: "t \<noteq> ComputeNodeConditionUnknown"
  with assms(2) obtain p where p: "p \<in> set pods" "t \<in> set (getPreferedConditionFromPod p)"
    by (auto simp: reported_def list_ex_iff)
  with assms(1) have "pod_Phase p = PodUnknown" by (simp add: reported_def list_all_iff)
  with p t show False by (simp add: getPreferedConditionFromPod_def)
qed

section \<open>The conditions as a map from types to statuses\<close>

definition cond_status :: "ComputeNodeCondition goslice \<Rightarrow> ComputeNodeConditionType \<rightharpoonup> ConditionStatus" where
  "cond_status cs t = map_option cnc_Status (find (\<lambda>e. cnc_Type e = t) (items cs))"

text \<open>
  What one reported condition does to such a map: it sets its own type; the unknown condition and
  the others exclude each other, so whichever is not reported turns false.
\<close>

definition status_step ::
  "(ComputeNodeConditionType \<rightharpoonup> ConditionStatus) \<Rightarrow> ComputeNodeCondition \<Rightarrow> (ComputeNodeConditionType \<rightharpoonup> ConditionStatus)" where
  "status_step m c = (\<lambda>t. if t = cnc_Type c then Some (cnc_Status c)
     else if cnc_Type c = ComputeNodeConditionUnknown \<or> t = ComputeNodeConditionUnknown
     then map_option (\<lambda>_. ConditionFalse) (m t) else m t)"

lemma type_overwrite [simp]: "cnc_Type (overwrite_condition c e) = cnc_Type e"
  by (simp add: overwrite_condition_def Let_def)

lemma find_map_overwrite:
  "find (\<lambda>e. cnc_Type e = t) (map (overwrite_condition c) es) =
     map_option (overwrite_condition c) (find (\<lambda>e. cnc_Type e = t) es)"
  by (induction es) auto

lemma find_snoc: "find P (xs @ [x]) = (case find P xs of None \<Rightarrow> if P x then Some x else None | Some y \<Rightarrow> Some y)"
  by (induction xs) auto

lemma find_Some_type: "find (\<lambda>e. cnc_Type e = t) es = Some e \<Longrightarrow> cnc_Type e = t"
  by (induction es) (auto split: if_splits)

lemma list_ex_find: "list_ex P xs \<longleftrightarrow> find P xs \<noteq> None"
  by (induction xs) auto

lemma items_merge_condition:
  "items (merge_condition cs c) = map (overwrite_condition c) (items cs) @
     (if list_ex (\<lambda>e. cnc_Type e = cnc_Type c) (items cs) then [] else [c])"
  by (cases cs) (simp_all add: merge_condition_def Let_def)

lemma merge_condition_refines: "cond_status (merge_condition cs c) = status_step (cond_status cs) c"
proof
  fix t
  show "cond_status (merge_condition cs c) t = status_step (cond_status cs) c t"
  proof (cases "find (\<lambda>e. cnc_Type e = t) (items cs)")
    case None
    then show ?thesis
      by (auto simp: cond_status_def status_step_def items_merge_condition list_ex_find find_snoc find_map_overwrite)
  next
    case (Some e)
    from find_Some_type [OF this] have "cnc_Type e = t" .
    moreover have "cond_status (merge_condition cs c) t = Some (cnc_Status (overwrite_condition c e))"
      using Some by (simp add: cond_status_def items_merge_condition find_snoc find_map_overwrite)
    moreover have "cond_status cs t = Some (cnc_Status e)" using Some by (simp add: cond_status_def)
    ultimately show ?thesis by (simp add: status_step_def overwrite_condition_def Let_def)
  qed
qed

lemma updateComputeNodeStatusCondition_refines:
  "cond_status (updateComputeNodeStatusCondition cs conds) = foldl status_step (cond_status cs) conds"
  unfolding updateComputeNodeStatusCondition_def
  by (induction conds arbitrary: cs) (simp_all add: merge_condition_refines)

lemma distinct_merge_condition:
  "distinct (map cnc_Type (items cs)) \<Longrightarrow> distinct (map cnc_Type (items (merge_condition cs c)))"
  by (auto simp: items_merge_condition list_ex_iff comp_def)

lemma foldl_status_step:
  assumes "list_all (\<lambda>c. cnc_Status c = ConditionTrue) conds"
    and "ComputeNodeConditionUnknown \<notin> cnc_Type ` set conds"
  shows "foldl status_step m conds t =
    (if t \<in> cnc_Type ` set conds then Some ConditionTrue
     else if t = ComputeNodeConditionUnknown \<and> conds \<noteq> [] then map_option (\<lambda>_. ConditionFalse) (m t) else m t)"
  using assms
proof (induction conds arbitrary: m)
  case Nil
  then show ?case by simp
next
  case (Cons c conds)
  have "foldl status_step m (c # conds) t = foldl status_step (status_step m c) conds t" by simp
  with Cons show ?case by (auto simp: status_step_def option.map_comp comp_def)
qed

lemma status_of_pass:
  "cond_status (updateComputeNodeStatusCondition cs (GetConditionFromPods clock pods)) t =
     (if reported pods t then Some ConditionTrue
      else if reported pods ComputeNodeConditionUnknown \<or> t = ComputeNodeConditionUnknown \<and> (\<exists>u. reported pods u)
      then map_option (\<lambda>_. ConditionFalse) (cond_status cs t)
      else cond_status cs t)"
proof -
  let ?conds = "GetConditionFromPods clock pods"
  have types: "cnc_Type ` set ?conds = {u. reported pods u}"
    using arg_cong [OF types_GetConditionFromPods [of clock pods], of set] reported_in_order by auto
  show ?thesis
  proof (cases "reported pods ComputeNodeConditionUnknown")
    case True
    have "filter (reported pods) condition_order = [ComputeNodeConditionUnknown]"
      using True unknown_is_reported_alone [OF True] by (auto simp: condition_order_def)
    with types_GetConditionFromPods [of clock pods] true_GetConditionFromPods [of clock pods]
    obtain c where "?conds = [c]" "cnc_Type c = ComputeNodeConditionUnknown" "cnc_Status c = ConditionTrue"
      by (cases ?conds) auto
    moreover have "reported pods t \<longleftrightarrow> t = ComputeNodeConditionUnknown"
      using True unknown_is_reported_alone [OF True] by blast
    ultimately show ?thesis
      using True by (simp add: updateComputeNodeStatusCondition_refines status_step_def)
  next
    case False
    with types have "ComputeNodeConditionUnknown \<notin> cnc_Type ` set ?conds" by simp
    from foldl_status_step [OF true_GetConditionFromPods this, of "cond_status cs" t] types False
    show ?thesis by (auto simp: updateComputeNodeStatusCondition_refines)
  qed
qed

end
