(* ===== verification/Compute_Node_Controller.thy ===== *)
theory Compute_Node_Controller
  imports Environment Compute_Node_Objects Compute_Node_Status
begin

text \<open>
  The controller of compute nodes, \<^verbatim>\<open>pkg/controllers/compute_node_controller.go\<close>, with the getters
  of \<^verbatim>\<open>pkg/kubernetes/deployment\<close>, \<^verbatim>\<open>service\<close> and \<^verbatim>\<open>configmap\<close> it calls. It is a computation over the
  history of its calls of the Kubernetes API; a value of type \<open>cn_env\<close> answers them, as a function
  of that history, and fixes the library functions and the clock. Log lines are left out.

  \<^verbatim>\<open>reconcileStatus\<close> and \<^verbatim>\<open>updateService\<close> change the compute node they are given in place, also when
  they fail; they return the changed node with their error.
\<close>

section \<open>Calls and answers\<close>

datatype cn_call =
    CnGet NamespacedName
  | CnUpdate ComputeNode
  | CnUpdateStatus ComputeNode
  | CnListPods string gomap
  | CnGetDeployment NamespacedName
  | CnCreateDeployment Deployment
  | CnUpdateDeployment Deployment
  | CnGetService NamespacedName
  | CnCreateService KubeService
  | CnUpdateService KubeService
  | CnGetConfigMap NamespacedName
  | CnCreateConfigMap ConfigMap
  | CnUpdateConfigMap ConfigMap

type_synonym 'a cio = "(cn_call, 'a) io"

record cn_env =
  cne_lib :: lib
  cne_clock :: "cn_call list \<Rightarrow> nat \<Rightarrow> gotime"
  cne_get :: "cn_call list \<Rightarrow> NamespacedName \<Rightarrow> gerror + ComputeNode"
  cne_list_pods :: "cn_call list \<Rightarrow> string \<Rightarrow> gomap \<Rightarrow> gerror + Pod list"
  cne_get_deployment :: "cn_call list \<Rightarrow> NamespacedName \<Rightarrow> gerror + Deployment"
  cne_get_service :: "cn_call list \<Rightarrow> NamespacedName \<Rightarrow> gerror + KubeService"
  cne_get_config_map :: "cn_call list \<Rightarrow> NamespacedName \<Rightarrow> gerror + ConfigMap"
  cne_write :: "cn_call list \<Rightarrow> cn_call \<Rightarrow> gerror + unit"

definition cn_write :: "cn_env \<Rightarrow> cn_call \<Rightarrow> unit cio" where
  "cn_write e c = call c (\<lambda>tr. cne_write e tr c)"

section \<open>Deployment\<close>

definition node_name :: "ComputeNode \<Rightarrow> NamespacedName" where
  "node_name cn = (cn_Namespace cn, cn_Name cn)"

definition getDeploymentByNamespacedName :: "cn_env \<Rightarrow> NamespacedName \<Rightarrow> Deployment option cio" where
  "getDeploymentByNamespacedName e nn =
     nil_if_missing (call (CnGetDeployment nn) (\<lambda>tr. cne_get_deployment e tr nn))"

definition createDeployment :: "cn_env \<Rightarrow> ComputeNode \<Rightarrow> unit cio" where
  "createDeployment e cn =
     bind_io (lift_outcome (BuildDeployment (cne_lib e) cn)) (\<lambda>deploy.
       allow_existing (cn_write e (CnCreateDeployment deploy)))"

definition updateDeployment :: "cn_env \<Rightarrow> ComputeNode \<Rightarrow> Deployment \<Rightarrow> unit cio" where
  "updateDeployment e cn deploy =
     bind_io (lift_outcome (BuildDeployment (cne_lib e) cn)) (\<lambda>ex.
       let ex = ex\<lparr>dep_meta := dep_meta deploy\<rparr>
       in if dep_Spec deploy \<noteq> dep_Spec ex then cn_write e (CnUpdateDeployment ex) else ret ())"

definition reconcileDeployment :: "cn_env \<Rightarrow> ComputeNode \<Rightarrow> unit cio" where
  "reconcileDeployment e cn =
     bind_io (getDeploymentByNamespacedName e (node_name cn)) (\<lambda>deploy. case deploy of
       Some d \<Rightarrow> updateDeployment e cn d
     | None \<Rightarrow> createDeployment e cn)"

section \<open>Service\<close>

definition cn_getServiceByNamespacedName :: "cn_env \<Rightarrow> NamespacedName \<Rightarrow> KubeService option cio" where
  "cn_getServiceByNamespacedName e nn =
     nil_if_missing (call (CnGetService nn) (\<lambda>tr. cne_get_service e tr nn))"

definition createService :: "cn_env \<Rightarrow> ComputeNode \<Rightarrow> unit cio" where
  "createService e cn =
     bind_io (lift_outcome (BuildService (cne_lib e) cn)) (\<lambda>svc.
       allow_existing (cn_write e (CnCreateService svc)))"

definition getRuntimeComputeNode :: "cn_env \<Rightarrow> NamespacedName \<Rightarrow> ComputeNode cio" where
  "getRuntimeComputeNode e nn = call (CnGet nn) (\<lambda>tr. cne_get e tr nn)"

definition updateComputeNodePortBindings :: "cn_env \<Rightarrow> ComputeNode \<Rightarrow> unit cio" where
  "updateComputeNodePortBindings e cn =
     bind_io (attempt (getRuntimeComputeNode e (node_name cn))) (\<lambda>r. case r of
       Inl err \<Rightarrow> ret ()
     | Inr rt \<Rightarrow> cn_write e (CnUpdate
         (rt\<lparr>cn_Spec := (cn_Spec rt)\<lparr>cns_PortBindings := cn_PortBindings cn\<rparr>\<rparr>)))"

text \<open>
  What \<^verbatim>\<open>updateService\<close> does to \<^verbatim>\<open>cn.Spec.PortBindings\<close> before it compares them with \<^verbatim>\<open>pbs\<close>. The
  \<^verbatim>\<open>copy\<close> above copies from \<^verbatim>\<open>pbs\<close>, the second argument, which is empty: it copies nothing, and
  \<^verbatim>\<open>pbs\<close> is the empty list afterwards.
\<close>

definition adjust_bindings :: "ComputeNode \<Rightarrow> KubeService \<Rightarrow> ComputeNode" where
  "adjust_bindings cn s =
     (let f = (case cns_ServiceType (cn_Spec cn) of
                 ServiceTypeClusterIP \<Rightarrow> updateServiceClusterIP
               | ServiceTypeOther t \<Rightarrow> id
               | _ \<Rightarrow> (\<lambda>pbs. updateServiceNodePort pbs (items (svs_Ports (ksvc_Spec s)))))
      in cn\<lparr>cn_Spec := (cn_Spec cn)\<lparr>cns_PortBindings := map_option f (cn_PortBindings cn)\<rparr>\<rparr>)"

definition updateService :: "cn_env \<Rightarrow> ComputeNode \<Rightarrow> KubeService \<Rightarrow> (ComputeNode \<times> gerror option) cio" where
  "updateService e cn s =
     (let pbs = Some [];
          cn = adjust_bindings cn s;
          with_node = (\<lambda>m. bind_io (attempt m) (\<lambda>r. ret (cn, error_of r)))
      in if (case cns_ServiceType (cn_Spec cn) of ServiceTypeOther t \<Rightarrow> False | _ \<Rightarrow> True)
            \<and> cn_PortBindings cn \<noteq> pbs
         then with_node (updateComputeNodePortBindings e cn)
         else with_node
           (bind_io (lift_outcome (BuildService (cne_lib e) cn)) (\<lambda>ex.
              let ex = ex\<lparr>ksvc_meta := ksvc_meta s,
                          ksvc_Spec := (ksvc_Spec ex)\<lparr>svs_ClusterIP := svs_ClusterIP (ksvc_Spec s),
                                                      svs_ClusterIPs := svs_ClusterIPs (ksvc_Spec s)\<rparr>\<rparr>;
                  ex = (if cns_ServiceType (cn_Spec cn) = ServiceTypeNodePort
                        then ex\<lparr>ksvc_Spec := (ksvc_Spec ex)\<lparr>svs_Ports := Some (updateNodePorts
                               (items (cn_PortBindings cn)) (items (svs_Ports (ksvc_Spec s))))\<rparr>\<rparr>
                        else ex)
              in if ksvc_Spec ex \<noteq> ksvc_Spec s then cn_write e (CnUpdateService ex) else ret ())))"

definition reconcileService :: "cn_env \<Rightarrow> ComputeNode \<Rightarrow> (ComputeNode \<times> gerror option) cio" where
  "reconcileService e cn =
     bind_io (attempt (cn_getServiceByNamespacedName e (node_name cn))) (\<lambda>r. case r of
       Inl err \<Rightarrow> ret (cn, Some err)
     | Inr (Some s) \<Rightarrow> updateService e cn s
     | Inr None \<Rightarrow> bind_io (attempt (createService e cn)) (\<lambda>r. ret (cn, error_of r)))"

section \<open>Config map\<close>

definition getConfigMapByNamespacedName :: "cn_env \<Rightarrow> NamespacedName \<Rightarrow> ConfigMap option cio" where
  "getConfigMapByNamespacedName e nn =
     nil_if_missing (call (CnGetConfigMap nn) (\<lambda>tr. cne_get_config_map e tr nn))"

text \<open>\<^verbatim>\<open>BuildConfigMap\<close> may return a nil pointer, which the API client and the callers dereference.\<close>

definition built_config_map :: "cn_env \<Rightarrow> ComputeNode \<Rightarrow> ConfigMap cio" where
  "built_config_map e cn = (case BuildConfigMap (cne_lib e) cn of
     None \<Rightarrow> panic ''nil pointer dereference'' | Some cm \<Rightarrow> ret cm)"

definition createConfigMap :: "cn_env \<Rightarrow> ComputeNode \<Rightarrow> unit cio" where
  "createConfigMap e cn =
     bind_io (built_config_map e cn) (\<lambda>cm. allow_existing (cn_write e (CnCreateConfigMap cm)))"

definition updateConfigMap :: "cn_env \<Rightarrow> ComputeNode \<Rightarrow> ConfigMap \<Rightarrow> unit cio" where
  "updateConfigMap e cn cm =
     bind_io (built_config_map e cn) (\<lambda>ex.
       let ex = ex\<lparr>cm_meta := cm_meta cm\<rparr>
       in if cm_Data cm \<noteq> cm_Data ex then cn_write e (CnUpdateConfigMap ex) else ret ())"

definition reconcileConfigMap :: "cn_env \<Rightarrow> ComputeNode \<Rightarrow> unit cio" where
  "reconcileConfigMap e cn =
     bind_io (getConfigMapByNamespacedName e (node_name cn)) (\<lambda>cm. case cm of
       Some c \<Rightarrow> updateConfigMap e cn c
     | None \<Rightarrow> createConfigMap e cn)"

section \<open>Status\<close>

definition zero_KubeService :: KubeService where
  "zero_KubeService = \<lparr>ksvc_meta = zero_meta, ksvc_Spec = \<lparr>svs_Ports = None, svs_Selector = None,
     svs_ClusterIP = [], svs_ClusterIPs = None, svs_Type = ServiceTypeOther [], svs_Rest = 0\<rparr>, ksvc_Ingress = None\<rparr>"

text \<open>
  The last part of \<^verbatim>\<open>reconcileStatus\<close>, once the pods and the service are known: the status is
  computed into \<^verbatim>\<open>cn\<close> and then written to the node as it is stored now.
\<close>

definition put_status :: "cn_env \<Rightarrow> string \<Rightarrow> ComputeNode \<Rightarrow> (ComputeNode \<times> gerror option) cio" where
  "put_status e selector cn =
     bind_io (attempt (getRuntimeComputeNode e (node_name cn))) (\<lambda>r. case r of
       Inl err \<Rightarrow> ret (cn, Some err)
     | Inr rt \<Rightarrow>
         let cn = cn\<lparr>cn_Status := (cn_Status cn)\<lparr>cnst_Selector := selector\<rparr>\<rparr>
         in bind_io (attempt (cn_write e (CnUpdateStatus (rt\<lparr>cn_Status := cn_Status cn\<rparr>)))) (\<lambda>r.
              ret (cn, error_of r)))"

definition write_status ::
  "cn_env \<Rightarrow> string \<Rightarrow> Pod list \<Rightarrow> KubeService \<Rightarrow> ComputeNode \<Rightarrow> (ComputeNode \<times> gerror option) cio" where
  "write_status e selector pods svc cn =
     (\<lambda>tr. put_status e selector (reconcileComputeNodeStatus (cne_clock e tr) pods svc cn) tr)"

definition reconcileStatus :: "cn_env \<Rightarrow> ComputeNode \<Rightarrow> (ComputeNode \<times> gerror option) cio" where
  "reconcileStatus e cn =
     (case lib_LabelSelectorAsSelector (cne_lib e) (cns_Selector (cn_Spec cn)) of
        Inl err \<Rightarrow> ret (cn, Some (NewError ''error retrieving ComputeNode labels''))
      | Inr selector \<Rightarrow> (case cns_Selector (cn_Spec cn) of
          None \<Rightarrow> panic ''nil pointer dereference''
        | Some sel \<Rightarrow>
            bind_io (attempt (call (CnListPods (cn_Namespace cn) (sel_MatchLabels sel))
                       (\<lambda>tr. cne_list_pods e tr (cn_Namespace cn) (sel_MatchLabels sel)))) (\<lambda>r. case r of
              Inl err \<Rightarrow> ret (cn, Some err)
            | Inr pods \<Rightarrow>
                bind_io (attempt (call (CnGetService (node_name cn))
                           (\<lambda>tr. cne_get_service e tr (node_name cn)))) (\<lambda>r. case r of
                  Inl err \<Rightarrow> if \<not> IsNotFound err then ret (cn, Some err)
                             else write_status e selector pods zero_KubeService cn
                | Inr svc \<Rightarrow> write_status e selector pods svc cn))))"

section \<open>The reconcile loop\<close>

definition first_error :: "gerror list \<Rightarrow> reconcile_result" where
  "first_error errors = (case errors of
     [] \<Rightarrow> (res_after, None)
   | err # _ \<Rightarrow> (res_requeue, Some err))"

text \<open>The part of \<^verbatim>\<open>Reconcile\<close> after the node was found.\<close>

definition reconcileNode :: "cn_env \<Rightarrow> ComputeNode \<Rightarrow> reconcile_result cio" where
  "reconcileNode e cn =
     bind_io (reconcileStatus e cn) (\<lambda>(cn, status_err).
     bind_io (attempt (reconcileDeployment e cn)) (\<lambda>deployment.
     bind_io (reconcileService e cn) (\<lambda>(cn, service_err).
     bind_io (attempt (reconcileConfigMap e cn)) (\<lambda>config_map.
       ret (first_error (List.map_filter id [error_of deployment, service_err, error_of config_map]))))))"

definition cn_Reconcile :: "cn_env \<Rightarrow> NamespacedName \<Rightarrow> reconcile_result cio" where
  "cn_Reconcile e req =
     bind_io (attempt (call (CnGet req) (\<lambda>tr. cne_get e tr req))) (\<lambda>r. case r of
       Inl err \<Rightarrow>
         if IsNotFound err then ret (res_after, None)
         else ret (res_requeue, Some err)
     | Inr cn \<Rightarrow> reconcileNode e cn)"

end
