(* ===== verification/Compute_Node_Deployment.thy ===== *)
theory Compute_Node_Deployment
  imports Compute_Node_Builders
begin

text \<open>
  What \<^verbatim>\<open>BuildDeployment\<close> builds. The shape of a pod is the names of its volumes and, for every
  container, where it mounts which of them. There is one shape for each combination of what a
  compute node may ask for (the Java agent, the replaced start script of version 5.3.2, the MySQL
  connector); each setter takes one shape to the next, and the shapes are well formed.
\<close>

section \<open>The shared volumes\<close>

lemma config_volume_eq: "config_volume cn =
   Ok \<lparr>sv_volume = \<lparr>vol_Name = defaultConfigVolumeName, vol_EmptyDir = False,
        vol_ConfigMap = Some \<lparr>cmv_Name = cn_Name cn, cmv_Items = None\<rparr>\<rparr>,
       sv_volumeMounts = [Some \<lparr>vm_Name = defaultConfigVolumeName, vm_MountPath = defaultConfigVolumeMountPath, vm_SubPath = []\<rparr>]\<rparr>"
  by (simp add: config_volume_def shared_volume_def sharedVolume_defs)

lemma agent_conf_volume_eq: "agent_conf_volume cn =
   Ok \<lparr>sv_volume = \<lparr>vol_Name = defaultJavaAgentConfigVolumeName, vol_EmptyDir = False,
        vol_ConfigMap = Some \<lparr>cmv_Name = cn_Name cn, cmv_Items = Some [\<lparr>kp_Key = ConfigDataKeyForAgent, kp_Path = ConfigDataKeyForAgent\<rparr>]\<rparr>\<rparr>,
       sv_volumeMounts = [Some \<lparr>vm_Name = defaultJavaAgentConfigVolumeName, vm_MountPath = defaultJavaAgentConfigVolumeMountPath, vm_SubPath = []\<rparr>]\<rparr>"
  by (simp add: agent_conf_volume_def shared_volume_def sharedVolume_defs)

lemma agent_volume_eq: "agent_volume =
   Ok \<lparr>sv_volume = \<lparr>vol_Name = defaultJavaAgentVolumeName, vol_EmptyDir = True, vol_ConfigMap = None\<rparr>,
       sv_volumeMounts = [Some \<lparr>vm_Name = defaultJavaAgentVolumeName, vm_MountPath = defaultJavaAgentVolumeMountPath, vm_SubPath = []\<rparr>]\<rparr>"
  by (simp add: agent_volume_def shared_volume_def sharedVolume_defs)

lemma script_volume_eq: "script_volume =
   Ok \<lparr>sv_volume = \<lparr>vol_Name = ''replace-start-script'', vol_EmptyDir = True, vol_ConfigMap = None\<rparr>,
       sv_volumeMounts = [Some \<lparr>vm_Name = ''replace-start-script'', vm_MountPath = ''/opt/shardingsphere-proxy/bin'', vm_SubPath = []\<rparr>]\<rparr>"
  by (simp add: script_volume_def shared_volume_def sharedVolume_defs)

lemma mysql_volume_eq: "mysql_volume v =
   Ok \<lparr>sv_volume = \<lparr>vol_Name = defaultMySQLDriverVolumeName, vol_EmptyDir = True, vol_ConfigMap = None\<rparr>,
       sv_volumeMounts = [Some \<lparr>vm_Name = defaultMySQLDriverVolumeName, vm_MountPath = defaultExtlibPath, vm_SubPath = []\<rparr>,
         Some \<lparr>vm_Name = defaultMySQLDriverVolumeName, vm_MountPath = absoluteMySQLDriverMountName defaultExtlibPath v,
           vm_SubPath = relativeMySQLDriverMountName v\<rparr>]\<rparr>"
  by (simp add: mysql_volume_def shared_volume_def sharedVolume_defs numeral_2_eq_2)

section \<open>Shapes\<close>

definition mount_sites :: "Container \<Rightarrow> (string \<times> string) list" where
  "mount_sites c = map (\<lambda>m. (vm_Name m, vm_MountPath m)) (items (con_VolumeMounts c))"

type_synonym pod_shape = "string list \<times> (string \<times> (string \<times> string) list) list \<times> (string \<times> (string \<times> string) list) list"

definition shape :: "PodSpec \<Rightarrow> pod_shape" where
  "shape s = (map vol_Name (items (ps_Volumes s)),
     map (\<lambda>c. (con_Name c, mount_sites c)) (items (ps_InitContainers s)),
     map (\<lambda>c. (con_Name c, mount_sites c)) (items (ps_Containers s)))"

lemma shape_proxyE:
  assumes "shape s = (vs, is, [(''shardingsphere-proxy'', ms)])"
  obtains c where "ps_Containers s = Some [c]" "con_Name c = ''shardingsphere-proxy''" "mount_sites c = ms"
  using assms by (cases "ps_Containers s") (auto simp: shape_def)

lemma mount_sites_simps [simp]:
  "mount_sites (containerBuilder_AppendVolumeMounts ms c) =
     mount_sites c @ map (\<lambda>m. (vm_Name m, vm_MountPath m)) ms"
  "mount_sites (containerBuilder_AppendEnv es c) = mount_sites c"
  "mount_sites (agent_option l v c) = mount_sites c"
  "mount_sites (bootstrap_container n i t) = []"
  by (simp_all add: mount_sites_def containerBuilder_defs bootstrap_container_def agent_option_def
      Let_def split: option.split)

lemma con_Name_simps [simp]:
  "con_Name (containerBuilder_AppendVolumeMounts ms c) = con_Name c"
  "con_Name (containerBuilder_AppendEnv es c) = con_Name c"
  "con_Name (agent_option l v c) = con_Name c"
  "con_Name (bootstrap_container n i t) = n"
  by (simp_all add: containerBuilder_defs bootstrap_container_def agent_option_def
      Let_def split: option.split)

lemma init_names_shape: "shape s = (vs, is, cs) \<Longrightarrow> con_Name ` set (items (ps_InitContainers s)) = fst ` set is"
  by (force simp: shape_def image_iff)

lemma SetAgentScript_shape:
  assumes "shape (db_PodSpec d) = (vs, is, [(''shardingsphere-proxy'', ms)])"
    and "''replace-start-script'' \<notin> fst ` set is"
  obtains d' where "SetAgentScript cn d = Ok d'"
    "shape (db_PodSpec d') = (vs @ [''replace-start-script''],
       is @ [(''replace-start-script'', [(''replace-start-script'', ''/opt/shardingsphere-proxy/tmpbin'')])],
       [(''shardingsphere-proxy'', ms @ [(''replace-start-script'', ''/opt/shardingsphere-proxy/bin'')])])"
proof -
  obtain c where c: "ps_Containers (db_PodSpec d) = Some [c]" "con_Name c = ''shardingsphere-proxy''" "mount_sites c = ms"
    using assms(1) by (rule shape_proxyE)
  have "''replace-start-script'' \<notin> con_Name ` set (items (ps_InitContainers (db_PodSpec d)))"
    using assms(2) init_names_shape [OF assms(1)] by simp
  with c assms(1) show thesis
    by (intro that) (auto simp: SetAgentScript_def script_volume_eq built_mount_def podSpecBuilder_defs
      at_container_def on_pod_def Let_def shape_def init_container_def index_by_name_new update_by_name_new
      NewBootstrapContainerBuilderForStartScripts_def)
qed

section \<open>The setters\<close>

definition script_sites :: "lib \<Rightarrow> string \<Rightarrow> string list \<times> (string \<times> (string \<times> string) list) list \<times> (string \<times> string) list" where
  "script_sites l version = (if VersionExactEqualTo l version ''5.3.2''
     then ([''replace-start-script''],
           [(''replace-start-script'', [(''replace-start-script'', ''/opt/shardingsphere-proxy/tmpbin'')])],
           [(''replace-start-script'', ''/opt/shardingsphere-proxy/bin'')])
     else ([], [], []))"

text \<open>The pod with the agent, as it is when the start script is not replaced.\<close>

definition agent_pod :: "lib \<Rightarrow> ComputeNode \<Rightarrow> Container \<Rightarrow> PodSpec \<Rightarrow> PodSpec" where
  "agent_pod l cn c s =
     (let version = cns_ServerVersion (cn_Spec cn);
          vma = \<lparr>vm_Name = defaultJavaAgentVolumeName, vm_MountPath = defaultJavaAgentVolumeMountPath, vm_SubPath = []\<rparr>;
          vmc = \<lparr>vm_Name = defaultJavaAgentConfigVolumeName, vm_MountPath = defaultJavaAgentConfigVolumeMountPath, vm_SubPath = []\<rparr>
      in s\<lparr>ps_Volumes := Some (items (ps_Volumes s) @
             [\<lparr>vol_Name = defaultJavaAgentConfigVolumeName, vol_EmptyDir = False,
               vol_ConfigMap = Some \<lparr>cmv_Name = cn_Name cn,
                 cmv_Items = Some [\<lparr>kp_Key = ConfigDataKeyForAgent, kp_Path = ConfigDataKeyForAgent\<rparr>]\<rparr>\<rparr>,
              \<lparr>vol_Name = defaultJavaAgentVolumeName, vol_EmptyDir = True, vol_ConfigMap = None\<rparr>]),
           ps_InitContainers := Some [containerBuilder_AppendEnv
             (Some [\<lparr>ev_Name = defaultAgentBinVersionEnvName, ev_Value = version\<rparr>])
             (containerBuilder_AppendVolumeMounts [vma] NewBootstrapContainerBuilderForAgentBin)],
           ps_Containers := Some [containerBuilder_AppendVolumeMounts [vmc, vma] (agent_option l version c)]\<rparr>)"

lemma SetAgentBin_run:
  assumes "ps_Containers (db_PodSpec d) = Some [c]" and "con_Name c = ''shardingsphere-proxy''"
    and "items (ps_InitContainers (db_PodSpec d)) = []"
  shows "SetAgentBin l cn d =
    (let d = (deploymentBuilder_SetPodTemplateAnnotations (prometheus_annotations (cn_Annotations cn)) d)
               \<lparr>db_PodSpec := agent_pod l cn c (db_PodSpec d)\<rparr>
     in obind (if VersionExactEqualTo l (cns_ServerVersion (cn_Spec cn)) ''5.3.2''
               then SetAgentScript cn d else Ok d) (\<lambda>d.
       Ok (on_pod (podSpecBuilder_UpdateContainerByName (container_at 0 (db_PodSpec d))) d)))"
  using assms
  by (auto simp: SetAgentBin_def agent_conf_volume_eq agent_volume_eq built_mount_def podSpecBuilder_defs
      at_container_def on_pod_def Let_def init_container_def agent_pod_def update_slice_def
      deploymentBuilder_SetPodTemplateAnnotations_def on_template_meta_def on_spec_def split: option.splits)

lemma update_single:
  "shape s = (vs, is, [(n, ms)]) \<Longrightarrow> podSpecBuilder_UpdateContainerByName (container_at 0 s) s = s"
  by (cases "ps_Containers s") (auto simp: shape_def podSpecBuilder_defs container_at_def update_slice_def)

lemma SetAgentBin_shape:
  assumes "shape (db_PodSpec d) = (vs, [], [(''shardingsphere-proxy'', ms)])"
    and "script_sites l (cns_ServerVersion (cn_Spec cn)) = (svs, sis, sms)"
  obtains d' where "SetAgentBin l cn d = Ok d'"
    "shape (db_PodSpec d') = (vs @ [defaultJavaAgentConfigVolumeName, defaultJavaAgentVolumeName] @ svs,
       [(''download-agent-bin-jar'', [(defaultJavaAgentVolumeName, defaultJavaAgentVolumeMountPath)])] @ sis,
       [(''shardingsphere-proxy'', ms @ [(defaultJavaAgentConfigVolumeName, defaultJavaAgentConfigVolumeMountPath),
          (defaultJavaAgentVolumeName, defaultJavaAgentVolumeMountPath)] @ sms)])"
proof -
  obtain c where c: "ps_Containers (db_PodSpec d) = Some [c]" "con_Name c = ''shardingsphere-proxy''" "mount_sites c = ms"
    using assms(1) by (rule shape_proxyE)
  have init: "items (ps_InitContainers (db_PodSpec d)) = []" using assms(1) by (simp add: shape_def)
  define d1 where "d1 = (deploymentBuilder_SetPodTemplateAnnotations (prometheus_annotations (cn_Annotations cn)) d)
     \<lparr>db_PodSpec := agent_pod l cn c (db_PodSpec d)\<rparr>"
  note run = SetAgentBin_run [OF c(1,2) init, of l cn, folded d1_def, unfolded Let_def]
  have shape1: "shape (db_PodSpec d1) = (vs @ [defaultJavaAgentConfigVolumeName, defaultJavaAgentVolumeName],
       [(''download-agent-bin-jar'', [(defaultJavaAgentVolumeName, defaultJavaAgentVolumeMountPath)])],
       [(''shardingsphere-proxy'', ms @ [(defaultJavaAgentConfigVolumeName, defaultJavaAgentConfigVolumeMountPath),
          (defaultJavaAgentVolumeName, defaultJavaAgentVolumeMountPath)])])"
    using assms(1) c
    by (simp add: shape_def d1_def agent_pod_def Let_def NewBootstrapContainerBuilderForAgentBin_def)
  show thesis
  proof (cases "VersionExactEqualTo l (cns_ServerVersion (cn_Spec cn)) ''5.3.2''")
    case True
    have "''replace-start-script'' \<notin>
        fst ` set [(''download-agent-bin-jar'', [(defaultJavaAgentVolumeName, defaultJavaAgentVolumeMountPath)])]"
      by simp
    then obtain d2 where d2: "SetAgentScript cn d1 = Ok d2" and shape2: "shape (db_PodSpec d2) = (vs @
        [defaultJavaAgentConfigVolumeName, defaultJavaAgentVolumeName] @ svs,
       [(''download-agent-bin-jar'', [(defaultJavaAgentVolumeName, defaultJavaAgentVolumeMountPath)])] @ sis,
       [(''shardingsphere-proxy'', ms @ [(defaultJavaAgentConfigVolumeName, defaultJavaAgentConfigVolumeMountPath),
          (defaultJavaAgentVolumeName, defaultJavaAgentVolumeMountPath)] @ sms)])"
      by (rule SetAgentScript_shape [OF shape1, of cn]) (use assms(2) True in \<open>auto simp: script_sites_def\<close>)
    have "SetAgentBin l cn d = Ok d2"
      using run True d2 update_single [OF shape2] by (simp add: on_pod_def)
    then show thesis using shape2 by (rule that)
  next
    case False
    with assms(2) have "svs = []" "sis = []" "sms = []" by (simp_all add: script_sites_def)
    moreover have "SetAgentBin l cn d = Ok d1"
      using run False update_single [OF shape1] by (simp add: on_pod_def)
    ultimately show thesis using shape1 by (intro that) simp_all
  qed
qed

lemma SetMySQLConnector_shape:
  assumes "shape (db_PodSpec d) = (vs, is, [(''shardingsphere-proxy'', ms)])"
    and "''download-mysql-jar'' \<notin> fst ` set is"
  obtains d' where "SetMySQLConnector snc d = Ok d'"
    "shape (db_PodSpec d') = (vs @ [defaultMySQLDriverVolumeName],
       is @ [(''download-mysql-jar'', [(defaultMySQLDriverVolumeName, defaultExtlibPath)])],
       [(''shardingsphere-proxy'', ms @
          [(defaultMySQLDriverVolumeName, absoluteMySQLDriverMountName defaultExtlibPath (snc_Version snc))])])"
proof -
  obtain c where c: "ps_Containers (db_PodSpec d) = Some [c]" "con_Name c = ''shardingsphere-proxy''" "mount_sites c = ms"
    using assms(1) by (rule shape_proxyE)
  have "''download-mysql-jar'' \<notin> con_Name ` set (items (ps_InitContainers (db_PodSpec d)))"
    using assms(2) init_names_shape [OF assms(1)] by simp
  with c assms(1) show thesis
    by (intro that) (auto simp: SetMySQLConnector_def mysql_volume_eq built_mount_def podSpecBuilder_defs
      at_container_def on_pod_def Let_def shape_def init_container_def index_by_name_new update_by_name_new
      container_at_def update_slice_def NewBootstrapContainerBuilderForMysqlJar_def split: option.splits)
qed

section \<open>Well-formed pods\<close>

text \<open>
  A pod specification the API server accepts, as far as names go: volumes and containers, init
  containers included, have distinct names, every mount names a declared volume, and no container
  mounts two volumes at one path.
\<close>

definition well_formed_pod :: "PodSpec \<Rightarrow> bool" where
  "well_formed_pod s \<longleftrightarrow>
     (let vs = map vol_Name (items (ps_Volumes s));
          cs = items (ps_InitContainers s) @ items (ps_Containers s)
      in distinct vs \<and> distinct (map con_Name cs) \<and>
         list_all (\<lambda>c. list_all (\<lambda>m. vm_Name m \<in> set vs) (items (con_VolumeMounts c))
                     \<and> distinct (map vm_MountPath (items (con_VolumeMounts c)))) cs)"

definition well_formed_shape :: "pod_shape \<Rightarrow> bool" where
  "well_formed_shape sh \<longleftrightarrow>
     (case sh of (vs, is, cs) \<Rightarrow> distinct vs \<and> distinct (map fst (is @ cs)) \<and>
        list_all (\<lambda>(n, ms). list_all (\<lambda>m. fst m \<in> set vs) ms \<and> distinct (map snd ms)) (is @ cs))"

lemma well_formed_pod_shape: "well_formed_pod s \<longleftrightarrow> well_formed_shape (shape s)"
  by (simp add: well_formed_pod_def well_formed_shape_def shape_def mount_sites_def Let_def
      list_all_iff comp_def image_image ball_Un)

definition base_shape :: pod_shape where
  "base_shape = ([defaultConfigVolumeName], [],
     [(''shardingsphere-proxy'', [(defaultConfigVolumeName, defaultConfigVolumeMountPath)])])"

text \<open>The four pods there are, by what was asked for.\<close>

definition agent_shape :: "lib \<Rightarrow> ComputeNode \<Rightarrow> pod_shape \<Rightarrow> pod_shape" where
  "agent_shape l cn sh =
     (if agent_enabled cn then
        (case (sh, script_sites l (cns_ServerVersion (cn_Spec cn))) of ((vs, is, cs), (svs, sis, sms)) \<Rightarrow>
          (vs @ [defaultJavaAgentConfigVolumeName, defaultJavaAgentVolumeName] @ svs,
           [(''download-agent-bin-jar'', [(defaultJavaAgentVolumeName, defaultJavaAgentVolumeMountPath)])] @ sis,
           map (\<lambda>(n, ms). (n, ms @ [(defaultJavaAgentConfigVolumeName, defaultJavaAgentConfigVolumeMountPath),
             (defaultJavaAgentVolumeName, defaultJavaAgentVolumeMountPath)] @ sms)) cs))
      else sh)"

definition mysql_shape :: "ComputeNode \<Rightarrow> pod_shape \<Rightarrow> pod_shape" where
  "mysql_shape cn sh =
     (case cns_StorageNodeConnector (cn_Spec cn) of None \<Rightarrow> sh
      | Some snc \<Rightarrow>
          if snc_Type snc = ConnectorTypeMySQL then
            (case sh of (vs, is, cs) \<Rightarrow>
              (vs @ [defaultMySQLDriverVolumeName],
               is @ [(''download-mysql-jar'', [(defaultMySQLDriverVolumeName, defaultExtlibPath)])],
               map (\<lambda>(n, ms). (n, ms @
                 [(defaultMySQLDriverVolumeName, absoluteMySQLDriverMountName defaultExtlibPath (snc_Version snc))])) cs))
          else sh)"

lemma agent_shape_forms:
  obtains vs "is" ms where "agent_shape l cn base_shape = (vs, is, [(''shardingsphere-proxy'', ms)])"
    "''download-mysql-jar'' \<notin> fst ` set is"
  by (cases "agent_enabled cn"; cases "VersionExactEqualTo l (cns_ServerVersion (cn_Spec cn)) ''5.3.2''")
     (auto simp: agent_shape_def base_shape_def script_sites_def)

lemma well_formed_shapes: "well_formed_shape (mysql_shape cn (agent_shape l cn base_shape))"
  by (cases "agent_enabled cn"; cases "VersionExactEqualTo l (cns_ServerVersion (cn_Spec cn)) ''5.3.2''";
      cases "cns_StorageNodeConnector (cn_Spec cn)")
     (auto simp: agent_shape_def base_shape_def script_sites_def mysql_shape_def well_formed_shape_def
      volume_name_defs mount_path_defs absoluteMySQLDriverMountName_def)

lemma con_Name_buildProbes [simp]: "con_Name (buildProbes cn c) = con_Name c"
  by (simp add: buildProbes_def containerBuilder_defs Let_def split: option.split)

lemma mount_sites_buildProbes [simp]: "mount_sites (buildProbes cn c) = mount_sites c"
  by (simp add: buildProbes_def containerBuilder_defs mount_sites_def Let_def split: option.split)

lemma proxy_container [simp]:
  "con_Name (containerBuilder_SetResources r (containerBuilder_SetPorts ps
     (SetVersion v NewShardingSphereProxyContainerBuilder))) = ''shardingsphere-proxy''"
  "mount_sites (containerBuilder_SetResources r (containerBuilder_SetPorts ps
     (SetVersion v NewShardingSphereProxyContainerBuilder))) = []"
  by (simp_all add: containerBuilder_defs SetVersion_def NewShardingSphereProxyContainerBuilder_def
      defaultContainerName_def mount_sites_def split: option.split)

text \<open>The builder when the proxy container is in, before the agent and the connector are added.\<close>

definition proxy_builder :: "lib \<Rightarrow> ComputeNode \<Rightarrow> DeploymentBuilder" where
  "proxy_builder l cn =
     on_pod (\<lambda>s. s\<lparr>ps_Volumes := Some [\<lparr>vol_Name = defaultConfigVolumeName, vol_EmptyDir = False,
                    vol_ConfigMap = Some \<lparr>cmv_Name = cn_Name cn, cmv_Items = None\<rparr>\<rparr>],
                  ps_Containers := Some [containerBuilder_AppendVolumeMounts
                    [\<lparr>vm_Name = defaultConfigVolumeName, vm_MountPath = defaultConfigVolumeMountPath, vm_SubPath = []\<rparr>]
                    (buildProbes cn (containerBuilder_SetResources (cns_Resources (cn_Spec cn))
                      (containerBuilder_SetPorts (getContainerPortsFromComputeNode cn)
                        (SetVersion (cns_ServerVersion (cn_Spec cn)) NewShardingSphereProxyContainerBuilder))))]\<rparr>)
       (deploymentBuilder_SetRollingUpdateStrategy 0 3
         (deploymentBuilder_SetReplicas (Some (cns_Replicas (cn_Spec cn)))
           (deploymentBuilder_SetSelectors (cns_Selector (cn_Spec cn))
             (buildMetadata l cn NewShardingSphereDeploymentBuilder))))"

lemma proxy_builder_shape: "shape (db_PodSpec (proxy_builder l cn)) = base_shape"
  by (simp add: proxy_builder_def on_pod_def on_spec_def deploymentBuilder_SetRollingUpdateStrategy_def
      deploymentBuilder_SetReplicas_def deploymentBuilder_SetSelectors_def buildMetadata_def on_metadata_def
      NewShardingSphereDeploymentBuilder_def deploymentBuilder_BuildDeployment_def NewDeploymentBuilder_def
      NewPodSpecBuilder_def shape_def base_shape_def)

lemma BuildDeployment_run:
  "BuildDeployment l cn =
     obind (if agent_enabled cn then SetAgentBin l cn (proxy_builder l cn) else Ok (proxy_builder l cn)) (\<lambda>d.
     obind (case cns_StorageNodeConnector (cn_Spec cn) of None \<Rightarrow> Ok d
       | Some snc \<Rightarrow> if snc_Type snc = ConnectorTypeMySQL then SetMySQLConnector snc d else Ok d) (\<lambda>d.
     Ok (db_deployment (deploymentBuilder_BuildDeployment (deploymentBuilder_SetPodTemplateSpec
       \<lparr>pt_meta = metadataBuilder_SetLabels (cn_Labels cn) zero_meta, pt_Spec = db_PodSpec d\<rparr> d)))))"
proof -
  let ?d = "deploymentBuilder_SetRollingUpdateStrategy 0 3
     (deploymentBuilder_SetReplicas (Some (cns_Replicas (cn_Spec cn)))
       (deploymentBuilder_SetSelectors (cns_Selector (cn_Spec cn))
         (buildMetadata l cn NewShardingSphereDeploymentBuilder)))"
  have pod: "ps_Volumes (db_PodSpec ?d) = Some []" "ps_Containers (db_PodSpec ?d) = Some []"
    by (simp_all add: on_spec_def deploymentBuilder_SetRollingUpdateStrategy_def
      deploymentBuilder_SetReplicas_def deploymentBuilder_SetSelectors_def buildMetadata_def on_metadata_def
      NewShardingSphereDeploymentBuilder_def deploymentBuilder_BuildDeployment_def NewDeploymentBuilder_def
      NewPodSpecBuilder_def)
  then have "on_pod (podSpecBuilder_AppendContainers (Some [c])) (on_pod (podSpecBuilder_AppendVolumes [v]) ?d) =
      on_pod (\<lambda>s. s\<lparr>ps_Volumes := Some [v], ps_Containers := Some [c]\<rparr>) ?d" for c v
    by (simp add: on_pod_def podSpecBuilder_defs Let_def slice_append_def)
  then show ?thesis
    by (simp add: BuildDeployment_def buildSpec_def Let_def config_volume_eq built_mount_def
        proxy_builder_def [symmetric] obind_assoc)
qed

lemma agent_shape_base:
  "agent_enabled cn \<Longrightarrow> script_sites l (cns_ServerVersion (cn_Spec cn)) = (svs, sis, sms) \<Longrightarrow>
   agent_shape l cn base_shape =
     ([defaultConfigVolumeName] @ [defaultJavaAgentConfigVolumeName, defaultJavaAgentVolumeName] @ svs,
       [(''download-agent-bin-jar'', [(defaultJavaAgentVolumeName, defaultJavaAgentVolumeMountPath)])] @ sis,
       [(''shardingsphere-proxy'', [(defaultConfigVolumeName, defaultConfigVolumeMountPath)] @
          [(defaultJavaAgentConfigVolumeName, defaultJavaAgentConfigVolumeMountPath),
          (defaultJavaAgentVolumeName, defaultJavaAgentVolumeMountPath)] @ sms)])"
  by (simp add: agent_shape_def base_shape_def)

lemma with_agent:
  assumes "shape (db_PodSpec d) = base_shape"
  obtains d' where "(if agent_enabled cn then SetAgentBin l cn d else Ok d) = Ok d'"
    "shape (db_PodSpec d') = agent_shape l cn base_shape"
proof (cases "agent_enabled cn")
  case True
  obtain svs sis sms where sites: "script_sites l (cns_ServerVersion (cn_Spec cn)) = (svs, sis, sms)"
    by (cases "script_sites l (cns_ServerVersion (cn_Spec cn))") auto
  from assms have "shape (db_PodSpec d) = ([defaultConfigVolumeName], [],
     [(''shardingsphere-proxy'', [(defaultConfigVolumeName, defaultConfigVolumeMountPath)])])"
    by (simp add: base_shape_def)
  from SetAgentBin_shape [OF this sites] obtain d' where
    "SetAgentBin l cn d = Ok d'" "shape (db_PodSpec d') = agent_shape l cn base_shape"
    using True sites by (metis (no_types, lifting) agent_shape_base)
  with True that show thesis by simp
qed (use assms that in \<open>simp add: agent_shape_def\<close>)

lemma with_mysql:
  assumes "shape (db_PodSpec d) = agent_shape l cn base_shape"
  obtains d' where "(case cns_StorageNodeConnector (cn_Spec cn) of None \<Rightarrow> Ok d
      | Some snc \<Rightarrow> if snc_Type snc = ConnectorTypeMySQL then SetMySQLConnector snc d else Ok d) = Ok d'"
    "shape (db_PodSpec d') = mysql_shape cn (agent_shape l cn base_shape)"
proof -
  obtain vs "is" ms where form: "agent_shape l cn base_shape = (vs, is, [(''shardingsphere-proxy'', ms)])"
    "''download-mysql-jar'' \<notin> fst ` set is" by (rule agent_shape_forms)
  show thesis
  proof (cases "cns_StorageNodeConnector (cn_Spec cn)")
    case (Some snc)
    obtain d' where "SetMySQLConnector snc d = Ok d'" "shape (db_PodSpec d') = (vs @ [defaultMySQLDriverVolumeName],
       is @ [(''download-mysql-jar'', [(defaultMySQLDriverVolumeName, defaultExtlibPath)])],
       [(''shardingsphere-proxy'', ms @
          [(defaultMySQLDriverVolumeName, absoluteMySQLDriverMountName defaultExtlibPath (snc_Version snc))])])"
      using assms form by (metis SetMySQLConnector_shape)
    with Some form that [of d'] that [of d] assms show thesis
      by (cases "snc_Type snc = ConnectorTypeMySQL") (simp_all add: mysql_shape_def)
  qed (use assms that in \<open>simp add: mysql_shape_def\<close>)
qed

lemma finished_deployment:
  "ds_Template (dep_Spec (db_deployment (deploymentBuilder_BuildDeployment
     (deploymentBuilder_SetPodTemplateSpec tpl d)))) = tpl"
  "ds_Selector (dep_Spec (db_deployment (deploymentBuilder_BuildDeployment
     (deploymentBuilder_SetPodTemplateSpec tpl d)))) = ds_Selector (dep_Spec (db_deployment d))"
  "ds_Replicas (dep_Spec (db_deployment (deploymentBuilder_BuildDeployment
     (deploymentBuilder_SetPodTemplateSpec tpl d)))) = ds_Replicas (dep_Spec (db_deployment d))"
  "dep_meta (db_deployment (deploymentBuilder_BuildDeployment
     (deploymentBuilder_SetPodTemplateSpec tpl d))) = db_Metadata d"
  by (cases d; cases "db_deployment d"; simp add: deploymentBuilder_BuildDeployment_def
      deploymentBuilder_SetPodTemplateSpec_def on_spec_def)+

lemma BuildDeployment_pod:
  obtains d where "BuildDeployment l cn = Ok d"
    "shape (pt_Spec (ds_Template (dep_Spec d))) = mysql_shape cn (agent_shape l cn base_shape)"
proof -
  obtain d1 where d1: "(if agent_enabled cn then SetAgentBin l cn (proxy_builder l cn) else Ok (proxy_builder l cn)) = Ok d1"
    "shape (db_PodSpec d1) = agent_shape l cn base_shape"
    by (rule with_agent [OF proxy_builder_shape])
  obtain d2 where d2: "(case cns_StorageNodeConnector (cn_Spec cn) of None \<Rightarrow> Ok d1
      | Some snc \<Rightarrow> if snc_Type snc = ConnectorTypeMySQL then SetMySQLConnector snc d1 else Ok d1) = Ok d2"
    "shape (db_PodSpec d2) = mysql_shape cn (agent_shape l cn base_shape)"
    by (rule with_mysql [OF d1(2)])
  have "BuildDeployment l cn = Ok (db_deployment (deploymentBuilder_BuildDeployment (deploymentBuilder_SetPodTemplateSpec
       \<lparr>pt_meta = metadataBuilder_SetLabels (cn_Labels cn) zero_meta, pt_Spec = db_PodSpec d2\<rparr> d2)))"
    using d1 d2 by (simp add: BuildDeployment_run)
  then show thesis by (rule that) (simp add: finished_deployment d2(2))
qed

section \<open>The rest of the deployment\<close>

text \<open>What the deployment has of the compute node besides the pods.\<close>

definition kept :: "DeploymentBuilder \<Rightarrow> KubeMeta \<times> LabelSelector option \<times> i32 option" where
  "kept d = (db_Metadata d, ds_Selector (dep_Spec (db_deployment d)), ds_Replicas (dep_Spec (db_deployment d)))"

lemma kept_simps [simp]:
  "kept (on_pod f d) = kept d"
  "kept (deploymentBuilder_SetPodTemplateAnnotations a d) = kept d"
  by (simp_all add: kept_def on_pod_def deploymentBuilder_SetPodTemplateAnnotations_def on_template_meta_def on_spec_def)

lemma SetAgentScript_kept: "SetAgentScript cn d = Ok d' \<Longrightarrow> kept d' = kept d"
  by (auto simp: SetAgentScript_def obind_Ok_iff Let_def split: option.splits)

lemma SetAgentBin_kept: "SetAgentBin l cn d = Ok d' \<Longrightarrow> kept d' = kept d"
  by (auto simp: SetAgentBin_def obind_Ok_iff Let_def split: option.splits if_splits dest!: SetAgentScript_kept)

lemma SetMySQLConnector_kept: "SetMySQLConnector snc d = Ok d' \<Longrightarrow> kept d' = kept d"
  by (auto simp: SetMySQLConnector_def obind_Ok_iff Let_def split: option.splits)

lemma BuildDeployment_kept:
  assumes "BuildDeployment l cn = Ok d"
  shows "meta_Name (dep_meta d) = cn_Name cn" "meta_Namespace (dep_meta d) = cn_Namespace cn"
    "meta_Labels (dep_meta d) = cn_Labels cn" "meta_Annotations (dep_meta d) = cn_Annotations cn"
    "meta_OwnerReferences (dep_meta d) = Some [lib_NewControllerRef l (cn_meta cn) (cn_gvk cn)]"
    "ds_Selector (dep_Spec d) = cns_Selector (cn_Spec cn)" "ds_Replicas (dep_Spec d) = Some (cns_Replicas (cn_Spec cn))"
    "pt_meta (ds_Template (dep_Spec d)) = zero_meta\<lparr>meta_Labels := cn_Labels cn\<rparr>"
proof -
  obtain d1 d2 where d1: "(if agent_enabled cn then SetAgentBin l cn (proxy_builder l cn) else Ok (proxy_builder l cn)) = Ok d1"
    and d2: "(case cns_StorageNodeConnector (cn_Spec cn) of None \<Rightarrow> Ok d1
      | Some snc \<Rightarrow> if snc_Type snc = ConnectorTypeMySQL then SetMySQLConnector snc d1 else Ok d1) = Ok d2"
    and d: "d = db_deployment (deploymentBuilder_BuildDeployment (deploymentBuilder_SetPodTemplateSpec
       \<lparr>pt_meta = metadataBuilder_SetLabels (cn_Labels cn) zero_meta, pt_Spec = db_PodSpec d2\<rparr> d2))"
    using assms by (auto simp: BuildDeployment_run obind_Ok_iff)
  have "kept d2 = kept (proxy_builder l cn)"
    using d1 d2 by (auto split: if_splits option.splits dest!: SetAgentBin_kept SetMySQLConnector_kept)
  then have "db_Metadata d2 = db_Metadata (proxy_builder l cn)"
    "ds_Selector (dep_Spec (db_deployment d2)) = ds_Selector (dep_Spec (db_deployment (proxy_builder l cn)))"
    "ds_Replicas (dep_Spec (db_deployment d2)) = ds_Replicas (dep_Spec (db_deployment (proxy_builder l cn)))"
    by (simp_all add: kept_def)
  then show "meta_Name (dep_meta d) = cn_Name cn" "meta_Namespace (dep_meta d) = cn_Namespace cn"
    "meta_Labels (dep_meta d) = cn_Labels cn" "meta_Annotations (dep_meta d) = cn_Annotations cn"
    "meta_OwnerReferences (dep_meta d) = Some [lib_NewControllerRef l (cn_meta cn) (cn_gvk cn)]"
    "ds_Selector (dep_Spec d) = cns_Selector (cn_Spec cn)" "ds_Replicas (dep_Spec d) = Some (cns_Replicas (cn_Spec cn))"
    "pt_meta (ds_Template (dep_Spec d)) = zero_meta\<lparr>meta_Labels := cn_Labels cn\<rparr>"
    by (simp_all add: d finished_deployment proxy_builder_def on_pod_def on_spec_def
        deploymentBuilder_SetRollingUpdateStrategy_def deploymentBuilder_SetReplicas_def
        deploymentBuilder_SetSelectors_def buildMetadata_def on_metadata_def metadataBuilder_defs)
qed

section \<open>Properties\<close>

text \<open>
  C16. Building the deployment of a compute node never panics, whatever the compute node and the
  version library, and gives a pod specification that is well formed: distinct names of volumes and
  of containers, init containers included, only mounts of declared volumes, and no two mounts of
  one container at the same path.
\<close>

theorem deployment_well_formed:
  "\<exists>d. BuildDeployment l cn = Ok d \<and> well_formed_pod (pt_Spec (ds_Template (dep_Spec d)))"
proof -
  obtain d where "BuildDeployment l cn = Ok d"
    "shape (pt_Spec (ds_Template (dep_Spec d))) = mysql_shape cn (agent_shape l cn base_shape)"
    by (rule BuildDeployment_pod)
  then show ?thesis by (auto simp: well_formed_pod_shape well_formed_shapes)
qed

text \<open>
  The deployment has the name, namespace, labels, annotations, selector and replicas of the
  compute node, which owns it; its pods have the labels of the compute node. They have no
  annotations at all: the Prometheus annotations that \<^verbatim>\<open>SetAgentBin\<close> puts on the pod template of a
  node with the agent enabled are lost when \<^verbatim>\<open>buildSpec\<close> sets the template.
\<close>

theorem deployment_metadata:
  "\<exists>d. BuildDeployment l cn = Ok d \<and>
     meta_Name (dep_meta d) = cn_Name cn \<and> meta_Namespace (dep_meta d) = cn_Namespace cn \<and>
     meta_Labels (dep_meta d) = cn_Labels cn \<and> meta_Annotations (dep_meta d) = cn_Annotations cn \<and>
     meta_OwnerReferences (dep_meta d) = Some [lib_NewControllerRef l (cn_meta cn) (cn_gvk cn)] \<and>
     ds_Selector (dep_Spec d) = cns_Selector (cn_Spec cn) \<and> ds_Replicas (dep_Spec d) = Some (cns_Replicas (cn_Spec cn)) \<and>
     meta_Labels (pt_meta (ds_Template (dep_Spec d))) = cn_Labels cn \<and>
     meta_Annotations (pt_meta (ds_Template (dep_Spec d))) = None"
proof -
  obtain d where d: "BuildDeployment l cn = Ok d" by (rule BuildDeployment_pod)
  from BuildDeployment_kept [OF this] d show ?thesis by (simp add: zero_meta_def)
qed

end
