(* ===== verification/Compute_Node_Properties.thy ===== *)
theory Compute_Node_Properties
  imports Compute_Node_Controller Compute_Node_Deployment
begin

text \<open>
  The properties of the compute node controller: what the status it writes says about the pods,
  what it creates, and when it updates the service of a node.
\<close>

section \<open>Which calls each part makes\<close>

lemma within_cn_write [within_intros]: "P c \<Longrightarrow> within P (cn_write e c)"
  by (simp add: cn_write_def)

text \<open>The node keeps its identity and its specification while its status is reconciled.\<close>

lemma reconcileComputeNodeStatus_keeps [simp]:
  "cn_Spec (reconcileComputeNodeStatus clock pods svc cn) = cn_Spec cn"
  "cn_meta (reconcileComputeNodeStatus clock pods svc cn) = cn_meta cn"
  "cn_gvk (reconcileComputeNodeStatus clock pods svc cn) = cn_gvk cn"
  by (simp_all add: reconcileComputeNodeStatus_def Let_def)

definition same_node :: "ComputeNode \<Rightarrow> ComputeNode \<Rightarrow> bool" where
  "same_node cn cn' \<longleftrightarrow> cn_Spec cn' = cn_Spec cn \<and> cn_meta cn' = cn_meta cn \<and> cn_gvk cn' = cn_gvk cn"

lemma write_status_same:
  "write_status e sel pods svc cn tr = (Ok (cn', err), tr') \<Longrightarrow> same_node cn cn'"
  by (auto simp: write_status_def put_status_def Let_def same_node_def elim!: bind_io_OkE split: sum.splits)

lemma reconcileStatus_same:
  "reconcileStatus e cn tr = (Ok (cn', err), tr') \<Longrightarrow> same_node cn cn'"
  unfolding reconcileStatus_def
  by (auto simp: same_node_def elim!: bind_io_OkE split: sum.splits option.splits if_splits
      dest: write_status_same [unfolded same_node_def])

lemma reconcileService_same:
  "reconcileService e cn tr = (Ok (cn', err), tr') \<Longrightarrow>
     cn_meta cn' = cn_meta cn \<and> cn_gvk cn' = cn_gvk cn"
  unfolding reconcileService_def updateService_def adjust_bindings_def Let_def
  by (auto elim!: bind_io_OkE split: sum.splits option.splits if_splits)

section \<open>What is created\<close>

lemma NewService_meta:
  assumes "NewService l cn = Ok s"
  shows "meta_Name (ksvc_meta s) = cn_Name cn" "meta_Namespace (ksvc_meta s) = cn_Namespace cn"
    "meta_OwnerReferences (ksvc_meta s) = Some [lib_NewControllerRef l (cn_meta cn) (cn_gvk cn)]"
  using assms
  by (auto simp: NewService_def obind_Ok_iff Let_def serviceBuilder_SetLabelsAndSelectors_def
      serviceBuilder_SetPorts_def serviceBuilder_SetAnnotations_def serviceBuilder_SetType_def
      serviceBuilder_SetNamespace_def serviceBuilder_SetName_def DefaultService_def
      split: option.splits if_splits)

text \<open>The group, version and kind under which the API server serves compute nodes.\<close>

definition ComputeNode_gvk :: GroupVersionKind where
  "ComputeNode_gvk = \<lparr>gvk_Group = ''shardingsphere.apache.org'', gvk_Version = ''v1alpha1'', gvk_Kind = ''ComputeNode''\<rparr>"

lemma NewConfigMap_meta:
  assumes "NewConfigMap l cn = Some cm" and "cn_gvk cn = ComputeNode_gvk"
  shows "meta_Name (cm_meta cm) = cn_Name cn" "meta_Namespace (cm_meta cm) = cn_Namespace cn"
    "meta_OwnerReferences (cm_meta cm) = Some [lib_NewControllerRef l (cn_meta cn) (cn_gvk cn)]"
  using assms
  by (auto simp: NewConfigMap_def Let_def ComputeNode_gvk_def computeNodeConfigMapBuilder_Build_def
      computeNodeConfigMapBuilder_SetData_def DefaultConfigMap_def)

definition owned_by :: "lib \<Rightarrow> ComputeNode \<Rightarrow> KubeMeta \<Rightarrow> bool" where
  "owned_by l cn m \<longleftrightarrow> meta_Name m = cn_Name cn \<and> meta_Namespace m = cn_Namespace cn \<and>
     meta_OwnerReferences m = Some [lib_NewControllerRef l (cn_meta cn) (cn_gvk cn)]"

fun creates_owned :: "lib \<Rightarrow> ComputeNode \<Rightarrow> cn_call \<Rightarrow> bool" where
  "creates_owned l cn (CnCreateDeployment d) = owned_by l cn (dep_meta d)"
| "creates_owned l cn (CnCreateService s) = owned_by l cn (ksvc_meta s)"
| "creates_owned l cn (CnCreateConfigMap cm) = owned_by l cn (cm_meta cm)"
| "creates_owned l cn _ = True"

lemma owned_by_cong: "cn_meta cn' = cn_meta cn \<Longrightarrow> cn_gvk cn' = cn_gvk cn \<Longrightarrow> owned_by l cn' = owned_by l cn"
  by (simp add: owned_by_def fun_eq_iff)

text \<open>After a builder, only what it can return has to be looked at.\<close>

lemma within_bind_built:
  "(\<And>x. r = Ok x \<Longrightarrow> within P (f x)) \<Longrightarrow> within P (bind_io (lift_outcome r) f)"
  by (rule within_bind_Ok) auto

lemma creates_owned_deployment: "within (creates_owned (cne_lib e) cn) (reconcileDeployment e cn)"
  unfolding reconcileDeployment_def getDeploymentByNamespacedName_def createDeployment_def updateDeployment_def
  by (intro within_intros within_bind_built) (auto simp: owned_by_def dest: BuildDeployment_kept)

lemma creates_owned_service: "within (creates_owned (cne_lib e) cn) (reconcileService e cn)"
proof -
  have "within (creates_owned (cne_lib e) cn) (createService e cn)"
    unfolding createService_def BuildService_def
    by (intro within_bind_built within_intros) (auto simp: owned_by_def dest: NewService_meta)
  moreover have "within (creates_owned (cne_lib e) cn) (updateService e cn s)" for s
    unfolding updateService_def updateComputeNodePortBindings_def getRuntimeComputeNode_def Let_def
    by (intro within_intros) simp_all
  ultimately show ?thesis
    unfolding reconcileService_def cn_getServiceByNamespacedName_def by (intro within_intros) simp_all
qed

lemma NewConfigMap_owned:
  "NewConfigMap l cn = Some cm \<Longrightarrow> cn_gvk cn = ComputeNode_gvk \<Longrightarrow> owned_by l cn (cm_meta cm)"
  by (simp add: owned_by_def NewConfigMap_meta)

lemma creates_owned_config_map:
  assumes "cn_gvk cn = ComputeNode_gvk"
  shows "within (creates_owned (cne_lib e) cn) (reconcileConfigMap e cn)"
proof -
  have build: "within (creates_owned (cne_lib e) cn) (bind_io (built_config_map e cn) f)"
    if "\<And>cm. owned_by (cne_lib e) cn (cm_meta cm) \<Longrightarrow> within (creates_owned (cne_lib e) cn) (f cm)"
    for f :: "ConfigMap \<Rightarrow> unit cio"
    using that assms unfolding built_config_map_def BuildConfigMap_def
    by (cases "NewConfigMap (cne_lib e) cn") (auto dest: NewConfigMap_owned)
  have "within (creates_owned (cne_lib e) cn) (createConfigMap e cn)"
    unfolding createConfigMap_def by (rule build) (intro within_intros, simp)
  moreover have "within (creates_owned (cne_lib e) cn) (updateConfigMap e cn cm)" for cm
    unfolding updateConfigMap_def Let_def by (rule build) (intro within_intros, simp)
  ultimately show ?thesis
    unfolding reconcileConfigMap_def getConfigMapByNamespacedName_def by (intro within_intros) simp_all
qed

text \<open>The status part makes none of the calls any of the properties is about.\<close>

lemma within_status:
  assumes "\<And>nn. P (CnGet nn)" "\<And>nn. P (CnGetService nn)" "\<And>ns ls. P (CnListPods ns ls)"
    and "\<And>n. P (CnUpdateStatus n)"
  shows "within P (reconcileStatus e cn)"
proof -
  have "within P (write_status e sel pods svc cn)" for sel pods svc
    unfolding write_status_def
    by (rule within_read [where f = "\<lambda>tr. put_status e sel (reconcileComputeNodeStatus (cne_clock e tr) pods svc cn)"])
       (unfold put_status_def getRuntimeComputeNode_def, intro within_intros assms)
  then show ?thesis unfolding reconcileStatus_def by (intro within_intros assms)
qed

lemma within_reconcileNode:
  assumes status: "within P (reconcileStatus e cn)"
    and parts: "\<And>cn'. same_node cn cn' \<Longrightarrow> within P (reconcileDeployment e cn') \<and> within P (reconcileService e cn')"
    and config: "\<And>cn'. cn_meta cn' = cn_meta cn \<Longrightarrow> cn_gvk cn' = cn_gvk cn \<Longrightarrow> within P (reconcileConfigMap e cn')"
  shows "within P (reconcileNode e cn)"
  unfolding reconcileNode_def
proof (rule within_bind_Ok [OF status])
  fix x tr tr' assume "reconcileStatus e cn tr = (Ok x, tr')"
  then obtain cn1 err where x: "x = (cn1, err)" "same_node cn cn1" by (cases x) (auto dest: reconcileStatus_same)
  have "within P (bind_io (reconcileService e cn1) (\<lambda>(cn, service_err).
      bind_io (attempt (reconcileConfigMap e cn)) (\<lambda>cm. ret (f service_err cm))))"
    for f :: "gerror option \<Rightarrow> gerror + unit \<Rightarrow> reconcile_result"
  proof (rule within_bind_Ok)
    fix y tr1 tr2 assume "reconcileService e cn1 tr1 = (Ok y, tr2)"
    with x(2) show "within P (case y of (cn, service_err) \<Rightarrow>
        bind_io (attempt (reconcileConfigMap e cn)) (\<lambda>cm. ret (f service_err cm)))"
      by (cases y) (auto simp: same_node_def dest!: reconcileService_same
          intro!: within_bind within_attempt config)
  qed (simp add: parts x(2))
  then show "within P (case x of (cn, status_err) \<Rightarrow>
      bind_io (attempt (reconcileDeployment e cn)) (\<lambda>deployment.
      bind_io (reconcileService e cn) (\<lambda>(cn, service_err).
      bind_io (attempt (reconcileConfigMap e cn)) (\<lambda>config_map.
        ret (first_error (List.map_filter id [error_of deployment, service_err, error_of config_map]))))))"
    unfolding x(1) prod.case by (rule within_bind [rotated]) (simp add: parts x(2) within_attempt)
qed

lemma within_cn_Reconcile:
  assumes "\<And>nn. P (CnGet nn)" and "cne_get e tr req = Inr cn" and node: "within P (reconcileNode e cn)"
    and "c \<in> set (added (cn_Reconcile e req) tr)"
  shows "P c"
proof -
  have "cn_Reconcile e req tr = reconcileNode e cn (tr @ [CnGet req])"
    using assms(2) by (simp add: cn_Reconcile_def)
  then have "added (cn_Reconcile e req) tr = [CnGet req] @ added (reconcileNode e cn) (tr @ [CnGet req])"
    using node by (rule added_shift)
  with assms(4) assms(1) [of req] show "P c" by (auto dest: within_added [OF node])
qed

section \<open>Properties\<close>


fun not_service_update :: "cn_call \<Rightarrow> bool" where
  "not_service_update (CnUpdateService s) = False"
| "not_service_update _ = True"

lemma service_not_updated:
  assumes "cn_PortBindings cn \<noteq> Some []" and "\<nexists>t. cns_ServiceType (cn_Spec cn) = ServiceTypeOther t"
  shows "within not_service_update (reconcileService e cn)"
proof -
  have "within not_service_update (updateService e cn s)" for s
  proof -
    have "cn_PortBindings (adjust_bindings cn s) \<noteq> Some []"
      using assms(1) by (cases "cn_PortBindings cn") (auto simp: adjust_bindings_def Let_def
          split: ServiceType.split)
    moreover have "cns_ServiceType (cn_Spec (adjust_bindings cn s)) = cns_ServiceType (cn_Spec cn)"
      by (simp add: adjust_bindings_def Let_def)
    ultimately show ?thesis
      using assms(2)
      by (cases "cns_ServiceType (cn_Spec cn)")
         (auto simp: updateService_def updateComputeNodePortBindings_def getRuntimeComputeNode_def Let_def
           intro!: within_intros)
  qed
  then show ?thesis
    unfolding reconcileService_def cn_getServiceByNamespacedName_def createService_def
    by (intro within_intros) simp_all
qed

text \<open>
  C20. An existing service is updated only for a node whose service type is none of the four of
  Kubernetes or whose list of port bindings is present and empty. For every other node the port
  bindings, compared with a copy that is empty because the arguments of \<^verbatim>\<open>copy\<close> are swapped, always
  seem to have changed: the node is written back and the service is left as it is, however much its
  ports, its selector or its type differ from what the node asks for.
\<close>

theorem existing_service_rarely_updated:
  assumes "CnUpdateService s \<in> set (added (cn_Reconcile e req) tr)"
  shows "\<exists>cn. cne_get e tr req = Inr cn \<and>
    (cn_PortBindings cn = Some [] \<or> (\<exists>t. cns_ServiceType (cn_Spec cn) = ServiceTypeOther t))"
proof (cases "cne_get e tr req")
  case (Inl err)
  then have "added (cn_Reconcile e req) tr = [CnGet req]" by (simp add: cn_Reconcile_def added_def)
  with assms show ?thesis by simp
next
  case (Inr cn)
  show ?thesis
  proof (rule ccontr)
    assume "\<not> ?thesis"
    with Inr have cn: "cn_PortBindings cn \<noteq> Some []" "\<nexists>t. cns_ServiceType (cn_Spec cn) = ServiceTypeOther t"
      by auto
    have "within not_service_update (reconcileNode e cn)"
    proof (rule within_reconcileNode)
      fix cn' assume "same_node cn cn'"
      with cn show "within not_service_update (reconcileDeployment e cn')
          \<and> within not_service_update (reconcileService e cn')"
        by (auto simp: same_node_def service_not_updated reconcileDeployment_def
            getDeploymentByNamespacedName_def createDeployment_def updateDeployment_def intro!: within_intros)
    next
      fix cn'
      show "within not_service_update (reconcileConfigMap e cn')"
        unfolding reconcileConfigMap_def getConfigMapByNamespacedName_def createConfigMap_def
          updateConfigMap_def built_config_map_def
        by (intro within_intros) simp_all
    qed (simp add: within_status)
    from within_cn_Reconcile [OF _ Inr this assms] show False by simp
  qed
qed

text \<open>
  C19. The phase of a compute node is ready exactly when it has a running pod with a true ready
  condition and a ready proxy container, and the text of its readiness counts those containers
  against the pods, as long as there are fewer than two to the power of 31 of them: the count is a
  32-bit number.
\<close>

theorem phase_ready_iff:
  assumes "ready_total pods < 2 ^ 31"
  shows "(cnst_Phase (cn_Status (reconcileComputeNodeStatus clock pods svc cn)) = ComputeNodeStatusReady \<longleftrightarrow>
      (\<exists>p \<in> set pods. pod_Phase p = PodRunning \<and>
         (\<exists>pc \<in> set (pod_Conditions p). pc_Type pc = PodReady \<and> pc_Status pc = ConditionTrue) \<and>
         (\<exists>cs \<in> set (pod_ContainerStatuses p). cs_Name cs = ''shardingsphere-proxy'' \<and> cs_Ready cs))) \<and>
    cnst_Ready (cn_Status (reconcileComputeNodeStatus clock pods svc cn)) =
      show_nat (ready_total pods) @ ''/'' @ show_nat (length pods)"
proof -
  have "sint (getReadyProxyInstances pods) = int (ready_total pods)"
    using assms by (simp only: getReadyProxyInstances_eq sint_word_of_nat_i32)
  moreover have "0 < ready_total pods \<longleftrightarrow> (\<exists>p \<in> set pods. ready_proxies p \<noteq> [])"
    by (auto simp: ready_total_def)
  ultimately show ?thesis
    by (auto simp: reconcileComputeNodeStatus_def Let_def show_int_def ready_proxies_def isTrueReadyPod_iff
        filter_empty_conv)
qed


text \<open>
  A compute node that was ready once keeps saying so: when it has a pod whose phase is not
  unknown and none of its pods is ready any more, the phase is not ready, but the ready condition is
  true as before, with the time of its last update refreshed.
\<close>

theorem ready_condition_outlives_pods:
  assumes "cond_status (cnst_Conditions (cn_Status cn)) ComputeNodeConditionReady = Some ConditionTrue"
    and "\<exists>p \<in> set pods. pod_Phase p \<noteq> PodUnknown" and "\<forall>p \<in> set pods. \<not> isTrueReadyPod p"
  shows "cnst_Phase (cn_Status (reconcileComputeNodeStatus clock pods svc cn)) = ComputeNodeStatusNotReady \<and>
    cond_status (cnst_Conditions (cn_Status (reconcileComputeNodeStatus clock pods svc cn)))
      ComputeNodeConditionReady = Some ConditionTrue"
proof -
  have pcs: "ComputeNodeConditionReady \<in> set (getPreferedConditionFromPodConditions pcs) \<Longrightarrow>
      \<exists>pc \<in> set pcs. pc_Type pc = PodReady \<and> pc_Status pc = ConditionTrue" for pcs
    by (induction pcs) (auto split: PodConditionType.splits if_splits)
  have "ComputeNodeConditionReady \<notin> set (getPreferedConditionFromPod p)" if "p \<in> set pods" for p
    using that assms(3) pcs [of "pod_Conditions p"]
    by (auto simp: getPreferedConditionFromPod_def Let_def isTrueReadyPod_iff)
  then have "\<not> reported pods ComputeNodeConditionReady" by (auto simp: reported_def list_ex_iff)
  moreover have "\<not> reported pods ComputeNodeConditionUnknown"
    using assms(2) by (auto simp: reported_def list_all_iff)
  moreover have "ready_total pods = 0" using assms(3) by (simp add: ready_total_def ready_proxies_def)
  ultimately show ?thesis
    using assms(1) by (simp add: reconcileComputeNodeStatus_def Let_def getReadyProxyInstances_eq
        status_of_pass)
qed

section \<open>Examples\<close>

text \<open>
  A compute node, a pod that runs without being ready and one that is, and an environment in which
  the pods cannot be listed, no object of the node exists but perhaps a service, and every write
  succeeds.
\<close>

definition example_lib :: lib where
  "example_lib = \<lparr>lib_NewControllerRef = (\<lambda>m gvk. 7), lib_LabelSelectorAsSelector = (\<lambda>s. Inr ''app=proxy''),
     lib_semver_IsValid = (\<lambda>v. True), lib_semver_Compare = (\<lambda>v w. 0),
     lib_yaml_ServerConfig = (\<lambda>c. Inr ''server''), lib_yaml_AgentConfig = (\<lambda>c. Inr ''agent'')\<rparr>"

definition example_node :: "PortBinding goslice \<Rightarrow> ComputeNode" where
  "example_node pbs =
     \<lparr>cn_gvk = ComputeNode_gvk, cn_meta = zero_meta\<lparr>meta_Name := ''foo'', meta_Namespace := ''ns''\<rparr>,
      cn_Spec = \<lparr>cns_StorageNodeConnector = None, cns_ServerVersion = ''5.3.1'', cns_Replicas = 1,
        cns_Selector = Some \<lparr>sel_MatchLabels = None, sel_MatchExpressions = 0\<rparr>, cns_Probes = None,
        cns_ImagePullSecrets = None, cns_Env = None, cns_Resources = 0, cns_PortBindings = pbs,
        cns_ServiceType = ServiceTypeClusterIP,
        cns_Bootstrap = \<lparr>boot_ServerConfig = zero_ServerConfig, boot_LogbackConfig = [],
          boot_AgentConfig = \<lparr>agt_Plugins = None\<rparr>\<rparr>\<rparr>,
      cn_Status = \<lparr>cnst_Selector = [], cnst_Replicas = 0, cnst_Ready = [], cnst_ObservedGeneration = 0,
        cnst_Phase = ComputeNodeStatusReady,
        cnst_Conditions = Some [newCondition (\<lambda>_. 0) 0 ComputeNodeConditionReady ''PodReady'' ''Some pods are ready''],
        cnst_LoadBalancer = \<lparr>lb_ClusterIP = [], lb_Ingress = None\<rparr>\<rparr>\<rparr>"

definition example_pod :: "ConditionStatus \<Rightarrow> Pod" where
  "example_pod b = \<lparr>pod_Phase = PodRunning, pod_Conditions = [\<lparr>pc_Type = PodReady, pc_Status = b\<rparr>],
     pod_ContainerStatuses = [\<lparr>cs_Name = ''shardingsphere-proxy'', cs_Ready = True\<rparr>]\<rparr>"

definition example_missing :: gerror where
  "example_missing = ApiError NotFound ''not found''"

definition example_env :: "PortBinding goslice \<Rightarrow> KubeService option \<Rightarrow> cn_env" where
  "example_env pbs svc =
     \<lparr>cne_lib = example_lib, cne_clock = (\<lambda>tr k. 0), cne_get = (\<lambda>tr nn. Inr (example_node pbs)),
      cne_list_pods = (\<lambda>tr ns ls. Inl (NewError ''no pods'')),
      cne_get_deployment = (\<lambda>tr nn. Inl example_missing),
      cne_get_service = (\<lambda>tr nn. case svc of None \<Rightarrow> Inl example_missing | Some s \<Rightarrow> Inr s),
      cne_get_config_map = (\<lambda>tr nn. Inl example_missing), cne_write = (\<lambda>tr c. Inr ())\<rparr>"

lemma example_node_fields:
  "node_name (example_node pbs) = (''ns'', ''foo'')" "cn_gvk (example_node pbs) = ComputeNode_gvk"
  "cns_Selector (cn_Spec (example_node pbs)) = Some \<lparr>sel_MatchLabels = None, sel_MatchExpressions = 0\<rparr>"
  "cn_Namespace (example_node pbs) = ''ns''" "cn_PortBindings (example_node pbs) = pbs"
  "cns_ServiceType (cn_Spec (example_node pbs)) = ServiceTypeClusterIP" "agent_enabled (example_node pbs) = False"
  by (simp_all add: example_node_def node_name_def agent_enabled_def zero_meta_def mlookup_def)

lemma lib_selector: "lib_LabelSelectorAsSelector example_lib sel = Inr ''app=proxy''"
  by (simp add: example_lib_def)

lemma example_service:
  obtains s where "NewService example_lib (example_node pbs) = Ok s" "ksvc_Spec s =
    \<lparr>svs_Ports = Some (map service_port (items pbs)), svs_Selector = None, svs_ClusterIP = [],
     svs_ClusterIPs = None, svs_Type = ServiceTypeClusterIP, svs_Rest = 0\<rparr>"
  by (simp add: NewService_def serviceBuilder_SetLabelsAndSelectors_def example_node_fields Let_def
      serviceBuilder_SetPorts_def serviceBuilder_SetType_def serviceBuilder_SetNamespace_def
      serviceBuilder_SetName_def DefaultService_def)

lemma example_env_lib [simp]: "cne_lib (example_env pbs svc) = example_lib"
  by (simp add: example_env_def)

lemmas example_answers = example_env_def example_missing_def example_node_fields cn_write_def nil_if_missing_def
  allow_existing_def bind_io_def attempt_def call_def error_of_def

lemma example_status_run:
  "reconcileStatus (example_env pbs svc) (example_node pbs) tr =
     (Ok (example_node pbs, Some (NewError ''no pods'')), tr @ [CnListPods ''ns'' None])"
  by (simp add: reconcileStatus_def example_answers lib_selector)

lemma example_deployment_run:
  obtains d where "reconcileDeployment (example_env pbs svc) (example_node pbs) tr =
     (Ok (), tr @ [CnGetDeployment (''ns'', ''foo''), CnCreateDeployment d])"
proof -
  obtain d where "BuildDeployment example_lib (example_node pbs) = Ok d" by (rule BuildDeployment_pod)
  then show thesis
    by (intro that [of d]) (simp add: reconcileDeployment_def getDeploymentByNamespacedName_def
        createDeployment_def example_answers)
qed

lemma example_service_run:
  obtains s where "reconcileService (example_env pbs None) (example_node pbs) tr =
     (Ok (example_node pbs, None), tr @ [CnGetService (''ns'', ''foo''), CnCreateService s])"
proof -
  obtain s where "NewService example_lib (example_node pbs) = Ok s" by (rule example_service)
  then show thesis
    by (intro that [of s]) (simp add: reconcileService_def cn_getServiceByNamespacedName_def
        createService_def BuildService_def example_answers)
qed

lemma example_service_update_run:
  obtains s where "reconcileService (example_env (Some []) (Some zero_KubeService)) (example_node (Some [])) tr =
     (Ok (example_node (Some []), None), tr @ [CnGetService (''ns'', ''foo''), CnUpdateService s])"
proof -
  obtain s where s: "NewService example_lib (example_node (Some [])) = Ok s" "ksvc_Spec s =
    \<lparr>svs_Ports = Some (map service_port (items (Some []))), svs_Selector = None, svs_ClusterIP = [],
     svs_ClusterIPs = None, svs_Type = ServiceTypeClusterIP, svs_Rest = 0\<rparr>" by (rule example_service)
  have "adjust_bindings (example_node (Some [])) svc = example_node (Some [])" for svc
    by (simp add: adjust_bindings_def example_node_def)
  with s show thesis
    by (intro that) (simp add: reconcileService_def cn_getServiceByNamespacedName_def BuildService_def
        updateService_def zero_KubeService_def Let_def example_answers)
qed

lemma example_config_map_run:
  obtains cm where "reconcileConfigMap (example_env pbs svc) (example_node pbs) tr =
     (Ok (), tr @ [CnGetConfigMap (''ns'', ''foo''), CnCreateConfigMap cm])"
proof -
  obtain cm where "NewConfigMap example_lib (example_node pbs) = Some cm"
    by (simp add: NewConfigMap_def Let_def example_node_fields ComputeNode_gvk_def)
  then show thesis
    by (intro that [of cm]) (simp add: reconcileConfigMap_def getConfigMapByNamespacedName_def
        createConfigMap_def built_config_map_def BuildConfigMap_def example_answers)
qed

lemma example_calls:
  assumes "reconcileService (example_env pbs svc) (example_node pbs)
      [CnGet (''ns'', ''foo''), CnListPods ''ns'' None, CnGetDeployment (''ns'', ''foo''), CnCreateDeployment d] =
     (Ok (example_node pbs, None), [CnGet (''ns'', ''foo''), CnListPods ''ns'' None,
       CnGetDeployment (''ns'', ''foo''), CnCreateDeployment d, CnGetService (''ns'', ''foo''), c])"
    and "reconcileDeployment (example_env pbs svc) (example_node pbs)
      [CnGet (''ns'', ''foo''), CnListPods ''ns'' None] =
     (Ok (), [CnGet (''ns'', ''foo''), CnListPods ''ns'' None, CnGetDeployment (''ns'', ''foo''), CnCreateDeployment d])"
  shows "{CnCreateDeployment d, c} \<subseteq> set (added (cn_Reconcile (example_env pbs svc) (''ns'', ''foo'')) [])"
proof -
  let ?tr = "[CnGet (''ns'', ''foo''), CnListPods ''ns'' None, CnGetDeployment (''ns'', ''foo''),
    CnCreateDeployment d, CnGetService (''ns'', ''foo''), c]"
  obtain cm where cm: "reconcileConfigMap (example_env pbs svc) (example_node pbs) ?tr =
     (Ok (), ?tr @ [CnGetConfigMap (''ns'', ''foo''), CnCreateConfigMap cm])"
    by (rule example_config_map_run)
  have "cn_Reconcile (example_env pbs svc) (''ns'', ''foo'') [] =
      reconcileNode (example_env pbs svc) (example_node pbs) [CnGet (''ns'', ''foo'')]"
    by (simp add: cn_Reconcile_def) (simp add: example_env_def)
  also have "\<dots> = (Ok (first_error []), ?tr @ [CnGetConfigMap (''ns'', ''foo''), CnCreateConfigMap cm])"
    by (simp add: reconcileNode_def example_status_run bind_io_def attempt_def assms cm error_of_def)
  finally show ?thesis by (simp add: added_def)
qed


theorem existing_service_rarely_updated_witness:
  "\<exists>s cn. CnUpdateService s \<in> set (added (cn_Reconcile (example_env (Some []) (Some zero_KubeService)) (''ns'', ''foo'')) [])
     \<and> cne_get (example_env (Some []) (Some zero_KubeService)) [] (''ns'', ''foo'') = Inr cn \<and>
    (cn_PortBindings cn = Some [] \<or> (\<exists>t. cns_ServiceType (cn_Spec cn) = ServiceTypeOther t))"
proof -
  let ?e = "example_env (Some []) (Some zero_KubeService)"
  obtain d where run: "reconcileDeployment ?e (example_node (Some []))
      [CnGet (''ns'', ''foo''), CnListPods ''ns'' None] = (Ok (), [CnGet (''ns'', ''foo''), CnListPods ''ns'' None] @
        [CnGetDeployment (''ns'', ''foo''), CnCreateDeployment d])"
    by (rule example_deployment_run)
  obtain s where "reconcileService ?e (example_node (Some []))
      [CnGet (''ns'', ''foo''), CnListPods ''ns'' None, CnGetDeployment (''ns'', ''foo''), CnCreateDeployment d] =
     (Ok (example_node (Some []), None), [CnGet (''ns'', ''foo''), CnListPods ''ns'' None,
       CnGetDeployment (''ns'', ''foo''), CnCreateDeployment d] @ [CnGetService (''ns'', ''foo''), CnUpdateService s])"
    by (rule example_service_update_run)
  with run have "CnUpdateService s \<in> set (added (cn_Reconcile ?e (''ns'', ''foo'')) [])"
    using example_calls [of "Some []" "Some zero_KubeService" d "CnUpdateService s"] by simp
  with existing_service_rarely_updated [OF this] show ?thesis by blast
qed

theorem phase_ready_iff_witness:
  "ready_total [example_pod ConditionTrue] < 2 ^ 31 \<and>
   cnst_Phase (cn_Status (reconcileComputeNodeStatus (\<lambda>_. 0) [example_pod ConditionTrue] zero_KubeService (example_node None))) =
     ComputeNodeStatusReady \<and>
   cnst_Ready (cn_Status (reconcileComputeNodeStatus (\<lambda>_. 0) [example_pod ConditionTrue] zero_KubeService (example_node None))) = ''1/1''"
proof -
  have n: "ready_total [example_pod ConditionTrue] = 1"
    by (simp add: ready_total_def ready_proxies_def example_pod_def isTrueReadyPod_iff)
  then have "ready_total [example_pod ConditionTrue] < 2 ^ 31" by simp
  moreover have "show_nat 1 = ''1''" by code_simp
  ultimately show ?thesis
    using phase_ready_iff [of "[example_pod ConditionTrue]" "\<lambda>_. 0" zero_KubeService "example_node None"] n
    by (simp add: example_pod_def)
qed

theorem ready_condition_outlives_pods_witness:
  "cond_status (cnst_Conditions (cn_Status (example_node None))) ComputeNodeConditionReady = Some ConditionTrue \<and>
   cnst_Phase (cn_Status (reconcileComputeNodeStatus (\<lambda>_. 0) [example_pod ConditionFalse] zero_KubeService (example_node None))) =
     ComputeNodeStatusNotReady \<and>
   cond_status (cnst_Conditions (cn_Status (reconcileComputeNodeStatus (\<lambda>_. 0) [example_pod ConditionFalse]
     zero_KubeService (example_node None)))) ComputeNodeConditionReady = Some ConditionTrue"
proof -
  have 1: "cond_status (cnst_Conditions (cn_Status (example_node None))) ComputeNodeConditionReady = Some ConditionTrue"
    by (simp add: example_node_def cond_status_def newCondition_def)
  have "\<exists>p \<in> set [example_pod ConditionFalse]. pod_Phase p \<noteq> PodUnknown"
    "\<forall>p \<in> set [example_pod ConditionFalse]. \<not> isTrueReadyPod p"
    by (simp_all add: example_pod_def isTrueReadyPod_iff)
  from ready_condition_outlives_pods [OF 1 this] 1 show ?thesis by blast
qed

end
