(* ===== verification/Scaling_Types.thy ===== *)
theory Scaling_Types
  imports Compute_Node_Types
begin

text \<open>
  The autoscaling objects of Kubernetes that the operator makes: horizontal pod autoscalers
  (\<^verbatim>\<open>autoscaling/v2\<close> and \<^verbatim>\<open>v2beta2\<close>, which have the same fields where the operator writes) and
  vertical ones. They are types of other packages: a record has the fields the operator writes, and
  values that are only handed on are opaque codes.
\<close>

record CrossVersionObjectReference =
  ref_Kind :: string
  ref_Name :: string
  ref_APIVersion :: string

text \<open>A metric of a resource with its target, or any other metric.\<close>

record ResourceMetricSource =
  rm_Name :: string
  rm_TargetType :: string
  rm_AverageUtilization :: "i32 option"

datatype MetricSpec = ResourceMetric ResourceMetricSource | OtherMetric nat

record HPAScalingPolicy =
  hsp_Type :: string
  hsp_Value :: i32
  hsp_PeriodSeconds :: i32

record HPAScalingRules =
  hsr_StabilizationWindowSeconds :: "i32 option"
  hsr_Policies :: "HPAScalingPolicy goslice"
  hsr_Rest :: nat

record HPABehavior =
  bh_ScaleUp :: "HPAScalingRules option"
  bh_ScaleDown :: "HPAScalingRules option"

record HPASpec =
  hpas_ScaleTargetRef :: CrossVersionObjectReference
  hpas_MinReplicas :: "i32 option"
  hpas_MaxReplicas :: i32
  hpas_Metrics :: "MetricSpec goslice"
  hpas_Behavior :: "HPABehavior option"

record HorizontalPodAutoscaler =
  hpa_meta :: KubeMeta
  hpa_Spec :: HPASpec

record VPASpec =
  vpas_TargetRef :: "CrossVersionObjectReference option"
  vpas_UpdatePolicy :: "nat option"
  vpas_ResourcePolicy :: "nat option"
  vpas_Recommenders :: "nat goslice"

record VerticalPodAutoscaler =
  vpa_meta :: KubeMeta
  vpa_Spec :: VPASpec

end
