(* ===== verification/Ssproxy_Types.thy ===== *)
theory Ssproxy_Types
  imports Environment Scaling_Types Compute_Node_Status
begin

text \<open>
  The resource \<^verbatim>\<open>ShardingSphereProxy\<close> of \<^verbatim>\<open>api/v1alpha1/proxy_types.go\<close> and \<^verbatim>\<open>proxy_status.go\<close>, the
  calls of its controller and the environment that answers them. Resource requirements and probes
  are opaque codes, 0 the empty requirements.
\<close>

section \<open>ShardingSphereProxy\<close>

record ProxyServiceType =
  pst_Type :: ServiceType
  pst_NodePort :: i32

record MySQLDriver =
  drv_Version :: string

record AutomaticScaling =
  asc_Enable :: bool
  asc_ScaleUpWindows :: i32
  asc_ScaleDownWindows :: i32
  asc_Target :: i32
  asc_MaxInstance :: i32
  asc_MinInstance :: i32
  asc_CustomMetrics :: "MetricSpec goslice"

record ProxySpec =
  prs_Version :: string
  prs_ServiceType :: ProxyServiceType
  prs_Replicas :: i32
  prs_AutomaticScaling :: "AutomaticScaling option"
  prs_ImagePullSecrets :: "string goslice"
  prs_ProxyConfigName :: string
  prs_Port :: i32
  prs_MySQLDriver :: "MySQLDriver option"
  prs_Resources :: nat
  prs_LivenessProbe :: "nat option"
  prs_ReadinessProbe :: "nat option"
  prs_StartupProbe :: "nat option"

datatype PhaseStatus = StatusReady | StatusNotReady | StatusOther string

datatype ConditionType =
    ProxyConditionDeployed | ProxyConditionInitialized | ProxyConditionStarted | ProxyConditionSucceed
  | ProxyConditionReady | ProxyConditionUnknown | ProxyConditionFailed | ProxyConditionOther string

text \<open>The status of a condition is a text, empty in the zero condition.\<close>

record ProxyCondition =
  prc_Type :: ConditionType
  prc_Status :: string
  prc_LastUpdateTime :: "gotime option"

record ProxyStatus =
  prst_Phase :: PhaseStatus
  prst_Conditions :: "ProxyCondition goslice"
  prst_ReadyNodes :: i32

record ShardingSphereProxy =
  px_gvk :: GroupVersionKind
  px_meta :: KubeMeta
  px_Spec :: ProxySpec
  px_Status :: ProxyStatus

abbreviation px_Name :: "ShardingSphereProxy \<Rightarrow> string" where
  "px_Name p \<equiv> meta_Name (px_meta p)"

abbreviation px_Namespace :: "ShardingSphereProxy \<Rightarrow> string" where
  "px_Namespace p \<equiv> meta_Namespace (px_meta p)"

abbreviation px_Annotations :: "ShardingSphereProxy \<Rightarrow> gomap" where
  "px_Annotations p \<equiv> meta_Annotations (px_meta p)"

text \<open>\<^verbatim>\<open>v1alpha1.ShardingSphereProxy{}\<close>\<close>

definition zero_ShardingSphereProxy :: ShardingSphereProxy where
  "zero_ShardingSphereProxy = \<lparr>px_gvk = \<lparr>gvk_Group = [], gvk_Version = [], gvk_Kind = []\<rparr>, px_meta = zero_meta,
     px_Spec = \<lparr>prs_Version = [], prs_ServiceType = \<lparr>pst_Type = ServiceTypeOther [], pst_NodePort = 0\<rparr>,
       prs_Replicas = 0, prs_AutomaticScaling = None, prs_ImagePullSecrets = None, prs_ProxyConfigName = [],
       prs_Port = 0, prs_MySQLDriver = None, prs_Resources = 0, prs_LivenessProbe = None,
       prs_ReadinessProbe = None, prs_StartupProbe = None\<rparr>,
     px_Status = \<lparr>prst_Phase = StatusOther [], prst_Conditions = None, prst_ReadyNodes = 0\<rparr>\<rparr>"

text \<open>A pod with its deletion timestamp.\<close>

record ProxyPod = Pod +
  pod_DeletionTimestamp :: "gotime option"

section \<open>Calls and answers\<close>

datatype px_call =
    PxGet NamespacedName
  | PxUpdateStatus ShardingSphereProxy
  | PxGetDeployment NamespacedName
  | PxCreateDeployment Deployment
  | PxUpdateDeployment Deployment
  | PxGetService NamespacedName
  | PxCreateService KubeService
  | PxUpdateService KubeService
  | PxListPods string gomap
  | PxGetHPA NamespacedName
  | PxCreateHPA HorizontalPodAutoscaler
  | PxUpdateHPA HorizontalPodAutoscaler
  | PxDeleteHPA HorizontalPodAutoscaler

type_synonym 'a pio = "(px_call, 'a) io"

record px_env =
  pxe_lib :: lib
  pxe_clock :: "px_call list \<Rightarrow> nat \<Rightarrow> gotime"
  pxe_get :: "px_call list \<Rightarrow> NamespacedName \<Rightarrow> gerror + ShardingSphereProxy"
  pxe_get_deployment :: "px_call list \<Rightarrow> NamespacedName \<Rightarrow> gerror + Deployment"
  pxe_get_service :: "px_call list \<Rightarrow> NamespacedName \<Rightarrow> gerror + KubeService"
  pxe_get_hpa :: "px_call list \<Rightarrow> NamespacedName \<Rightarrow> gerror + HorizontalPodAutoscaler"
  pxe_list_pods :: "px_call list \<Rightarrow> string \<Rightarrow> gomap \<Rightarrow> gerror + ProxyPod list"
  pxe_write :: "px_call list \<Rightarrow> px_call \<Rightarrow> gerror + unit"

definition px_write :: "px_env \<Rightarrow> px_call \<Rightarrow> unit pio" where
  "px_write e c = call c (\<lambda>tr. pxe_write e tr c)"

end
