(* ===== verification/Ssproxy_Deployment.thy ===== *)
theory Ssproxy_Deployment
  imports Ssproxy_Types
begin

text \<open>
  The deployment of a proxy: how it is made (\<^verbatim>\<open>ConstructCascadingDeployment\<close>) and how an existing one
  is brought up to date (\<^verbatim>\<open>UpdateDeployment\<close>), both in \<^verbatim>\<open>pkg/reconcile/proxy/deployment.go\<close>.

  \<^verbatim>\<open>UpdateDeployment\<close> writes the new values of environment variables into the object it was given and
  copies them from there; that object is a copy of the caller's which nobody reads again, so only
  the copies are modelled. An index out of range and a nil pointer are panics.
\<close>

section \<open>Constants\<close>

definition imageName :: string where "imageName = ''apache/shardingsphere-proxy''"
definition AnnoRollingUpdateMaxSurge :: string where
  "AnnoRollingUpdateMaxSurge = ''shardingsphereproxy.shardingsphere.org/rolling-update-max-surge''"
definition AnnoRollingUpdateMaxUnavailable :: string where
  "AnnoRollingUpdateMaxUnavailable = ''shardingsphereproxy.shardingsphere.org/rolling-update-max-unavailable''"
definition mysqlConnectorJarVolumeMountName :: string where
  "mysqlConnectorJarVolumeMountName = ''mysql-connector-jar''"
definition downloadMySQLConnectorJarContainerName :: string where
  "downloadMySQLConnectorJarContainerName = ''download-mysql-connect''"

definition download_script :: string where
  "download_script =
     ''wget https://repo1.maven.org/maven2/mysql/mysql-connector-java/${VERSION}/mysql-connector-java-${VERSION}.jar;'' @ [CHR 0x0A] @
     ''wget https://repo1.maven.org/maven2/mysql/mysql-connector-java/${VERSION}/mysql-connector-java-${VERSION}.jar.md5;'' @ [CHR 0x0A] @
     ''if [ $(md5sum /mysql-connector-java-${VERSION}.jar | cut -d ' ' -f1) = $(cat /mysql-connector-java-${VERSION}.jar.md5) ];'' @ [CHR 0x0A] @
     ''then echo success;'' @ [CHR 0x0A] @
     ''else echo failed;exit 1;fi;mv /mysql-connector-java-${VERSION}.jar /opt/shardingsphere-proxy/ext-lib''"

section \<open>Rolling updates\<close>

text \<open>
  \<^verbatim>\<open>n, _ := strconv.Atoi(s)\<close>: the number of a text that is no number is 0, of a number out of range
  the nearest number in range. \<^verbatim>\<open>intstr.FromInt\<close> cuts it to 32 bits.
\<close>

definition atoi_value :: "string \<Rightarrow> int" where
  "atoi_value s = (case parse_int ''Atoi'' 64 s of
     Inr v \<Rightarrow> v
   | Inl (NumError f t k) \<Rightarrow>
       if k = ''value out of range'' then (if hd s = CHR ''-'' then - (2 ^ 63) else 2 ^ 63 - 1) else 0
   | Inl _ \<Rightarrow> 0)"

definition intstr_FromInt :: "int \<Rightarrow> IntOrString" where
  "intstr_FromInt n = FromInt (sint (word_of_int n :: i32))"

definition rolling_update_value :: "ShardingSphereProxy \<Rightarrow> string \<Rightarrow> int \<Rightarrow> IntOrString" where
  "rolling_update_value proxy anno dflt =
     (if mget (px_Annotations proxy) anno \<noteq> [] then intstr_FromInt (atoi_value (mget (px_Annotations proxy) anno))
      else intstr_FromInt dflt)"

abbreviation maxUnavailable :: "ShardingSphereProxy \<Rightarrow> IntOrString" where
  "maxUnavailable proxy \<equiv> rolling_update_value proxy AnnoRollingUpdateMaxUnavailable 0"

abbreviation maxSurge :: "ShardingSphereProxy \<Rightarrow> IntOrString" where
  "maxSurge proxy \<equiv> rolling_update_value proxy AnnoRollingUpdateMaxSurge 1"

section \<open>A new deployment\<close>

definition proxy_image :: "ShardingSphereProxy \<Rightarrow> string" where
  "proxy_image proxy = imageName @ '':'' @ prs_Version (px_Spec proxy)"

definition port_text :: "ShardingSphereProxy \<Rightarrow> string" where
  "port_text proxy = show_int (sint (prs_Port (px_Spec proxy)))"

text \<open>The container of the literal, with the fields that are set after it.\<close>

definition proxy_container :: "ShardingSphereProxy \<Rightarrow> Container" where
  "proxy_container proxy =
     \<lparr>con_Name = ''proxy'', con_Image = proxy_image proxy, con_Command = None, con_Args = None,
      con_Ports = Some [\<lparr>cp_Name = [], cp_HostIP = [], cp_ContainerPort = prs_Port (px_Spec proxy), cp_Protocol = []\<rparr>],
      con_Env = Some [\<lparr>ev_Name = ''PORT'', ev_Value = port_text proxy\<rparr>],
      con_Resources = prs_Resources (px_Spec proxy),
      con_VolumeMounts = Some [\<lparr>vm_Name = ''config'', vm_MountPath = ''/opt/shardingsphere-proxy/conf'', vm_SubPath = []\<rparr>],
      con_LivenessProbe = prs_LivenessProbe (px_Spec proxy),
      con_ReadinessProbe = prs_ReadinessProbe (px_Spec proxy),
      con_StartupProbe = prs_StartupProbe (px_Spec proxy),
      con_ImagePullPolicy = ''IfNotPresent'', con_Rest = 0\<rparr>"

definition proxy_config_volume :: "ShardingSphereProxy \<Rightarrow> Volume" where
  "proxy_config_volume proxy = \<lparr>vol_Name = ''config'', vol_EmptyDir = False,
     vol_ConfigMap = Some \<lparr>cmv_Name = prs_ProxyConfigName (px_Spec proxy), cmv_Items = None\<rparr>\<rparr>"

definition apps_label :: "ShardingSphereProxy \<Rightarrow> gomap" where
  "apps_label proxy = Some [''apps'' \<mapsto> px_Name proxy]"

definition driver_mount :: VolumeMount where
  "driver_mount = \<lparr>vm_Name = mysqlConnectorJarVolumeMountName,
     vm_MountPath = ''/opt/shardingsphere-proxy/ext-lib'', vm_SubPath = []\<rparr>"

definition driver_container :: "MySQLDriver \<Rightarrow> Container" where
  "driver_container mysql =
     \<lparr>con_Name = downloadMySQLConnectorJarContainerName, con_Image = ''busybox:1.35.0'',
      con_Command = Some [''/bin/sh'', ''-c'', download_script], con_Args = None, con_Ports = None,
      con_Env = Some [\<lparr>ev_Name = ''VERSION'', ev_Value = drv_Version mysql\<rparr>], con_Resources = 0,
      con_VolumeMounts = Some [driver_mount], con_LivenessProbe = None, con_ReadinessProbe = None,
      con_StartupProbe = None, con_ImagePullPolicy = [], con_Rest = 0\<rparr>"

definition on_template :: "(PodSpec \<Rightarrow> PodSpec) \<Rightarrow> Deployment \<Rightarrow> Deployment" where
  "on_template f dp = dp\<lparr>dep_Spec := (dep_Spec dp)\<lparr>ds_Template := (ds_Template (dep_Spec dp))\<lparr>pt_Spec :=
     f (pt_Spec (ds_Template (dep_Spec dp)))\<rparr>\<rparr>\<rparr>"

abbreviation pod_of :: "Deployment \<Rightarrow> PodSpec" where
  "pod_of dp \<equiv> pt_Spec (ds_Template (dep_Spec dp))"

definition addInitContainer :: "Deployment \<Rightarrow> MySQLDriver \<Rightarrow> Deployment outcome" where
  "addInitContainer dp mysql =
     obind (if items (ps_InitContainers (pod_of dp)) = []
            then (case items (ps_Containers (pod_of dp)) of
                    [] \<Rightarrow> Panic ''index out of range''
                  | c # cs \<Rightarrow> Ok (on_template (\<lambda>s. s\<lparr>
                      ps_Containers := Some (c\<lparr>con_VolumeMounts := slice_append (con_VolumeMounts c) [driver_mount]\<rparr> # cs),
                      ps_Volumes := slice_append (ps_Volumes s)
                        [\<lparr>vol_Name = mysqlConnectorJarVolumeMountName, vol_EmptyDir = True, vol_ConfigMap = None\<rparr>]\<rparr>) dp))
            else Ok dp) (\<lambda>dp.
     Ok (on_template (\<lambda>s. s\<lparr>ps_InitContainers := Some [driver_container mysql]\<rparr>) dp))"

definition processOptionalParameter :: "ShardingSphereProxy \<Rightarrow> Deployment \<Rightarrow> Deployment outcome" where
  "processOptionalParameter proxy dp =
     (case prs_MySQLDriver (px_Spec proxy) of None \<Rightarrow> Ok dp | Some mysql \<Rightarrow> addInitContainer dp mysql)"

definition ConstructCascadingDeployment :: "lib \<Rightarrow> ShardingSphereProxy \<Rightarrow> Deployment outcome" where
  "ConstructCascadingDeployment l proxy =
     (if proxy = zero_ShardingSphereProxy then Ok zero_Deployment
      else processOptionalParameter proxy
        \<lparr>dep_meta = zero_meta\<lparr>meta_Name := px_Name proxy, meta_Namespace := px_Namespace proxy,
           meta_OwnerReferences := Some [lib_NewControllerRef l (px_meta proxy) (px_gvk proxy)]\<rparr>,
         dep_Spec =
           \<lparr>ds_Replicas = (if prs_AutomaticScaling (px_Spec proxy) = None then Some (prs_Replicas (px_Spec proxy)) else None),
            ds_Selector = Some \<lparr>sel_MatchLabels = apps_label proxy, sel_MatchExpressions = 0\<rparr>,
            ds_Template =
              \<lparr>pt_meta = zero_meta\<lparr>meta_Labels := apps_label proxy\<rparr>,
               pt_Spec = zero_PodSpec\<lparr>ps_Containers := Some [proxy_container proxy],
                 ps_Volumes := Some [proxy_config_volume proxy],
                 ps_ImagePullSecrets := (if items (prs_ImagePullSecrets (px_Spec proxy)) \<noteq> []
                   then prs_ImagePullSecrets (px_Spec proxy) else None)\<rparr>\<rparr>,
            ds_StrategyType = ''RollingUpdate'', ds_MaxUnavailable = Some (maxUnavailable proxy),
            ds_MaxSurge = Some (maxSurge proxy), ds_Rest = 0\<rparr>\<rparr>)"

definition NewDeployment :: "lib \<Rightarrow> ShardingSphereProxy \<Rightarrow> Deployment outcome" where
  "NewDeployment l ssproxy = ConstructCascadingDeployment l ssproxy"

section \<open>An existing deployment\<close>

definition updateReplicas :: "ShardingSphereProxy \<Rightarrow> Deployment \<Rightarrow> i32 option outcome" where
  "updateReplicas proxy act =
     (case ds_Replicas (dep_Spec act) of None \<Rightarrow> Panic ''nil pointer dereference''
      | Some n \<Rightarrow> if n \<noteq> prs_Replicas (px_Spec proxy) then Ok (Some (prs_Replicas (px_Spec proxy)))
                 else Ok (Some n))"

definition checkProbe :: "nat option \<Rightarrow> nat option \<Rightarrow> nat option" where
  "checkProbe proxy act = (if proxy \<noteq> None \<and> act \<noteq> proxy then proxy else None)"

definition setProbes :: "ProxySpec \<Rightarrow> Container \<Rightarrow> Container \<Rightarrow> Container" where
  "setProbes spec act ex =
     (let ex = (if checkProbe (prs_LivenessProbe spec) (con_LivenessProbe act) \<noteq> None
                then ex\<lparr>con_LivenessProbe := prs_LivenessProbe spec\<rparr> else ex);
          ex = (if checkProbe (prs_ReadinessProbe spec) (con_ReadinessProbe act) \<noteq> None
                then ex\<lparr>con_ReadinessProbe := prs_ReadinessProbe spec\<rparr> else ex)
      in if checkProbe (prs_StartupProbe spec) (con_StartupProbe act) \<noteq> None
         then ex\<lparr>con_StartupProbe := prs_StartupProbe spec\<rparr> else ex)"

text \<open>
  The loop over the environment of the container: the new environment, and the ports of the
  expected container, of which the first is overwritten when the variable changes.
\<close>

fun update_port_env :: "ShardingSphereProxy \<Rightarrow> EnvVar list \<Rightarrow> ContainerPort goslice \<Rightarrow> (EnvVar list \<times> ContainerPort goslice) outcome" where
  "update_port_env proxy [] ports = Ok ([], ports)"
| "update_port_env proxy (v # vs) ports =
     (if ev_Name v = ''PORT'' \<and> ev_Value v \<noteq> port_text proxy
      then (case ports of
              Some (p # ps) \<Rightarrow>
                obind (update_port_env proxy vs (Some (p\<lparr>cp_ContainerPort := prs_Port (px_Spec proxy)\<rparr> # ps))) (\<lambda>(vs', ports').
                  Ok (v\<lparr>ev_Value := port_text proxy\<rparr> # vs', ports'))
            | _ \<Rightarrow> Panic ''index out of range'')
      else obind (update_port_env proxy vs ports) (\<lambda>(vs', ports'). Ok (v # vs', ports')))"

text \<open>One round of the loop of \<^verbatim>\<open>updateSSProxyContainer\<close>, at a container called \<^verbatim>\<open>proxy\<close>.\<close>

definition updated_container :: "ShardingSphereProxy \<Rightarrow> Container \<Rightarrow> Container outcome" where
  "updated_container proxy act =
     (case split_on CHR '':'' (con_Image act) of
        name # tag # rest \<Rightarrow>
          (let ex = act;
               ex = (if tag \<noteq> prs_Version (px_Spec proxy) then ex\<lparr>con_Image := proxy_image proxy\<rparr> else ex);
               ex = ex\<lparr>con_Resources := prs_Resources (px_Spec proxy)\<rparr>;
               ex = setProbes (px_Spec proxy) act ex
           in obind (update_port_env proxy (items (con_Env act)) (con_Ports ex)) (\<lambda>(vs, ports).
                Ok (ex\<lparr>con_Ports := ports, con_Env := map_option (\<lambda>_. vs) (con_Env act)\<rparr>)))
      | _ \<Rightarrow> Panic ''index out of range'')"

text \<open>The result of the last such round; nil when there is none.\<close>

fun updateSSProxyContainer_loop :: "ShardingSphereProxy \<Rightarrow> Container list \<Rightarrow> Container option \<Rightarrow> Container option outcome" where
  "updateSSProxyContainer_loop proxy [] ex = Ok ex"
| "updateSSProxyContainer_loop proxy (c # cs) ex =
     (if con_Name c \<noteq> ''proxy'' then updateSSProxyContainer_loop proxy cs ex
      else obind (updated_container proxy c) (\<lambda>c'. updateSSProxyContainer_loop proxy cs (Some c')))"

definition updateSSProxyContainer :: "ShardingSphereProxy \<Rightarrow> Deployment \<Rightarrow> Container option outcome" where
  "updateSSProxyContainer proxy act =
     updateSSProxyContainer_loop proxy (items (ps_Containers (pod_of act))) None"

definition updateEnv :: "string \<Rightarrow> EnvVar list \<Rightarrow> EnvVar list" where
  "updateEnv version envs =
     map (\<lambda>v. if ev_Name v = ''VERSION'' then (if ev_Value v \<noteq> version then v\<lparr>ev_Value := version\<rparr> else v) else v) envs"

fun updateInitContainer_loop :: "string \<Rightarrow> Container list \<Rightarrow> Container option \<Rightarrow> Container option" where
  "updateInitContainer_loop version [] ex = ex"
| "updateInitContainer_loop version (c # cs) ex =
     (if con_Name c = downloadMySQLConnectorJarContainerName
      then updateInitContainer_loop version cs (Some (c\<lparr>con_Env := map_option (updateEnv version) (con_Env c)\<rparr>))
      else updateInitContainer_loop version cs ex)"

definition updateInitContainer :: "MySQLDriver \<Rightarrow> Deployment \<Rightarrow> Container option" where
  "updateInitContainer mysql act =
     updateInitContainer_loop (drv_Version mysql) (items (ps_InitContainers (pod_of act))) None"

text \<open>\<^verbatim>\<open>for i := range cs { if cs[i].Name == n { cs[i] = *c } }\<close>\<close>

fun replace_named :: "string \<Rightarrow> Container option \<Rightarrow> Container list \<Rightarrow> Container list outcome" where
  "replace_named n c [] = Ok []"
| "replace_named n c (x # xs) =
     (if con_Name x = n
      then (case c of None \<Rightarrow> Panic ''nil pointer dereference''
            | Some c' \<Rightarrow> obind (replace_named n c xs) (\<lambda>xs'. Ok (c' # xs')))
      else obind (replace_named n c xs) (\<lambda>xs'. Ok (x # xs')))"

definition replace_in_slice :: "string \<Rightarrow> Container option \<Rightarrow> Container goslice \<Rightarrow> Container goslice outcome" where
  "replace_in_slice n c s =
     (case s of None \<Rightarrow> Ok None | Some xs \<Rightarrow> obind (replace_named n c xs) (\<lambda>xs'. Ok (Some xs')))"

text \<open>\<^verbatim>\<open>act.Spec.Template.Spec.Volumes[0].ConfigMap\<close>\<close>

definition first_config_map :: "PodSpec \<Rightarrow> ConfigMapVolumeSource outcome" where
  "first_config_map s =
     (case items (ps_Volumes s) of
        [] \<Rightarrow> Panic ''index out of range''
      | v # vs \<Rightarrow> (case vol_ConfigMap v of None \<Rightarrow> Panic ''nil pointer dereference'' | Some c \<Rightarrow> Ok c))"

definition updateConfigName :: "ShardingSphereProxy \<Rightarrow> Deployment \<Rightarrow> string outcome" where
  "updateConfigName proxy act =
     obind (first_config_map (pod_of act)) (\<lambda>c.
       if cmv_Name c \<noteq> prs_ProxyConfigName (px_Spec proxy) then Ok (prs_ProxyConfigName (px_Spec proxy))
       else Ok (cmv_Name c))"

definition set_config_name :: "string \<Rightarrow> PodSpec \<Rightarrow> PodSpec outcome" where
  "set_config_name n s =
     (case items (ps_Volumes s) of
        [] \<Rightarrow> Panic ''index out of range''
      | v # vs \<Rightarrow> (case vol_ConfigMap v of None \<Rightarrow> Panic ''nil pointer dereference''
                  | Some c \<Rightarrow> Ok (s\<lparr>ps_Volumes := Some (v\<lparr>vol_ConfigMap := Some (c\<lparr>cmv_Name := n\<rparr>)\<rparr> # vs)\<rparr>)))"

definition updatePodTemplateSpec :: "ShardingSphereProxy \<Rightarrow> Deployment \<Rightarrow> PodTemplateSpec outcome" where
  "updatePodTemplateSpec proxy act =
     (let ex = pod_of act
      in obind (updateSSProxyContainer proxy act) (\<lambda>c.
         obind (replace_in_slice ''proxy'' c (ps_Containers ex)) (\<lambda>cs.
         obind (case prs_MySQLDriver (px_Spec proxy) of
                  None \<Rightarrow> Ok (ps_InitContainers ex)
                | Some mysql \<Rightarrow> replace_in_slice downloadMySQLConnectorJarContainerName
                    (updateInitContainer mysql act) (ps_InitContainers ex)) (\<lambda>ics.
         obind (updateConfigName proxy act) (\<lambda>n.
         obind (set_config_name n (ex\<lparr>ps_Containers := cs, ps_InitContainers := ics\<rparr>)) (\<lambda>ex.
           Ok ((ds_Template (dep_Spec act))\<lparr>pt_Spec := ex\<rparr>)))))))"

definition scaling_enabled :: "ShardingSphereProxy \<Rightarrow> bool" where
  "scaling_enabled proxy =
     (case prs_AutomaticScaling (px_Spec proxy) of None \<Rightarrow> False | Some a \<Rightarrow> asc_Enable a)"

definition px_UpdateDeployment :: "ShardingSphereProxy \<Rightarrow> Deployment \<Rightarrow> Deployment outcome" where
  "px_UpdateDeployment proxy act =
     obind (if \<not> scaling_enabled proxy then updateReplicas proxy act else Ok (ds_Replicas (dep_Spec act))) (\<lambda>n.
     obind (updatePodTemplateSpec proxy act) (\<lambda>tpl.
       Ok (act\<lparr>dep_Spec := (dep_Spec act)\<lparr>ds_StrategyType := ''RollingUpdate'',
             ds_MaxSurge := Some (maxSurge proxy), ds_MaxUnavailable := Some (maxUnavailable proxy),
             ds_Replicas := n, ds_Template := tpl\<rparr>\<rparr>)))"

end
