(* ===== verification/Ssproxy_Objects.thy ===== *)
theory Ssproxy_Objects
  imports Ssproxy_Deployment
begin

text \<open>
  The other objects of a proxy: its service (\<^verbatim>\<open>pkg/reconcile/proxy/service.go\<close>), its horizontal
  autoscaler (\<^verbatim>\<open>hpa.go\<close>), and its status as the pods show it (the second half of \<^verbatim>\<open>deployment.go\<close>,
  \<^verbatim>\<open>status.go\<close>, \<^verbatim>\<open>resource.go\<close>).
\<close>

section \<open>Service\<close>

definition fromInt32 :: "i32 \<Rightarrow> IntOrString" where
  "fromInt32 val = FromInt (sint val)"

definition zero_Service :: KubeService where
  "zero_Service = \<lparr>ksvc_meta = zero_meta, ksvc_Spec = \<lparr>svs_Ports = None, svs_Selector = None,
     svs_ClusterIP = [], svs_ClusterIPs = None, svs_Type = ServiceTypeOther [], svs_Rest = 0\<rparr>, ksvc_Ingress = None\<rparr>"

definition ConstructCascadingService :: "lib \<Rightarrow> ShardingSphereProxy \<Rightarrow> KubeService" where
  "ConstructCascadingService l proxy =
     (if proxy = zero_ShardingSphereProxy then zero_Service
      else
        let spec = px_Spec proxy;
            port = \<lparr>sp_PortName = ''proxy-port'', sp_Protocol = [], sp_Port = prs_Port spec,
                    sp_TargetPort = fromInt32 (prs_Port spec), sp_NodePort = 0, sp_Rest = 0\<rparr>
        in \<lparr>ksvc_meta = zero_meta\<lparr>meta_Name := px_Name proxy, meta_Namespace := px_Namespace proxy,
              meta_OwnerReferences := Some [lib_NewControllerRef l (px_meta proxy) (px_gvk proxy)]\<rparr>,
            ksvc_Spec = \<lparr>svs_Ports = Some [if pst_Type (prs_ServiceType spec) = ServiceTypeNodePort
                then port\<lparr>sp_NodePort := pst_NodePort (prs_ServiceType spec)\<rparr> else port],
              svs_Selector = apps_label proxy, svs_ClusterIP = [], svs_ClusterIPs = None,
              svs_Type = pst_Type (prs_ServiceType spec), svs_Rest = 0\<rparr>,
            ksvc_Ingress = None\<rparr>)"

definition px_NewService :: "lib \<Rightarrow> ShardingSphereProxy \<Rightarrow> KubeService" where
  "px_NewService l ssproxy = ConstructCascadingService l ssproxy"

definition px_UpdateService :: "ShardingSphereProxy \<Rightarrow> KubeService \<Rightarrow> KubeService outcome" where
  "px_UpdateService proxy runtimeService =
     (let spec = px_Spec proxy
      in case items (svs_Ports (ksvc_Spec runtimeService)) of
           [] \<Rightarrow> Panic ''index out of range''
         | p # ps \<Rightarrow>
             let p = p\<lparr>sp_Port := prs_Port spec, sp_TargetPort := fromInt32 (prs_Port spec)\<rparr>;
                 p = (if pst_NodePort (prs_ServiceType spec) \<noteq> 0
                      then p\<lparr>sp_NodePort := pst_NodePort (prs_ServiceType spec)\<rparr> else p)
             in Ok (runtimeService\<lparr>ksvc_Spec := (ksvc_Spec runtimeService)\<lparr>
                  svs_Type := pst_Type (prs_ServiceType spec), svs_Ports := Some (p # ps)\<rparr>\<rparr>))"

section \<open>Horizontal autoscaler\<close>

definition ConstructDefaultHPAMetric :: "i32 \<Rightarrow> MetricSpec list" where
  "ConstructDefaultHPAMetric target =
     [ResourceMetric \<lparr>rm_Name = ''cpu'', rm_TargetType = ''Utilization'', rm_AverageUtilization = Some target\<rparr>]"

definition hpa_metrics :: "AutomaticScaling \<Rightarrow> MetricSpec goslice" where
  "hpa_metrics a =
     (if items (asc_CustomMetrics a) \<noteq> [] then asc_CustomMetrics a
      else Some (ConstructDefaultHPAMetric (asc_Target a)))"

definition ConstructHPA :: "lib \<Rightarrow> ShardingSphereProxy \<Rightarrow> HorizontalPodAutoscaler outcome" where
  "ConstructHPA l proxy =
     (case prs_AutomaticScaling (px_Spec proxy) of None \<Rightarrow> Panic ''nil pointer dereference''
      | Some a \<Rightarrow> Ok
         \<lparr>hpa_meta = zero_meta\<lparr>meta_Name := px_Name proxy, meta_Namespace := px_Namespace proxy,
            meta_OwnerReferences := Some [lib_NewControllerRef l (px_meta proxy) (px_gvk proxy)]\<rparr>,
          hpa_Spec =
            \<lparr>hpas_ScaleTargetRef = \<lparr>ref_Kind = ''Deployment'', ref_Name = px_Name proxy, ref_APIVersion = ''apps/v1''\<rparr>,
             hpas_MinReplicas = Some (asc_MinInstance a), hpas_MaxReplicas = asc_MaxInstance a,
             hpas_Metrics = hpa_metrics a,
             hpas_Behavior = Some
               \<lparr>bh_ScaleUp = Some \<lparr>hsr_StabilizationWindowSeconds = Some (asc_ScaleUpWindows a), hsr_Policies = None, hsr_Rest = 0\<rparr>,
                bh_ScaleDown = Some \<lparr>hsr_StabilizationWindowSeconds = Some (asc_ScaleDownWindows a),
                  hsr_Policies = Some [\<lparr>hsp_Type = ''Pods'', hsp_Value = 1, hsp_PeriodSeconds = 30\<rparr>], hsr_Rest = 0\<rparr>\<rparr>\<rparr>\<rparr>)"

definition NewHPA :: "lib \<Rightarrow> ShardingSphereProxy \<Rightarrow> HorizontalPodAutoscaler outcome" where
  "NewHPA l ssproxy = ConstructHPA l ssproxy"

text \<open>\<^verbatim>\<open>Behavior\<close> and its two rules are pointers, and so is \<^verbatim>\<open>AutomaticScaling\<close>.\<close>

definition UpdateHPA :: "ShardingSphereProxy \<Rightarrow> HorizontalPodAutoscaler \<Rightarrow> HorizontalPodAutoscaler outcome" where
  "UpdateHPA proxy act =
     (case prs_AutomaticScaling (px_Spec proxy) of None \<Rightarrow> Panic ''nil pointer dereference''
      | Some a \<Rightarrow> (case hpas_Behavior (hpa_Spec act) of None \<Rightarrow> Panic ''nil pointer dereference''
      | Some bh \<Rightarrow> (case (bh_ScaleUp bh, bh_ScaleDown bh) of
          (Some up, Some down) \<Rightarrow>
            Ok (act\<lparr>hpa_Spec := (hpa_Spec act)\<lparr>
                  hpas_Behavior := Some
                    \<lparr>bh_ScaleUp = Some (up\<lparr>hsr_StabilizationWindowSeconds := Some (asc_ScaleUpWindows a)\<rparr>),
                     bh_ScaleDown = Some (down\<lparr>hsr_StabilizationWindowSeconds := Some (asc_ScaleDownWindows a)\<rparr>)\<rparr>,
                  hpas_MaxReplicas := asc_MaxInstance a, hpas_MinReplicas := Some (asc_MinInstance a),
                  hpas_Metrics := hpa_metrics a\<rparr>\<rparr>)
        | _ \<Rightarrow> Panic ''nil pointer dereference'')))"

section \<open>Ready pods\<close>

fun px_isTrueReadyPod_loop :: "PodCondition list \<Rightarrow> bool" where
  "px_isTrueReadyPod_loop [] = False"
| "px_isTrueReadyPod_loop (c # cs) =
     (if pc_Type c = PodReady \<and> pc_Status c = ConditionTrue then True else px_isTrueReadyPod_loop cs)"

definition px_isTrueReadyPod :: "ProxyPod \<Rightarrow> bool" where
  "px_isTrueReadyPod pod = px_isTrueReadyPod_loop (pod_Conditions pod)"

definition px_findRunningPod :: "i32 \<Rightarrow> ProxyPod \<Rightarrow> i32" where
  "px_findRunningPod cnt pod =
     (if pod_Phase pod \<noteq> PodRunning then cnt
      else if px_isTrueReadyPod pod
      then foldl (\<lambda>cnt cs. if cs_Name cs = ''shardingsphere-proxy'' \<and> cs_Ready cs then cnt + 1 else cnt)
             cnt (pod_ContainerStatuses pod)
      else cnt)"

definition getReadyNodes :: "ProxyPod list \<Rightarrow> i32" where
  "getReadyNodes podlist = foldl px_findRunningPod 0 podlist"

definition isRunningPod :: "ProxyPod \<Rightarrow> bool" where
  "isRunningPod pod = (pod_Phase pod = PodRunning)"

definition isReadyPod :: "ProxyPod \<Rightarrow> bool" where
  "isReadyPod pod = (case pod_ContainerStatuses pod of [] \<Rightarrow> False | c # cs \<Rightarrow> cs_Ready c)"

definition isNonTerminatingPod :: "ProxyPod \<Rightarrow> bool" where
  "isNonTerminatingPod pod = (pod_DeletionTimestamp pod = None)"

fun IsRunning :: "ProxyPod list \<Rightarrow> bool" where
  "IsRunning [] = False"
| "IsRunning (p # ps) = (if isNonTerminatingPod p \<and> isRunningPod p then True else IsRunning ps)"

definition CountingReadyPods :: "ProxyPod list \<Rightarrow> i32" where
  "CountingReadyPods podList =
     foldl (\<lambda>n p. if pod_ContainerStatuses p = [] then n
                  else if isNonTerminatingPod p \<and> isReadyPod p then n + 1 else n) 0 podList"

section \<open>Conditions\<close>

text \<open>The loop of \<^verbatim>\<open>newConditions\<close>: the first condition of that type is overwritten, if there is one.\<close>

fun overwrite_first :: "ProxyCondition \<Rightarrow> ProxyCondition list \<Rightarrow> ProxyCondition list option" where
  "overwrite_first c [] = None"
| "overwrite_first c (e # es) =
     (if prc_Type e \<noteq> prc_Type c then map_option (\<lambda>es'. e # es') (overwrite_first c es)
      else Some (e\<lparr>prc_LastUpdateTime := prc_LastUpdateTime c, prc_Status := prc_Status c\<rparr> # es))"

definition newConditions :: "ProxyCondition goslice \<Rightarrow> ProxyCondition \<Rightarrow> ProxyCondition list" where
  "newConditions conditions c =
     (let cs = items conditions
      in if prc_Type c = ProxyConditionOther [] then cs
         else case overwrite_first c cs of None \<Rightarrow> cs @ [c] | Some cs' \<Rightarrow> cs')"

definition updateReadyConditions :: "ProxyCondition goslice \<Rightarrow> ProxyCondition \<Rightarrow> ProxyCondition list" where
  "updateReadyConditions conditions c = newConditions conditions c"

text \<open>Each condition of type ready takes a reading of the clock, from the \<open>k\<close>-th on.\<close>

fun reset_ready :: "(nat \<Rightarrow> gotime) \<Rightarrow> nat \<Rightarrow> ProxyCondition list \<Rightarrow> ProxyCondition list" where
  "reset_ready clock k [] = []"
| "reset_ready clock k (c # cs) =
     (if prc_Type c = ProxyConditionReady
      then c\<lparr>prc_LastUpdateTime := Some (clock k), prc_Status := ''False''\<rparr> # reset_ready clock (Suc k) cs
      else c # reset_ready clock k cs)"

definition updateNotReadyConditions :: "(nat \<Rightarrow> gotime) \<Rightarrow> nat \<Rightarrow> ProxyCondition goslice \<Rightarrow> ProxyCondition \<Rightarrow> ProxyCondition list" where
  "updateNotReadyConditions clock k conditions c = reset_ready clock k (newConditions conditions c)"

definition zero_Condition :: ProxyCondition where
  "zero_Condition = \<lparr>prc_Type = ProxyConditionOther [], prc_Status = [], prc_LastUpdateTime = None\<rparr>"

text \<open>The first pod whose phase is one of the five that Kubernetes has decides.\<close>

fun clusterCondition_loop :: "(nat \<Rightarrow> gotime) \<Rightarrow> ProxyPod list \<Rightarrow> ProxyCondition" where
  "clusterCondition_loop clock [] = zero_Condition"
| "clusterCondition_loop clock (p # ps) =
     (let made = (\<lambda>t k. \<lparr>prc_Type = t, prc_Status = ''True'', prc_LastUpdateTime = Some (clock k)\<rparr>)
      in case pod_Phase p of
           PodSucceeded \<Rightarrow> made ProxyConditionSucceed 1
         | PodRunning \<Rightarrow> made ProxyConditionStarted 0
         | PodUnknown \<Rightarrow> made ProxyConditionUnknown 2
         | PodPending \<Rightarrow> made ProxyConditionDeployed 3
         | PodFailed \<Rightarrow> made ProxyConditionFailed 4
         | PodPhaseOther s \<Rightarrow> clusterCondition_loop clock ps)"

definition clusterCondition :: "(nat \<Rightarrow> gotime) \<Rightarrow> ProxyPod list \<Rightarrow> ProxyCondition" where
  "clusterCondition clock podlist =
     (if podlist = [] then zero_Condition else clusterCondition_loop clock podlist)"

definition ReconcileStatus :: "(nat \<Rightarrow> gotime) \<Rightarrow> ProxyPod list \<Rightarrow> ShardingSphereProxy \<Rightarrow> ProxyStatus" where
  "ReconcileStatus clock podlist rt =
     (let readyNodes = getReadyNodes podlist;
          st = (px_Status rt)\<lparr>prst_ReadyNodes := readyNodes\<rparr>;
          st = st\<lparr>prst_Phase := (if prs_Replicas (px_Spec rt) = 0 then StatusNotReady
                                 else if sint readyNodes < 1 then StatusNotReady else StatusReady)\<rparr>
      in if prst_Phase st = StatusReady
         then st\<lparr>prst_Conditions := Some (updateReadyConditions (prst_Conditions st)
                \<lparr>prc_Type = ProxyConditionReady, prc_Status = ''True'', prc_LastUpdateTime = Some (clock 0)\<rparr>)\<rparr>
         else st\<lparr>prst_Conditions := Some (updateNotReadyConditions clock (if podlist = [] then 0 else 5)
                (prst_Conditions st) (clusterCondition clock podlist))\<rparr>)"

end
