(* ===== verification/Ssproxy_Controller.thy ===== *)
theory Ssproxy_Controller
  imports Ssproxy_Objects
begin

text \<open>
  The controller of proxies, \<^verbatim>\<open>pkg/controllers/proxy_controller.go\<close>, over the history of its calls of
  the Kubernetes API. A step returns its result and its error together; log lines are left out.

  \<^verbatim>\<open>reconcileDeployment\<close> and \<^verbatim>\<open>reconcileService\<close> look at the error of \<^verbatim>\<open>Get\<close> twice: a missing object
  is created, and the error that it was missing is then returned.
\<close>

definition WaitingForReady :: int where
  "WaitingForReady = 10"

definition getRuntimeShardingSphereProxy :: "px_env \<Rightarrow> NamespacedName \<Rightarrow> ShardingSphereProxy pio" where
  "getRuntimeShardingSphereProxy e nn = call (PxGet nn) (\<lambda>tr. pxe_get e tr nn)"

text \<open>The end of a step: \<^verbatim>\<open>if err := ...; err != nil { return ctrl.Result{}, err }; return ctrl.Result{}, nil\<close>\<close>

definition step_of :: "unit pio \<Rightarrow> reconcile_result pio" where
  "step_of m = bind_io (attempt m) (\<lambda>r. ret (res_empty, error_of r))"

definition px_reconcileDeployment :: "px_env \<Rightarrow> NamespacedName \<Rightarrow> reconcile_result pio" where
  "px_reconcileDeployment e nn =
     bind_io (attempt (getRuntimeShardingSphereProxy e nn)) (\<lambda>r. case r of
       Inl err \<Rightarrow> ret (res_empty, Some err)
     | Inr proxy \<Rightarrow>
         bind_io (attempt (call (PxGetDeployment nn) (\<lambda>tr. pxe_get_deployment e tr nn))) (\<lambda>r. case r of
           Inl err \<Rightarrow>
             if IsNotFound err then
               bind_io (lift_outcome (NewDeployment (pxe_lib e) proxy)) (\<lambda>ex.
               bind_io (attempt (px_write e (PxCreateDeployment ex))) (\<lambda>r. case r of
                 Inl err' \<Rightarrow> ret (res_empty, Some err')
               | Inr x \<Rightarrow> ret (res_empty, Some err)))
             else ret (res_empty, Some err)
         | Inr act \<Rightarrow>
             bind_io (lift_outcome (px_UpdateDeployment proxy act)) (\<lambda>ex.
             bind_io (attempt (px_write e (PxUpdateDeployment ex))) (\<lambda>r. case r of
               Inl err \<Rightarrow> ret (res_requeue, Some err)
             | Inr x \<Rightarrow> ret (res_empty, None)))))"

definition px_reconcileHPA :: "px_env \<Rightarrow> NamespacedName \<Rightarrow> reconcile_result pio" where
  "px_reconcileHPA e nn =
     bind_io (attempt (getRuntimeShardingSphereProxy e nn)) (\<lambda>r. case r of
       Inl err \<Rightarrow> ret (res_empty, Some err)
     | Inr proxy \<Rightarrow>
         bind_io (attempt (call (PxGetHPA nn) (\<lambda>tr. pxe_get_hpa e tr nn))) (\<lambda>r. case r of
           Inl err \<Rightarrow>
             if IsNotFound err then
               (if scaling_enabled proxy then
                  bind_io (lift_outcome (NewHPA (pxe_lib e) proxy)) (\<lambda>ex. step_of (px_write e (PxCreateHPA ex)))
                else ret (res_empty, None))
             else ret (res_empty, Some err)
         | Inr hpa \<Rightarrow>
             if \<not> scaling_enabled proxy then step_of (px_write e (PxDeleteHPA hpa))
             else bind_io (lift_outcome (UpdateHPA proxy hpa)) (\<lambda>ex. step_of (px_write e (PxUpdateHPA ex)))))"

definition px_reconcileService :: "px_env \<Rightarrow> NamespacedName \<Rightarrow> reconcile_result pio" where
  "px_reconcileService e nn =
     bind_io (attempt (getRuntimeShardingSphereProxy e nn)) (\<lambda>r. case r of
       Inl err \<Rightarrow> ret (res_empty, Some err)
     | Inr ssproxy \<Rightarrow>
         bind_io (attempt (call (PxGetService nn) (\<lambda>tr. pxe_get_service e tr nn))) (\<lambda>r. case r of
           Inl err \<Rightarrow>
             if IsNotFound err then
               bind_io (attempt (px_write e (PxCreateService (px_NewService (pxe_lib e) ssproxy)))) (\<lambda>r. case r of
                 Inl err' \<Rightarrow> ret (res_empty, Some err')
               | Inr x \<Rightarrow> ret (res_empty, Some err))
             else ret (res_empty, Some err)
         | Inr act \<Rightarrow>
             bind_io (lift_outcome (px_UpdateService ssproxy act)) (\<lambda>ex. step_of (px_write e (PxUpdateService ex)))))"

definition px_reconcilePodList :: "px_env \<Rightarrow> string \<Rightarrow> string \<Rightarrow> reconcile_result pio" where
  "px_reconcilePodList e namespace name =
     bind_io (attempt (call (PxListPods namespace (Some [''apps'' \<mapsto> name]))
                (\<lambda>tr. pxe_list_pods e tr namespace (Some [''apps'' \<mapsto> name])))) (\<lambda>r. case r of
       Inl err \<Rightarrow> ret (res_empty, Some err)
     | Inr podList \<Rightarrow>
         bind_io (attempt (getRuntimeShardingSphereProxy e (namespace, name))) (\<lambda>r. case r of
           Inl err \<Rightarrow> ret (res_empty, Some err)
         | Inr rt \<Rightarrow> (\<lambda>tr. step_of (px_write e (PxUpdateStatus
             (rt\<lparr>px_Status := ReconcileStatus (pxe_clock e tr) podList rt\<rparr>))) tr)))"

text \<open>\<^verbatim>\<open>if res, err := step(); err != nil { return res, err }\<close>, then the next step.\<close>

definition and_then :: "reconcile_result pio \<Rightarrow> reconcile_result pio \<Rightarrow> reconcile_result pio" where
  "and_then m n = bind_io m (\<lambda>(res, err). if err \<noteq> None then ret (res, err) else n)"

definition px_reconcile :: "px_env \<Rightarrow> NamespacedName \<Rightarrow> reconcile_result pio" where
  "px_reconcile e req =
     and_then (px_reconcileDeployment e req)
    (and_then (px_reconcileService e req)
    (and_then (px_reconcilePodList e (fst req) (snd req))
    (and_then (px_reconcileHPA e req)
      (ret (\<lparr>Requeue = False, RequeueAfter = WaitingForReady\<rparr>, None)))))"

definition px_Reconcile :: "px_env \<Rightarrow> NamespacedName \<Rightarrow> reconcile_result pio" where
  "px_Reconcile e req =
     bind_io (attempt (getRuntimeShardingSphereProxy e req)) (\<lambda>r. case r of
       Inl err \<Rightarrow> if IsNotFound err then ret (res_empty, None) else ret (res_empty, Some err)
     | Inr rt \<Rightarrow> px_reconcile e req)"

end
