(* ===== verification/Ssproxy_Updates.thy ===== *)
theory Ssproxy_Updates
  imports Ssproxy_Controller
begin

text \<open>
  Facts about bringing a deployment up to date: when it succeeds, what it changes, and that doing it
  twice changes nothing more.
\<close>

section \<open>The container of the proxy\<close>

lemma update_port_env_twice:
  "update_port_env proxy vs ports = Ok (vs', ports') \<Longrightarrow> update_port_env proxy vs' q = Ok (vs', q)"
  by (induction proxy vs ports arbitrary: vs' ports' rule: update_port_env.induct)
    (auto simp: obind_Ok_iff split: if_splits option.splits list.splits)

lemma update_port_env_total:
  "items ports \<noteq> [] \<Longrightarrow> \<exists>vs' p'. update_port_env proxy vs ports = Ok (vs', Some p') \<and> p' \<noteq> []"
proof (induction proxy vs ports rule: update_port_env.induct)
  case (1 proxy ports)
  then show ?case by (cases ports) auto
next
  case (2 proxy v vs ports)
  then obtain p ps where "ports = Some (p # ps)" by (cases ports) (auto simp: neq_Nil_conv)
  with 2 show ?case by fastforce
qed

lemma split_on_append: "sep \<notin> set a \<Longrightarrow> split_on sep (a @ sep # b) = a # split_on sep b"
  by (induction a) auto

lemma split_on_neq_Nil [simp]: "split_on sep s \<noteq> []"
  by (induction s) (auto split: list.splits)

lemma split_on_single: "sep \<notin> set s \<longleftrightarrow> (\<exists>w. split_on sep s = [w])"
proof (induction s)
  case (Cons c cs)
  then show ?case by (cases "split_on sep cs") auto
qed simp

lemma proxy_image_split:
  "split_on CHR '':'' (proxy_image proxy) = imageName # split_on CHR '':'' (prs_Version (px_Spec proxy))"
  using split_on_append [of "CHR '':''" imageName] by (simp add: proxy_image_def imageName_def)

text \<open>The probes the resource gives replace those of the container; the others stay.\<close>

definition probe_or :: "nat option \<Rightarrow> nat option \<Rightarrow> nat option" where
  "probe_or wanted present = (if wanted \<noteq> None then wanted else present)"

lemma probe_or_twice [simp]: "probe_or w (probe_or w p) = probe_or w p"
  by (simp add: probe_or_def)

lemma setProbes_eq:
  "con_LivenessProbe ex = con_LivenessProbe act \<Longrightarrow> con_ReadinessProbe ex = con_ReadinessProbe act \<Longrightarrow>
   con_StartupProbe ex = con_StartupProbe act \<Longrightarrow>
   setProbes spec act ex = ex\<lparr>con_LivenessProbe := probe_or (prs_LivenessProbe spec) (con_LivenessProbe act),
     con_ReadinessProbe := probe_or (prs_ReadinessProbe spec) (con_ReadinessProbe act),
     con_StartupProbe := probe_or (prs_StartupProbe spec) (con_StartupProbe act)\<rparr>"
  by (simp add: setProbes_def checkProbe_def probe_or_def Let_def)

definition tag_of :: "string \<Rightarrow> string" where
  "tag_of img = split_on CHR '':'' img ! 1"

definition updated_image :: "ShardingSphereProxy \<Rightarrow> string \<Rightarrow> string" where
  "updated_image proxy img = (if tag_of img \<noteq> prs_Version (px_Spec proxy) then proxy_image proxy else img)"

lemma updated_image_twice [simp]: "updated_image proxy (updated_image proxy img) = updated_image proxy img"
  by (simp add: updated_image_def)

lemma colon_in_updated_image: "CHR '':'' \<in> set img \<Longrightarrow> CHR '':'' \<in> set (updated_image proxy img)"
  by (simp add: updated_image_def proxy_image_def)

lemma updated_container_eq:
  "updated_container proxy c =
     (if CHR '':'' \<notin> set (con_Image c) then Panic ''index out of range''
      else obind (update_port_env proxy (items (con_Env c)) (con_Ports c)) (\<lambda>(vs, ports).
        Ok (c\<lparr>con_Image := updated_image proxy (con_Image c), con_Resources := prs_Resources (px_Spec proxy),
          con_LivenessProbe := probe_or (prs_LivenessProbe (px_Spec proxy)) (con_LivenessProbe c),
          con_ReadinessProbe := probe_or (prs_ReadinessProbe (px_Spec proxy)) (con_ReadinessProbe c),
          con_StartupProbe := probe_or (prs_StartupProbe (px_Spec proxy)) (con_StartupProbe c),
          con_Ports := ports, con_Env := map_option (\<lambda>_. vs) (con_Env c)\<rparr>)))"
proof (cases "split_on CHR '':'' (con_Image c)")
  case (Cons name tags)
  show ?thesis
  proof (cases tags)
    case Nil
    with Cons have "CHR '':'' \<notin> set (con_Image c)" by (subst split_on_single) blast
    with Cons Nil show ?thesis by (simp add: updated_container_def)
  next
    case (Cons tag rest)
    with \<open>split_on _ _ = name # tags\<close> have "\<not> (\<exists>w. split_on CHR '':'' (con_Image c) = [w])" by simp
    with Cons \<open>split_on _ _ = name # tags\<close> show ?thesis
      by (simp add: updated_container_def split_on_single updated_image_def tag_of_def setProbes_eq Let_def)
  qed
qed simp

lemma updated_container_twice:
  assumes "updated_container proxy c = Ok c'"
  shows "updated_container proxy c' = Ok c' \<and> con_Name c' = con_Name c"
proof -
  from assms obtain vs ports where port: "update_port_env proxy (items (con_Env c)) (con_Ports c) = Ok (vs, ports)"
    and colon: "CHR '':'' \<in> set (con_Image c)"
    by (auto simp: updated_container_eq obind_Ok_iff split: if_splits)
  have "update_port_env proxy (items (map_option (\<lambda>_. vs) (con_Env c))) ports = Ok (items (map_option (\<lambda>_. vs) (con_Env c)), ports)"
    using update_port_env_twice [OF port] by (cases "con_Env c") simp_all
  with assms port colon colon_in_updated_image [OF colon, of proxy] show ?thesis
    by (cases "con_Env c") (auto simp: updated_container_eq)
qed

section \<open>Replacing containers by name\<close>

lemma replace_named_Some:
  "replace_named n (Some c) xs = Ok (map (\<lambda>x. if con_Name x = n then c else x) xs)"
  by (induction xs) auto

lemma replace_named_None:
  "n \<notin> con_Name ` set xs \<Longrightarrow> replace_named n c xs = Ok xs"
  by (induction xs) auto

lemma proxy_loop:
  "updateSSProxyContainer_loop proxy cs ex = Ok r \<Longrightarrow>
     (if ''proxy'' \<in> con_Name ` set cs
      then \<exists>c. r = Some c \<and> con_Name c = ''proxy'' \<and> updated_container proxy c = Ok c
      else r = ex)"
proof (induction proxy cs ex rule: updateSSProxyContainer_loop.induct)
  case (2 proxy c cs ex)
  show ?case
  proof (cases "con_Name c = ''proxy''")
    case True
    with 2(3) obtain c' where c': "updated_container proxy c = Ok c'"
      "updateSSProxyContainer_loop proxy cs (Some c') = Ok r"
      by (auto simp: obind_Ok_iff)
    with updated_container_twice [OF c'(1)] 2(2) [of c'] True show ?thesis by (auto split: if_splits)
  next
    case False
    with 2(1,3) show ?thesis by auto
  qed
qed simp

lemma proxy_loop_fixed:
  assumes "con_Name c = ''proxy'' \<Longrightarrow> updated_container proxy c = Ok c"
    and "\<forall>x \<in> set xs. con_Name x = ''proxy'' \<longrightarrow> x = c"
  shows "updateSSProxyContainer_loop proxy xs ex = Ok (if ''proxy'' \<in> con_Name ` set xs then Some c else ex)"
  using assms by (induction xs arbitrary: ex) auto

lemma updateEnv_twice [simp]: "updateEnv v (updateEnv v vs) = updateEnv v vs"
  by (simp add: updateEnv_def)

definition with_version :: "string \<Rightarrow> Container \<Rightarrow> Container" where
  "with_version v c = c\<lparr>con_Env := map_option (updateEnv v) (con_Env c)\<rparr>"

lemma with_version_simps [simp]:
  "with_version v (with_version v c) = with_version v c" "con_Name (with_version v c) = con_Name c"
  by (cases "con_Env c", simp_all add: with_version_def)+

lemma init_loop:
  "updateInitContainer_loop v cs ex =
     (if downloadMySQLConnectorJarContainerName \<in> con_Name ` set cs
      then Some (with_version v (last (filter (\<lambda>c. con_Name c = downloadMySQLConnectorJarContainerName) cs)))
      else ex)"
  by (induction v cs ex rule: updateInitContainer_loop.induct) (auto simp: with_version_def filter_empty_conv image_iff)

section \<open>The deployment\<close>

text \<open>
  What \<^verbatim>\<open>UpdateDeployment\<close> needs so that it does not panic: replicas unless scaling is automatic, a tag
  in the image and a port of every container called \<^verbatim>\<open>proxy\<close>, and a config map as the first volume.
\<close>

definition updatable_container :: "Container \<Rightarrow> bool" where
  "updatable_container c \<longleftrightarrow> con_Name c = ''proxy'' \<longrightarrow> CHR '':'' \<in> set (con_Image c) \<and> items (con_Ports c) \<noteq> []"

definition updatable_pod :: "PodSpec \<Rightarrow> bool" where
  "updatable_pod s \<longleftrightarrow> list_all updatable_container (items (ps_Containers s)) \<and>
     (case items (ps_Volumes s) of [] \<Rightarrow> False | v # vs \<Rightarrow> vol_ConfigMap v \<noteq> None)"

lemma updated_container_total:
  assumes "updatable_container c" and "con_Name c = ''proxy''"
  shows "\<exists>c'. updated_container proxy c = Ok c' \<and> updatable_container c'"
proof -
  from assms have img: "CHR '':'' \<in> set (con_Image c)" and ports: "items (con_Ports c) \<noteq> []"
    by (simp_all add: updatable_container_def)
  from update_port_env_total [OF ports] obtain vs p
    where "update_port_env proxy (items (con_Env c)) (con_Ports c) = Ok (vs, Some p)" "p \<noteq> []"
    by blast
  with img colon_in_updated_image [OF img] show ?thesis
    by (simp add: updated_container_eq updatable_container_def)
qed

lemma proxy_loop_total:
  "list_all updatable_container cs \<Longrightarrow> (\<And>c. ex = Some c \<Longrightarrow> updatable_container c) \<Longrightarrow>
     \<exists>r. updateSSProxyContainer_loop proxy cs ex = Ok r \<and> (\<forall>c. r = Some c \<longrightarrow> updatable_container c)"
proof (induction proxy cs ex rule: updateSSProxyContainer_loop.induct)
  case (2 proxy c cs ex)
  show ?case
  proof (cases "con_Name c = ''proxy''")
    case True
    with 2(3) updated_container_total [of c proxy] obtain c' where c': "updated_container proxy c = Ok c'" "updatable_container c'"
      by auto
    with 2(2) [of c'] 2(3) True show ?thesis by simp
  next
    case False
    with 2(1,3,4) show ?thesis by simp
  qed
qed simp

definition containers_after :: "string \<Rightarrow> Container option \<Rightarrow> Container goslice \<Rightarrow> Container goslice" where
  "containers_after n c s = map_option (map (\<lambda>x. if con_Name x = n then the c else x)) s"

lemma replace_in_slice_eq:
  "(n \<in> con_Name ` set (items s) \<Longrightarrow> c \<noteq> None) \<Longrightarrow> replace_in_slice n c s = Ok (containers_after n c s)"
proof (cases s)
  case (Some xs)
  assume c: "n \<in> con_Name ` set (items s) \<Longrightarrow> c \<noteq> None"
  show ?thesis
  proof (cases "n \<in> con_Name ` set xs")
    case True
    with c Some show ?thesis by (auto simp: replace_in_slice_def containers_after_def replace_named_Some)
  next
    case False
    then have "map (\<lambda>x. if con_Name x = n then the c else x) xs = xs" by (intro map_idI) auto
    with False Some show ?thesis by (simp add: replace_in_slice_def containers_after_def replace_named_None)
  qed
qed (simp add: replace_in_slice_def containers_after_def)

lemma names_containers_after:
  assumes "\<And>c'. c = Some c' \<Longrightarrow> con_Name c' = n" and "n \<in> con_Name ` set (items s) \<Longrightarrow> c \<noteq> None"
  shows "map con_Name (items (containers_after n c s)) = map con_Name (items s)"
proof (cases s)
  case (Some xs)
  have "con_Name (if con_Name x = n then the c else x) = con_Name x" if "x \<in> set xs" for x
    using assms that Some by (cases c) (auto simp: image_iff)
  with Some show ?thesis by (simp add: containers_after_def)
qed (simp add: containers_after_def)

lemma containers_after_twice:
  "(\<And>c'. c = Some c' \<Longrightarrow> con_Name c' = n) \<Longrightarrow> (n \<in> con_Name ` set (items s) \<Longrightarrow> c \<noteq> None) \<Longrightarrow>
     containers_after n c (containers_after n c s) = containers_after n c s"
  by (cases s) (auto simp: containers_after_def)

definition with_config_name :: "string \<Rightarrow> Volume goslice \<Rightarrow> Volume goslice" where
  "with_config_name n vols =
     (case items vols of [] \<Rightarrow> vols
      | v # vs \<Rightarrow> Some (v\<lparr>vol_ConfigMap := map_option (\<lambda>c. c\<lparr>cmv_Name := n\<rparr>) (vol_ConfigMap v)\<rparr> # vs))"

definition wanted_init :: "ShardingSphereProxy \<Rightarrow> Container goslice \<Rightarrow> Container goslice" where
  "wanted_init proxy s =
     (case prs_MySQLDriver (px_Spec proxy) of None \<Rightarrow> s
      | Some mysql \<Rightarrow> containers_after downloadMySQLConnectorJarContainerName
          (updateInitContainer_loop (drv_Version mysql) (items s) None) s)"

text \<open>The template in one equation.\<close>

lemma updatePodTemplateSpec_eq:
  "updatePodTemplateSpec proxy act = Ok tpl \<longleftrightarrow>
     (\<exists>c. updateSSProxyContainer_loop proxy (items (ps_Containers (pod_of act))) None = Ok c
        \<and> (\<exists>v vs. items (ps_Volumes (pod_of act)) = v # vs \<and> vol_ConfigMap v \<noteq> None)
        \<and> tpl = (ds_Template (dep_Spec act))\<lparr>pt_Spec := (pod_of act)\<lparr>
            ps_Containers := containers_after ''proxy'' c (ps_Containers (pod_of act)),
            ps_InitContainers := wanted_init proxy (ps_InitContainers (pod_of act)),
            ps_Volumes := with_config_name (prs_ProxyConfigName (px_Spec proxy)) (ps_Volumes (pod_of act))\<rparr>\<rparr>)"
proof -
  have containers: "replace_in_slice ''proxy'' c (ps_Containers (pod_of act))
      = Ok (containers_after ''proxy'' c (ps_Containers (pod_of act)))"
    if "updateSSProxyContainer_loop proxy (items (ps_Containers (pod_of act))) None = Ok c" for c
    using proxy_loop [OF that] by (intro replace_in_slice_eq) auto
  have inits: "(case prs_MySQLDriver (px_Spec proxy) of None \<Rightarrow> Ok (ps_InitContainers (pod_of act))
      | Some mysql \<Rightarrow> replace_in_slice downloadMySQLConnectorJarContainerName (updateInitContainer mysql act)
          (ps_InitContainers (pod_of act))) = Ok (wanted_init proxy (ps_InitContainers (pod_of act)))"
    by (auto simp: wanted_init_def updateInitContainer_def init_loop intro!: replace_in_slice_eq split: option.split)
  have config: "obind (updateConfigName proxy act) (\<lambda>n. obind (set_config_name n ((pod_of act)\<lparr>ps_Containers := cs, ps_InitContainers := ics\<rparr>)) f) = Ok t
      \<longleftrightarrow> (\<exists>v vs. items (ps_Volumes (pod_of act)) = v # vs \<and> vol_ConfigMap v \<noteq> None)
        \<and> f ((pod_of act)\<lparr>ps_Containers := cs, ps_InitContainers := ics,
              ps_Volumes := with_config_name (prs_ProxyConfigName (px_Spec proxy)) (ps_Volumes (pod_of act))\<rparr>) = Ok t" for cs ics f t
    by (auto simp: updateConfigName_def first_config_map_def set_config_name_def with_config_name_def split: list.splits option.splits)
  show ?thesis
    unfolding updatePodTemplateSpec_def Let_def updateSSProxyContainer_def inits obind_simps
    by (auto simp: obind_Ok_iff [of "updateSSProxyContainer_loop _ _ _"] containers config)
qed

lemma with_config_name_twice [simp]: "with_config_name n (with_config_name n vols) = with_config_name n vols"
  by (cases "items vols") (simp_all add: with_config_name_def option.map_comp o_def)

lemma with_config_name_head:
  "(\<exists>v vs. items vols = v # vs \<and> vol_ConfigMap v \<noteq> None) \<Longrightarrow>
     \<exists>v vs. items (with_config_name n vols) = v # vs \<and> vol_ConfigMap v \<noteq> None"
  by (auto simp: with_config_name_def)

lemma init_loop_result:
  "updateInitContainer_loop v cs ex = Some c \<Longrightarrow>
     (\<And>d. ex = Some d \<Longrightarrow> con_Name d = downloadMySQLConnectorJarContainerName \<and> with_version v d = d) \<Longrightarrow>
     con_Name c = downloadMySQLConnectorJarContainerName \<and> with_version v c = c"
proof (induction cs arbitrary: ex)
  case (Cons x cs)
  have "updateInitContainer_loop v cs (if con_Name x = downloadMySQLConnectorJarContainerName then Some (with_version v x) else ex) = Some c"
    using Cons.prems(1) by (simp add: with_version_def split: if_splits)
  then show ?case by (rule Cons.IH) (auto simp: Cons.prems(2) split: if_splits)
qed simp

lemma wanted_init_twice [simp]: "wanted_init proxy (wanted_init proxy s) = wanted_init proxy s"
proof (cases "prs_MySQLDriver (px_Spec proxy)")
  case (Some mysql)
  let ?n = downloadMySQLConnectorJarContainerName
  let ?c = "updateInitContainer_loop (drv_Version mysql) (items s) None"
  let ?s = "containers_after ?n ?c s"
  have named: "con_Name c = ?n" "with_version (drv_Version mysql) c = c" if "?c = Some c" for c
    using init_loop_result [OF that] by simp_all
  have found: "?n \<in> con_Name ` set (items s) \<Longrightarrow> ?c \<noteq> None" by (auto simp: init_loop)
  have same: "con_Name ` set (items ?s) = con_Name ` set (items s)"
    using names_containers_after [OF named(1) found] by (metis image_set)
  have "updateInitContainer_loop (drv_Version mysql) (items ?s) None = ?c"
  proof (cases "?n \<in> con_Name ` set (items s)")
    case True
    with found obtain c where c: "?c = Some c" by blast
    have "x = c" if "x \<in> set (items ?s)" "con_Name x = ?n" for x
      using that c by (cases s) (auto simp: containers_after_def split: if_splits)
    moreover from True same have "?n \<in> con_Name ` set (items ?s)" by metis
    then have "filter (\<lambda>c. con_Name c = ?n) (items ?s) \<noteq> []" by (metis (mono_tags, lifting) filter_empty_conv image_iff)
    then have "last (filter (\<lambda>c. con_Name c = ?n) (items ?s)) \<in> set (filter (\<lambda>c. con_Name c = ?n) (items ?s))"
      by (rule last_in_set)
    ultimately have "last (filter (\<lambda>c. con_Name c = ?n) (items ?s)) = c" by simp
    with True same c named(2) show ?thesis by (subst init_loop) simp
  next
    case False
    with same show ?thesis by (simp add: init_loop)
  qed
  with Some containers_after_twice [OF named(1) found] show ?thesis by (simp add: wanted_init_def)
qed (simp add: wanted_init_def)

lemma proxy_loop_twice:
  assumes "updateSSProxyContainer_loop proxy (items s) None = Ok c"
  shows "updateSSProxyContainer_loop proxy (items (containers_after ''proxy'' c s)) None = Ok c
    \<and> containers_after ''proxy'' c (containers_after ''proxy'' c s) = containers_after ''proxy'' c s"
proof (cases "''proxy'' \<in> con_Name ` set (items s)")
  case True
  with proxy_loop [OF assms] obtain d where d: "c = Some d" "con_Name d = ''proxy''" "updated_container proxy d = Ok d"
    by auto
  have "con_Name ` set (items (containers_after ''proxy'' c s)) = con_Name ` set (items s)"
    using names_containers_after [of c "''proxy''" s] d by (metis image_set option.distinct(1) option.inject)
  moreover have "\<forall>x \<in> set (items (containers_after ''proxy'' c s)). con_Name x = ''proxy'' \<longrightarrow> x = d"
    using d by (cases s) (auto simp: containers_after_def split: if_splits)
  ultimately show ?thesis
    using proxy_loop_fixed [OF d(3), of "items (containers_after ''proxy'' c s)" None] True d containers_after_twice [of c "''proxy''" s]
    by auto
next
  case False
  with proxy_loop [OF assms] have "c = None" by simp
  moreover have "containers_after ''proxy'' c s = s"
    using False by (cases s) (auto simp: containers_after_def image_iff intro!: map_idI)
  ultimately show ?thesis using assms by simp
qed

end
