(* ===== verification/Ssproxy_Properties.thy ===== *)
theory Ssproxy_Properties
  imports Ssproxy_Updates
begin

text \<open>
  Properties of the proxy controller: updating a deployment is idempotent and never adds the
  download of a driver, and the status never becomes ready for the pods of the deployment the operator
  makes.
\<close>

section \<open>Specification\<close>

text \<open>A deployment that was made for one proxy and then updated for a sequence of others.\<close>

inductive made_for :: "lib \<Rightarrow> ShardingSphereProxy \<Rightarrow> Deployment \<Rightarrow> bool" for l where
  created: "NewDeployment l p = Ok d \<Longrightarrow> made_for l p d"
| updated: "made_for l p d \<Longrightarrow> px_UpdateDeployment p' d = Ok d' \<Longrightarrow> made_for l p d'"

section \<open>An example\<close>

definition example_proxy :: ShardingSphereProxy where
  "example_proxy = zero_ShardingSphereProxy\<lparr>px_gvk := \<lparr>gvk_Group = ''shardingsphere.apache.org'',
       gvk_Version = ''v1alpha1'', gvk_Kind = ''ShardingSphereProxy''\<rparr>,
     px_meta := zero_meta\<lparr>meta_Name := ''px'', meta_Namespace := ''ns''\<rparr>,
     px_Spec := \<lparr>prs_Version = ''5.4.1'', prs_ServiceType = \<lparr>pst_Type = ServiceTypeClusterIP, pst_NodePort = 0\<rparr>,
       prs_Replicas = 2, prs_AutomaticScaling = None, prs_ImagePullSecrets = None, prs_ProxyConfigName = ''cfg'',
       prs_Port = 3307, prs_MySQLDriver = None, prs_Resources = 0, prs_LivenessProbe = None,
       prs_ReadinessProbe = None, prs_StartupProbe = None\<rparr>\<rparr>"

text \<open>The same with a driver.\<close>

definition example_driver_proxy :: ShardingSphereProxy where
  "example_driver_proxy = example_proxy\<lparr>px_Spec := (px_Spec example_proxy)\<lparr>
     prs_MySQLDriver := Some \<lparr>drv_Version = ''5.1.47''\<rparr>\<rparr>\<rparr>"

text \<open>A ready pod of that deployment.\<close>

definition example_proxy_pod :: ProxyPod where
  "example_proxy_pod = \<lparr>pod_Phase = PodRunning, pod_Conditions = [\<lparr>pc_Type = PodReady, pc_Status = ConditionTrue\<rparr>],
     pod_ContainerStatuses = [\<lparr>cs_Name = ''proxy'', cs_Ready = True\<rparr>], pod_DeletionTimestamp = None\<rparr>"

section \<open>Updates\<close>

lemma px_UpdateDeployment_Ok:
  "px_UpdateDeployment proxy act = Ok d \<longleftrightarrow>
     (scaling_enabled proxy \<or> ds_Replicas (dep_Spec act) \<noteq> None) \<and>
     (\<exists>tpl. updatePodTemplateSpec proxy act = Ok tpl \<and>
       d = act\<lparr>dep_Spec := (dep_Spec act)\<lparr>ds_StrategyType := ''RollingUpdate'',
             ds_MaxSurge := Some (maxSurge proxy), ds_MaxUnavailable := Some (maxUnavailable proxy),
             ds_Replicas := (if scaling_enabled proxy then ds_Replicas (dep_Spec act) else Some (prs_Replicas (px_Spec proxy))),
             ds_Template := tpl\<rparr>\<rparr>)"
  by (auto simp: px_UpdateDeployment_def updateReplicas_def obind_Ok_iff split: option.splits if_splits)

lemma template_twice:
  assumes "updatePodTemplateSpec proxy act = Ok tpl" and "ds_Template (dep_Spec d) = tpl"
  shows "updatePodTemplateSpec proxy d = Ok tpl"
  using assms proxy_loop_twice with_config_name_head
  by (force simp: updatePodTemplateSpec_eq)

text \<open>
  C22. Bringing a deployment up to date twice for the same proxy changes no more than doing it once,
  whatever deployment it starts from.
\<close>

theorem update_deployment_idempotent:
  "px_UpdateDeployment proxy act = Ok d \<Longrightarrow> px_UpdateDeployment proxy d = Ok d"
  using template_twice [of proxy act _ d] by (auto simp: px_UpdateDeployment_Ok)

lemma updatable_pod_after:
  assumes "updatable_pod s" and "c = None \<or> updatable_container (the c)" and "c = None \<Longrightarrow> \<forall>x \<in> set (items (ps_Containers s)). con_Name x \<noteq> ''proxy''"
  shows "updatable_pod (s\<lparr>ps_Containers := containers_after ''proxy'' c (ps_Containers s),
    ps_InitContainers := ics, ps_Volumes := with_config_name n (ps_Volumes s)\<rparr>)"
proof -
  have "list_all updatable_container (items (containers_after ''proxy'' c (ps_Containers s)))"
    using assms by (cases "ps_Containers s") (auto simp: updatable_pod_def containers_after_def list_all_iff)
  with assms(1) show ?thesis
    by (auto simp: updatable_pod_def with_config_name_def split: list.splits)
qed

lemma update_total:
  assumes "updatable_pod (pod_of act)" and "ds_Replicas (dep_Spec act) \<noteq> None"
  shows "\<exists>d. px_UpdateDeployment proxy act = Ok d \<and> updatable_pod (pod_of d)"
proof -
  from assms(1) have "list_all updatable_container (items (ps_Containers (pod_of act)))" by (simp add: updatable_pod_def)
  then obtain c where c: "updateSSProxyContainer_loop proxy (items (ps_Containers (pod_of act))) None = Ok c"
    "\<forall>c'. c = Some c' \<longrightarrow> updatable_container c'"
    using proxy_loop_total [of _ None proxy] by blast
  from assms(1) have "\<exists>v vs. items (ps_Volumes (pod_of act)) = v # vs \<and> vol_ConfigMap v \<noteq> None"
    by (auto simp: updatable_pod_def split: list.splits)
  with c(1) obtain tpl where tpl: "updatePodTemplateSpec proxy act = Ok tpl"
    by (auto simp: updatePodTemplateSpec_eq)
  moreover have "\<forall>x \<in> set (items (ps_Containers (pod_of act))). con_Name x \<noteq> ''proxy''" if "c = None"
    using proxy_loop [OF c(1)] that by (auto simp: image_iff split: if_splits)
  then have "updatable_pod (pt_Spec tpl)"
    using tpl c updatable_pod_after [OF assms(1), of c] by (cases c) (auto simp: updatePodTemplateSpec_eq)
  ultimately show ?thesis using assms(2) by (simp add: px_UpdateDeployment_Ok)
qed

lemma NewDeployment_eq:
  assumes "px_Name p \<noteq> []"
  shows "\<exists>d. NewDeployment l p = Ok d \<and> updatable_pod (pod_of d)
    \<and> con_Name ` set (items (ps_Containers (pod_of d))) = {''proxy''}
    \<and> (prs_MySQLDriver (px_Spec p) = None \<longrightarrow> items (ps_InitContainers (pod_of d)) = [])
    \<and> (prs_AutomaticScaling (px_Spec p) = None \<longrightarrow> ds_Replicas (dep_Spec d) \<noteq> None)"
proof -
  have "p \<noteq> zero_ShardingSphereProxy"
    using assms by (auto simp: zero_ShardingSphereProxy_def zero_meta_def)
  then show ?thesis
    by (cases "prs_MySQLDriver (px_Spec p)")
      (auto simp: NewDeployment_def ConstructCascadingDeployment_def processOptionalParameter_def addInitContainer_def
        on_template_def zero_PodSpec_def updatable_pod_def updatable_container_def proxy_container_def proxy_image_def
        proxy_config_volume_def slice_append_def Let_def)
qed

lemma NewDeployment_zero: "NewDeployment l zero_ShardingSphereProxy = Ok zero_Deployment"
  by (simp add: NewDeployment_def ConstructCascadingDeployment_def)

lemma example_deployment:
  "\<exists>d d'. NewDeployment l example_proxy = Ok d \<and> px_UpdateDeployment example_driver_proxy d = Ok d'"
proof -
  obtain d where "NewDeployment l example_proxy = Ok d" "updatable_pod (pod_of d)" "ds_Replicas (dep_Spec d) \<noteq> None"
    using NewDeployment_eq [of example_proxy l] by (auto simp: example_proxy_def)
  with update_total [of d example_driver_proxy] show ?thesis by blast
qed

theorem update_deployment_idempotent_witness:
  "\<forall>l. \<exists>d d'. NewDeployment l example_proxy = Ok d \<and> px_UpdateDeployment example_driver_proxy d = Ok d'
     \<and> px_UpdateDeployment example_driver_proxy d' = Ok d'"
  using example_deployment update_deployment_idempotent by blast

section \<open>What updates keep\<close>

lemma update_keeps_init:
  assumes "px_UpdateDeployment p d = Ok d'" and "items (ps_InitContainers (pod_of d)) = []"
  shows "items (ps_InitContainers (pod_of d')) = []"
  using assms
  by (cases "ps_InitContainers (pod_of d)")
    (auto simp: px_UpdateDeployment_Ok updatePodTemplateSpec_eq wanted_init_def containers_after_def split: option.splits)

lemma update_keeps_names:
  assumes "px_UpdateDeployment p d = Ok d'"
  shows "map con_Name (items (ps_Containers (pod_of d'))) = map con_Name (items (ps_Containers (pod_of d)))"
proof -
  from assms obtain c where c: "updateSSProxyContainer_loop p (items (ps_Containers (pod_of d))) None = Ok c"
    and d': "ps_Containers (pod_of d') = containers_after ''proxy'' c (ps_Containers (pod_of d))"
    by (auto simp: px_UpdateDeployment_Ok updatePodTemplateSpec_eq)
  from proxy_loop [OF c] show ?thesis
    unfolding d' by (intro names_containers_after) (auto split: if_splits)
qed

lemma made_for_names: "made_for l p d \<Longrightarrow> con_Name ` set (items (ps_Containers (pod_of d))) \<subseteq> {''proxy''}"
proof (induction rule: made_for.induct)
  case (created p d)
  show ?case
  proof (cases "p = zero_ShardingSphereProxy")
    case True
    with created show ?thesis by (auto simp: NewDeployment_zero zero_Deployment_def zero_PodSpec_def)
  next
    case False
    with created show ?thesis
      by (auto simp: NewDeployment_def ConstructCascadingDeployment_def processOptionalParameter_def addInitContainer_def
        on_template_def zero_PodSpec_def proxy_container_def split: option.splits)
  qed
next
  case (updated p d p' d')
  then show ?case using update_keeps_names [of p' d d'] by (metis image_set)
qed

lemma made_without_driver:
  "made_for l p d \<Longrightarrow> prs_MySQLDriver (px_Spec p) = None \<Longrightarrow> items (ps_InitContainers (pod_of d)) = []"
proof (induction rule: made_for.induct)
  case (created p d)
  then show ?case
    by (auto simp: NewDeployment_def ConstructCascadingDeployment_def processOptionalParameter_def zero_Deployment_def
        zero_PodSpec_def split: if_splits)
next
  case (updated p d p' d')
  then show ?case by (auto intro: update_keeps_init)
qed

text \<open>
  C24. A driver that is asked for after the deployment was made is never downloaded: whatever proxies the
  deployment is updated for, it has no init container, while a new deployment for the same proxy has one.
\<close>

theorem late_driver_never_downloaded:
  assumes "made_for l p d" and "prs_MySQLDriver (px_Spec p) = None"
    and "px_UpdateDeployment p' d = Ok d'" and "prs_MySQLDriver (px_Spec p') = Some drv" and "px_Name p' \<noteq> []"
  shows "items (ps_InitContainers (pod_of d')) = []
    \<and> (\<exists>n. NewDeployment l p' = Ok n \<and> ps_InitContainers (pod_of n) = Some [driver_container drv])"
proof
  from assms(1,3) have "made_for l p d'" by (rule made_for.updated)
  with assms(2) show "items (ps_InitContainers (pod_of d')) = []" by (rule made_without_driver [rotated])
  have "p' \<noteq> zero_ShardingSphereProxy" using assms(5) by (auto simp: zero_ShardingSphereProxy_def zero_meta_def)
  with assms(4) show "\<exists>n. NewDeployment l p' = Ok n \<and> ps_InitContainers (pod_of n) = Some [driver_container drv]"
    by (simp add: NewDeployment_def ConstructCascadingDeployment_def processOptionalParameter_def addInitContainer_def
        on_template_def zero_PodSpec_def)
qed

theorem late_driver_never_downloaded_witness:
  "\<forall>l. \<exists>d d'. NewDeployment l example_proxy = Ok d \<and> px_UpdateDeployment example_driver_proxy d = Ok d'
     \<and> items (ps_InitContainers (pod_of d')) = []"
proof
  fix l
  obtain d d' where d: "NewDeployment l example_proxy = Ok d" "px_UpdateDeployment example_driver_proxy d = Ok d'"
    using example_deployment by blast
  have "items (ps_InitContainers (pod_of d')) = []"
    using late_driver_never_downloaded [OF made_for.created [OF d(1)] _ d(2)]
    by (simp add: example_proxy_def example_driver_proxy_def)
  with d show "\<exists>d d'. NewDeployment l example_proxy = Ok d \<and> px_UpdateDeployment example_driver_proxy d = Ok d'
     \<and> items (ps_InitContainers (pod_of d')) = []" by blast
qed

section \<open>The status\<close>

lemma no_proxy_counted:
  assumes "\<forall>pod \<in> set pods. ''shardingsphere-proxy'' \<notin> cs_Name ` set (pod_ContainerStatuses pod)"
  shows "getReadyNodes pods = 0"
proof -
  have "foldl (\<lambda>cnt cs. if cs_Name cs = ''shardingsphere-proxy'' \<and> cs_Ready cs then cnt + 1 else cnt) n css = n"
    if "''shardingsphere-proxy'' \<notin> cs_Name ` set css" for n :: i32 and css :: "ContainerStatus list"
    using that by (induction css arbitrary: n) auto
  then have pod: "px_findRunningPod n pod = n" if "pod \<in> set pods" for n pod
    using assms that by (simp add: px_findRunningPod_def)
  have "foldl px_findRunningPod n ps = n" if "set ps \<subseteq> set pods" for n ps
    using that by (induction ps arbitrary: n) (auto simp: pod)
  then show ?thesis by (simp add: getReadyNodes_def)
qed

lemma reset_ready_false:
  "c \<in> set (reset_ready clock k cs) \<Longrightarrow> prc_Type c = ProxyConditionReady \<Longrightarrow> prc_Status c = ''False''"
  by (induction clock k cs rule: reset_ready.induct) (auto split: if_splits)

text \<open>
  C23. Whatever the pods of a deployment that the operator made and updated do, the proxy is reported not
  ready, with no ready node and no true condition \<^verbatim>\<open>Ready\<close>: the ready nodes are counted by containers
  called \<^verbatim>\<open>shardingsphere-proxy\<close>, and the deployment calls its container \<^verbatim>\<open>proxy\<close>.
\<close>

theorem proxy_never_ready:
  assumes "made_for l p d"
    and "\<forall>pod \<in> set pods. cs_Name ` set (pod_ContainerStatuses pod) \<subseteq> con_Name ` set (items (ps_Containers (pod_of d)))"
  shows "let st = ReconcileStatus clock pods rt in
    prst_ReadyNodes st = 0 \<and> prst_Phase st = StatusNotReady
    \<and> (\<forall>c \<in> set (items (prst_Conditions st)). prc_Type c = ProxyConditionReady \<longrightarrow> prc_Status c = ''False'')"
proof -
  have "cs_Name ` set (pod_ContainerStatuses pod) \<subseteq> {''proxy''}" if "pod \<in> set pods" for pod
    using assms(2) that made_for_names [OF assms(1)] by (meson order.trans)
  moreover have "''shardingsphere-proxy'' \<notin> A" if "A \<subseteq> {''proxy''}" for A
    using subsetD [OF that, of "''shardingsphere-proxy''"] by auto
  ultimately have "\<forall>pod \<in> set pods. ''shardingsphere-proxy'' \<notin> cs_Name ` set (pod_ContainerStatuses pod)"
    by blast
  then have "getReadyNodes pods = 0" by (rule no_proxy_counted)
  then show ?thesis
    by (simp add: ReconcileStatus_def Let_def updateNotReadyConditions_def reset_ready_false)
qed

theorem proxy_never_ready_witness:
  "\<forall>l clock. prst_Phase (ReconcileStatus clock [example_proxy_pod] example_proxy) = StatusNotReady"
proof (intro allI)
  fix l :: lib and clock
  obtain d where d: "NewDeployment l example_proxy = Ok d"
    "con_Name ` set (items (ps_Containers (pod_of d))) = {''proxy''}"
    using NewDeployment_eq [of example_proxy l] by (auto simp: example_proxy_def)
  show "prst_Phase (ReconcileStatus clock [example_proxy_pod] example_proxy) = StatusNotReady"
    using proxy_never_ready [OF made_for.created [OF d(1)], of "[example_proxy_pod]" clock example_proxy] d(2)
    by (simp add: example_proxy_pod_def Let_def)
qed

end
