(* ===== verification/Ssproxy_Passes.thy ===== *)
theory Ssproxy_Passes
  imports Ssproxy_Properties
begin

text \<open>
  The proxy controller over many passes, on an API server that keeps what it is sent: from nothing
  the objects of a proxy are there after three passes, of which the first two end with an error, and
  every later pass succeeds.
\<close>

section \<open>Specification\<close>

text \<open>
  An API server that keeps what it is sent, filled up by its own defaults: \<open>df\<close> for deployments and
  \<open>sf\<close> for services. The defaults give a deployment its replicas, leave names and images of its
  containers alone, and add or remove no container, port or volume.
\<close>

definition keeps_pod :: "PodSpec \<Rightarrow> PodSpec \<Rightarrow> bool" where
  "keeps_pod s s' \<longleftrightarrow>
     list_all2 (\<lambda>c c'. con_Name c' = con_Name c \<and> con_Image c' = con_Image c
         \<and> length (items (con_Ports c')) = length (items (con_Ports c)))
       (items (ps_Containers s)) (items (ps_Containers s')) \<and>
     list_all2 (\<lambda>v v'. vol_ConfigMap v' = None \<longleftrightarrow> vol_ConfigMap v = None) (items (ps_Volumes s)) (items (ps_Volumes s'))"

definition server_defaults :: "(Deployment \<Rightarrow> Deployment) \<Rightarrow> (KubeService \<Rightarrow> KubeService) \<Rightarrow> bool" where
  "server_defaults df sf \<longleftrightarrow>
     (\<forall>d. ds_Replicas (dep_Spec (df d)) \<noteq> None \<and> keeps_pod (pod_of d) (pod_of (df d))) \<and>
     (\<forall>s. length (items (svs_Ports (ksvc_Spec (sf s)))) = length (items (svs_Ports (ksvc_Spec s))))"

record px_store =
  sto_proxy :: ShardingSphereProxy
  sto_deployment :: "Deployment option"
  sto_service :: "KubeService option"
  sto_hpa :: "HorizontalPodAutoscaler option"

fun px_apply :: "(Deployment \<Rightarrow> Deployment) \<Rightarrow> (KubeService \<Rightarrow> KubeService) \<Rightarrow> px_call \<Rightarrow> px_store \<Rightarrow> px_store" where
  "px_apply df sf (PxUpdateStatus p) s = s\<lparr>sto_proxy := (sto_proxy s)\<lparr>px_Status := px_Status p\<rparr>\<rparr>"
| "px_apply df sf (PxCreateDeployment d) s = s\<lparr>sto_deployment := Some (df d)\<rparr>"
| "px_apply df sf (PxUpdateDeployment d) s = s\<lparr>sto_deployment := Some (df d)\<rparr>"
| "px_apply df sf (PxCreateService v) s = s\<lparr>sto_service := Some (sf v)\<rparr>"
| "px_apply df sf (PxUpdateService v) s = s\<lparr>sto_service := Some (sf v)\<rparr>"
| "px_apply df sf (PxCreateHPA a) s = s\<lparr>sto_hpa := Some a\<rparr>"
| "px_apply df sf (PxUpdateHPA a) s = s\<lparr>sto_hpa := Some a\<rparr>"
| "px_apply df sf (PxDeleteHPA a) s = s\<lparr>sto_hpa := None\<rparr>"
| "px_apply df sf _ s = s"

definition missing :: gerror where
  "missing = ApiError NotFound ''not found''"

definition found :: "'a option \<Rightarrow> gerror + 'a" where
  "found x = (case x of None \<Rightarrow> Inl missing | Some y \<Rightarrow> Inr y)"

definition px_stored ::
  "px_env \<Rightarrow> NamespacedName \<Rightarrow> (Deployment \<Rightarrow> Deployment) \<Rightarrow> (KubeService \<Rightarrow> KubeService) \<Rightarrow> px_store \<Rightarrow> bool" where
  "px_stored e req df sf s0 \<longleftrightarrow>
     (\<forall>h. pxe_get e h req = Inr (sto_proxy (fold (px_apply df sf) h s0))) \<and>
     (\<forall>h. pxe_get_deployment e h req = found (sto_deployment (fold (px_apply df sf) h s0))) \<and>
     (\<forall>h. pxe_get_service e h req = found (sto_service (fold (px_apply df sf) h s0))) \<and>
     (\<forall>h. pxe_get_hpa e h req = found (sto_hpa (fold (px_apply df sf) h s0))) \<and>
     (\<forall>h ns l. \<exists>pods. pxe_list_pods e h ns l = Inr pods) \<and>
     (\<forall>h c. pxe_write e h c = Inr ())"

text \<open>The history after \<open>n\<close> passes.\<close>

fun px_passes :: "px_env \<Rightarrow> NamespacedName \<Rightarrow> nat \<Rightarrow> px_call list" where
  "px_passes e req 0 = []"
| "px_passes e req (Suc n) = snd (px_Reconcile e req (px_passes e req n))"

abbreviation state_after ::
  "px_env \<Rightarrow> NamespacedName \<Rightarrow> (Deployment \<Rightarrow> Deployment) \<Rightarrow> (KubeService \<Rightarrow> KubeService) \<Rightarrow> px_store \<Rightarrow> nat \<Rightarrow> px_store" where
  "state_after e req df sf s0 n \<equiv> fold (px_apply df sf) (px_passes e req n) s0"

text \<open>The states between passes: which objects are there, each in a shape that can be updated.\<close>

definition deployed :: "px_store \<Rightarrow> bool" where
  "deployed s \<longleftrightarrow> (\<exists>d. sto_deployment s = Some d \<and> updatable_pod (pod_of d) \<and> ds_Replicas (dep_Spec d) \<noteq> None)"

definition served :: "px_store \<Rightarrow> bool" where
  "served s \<longleftrightarrow> (\<exists>v. sto_service s = Some v \<and> items (svs_Ports (ksvc_Spec v)) \<noteq> [])"

definition has_rules :: "HorizontalPodAutoscaler \<Rightarrow> bool" where
  "has_rules a \<longleftrightarrow> (\<exists>bh. hpas_Behavior (hpa_Spec a) = Some bh \<and> bh_ScaleUp bh \<noteq> None \<and> bh_ScaleDown bh \<noteq> None)"

definition scalable :: "px_store \<Rightarrow> bool" where
  "scalable s \<longleftrightarrow> (\<forall>a. sto_hpa s = Some a \<longrightarrow> has_rules a)"

definition named :: "px_store \<Rightarrow> bool" where
  "named s \<longleftrightarrow> px_Name (sto_proxy s) \<noteq> []"

definition settled :: "px_store \<Rightarrow> bool" where
  "settled s \<longleftrightarrow> deployed s \<and> served s \<and> scalable s"

section \<open>An example\<close>

text \<open>A proxy with automatic scaling.\<close>

definition example_scaled_proxy :: ShardingSphereProxy where
  "example_scaled_proxy = example_proxy\<lparr>px_Spec := (px_Spec example_proxy)\<lparr>prs_AutomaticScaling :=
     Some \<lparr>asc_Enable = True, asc_ScaleUpWindows = 30, asc_ScaleDownWindows = 30, asc_Target = 70,
       asc_MaxInstance = 4, asc_MinInstance = 1, asc_CustomMetrics = None\<rparr>\<rparr>\<rparr>"

text \<open>A server that gives a deployment one replica where it asks for none.\<close>

definition one_replica :: "Deployment \<Rightarrow> Deployment" where
  "one_replica d = (if ds_Replicas (dep_Spec d) = None then d\<lparr>dep_Spec := (dep_Spec d)\<lparr>ds_Replicas := Some 1\<rparr>\<rparr> else d)"

definition example_store :: px_store where
  "example_store = \<lparr>sto_proxy = example_scaled_proxy, sto_deployment = None, sto_service = None, sto_hpa = None\<rparr>"

definition example_px_env :: "lib \<Rightarrow> px_env" where
  "example_px_env l =
     (let state = (\<lambda>h. fold (px_apply one_replica id) h example_store)
      in \<lparr>pxe_lib = l, pxe_clock = (\<lambda>h k. int (length h + k)), pxe_get = (\<lambda>h nn. Inr (sto_proxy (state h))),
          pxe_get_deployment = (\<lambda>h nn. found (sto_deployment (state h))),
          pxe_get_service = (\<lambda>h nn. found (sto_service (state h))),
          pxe_get_hpa = (\<lambda>h nn. found (sto_hpa (state h))),
          pxe_list_pods = (\<lambda>h ns lb. Inr [example_proxy_pod]), pxe_write = (\<lambda>h c. Inr ())\<rparr>)"

section \<open>Passes\<close>

lemma updatable_kept: "keeps_pod s s' \<Longrightarrow> updatable_pod s \<Longrightarrow> updatable_pod s'"
proof -
  assume keep: "keeps_pod s s'" and s: "updatable_pod s"
  have "list_all updatable_container (items (ps_Containers s'))"
    using keep s unfolding keeps_pod_def updatable_pod_def list_all_length list_all2_conv_all_nth updatable_container_def
    by (metis length_0_conv)
  moreover have "case items (ps_Volumes s') of [] \<Rightarrow> False | v # vs \<Rightarrow> vol_ConfigMap v \<noteq> None"
    using keep s by (cases "items (ps_Volumes s)") (auto simp: keeps_pod_def updatable_pod_def list_all2_Cons1)
  ultimately show ?thesis by (simp add: updatable_pod_def)
qed

lemma and_then_run:
  "and_then m n h = (case m h of (Ok (res, None), h') \<Rightarrow> n h' | (Ok (res, Some err), h') \<Rightarrow> (Ok (res, Some err), h')
     | (Fail err, h') \<Rightarrow> (Fail err, h') | (Panic p, h') \<Rightarrow> (Panic p, h'))"
  by (auto simp: and_then_def bind_io_def split: prod.splits outcome.splits option.splits)

lemma step_of_write: "pxe_write e h c = Inr () \<Longrightarrow> step_of (px_write e c) h = (Ok (res_empty, None), h @ [c])"
  by (simp add: step_of_def px_write_def error_of_def)

text \<open>
  The four steps on a server that keeps what it is sent: the state afterwards is the state before with
  one object changed.
\<close>

lemma deployment_missing:
  assumes "px_stored e req df sf s0" and "server_defaults df sf" and "s = fold (px_apply df sf) h s0"
    and "named s" and "sto_deployment s = None"
  shows "\<exists>h' d. px_reconcileDeployment e req h = (Ok (res_empty, Some missing), h')
    \<and> fold (px_apply df sf) h' s0 = s\<lparr>sto_deployment := Some d\<rparr> \<and> deployed (s\<lparr>sto_deployment := Some d\<rparr>)"
proof -
  obtain d where d: "NewDeployment (pxe_lib e) (sto_proxy s) = Ok d" "updatable_pod (pod_of d)"
    using NewDeployment_eq assms(4) unfolding named_def by blast
  have "deployed (s\<lparr>sto_deployment := Some (df d)\<rparr>)"
    using assms(2) updatable_kept [OF _ d(2)] by (auto simp: deployed_def server_defaults_def)
  moreover have "px_reconcileDeployment e req h = (Ok (res_empty, Some missing), h @ [PxGet req, PxGetDeployment req, PxCreateDeployment d])"
    using assms d(1) by (simp add: px_reconcileDeployment_def px_stored_def getRuntimeShardingSphereProxy_def px_write_def
        found_def missing_def bind_io_def [of "lift_outcome _"])
  ultimately show ?thesis using assms(3)
    by (intro exI [of _ "h @ [PxGet req, PxGetDeployment req, PxCreateDeployment d]"] exI [of _ "df d"]) simp
qed

lemma deployment_present:
  assumes "px_stored e req df sf s0" and "server_defaults df sf" and "s = fold (px_apply df sf) h s0" and "deployed s"
  shows "\<exists>h' d. px_reconcileDeployment e req h = (Ok (res_empty, None), h')
    \<and> fold (px_apply df sf) h' s0 = s\<lparr>sto_deployment := Some d\<rparr> \<and> deployed (s\<lparr>sto_deployment := Some d\<rparr>)"
proof -
  from assms(4) obtain act where act: "sto_deployment s = Some act" "updatable_pod (pod_of act)" "ds_Replicas (dep_Spec act) \<noteq> None"
    unfolding deployed_def by blast
  obtain d where d: "px_UpdateDeployment (sto_proxy s) act = Ok d" "updatable_pod (pod_of d)"
    using update_total [OF act(2,3)] by blast
  have "deployed (s\<lparr>sto_deployment := Some (df d)\<rparr>)"
    using assms(2) updatable_kept [OF _ d(2)] by (auto simp: deployed_def server_defaults_def)
  moreover have "px_reconcileDeployment e req h = (Ok (res_empty, None), h @ [PxGet req, PxGetDeployment req, PxUpdateDeployment d])"
    using assms d(1) act(1) by (simp add: px_reconcileDeployment_def px_stored_def getRuntimeShardingSphereProxy_def px_write_def
        found_def bind_io_def [of "lift_outcome _"])
  ultimately show ?thesis using assms(3)
    by (intro exI [of _ "h @ [PxGet req, PxGetDeployment req, PxUpdateDeployment d]"] exI [of _ "df d"]) simp
qed

lemma defaults_keep_ports:
  "server_defaults df sf \<Longrightarrow> items (svs_Ports (ksvc_Spec (sf v))) = [] \<longleftrightarrow> items (svs_Ports (ksvc_Spec v)) = []"
  unfolding server_defaults_def by (metis length_0_conv)

lemma service_missing:
  assumes "px_stored e req df sf s0" and "server_defaults df sf" and "s = fold (px_apply df sf) h s0"
    and "named s" and "sto_service s = None"
  shows "\<exists>h' v. px_reconcileService e req h = (Ok (res_empty, Some missing), h')
    \<and> fold (px_apply df sf) h' s0 = s\<lparr>sto_service := Some v\<rparr> \<and> served (s\<lparr>sto_service := Some v\<rparr>)"
proof -
  let ?v = "px_NewService (pxe_lib e) (sto_proxy s)"
  have "sto_proxy s \<noteq> zero_ShardingSphereProxy"
    using assms(4) by (auto simp: named_def zero_ShardingSphereProxy_def zero_meta_def)
  then have "items (svs_Ports (ksvc_Spec ?v)) \<noteq> []"
    by (simp add: px_NewService_def ConstructCascadingService_def Let_def)
  then have "served (s\<lparr>sto_service := Some (sf ?v)\<rparr>)"
    using assms(2) by (simp add: served_def defaults_keep_ports)
  moreover have "px_reconcileService e req h = (Ok (res_empty, Some missing), h @ [PxGet req, PxGetService req, PxCreateService ?v])"
    using assms by (simp add: px_reconcileService_def px_stored_def getRuntimeShardingSphereProxy_def px_write_def found_def missing_def)
  ultimately show ?thesis using assms(3)
    by (intro exI [of _ "h @ [PxGet req, PxGetService req, PxCreateService ?v]"] exI [of _ "sf ?v"]) simp
qed

lemma service_present:
  assumes "px_stored e req df sf s0" and "server_defaults df sf" and "s = fold (px_apply df sf) h s0" and "served s"
  shows "\<exists>h' v. px_reconcileService e req h = (Ok (res_empty, None), h')
    \<and> fold (px_apply df sf) h' s0 = s\<lparr>sto_service := Some v\<rparr> \<and> served (s\<lparr>sto_service := Some v\<rparr>)"
proof -
  from assms(4) obtain act where act: "sto_service s = Some act" "items (svs_Ports (ksvc_Spec act)) \<noteq> []"
    unfolding served_def by blast
  then obtain v where v: "px_UpdateService (sto_proxy s) act = Ok v" "items (svs_Ports (ksvc_Spec v)) \<noteq> []"
    by (cases "items (svs_Ports (ksvc_Spec act))") (auto simp: px_UpdateService_def Let_def)
  then have "served (s\<lparr>sto_service := Some (sf v)\<rparr>)"
    using assms(2) by (simp add: served_def defaults_keep_ports)
  moreover have "px_reconcileService e req h = (Ok (res_empty, None), h @ [PxGet req, PxGetService req, PxUpdateService v])"
    using assms act v by (simp add: px_reconcileService_def px_stored_def getRuntimeShardingSphereProxy_def found_def
        step_of_write bind_io_def [of "lift_outcome _"])
  ultimately show ?thesis using assms(3)
    by (intro exI [of _ "h @ [PxGet req, PxGetService req, PxUpdateService v]"] exI [of _ "sf v"]) simp
qed

lemma pods_listed:
  assumes "px_stored e req df sf s0" and "s = fold (px_apply df sf) h s0"
  shows "\<exists>h' st. px_reconcilePodList e (fst req) (snd req) h = (Ok (res_empty, None), h')
    \<and> fold (px_apply df sf) h' s0 = s\<lparr>sto_proxy := (sto_proxy s)\<lparr>px_Status := st\<rparr>\<rparr>"
proof -
  obtain pods where pods: "pxe_list_pods e h (fst req) (Some [''apps'' \<mapsto> snd req]) = Inr pods"
    using assms(1) unfolding px_stored_def by blast
  let ?h = "h @ [PxListPods (fst req) (Some [''apps'' \<mapsto> snd req]), PxGet req]"
  let ?st = "ReconcileStatus (pxe_clock e ?h) pods (sto_proxy s)"
  have "px_reconcilePodList e (fst req) (snd req) h
      = (Ok (res_empty, None), ?h @ [PxUpdateStatus ((sto_proxy s)\<lparr>px_Status := ?st\<rparr>)])"
    using assms pods by (simp add: px_reconcilePodList_def px_stored_def getRuntimeShardingSphereProxy_def step_of_write)
  with assms(2) show ?thesis
    by (intro exI [of _ "?h @ [PxUpdateStatus ((sto_proxy s)\<lparr>px_Status := ?st\<rparr>)]"] exI [of _ ?st]) simp
qed

lemma scaling_objects:
  assumes "scaling_enabled p"
  shows "\<exists>a. NewHPA l p = Ok a \<and> has_rules a" "has_rules b \<Longrightarrow> \<exists>a. UpdateHPA p b = Ok a \<and> has_rules a"
proof -
  from assms obtain a where "prs_AutomaticScaling (px_Spec p) = Some a"
    by (auto simp: scaling_enabled_def split: option.splits)
  then show "\<exists>a. NewHPA l p = Ok a \<and> has_rules a" "has_rules b \<Longrightarrow> \<exists>a. UpdateHPA p b = Ok a \<and> has_rules a"
    by (auto simp: NewHPA_def ConstructHPA_def UpdateHPA_def has_rules_def)
qed

lemma hpa_step:
  assumes "px_stored e req df sf s0" and "s = fold (px_apply df sf) h s0" and "scalable s"
  shows "\<exists>h' a. px_reconcileHPA e req h = (Ok (res_empty, None), h')
    \<and> fold (px_apply df sf) h' s0 = s\<lparr>sto_hpa := a\<rparr> \<and> scalable (s\<lparr>sto_hpa := a\<rparr>)
    \<and> (a \<noteq> None \<longleftrightarrow> scaling_enabled (sto_proxy s))"
proof -
  let ?h = "h @ [PxGet req, PxGetHPA req]"
  obtain calls a where run: "px_reconcileHPA e req h = (Ok (res_empty, None), ?h @ calls)"
    and state: "fold (px_apply df sf) calls s = s\<lparr>sto_hpa := a\<rparr>"
    and a: "\<forall>b. a = Some b \<longrightarrow> has_rules b" "a \<noteq> None \<longleftrightarrow> scaling_enabled (sto_proxy s)"
  proof (cases "sto_hpa s")
    case None
    show thesis
    proof (cases "scaling_enabled (sto_proxy s)")
      case True
      then obtain b where "NewHPA (pxe_lib e) (sto_proxy s) = Ok b" "has_rules b" using scaling_objects(1) by blast
      with True None assms(1,2) show thesis
        by (intro that [of "[PxCreateHPA b]" "Some b"]) (simp_all add: px_reconcileHPA_def px_stored_def
          getRuntimeShardingSphereProxy_def found_def missing_def step_of_write bind_io_def [of "lift_outcome _"])
    next
      case False
      with None assms(1,2) show thesis
        by (intro that [of "[]" None]) (simp_all add: px_reconcileHPA_def px_stored_def getRuntimeShardingSphereProxy_def found_def missing_def)
    qed
  next
    case (Some c)
    with assms(3) have c: "has_rules c" by (simp add: scalable_def)
    show thesis
    proof (cases "scaling_enabled (sto_proxy s)")
      case True
      then obtain b where "UpdateHPA (sto_proxy s) c = Ok b" "has_rules b" using scaling_objects(2) c by blast
      with True Some assms(1,2) show thesis
        by (intro that [of "[PxUpdateHPA b]" "Some b"]) (simp_all add: px_reconcileHPA_def px_stored_def
          getRuntimeShardingSphereProxy_def found_def step_of_write bind_io_def [of "lift_outcome _"])
    next
      case False
      with Some assms(1,2) show thesis
        by (intro that [of "[PxDeleteHPA c]" None]) (simp_all add: px_reconcileHPA_def px_stored_def
          getRuntimeShardingSphereProxy_def found_def step_of_write)
    qed
  qed
  with assms(2) show ?thesis
    by (intro exI [of _ "?h @ calls"] exI [of _ a]) (simp add: scalable_def)
qed

text \<open>A whole pass, from each of the three kinds of state.\<close>

lemma pass_gets:
  assumes "px_stored e req df sf s0"
  shows "px_Reconcile e req h = px_reconcile e req (h @ [PxGet req])
    \<and> fold (px_apply df sf) (h @ [PxGet req]) s0 = fold (px_apply df sf) h s0"
  using assms by (simp add: px_Reconcile_def px_stored_def getRuntimeShardingSphereProxy_def)

lemma first_pass:
  assumes "px_stored e req df sf s0" and "server_defaults df sf" and "s = fold (px_apply df sf) h s0"
    and "named s" and "sto_deployment s = None"
  shows "\<exists>h' d. px_Reconcile e req h = (Ok (res_empty, Some missing), h')
    \<and> fold (px_apply df sf) h' s0 = s\<lparr>sto_deployment := Some d\<rparr> \<and> deployed (s\<lparr>sto_deployment := Some d\<rparr>)"
proof -
  have "s = fold (px_apply df sf) (h @ [PxGet req]) s0" using assms(3) by simp
  from deployment_missing [OF assms(1,2) this assms(4,5)] show ?thesis
    using pass_gets [OF assms(1), of h] by (auto simp: px_reconcile_def and_then_run)
qed

lemma second_pass:
  assumes "px_stored e req df sf s0" and "server_defaults df sf" and "s = fold (px_apply df sf) h s0"
    and "named s" and "deployed s" and "sto_service s = None"
  shows "\<exists>h' d v. px_Reconcile e req h = (Ok (res_empty, Some missing), h')
    \<and> fold (px_apply df sf) h' s0 = s\<lparr>sto_deployment := Some d, sto_service := Some v\<rparr>
    \<and> deployed (fold (px_apply df sf) h' s0) \<and> served (fold (px_apply df sf) h' s0)"
proof -
  have "s = fold (px_apply df sf) (h @ [PxGet req]) s0" using assms(3) by simp
  from deployment_present [OF assms(1,2) this assms(5)] obtain h1 d where
    d: "px_reconcileDeployment e req (h @ [PxGet req]) = (Ok (res_empty, None), h1)"
      "s\<lparr>sto_deployment := Some d\<rparr> = fold (px_apply df sf) h1 s0" "deployed (s\<lparr>sto_deployment := Some d\<rparr>)" by metis
  have "named (s\<lparr>sto_deployment := Some d\<rparr>)" "sto_service (s\<lparr>sto_deployment := Some d\<rparr>) = None"
    using assms(4,6) by (simp_all add: named_def)
  from service_missing [OF assms(1,2) d(2) this] obtain h2 v where
    v: "px_reconcileService e req h1 = (Ok (res_empty, Some missing), h2)"
      "fold (px_apply df sf) h2 s0 = s\<lparr>sto_deployment := Some d, sto_service := Some v\<rparr>"
      "served (s\<lparr>sto_deployment := Some d, sto_service := Some v\<rparr>)" by auto
  have "px_Reconcile e req h = (Ok (res_empty, Some missing), h2)"
    using pass_gets [OF assms(1), of h] d(1) v(1) by (simp add: px_reconcile_def and_then_run)
  with v d(3) show ?thesis
    by (intro exI [of _ h2] exI [of _ d] exI [of _ v]) (simp add: deployed_def)
qed

lemma later_pass:
  assumes "px_stored e req df sf s0" and "server_defaults df sf" and "s = fold (px_apply df sf) h s0" and "settled s"
  shows "\<exists>h'. px_Reconcile e req h = (Ok (\<lparr>Requeue = False, RequeueAfter = WaitingForReady\<rparr>, None), h')
    \<and> settled (fold (px_apply df sf) h' s0)
    \<and> (sto_hpa (fold (px_apply df sf) h' s0) \<noteq> None \<longleftrightarrow> scaling_enabled (sto_proxy s))
    \<and> px_Spec (sto_proxy (fold (px_apply df sf) h' s0)) = px_Spec (sto_proxy s)"
proof -
  from assms(4) have s: "deployed s" "served s" "scalable s" by (simp_all add: settled_def)
  have "s = fold (px_apply df sf) (h @ [PxGet req]) s0" using assms(3) by simp
  from deployment_present [OF assms(1,2) this s(1)] obtain h1 d where
    d: "px_reconcileDeployment e req (h @ [PxGet req]) = (Ok (res_empty, None), h1)"
      "s\<lparr>sto_deployment := Some d\<rparr> = fold (px_apply df sf) h1 s0" "deployed (s\<lparr>sto_deployment := Some d\<rparr>)" by metis
  let ?s1 = "s\<lparr>sto_deployment := Some d\<rparr>"
  have "served ?s1" using s(2) by (simp add: served_def)
  from service_present [OF assms(1,2) d(2) this] obtain h2 v where
    v: "px_reconcileService e req h1 = (Ok (res_empty, None), h2)"
      "?s1\<lparr>sto_service := Some v\<rparr> = fold (px_apply df sf) h2 s0" "served (?s1\<lparr>sto_service := Some v\<rparr>)" by metis
  let ?s2 = "?s1\<lparr>sto_service := Some v\<rparr>"
  from pods_listed [OF assms(1) v(2)] obtain h3 st where
    st: "px_reconcilePodList e (fst req) (snd req) h2 = (Ok (res_empty, None), h3)"
      "?s2\<lparr>sto_proxy := (sto_proxy ?s2)\<lparr>px_Status := st\<rparr>\<rparr> = fold (px_apply df sf) h3 s0" by metis
  let ?s3 = "?s2\<lparr>sto_proxy := (sto_proxy ?s2)\<lparr>px_Status := st\<rparr>\<rparr>"
  have "scalable ?s3" using s(3) by (simp add: scalable_def)
  from hpa_step [OF assms(1) st(2) this] obtain h4 a where
    a: "px_reconcileHPA e req h3 = (Ok (res_empty, None), h4)" "fold (px_apply df sf) h4 s0 = ?s3\<lparr>sto_hpa := a\<rparr>"
      "scalable (?s3\<lparr>sto_hpa := a\<rparr>)" "a \<noteq> None \<longleftrightarrow> scaling_enabled (sto_proxy ?s3)" by blast
  have "px_Reconcile e req h = (Ok (\<lparr>Requeue = False, RequeueAfter = WaitingForReady\<rparr>, None), h4)"
    using pass_gets [OF assms(1), of h] d(1) v(1) st(1) a(1) by (simp add: px_reconcile_def and_then_run)
  moreover have "settled (?s3\<lparr>sto_hpa := a\<rparr>)"
    using a(3) d(3) v(3) by (simp add: settled_def deployed_def served_def)
  ultimately show ?thesis using a(2,4) by (auto simp: scaling_enabled_def)
qed

lemma settled_pass:
  assumes "px_stored e req df sf s0" and "server_defaults df sf" and "settled (state_after e req df sf s0 n)"
  shows "fst (px_Reconcile e req (px_passes e req n)) = Ok (\<lparr>Requeue = False, RequeueAfter = WaitingForReady\<rparr>, None)
    \<and> settled (state_after e req df sf s0 (Suc n))
    \<and> (sto_hpa (state_after e req df sf s0 (Suc n)) \<noteq> None \<longleftrightarrow> scaling_enabled (sto_proxy (state_after e req df sf s0 n)))
    \<and> px_Spec (sto_proxy (state_after e req df sf s0 (Suc n))) = px_Spec (sto_proxy (state_after e req df sf s0 n))"
  using later_pass [OF assms(1,2) refl assms(3)] by auto

lemma settled_passes:
  assumes "px_stored e req df sf s0" and "server_defaults df sf" and "settled (state_after e req df sf s0 k)"
  shows "settled (state_after e req df sf s0 (k + n))
    \<and> px_Spec (sto_proxy (state_after e req df sf s0 (k + n))) = px_Spec (sto_proxy (state_after e req df sf s0 k))
    \<and> (n > 0 \<longrightarrow> (sto_hpa (state_after e req df sf s0 (k + n)) \<noteq> None \<longleftrightarrow>
         scaling_enabled (sto_proxy (state_after e req df sf s0 k))))"
proof (induction n)
  case (Suc n)
  then have "settled (state_after e req df sf s0 (k + n))" by blast
  from settled_pass [OF assms(1,2) this] Suc show ?case
    by (simp add: scaling_enabled_def del: px_passes.simps)
qed (use assms(3) in simp)

text \<open>
  C21. On an API server that keeps what it is sent, a proxy none of whose objects exists gets its
  deployment in the first pass and its service in the second, and both passes end with the error that
  an object was missing. Every pass from the third on succeeds, writes the status, and leaves a
  horizontal autoscaler exactly when scaling is enabled.
\<close>

theorem proxy_settles_in_three_passes:
  assumes "px_stored e req df sf s0" and "server_defaults df sf" and "px_Name (sto_proxy s0) \<noteq> []"
    and "sto_deployment s0 = None" and "sto_service s0 = None" and "sto_hpa s0 = None"
  shows "fst (px_Reconcile e req (px_passes e req n)) =
      Ok (if n < 2 then (res_empty, Some missing) else (\<lparr>Requeue = False, RequeueAfter = WaitingForReady\<rparr>, None))
    \<and> (let s = fold (px_apply df sf) (px_passes e req n) s0
       in (sto_deployment s \<noteq> None \<longleftrightarrow> n \<ge> 1) \<and> (sto_service s \<noteq> None \<longleftrightarrow> n \<ge> 2)
        \<and> (sto_hpa s \<noteq> None \<longleftrightarrow> n \<ge> 3 \<and> scaling_enabled (sto_proxy s0)))"
proof -
  let ?S = "state_after e req df sf s0"
  have s0: "s0 = fold (px_apply df sf) (px_passes e req 0) s0" by simp
  have "named s0" using assms(3) by (simp add: named_def)
  from first_pass [OF assms(1,2) s0 this assms(4)] obtain d1 where
    p1: "fst (px_Reconcile e req (px_passes e req 0)) = Ok (res_empty, Some missing)"
      "?S 1 = s0\<lparr>sto_deployment := Some d1\<rparr>" "deployed (?S 1)" by auto
  have "named (?S 1)" "sto_service (?S 1) = None" unfolding p1(2) using assms(3,5) by (simp_all add: named_def)
  from second_pass [OF assms(1,2) refl this(1) p1(3) this(2)] p1(2) obtain d2 v where
    p2: "fst (px_Reconcile e req (px_passes e req 1)) = Ok (res_empty, Some missing)"
      "?S 2 = s0\<lparr>sto_deployment := Some d2, sto_service := Some v\<rparr>" "deployed (?S 2)" "served (?S 2)"
    by (auto simp: numeral_2_eq_2)
  have settled: "settled (?S 2)" unfolding settled_def using p2(3,4) assms(6) by (simp add: p2(2) scalable_def)
  have "n = 0 \<or> n = 1 \<or> (\<exists>m. n = 2 + m)" by presburger
  then consider "n = 0" | "n = 1" | m where "n = 2 + m" by blast
  then show ?thesis
  proof cases
    case 1
    with p1(1) assms(4-6) show ?thesis by simp
  next
    case 2
    with p1(2) p2(1) assms(4-6) show ?thesis by (simp del: px_passes.simps add: Let_def)
  next
    case 3
    from settled_passes [OF assms(1,2) settled, of m] have m: "settled (?S n)"
      "m > 0 \<Longrightarrow> sto_hpa (?S n) \<noteq> None \<longleftrightarrow> scaling_enabled (sto_proxy s0)"
      unfolding 3 by (simp_all add: p2(2) del: px_passes.simps)
    have start: "sto_hpa (?S n) = None" if "m = 0" using 3 that p2(2) assms(6) by simp
    have "sto_deployment (?S n) \<noteq> None" "sto_service (?S n) \<noteq> None"
      using m(1) by (auto simp: settled_def deployed_def served_def)
    moreover have "sto_hpa (?S n) \<noteq> None \<longleftrightarrow> n \<ge> 3 \<and> scaling_enabled (sto_proxy s0)"
      using 3 m(2) start by (cases "m = 0") simp_all
    moreover have "fst (px_Reconcile e req (px_passes e req n)) = Ok (\<lparr>Requeue = False, RequeueAfter = WaitingForReady\<rparr>, None)"
      using settled_pass [OF assms(1,2) m(1)] by blast
    ultimately show ?thesis using 3 by (simp add: Let_def del: px_passes.simps)
  qed
qed

theorem proxy_settles_in_three_passes_witness:
  "\<forall>l. fst (px_Reconcile (example_px_env l) (''ns'', ''px'') (px_passes (example_px_env l) (''ns'', ''px'') 2)) =
     Ok (\<lparr>Requeue = False, RequeueAfter = WaitingForReady\<rparr>, None)"
proof
  fix l
  have "px_stored (example_px_env l) (''ns'', ''px'') one_replica id example_store"
    by (simp add: px_stored_def example_px_env_def Let_def)
  moreover have "server_defaults one_replica id"
    by (auto simp: server_defaults_def one_replica_def keeps_pod_def list_all2_conv_all_nth)
  ultimately show "fst (px_Reconcile (example_px_env l) (''ns'', ''px'') (px_passes (example_px_env l) (''ns'', ''px'') 2)) =
     Ok (\<lparr>Requeue = False, RequeueAfter = WaitingForReady\<rparr>, None)"
    using proxy_settles_in_three_passes [of "example_px_env l" "(''ns'', ''px'')" one_replica id example_store 2]
    by (simp add: example_store_def example_scaled_proxy_def example_proxy_def)
qed

end
