(* ===== verification/Proxy_Config.thy ===== *)
theory Proxy_Config
  imports Environment Compute_Node_Constants
begin

text \<open>
  The server configuration of proxies: the resource \<^verbatim>\<open>ShardingSphereProxyServerConfig\<close>
  (\<^verbatim>\<open>api/v1alpha1/proxyconfig_types.go\<close>, \<^verbatim>\<open>serverconfig.go\<close>), the config map made of it
  (\<^verbatim>\<open>pkg/reconcile/proxyconfig/configmap.go\<close>) and its controller
  (\<^verbatim>\<open>pkg/controllers/proxyconfig_controller.go\<close>). \<^verbatim>\<open>yaml.Marshal\<close> is a parameter.
\<close>

section \<open>ShardingSphereProxyServerConfig\<close>

record User =
  user_User :: string
  user_Password :: string

record Privilege =
  priv_Type :: string

record Auth =
  auth_users :: "User goslice"
  auth_privilege :: "Privilege option"

record Props =
  prop_KernelExecutorSize :: int
  prop_CheckTableMetadataEnabled :: bool
  prop_ProxyBackendQueryFetchSize :: int
  prop_CheckDuplicateTableEnabled :: bool
  prop_ProxyFrontendExecutorSize :: int
  prop_ProxyBackendExecutorSuitable :: string
  prop_ProxyBackendDriverType :: string
  prop_ProxyFrontendDatabaseProtocolType :: string

record ClusterProps =
  clp_Namespace :: string
  clp_ServerLists :: string
  clp_RetryIntervalMilliseconds :: int
  clp_MaxRetries :: int
  clp_TimeToLiveSeconds :: int
  clp_OperationTimeoutMilliseconds :: int
  clp_Digest :: string

record RepositoryConfig =
  rc_Type :: string
  rc_Props :: ClusterProps

record ClusterConfig =
  clc_Type :: string
  clc_Repository :: RepositoryConfig

record ProxyConfigSpec =
  pcs_ClusterConfig :: ClusterConfig
  pcs_Authority :: Auth
  pcs_Props :: "Props option"

record ProxyConfigStatus =
  pcst_MetadataRepository :: string

record ShardingSphereProxyServerConfig =
  pcf_gvk :: GroupVersionKind
  pcf_meta :: KubeMeta
  pcf_Spec :: ProxyConfigSpec
  pcf_Status :: ProxyConfigStatus

definition SetMetadataRepository :: "string \<Rightarrow> ShardingSphereProxyServerConfig \<Rightarrow> ShardingSphereProxyServerConfig" where
  "SetMetadataRepository metadataType c = c\<lparr>pcf_Status := (pcf_Status c)\<lparr>pcst_MetadataRepository := metadataType\<rparr>\<rparr>"

section \<open>Calls and answers\<close>

datatype pc_call =
    PcGet NamespacedName
  | PcUpdateStatus ShardingSphereProxyServerConfig
  | PcGetConfigMap NamespacedName
  | PcCreateConfigMap ConfigMap
  | PcUpdateConfigMap ConfigMap

record pc_env =
  pce_lib :: lib
  pce_yaml :: "ProxyConfigSpec \<Rightarrow> gerror + string"
  pce_get :: "pc_call list \<Rightarrow> NamespacedName \<Rightarrow> gerror + ShardingSphereProxyServerConfig"
  pce_get_config_map :: "pc_call list \<Rightarrow> NamespacedName \<Rightarrow> gerror + ConfigMap"
  pce_write :: "pc_call list \<Rightarrow> pc_call \<Rightarrow> gerror + unit"

definition pc_write :: "pc_env \<Rightarrow> pc_call \<Rightarrow> (pc_call, unit) io" where
  "pc_write e c = call c (\<lambda>tr. pce_write e tr c)"

section \<open>Config map\<close>

text \<open>The same text as that of the compute nodes.\<close>

definition defaultLogback :: string where
  "defaultLogback = DefaultLogback"

text \<open>The error is dropped; the text is empty then.\<close>

definition toYaml :: "pc_env \<Rightarrow> ShardingSphereProxyServerConfig \<Rightarrow> string" where
  "toYaml e proxyConfig = (case pce_yaml e (pcf_Spec proxyConfig) of Inl err \<Rightarrow> [] | Inr y \<Rightarrow> y)"

definition ConstructCascadingConfigmap :: "pc_env \<Rightarrow> ShardingSphereProxyServerConfig \<Rightarrow> ConfigMap" where
  "ConstructCascadingConfigmap e proxyConfig =
     \<lparr>cm_meta = zero_meta\<lparr>meta_Name := meta_Name (pcf_meta proxyConfig),
        meta_Namespace := meta_Namespace (pcf_meta proxyConfig),
        meta_OwnerReferences := Some [lib_NewControllerRef (pce_lib e) (pcf_meta proxyConfig) (pcf_gvk proxyConfig)]\<rparr>,
      cm_Data = Some [''server.yaml'' \<mapsto> toYaml e proxyConfig, ''logback.xml'' \<mapsto> defaultLogback],
      cm_BinaryData = None\<rparr>"

section \<open>The controller\<close>

text \<open>\<^verbatim>\<open>equality.Semantic.DeepEqual\<close> on maps does not tell nil from empty.\<close>

definition semantic_equal :: "gomap \<Rightarrow> gomap \<Rightarrow> bool" where
  "semantic_equal m n \<longleftrightarrow> (\<forall>k. mlookup m k = mlookup n k)"

definition repository_type :: "ShardingSphereProxyServerConfig \<Rightarrow> string" where
  "repository_type run = rc_Type (clc_Repository (pcs_ClusterConfig (pcf_Spec run)))"

definition update_metadata_status :: "pc_env \<Rightarrow> ShardingSphereProxyServerConfig \<Rightarrow> (pc_call, reconcile_result) io" where
  "update_metadata_status e run =
     bind_io (attempt (pc_write e (PcUpdateStatus (SetMetadataRepository (repository_type run) run)))) (\<lambda>r.
       ret (res_empty, error_of r))"

text \<open>The part of \<^verbatim>\<open>Reconcile\<close> after an existing config map was compared and updated.\<close>

definition sync_metadata_status :: "pc_env \<Rightarrow> ShardingSphereProxyServerConfig \<Rightarrow> (pc_call, reconcile_result) io" where
  "sync_metadata_status e run =
     (if pcst_MetadataRepository (pcf_Status run) \<noteq> repository_type run \<or> pcst_MetadataRepository (pcf_Status run) = []
      then update_metadata_status e run
      else ret (res_empty, None))"

definition pc_Reconcile :: "pc_env \<Rightarrow> NamespacedName \<Rightarrow> (pc_call, reconcile_result) io" where
  "pc_Reconcile e req =
     bind_io (attempt (call (PcGet req) (\<lambda>tr. pce_get e tr req))) (\<lambda>r. case r of
       Inl err \<Rightarrow> if IsNotFound err then ret (res_empty, None) else ret (res_empty, Some err)
     | Inr run \<Rightarrow>
         let configmap = ConstructCascadingConfigmap e run
         in bind_io (attempt (call (PcGetConfigMap req) (\<lambda>tr. pce_get_config_map e tr req))) (\<lambda>r. case r of
           Inl err \<Rightarrow>
             if IsNotFound err then
               bind_io (attempt (pc_write e (PcCreateConfigMap configmap))) (\<lambda>r. case r of
                 Inl err \<Rightarrow> ret (res_empty, Some err)
               | Inr x \<Rightarrow> update_metadata_status e run)
             else ret (res_empty, Some err)
         | Inr cm \<Rightarrow>
             if \<not> semantic_equal (cm_Data configmap) (cm_Data cm) then
               bind_io (attempt (pc_write e (PcUpdateConfigMap configmap))) (\<lambda>r. case r of
                 Inl err \<Rightarrow> ret (res_requeue, Some err)
               | Inr x \<Rightarrow> sync_metadata_status e run)
             else sync_metadata_status e run))"

section \<open>Specification\<close>

text \<open>
  An API server that keeps what it is sent: its state is the resource and the config map, a status
  update changes nothing but the status, and every answer is read off the state that the calls made
  so far lead to.
\<close>

record pc_store =
  pst_config :: ShardingSphereProxyServerConfig
  pst_config_map :: "ConfigMap option"

fun pc_apply :: "pc_call \<Rightarrow> pc_store \<Rightarrow> pc_store" where
  "pc_apply (PcUpdateStatus c) s = s\<lparr>pst_config := (pst_config s)\<lparr>pcf_Status := pcf_Status c\<rparr>\<rparr>"
| "pc_apply (PcCreateConfigMap cm) s = s\<lparr>pst_config_map := Some cm\<rparr>"
| "pc_apply (PcUpdateConfigMap cm) s = s\<lparr>pst_config_map := Some cm\<rparr>"
| "pc_apply _ s = s"

definition pc_stored :: "pc_env \<Rightarrow> NamespacedName \<Rightarrow> pc_store \<Rightarrow> bool" where
  "pc_stored e req s0 \<longleftrightarrow>
     (\<forall>h. pce_get e h req = Inr (pst_config (fold pc_apply h s0))) \<and>
     (\<forall>h. pce_get_config_map e h req = (case pst_config_map (fold pc_apply h s0) of
        None \<Rightarrow> Inl (ApiError NotFound ''not found'') | Some cm \<Rightarrow> Inr cm)) \<and>
     (\<forall>h c. pce_write e h c = Inr ())"

text \<open>The state the controller works towards.\<close>

definition pc_synced :: "pc_env \<Rightarrow> pc_store \<Rightarrow> bool" where
  "pc_synced e s \<longleftrightarrow>
     (\<exists>cm. pst_config_map s = Some cm \<and>
        semantic_equal (cm_Data (ConstructCascadingConfigmap e (pst_config s))) (cm_Data cm)) \<and>
     pcst_MetadataRepository (pcf_Status (pst_config s)) = repository_type (pst_config s)"

fun pc_writes :: "pc_call \<Rightarrow> bool" where
  "pc_writes (PcGet nn) = False"
| "pc_writes (PcGetConfigMap nn) = False"
| "pc_writes c = True"

section \<open>Facts\<close>

lemma semantic_equal_refl [simp]: "semantic_equal m m"
  by (simp add: semantic_equal_def)

lemma status_irrelevant [simp]:
  "ConstructCascadingConfigmap e (c\<lparr>pcf_Status := s\<rparr>) = ConstructCascadingConfigmap e c"
  "repository_type (c\<lparr>pcf_Status := s\<rparr>) = repository_type c"
  by (simp_all add: ConstructCascadingConfigmap_def toYaml_def repository_type_def)

lemma SetMetadataRepository_fields [simp]:
  "pcst_MetadataRepository (pcf_Status (SetMetadataRepository t c)) = t"
  by (simp add: SetMetadataRepository_def)

lemma pc_run:
  assumes "pc_stored e req s0" and "s = fold pc_apply h s0"
  shows "pc_Reconcile e req h =
    (let run = pst_config s; want = ConstructCascadingConfigmap e run;
         due = pcst_MetadataRepository (pcf_Status run) \<noteq> repository_type run \<or> pcst_MetadataRepository (pcf_Status run) = [];
         status = [PcUpdateStatus (SetMetadataRepository (repository_type run) run)]
     in (Ok (res_empty, None), h @ [PcGet req, PcGetConfigMap req] @
          (case pst_config_map s of
             None \<Rightarrow> PcCreateConfigMap want # status
           | Some cm \<Rightarrow> (if semantic_equal (cm_Data want) (cm_Data cm) then [] else [PcUpdateConfigMap want])
                        @ (if due then status else []))))"
  using assms
  by (auto simp: pc_Reconcile_def pc_stored_def pc_write_def update_metadata_status_def sync_metadata_status_def
      error_of_def Let_def split: option.splits)

section \<open>Properties\<close>


text \<open>A server with one configuration and no config map yet.\<close>

definition example_config :: ShardingSphereProxyServerConfig where
  "example_config = \<lparr>pcf_gvk = \<lparr>gvk_Group = ''shardingsphere.apache.org'', gvk_Version = ''v1alpha1'',
     gvk_Kind = ''ShardingSphereProxyServerConfig''\<rparr>, pcf_meta = zero_meta\<lparr>meta_Name := ''cfg'', meta_Namespace := ''ns''\<rparr>,
     pcf_Spec = \<lparr>pcs_ClusterConfig = \<lparr>clc_Type = ''Cluster'', clc_Repository = \<lparr>rc_Type = ''ZooKeeper'', rc_Props =
        \<lparr>clp_Namespace = ''governance'', clp_ServerLists = ''zk:2181'', clp_RetryIntervalMilliseconds = 500,
         clp_MaxRetries = 3, clp_TimeToLiveSeconds = 60, clp_OperationTimeoutMilliseconds = 500, clp_Digest = []\<rparr>\<rparr>\<rparr>,
       pcs_Authority = \<lparr>auth_users = Some [\<lparr>user_User = ''root@%'', user_Password = ''root''\<rparr>], auth_privilege = None\<rparr>,
       pcs_Props = None\<rparr>, pcf_Status = \<lparr>pcst_MetadataRepository = []\<rparr>\<rparr>"

definition example_config_store :: pc_store where
  "example_config_store = \<lparr>pst_config = example_config, pst_config_map = None\<rparr>"

definition example_config_env :: "lib \<Rightarrow> pc_env" where
  "example_config_env l = \<lparr>pce_lib = l, pce_yaml = (\<lambda>s. Inr ''mode: {}''),
     pce_get = (\<lambda>h nn. Inr (pst_config (fold pc_apply h example_config_store))),
     pce_get_config_map = (\<lambda>h nn. case pst_config_map (fold pc_apply h example_config_store) of
        None \<Rightarrow> Inl (ApiError NotFound ''not found'') | Some cm \<Rightarrow> Inr cm),
     pce_write = (\<lambda>h c. Inr ())\<rparr>"


end
