(* ===== verification/Autoscaler.thy ===== *)
theory Autoscaler
  imports Environment Scaling_Types
begin

text \<open>
  The controller of autoscalers: \<^verbatim>\<open>pkg/controllers/auto_scaler_controller.go\<close>, the builders
  \<^verbatim>\<open>pkg/kubernetes/hpa/builder.go\<close> and \<^verbatim>\<open>vpa/builder.go\<close> with their clients, the functions of
  \<^verbatim>\<open>pkg/reconcile/autoscaler\<close> and the resource of \<^verbatim>\<open>api/v1alpha1/autoscaler_types.go\<close>.

  A builder is a struct of a pointer to the object under construction and an embedded interface for
  its metadata; both are nil in a new builder, and every use of a nil one panics.
\<close>

section \<open>AutoScaler\<close>

record ObjectRefSelector =
  ors_ObjectRef :: CrossVersionObjectReference
  ors_Selector :: "LabelSelector option"

record HorizontalScaling =
  hs_MaxReplicas :: i32
  hs_MinReplicas :: i32
  hs_ScaleUpRules :: "HPAScalingRules option"
  hs_ScaleDownRules :: "HPAScalingRules option"
  hs_Metrics :: "MetricSpec goslice"

record VerticalScaling =
  vs_UpdatePolicy :: "nat option"
  vs_ResourcePolicy :: "nat option"
  vs_Recommenders :: "nat goslice"

record ScalingPolicy =
  pol_TargetSelector :: "ObjectRefSelector option"
  pol_Provider :: string
  pol_Horizontal :: "HorizontalScaling option"
  pol_Vertical :: "VerticalScaling option"

record AutoScaler =
  as_gvk :: GroupVersionKind
  as_meta :: KubeMeta
  as_PolicyGroup :: "ScalingPolicy list"

section \<open>Builder of horizontal autoscalers\<close>

record hpaBuilder =
  hb_hpa :: "HorizontalPodAutoscaler option"
  hb_Metadata :: "KubeMeta option"

definition NewHorizontalPodAutoScalerBuilder :: hpaBuilder where
  "NewHorizontalPodAutoScalerBuilder = \<lparr>hb_hpa = None, hb_Metadata = None\<rparr>"

text \<open>A method of the embedded interface, and a write through the pointer.\<close>

definition hpaBuilder_metadata :: "(KubeMeta \<Rightarrow> KubeMeta) \<Rightarrow> hpaBuilder \<Rightarrow> hpaBuilder outcome" where
  "hpaBuilder_metadata f b =
     (case hb_Metadata b of None \<Rightarrow> Panic ''nil pointer dereference''
      | Some m \<Rightarrow> Ok (b\<lparr>hb_Metadata := Some (f m)\<rparr>))"

definition on_hpa_spec :: "(HPASpec \<Rightarrow> HPASpec) \<Rightarrow> hpaBuilder \<Rightarrow> hpaBuilder outcome" where
  "on_hpa_spec f b =
     (case hb_hpa b of None \<Rightarrow> Panic ''nil pointer dereference''
      | Some h \<Rightarrow> Ok (b\<lparr>hb_hpa := Some (h\<lparr>hpa_Spec := f (hpa_Spec h)\<rparr>)\<rparr>))"

definition hpaBuilder_SetScaleTargetRef :: "CrossVersionObjectReference \<Rightarrow> hpaBuilder \<Rightarrow> hpaBuilder outcome" where
  "hpaBuilder_SetScaleTargetRef ref = on_hpa_spec (\<lambda>s. s\<lparr>hpas_ScaleTargetRef := ref\<rparr>)"

definition hpaBuilder_SetMinReplicas :: "i32 \<Rightarrow> hpaBuilder \<Rightarrow> hpaBuilder outcome" where
  "hpaBuilder_SetMinReplicas n = on_hpa_spec (\<lambda>s. s\<lparr>hpas_MinReplicas := Some n\<rparr>)"

definition hpaBuilder_SetMaxReplicas :: "i32 \<Rightarrow> hpaBuilder \<Rightarrow> hpaBuilder outcome" where
  "hpaBuilder_SetMaxReplicas n = on_hpa_spec (\<lambda>s. s\<lparr>hpas_MaxReplicas := n\<rparr>)"

definition hpaBuilder_SetMetrics :: "MetricSpec goslice \<Rightarrow> hpaBuilder \<Rightarrow> hpaBuilder outcome" where
  "hpaBuilder_SetMetrics specs = on_hpa_spec (\<lambda>s. s\<lparr>hpas_Metrics := specs\<rparr>)"

definition hpaBuilder_SetBehavior :: "HPABehavior option \<Rightarrow> hpaBuilder \<Rightarrow> hpaBuilder outcome" where
  "hpaBuilder_SetBehavior bh = on_hpa_spec (\<lambda>s. s\<lparr>hpas_Behavior := bh\<rparr>)"

definition hpaBuilder_BuildHPA :: "hpaBuilder \<Rightarrow> HorizontalPodAutoscaler outcome" where
  "hpaBuilder_BuildHPA b =
     (case (hb_hpa b, hb_Metadata b) of
        (Some h, Some m) \<Rightarrow> Ok (h\<lparr>hpa_meta := m\<rparr>)
      | _ \<Rightarrow> Panic ''nil pointer dereference'')"

section \<open>Builder of vertical autoscalers\<close>

record vpaBuilder =
  vb_vpa :: "VerticalPodAutoscaler option"
  vb_Metadata :: "KubeMeta option"

definition NewVerticalPodAutoscalerBuilder :: vpaBuilder where
  "NewVerticalPodAutoscalerBuilder = \<lparr>vb_vpa = None, vb_Metadata = None\<rparr>"

definition vpaBuilder_metadata :: "(KubeMeta \<Rightarrow> KubeMeta) \<Rightarrow> vpaBuilder \<Rightarrow> vpaBuilder outcome" where
  "vpaBuilder_metadata f b =
     (case vb_Metadata b of None \<Rightarrow> Panic ''nil pointer dereference''
      | Some m \<Rightarrow> Ok (b\<lparr>vb_Metadata := Some (f m)\<rparr>))"

definition on_vpa_spec :: "(VPASpec \<Rightarrow> VPASpec) \<Rightarrow> vpaBuilder \<Rightarrow> vpaBuilder outcome" where
  "on_vpa_spec f b =
     (case vb_vpa b of None \<Rightarrow> Panic ''nil pointer dereference''
      | Some v \<Rightarrow> Ok (b\<lparr>vb_vpa := Some (v\<lparr>vpa_Spec := f (vpa_Spec v)\<rparr>)\<rparr>))"

definition vpaBuilder_SetTargetRef :: "CrossVersionObjectReference \<Rightarrow> vpaBuilder \<Rightarrow> vpaBuilder outcome" where
  "vpaBuilder_SetTargetRef ref = on_vpa_spec (\<lambda>s. s\<lparr>vpas_TargetRef := Some ref\<rparr>)"

definition vpaBuilder_SetUpdatePolicy :: "nat option \<Rightarrow> vpaBuilder \<Rightarrow> vpaBuilder outcome" where
  "vpaBuilder_SetUpdatePolicy pu = on_vpa_spec (\<lambda>s. s\<lparr>vpas_UpdatePolicy := pu\<rparr>)"

definition vpaBuilder_SetResourcePolicy :: "nat option \<Rightarrow> vpaBuilder \<Rightarrow> vpaBuilder outcome" where
  "vpaBuilder_SetResourcePolicy pr = on_vpa_spec (\<lambda>s. s\<lparr>vpas_ResourcePolicy := pr\<rparr>)"

definition vpaBuilder_SetRecommenders :: "nat goslice \<Rightarrow> vpaBuilder \<Rightarrow> vpaBuilder outcome" where
  "vpaBuilder_SetRecommenders rs = on_vpa_spec (\<lambda>s. s\<lparr>vpas_Recommenders := rs\<rparr>)"

definition vpaBuilder_BuildVPA :: "vpaBuilder \<Rightarrow> VerticalPodAutoscaler outcome" where
  "vpaBuilder_BuildVPA b =
     (case (vb_vpa b, vb_Metadata b) of
        (Some v, Some m) \<Rightarrow> Ok (v\<lparr>vpa_meta := m\<rparr>)
      | _ \<Rightarrow> Panic ''nil pointer dereference'')"

section \<open>The objects of a policy\<close>

text \<open>\<^verbatim>\<open>blder.SetName(...).SetNamespace(...).SetLabels(...).SetAnnotations(...).SetOwnerReferences(...)\<close>\<close>

definition policy_metadata :: "lib \<Rightarrow> KubeMeta \<Rightarrow> GroupVersionKind \<Rightarrow> KubeMeta \<Rightarrow> KubeMeta" where
  "policy_metadata l m gvk b =
     b\<lparr>meta_Name := meta_Name m, meta_Namespace := meta_Namespace m, meta_Labels := meta_Labels m,
       meta_Annotations := meta_Annotations m, meta_OwnerReferences := Some [lib_NewControllerRef l m gvk]\<rparr>"

definition target_ref :: "ScalingPolicy \<Rightarrow> CrossVersionObjectReference outcome" where
  "target_ref policy =
     (case pol_TargetSelector policy of None \<Rightarrow> Panic ''nil pointer dereference''
      | Some t \<Rightarrow> Ok \<lparr>ref_Kind = ''ComputeNode'', ref_Name = ref_Name (ors_ObjectRef t),
                      ref_APIVersion = ''shardingsphere.apache.org/v1alpha1''\<rparr>)"

definition BuildHorizontalPodAutoScaler ::
  "lib \<Rightarrow> KubeMeta \<Rightarrow> GroupVersionKind \<Rightarrow> ScalingPolicy \<Rightarrow> HorizontalPodAutoscaler outcome" where
  "BuildHorizontalPodAutoScaler l m gvk policy =
     obind (hpaBuilder_metadata (policy_metadata l m gvk) NewHorizontalPodAutoScalerBuilder) (\<lambda>b.
     obind (target_ref policy) (\<lambda>ref.
     obind (hpaBuilder_SetScaleTargetRef ref b) (\<lambda>b.
     (case pol_Horizontal policy of None \<Rightarrow> Panic ''nil pointer dereference''
      | Some h \<Rightarrow>
          obind (hpaBuilder_SetMinReplicas (hs_MinReplicas h) b) (\<lambda>b.
          obind (hpaBuilder_SetMaxReplicas (hs_MaxReplicas h) b) (\<lambda>b.
          obind (if hs_Metrics h \<noteq> None then hpaBuilder_SetMetrics (hs_Metrics h) b else Ok b) (\<lambda>b.
          obind (if hs_ScaleUpRules h \<noteq> None \<or> hs_ScaleDownRules h \<noteq> None
                 then hpaBuilder_SetBehavior (Some \<lparr>bh_ScaleUp = hs_ScaleUpRules h,
                        bh_ScaleDown = hs_ScaleDownRules h\<rparr>) b
                 else Ok b) hpaBuilder_BuildHPA)))))))"

text \<open>The recommenders are copied one by one; of an empty list nil is left.\<close>

definition BuildVerticalPodAutoscaler ::
  "lib \<Rightarrow> KubeMeta \<Rightarrow> GroupVersionKind \<Rightarrow> ScalingPolicy \<Rightarrow> VerticalPodAutoscaler outcome" where
  "BuildVerticalPodAutoscaler l m gvk policy =
     obind (vpaBuilder_metadata (policy_metadata l m gvk) NewVerticalPodAutoscalerBuilder) (\<lambda>b.
     obind (target_ref policy) (\<lambda>ref.
     obind (vpaBuilder_SetTargetRef ref b) (\<lambda>b.
     (case pol_Vertical policy of None \<Rightarrow> Panic ''nil pointer dereference''
      | Some v \<Rightarrow>
          obind (if vs_UpdatePolicy v \<noteq> None then vpaBuilder_SetUpdatePolicy (vs_UpdatePolicy v) b else Ok b) (\<lambda>b.
          obind (if vs_ResourcePolicy v \<noteq> None then vpaBuilder_SetResourcePolicy (vs_ResourcePolicy v) b else Ok b) (\<lambda>b.
          obind (if vs_Recommenders v \<noteq> None
                 then vpaBuilder_SetRecommenders (slice_append None (items (vs_Recommenders v))) b
                 else Ok b) vpaBuilder_BuildVPA))))))"

section \<open>Calls and answers\<close>

datatype as_call =
    AsGet NamespacedName
  | AsGetHPA NamespacedName
  | AsCreateHPA HorizontalPodAutoscaler
  | AsUpdateHPA HorizontalPodAutoscaler
  | AsGetVPA NamespacedName
  | AsCreateVPA VerticalPodAutoscaler
  | AsUpdateVPA VerticalPodAutoscaler

type_synonym 'a aio = "(as_call, 'a) io"

record as_env =
  ase_lib :: lib
  ase_get :: "as_call list \<Rightarrow> NamespacedName \<Rightarrow> gerror + AutoScaler"
  ase_get_hpa :: "as_call list \<Rightarrow> NamespacedName \<Rightarrow> gerror + HorizontalPodAutoscaler"
  ase_get_vpa :: "as_call list \<Rightarrow> NamespacedName \<Rightarrow> gerror + VerticalPodAutoscaler"
  ase_write :: "as_call list \<Rightarrow> as_call \<Rightarrow> gerror + unit"

definition as_write :: "as_env \<Rightarrow> as_call \<Rightarrow> unit aio" where
  "as_write e c = call c (\<lambda>tr. ase_write e tr c)"

section \<open>The controller\<close>

definition getHPAByNamespacedName :: "as_env \<Rightarrow> NamespacedName \<Rightarrow> HorizontalPodAutoscaler option aio" where
  "getHPAByNamespacedName e nn = nil_if_missing (call (AsGetHPA nn) (\<lambda>tr. ase_get_hpa e tr nn))"

text \<open>It is the object as it was found that is sent, not the expected one.\<close>

definition updateHPA ::
  "as_env \<Rightarrow> KubeMeta \<Rightarrow> GroupVersionKind \<Rightarrow> ScalingPolicy \<Rightarrow> HorizontalPodAutoscaler \<Rightarrow> unit aio" where
  "updateHPA e m gvk policy hpa =
     bind_io (lift_outcome (BuildHorizontalPodAutoScaler (ase_lib e) m gvk policy)) (\<lambda>ex.
       let ex = ex\<lparr>hpa_meta := hpa_meta hpa\<rparr>
       in if hpa_Spec hpa \<noteq> hpa_Spec ex then as_write e (AsUpdateHPA hpa) else ret ())"

definition createHPA :: "as_env \<Rightarrow> KubeMeta \<Rightarrow> GroupVersionKind \<Rightarrow> ScalingPolicy \<Rightarrow> unit aio" where
  "createHPA e m gvk policy =
     bind_io (lift_outcome (BuildHorizontalPodAutoScaler (ase_lib e) m gvk policy)) (\<lambda>hpa.
       allow_existing (as_write e (AsCreateHPA hpa)))"

definition as_reconcileHPA :: "as_env \<Rightarrow> KubeMeta \<Rightarrow> GroupVersionKind \<Rightarrow> ScalingPolicy \<Rightarrow> unit aio" where
  "as_reconcileHPA e m gvk policy =
     bind_io (getHPAByNamespacedName e (meta_Namespace m, meta_Name m)) (\<lambda>hpa. case hpa of
       Some h \<Rightarrow> updateHPA e m gvk policy h
     | None \<Rightarrow> createHPA e m gvk policy)"

definition getVPAByNamespacedName :: "as_env \<Rightarrow> NamespacedName \<Rightarrow> VerticalPodAutoscaler option aio" where
  "getVPAByNamespacedName e nn = nil_if_missing (call (AsGetVPA nn) (\<lambda>tr. ase_get_vpa e tr nn))"

definition updateVPA ::
  "as_env \<Rightarrow> KubeMeta \<Rightarrow> GroupVersionKind \<Rightarrow> ScalingPolicy \<Rightarrow> VerticalPodAutoscaler \<Rightarrow> unit aio" where
  "updateVPA e m gvk policy vpa =
     bind_io (lift_outcome (BuildVerticalPodAutoscaler (ase_lib e) m gvk policy)) (\<lambda>ex.
       let ex = ex\<lparr>vpa_meta := vpa_meta vpa\<rparr>
       in if vpa_Spec vpa \<noteq> vpa_Spec ex then as_write e (AsUpdateVPA vpa) else ret ())"

definition createVPA :: "as_env \<Rightarrow> KubeMeta \<Rightarrow> GroupVersionKind \<Rightarrow> ScalingPolicy \<Rightarrow> unit aio" where
  "createVPA e m gvk policy =
     bind_io (lift_outcome (BuildVerticalPodAutoscaler (ase_lib e) m gvk policy)) (\<lambda>vpa.
       allow_existing (as_write e (AsCreateVPA vpa)))"

definition reconcileVPA :: "as_env \<Rightarrow> KubeMeta \<Rightarrow> GroupVersionKind \<Rightarrow> ScalingPolicy \<Rightarrow> unit aio" where
  "reconcileVPA e m gvk policy =
     bind_io (getVPAByNamespacedName e (meta_Namespace m, meta_Name m)) (\<lambda>vpa. case vpa of
       Some v \<Rightarrow> updateVPA e m gvk policy v
     | None \<Rightarrow> createVPA e m gvk policy)"

text \<open>One round of the loop over the policies.\<close>

definition reconcile_policy :: "as_env \<Rightarrow> AutoScaler \<Rightarrow> ScalingPolicy \<Rightarrow> unit aio" where
  "reconcile_policy e asc pg =
     bind_io (if pol_Provider pg = ''KubernetesHPA'' \<and> pol_Horizontal pg \<noteq> None
              then as_reconcileHPA e (as_meta asc) (as_gvk asc) pg else ret ()) (\<lambda>_.
       if pol_Provider pg = ''KubernetesVPA'' \<and> pol_Vertical pg \<noteq> None
       then reconcileVPA e (as_meta asc) (as_gvk asc) pg else ret ())"

definition reconcileAutoScaler :: "as_env \<Rightarrow> AutoScaler \<Rightarrow> unit aio" where
  "reconcileAutoScaler e asc = seq_io (reconcile_policy e asc) (as_PolicyGroup asc)"

definition as_Reconcile :: "as_env \<Rightarrow> NamespacedName \<Rightarrow> reconcile_result aio" where
  "as_Reconcile e req =
     bind_io (attempt (call (AsGet req) (\<lambda>tr. ase_get e tr req))) (\<lambda>r. case r of
       Inl err \<Rightarrow>
         if IsNotFound err then ret (res_after, None)
         else ret (res_requeue, Some err)
     | Inr asc \<Rightarrow> bind_io (attempt (reconcileAutoScaler e asc)) (\<lambda>_. ret (res_after, None)))"

section \<open>Specification\<close>

text \<open>The calls that change something, and the policies the controller acts on.\<close>

fun changes_scaling :: "as_call \<Rightarrow> bool" where
  "changes_scaling (AsGet nn) = False"
| "changes_scaling (AsGetHPA nn) = False"
| "changes_scaling (AsGetVPA nn) = False"
| "changes_scaling c = True"

definition acted_on :: "ScalingPolicy \<Rightarrow> bool" where
  "acted_on pg \<longleftrightarrow> pol_Provider pg = ''KubernetesHPA'' \<and> pol_Horizontal pg \<noteq> None
     \<or> pol_Provider pg = ''KubernetesVPA'' \<and> pol_Vertical pg \<noteq> None"

text \<open>The autoscaler objects can be looked up: the answer is an object or that there is none.\<close>

definition lookup_works :: "gerror + 'a \<Rightarrow> bool" where
  "lookup_works r = (case r of Inl err \<Rightarrow> IsNotFound err | Inr x \<Rightarrow> True)"

section \<open>Facts\<close>

lemma Build_panics [simp]:
  "BuildHorizontalPodAutoScaler l m gvk policy = Panic ''nil pointer dereference''"
  "BuildVerticalPodAutoscaler l m gvk policy = Panic ''nil pointer dereference''"
  by (simp_all add: BuildHorizontalPodAutoScaler_def NewHorizontalPodAutoScalerBuilder_def hpaBuilder_metadata_def
      BuildVerticalPodAutoscaler_def NewVerticalPodAutoscalerBuilder_def vpaBuilder_metadata_def)

lemma lift_panic: "lift_outcome (Panic p) = panic p"
  by (rule ext) simp

lemma no_scaling_object [simp]:
  "updateHPA e m gvk policy hpa = panic ''nil pointer dereference''"
  "createHPA e m gvk policy = panic ''nil pointer dereference''"
  "updateVPA e m gvk policy vpa = panic ''nil pointer dereference''"
  "createVPA e m gvk policy = panic ''nil pointer dereference''"
  by (simp_all add: updateHPA_def createHPA_def updateVPA_def createVPA_def lift_panic)

lemmas scaling_defs = as_reconcileHPA_def reconcileVPA_def getHPAByNamespacedName_def getVPAByNamespacedName_def

lemma within_reconcile_policy: "within (\<lambda>c. \<not> changes_scaling c) (reconcile_policy e asc pg)"
  unfolding reconcile_policy_def scaling_defs no_scaling_object
  by (intro within_intros) simp_all

lemma lookup_then_panic:
  assumes "lookup_works (a tr)" and "\<And>x. f x = panic p"
  shows "bind_io (nil_if_missing (call c a)) f tr = (Panic p, tr @ [c])"
  using assms
  by (auto simp: nil_if_missing_def lookup_works_def bind_io_def attempt_def call_def split: sum.splits)

lemma policy_acted_on_panics:
  assumes "acted_on pg" and "\<And>tr nn. lookup_works (ase_get_hpa e tr nn)" and "\<And>tr nn. lookup_works (ase_get_vpa e tr nn)"
  shows "\<exists>p tr'. reconcile_policy e asc pg tr = (Panic p, tr')"
proof -
  have panics: "as_reconcileHPA e (as_meta asc) (as_gvk asc) pg tr =
      (Panic ''nil pointer dereference'', tr @ [AsGetHPA (meta_Namespace (as_meta asc), meta_Name (as_meta asc))])"
    "reconcileVPA e (as_meta asc) (as_gvk asc) pg tr =
      (Panic ''nil pointer dereference'', tr @ [AsGetVPA (meta_Namespace (as_meta asc), meta_Name (as_meta asc))])"
    unfolding scaling_defs by (rule lookup_then_panic, simp add: assms, simp split: option.split)+
  show ?thesis
  proof (cases "pol_Provider pg = ''KubernetesHPA''")
    case True
    with assms(1) have "pol_Horizontal pg \<noteq> None" by (simp add: acted_on_def)
    with True panics(1) show ?thesis by (simp add: reconcile_policy_def bind_io_def)
  next
    case False
    with assms(1) have "pol_Provider pg = ''KubernetesVPA''" "pol_Vertical pg \<noteq> None" by (simp_all add: acted_on_def)
    with panics(2) show ?thesis by (simp add: reconcile_policy_def)
  qed
qed

lemma policy_ignored: "\<not> acted_on pg \<Longrightarrow> reconcile_policy e asc pg = ret ()"
  by (auto simp: acted_on_def reconcile_policy_def)

lemma policies_panic:
  assumes "list_ex acted_on pgs" and "\<And>tr nn. lookup_works (ase_get_hpa e tr nn)" and "\<And>tr nn. lookup_works (ase_get_vpa e tr nn)"
  shows "\<exists>p tr'. seq_io (reconcile_policy e asc) pgs tr = (Panic p, tr')"
  using assms(1)
proof (induction pgs)
  case (Cons pg pgs)
  show ?case
  proof (cases "acted_on pg")
    case True
    from policy_acted_on_panics [OF this assms(2,3)] obtain p tr' where "reconcile_policy e asc pg tr = (Panic p, tr')"
      by blast
    then show ?thesis by (simp add: bind_io_def)
  next
    case False
    with Cons show ?thesis by (simp add: policy_ignored)
  qed
qed simp

section \<open>Properties\<close>

text \<open>
  C26. The controller never creates or updates an autoscaler of Kubernetes, in any environment, and a
  pass over an autoscaler that has a policy for \<^verbatim>\<open>KubernetesHPA\<close> or \<^verbatim>\<open>KubernetesVPA\<close> panics once the
  present objects can be looked up: the builders start with nil pointers.
\<close>

theorem autoscaler_never_scales:
  assumes "ase_get e h req = Inr asc" and "list_ex acted_on (as_PolicyGroup asc)"
    and "\<And>tr nn. lookup_works (ase_get_hpa e tr nn)" and "\<And>tr nn. lookup_works (ase_get_vpa e tr nn)"
  shows "(\<exists>p. fst (as_Reconcile e req h) = Panic p) \<and> within (\<lambda>c. \<not> changes_scaling c) (as_Reconcile e' req')"
proof
  obtain p tr' where run: "reconcileAutoScaler e asc (h @ [AsGet req]) = (Panic p, tr')"
    using policies_panic [OF assms(2-), of asc "h @ [AsGet req]"] by (auto simp: reconcileAutoScaler_def)
  have "as_Reconcile e req h = bind_io (attempt (reconcileAutoScaler e asc)) (\<lambda>_. ret (res_after, None)) (h @ [AsGet req])"
    using assms(1) by (simp add: as_Reconcile_def)
  also have "\<dots> = (Panic p, tr')"
    using run by (simp add: bind_io_def attempt_def)
  finally show "\<exists>p. fst (as_Reconcile e req h) = Panic p" by simp
  show "within (\<lambda>c. \<not> changes_scaling c) (as_Reconcile e' req')"
    unfolding as_Reconcile_def reconcileAutoScaler_def
    by (intro within_intros within_reconcile_policy) simp_all
qed

text \<open>An environment with one autoscaler, which asks for a horizontal one that does not exist yet.\<close>

definition example_policy :: ScalingPolicy where
  "example_policy = \<lparr>pol_TargetSelector = Some \<lparr>ors_ObjectRef = \<lparr>ref_Kind = ''ComputeNode'', ref_Name = ''cn'',
     ref_APIVersion = ''shardingsphere.apache.org/v1alpha1''\<rparr>, ors_Selector = None\<rparr>,
     pol_Provider = ''KubernetesHPA'', pol_Horizontal = Some \<lparr>hs_MaxReplicas = 3, hs_MinReplicas = 1,
     hs_ScaleUpRules = None, hs_ScaleDownRules = None, hs_Metrics = None\<rparr>, pol_Vertical = None\<rparr>"

definition example_autoscaler :: AutoScaler where
  "example_autoscaler = \<lparr>as_gvk = \<lparr>gvk_Group = ''shardingsphere.apache.org'', gvk_Version = ''v1alpha1'',
     gvk_Kind = ''AutoScaler''\<rparr>, as_meta = zero_meta\<lparr>meta_Name := ''as'', meta_Namespace := ''ns''\<rparr>,
     as_PolicyGroup = [example_policy]\<rparr>"

definition example_scaling_env :: "lib \<Rightarrow> as_env" where
  "example_scaling_env l = \<lparr>ase_lib = l, ase_get = (\<lambda>tr nn. Inr example_autoscaler),
     ase_get_hpa = (\<lambda>tr nn. Inl (ApiError NotFound ''not found'')),
     ase_get_vpa = (\<lambda>tr nn. Inl (ApiError NotFound ''not found'')), ase_write = (\<lambda>tr c. Inr ())\<rparr>"

theorem autoscaler_never_scales_witness:
  "\<forall>l. \<exists>p. fst (as_Reconcile (example_scaling_env l) (''ns'', ''as'') []) = Panic p"
proof
  fix l
  show "\<exists>p. fst (as_Reconcile (example_scaling_env l) (''ns'', ''as'') []) = Panic p"
    using autoscaler_never_scales [of "example_scaling_env l" "[]" "(''ns'', ''as'')" example_autoscaler
        "example_scaling_env l" "(''ns'', ''as'')"]
    by (simp_all add: example_scaling_env_def example_autoscaler_def example_policy_def acted_on_def lookup_works_def)
qed

end
