(* ===== verification/Pitr_Types.thy ===== *)
theory Pitr_Types
  imports Io_Calls
begin

text \<open>
  The data of the point-in-time recovery command line,
  \<^verbatim>\<open>solutions/opengauss/pitr/cli/internal/pkg/model\<close>, and everything it calls outside the
  repository: SQL statements to ShardingSphere-Proxy, HTTP requests to the agents, the file system,
  the terminal, the clock, random bytes. As for the controllers, an environment (\<open>pitr_env\<close>)
  answers every call as a function of the history of calls.

  A pointer that a JSON document can leave nil is an option, and using it is \<open>deref\<close>. A Go map that
  is only iterated is an association list; in which order \<^verbatim>\<open>range\<close> visits it, in which order
  goroutines run and in which order they send is decided by the environment (\<open>sched\<close>, \<open>shuffle\<close>).
\<close>

section \<open>Data\<close>

type_synonym u8 = "8 word"
type_synonym u16 = "16 word"
type_synonym BackupStatus = string

abbreviation (input) SsBackupStatusWaiting :: BackupStatus where "SsBackupStatusWaiting \<equiv> ''Waiting''"
abbreviation (input) SsBackupStatusRunning :: BackupStatus where "SsBackupStatusRunning \<equiv> ''Running''"
abbreviation (input) SsBackupStatusCompleted :: BackupStatus where "SsBackupStatusCompleted \<equiv> ''Completed''"
abbreviation (input) SsBackupStatusFailed :: BackupStatus where "SsBackupStatusFailed \<equiv> ''Failed''"
abbreviation (input) SsBackupStatusCheckError :: BackupStatus where "SsBackupStatusCheckError \<equiv> ''CheckError''"
abbreviation (input) SsBackupStatusCanceled :: BackupStatus where "SsBackupStatusCanceled \<equiv> ''Canceled''"

record SnapshotInfo =
  Csn :: string
  CreateTime :: string

record MetaData =
  Databases :: "(string \<times> string) list option"
  Props :: string
  Rules :: string

record ClusterInfo =
  ci_MetaData :: MetaData
  ci_SnapshotInfo :: "SnapshotInfo option"

record DbNode =
  node_IP :: string
  node_Port :: u16
  node_Username :: string
  node_Password :: string
  node_Database :: string
  node_Remark :: string

record SsBackup =
  ss_Status :: BackupStatus
  ss_ClusterInfo :: "ClusterInfo option"
  ss_StorageNodes :: "DbNode option list"

record BackupMetaInfo =
  info_ID :: string
  info_CSN :: string
  info_BackupMode :: string
  info_StartTime :: string
  info_EndTime :: string
  info_FileName :: string

record DataNode =
  dn_IP :: string
  dn_Port :: u16
  dn_Status :: BackupStatus
  dn_BackupID :: string
  dn_StartTime :: string
  dn_EndTime :: string

record LsBackup =
  ls_Info :: "BackupMetaInfo option"
  ls_DnList :: "DataNode option list"
  ls_SsBackup :: "SsBackup option"

record BackupInfo =
  bi_ID :: string
  bi_Path :: string
  bi_Mode :: string
  bi_Instance :: string
  bi_StartTime :: string
  bi_EndTime :: string
  bi_Status :: BackupStatus

definition zero_BackupInfo :: BackupInfo where
  "zero_BackupInfo = \<lparr>bi_ID = [], bi_Path = [], bi_Mode = [], bi_Instance = [], bi_StartTime = [], bi_EndTime = [], bi_Status = []\<rparr>"

section \<open>Requests\<close>

text \<open>The database a request is about: the four fields every request but that for the disk space has.\<close>

record DbAccess =
  DBPort :: u16
  DBName :: string
  DBUser :: string
  DBPassword :: string

record BackupIn = DbAccess +
  bk_DnBackupPath :: string
  bk_DnThreadsNum :: u8
  bk_DnBackupMode :: string
  bk_Instance :: string

record DeleteBackupIn = DbAccess +
  del_DnBackupPath :: string
  del_BackupID :: string
  del_Instance :: string

record RestoreIn = DbAccess +
  rst_Instance :: string
  rst_DnBackupPath :: string
  rst_DnBackupID :: string
  rst_DnThreadsNum :: u8

record ShowListIn = DbAccess +
  sl_DnBackupPath :: string
  sl_Instance :: string

record ShowDetailIn = DbAccess +
  sd_DnBackupID :: string
  sd_DnBackupPath :: string
  sd_Instance :: string

datatype agent_body =
    HealthCheckBody DbAccess
  | BackupBody BackupIn
  | DeleteBackupBody DeleteBackupIn
  | RestoreBody RestoreIn
  | ShowDetailBody ShowDetailIn
  | ShowListBody ShowListIn
  | DiskSpaceBody string

datatype http_method = MethodPost | MethodDelete

text \<open>The answer of an agent: every response type has these three fields.\<close>

record 'd agent_resp =
  Code :: int
  Msg :: string
  Data :: 'd

record RestoreResult =
  rr_IP :: string
  rr_Port :: u16
  rr_Status :: string

record DeleteBackupResult =
  dbr_IP :: string
  dbr_Port :: u16
  dbr_Status :: BackupStatus
  dbr_Msg :: string

section \<open>Flags\<close>

text \<open>The variables of \<^verbatim>\<open>internal/cmd/root.go\<close> that the flags set, which no command changes.\<close>

record Flags =
  Host :: string
  Port :: u16
  Username :: string
  Password :: string
  AgentPort :: u16
  BackupPath :: string
  BackupModeStr :: string
  ThreadsNum :: u8
  CSN :: string
  RecordID :: string

section \<open>The environment\<close>

text \<open>
  A query has a row or not, the row can be scanned or not, and closing and the iteration may
  fail. A directory entry has a name, says whether it is a directory, and answers \<^verbatim>\<open>Info()\<close>.
\<close>

record query_result =
  qr_Next :: bool
  qr_Scan :: "gerror + string"
  qr_Close :: "gerror option"
  qr_Err :: "gerror option"

record dir_entry =
  de_Name :: string
  de_IsDir :: bool
  de_Info :: "gerror + string"

datatype pitr_call =
    DbOpen string
  | DbPing
  | DbExec string
  | DbQuery string
  | HttpDo http_method string agent_body
  | FileStat string
  | FileMkdir string
  | FileCreate string
  | FileWrite string string
  | DirRead string
  | FileRead string
  | FileRename string string
  | FileRemove string
  | StdinScan string
  | Stdout string
  | ClockNow
  | RandomByte
  | NewUuid

type_synonym 'a pio = "(pitr_call, 'a) io"

record pitr_env =
  db_open :: "pitr_call list \<Rightarrow> string \<Rightarrow> gerror + unit"
  db_ping :: "pitr_call list \<Rightarrow> gerror + unit"
  db_exec :: "pitr_call list \<Rightarrow> string \<Rightarrow> gerror + unit"
  db_query :: "pitr_call list \<Rightarrow> string \<Rightarrow> gerror + query_result"
  http_new_request :: "string \<Rightarrow> gerror + unit"
  http_do :: "pitr_call list \<Rightarrow> http_method \<Rightarrow> string \<Rightarrow> agent_body \<Rightarrow> gerror + (gerror + int \<times> string)"
  file_stat :: "pitr_call list \<Rightarrow> string \<Rightarrow> gerror + bool"
  file_mkdir :: "pitr_call list \<Rightarrow> string \<Rightarrow> gerror + unit"
  file_create :: "pitr_call list \<Rightarrow> string \<Rightarrow> gerror + unit"
  file_write :: "pitr_call list \<Rightarrow> string \<Rightarrow> string \<Rightarrow> gerror + unit"
  dir_read :: "pitr_call list \<Rightarrow> string \<Rightarrow> gerror + dir_entry list"
  file_read :: "pitr_call list \<Rightarrow> string \<Rightarrow> gerror + string"
  file_rename :: "pitr_call list \<Rightarrow> string \<Rightarrow> string \<Rightarrow> gerror + unit"
  file_remove :: "pitr_call list \<Rightarrow> string \<Rightarrow> gerror + unit"
  stdin_scan :: "pitr_call list \<Rightarrow> gerror + string"
  now_utc :: "pitr_call list \<Rightarrow> string"
  now_text :: "pitr_call list \<Rightarrow> string"
  random_byte :: "pitr_call list \<Rightarrow> nat"
  new_uuid :: "pitr_call list \<Rightarrow> string"
  home_dir :: string
  base64_decode :: "string \<Rightarrow> gerror + string"
  base64_encode :: "string \<Rightarrow> string"
  json_cluster :: "string \<Rightarrow> gerror + ClusterInfo"
  json_nodes :: "string \<Rightarrow> gerror + (string \<times> DbNode option list) list option"
  json_backup :: "string \<Rightarrow> gerror + LsBackup"
  marshal_cluster :: "ClusterInfo \<Rightarrow> gerror + string"
  show_cluster :: "ClusterInfo \<Rightarrow> string"
  marshal_backup :: "LsBackup \<Rightarrow> gerror + string"
  marshal_show :: "LsBackup \<Rightarrow> gerror + string"
  json_resp_unit :: "string \<Rightarrow> gerror + unit agent_resp"
  json_resp_text :: "string \<Rightarrow> gerror + string agent_resp"
  json_resp_backup :: "string \<Rightarrow> gerror + string agent_resp"
  json_resp_detail :: "string \<Rightarrow> gerror + BackupInfo agent_resp"
  json_resp_list :: "string \<Rightarrow> gerror + BackupInfo list agent_resp"
  sched :: "pitr_call list \<Rightarrow> string \<Rightarrow> nat \<Rightarrow> nat"
  render_stops :: "nat \<Rightarrow> bool"

section \<open>Values that may be nil, and orders\<close>

definition deref :: "'a option \<Rightarrow> ('c, 'a) io" where
  "deref p = (case p of None \<Rightarrow> panic ''nil pointer dereference'' | Some x \<Rightarrow> ret x)"

fun insert_at :: "nat \<Rightarrow> 'a \<Rightarrow> 'a list \<Rightarrow> 'a list" where
  "insert_at 0 x xs = x # xs"
| "insert_at (Suc n) x [] = [x]"
| "insert_at (Suc n) x (y # ys) = y # insert_at n x ys"

text \<open>\<open>shuffle f xs\<close> runs through all orders of \<open>xs\<close> when \<open>f\<close> runs through all functions.\<close>

fun shuffle :: "(nat \<Rightarrow> nat) \<Rightarrow> 'a list \<Rightarrow> 'a list" where
  "shuffle f [] = []"
| "shuffle f (x # xs) = insert_at (f (length xs)) x (shuffle f xs)"

definition in_some_order :: "pitr_env \<Rightarrow> string \<Rightarrow> 'a list \<Rightarrow> 'a list pio" where
  "in_some_order e place xs = (\<lambda>tr. ret (shuffle (sched e tr place) xs) tr)"

fun map_io :: "('a \<Rightarrow> ('c, 'b) io) \<Rightarrow> 'a list \<Rightarrow> ('c, 'b list) io" where
  "map_io f [] = ret []"
| "map_io f (x # xs) = bind_io (f x) (\<lambda>y. bind_io (map_io f xs) (\<lambda>ys. ret (y # ys)))"

section \<open>Facts\<close>

lemma deref_io [simp]: "deref None = panic ''nil pointer dereference''" "deref (Some x) = ret x"
  by (simp_all add: deref_def)

lemma deref_Ok [simp]: "deref p h = (Ok x, h') \<longleftrightarrow> p = Some x \<and> h' = h"
  by (cases p) auto

lemma within_deref [within_intros]: "within P (deref p)"
  by (cases p) simp_all

lemma set_insert_at [simp]: "set (insert_at n x xs) = insert x (set xs)"
  by (induction n x xs rule: insert_at.induct) auto

lemma distinct_insert_at: "distinct (insert_at n x xs) \<longleftrightarrow> x \<notin> set xs \<and> distinct xs"
  by (induction n x xs rule: insert_at.induct) auto

lemma length_insert_at [simp]: "length (insert_at n x xs) = Suc (length xs)"
  by (induction n x xs rule: insert_at.induct) auto

lemma map_insert_at: "map g (insert_at n x xs) = insert_at n (g x) (map g xs)"
  by (induction n x xs rule: insert_at.induct) auto

lemma set_shuffle [simp]: "set (shuffle f xs) = set xs"
  by (induction xs) auto

lemma length_shuffle [simp]: "length (shuffle f xs) = length xs"
  by (induction xs) auto

lemma distinct_shuffle [simp]: "distinct (shuffle f xs) = distinct xs"
  by (induction xs) (auto simp: distinct_insert_at)

lemma map_shuffle: "map g (shuffle f xs) = shuffle f (map g xs)"
  by (induction xs) (auto simp: map_insert_at)

lemma within_in_some_order [within_intros]: "within P (in_some_order e place xs)"
  by (simp add: in_some_order_def within_def)

lemma within_map_io [within_intros]: "(\<And>x. within P (f x)) \<Longrightarrow> within P (map_io f xs)"
  by (induction xs) (auto intro!: within_intros)

text \<open>What a loop that came to its end did for each of its elements.\<close>

lemma map_io_Ok:
  assumes "map_io f xs tr = (Ok ys, tr')"
  shows "length ys = length xs \<and> (\<forall>i < length xs. \<exists>h h'. f (xs ! i) h = (Ok (ys ! i), h'))"
  using assms
proof (induction xs arbitrary: tr ys)
  case (Cons x xs)
  then obtain y zs h where "f x tr = (Ok y, h)" "map_io f xs h = (Ok zs, tr')" "ys = y # zs"
    by (auto simp: bind_io_Ok_iff)
  with Cons.IH [of h zs] show ?case by (auto simp: nth_Cons split: nat.split)
qed simp

end
