(* ===== verification/Pitr_Services.thy ===== *)
theory Pitr_Services
  imports Pitr_Types
begin

text \<open>
  What the commands of the point-in-time recovery tool call: the connection to
  ShardingSphere-Proxy (\<^verbatim>\<open>internal/pkg/shardingsphere-proxy.go\<close>, \<^verbatim>\<open>pkg/gsutil/conn.go\<close>), the agents
  (\<^verbatim>\<open>internal/pkg/agent-server.go\<close>, \<^verbatim>\<open>pkg/httputils/req.go\<close>, \<^verbatim>\<open>internal/pkg/xerr\<close>), the records of
  the backups on the local disk (\<^verbatim>\<open>internal/pkg/local-storage.go\<close>) and the prompt
  (\<^verbatim>\<open>pkg/promptutil\<close>). Log lines and the header \<^verbatim>\<open>x-request-id\<close> are left out.
\<close>

section \<open>Errors\<close>

text \<open>\<^verbatim>\<open>errors.Unwrap\<close>, and the text \<^verbatim>\<open>%s\<close> prints for an error that may be nil.\<close>

fun Unwrap :: "gerror \<Rightarrow> gerror option" where
  "Unwrap (WrapError p e) = Some e"
| "Unwrap _ = None"

definition nil_text :: "gerror option \<Rightarrow> string" where
  "nil_text err = (case err of None \<Rightarrow> ''%!s(<nil>)'' | Some e \<Rightarrow> error_text e)"

definition NewCliErr :: "string \<Rightarrow> gerror" where
  "NewCliErr msg = NewError msg"

definition NewHTTPRawRequestErr :: "gerror option \<Rightarrow> gerror" where
  "NewHTTPRawRequestErr err = NewError (''err='' @ nil_text err)"

definition NewAgentServerErr :: "int \<Rightarrow> string \<Rightarrow> gerror" where
  "NewAgentServerErr c msg = NewError (''agent server err[code='' @ show_int c @ '', msg='' @ msg @ '']'')"

text \<open>\<^verbatim>\<open>xerr.NewCliErr(fmt.Sprintf("p%s", err))\<close> on the error path.\<close>

definition cli_err :: "string \<Rightarrow> 'a pio \<Rightarrow> 'a pio" where
  "cli_err p m = flat_err p m"

definition from_option :: "string \<Rightarrow> gerror option \<Rightarrow> unit pio" where
  "from_option p err = (case err of None \<Rightarrow> ret () | Some e \<Rightarrow> fail (NewCliErr (p @ error_text e)))"

definition from_result :: "gerror + 'a \<Rightarrow> ('c, 'a) io" where
  "from_result r = (case r of Inl e \<Rightarrow> fail e | Inr x \<Rightarrow> ret x)"

definition show_u16 :: "u16 \<Rightarrow> string" where
  "show_u16 w = show_nat (unat w)"

section \<open>ShardingSphere-Proxy\<close>

definition trim_spaces :: "string \<Rightarrow> string" where
  "trim_spaces s = rev (dropWhile (\<lambda>c. c = CHR '' '') (rev (dropWhile (\<lambda>c. c = CHR '' '') s)))"

definition place_text :: "string \<Rightarrow> u16 \<Rightarrow> string \<Rightarrow> string \<Rightarrow> string \<Rightarrow> string" where
  "place_text host port user password dbName =
     ''[host='' @ host @ '',port='' @ show_u16 port @ '',user='' @ user @ '',pwLen=''
       @ show_nat (length password) @ '',dbName='' @ dbName @ ''],err=''"

definition Open :: "pitr_env \<Rightarrow> string \<Rightarrow> string \<Rightarrow> string \<Rightarrow> string \<Rightarrow> u16 \<Rightarrow> unit pio" where
  "Open e user password dbName host port =
     (if trim_spaces user = [] then fail (NewError ''user is empty'')
      else if trim_spaces password = [] then fail (NewError ''password is empty'')
      else if trim_spaces dbName = [] then fail (NewError ''db name is empty'')
      else let connStr = ''host='' @ host @ '' port='' @ show_u16 port @ '' user='' @ user
                 @ '' password='' @ password @ '' dbname='' @ dbName @ '' sslmode=disable''
           in flat_err (''sql:open fail'' @ place_text host port user password dbName)
                (call (DbOpen connStr) (\<lambda>tr. db_open e tr connStr)))"

definition DefaultDBName :: string where "DefaultDBName = ''postgres''"

definition NewShardingSphereProxy :: "pitr_env \<Rightarrow> string \<Rightarrow> string \<Rightarrow> string \<Rightarrow> string \<Rightarrow> u16 \<Rightarrow> unit pio" where
  "NewShardingSphereProxy e user password dbName host port =
     bind_io (Open e user password dbName host port) (\<lambda>_.
       flat_err (''db ping fail'' @ place_text host port user password dbName)
         (call DbPing (db_ping e)))"

definition db_Exec :: "pitr_env \<Rightarrow> string \<Rightarrow> unit pio" where
  "db_Exec e stmt = call (DbExec stmt) (\<lambda>tr. db_exec e tr stmt)"

definition lock_statement :: string where
  "lock_statement = ''LOCK CLUSTER WITH LOCK_STRATEGY(TYPE(NAME='' @ [CHR 0x22] @ ''WRITE'' @ [CHR 0x22]
     @ '', PROPERTIES('' @ [CHR 0x22] @ ''lock_csn'' @ [CHR 0x22] @ ''=true)));''"

definition unlock_statement :: string where "unlock_statement = ''UNLOCK CLUSTER;''"

definition LockForBackup :: "pitr_env \<Rightarrow> unit pio" where
  "LockForBackup e = cli_err ''shardingsphere lock for backup failure. err: '' (db_Exec e lock_statement)"

definition LockForRestore :: "pitr_env \<Rightarrow> unit pio" where
  "LockForRestore e = cli_err ''shardingsphere lock for restore failure. err: ''
     (db_Exec e (''LOCK CLUSTER WITH LOCK_STRATEGY(TYPE(NAME='' @ [CHR 0x22] @ ''READ_WRITE'' @ [CHR 0x22] @ ''))''))"

definition Unlock :: "pitr_env \<Rightarrow> unit pio" where
  "Unlock e = cli_err ''shardingsphere unlock failure. err: '' (db_Exec e unlock_statement)"

text \<open>The column \<^verbatim>\<open>data\<close> of the first row, and \<open>""\<close> when there is none.\<close>

definition scan_data :: "query_result \<Rightarrow> string pio" where
  "scan_data query =
     (if qr_Next query
      then bind_io (cli_err ''query scan failure. err: '' (from_result (qr_Scan query))) (\<lambda>data.
           bind_io (from_option ''query close failure. err: '' (qr_Close query)) (\<lambda>_. ret data))
      else ret [])"

definition ExportMetaData :: "pitr_env \<Rightarrow> ClusterInfo pio" where
  "ExportMetaData e =
     bind_io (cli_err ''export meta data failure. err: ''
       (call (DbQuery ''EXPORT METADATA;'') (\<lambda>tr. db_query e tr ''EXPORT METADATA;''))) (\<lambda>query.
     bind_io (scan_data query) (\<lambda>data.
     bind_io (from_option ''query err: '' (qr_Err query)) (\<lambda>_.
     bind_io (flat_err ''base64 decode return err: '' (from_result (base64_decode e data))) (\<lambda>rawDecodedText.
     bind_io (flat_err ''json unmarshal return err: '' (from_result (json_cluster e rawDecodedText))) (\<lambda>out.
       ret (case ci_SnapshotInfo out of
              None \<Rightarrow> out
            | Some s \<Rightarrow> if Csn s = [] then out\<lparr>ci_SnapshotInfo := None\<rparr> else out))))))"

text \<open>The key of the map that filters duplicate nodes.\<close>

definition node_key :: "DbNode \<Rightarrow> string" where
  "node_key vv = node_IP vv @ '':'' @ show_u16 (node_Port vv)"

fun filter_nodes :: "string set \<Rightarrow> DbNode list \<Rightarrow> DbNode option list \<Rightarrow> (string set \<times> DbNode list) pio" where
  "filter_nodes tmp acc [] = ret (tmp, acc)"
| "filter_nodes tmp acc (v # vs) =
     bind_io (deref v) (\<lambda>vv.
       if node_key vv \<in> tmp then filter_nodes tmp acc vs
       else filter_nodes (insert (node_key vv) tmp) (acc @ [vv]) vs)"

fun filter_databases :: "string set \<Rightarrow> DbNode list \<Rightarrow> (string \<times> DbNode option list) list \<Rightarrow> DbNode list pio" where
  "filter_databases tmp acc [] = ret acc"
| "filter_databases tmp acc ((k, v) # kvs) =
     bind_io (filter_nodes tmp acc v) (\<lambda>(tmp, acc). filter_databases tmp acc kvs)"

definition ExportStorageNodes :: "pitr_env \<Rightarrow> DbNode list pio" where
  "ExportStorageNodes e =
     bind_io (cli_err ''export storage nodes failure. err: ''
       (call (DbQuery ''EXPORT STORAGE NODES;'') (\<lambda>tr. db_query e tr ''EXPORT STORAGE NODES;''))) (\<lambda>query.
     bind_io (scan_data query) (\<lambda>data.
     bind_io (case qr_Err query of None \<Rightarrow> ret ()
              | Some _ \<Rightarrow> fail (NewCliErr (''query err failure. err: '' @ nil_text None))) (\<lambda>_.
     bind_io (flat_err ''json unmarshal return err: '' (from_result (json_nodes e data))) (\<lambda>out.
     bind_io (deref out) (\<lambda>nodes.
     bind_io (in_some_order e ''databases'' nodes) (filter_databases {} []))))))"

definition ImportMetaData :: "pitr_env \<Rightarrow> ClusterInfo option \<Rightarrow> unit pio" where
  "ImportMetaData e req =
     (case req of None \<Rightarrow> fail (NewCliErr ''import meta data is nil'')
      | Some c \<Rightarrow> (case marshal_cluster e c of
            Inl _ \<Rightarrow> fail (NewCliErr (''json marshal,invalid data[in='' @ show_cluster e c @ '']''))
          | Inr marshal \<Rightarrow> cli_err ''import metadata failure. err: ''
              (db_Exec e (''IMPORT METADATA '' @ [CHR 0x27] @ base64_encode e marshal @ [CHR 0x27, CHR '';'']))))"

definition drop_statement :: "string \<Rightarrow> string" where
  "drop_statement databaseName = ''DROP DATABASE '' @ databaseName @ '';''"

definition DropDatabase :: "pitr_env \<Rightarrow> string \<Rightarrow> unit pio" where
  "DropDatabase e databaseName = cli_err ''drop database failure. err: '' (db_Exec e (drop_statement databaseName))"

section \<open>Agents\<close>

definition NewRequest_url :: "string \<Rightarrow> string" where
  "NewRequest_url url = (if take 4 url = ''http'' then url else ''https://'' @ url)"

text \<open>
  \<^verbatim>\<open>Send\<close>: \<open>http_do\<close> answers with an error of the exchange or with what reading the body gives,
  the status code and the text. Marshalling a body of strings and numbers does not fail.
\<close>

definition Send :: "pitr_env \<Rightarrow> http_method \<Rightarrow> string \<Rightarrow> agent_body \<Rightarrow> (string \<Rightarrow> gerror + 'd agent_resp) \<Rightarrow> 'd agent_resp pio" where
  "Send e method url body unmarshal =
     (let url = NewRequest_url url
      in bind_io (wrap_err ''new request failure,err='' (from_result (http_new_request e url))) (\<lambda>_.
         bind_io (wrap_err ''http request err=''
           (call (HttpDo method url body) (\<lambda>tr. http_do e tr method url body))) (\<lambda>resp.
         bind_io (wrap_err ''invalid response,err='' (from_result resp)) (\<lambda>(code, all).
         bind_io (wrap_err ''json unmarshal return err='' (from_result (unmarshal all))) (\<lambda>out.
           if code \<noteq> 200
           then fail (NewError (''response status code is not 200, code='' @ show_int code))
           else ret out)))))"

text \<open>What the methods of \<^verbatim>\<open>agentServer\<close> do alike: send, unwrap the error, look at the code.\<close>

definition ask_agent :: "pitr_env \<Rightarrow> http_method \<Rightarrow> string \<Rightarrow> agent_body \<Rightarrow> (string \<Rightarrow> gerror + 'd agent_resp) \<Rightarrow> 'd pio" where
  "ask_agent e method url body unmarshal =
     bind_io (attempt (Send e method url body unmarshal)) (\<lambda>r. case r of
         Inl err \<Rightarrow> fail (NewHTTPRawRequestErr (Unwrap err))
       | Inr out \<Rightarrow> if Code out \<noteq> 0 then fail (NewAgentServerErr (Code out) (Msg out)) else ret (Data out))"

definition CheckStatus :: "pitr_env \<Rightarrow> string \<Rightarrow> DbAccess \<Rightarrow> unit pio" where
  "CheckStatus e addr req = ask_agent e MethodPost (addr @ ''/api/healthz'') (HealthCheckBody req) (json_resp_unit e)"

definition Backup :: "pitr_env \<Rightarrow> string \<Rightarrow> BackupIn \<Rightarrow> string pio" where
  "Backup e addr req = ask_agent e MethodPost (addr @ ''/api/backup'') (BackupBody req) (json_resp_backup e)"

definition Restore :: "pitr_env \<Rightarrow> string \<Rightarrow> RestoreIn \<Rightarrow> unit pio" where
  "Restore e addr req = ask_agent e MethodPost (addr @ ''/api/restore'') (RestoreBody req) (json_resp_unit e)"

definition ShowDetail :: "pitr_env \<Rightarrow> string \<Rightarrow> ShowDetailIn \<Rightarrow> BackupInfo pio" where
  "ShowDetail e addr req = ask_agent e MethodPost (addr @ ''/api/show'') (ShowDetailBody req) (json_resp_detail e)"

definition ShowList :: "pitr_env \<Rightarrow> string \<Rightarrow> ShowListIn \<Rightarrow> BackupInfo list pio" where
  "ShowList e addr req = ask_agent e MethodPost (addr @ ''/api/show/list'') (ShowListBody req) (json_resp_list e)"

definition ShowDiskSpace :: "pitr_env \<Rightarrow> string \<Rightarrow> string \<Rightarrow> string pio" where
  "ShowDiskSpace e addr req = ask_agent e MethodPost (addr @ ''/api/diskspace'') (DiskSpaceBody req) (json_resp_text e)"

definition DeleteBackup :: "pitr_env \<Rightarrow> string \<Rightarrow> DeleteBackupIn \<Rightarrow> string pio" where
  "DeleteBackup e addr req = ask_agent e MethodDelete (addr @ ''/api/backup'') (DeleteBackupBody req) (json_resp_text e)"

section \<open>The prompt\<close>

definition GetUserApproveInTerminal :: "pitr_env \<Rightarrow> string \<Rightarrow> unit pio" where
  "GetUserApproveInTerminal e prompt =
     bind_io (cli_err ''read user input failed:'' (call (StdinScan prompt) (stdin_scan e))) (\<lambda>answer.
       if answer \<notin> {''Y'', ''y'', ''yes'', ''YES'', ''Yes''} then fail (NewCliErr ''User abort'') else ret ())"

section \<open>Records on the local disk\<close>

definition backup_dir :: "string \<Rightarrow> string" where
  "backup_dir root = root @ ''/backup''"

definition DefaultRootDir :: "pitr_env \<Rightarrow> string" where
  "DefaultRootDir e = home_dir e @ ''/.gs_pitr''"

text \<open>One of the two halves of \<^verbatim>\<open>init\<close>: on an error \<^verbatim>\<open>Stat\<close> returns no file info.\<close>

definition init_dir :: "pitr_env \<Rightarrow> string \<Rightarrow> string \<Rightarrow> string \<Rightarrow> unit pio" where
  "init_dir e dir create_text info_text =
     bind_io (attempt (call (FileStat dir) (\<lambda>tr. file_stat e tr dir))) (\<lambda>st. case st of
         Inr _ \<Rightarrow> ret ()
       | Inl err \<Rightarrow>
           if IsNotFound err
           then flat_err (create_text @ dir @ '', err: '') (call (FileMkdir dir) (\<lambda>tr. file_mkdir e tr dir))
           else if IsAlreadyExists err then panic ''nil pointer dereference''
           else fail (NewError (info_text @ dir @ '', err: '' @ error_text err)))"

definition NewLocalStorage :: "pitr_env \<Rightarrow> string \<Rightarrow> unit pio" where
  "NewLocalStorage e root =
     bind_io (init_dir e root ''create root dir failure. dir: '' ''failed to get file info. root dir: '') (\<lambda>_.
       init_dir e (backup_dir root) ''create backup dir failure. dir: '' ''failed to get file info. backup dir: '')"

definition has_suffix :: "string \<Rightarrow> string \<Rightarrow> bool" where
  "has_suffix s suf = (length suf \<le> length s \<and> drop (length s - length suf) s = suf)"

definition ls_path :: "pitr_env \<Rightarrow> string \<Rightarrow> string" where
  "ls_path e name = backup_dir (DefaultRootDir e) @ ''/'' @ name"

definition WriteByJSON :: "pitr_env \<Rightarrow> string \<Rightarrow> LsBackup \<Rightarrow> unit pio" where
  "WriteByJSON e name contents =
     (if \<not> has_suffix name ''.json'' then fail (NewError (''wrong file extension. file name: '' @ name))
      else bind_io (from_result (marshal_backup e contents)) (\<lambda>data.
        let path = ls_path e name
        in bind_io (attempt (call (FileCreate path) (\<lambda>tr. file_create e tr path))) (\<lambda>c. case c of
             Inl _ \<Rightarrow> fail (NewError (''create file failure. file path: '' @ path))
           | Inr _ \<Rightarrow> bind_io (attempt (call (FileWrite path data) (\<lambda>tr. file_write e tr path data))) (\<lambda>w. case w of
                 Inl err \<Rightarrow> fail (NewError (''write to file failure. err: '' @ error_text err @ '', data: '' @ data))
               | Inr _ \<Rightarrow> ret ()))))"

text \<open>One round of the loop of \<^verbatim>\<open>ReadAll\<close>: nothing for a skipped entry.\<close>

definition read_entry :: "pitr_env \<Rightarrow> dir_entry \<Rightarrow> LsBackup option pio" where
  "read_entry e entry =
     (if de_IsDir entry then ret None
      else if take 1 (de_Name entry) = ''.'' then ret None
      else case de_Info entry of
        Inl err \<Rightarrow> if IsNotFound err then fail (NewCliErr ''The file does not exist or has changed'')
                   else fail (NewCliErr (''Unknown err: get entry info failed. err: '' @ error_text err))
      | Inr name \<Rightarrow>
          if \<not> has_suffix name ''.json'' then ret None
          else let path = ls_path e name
               in bind_io (cli_err ''read file failed. err: '' (call (FileRead path) (\<lambda>tr. file_read e tr path))) (\<lambda>file.
                  bind_io (cli_err (''invalid contents[filePath='' @ path @ '']. err: '') (from_result (json_backup e file))) (\<lambda>b.
                  bind_io (deref (ls_Info b)) (\<lambda>info.
                    ret (Some (b\<lparr>ls_Info := Some (info\<lparr>info_FileName := name\<rparr>)\<rparr>))))))"

definition ReadAll :: "pitr_env \<Rightarrow> LsBackup list pio" where
  "ReadAll e =
     (let dir = backup_dir (DefaultRootDir e)
      in bind_io (cli_err (''read the dir[path:'' @ dir @ ''] failed. err: '')
           (call (DirRead dir) (\<lambda>tr. dir_read e tr dir))) (\<lambda>entries.
         bind_io (map_io (read_entry e) entries) (\<lambda>bs. ret (List.map_filter id bs))))"

text \<open>The loops that look for a record: \<^verbatim>\<open>v.Info\<close> is set by \<^verbatim>\<open>ReadAll\<close>.\<close>

definition info_of :: "LsBackup \<Rightarrow> BackupMetaInfo pio" where
  "info_of b = deref (ls_Info b)"

fun find_backup :: "(BackupMetaInfo \<Rightarrow> bool) \<Rightarrow> LsBackup list \<Rightarrow> LsBackup pio" where
  "find_backup p [] = fail (NewCliErr ''Not found'')"
| "find_backup p (v # vs) = bind_io (info_of v) (\<lambda>i. if p i then ret v else find_backup p vs)"

fun filter_backups :: "(BackupMetaInfo \<Rightarrow> bool) \<Rightarrow> LsBackup list \<Rightarrow> LsBackup list pio" where
  "filter_backups p [] = ret []"
| "filter_backups p (v # vs) =
     bind_io (info_of v) (\<lambda>i. bind_io (filter_backups p vs) (\<lambda>bs. ret (if p i then v # bs else bs)))"

definition ReadByCSN :: "pitr_env \<Rightarrow> string \<Rightarrow> LsBackup pio" where
  "ReadByCSN e csn = bind_io (ReadAll e) (find_backup (\<lambda>i. info_CSN i = csn))"

definition ReadAllByCSN :: "pitr_env \<Rightarrow> string \<Rightarrow> LsBackup list pio" where
  "ReadAllByCSN e csn = bind_io (ReadAll e) (filter_backups (\<lambda>i. info_CSN i = csn))"

definition ReadByID :: "pitr_env \<Rightarrow> string \<Rightarrow> LsBackup pio" where
  "ReadByID e rid = bind_io (ReadAll e) (find_backup (\<lambda>i. info_ID i = rid))"

definition charSet :: string where
  "charSet = ''0123456789abcdefghijklmnopqrstuvwxyzABCDEFGHIJKLMNOPQRSTUVWXYZ''"

definition Random :: "pitr_env \<Rightarrow> nat \<Rightarrow> string pio" where
  "Random e n = bind_io (map_io (\<lambda>_. call RandomByte (\<lambda>tr. Inr (random_byte e tr mod 256))) (replicate n ()))
     (\<lambda>bs. ret (map (\<lambda>v. charSet ! (v mod length charSet)) bs))"

definition GenFilename :: "pitr_env \<Rightarrow> string \<Rightarrow> string pio" where
  "GenFilename e extn =
     bind_io (call ClockNow (\<lambda>tr. Inr (now_utc e tr))) (\<lambda>prefix.
     bind_io (Random e 8) (\<lambda>suffix.
       ret (if extn = ''JSON'' then prefix @ ''_'' @ suffix @ ''.json'' else prefix @ ''_'' @ suffix)))"

definition ls_deleteByName :: "pitr_env \<Rightarrow> string \<Rightarrow> unit pio" where
  "ls_deleteByName e name = cli_err ''delete file failed. err: ''
     (call (FileRemove (ls_path e name)) (\<lambda>tr. file_remove e tr (ls_path e name)))"

definition DeleteByName :: "pitr_env \<Rightarrow> string \<Rightarrow> unit pio" where
  "DeleteByName e name = ls_deleteByName e name"

definition DeleteByHidedName :: "pitr_env \<Rightarrow> string \<Rightarrow> unit pio" where
  "DeleteByHidedName e name = ls_deleteByName e (''.'' @ name)"

definition HideByName :: "pitr_env \<Rightarrow> string \<Rightarrow> unit pio" where
  "HideByName e name =
     (let path = ls_path e name; hided = ls_path e (''.'' @ name)
      in cli_err ''hide file failed. err: '' (call (FileRename path hided) (\<lambda>tr. file_rename e tr path hided)))"

end
