(* ===== verification/Pitr_Commands.thy ===== *)
theory Pitr_Commands
  imports Pitr_Services
begin

text \<open>
  The commands of the point-in-time recovery tool, \<^verbatim>\<open>internal/cmd/{common,backup,restore,delete,show}.go\<close>
  and the progress printer \<^verbatim>\<open>pkg/prettyoutput/progress.go\<close>.

  The commands start one goroutine per storage node and wait until a progress writer (a library)
  stops. The goroutines run in steps of one request each; which one is next is decided by the
  environment (\<open>sched\<close>), and \<open>render_stops k\<close> says whether the writer stops when \<open>k\<close> trackers are not
  in a final state. Waiting may last forever, so \<open>run_tasks\<close> has a number of rounds as its
  argument and the value \<open>None\<close> means that the command is still waiting. Tables and log lines are
  left out.
\<close>

section \<open>Waiting for goroutines\<close>

definition pick :: "pitr_env \<Rightarrow> nat \<Rightarrow> nat pio" where
  "pick e m = (\<lambda>tr. ret (sched e tr ''goroutine'' m mod m) tr)"

text \<open>
  \<^verbatim>\<open>UpdateProgress\<close> of every task and \<^verbatim>\<open>BlockedRendered\<close> of the command: a step of a task either
  leaves it waiting for its next tick (\<open>Inl\<close>), or sends its result and puts its tracker into a
  final state (\<open>Inr\<close>). \<open>s\<close> is the memory the tasks share, \<open>rs\<close> what is in the channel.
\<close>

fun run_tasks :: "pitr_env \<Rightarrow> ('t \<Rightarrow> 's \<Rightarrow> ('s \<times> ('t + 'r)) pio) \<Rightarrow> nat \<Rightarrow> 't list \<Rightarrow> 's \<Rightarrow> 'r list
    \<Rightarrow> ('s \<times> 'r list) option pio" where
  "run_tasks e step 0 ts s rs = ret (if render_stops e (length ts) then Some (s, rs) else None)"
| "run_tasks e step (Suc n) ts s rs =
     (if render_stops e (length ts) then ret (Some (s, rs))
      else if ts = [] then run_tasks e step n [] s rs
      else bind_io (pick e (length ts)) (\<lambda>k. bind_io (step (ts ! k) s) (\<lambda>(s', out). case out of
             Inl t \<Rightarrow> run_tasks e step n (ts[k := t]) s' rs
           | Inr r \<Rightarrow> run_tasks e step n (take k ts @ drop (Suc k) ts) s' (rs @ [r]))))"

section \<open>common.go\<close>

definition validate :: "pitr_env \<Rightarrow> Flags \<Rightarrow> LsBackup list pio" where
  "validate e f =
     bind_io (if CSN f \<noteq> [] then cli_err ''read backup record by csn failed. err: '' (ReadAllByCSN e (CSN f))
              else ret []) (\<lambda>baks.
     bind_io (if RecordID f \<noteq> []
              then bind_io (cli_err ''read backup record by id failed. err: '' (ReadByID e (RecordID f))) (\<lambda>b. ret (baks @ [b]))
              else ret baks) (\<lambda>baks.
       if length baks = 0 then fail (NewCliErr (''backup record not found. err: '' @ nil_text None))
       else if length baks > 1
       then fail (NewCliErr ''multiple backup records found. please using ID to submit one specific record.'')
       else ret baks))"

definition convertLocalhost :: "Flags \<Rightarrow> string \<Rightarrow> string" where
  "convertLocalhost f ip = (if ip = ''127.0.0.1'' then Host f else ip)"

definition agent_addr :: "Flags \<Rightarrow> DbNode \<Rightarrow> string" where
  "agent_addr f sn = convertLocalhost f (node_IP sn) @ '':'' @ show_u16 (AgentPort f)"

definition health_check :: "DbNode \<Rightarrow> DbAccess" where
  "health_check sn = \<lparr>DBPort = node_Port sn, DBName = node_Database sn,
     DBUser = node_Username sn, DBPassword = node_Password sn\<rparr>"

text \<open>The second loop of \<^verbatim>\<open>checkAgentServerStatus\<close>.\<close>

fun asDuplicate :: "string set \<Rightarrow> string list \<Rightarrow> bool" where
  "asDuplicate asMap [] = False"
| "asDuplicate asMap (ip # ips) = (if ip \<in> asMap then True else asDuplicate (insert ip asMap) ips)"

definition check_agent :: "pitr_env \<Rightarrow> Flags \<Rightarrow> DbNode option \<Rightarrow> (DbNode \<times> bool) pio" where
  "check_agent e f node =
     bind_io (deref node) (\<lambda>sn. bind_io (attempt (CheckStatus e (agent_addr f sn) (health_check sn))) (\<lambda>r.
       ret (sn, case r of Inl _ \<Rightarrow> False | Inr _ \<Rightarrow> True)))"

definition checkAgentServerStatus :: "pitr_env \<Rightarrow> Flags \<Rightarrow> LsBackup \<Rightarrow> bool pio" where
  "checkAgentServerStatus e f lsBackup =
     bind_io (deref (ls_SsBackup lsBackup)) (\<lambda>ss.
     bind_io (map_io (check_agent e f) (ss_StorageNodes ss)) (\<lambda>statusList.
       if asDuplicate {} (map (node_IP \<circ> fst) statusList) then ret False
       else ret (list_all snd statusList)))"

definition checkDiskSpace :: "pitr_env \<Rightarrow> Flags \<Rightarrow> LsBackup \<Rightarrow> unit pio" where
  "checkDiskSpace e f lsBackup =
     bind_io (deref (ls_SsBackup lsBackup)) (\<lambda>ss.
     seq_io (\<lambda>node. bind_io (deref node) (\<lambda>sn.
       bind_io (attempt (ShowDiskSpace e (agent_addr f sn) (BackupPath f))) (\<lambda>_. ret ()))) (ss_StorageNodes ss))"

text \<open>\<^verbatim>\<open>for _, dn := range lsBackup.DnList { dataNodeMap[dn.IP] = dn }\<close>\<close>

fun fill_node_map :: "(string \<rightharpoonup> DataNode) \<Rightarrow> DataNode option list \<Rightarrow> (string \<rightharpoonup> DataNode) pio" where
  "fill_node_map m [] = ret m"
| "fill_node_map m (p # ps) = bind_io (deref p) (\<lambda>dn. fill_node_map (m(dn_IP dn \<mapsto> dn)) ps)"

definition defaultInstance :: string where "defaultInstance = ''ins-default-ss''"

section \<open>backup.go\<close>

definition BackupMode :: "Flags \<Rightarrow> string" where
  "BackupMode f = (if BackupModeStr f \<in> {''FULL'', ''full''} then ''FULL''
                   else if BackupModeStr f \<in> {''PTRACK'', ''ptrack''} then ''PTRACK'' else [])"

definition time_now :: "pitr_env \<Rightarrow> string pio" where
  "time_now e = call ClockNow (\<lambda>tr. Inr (now_text e tr))"

definition exportData :: "pitr_env \<Rightarrow> Flags \<Rightarrow> (string \<times> LsBackup) pio" where
  "exportData e f =
     bind_io (cli_err ''export meta data failed. err: '' (ExportMetaData e)) (\<lambda>cluster.
     bind_io (cli_err ''export storage nodes failed. err: '' (ExportStorageNodes e)) (\<lambda>nodes.
     bind_io (GenFilename e ''JSON'') (\<lambda>filename.
     let csn = (case ci_SnapshotInfo cluster of None \<Rightarrow> [] | Some s \<Rightarrow> Csn s)
     in bind_io (call NewUuid (\<lambda>tr. Inr (new_uuid e tr))) (\<lambda>uuid.
        bind_io (time_now e) (\<lambda>start.
        let contents = \<lparr>ls_Info = Some \<lparr>info_ID = uuid, info_CSN = csn, info_BackupMode = BackupMode f,
                          info_StartTime = start, info_EndTime = [], info_FileName = []\<rparr>,
                        ls_DnList = [],
                        ls_SsBackup = Some \<lparr>ss_Status = SsBackupStatusWaiting, ss_ClusterInfo = Some cluster,
                          ss_StorageNodes = map Some nodes\<rparr>\<rparr>
        in bind_io (cli_err ''write backup info by json failed. err: '' (WriteByJSON e filename contents)) (\<lambda>_.
           ret (filename, contents)))))))"

definition backup_in :: "Flags \<Rightarrow> DbNode \<Rightarrow> BackupIn" where
  "backup_in f node = \<lparr>DBPort = node_Port node, DBName = node_Database node, DBUser = node_Username node,
     DBPassword = node_Password node, bk_DnBackupPath = BackupPath f, bk_DnThreadsNum = ThreadsNum f,
     bk_DnBackupMode = BackupMode f, bk_Instance = defaultInstance\<rparr>"

text \<open>\<^verbatim>\<open>_execBackup\<close>: the data node it sends, and the error it returns.\<close>

definition do_execBackup :: "pitr_env \<Rightarrow> Flags \<Rightarrow> DbNode \<Rightarrow> (DataNode \<times> gerror option) pio" where
  "do_execBackup e f node =
     bind_io (attempt (Backup e (agent_addr f node) (backup_in f node))) (\<lambda>r.
     bind_io (time_now e) (\<lambda>start.
     let dn = \<lparr>dn_IP = node_IP node, dn_Port = node_Port node,
               dn_Status = (case r of Inl err \<Rightarrow> error_text err | Inr _ \<Rightarrow> SsBackupStatusRunning),
               dn_BackupID = (case r of Inl _ \<Rightarrow> [] | Inr backupID \<Rightarrow> backupID),
               dn_StartTime = start, dn_EndTime = []\<rparr>
     in ret (dn, case r of Inr _ \<Rightarrow> None | Inl err \<Rightarrow>
          Some (NewError (''data node '' @ node_IP node @ '':'' @ show_u16 (node_Port node)
                          @ '' backup error: '' @ error_text err)))))"

definition set_ss_status :: "BackupStatus \<Rightarrow> LsBackup \<Rightarrow> LsBackup" where
  "set_ss_status st b = b\<lparr>ls_SsBackup := map_option (\<lambda>ss. ss\<lparr>ss_Status := st\<rparr>) (ls_SsBackup b)\<rparr>"

text \<open>
  \<^verbatim>\<open>execBackup\<close>: the goroutines run in some order, send in some order and return in some order,
  the first error being that of the group. The caller sees the record even on an error.
\<close>

definition execBackup :: "pitr_env \<Rightarrow> Flags \<Rightarrow> LsBackup \<Rightarrow> (LsBackup \<times> gerror option) pio" where
  "execBackup e f lsBackup =
     bind_io (deref (ls_SsBackup lsBackup)) (\<lambda>ss.
     bind_io (map_io deref (ss_StorageNodes ss)) (\<lambda>sNodes.
     bind_io (in_some_order e ''run'' sNodes) (\<lambda>order.
     bind_io (map_io (do_execBackup e f) order) (\<lambda>ended.
     bind_io (in_some_order e ''send'' (map fst ended)) (\<lambda>dnCh.
     bind_io (in_some_order e ''return'' (List.map_filter snd ended)) (\<lambda>errs. ret (case errs of
         err # _ \<Rightarrow> (set_ss_status SsBackupStatusFailed lsBackup, Some (NewCliErr (error_text err)))
       | [] \<Rightarrow> (set_ss_status SsBackupStatusRunning
                  (lsBackup\<lparr>ls_DnList := ls_DnList lsBackup @ map Some dnCh\<rparr>), None))))))))"

record backuptask =
  bt_Sn :: DbNode
  bt_retries :: nat

definition show_detail_in :: "Flags \<Rightarrow> DbNode \<Rightarrow> DataNode \<Rightarrow> ShowDetailIn" where
  "show_detail_in f sn dn = \<lparr>DBPort = node_Port sn, DBName = node_Database sn, DBUser = node_Username sn,
     DBPassword = node_Password sn, sd_DnBackupID = dn_BackupID dn, sd_DnBackupPath = BackupPath f,
     sd_Instance = defaultInstance\<rparr>"

text \<open>
  One request of \<^verbatim>\<open>backuptask.checkProgress\<close>. The data nodes are shared through the map from
  addresses; the channel carries pointers to them, here the addresses.
\<close>

definition backup_checkProgress :: "pitr_env \<Rightarrow> Flags \<Rightarrow> backuptask \<Rightarrow> (string \<rightharpoonup> DataNode)
    \<Rightarrow> ((string \<rightharpoonup> DataNode) \<times> (backuptask + string)) pio" where
  "backup_checkProgress e f t store =
     (let sn = bt_Sn t; ip = node_IP sn
      in bind_io (deref (store ip)) (\<lambda>dn.
         bind_io (attempt (ShowDetail e (agent_addr f sn) (show_detail_in f sn dn))) (\<lambda>r. case r of
             Inl err \<Rightarrow>
               if bt_retries t = 0
               then ret (store(ip \<mapsto> dn\<lparr>dn_Status := SsBackupStatusCheckError\<rparr>), Inr ip)
               else ret (store, Inl (t\<lparr>bt_retries := bt_retries t - 1\<rparr>))
           | Inr info \<Rightarrow> bind_io (time_now e) (\<lambda>fin.
               ret (store(ip \<mapsto> dn\<lparr>dn_Status := bi_Status info, dn_EndTime := fin\<rparr>),
                    if bi_Status info = SsBackupStatusCompleted \<or> bi_Status info = SsBackupStatusFailed
                    then Inr ip else Inl t)))))"

definition defaultShowDetailRetryTimes :: nat where "defaultShowDetailRetryTimes = 3"

definition checkBackupStatus :: "pitr_env \<Rightarrow> Flags \<Rightarrow> nat \<Rightarrow> LsBackup \<Rightarrow> (BackupStatus \<times> LsBackup) option pio" where
  "checkBackupStatus e f n lsBackup =
     bind_io (deref (ls_SsBackup lsBackup)) (\<lambda>ss.
       if length (ss_StorageNodes ss) = 0 then ret (Some (SsBackupStatusCanceled, lsBackup))
       else bind_io (fill_node_map Map.empty (ls_DnList lsBackup)) (\<lambda>dataNodeMap.
         bind_io (map_io deref (ss_StorageNodes ss)) (\<lambda>sNodes.
         bind_io (run_tasks e (backup_checkProgress e f) n
            (map (\<lambda>sn. \<lparr>bt_Sn = sn, bt_retries = defaultShowDetailRetryTimes\<rparr>) sNodes) dataNodeMap []) (\<lambda>waited. case waited of
              None \<Rightarrow> ret None
            | Some (store, dnCh) \<Rightarrow>
                let dnResult = List.map_filter store dnCh;
                    final = (if list_all (\<lambda>dn. dn_Status dn = SsBackupStatusCompleted) dnResult
                             then SsBackupStatusCompleted else SsBackupStatusFailed)
                in bind_io (time_now e) (\<lambda>fin.
                   bind_io (deref (ls_Info lsBackup)) (\<lambda>info.
                   ret (Some (final, set_ss_status final (lsBackup\<lparr>ls_DnList := map Some dnResult,
                          ls_Info := Some (info\<lparr>info_EndTime := fin\<rparr>)\<rparr>)))))))))"

definition delete_in :: "Flags \<Rightarrow> DbNode \<Rightarrow> DataNode \<Rightarrow> DeleteBackupIn" where
  "delete_in f sn dn = \<lparr>DBPort = node_Port sn, DBName = node_Database sn, DBUser = node_Username sn,
     DBPassword = node_Password sn, del_DnBackupPath = BackupPath f, del_BackupID = dn_BackupID dn,
     del_Instance = defaultInstance\<rparr>"

text \<open>\<^verbatim>\<open>doDelete\<close> and \<^verbatim>\<open>deletetask.checkProgress\<close>: one request, one result.\<close>

definition doDelete :: "pitr_env \<Rightarrow> Flags \<Rightarrow> DbNode \<times> DataNode \<Rightarrow> DeleteBackupResult pio" where
  "doDelete e f t = (case t of (sn, dn) \<Rightarrow>
     bind_io (attempt (DeleteBackup e (agent_addr f sn) (delete_in f sn dn))) (\<lambda>r. ret (case r of
         Inl err \<Rightarrow> \<lparr>dbr_IP = node_IP sn, dbr_Port = node_Port sn, dbr_Status = SsBackupStatusFailed,
                     dbr_Msg = error_text err\<rparr>
       | Inr _ \<Rightarrow> \<lparr>dbr_IP = node_IP sn, dbr_Port = node_Port sn, dbr_Status = SsBackupStatusCompleted,
                   dbr_Msg = []\<rparr>)))"

text \<open>The nodes of a record that have a data node; the others are skipped.\<close>

fun delete_tasks :: "(string \<rightharpoonup> DataNode) \<Rightarrow> DbNode option list \<Rightarrow> (DbNode \<times> DataNode) list pio" where
  "delete_tasks m [] = ret []"
| "delete_tasks m (p # ps) =
     bind_io (deref p) (\<lambda>sn. bind_io (delete_tasks m ps) (\<lambda>ts.
       ret (case m (node_IP sn) of None \<Rightarrow> ts | Some dn \<Rightarrow> (sn, dn) # ts)))"

text \<open>
  \<^verbatim>\<open>deleteBackupFiles\<close> in mode \<^verbatim>\<open>deleteModeQuiet\<close>, the only one it is called with. It does not wait
  for its goroutines: some of their requests are made before the record is removed, some after,
  and some never, because the program ends.
\<close>

definition delete_started :: "pitr_env \<Rightarrow> Flags \<Rightarrow> string \<Rightarrow> (DbNode \<times> DataNode) list \<Rightarrow> unit pio" where
  "delete_started e f filename order = (\<lambda>tr.
     let early = sched e tr ''early'' 0; late = sched e tr ''late'' 0
     in bind_io (map_io (doDelete e f) (take early order)) (\<lambda>_.
        bind_io (attempt (DeleteByName e filename)) (\<lambda>_.
        bind_io (map_io (doDelete e f) (take late (drop early order))) (\<lambda>_. ret ()))) tr)"

definition deleteBackupFiles :: "pitr_env \<Rightarrow> Flags \<Rightarrow> string \<Rightarrow> LsBackup \<Rightarrow> unit pio" where
  "deleteBackupFiles e f filename lsBackup =
     bind_io (deref (ls_SsBackup lsBackup)) (\<lambda>ss.
     bind_io (fill_node_map Map.empty (ls_DnList lsBackup)) (\<lambda>dataNodeMap.
       if length (ss_StorageNodes ss) = 0 then ret ()
       else bind_io (delete_tasks dataNodeMap (ss_StorageNodes ss)) (\<lambda>ts.
         bind_io (in_some_order e ''delete'' ts) (delete_started e f filename))))"

text \<open>
  The steps of \<^verbatim>\<open>backup()\<close> after its deferred function is set up end with an error or without, and
  leave the record if there is one. Where the code panics its variable \<^verbatim>\<open>err\<close> is nil, so the deferred
  function does nothing then.
\<close>

type_synonym backup_end = "(gerror option \<times> (string \<times> LsBackup) option) option"

definition or_end :: "string \<Rightarrow> (string \<times> LsBackup) option \<Rightarrow> 'a pio \<Rightarrow> ('a \<Rightarrow> backup_end pio) \<Rightarrow> backup_end pio" where
  "or_end p st m k =
     bind_io (attempt m) (\<lambda>r. case r of
         Inl err \<Rightarrow> ret (Some (Some (NewCliErr (p @ error_text err)), st))
       | Inr x \<Rightarrow> k x)"

definition backupPromptFmt :: string where
  "backupPromptFmt = ''Please Check All Nodes Disk Space, Make Sure Have Enough Space To Backup Or Restore Data.''
     @ [CHR 0x0A] @ ''Are you sure to continue? (Y/N)''"

definition backup_finish :: "pitr_env \<Rightarrow> Flags \<Rightarrow> nat \<Rightarrow> string \<Rightarrow> LsBackup \<Rightarrow> backup_end pio" where
  "backup_finish e f n filename lsBackup =
     or_end ''unlock cluster failed. err: '' (Some (filename, lsBackup)) (Unlock e) (\<lambda>_.
     or_end ''update backup file failed. err: '' (Some (filename, lsBackup)) (WriteByJSON e filename lsBackup) (\<lambda>_.
     bind_io (checkBackupStatus e f n lsBackup) (\<lambda>checked. case checked of
         None \<Rightarrow> ret None
       | Some (status, lsBackup) \<Rightarrow>
           if status \<noteq> SsBackupStatusCompleted \<and> status \<noteq> SsBackupStatusCanceled
           then ret (Some (Some (NewCliErr ''Backup failed''), Some (filename, lsBackup)))
           else or_end ''update backup file failed. err: '' (Some (filename, lsBackup))
                  (WriteByJSON e filename lsBackup) (\<lambda>_. ret (Some (None, Some (filename, lsBackup)))))))"

definition backup_exec :: "pitr_env \<Rightarrow> Flags \<Rightarrow> nat \<Rightarrow> string \<Rightarrow> LsBackup \<Rightarrow> backup_end pio" where
  "backup_exec e f n filename lsBackup =
     bind_io (execBackup e f lsBackup) (\<lambda>(lsBackup, err). case err of
         Some err \<Rightarrow> ret (Some (Some (NewCliErr (''exec backup failed. err: '' @ error_text err)), Some (filename, lsBackup)))
       | None \<Rightarrow> backup_finish e f n filename lsBackup)"

definition backup_steps :: "pitr_env \<Rightarrow> Flags \<Rightarrow> nat \<Rightarrow> backup_end pio" where
  "backup_steps e f n =
     or_end ''Lock for backup failed. err: '' None (LockForBackup e) (\<lambda>_.
     or_end ''export backup data failed. err: '' None (exportData e f) (\<lambda>(filename, lsBackup).
     let st = Some (filename, lsBackup)
     in bind_io (checkAgentServerStatus e f lsBackup) (\<lambda>available.
        if \<not> available then ret (Some (Some (NewCliErr ''One or more agent server are not available.''), st))
        else or_end ''check disk space failed. err: '' st (checkDiskSpace e f lsBackup) (\<lambda>_.
             or_end [] st (GetUserApproveInTerminal e backupPromptFmt) (\<lambda>_.
             backup_exec e f n filename lsBackup)))))"

definition backup_deferred :: "pitr_env \<Rightarrow> Flags \<Rightarrow> (string \<times> LsBackup) option \<Rightarrow> unit pio" where
  "backup_deferred e f st =
     bind_io (attempt (Unlock e)) (\<lambda>_. case st of
         None \<Rightarrow> ret ()
       | Some (filename, lsBackup) \<Rightarrow> deleteBackupFiles e f filename lsBackup)"

definition backup :: "pitr_env \<Rightarrow> Flags \<Rightarrow> nat \<Rightarrow> unit option pio" where
  "backup e f n =
     bind_io (cli_err ''Connect shardingsphere proxy failed, err: ''
       (NewShardingSphereProxy e (Username f) (Password f) DefaultDBName (Host f) (Port f))) (\<lambda>_.
     bind_io (cli_err ''Create local storage failed. err: '' (NewLocalStorage e (DefaultRootDir e))) (\<lambda>_.
     bind_io (backup_steps e f n) (\<lambda>fin. case fin of
         None \<Rightarrow> ret None
       | Some (None, st) \<Rightarrow> ret (Some ())
       | Some (Some err, st) \<Rightarrow> bind_io (backup_deferred e f st) (\<lambda>_. fail err))))"

section \<open>restore.go\<close>

definition checkDatabaseExist :: "pitr_env \<Rightarrow> string list pio" where
  "checkDatabaseExist e =
     bind_io (cli_err ''get cluster metadata failed. err: '' (ExportMetaData e)) (\<lambda>clusterNow.
       case Databases (ci_MetaData clusterNow) of
         None \<Rightarrow> ret []
       | Some dbs \<Rightarrow> in_some_order e ''databases'' (map fst dbs))"

definition restorePrompt :: "string list \<Rightarrow> string" where
  "restorePrompt names = ''Detected That The Database ['' @ join '','' names
     @ ''] Already Exists In ShardingSphere-Proxy Metadata.'' @ [CHR 0x0A]
     @ ''The Logic Database Will Be DROPPED And Then Insert Backup'' @ [CHR 0x27]
     @ ''s Metadata Into ShardingSphere-Proxy After Restoring The Backup Data.'' @ [CHR 0x0A]
     @ ''Are you sure to continue? (Y/N)''"

definition restoreDataToSSProxy :: "pitr_env \<Rightarrow> string list \<Rightarrow> LsBackup \<Rightarrow> unit pio" where
  "restoreDataToSSProxy e databaseNamesExist lsBackup =
     bind_io (seq_io (\<lambda>name. cli_err ''drop database failed. err: '' (DropDatabase e name)) databaseNamesExist) (\<lambda>_.
     bind_io (deref (ls_SsBackup lsBackup)) (\<lambda>ss.
       cli_err ''Import metadata to ss-proxy failed. err: '' (ImportMetaData e (ss_ClusterInfo ss))))"

definition restore_in :: "Flags \<Rightarrow> DbNode \<Rightarrow> DataNode \<Rightarrow> RestoreIn" where
  "restore_in f sn dn = \<lparr>DBPort = node_Port sn, DBName = node_Database sn, DBUser = node_Username sn,
     DBPassword = node_Password sn, rst_Instance = defaultInstance, rst_DnBackupPath = BackupPath f,
     rst_DnBackupID = dn_BackupID dn, rst_DnThreadsNum = ThreadsNum f\<rparr>"

definition restore_checkProgress :: "pitr_env \<Rightarrow> Flags \<Rightarrow> DbNode \<times> DataNode \<Rightarrow> unit
    \<Rightarrow> (unit \<times> ((DbNode \<times> DataNode) + RestoreResult)) pio" where
  "restore_checkProgress e f t s = (case t of (sn, dn) \<Rightarrow>
     bind_io (attempt (Restore e (agent_addr f sn) (restore_in f sn dn))) (\<lambda>r.
       ret (s, Inr \<lparr>rr_IP = node_IP sn, rr_Port = node_Port sn,
         rr_Status = (case r of Inl err \<Rightarrow> ''Failed: '' @ error_text err | Inr _ \<Rightarrow> ''Completed'')\<rparr>)))"

text \<open>The tasks of \<^verbatim>\<open>execRestore\<close>: a node without a data node is a nil dereference.\<close>

definition restore_task :: "(string \<rightharpoonup> DataNode) \<Rightarrow> DbNode option \<Rightarrow> (DbNode \<times> DataNode) pio" where
  "restore_task m p = bind_io (deref p) (\<lambda>sn. bind_io (deref (m (node_IP sn))) (\<lambda>dn. ret (sn, dn)))"

definition execRestore :: "pitr_env \<Rightarrow> Flags \<Rightarrow> nat \<Rightarrow> LsBackup \<Rightarrow> unit option pio" where
  "execRestore e f n lsBackup =
     bind_io (deref (ls_SsBackup lsBackup)) (\<lambda>ss.
     bind_io (fill_node_map Map.empty (ls_DnList lsBackup)) (\<lambda>dataNodeMap.
       if length (ss_StorageNodes ss) = 0
       then bind_io (deref (ls_Info lsBackup)) (\<lambda>info.
              fail (NewCliErr (''no storage node found, please check backup record ['' @ info_ID info @ ''].'')))
       else bind_io (map_io (restore_task dataNodeMap) (ss_StorageNodes ss)) (\<lambda>ts.
         bind_io (run_tasks e (restore_checkProgress e f) n ts () []) (\<lambda>waited. case waited of
             None \<Rightarrow> ret None
           | Some (_, dnResult) \<Rightarrow>
               if list_ex (\<lambda>r. rr_Status r \<noteq> ''Completed'') dnResult
               then fail (NewCliErr ''restore failed, please check the log for more details.'')
               else ret (Some ())))))"

definition restore :: "pitr_env \<Rightarrow> Flags \<Rightarrow> nat \<Rightarrow> unit option pio" where
  "restore e f n =
     bind_io (cli_err ''new local storage failed. err: '' (NewLocalStorage e (DefaultRootDir e))) (\<lambda>_.
     bind_io (cli_err ''new ss-proxy failed. err: [''
       (NewShardingSphereProxy e (Username f) (Password f) DefaultDBName (Host f) (Port f))) (\<lambda>_.
     bind_io (validate e f) (\<lambda>baks. let bak = baks ! 0 in
     bind_io (cli_err ''check database exist failed. err: '' (checkDatabaseExist e)) (\<lambda>databaseNamesExist.
     bind_io (cli_err [] (GetUserApproveInTerminal e (restorePrompt databaseNamesExist))) (\<lambda>_.
     bind_io (checkAgentServerStatus e f bak) (\<lambda>available.
       if \<not> available then fail (NewCliErr ''one or more agent server are not available.'')
       else bind_io (cli_err ''exec restore failed. err: '' (execRestore e f n bak)) (\<lambda>waited. case waited of
           None \<Rightarrow> ret None
         | Some _ \<Rightarrow> bind_io (cli_err ''restore metadata to shardingsphere proxy failed. err: ''
             (restoreDataToSSProxy e databaseNamesExist bak)) (\<lambda>_. ret (Some ())))))))))"

section \<open>delete.go\<close>

definition delete_checkProgress :: "pitr_env \<Rightarrow> Flags \<Rightarrow> DbNode \<times> DataNode \<Rightarrow> unit
    \<Rightarrow> (unit \<times> ((DbNode \<times> DataNode) + DeleteBackupResult)) pio" where
  "delete_checkProgress e f t s = bind_io (doDelete e f t) (\<lambda>r. ret (s, Inr r))"

definition do_execDelete :: "pitr_env \<Rightarrow> Flags \<Rightarrow> nat \<Rightarrow> LsBackup \<Rightarrow> unit option pio" where
  "do_execDelete e f n lsBackup =
     bind_io (deref (ls_SsBackup lsBackup)) (\<lambda>ss.
     bind_io (fill_node_map Map.empty (ls_DnList lsBackup)) (\<lambda>dataNodeMap.
       if length (ss_StorageNodes ss) = 0 then ret (Some ())
       else bind_io (delete_tasks dataNodeMap (ss_StorageNodes ss)) (\<lambda>ts.
         bind_io (run_tasks e (delete_checkProgress e f) n ts () []) (\<lambda>waited. case waited of
             None \<Rightarrow> ret None
           | Some (_, dnResult) \<Rightarrow>
               if list_ex (\<lambda>r. dbr_Status r \<noteq> ''Completed'') dnResult
               then fail (NewCliErr ''delete failed, please check the log for more details.'')
               else ret (Some ())))))"

definition deletePrompt :: "BackupMetaInfo \<Rightarrow> string" where
  "deletePrompt info = ''The backup record(ID: '' @ info_ID info @ '', CSN: '' @ info_CSN info
     @ '') will be deleted forever.'' @ [CHR 0x0A] @ ''Are you sure to continue? (Y/N)''"

text \<open>Hiding the record, deleting the data, and removing the record.\<close>

definition delete_record_steps :: "pitr_env \<Rightarrow> Flags \<Rightarrow> nat \<Rightarrow> LsBackup \<Rightarrow> BackupMetaInfo \<Rightarrow> unit option pio" where
  "delete_record_steps e f n bak info =
     bind_io (attempt (HideByName e (info_FileName info))) (\<lambda>h. case h of
         Inl _ \<Rightarrow> fail (NewCliErr ''cannot mark backup record.'')
       | Inr _ \<Rightarrow>
           bind_io (cli_err ''exec delete failed. err: '' (do_execDelete e f n bak)) (\<lambda>waited. case waited of
               None \<Rightarrow> ret None
             | Some _ \<Rightarrow> bind_io (cli_err ''exec delete backup record failed. err: ''
                 (DeleteByHidedName e (info_FileName info))) (\<lambda>_. ret (Some ()))))"

definition deleteRecord :: "pitr_env \<Rightarrow> Flags \<Rightarrow> nat \<Rightarrow> unit option pio" where
  "deleteRecord e f n =
     bind_io (cli_err ''new local storage failed. err: '' (NewLocalStorage e (DefaultRootDir e))) (\<lambda>_.
     bind_io (validate e f) (\<lambda>baks. let bak = baks ! 0 in
     bind_io (checkAgentServerStatus e f bak) (\<lambda>available.
       if \<not> available then fail (NewCliErr ''one or more agent server are not available.'')
       else bind_io (deref (ls_Info bak)) (\<lambda>info.
         bind_io (cli_err [] (GetUserApproveInTerminal e (deletePrompt info))) (\<lambda>_.
           delete_record_steps e f n bak info)))))"

section \<open>show.go\<close>

definition formatRecordJSON :: "pitr_env \<Rightarrow> LsBackup list \<Rightarrow> unit pio" where
  "formatRecordJSON e backups =
     bind_io (attempt (map_io (\<lambda>b. from_result (marshal_show e b)) backups)) (\<lambda>r. case r of
         Inl _ \<Rightarrow> fail (NewCliErr ''format backup record failed, indent failed.'')
       | Inr ds \<Rightarrow> emit (Stdout (''['' @ join '' '' ds @ '']'' @ [CHR 0x0A])))"

definition show_records :: "pitr_env \<Rightarrow> Flags \<Rightarrow> unit pio" where
  "show_records e f =
     bind_io (cli_err ''connect to local storage failed. err: '' (NewLocalStorage e (DefaultRootDir e))) (\<lambda>_.
       if CSN f \<noteq> []
       then bind_io (cli_err ''read backup record failed. err: '' (ReadAllByCSN e (CSN f))) (\<lambda>baks.
              if length baks = 0
              then emit (Stdout (''Didn'' @ [CHR 0x27] @ ''t find backup record by csn: '' @ CSN f @ [CHR 0x0A]))
              else formatRecordJSON e baks)
       else if RecordID f \<noteq> []
       then bind_io (cli_err ''read backup record failed. err: '' (ReadByID e (RecordID f))) (\<lambda>bak.
              formatRecordJSON e [bak])
       else bind_io (cli_err ''read backup record failed. err: '' (ReadAll e)) (\<lambda>backupList.
              if length backupList = 0
              then emit (Stdout (''Didn'' @ [CHR 0x27] @ ''t find any backup record.'' @ [CHR 0x0A]))
              else formatRecordJSON e backupList))"

section \<open>The guards of the commands\<close>

definition one_of_csn_and_id :: "Flags \<Rightarrow> bool" where
  "one_of_csn_and_id f = (\<not> (CSN f = [] \<and> RecordID f = []) \<and> \<not> (CSN f \<noteq> [] \<and> RecordID f \<noteq> []))"

definition RestoreCmd :: "pitr_env \<Rightarrow> Flags \<Rightarrow> nat \<Rightarrow> unit pio" where
  "RestoreCmd e f n = (if one_of_csn_and_id f then bind_io (attempt (restore e f n)) (\<lambda>_. ret ()) else ret ())"

definition DeleteCmd :: "pitr_env \<Rightarrow> Flags \<Rightarrow> nat \<Rightarrow> unit pio" where
  "DeleteCmd e f n = (if one_of_csn_and_id f then bind_io (attempt (deleteRecord e f n)) (\<lambda>_. ret ()) else ret ())"

definition ShowCmd :: "pitr_env \<Rightarrow> Flags \<Rightarrow> unit pio" where
  "ShowCmd e f = (if CSN f \<noteq> [] \<and> RecordID f \<noteq> [] then ret () else bind_io (attempt (show_records e f)) (\<lambda>_. ret ()))"

end
