(* ===== verification/Pitr_Calls.thy ===== *)
theory Pitr_Calls
  imports Pitr_Commands
begin

text \<open>
  Which calls the operations of the point-in-time recovery tool make. Most of what a command does
  is harmless: it reads, asks, and writes its own record. The other calls are the SQL
  statements, the requests that start, delete, restore or watch a backup, and the calls that rename or
  remove a record.
\<close>

fun harmless_body :: "agent_body \<Rightarrow> bool" where
  "harmless_body (HealthCheckBody b) = True"
| "harmless_body (ShowListBody b) = True"
| "harmless_body (DiskSpaceBody b) = True"
| "harmless_body _ = False"

fun harmless :: "pitr_call \<Rightarrow> bool" where
  "harmless (DbExec s) = False"
| "harmless (HttpDo m u b) = harmless_body b"
| "harmless (FileRename a b) = False"
| "harmless (FileRemove a) = False"
| "harmless _ = True"

section \<open>Building blocks\<close>

lemma within_cli_err [within_intros]: "within P m \<Longrightarrow> within P (cli_err p m)"
  unfolding cli_err_def by (rule within_flat_err)

lemma answered_cli_err [simp]: "answered (cli_err p m) x h \<longleftrightarrow> answered m x h"
  by (simp add: cli_err_def)

lemma within_from_option [within_intros]: "within P (from_option p x)"
  unfolding from_option_def by (intro within_intros)

lemma from_result_Ok [simp]: "from_result r h = (Ok x, h') \<longleftrightarrow> r = Inr x \<and> h' = h"
  by (auto simp: from_result_def split: sum.splits)

lemma within_from_result [within_intros]: "within P (from_result x)"
  unfolding from_result_def by (intro within_intros)

lemma within_ask_agent [within_intros]:
  "(\<And>u. P (HttpDo m u b)) \<Longrightarrow> within P (ask_agent e m url b u)"
  unfolding ask_agent_def Send_def by (intro within_intros) auto

lemma within_db_Exec [within_intros]: "P (DbExec s) \<Longrightarrow> within P (db_Exec e s)"
  unfolding db_Exec_def by (intro within_intros)

lemma within_filter_nodes [within_intros]: "within P (filter_nodes tmp acc vs)"
  by (induction vs arbitrary: tmp acc) (auto intro!: within_intros)

lemma within_filter_databases [within_intros]: "within P (filter_databases tmp acc kvs)"
  by (induction kvs arbitrary: tmp acc) (auto intro!: within_intros)

lemma within_fill_node_map [within_intros]: "within P (fill_node_map m ps)"
  by (induction ps arbitrary: m) (auto intro!: within_intros)

lemma within_delete_tasks [within_intros]: "within P (delete_tasks m ps)"
  by (induction ps) (auto simp del: ret_apply intro!: within_intros)

lemma within_find_backup [within_intros]: "within P (find_backup p vs)"
  by (induction vs) (auto simp: info_of_def simp del: ret_apply fail_apply intro!: within_intros)

lemma within_filter_backups [within_intros]: "within P (filter_backups p vs)"
  by (induction vs) (auto simp: info_of_def simp del: ret_apply fail_apply intro!: within_intros)

lemma within_pick [within_intros]: "within P (pick e m)"
  by (simp add: within_def pick_def)

lemma within_run_tasks [within_intros]:
  assumes "\<And>t s. within P (step t s)"
  shows "within P (run_tasks e step n ts s rs)"
  by (induction n arbitrary: ts s rs) (auto intro!: within_intros assms)

section \<open>Harmless operations\<close>

lemma harmless_ExportMetaData: "within harmless (ExportMetaData e)"
  unfolding ExportMetaData_def scan_data_def by (intro within_intros) simp_all

lemma harmless_ExportStorageNodes: "within harmless (ExportStorageNodes e)"
  unfolding ExportStorageNodes_def scan_data_def by (intro within_intros) simp_all

lemma harmless_NewShardingSphereProxy: "within harmless (NewShardingSphereProxy e u p d h port)"
  unfolding NewShardingSphereProxy_def Open_def by (intro within_intros) simp_all

lemma harmless_NewLocalStorage: "within harmless (NewLocalStorage e root)"
  unfolding NewLocalStorage_def init_dir_def by (intro within_intros) simp_all

lemma harmless_WriteByJSON: "within harmless (WriteByJSON e name b)"
  unfolding WriteByJSON_def by (intro within_intros) simp_all

lemma harmless_time_now: "within harmless (time_now e)"
  unfolding time_now_def by (intro within_intros) simp

lemma harmless_GenFilename: "within harmless (GenFilename e extn)"
  unfolding GenFilename_def Random_def by (intro within_intros) simp_all

lemma harmless_exportData: "within harmless (exportData e f)"
  unfolding exportData_def
  by (intro within_intros harmless_ExportMetaData harmless_ExportStorageNodes harmless_GenFilename
      harmless_time_now harmless_WriteByJSON) simp_all

lemma harmless_ReadAll: "within harmless (ReadAll e)"
  unfolding ReadAll_def read_entry_def by (intro within_intros) simp_all

lemma harmless_validate: "within harmless (validate e f)"
  unfolding validate_def ReadAllByCSN_def ReadByID_def by (intro within_intros harmless_ReadAll)

lemma harmless_checkAgentServerStatus: "within harmless (checkAgentServerStatus e f b)"
  unfolding checkAgentServerStatus_def check_agent_def CheckStatus_def by (intro within_intros) simp_all

lemma harmless_checkDiskSpace: "within harmless (checkDiskSpace e f b)"
  unfolding checkDiskSpace_def ShowDiskSpace_def by (intro within_intros) simp_all

lemma harmless_GetUserApproveInTerminal: "within harmless (GetUserApproveInTerminal e p)"
  unfolding GetUserApproveInTerminal_def by (intro within_intros) simp_all

lemma harmless_checkDatabaseExist: "within harmless (checkDatabaseExist e)"
  unfolding checkDatabaseExist_def by (intro within_intros harmless_ExportMetaData)

lemmas harmless_operations = harmless_ExportMetaData harmless_ExportStorageNodes
  harmless_NewShardingSphereProxy harmless_NewLocalStorage harmless_WriteByJSON harmless_time_now
  harmless_exportData harmless_validate harmless_checkAgentServerStatus harmless_checkDiskSpace
  harmless_GetUserApproveInTerminal harmless_checkDatabaseExist

text \<open>They satisfy every predicate that holds of the harmless calls.\<close>

lemmas within_harmless = harmless_operations [THEN within_mono]

section \<open>The other operations\<close>

lemma within_execBackup:
  assumes "\<And>c. harmless c \<Longrightarrow> P c" and "\<And>u b. P (HttpDo MethodPost u (BackupBody b))"
  shows "within P (execBackup e f b)"
  unfolding execBackup_def do_execBackup_def Backup_def
  by (intro within_intros within_harmless assms)

lemma within_backup_checkProgress:
  assumes "\<And>c. harmless c \<Longrightarrow> P c" and "\<And>u b. P (HttpDo MethodPost u (ShowDetailBody b))"
  shows "within P (backup_checkProgress e f t store)"
  unfolding backup_checkProgress_def ShowDetail_def Let_def
  by (intro within_intros within_harmless assms)

lemma within_checkBackupStatus:
  assumes "\<And>c. harmless c \<Longrightarrow> P c" and "\<And>u b. P (HttpDo MethodPost u (ShowDetailBody b))"
  shows "within P (checkBackupStatus e f n b)"
  unfolding checkBackupStatus_def
  by (intro within_intros within_harmless within_backup_checkProgress assms)

lemma within_doDelete:
  "(\<And>u b. P (HttpDo MethodDelete u (DeleteBackupBody b))) \<Longrightarrow> within P (doDelete e f t)"
  unfolding doDelete_def DeleteBackup_def by (intro within_intros)

lemma within_deleteBackupFiles:
  assumes "\<And>u b. P (HttpDo MethodDelete u (DeleteBackupBody b))" and "P (FileRemove (ls_path e name))"
  shows "within P (deleteBackupFiles e f name b)"
proof -
  have "within P (delete_started e f name order)" for order
    unfolding delete_started_def DeleteByName_def ls_deleteByName_def Let_def
    by (rule within_read) (intro within_intros within_doDelete assms)
  then show ?thesis unfolding deleteBackupFiles_def by (intro within_intros)
qed

lemma within_execRestore:
  assumes "\<And>u b. P (HttpDo MethodPost u (RestoreBody b))"
  shows "within P (execRestore e f n b)"
  unfolding execRestore_def restore_checkProgress_def restore_task_def Restore_def
  by (intro within_intros assms)

lemma within_restoreDataToSSProxy:
  "(\<And>s. P (DbExec s)) \<Longrightarrow> within P (restoreDataToSSProxy e names b)"
  unfolding restoreDataToSSProxy_def DropDatabase_def ImportMetaData_def by (intro within_intros)

lemma within_execDelete:
  assumes "\<And>u b. P (HttpDo MethodDelete u (DeleteBackupBody b))"
  shows "within P (do_execDelete e f n b)"
  unfolding do_execDelete_def delete_checkProgress_def by (intro within_intros within_doDelete assms)

end
