(* ===== verification/Pitr_Lock.thy ===== *)
theory Pitr_Lock
  imports Pitr_Calls
begin

text \<open>
  The lock that a backup holds on the cluster while it collects the metadata and starts the
  backups of the nodes: it is released however the backup ends, and never held while the
  backup waits for the nodes.
\<close>

section \<open>No error escapes the deferred function\<close>

lemma no_fail_deref [no_fail_intros]: "no_fail (deref p)"
  by (cases p) (simp_all add: no_fail_def)

lemma no_fail_map_io [no_fail_intros]: "(\<And>x. no_fail (f x)) \<Longrightarrow> no_fail (map_io f xs)"
  by (induction xs) (simp_all add: no_fail_intros)

lemma no_fail_in_some_order [no_fail_intros]: "no_fail (in_some_order e p xs)"
  by (simp add: no_fail_def in_some_order_def)

lemma no_fail_pick [no_fail_intros]: "no_fail (pick e n)"
  by (simp add: no_fail_def pick_def)

lemma no_fail_fill_node_map [no_fail_intros]: "no_fail (fill_node_map m ps)"
  by (induction ps arbitrary: m) (auto intro!: no_fail_intros)

lemma no_fail_delete_tasks [no_fail_intros]: "no_fail (delete_tasks m ps)"
  by (induction ps arbitrary: m) (auto intro!: no_fail_intros)

lemma no_fail_run_tasks [no_fail_intros]:
  assumes "\<And>t s. no_fail (step t s)"
  shows "no_fail (run_tasks e step n ts s rs)"
  by (induction n arbitrary: ts s rs) (auto intro!: no_fail_intros assms)

lemma no_fail_time_now [no_fail_intros]: "no_fail (time_now e)"
  unfolding time_now_def by (intro no_fail_intros)

lemma no_fail_checkAgentServerStatus: "no_fail (checkAgentServerStatus e f b)"
  unfolding checkAgentServerStatus_def check_agent_def by (intro no_fail_intros)

lemma no_fail_execBackup: "no_fail (execBackup e f b)"
  unfolding execBackup_def do_execBackup_def by (intro no_fail_intros)

lemma no_fail_backup_checkProgress [no_fail_intros]: "no_fail (backup_checkProgress e f t s)"
  unfolding backup_checkProgress_def by (intro no_fail_intros)

lemma no_fail_checkBackupStatus: "no_fail (checkBackupStatus e f n b)"
  unfolding checkBackupStatus_def by (intro no_fail_intros)

lemma no_fail_doDelete [no_fail_intros]: "no_fail (doDelete e f t)"
  unfolding doDelete_def by (intro no_fail_intros)

lemma no_fail_deleteBackupFiles: "no_fail (deleteBackupFiles e f name b)"
proof -
  have "no_fail (delete_started e f name order)" for order
  proof -
    have "no_fail (bind_io (map_io (doDelete e f) a) (\<lambda>_. bind_io (attempt (DeleteByName e name)) (\<lambda>_.
        bind_io (map_io (doDelete e f) b) (\<lambda>_. ret ()))))" for a b
      by (intro no_fail_intros)
    then show ?thesis by (simp add: delete_started_def no_fail_def Let_def)
  qed
  then show ?thesis unfolding deleteBackupFiles_def by (intro no_fail_intros)
qed

section \<open>The monitor\<close>

text \<open>
  \<open>Locked\<close> after the statement that locks the cluster, \<open>Unlocked\<close> after the one that unlocks it;
  \<open>Violated\<close> when a node is asked for its progress while the cluster is locked.
\<close>

datatype lock_state = Unlocked | Locked | Violated

fun lock_monitor :: "pitr_call \<Rightarrow> lock_state \<Rightarrow> lock_state" where
  "lock_monitor c Violated = Violated"
| "lock_monitor (DbExec stmt) st =
     (if stmt = lock_statement then Locked else if stmt = unlock_statement then Unlocked else st)"
| "lock_monitor (HttpDo m u (ShowDetailBody b)) st = (if st = Locked then Violated else st)"
| "lock_monitor c st = st"

lemma lock_unlock_distinct [simp]: "lock_statement \<noteq> unlock_statement" "unlock_statement \<noteq> lock_statement"
  by (simp_all add: lock_statement_def unlock_statement_def)

lemma lock_monitor_harmless: "harmless c \<Longrightarrow> lock_monitor c st = st"
  by (cases "(c, st)" rule: lock_monitor.cases) auto

lemma lock_monitor_lock [simp]: "st \<noteq> Violated \<Longrightarrow> lock_monitor (DbExec lock_statement) st = Locked"
  by (cases st) simp_all

lemma lock_monitor_unlock [simp]: "st \<noteq> Violated \<Longrightarrow> lock_monitor (DbExec unlock_statement) st = Unlocked"
  by (cases st) simp_all

lemma lock_monitor_requests [simp]:
  "lock_monitor (HttpDo m u (BackupBody b)) st = st"
  "lock_monitor (HttpDo m u (DeleteBackupBody d)) st = st"
  "lock_monitor (FileRemove p) st = st"
  by (cases st; simp)+

lemma monitored_harmless:
  "within harmless m \<Longrightarrow> (\<And>r. Q r s) \<Longrightarrow> monitored lock_monitor s m Q"
  by (rule monitored_within) (auto elim: within_mono simp: lock_monitor_harmless)

lemma monitored_bind_harmless:
  assumes "within harmless m" and "\<And>x. monitored lock_monitor s (k x) Q"
    and "\<And>err. Q (Fail err) s" and "\<And>p. Q (Panic p) s"
  shows "monitored lock_monitor s (bind_io m k) Q"
  using assms by (intro monitored_bind monitored_harmless) (simp_all split: outcome.split)

text \<open>The same, of computations that return no error.\<close>

lemma monitored_no_fail:
  assumes "within (\<lambda>c. lock_monitor c s = s) m" and "no_fail m"
    and "\<And>x. Q (Ok x) s" and "\<And>p. Q (Panic p) s"
  shows "monitored lock_monitor s m Q"
proof -
  have "monitored lock_monitor s m (\<lambda>r s'. s' = s)" using assms(1) by (rule monitored_within) simp
  moreover have "fst (m tr) \<noteq> Fail err" for tr err using assms(2) by (simp add: no_fail_def)
  ultimately show ?thesis
    unfolding monitored_def by (metis assms(3,4) outcome.exhaust)
qed

lemma monitored_or_end:
  "monitored lock_monitor s m (\<lambda>r s. case r of
       Ok x \<Rightarrow> monitored lock_monitor s (k x) Q
     | Fail err \<Rightarrow> Q (Ok (Some (Some (NewCliErr (p @ error_text err)), st))) s
     | Panic q \<Rightarrow> Q (Panic q) s)
   \<Longrightarrow> monitored lock_monitor s (or_end p st m k) Q"
  unfolding or_end_def
  by (rule monitored_bind, rule monitored_attempt, erule monitored_conseq)
     (auto split: outcome.splits intro: monitored_ret)

text \<open>How the steps of a backup may leave the monitor: unlocked, unless the deferred function runs.\<close>

definition lock_ok :: "backup_end outcome \<Rightarrow> lock_state \<Rightarrow> bool" where
  "lock_ok r st \<longleftrightarrow> st \<noteq> Violated \<and> (case r of
       Ok None \<Rightarrow> st = Unlocked | Ok (Some (None, x)) \<Rightarrow> st = Unlocked | Ok (Some (Some err, x)) \<Rightarrow> True
     | Fail err \<Rightarrow> False | Panic p \<Rightarrow> True)"

lemma lock_ok_simps [simp]:
  "lock_ok (Ok None) st \<longleftrightarrow> st = Unlocked" "lock_ok (Ok (Some (None, x))) st \<longleftrightarrow> st = Unlocked"
  "lock_ok (Ok (Some (Some err, x))) st \<longleftrightarrow> st \<noteq> Violated" "lock_ok (Panic p) st \<longleftrightarrow> st \<noteq> Violated"
  by (auto simp: lock_ok_def)

lemma monitored_or_end_harmless:
  assumes "within harmless m" and "\<And>x. monitored lock_monitor s (k x) lock_ok" and "s \<noteq> Violated"
  shows "monitored lock_monitor s (or_end p st m k) lock_ok"
  using assms by (intro monitored_or_end monitored_harmless) (auto split: outcome.split)

lemma monitored_or_end_exec:
  assumes "\<And>x. monitored lock_monitor (lock_monitor (DbExec stmt) s) (k x) lock_ok"
    and "lock_monitor (DbExec stmt) s \<noteq> Violated"
  shows "monitored lock_monitor s (or_end p st (flat_err q (db_Exec e stmt)) k) lock_ok"
  unfolding db_Exec_def
  using assms by (intro monitored_or_end monitored_flat_err monitored_call) simp_all

lemma monitored_bind_no_fail:
  assumes "within (\<lambda>c. lock_monitor c s = s) m" and "no_fail m"
    and "\<And>x. monitored lock_monitor s (k x) lock_ok" and "s \<noteq> Violated"
  shows "monitored lock_monitor s (bind_io m k) lock_ok"
  using assms by (intro monitored_bind monitored_no_fail) simp_all

lemma monitored_finish:
  assumes "s \<noteq> Violated"
  shows "monitored lock_monitor s (backup_finish e f n name b) lock_ok"
proof -
  have "within (\<lambda>c. lock_monitor c Unlocked = Unlocked) (checkBackupStatus e f n b)"
    by (rule within_checkBackupStatus) (simp_all add: lock_monitor_harmless)
  then show ?thesis
    unfolding backup_finish_def Unlock_def cli_err_def using assms
    by (intro monitored_or_end_exec monitored_or_end_harmless harmless_WriteByJSON
        monitored_bind_no_fail no_fail_checkBackupStatus)
       (auto split: option.split intro!: monitored_ret monitored_or_end_harmless harmless_WriteByJSON)
qed

lemma monitored_backup_exec:
  assumes "s \<noteq> Violated"
  shows "monitored lock_monitor s (backup_exec e f n name b) lock_ok"
proof -
  have "within (\<lambda>c. lock_monitor c s = s) (execBackup e f b)"
    by (rule within_execBackup) (simp_all add: lock_monitor_harmless)
  with assms show ?thesis
    unfolding backup_exec_def
    by (intro monitored_bind_no_fail no_fail_execBackup)
       (auto split: option.split intro!: monitored_ret monitored_finish)
qed

lemma monitored_backup_steps: "monitored lock_monitor Unlocked (backup_steps e f n) lock_ok"
proof -
  have agents: "within (\<lambda>c. lock_monitor c Locked = Locked) (checkAgentServerStatus e f b)" for b
    by (rule within_mono [OF harmless_checkAgentServerStatus]) (simp add: lock_monitor_harmless)
  have rest: "monitored lock_monitor Locked
     (or_end p st (checkDiskSpace e f b) (\<lambda>_. or_end [] st (GetUserApproveInTerminal e q) (\<lambda>_. backup_exec e f n name b))) lock_ok"
    for p st b q name
    by (intro monitored_or_end_harmless harmless_checkDiskSpace harmless_GetUserApproveInTerminal
        monitored_backup_exec) simp_all
  show ?thesis
    unfolding backup_steps_def LockForBackup_def cli_err_def Let_def
    by (intro monitored_or_end_exec monitored_or_end_harmless harmless_exportData)
       (auto intro!: monitored_bind_no_fail agents no_fail_checkAgentServerStatus monitored_ret rest)
qed

text \<open>The deferred function unlocks the cluster, whatever happens after that.\<close>

lemma monitored_deferred:
  assumes "s \<noteq> Violated"
  shows "monitored lock_monitor s (backup_deferred e f st) (\<lambda>r s. s = Unlocked)"
proof -
  have "monitored lock_monitor Unlocked (deleteBackupFiles e f name b) (\<lambda>r s. s = Unlocked)" for name b
    by (rule monitored_within, rule within_deleteBackupFiles) simp_all
  then show ?thesis
    unfolding backup_deferred_def Unlock_def cli_err_def db_Exec_def using assms
    by (intro monitored_bind monitored_attempt monitored_flat_err monitored_call)
       (auto split: option.split intro!: monitored_ret)
qed

lemma monitored_backup:
  "monitored lock_monitor Unlocked (backup e f n)
     (\<lambda>r st. st \<noteq> Violated \<and> ((\<forall>p. r \<noteq> Panic p) \<longrightarrow> st = Unlocked))"
proof -
  have steps: "monitored lock_monitor Unlocked (bind_io (backup_steps e f n) (\<lambda>fin. case fin of
         None \<Rightarrow> ret None | Some (None, st) \<Rightarrow> ret (Some ())
       | Some (Some err, st) \<Rightarrow> bind_io (backup_deferred e f st) (\<lambda>_. fail err)))
     (\<lambda>r st. st \<noteq> Violated \<and> ((\<forall>p. r \<noteq> Panic p) \<longrightarrow> st = Unlocked))" (is "monitored _ _ _ ?Q")
    by (rule monitored_bind, rule monitored_conseq [OF monitored_backup_steps])
       (auto simp: lock_ok_def split: outcome.splits option.splits
         intro!: monitored_ret monitored_bind monitored_deferred [THEN monitored_conseq] monitored_fail)
  show ?thesis
    unfolding backup_def cli_err_def
    by (rule monitored_bind_harmless, rule within_flat_err, rule harmless_NewShardingSphereProxy,
        rule monitored_bind_harmless, rule within_flat_err, rule harmless_NewLocalStorage, rule steps) simp_all
qed

end
