(* ===== verification/Pitr_Tasks.thy ===== *)
theory Pitr_Tasks
  imports Pitr_Lock
begin

text \<open>
  The loop in which a command waits for its goroutines, verified once for all commands. The locale
  \<open>tasks\<close> is the contract between the loop and the step of a task; it is interpreted on the
  steps of backup, restore and delete.
\<close>

text \<open>What the commands rely on in the progress writer: it stops when no tracker is left to finish.\<close>

definition auto_stop :: "pitr_env \<Rightarrow> bool" where
  "auto_stop e \<longleftrightarrow> (\<forall>k. render_stops e k \<longleftrightarrow> k = 0)"

text \<open>
  The contract: on a state in which the tasks are \<open>ready\<close> a step succeeds, keeps the tasks ready and
  the invariant of the shared state, adds only calls that satisfy \<open>C\<close>, and either ends the task
  with a result that is \<open>good\<close> for it, or leaves a task for the same node, which has become
  cheaper unless its agent let it wait. Both the invariant and \<open>good\<close> may speak of the history and
  survive its growth.
\<close>

locale tasks =
  fixes step :: "'t \<Rightarrow> 's \<Rightarrow> ('s \<times> ('t + 'r)) pio"
    and ready :: "'s \<Rightarrow> 't \<Rightarrow> bool"
    and waits :: "pitr_call list \<Rightarrow> 't \<Rightarrow> 's \<Rightarrow> bool"
    and cost :: "'t \<Rightarrow> nat"
    and inv :: "pitr_call list \<Rightarrow> 's \<Rightarrow> bool"
    and good :: "pitr_call list \<Rightarrow> 't \<Rightarrow> 'r \<Rightarrow> bool"
  assumes step_ok: "ready s t \<Longrightarrow> \<exists>s' out tr'. step t s tr = (Ok (s', out), tr')"
    and step_grows: "step t s tr = (Ok (s', out), tr') \<Longrightarrow> \<exists>new. tr' = tr @ new"
    and step_ready: "step t s tr = (Ok (s', out), tr') \<Longrightarrow> ready s u \<Longrightarrow> ready s' u"
    and step_inv: "step t s tr = (Ok (s', out), tr') \<Longrightarrow> ready s t \<Longrightarrow> inv tr s \<Longrightarrow> inv tr' s'"
    and step_good: "step t s tr = (Ok (s', Inr r), tr') \<Longrightarrow> good tr' t r"
    and step_same: "step t s tr = (Ok (s', Inl t'), tr') \<Longrightarrow> good h t' r \<Longrightarrow> good h t r"
    and step_next: "step t s tr = (Ok (s', Inl t'), tr') \<Longrightarrow> ready s t \<Longrightarrow> ready s' t'"
    and step_cost: "step t s tr = (Ok (s', Inl t'), tr') \<Longrightarrow> cost t' < cost t \<or> waits tr t s"
    and good_grows: "good h t r \<Longrightarrow> good (h @ new) t r"
begin

definition fuel :: "'t list \<Rightarrow> nat" where
  "fuel ts = sum_list (map (\<lambda>t. Suc (cost t)) ts)"

lemma fuel_split:
  "k < length ts \<Longrightarrow> fuel ts = fuel (take k ts) + Suc (cost (ts ! k)) + fuel (drop (Suc k) ts)"
  by (subst id_take_nth_drop [of k ts]) (simp_all add: fuel_def)

lemma fuel_remove: "k < length ts \<Longrightarrow> fuel (take k ts @ drop (Suc k) ts) < fuel ts"
  by (simp add: fuel_split [of k ts]) (simp add: fuel_def)

lemma fuel_update: "k < length ts \<Longrightarrow> cost t < cost (ts ! k) \<Longrightarrow> fuel (ts[k := t]) < fuel ts"
  by (simp add: fuel_split [of k ts] upd_conv_take_nth_drop) (simp add: fuel_def)

text \<open>The tasks stay ready when one of them makes a step.\<close>

lemma ready_update:
  assumes "step (ts ! k) s tr = (Ok (s', Inl t), tr')" and "k < length ts" and "list_all (ready s) ts"
  shows "list_all (ready s') (ts[k := t])"
proof -
  have "ready s' t" using step_next [OF assms(1)] assms(2,3) by (simp add: list_all_length)
  moreover have "\<forall>u \<in> set ts. ready s' u" using step_ready [OF assms(1)] assms(3) by (simp add: list_all_iff)
  ultimately show ?thesis using set_update_subset_insert [of ts k t] by (auto simp: list_all_iff)
qed

lemma ready_remove:
  assumes "step t s tr = (Ok (s', out), tr')" and "list_all (ready s) ts"
  shows "list_all (ready s') (take k ts @ drop (Suc k) ts)"
  using step_ready [OF assms(1)] assms(2)
  by (auto simp: list_all_iff dest: in_set_takeD in_set_dropD)

text \<open>
  If no agent lets a task wait, the loop ends within a number of rounds known beforehand,
  whatever the order in which the goroutines run.
\<close>

lemma loop_ends:
  assumes "auto_stop e" and "\<And>tr t s. \<not> waits tr t s"
    and "list_all (ready s) ts" and "fuel ts \<le> n"
  shows "\<exists>s' rs' tr'. run_tasks e step n ts s rs tr = (Ok (Some (s', rs')), tr')"
  using assms(3,4)
proof (induction n arbitrary: ts s rs tr)
  case 0
  then have "ts = []" by (cases ts) (simp_all add: fuel_def)
  with assms(1) show ?case by (simp add: auto_stop_def)
next
  case (Suc n)
  show ?case
  proof (cases "ts = []")
    case True
    with assms(1) show ?thesis by (simp add: auto_stop_def)
  next
    case False
    let ?k = "sched e tr ''goroutine'' (length ts) mod length ts"
    have k: "?k < length ts" using False by simp
    then have "ready s (ts ! ?k)" using Suc.prems(1) by (simp add: list_all_length)
    then obtain s' out tr1 where st: "step (ts ! ?k) s tr = (Ok (s', out), tr1)" using step_ok by blast
    show ?thesis
    proof (cases out)
      case (Inl t)
      then have "cost t < cost (ts ! ?k)" using step_cost st assms(2) by blast
      then have "fuel (ts[?k := t]) \<le> n" using fuel_update [OF k] Suc.prems(2) by fastforce
      with ready_update [OF st [unfolded Inl] k Suc.prems(1)] show ?thesis
        using Suc.IH st Inl False assms(1) by (simp add: auto_stop_def pick_def bind_io_def)
    next
      case (Inr r)
      have "fuel (take ?k ts @ drop (Suc ?k) ts) \<le> n" using fuel_remove [OF k] Suc.prems(2) by linarith
      with ready_remove [OF st Suc.prems(1), of ?k] show ?thesis
        using Suc.IH st Inr False assms(1) by (simp add: auto_stop_def pick_def bind_io_def)
    qed
  qed
qed

text \<open>
  A task that every step leaves as it is keeps the loop from ending. \<open>J\<close> is what the task needs of the
  shared state.
\<close>

lemma loop_waits:
  assumes "auto_stop e" and keep: "\<And>u s tr s' out tr'. step u s tr = (Ok (s', out), tr') \<Longrightarrow> J s \<Longrightarrow> J s'"
    and stuck: "\<And>s tr. ready s t \<Longrightarrow> J s \<Longrightarrow> \<exists>s' tr'. step t s tr = (Ok (s', Inl t), tr')"
    and "t \<in> set ts" and "list_all (ready s) ts" and "J s"
  shows "\<exists>tr'. run_tasks e step n ts s rs tr = (Ok None, tr')"
  using assms(4-6)
proof (induction n arbitrary: ts s rs tr)
  case 0
  from 0(1) have "\<not> render_stops e (length ts)" using assms(1) by (cases ts) (simp_all add: auto_stop_def)
  then show ?case by simp
next
  case (Suc n)
  have "ts \<noteq> []" using Suc.prems(1) by auto
  let ?k = "sched e tr ''goroutine'' (length ts) mod length ts"
  have k: "?k < length ts" using \<open>ts \<noteq> []\<close> by simp
  obtain i where i: "i < length ts" "ts ! i = t" using Suc.prems(1) by (auto simp: in_set_conv_nth)
  have ready: "ready s (ts ! ?k)" "ready s t" using Suc.prems k i by (auto simp: list_all_iff)
  then obtain s' out tr1 where st: "step (ts ! ?k) s tr = (Ok (s', out), tr1)" using step_ok by blast
  have J: "J s'" using keep [OF st Suc.prems(3)] .
  have self: "out = Inl t" if "ts ! ?k = t" using stuck [OF ready(2) Suc.prems(3), of tr] st that by auto
  show ?case
  proof (cases out)
    case (Inl u)
    have "t \<in> set (ts[?k := u])"
    proof (cases "i = ?k")
      case True
      with i self Inl have "u = t" by simp
      with k show ?thesis by (simp add: set_update_memI)
    next
      case False
      then have "ts[?k := u] ! i = t" using i by (simp only: nth_list_update_neq not_sym)
      with i show ?thesis by (metis length_list_update nth_mem)
    qed
    from Suc.IH [OF this ready_update [OF st [unfolded Inl] k Suc.prems(2)] J] show ?thesis
      using st Inl \<open>ts \<noteq> []\<close> assms(1) by (simp add: auto_stop_def pick_def bind_io_def)
  next
    case (Inr r)
    then have "ts ! ?k \<noteq> t" using self by auto
    then have "t \<in> set (take ?k ts @ drop (Suc ?k) ts)"
      using Suc.prems(1) id_take_nth_drop [OF k] by (metis Un_iff set_ConsD set_append)
    from Suc.IH [OF this ready_remove [OF st Suc.prems(2)] J] show ?thesis
      using st Inr \<open>ts \<noteq> []\<close> assms(1) by (simp add: auto_stop_def pick_def bind_io_def)
  qed
qed

text \<open>When the loop has ended, every task has sent a result that is good for it.\<close>

definition served :: "pitr_call list \<Rightarrow> 'r list \<Rightarrow> 't list \<Rightarrow> bool" where
  "served h rs ts \<longleftrightarrow> (\<forall>t \<in> set ts. \<exists>r \<in> set rs. good h t r)"

lemma served_update:
  assumes "step (ts ! k) s tr = (Ok (s', Inl t), tr')" and "k < length ts" and "served h rs (ts[k := t])"
  shows "served h rs ts"
  unfolding served_def
proof
  fix u
  assume "u \<in> set ts"
  then obtain i where i: "i < length ts" "u = ts ! i" by (auto simp: in_set_conv_nth)
  show "\<exists>r \<in> set rs. good h u r"
  proof (cases "i = k")
    case True
    have "t \<in> set (ts[k := t])" using assms(2) by (simp add: set_update_memI)
    with assms(3) obtain r where "r \<in> set rs" "good h t r" by (auto simp: served_def)
    with step_same [OF assms(1)] True i show ?thesis by blast
  next
    case False
    then have "u \<in> set (ts[k := t])" using i by (metis length_list_update nth_list_update_neq nth_mem)
    with assms(3) show ?thesis by (auto simp: served_def)
  qed
qed

lemma served_remove:
  assumes "good h (ts ! k) r" and "r \<in> set rs" and "k < length ts" and "served h rs (take k ts @ drop (Suc k) ts)"
  shows "served h rs ts"
proof -
  have "set ts \<subseteq> insert (ts ! k) (set (take k ts @ drop (Suc k) ts))"
    using id_take_nth_drop [OF assms(3)] by (metis set_append list.simps(15) Un_insert_right subset_refl)
  with assms(1,2,4) show ?thesis unfolding served_def by blast
qed

lemma loop_results:
  assumes "auto_stop e" and "run_tasks e step n ts s rs tr = (Ok (Some (s', rs')), tr')"
    and "inv tr s" and "list_all (ready s) ts"
  shows "inv tr' s' \<and> (\<exists>new. tr' = tr @ new) \<and> set rs \<subseteq> set rs' \<and> served tr' rs' ts \<and>
    (\<forall>u. ready s u \<longrightarrow> ready s' u)"
  using assms(2-4)
proof (induction n arbitrary: ts s rs tr)
  case 0
  with assms(1) show ?case by (simp add: auto_stop_def served_def split: if_splits)
next
  case (Suc n)
  show ?case
  proof (cases "ts = []")
    case True
    with Suc.prems assms(1) show ?thesis by (simp add: auto_stop_def served_def)
  next
    case False
    let ?k = "sched e tr ''goroutine'' (length ts) mod length ts"
    have k: "?k < length ts" using False by simp
    from Suc.prems(1) False assms(1) obtain s1 out tr1 where st: "step (ts ! ?k) s tr = (Ok (s1, out), tr1)"
      and run: "(case out of Inl t \<Rightarrow> run_tasks e step n (ts[?k := t]) s1 rs
          | Inr r \<Rightarrow> run_tasks e step n (take ?k ts @ drop (Suc ?k) ts) s1 (rs @ [r])) tr1 = (Ok (Some (s', rs')), tr')"
      by (auto simp: auto_stop_def pick_def bind_io_def split: prod.splits outcome.splits)
    have inv1: "inv tr1 s1" using step_inv [OF st _ Suc.prems(2)] k Suc.prems(3) by (simp add: list_all_length)
    show ?thesis
    proof (cases out)
      case (Inl t)
      note IH = Suc.IH [OF run [unfolded Inl sum.case] inv1 ready_update [OF st [unfolded Inl] k Suc.prems(3)]]
      with served_update [OF st [unfolded Inl] k] step_grows [OF st] step_ready [OF st] show ?thesis by auto
    next
      case (Inr r)
      note IH = Suc.IH [OF run [unfolded Inr sum.case] inv1 ready_remove [OF st Suc.prems(3)]]
      have "good tr' (ts ! ?k) r" using step_good [OF st [unfolded Inr]] IH good_grows by blast
      with IH served_remove [OF _ _ k] step_grows [OF st] step_ready [OF st] show ?thesis by auto
    qed
  qed
qed

end

section \<open>The tasks of the commands\<close>

definition restored :: "pitr_env \<Rightarrow> Flags \<Rightarrow> pitr_call list \<Rightarrow> DbNode \<times> DataNode \<Rightarrow> bool" where
  "restored e f h t = (case t of (sn, dn) \<Rightarrow> answered (Restore e (agent_addr f sn) (restore_in f sn dn)) () h)"

definition deleted :: "pitr_env \<Rightarrow> Flags \<Rightarrow> pitr_call list \<Rightarrow> DbNode \<times> DataNode \<Rightarrow> bool" where
  "deleted e f h t = (case t of (sn, dn) \<Rightarrow>
     \<exists>msg. answered (DeleteBackup e (agent_addr f sn) (delete_in f sn dn)) msg h)"

definition completed :: "pitr_env \<Rightarrow> Flags \<Rightarrow> pitr_call list \<Rightarrow> DbNode \<Rightarrow> bool" where
  "completed e f h sn \<longleftrightarrow> (\<exists>dn info. answered (ShowDetail e (agent_addr f sn) (show_detail_in f sn dn)) info h
     \<and> bi_Status info = SsBackupStatusCompleted)"

lemma ask_grows: "ask_agent e m u b d tr = (r, tr') \<Longrightarrow> \<exists>new. tr' = tr @ new"
proof -
  assume run: "ask_agent e m u b d tr = (r, tr')"
  have "within (\<lambda>_. True) (ask_agent e m u b d)" by (intro within_intros) simp
  with run show ?thesis by (blast elim: withinE)
qed

lemma ask_no_panic: "fst (ask_agent e m u b d tr) \<noteq> Panic p"
  unfolding ask_agent_def Send_def from_result_def Let_def
  by (auto simp: bind_io_def attempt_def wrap_err_def call_def split: prod.splits outcome.splits sum.splits if_splits)

lemma attempt_ask_cases:
  obtains (answer) x h where "ask_agent e m u b d tr = (Ok x, h)" "attempt (ask_agent e m u b d) tr = (Ok (Inr x), h)"
    | (error) err h where "ask_agent e m u b d tr = (Fail err, h)" "attempt (ask_agent e m u b d) tr = (Ok (Inl err), h)"
  using ask_no_panic [of e m u b d tr]
  by (cases "ask_agent e m u b d tr"; cases "fst (ask_agent e m u b d tr)") (auto simp: attempt_def)

interpretation restores: tasks "restore_checkProgress e f" "\<lambda>_ _. True" "\<lambda>_ _ _. False" "\<lambda>_. 0" "\<lambda>_ _. True"
  "\<lambda>h t r. rr_Status r = ''Completed'' \<longrightarrow> restored e f h t" for e f
proof unfold_locales
  fix t s tr
  show "\<exists>s' out tr'. restore_checkProgress e f t s tr = (Ok (s', out), tr')"
    by (cases t, rule attempt_ask_cases [of e MethodPost "agent_addr f (fst t) @ ''/api/restore''"
          "RestoreBody (restore_in f (fst t) (snd t))" "json_resp_unit e" tr])
       (auto simp: restore_checkProgress_def Restore_def bind_io_def)
next
  fix t s tr s' out tr'
  assume "restore_checkProgress e f t s tr = (Ok (s', out), tr')"
  then show "\<exists>new. tr' = tr @ new"
    by (cases t) (auto simp: restore_checkProgress_def Restore_def io_Ok dest: ask_grows)
next
  fix t s tr s' r tr'
  assume "restore_checkProgress e f t s tr = (Ok (s', Inr r), tr')"
  then show "rr_Status r = ''Completed'' \<longrightarrow> restored e f tr' t"
    by (cases t) (auto simp: restore_checkProgress_def io_Ok restored_def intro: answered_now)
qed (auto simp: restore_checkProgress_def io_Ok restored_def answered_grows split: prod.splits)

interpretation deletions: tasks "delete_checkProgress e f" "\<lambda>_ _. True" "\<lambda>_ _ _. False" "\<lambda>_. 0" "\<lambda>_ _. True"
  "\<lambda>h t r. dbr_Status r = ''Completed'' \<longrightarrow> deleted e f h t" for e f
proof unfold_locales
  fix t s tr
  show "\<exists>s' out tr'. delete_checkProgress e f t s tr = (Ok (s', out), tr')"
    by (cases t, rule attempt_ask_cases [of e MethodDelete "agent_addr f (fst t) @ ''/api/backup''"
          "DeleteBackupBody (delete_in f (fst t) (snd t))" "json_resp_text e" tr])
       (auto simp: delete_checkProgress_def doDelete_def DeleteBackup_def bind_io_def)
next
  fix t s tr s' out tr'
  assume "delete_checkProgress e f t s tr = (Ok (s', out), tr')"
  then show "\<exists>new. tr' = tr @ new"
    by (cases t) (auto simp: delete_checkProgress_def doDelete_def DeleteBackup_def io_Ok dest: ask_grows)
next
  fix t s tr s' r tr'
  assume "delete_checkProgress e f t s tr = (Ok (s', Inr r), tr')"
  then show "dbr_Status r = ''Completed'' \<longrightarrow> deleted e f tr' t"
    by (cases t) (auto simp: delete_checkProgress_def doDelete_def io_Ok deleted_def intro: answered_now)
qed (auto simp: delete_checkProgress_def io_Ok deleted_def answered_grows split: prod.splits; blast intro: answered_grows)+

text \<open>
  The tasks of a backup: ready when their node has an entry in the map. The agent lets a task wait when
  it answers with a status that is neither completed nor failed; its errors use up the retries.
\<close>

definition watch_ready :: "DbNode set \<Rightarrow> (string \<rightharpoonup> DataNode) \<Rightarrow> backuptask \<Rightarrow> bool" where
  "watch_ready N store t \<longleftrightarrow> node_IP (bt_Sn t) \<in> dom store \<and> bt_Sn t \<in> N"

definition final_status :: "BackupStatus \<Rightarrow> bool" where
  "final_status st \<longleftrightarrow> st = SsBackupStatusCompleted \<or> st = SsBackupStatusFailed"

definition kept_waiting :: "pitr_env \<Rightarrow> Flags \<Rightarrow> pitr_call list \<Rightarrow> backuptask \<Rightarrow> (string \<rightharpoonup> DataNode) \<Rightarrow> bool" where
  "kept_waiting e f h t store \<longleftrightarrow> (\<exists>dn info h'. store (node_IP (bt_Sn t)) = Some dn \<and>
     ShowDetail e (agent_addr f (bt_Sn t)) (show_detail_in f (bt_Sn t) dn) h = (Ok info, h') \<and> \<not> final_status (bi_Status info))"

definition watched :: "pitr_env \<Rightarrow> Flags \<Rightarrow> DbNode set \<Rightarrow> pitr_call list \<Rightarrow> (string \<rightharpoonup> DataNode) \<Rightarrow> bool" where
  "watched e f N h store \<longleftrightarrow> (\<forall>ip dn. store ip = Some dn \<and> dn_Status dn = SsBackupStatusCompleted \<longrightarrow>
     (\<exists>sn \<in> N. node_IP sn = ip \<and> completed e f h sn))"

text \<open>What one request of a watching task does.\<close>

lemma checkProgress_cases:
  assumes "backup_checkProgress e f t store tr = (Ok (store', out), tr')"
  obtains (error) dn err where "store (node_IP (bt_Sn t)) = Some dn"
      "ShowDetail e (agent_addr f (bt_Sn t)) (show_detail_in f (bt_Sn t) dn) tr = (Fail err, tr')"
      "bt_retries t = 0" "store' = store(node_IP (bt_Sn t) \<mapsto> dn\<lparr>dn_Status := SsBackupStatusCheckError\<rparr>)"
      "out = Inr (node_IP (bt_Sn t))"
    | (retry) dn err where "store (node_IP (bt_Sn t)) = Some dn"
      "ShowDetail e (agent_addr f (bt_Sn t)) (show_detail_in f (bt_Sn t) dn) tr = (Fail err, tr')"
      "0 < bt_retries t" "store' = store" "out = Inl (t\<lparr>bt_retries := bt_retries t - 1\<rparr>)"
    | (answer) dn info h where "store (node_IP (bt_Sn t)) = Some dn"
      "ShowDetail e (agent_addr f (bt_Sn t)) (show_detail_in f (bt_Sn t) dn) tr = (Ok info, h)"
      "tr' = h @ [ClockNow]"
      "store' = store(node_IP (bt_Sn t) \<mapsto> dn\<lparr>dn_Status := bi_Status info, dn_EndTime := now_text e h\<rparr>)"
      "out = (if final_status (bi_Status info) then Inr (node_IP (bt_Sn t)) else Inl t)"
  using assms
  by (cases "store (node_IP (bt_Sn t))")
     (auto simp: backup_checkProgress_def Let_def io_Ok time_now_def final_status_def split: if_splits)

lemma ShowDetail_grows: "ShowDetail e a req tr = (r, tr') \<Longrightarrow> \<exists>new. tr' = tr @ new"
  unfolding ShowDetail_def by (rule ask_grows)

lemma completed_grows: "completed e f h sn \<Longrightarrow> completed e f (h @ new) sn"
  unfolding completed_def by (blast intro: answered_grows)

lemma watched_grows: "watched e f N h store \<Longrightarrow> watched e f N (h @ new) store"
  unfolding watched_def by (meson completed_grows)

lemma watched_update:
  assumes "watched e f N h store" and "dn_Status dn = SsBackupStatusCompleted \<Longrightarrow> \<exists>sn \<in> N. node_IP sn = ip \<and> completed e f h sn"
  shows "watched e f N h (store(ip \<mapsto> dn))"
  using assms by (auto simp: watched_def)

lemma watched_step:
  assumes "backup_checkProgress e f t store tr = (Ok (store', out), tr')"
    and "watch_ready N store t" and "watched e f N tr store"
  shows "watched e f N tr' store'"
  using assms(1)
proof (cases rule: checkProgress_cases)
  case (error dn err)
  then show ?thesis using assms(3) by (auto intro!: watched_update dest!: ShowDetail_grows intro: watched_grows)
next
  case (retry dn err)
  then show ?thesis using assms(3) by (auto dest!: ShowDetail_grows intro: watched_grows)
next
  case (answer dn info h)
  obtain new where h: "h = tr @ new" using ShowDetail_grows [OF answer(2)] by blast
  have "completed e f (h @ [ClockNow]) (bt_Sn t)" if "bi_Status info = SsBackupStatusCompleted"
    using answer(2) that unfolding completed_def by (blast intro: answered_grows answered_now)
  moreover have "watched e f N (h @ [ClockNow]) store" using assms(3) h watched_grows by (metis append.assoc)
  ultimately show ?thesis
    using answer(3,4) assms(2) by (auto intro!: watched_update simp: watch_ready_def)
qed

interpretation watches: tasks "backup_checkProgress e f" "watch_ready N" "kept_waiting e f" bt_retries
  "watched e f N" "\<lambda>h t r. r = node_IP (bt_Sn t)" for e f N
proof unfold_locales
  fix s t tr
  assume "watch_ready N s t"
  then obtain dn where dn: "s (node_IP (bt_Sn t)) = Some dn" by (auto simp: watch_ready_def)
  show "\<exists>s' out tr'. backup_checkProgress e f t s tr = (Ok (s', out), tr')"
    by (rule attempt_ask_cases [of e MethodPost "agent_addr f (bt_Sn t) @ ''/api/show''"
          "ShowDetailBody (show_detail_in f (bt_Sn t) dn)" "json_resp_detail e" tr])
       (simp_all add: backup_checkProgress_def ShowDetail_def dn bind_io_def time_now_def call_def Let_def)
next
  fix t s tr s' out tr'
  assume "backup_checkProgress e f t s tr = (Ok (s', out), tr')"
  then show "\<exists>new. tr' = tr @ new"
    by (cases rule: checkProgress_cases) (auto dest: ShowDetail_grows)
next
  fix t s tr s' out tr' u
  assume "backup_checkProgress e f t s tr = (Ok (s', out), tr')" and "watch_ready N s u"
  then show "watch_ready N s' u"
    by (cases rule: checkProgress_cases) (auto simp: watch_ready_def)
next
  fix t s tr s' r tr'
  assume "backup_checkProgress e f t s tr = (Ok (s', Inr r), tr')"
  then show "r = node_IP (bt_Sn t)"
    by (cases rule: checkProgress_cases) (auto split: if_splits)
next
  fix t s tr s' t' tr' r
  assume "backup_checkProgress e f t s tr = (Ok (s', Inl t'), tr')" and "r = node_IP (bt_Sn t')"
  then show "r = node_IP (bt_Sn t)"
    by (cases rule: checkProgress_cases) (auto split: if_splits)
next
  fix t s tr s' t' tr'
  assume "backup_checkProgress e f t s tr = (Ok (s', Inl t'), tr')" and "watch_ready N s t"
  then show "watch_ready N s' t'"
    by (cases rule: checkProgress_cases) (auto simp: watch_ready_def split: if_splits)
next
  fix t s tr s' t' tr'
  assume "backup_checkProgress e f t s tr = (Ok (s', Inl t'), tr')"
  then show "bt_retries t' < bt_retries t \<or> kept_waiting e f tr t s"
    by (cases rule: checkProgress_cases) (auto simp: kept_waiting_def split: if_splits)
qed (auto intro: watched_step)

end
