(* ===== verification/Pitr_Examples.thy ===== *)
theory Pitr_Examples
  imports Pitr_Tasks
begin

text \<open>
  A concrete environment in which the properties of the point-in-time recovery tool are
  instantiated: a proxy with two databases on one storage node, an agent that does what it is asked,
  and a user who agrees. It models no code.
\<close>

definition demo_db_node :: DbNode where
  "demo_db_node = \<lparr>node_IP = ''10.0.0.1'', node_Port = 5432, node_Username = ''root'',
     node_Password = ''pw'', node_Database = ''db0'', node_Remark = []\<rparr>"

definition demo_cluster :: ClusterInfo where
  "demo_cluster = \<lparr>ci_MetaData = \<lparr>Databases = Some [(''shop'', ''{}''), (''hr'', ''{}'')], Props = [], Rules = []\<rparr>,
     ci_SnapshotInfo = Some \<lparr>Csn = ''42'', CreateTime = []\<rparr>\<rparr>"

definition demo_data_node :: DataNode where
  "demo_data_node = \<lparr>dn_IP = ''10.0.0.1'', dn_Port = 5432, dn_Status = SsBackupStatusCompleted,
     dn_BackupID = ''b1'', dn_StartTime = [], dn_EndTime = []\<rparr>"

definition demo_record :: LsBackup where
  "demo_record = \<lparr>ls_Info = Some \<lparr>info_ID = ''r1'', info_CSN = ''42'', info_BackupMode = ''FULL'',
       info_StartTime = [], info_EndTime = [], info_FileName = []\<rparr>,
     ls_DnList = [Some demo_data_node],
     ls_SsBackup = Some \<lparr>ss_Status = SsBackupStatusCompleted, ss_ClusterInfo = Some demo_cluster,
       ss_StorageNodes = [Some demo_db_node]\<rparr>\<rparr>"

definition demo_detail :: BackupInfo where
  "demo_detail = \<lparr>bi_ID = ''b1'', bi_Path = ''/bak'', bi_Mode = ''FULL'', bi_Instance = defaultInstance, bi_StartTime = [],
     bi_EndTime = [], bi_Status = SsBackupStatusCompleted\<rparr>"

text \<open>The agent rejects a request for the state of a backup that has no identifier.\<close>

fun demo_text :: "agent_body \<Rightarrow> string" where
  "demo_text (ShowDetailBody r) = (if sd_DnBackupID r = [] then ''bad'' else ''good'')"
| "demo_text b = ''good''"

definition demo_resp_detail :: "string \<Rightarrow> gerror + BackupInfo agent_resp" where
  "demo_resp_detail t = Inr (if t = ''bad''
     then \<lparr>Code = -1, Msg = ''invalid parameter, err wrap: 10019-Missing dn backup id.'', Data = zero_BackupInfo\<rparr>
     else \<lparr>Code = 0, Msg = ''Success'', Data = demo_detail\<rparr>)"

definition demo_pitr_env :: pitr_env where
  "demo_pitr_env = \<lparr>db_open = (\<lambda>_ _. Inr ()), db_ping = (\<lambda>_. Inr ()), db_exec = (\<lambda>_ _. Inr ()),
     db_query = (\<lambda>_ _. Inr \<lparr>qr_Next = True, qr_Scan = Inr ''data'', qr_Close = None, qr_Err = None\<rparr>),
     http_new_request = (\<lambda>_. Inr ()), http_do = (\<lambda>_ _ _ b. Inr (Inr (200, demo_text b))),
     file_stat = (\<lambda>_ _. Inr True), file_mkdir = (\<lambda>_ _. Inr ()), file_create = (\<lambda>_ _. Inr ()),
     file_write = (\<lambda>_ _ _. Inr ()),
     dir_read = (\<lambda>_ _. Inr [\<lparr>de_Name = ''a.json'', de_IsDir = False, de_Info = Inr ''a.json''\<rparr>]),
     file_read = (\<lambda>_ _. Inr ''{}''), file_rename = (\<lambda>_ _ _. Inr ()), file_remove = (\<lambda>_ _. Inr ()),
     stdin_scan = (\<lambda>_. Inr ''Y''), now_utc = (\<lambda>_. ''20230101''), now_text = (\<lambda>_. ''2023-01-01''),
     random_byte = (\<lambda>_. 0), new_uuid = (\<lambda>_. ''u1''), home_dir = ''/root'',
     base64_decode = (\<lambda>s. Inr s), base64_encode = (\<lambda>s. s), json_cluster = (\<lambda>_. Inr demo_cluster),
     json_nodes = (\<lambda>_. Inr (Some [(''shop'', [Some demo_db_node]), (''hr'', [Some demo_db_node])])),
     json_backup = (\<lambda>_. Inr demo_record), marshal_cluster = (\<lambda>_. Inr ''{}''), show_cluster = (\<lambda>_. []),
     marshal_backup = (\<lambda>_. Inr ''{}''), marshal_show = (\<lambda>_. Inr ''{}''),
     json_resp_unit = (\<lambda>_. Inr \<lparr>Code = 0, Msg = [], Data = ()\<rparr>),
     json_resp_text = (\<lambda>_. Inr \<lparr>Code = 0, Msg = [], Data = []\<rparr>),
     json_resp_backup = (\<lambda>_. Inr \<lparr>Code = 0, Msg = [], Data = ''b1''\<rparr>),
     json_resp_detail = demo_resp_detail,
     json_resp_list = (\<lambda>_. Inr \<lparr>Code = 0, Msg = [], Data = []\<rparr>),
     sched = (\<lambda>_ _ _. 0), render_stops = (\<lambda>k. k = 0)\<rparr>"

definition demo_flags :: Flags where
  "demo_flags = \<lparr>Host = ''proxy'', Port = 3307, Username = ''root'', Password = ''pw'', AgentPort = 443,
     BackupPath = ''/bak'', BackupModeStr = ''FULL'', ThreadsNum = 1, CSN = [], RecordID = ''r1''\<rparr>"

text \<open>Its answers, for evaluation by rewriting.\<close>

lemma demo_answers [simp]:
  "db_open demo_pitr_env = (\<lambda>_ _. Inr ())"
  "db_ping demo_pitr_env = (\<lambda>_. Inr ())"
  "db_exec demo_pitr_env = (\<lambda>_ _. Inr ())"
  "db_query demo_pitr_env = (\<lambda>_ _. Inr \<lparr>qr_Next = True, qr_Scan = Inr ''data'', qr_Close = None, qr_Err = None\<rparr>)"
  "http_new_request demo_pitr_env = (\<lambda>_. Inr ())"
  "http_do demo_pitr_env = (\<lambda>_ _ _ b. Inr (Inr (200, demo_text b)))"
  "file_stat demo_pitr_env = (\<lambda>_ _. Inr True)"
  "file_mkdir demo_pitr_env = (\<lambda>_ _. Inr ())"
  "file_create demo_pitr_env = (\<lambda>_ _. Inr ())"
  "file_write demo_pitr_env = (\<lambda>_ _ _. Inr ())"
  "dir_read demo_pitr_env = (\<lambda>_ _. Inr [\<lparr>de_Name = ''a.json'', de_IsDir = False, de_Info = Inr ''a.json''\<rparr>])"
  "file_read demo_pitr_env = (\<lambda>_ _. Inr ''{}'')"
  "file_rename demo_pitr_env = (\<lambda>_ _ _. Inr ())"
  "file_remove demo_pitr_env = (\<lambda>_ _. Inr ())"
  "stdin_scan demo_pitr_env = (\<lambda>_. Inr ''Y'')"
  "now_utc demo_pitr_env = (\<lambda>_. ''20230101'')"
  "now_text demo_pitr_env = (\<lambda>_. ''2023-01-01'')"
  "random_byte demo_pitr_env = (\<lambda>_. 0)"
  "new_uuid demo_pitr_env = (\<lambda>_. ''u1'')"
  "home_dir demo_pitr_env = ''/root''"
  "base64_decode demo_pitr_env = (\<lambda>s. Inr s)"
  "base64_encode demo_pitr_env = (\<lambda>s. s)"
  "json_cluster demo_pitr_env = (\<lambda>_. Inr demo_cluster)"
  "json_nodes demo_pitr_env = (\<lambda>_. Inr (Some [(''shop'', [Some demo_db_node]), (''hr'', [Some demo_db_node])]))"
  "json_backup demo_pitr_env = (\<lambda>_. Inr demo_record)"
  "marshal_cluster demo_pitr_env = (\<lambda>_. Inr ''{}'')"
  "show_cluster demo_pitr_env = (\<lambda>_. [])"
  "marshal_backup demo_pitr_env = (\<lambda>_. Inr ''{}'')"
  "marshal_show demo_pitr_env = (\<lambda>_. Inr ''{}'')"
  "json_resp_unit demo_pitr_env = (\<lambda>_. Inr \<lparr>Code = 0, Msg = [], Data = ()\<rparr>)"
  "json_resp_text demo_pitr_env = (\<lambda>_. Inr \<lparr>Code = 0, Msg = [], Data = []\<rparr>)"
  "json_resp_backup demo_pitr_env = (\<lambda>_. Inr \<lparr>Code = 0, Msg = [], Data = ''b1''\<rparr>)"
  "json_resp_detail demo_pitr_env = demo_resp_detail"
  "json_resp_list demo_pitr_env = (\<lambda>_. Inr \<lparr>Code = 0, Msg = [], Data = []\<rparr>)"
  "sched demo_pitr_env = (\<lambda>_ _ _. 0)"
  "render_stops demo_pitr_env = (\<lambda>k. k = 0)"
  by (simp_all add: demo_pitr_env_def)

lemma demo_ask [simp]:
  "ask_agent demo_pitr_env m u b (\<lambda>_. Inr \<lparr>Code = 0, Msg = msg, Data = d\<rparr>) tr = (Ok d, tr @ [HttpDo m (NewRequest_url u) b])"
  by (simp add: ask_agent_def Send_def from_result_def bind_io_def attempt_def wrap_err_def call_def)

lemma show_detail_in_simps [simp]:
  "sd_DnBackupID (show_detail_in f sn dn) = dn_BackupID dn"
  "sd_DnBackupPath (show_detail_in f sn dn) = BackupPath f"
  "sd_Instance (show_detail_in f sn dn) = defaultInstance"
  by (simp_all add: show_detail_in_def)

lemma demo_ask_detail [simp]:
  "sd_DnBackupID r \<noteq> [] \<Longrightarrow> ask_agent demo_pitr_env m u (ShowDetailBody r) demo_resp_detail tr
     = (Ok demo_detail, tr @ [HttpDo m (NewRequest_url u) (ShowDetailBody r)])"
  by (simp add: ask_agent_def Send_def demo_resp_detail_def from_result_def bind_io_def attempt_def wrap_err_def call_def)

lemma demo_auto_stop: "auto_stop demo_pitr_env"
  by (simp add: auto_stop_def)

section \<open>Its runs\<close>

lemmas run_io = bind_io_def call_def flat_err_def cli_err_def Let_def attempt_def from_result_def
  from_option_def in_some_order_def

lemma demo_connect [simp]:
  "NewShardingSphereProxy demo_pitr_env (Username demo_flags) (Password demo_flags) DefaultDBName h p tr =
     (Ok (), tr @ [DbOpen (''host='' @ h @ '' port='' @ show_u16 p @ '' user=root password=pw dbname=postgres sslmode=disable''), DbPing])"
  by (simp add: NewShardingSphereProxy_def Open_def trim_spaces_def DefaultDBName_def demo_flags_def run_io)

lemma demo_storage [simp]:
  "NewLocalStorage demo_pitr_env root tr = (Ok (), tr @ [FileStat root, FileStat (backup_dir root)])"
  by (simp add: NewLocalStorage_def init_dir_def run_io)

lemma demo_lock [simp]:
  "LockForBackup demo_pitr_env tr = (Ok (), tr @ [DbExec lock_statement])"
  "Unlock demo_pitr_env tr = (Ok (), tr @ [DbExec unlock_statement])"
  by (simp_all add: LockForBackup_def Unlock_def db_Exec_def run_io)

lemma demo_nodes [simp]:
  "ExportStorageNodes demo_pitr_env tr = (Ok [demo_db_node], tr @ [DbQuery ''EXPORT STORAGE NODES;''])"
  by (simp add: ExportStorageNodes_def scan_data_def run_io)

lemma demo_metadata [simp]:
  "ExportMetaData demo_pitr_env tr = (Ok demo_cluster, tr @ [DbQuery ''EXPORT METADATA;''])"
  by (simp add: ExportMetaData_def scan_data_def demo_cluster_def run_io)

lemma demo_approve [simp]: "GetUserApproveInTerminal demo_pitr_env p tr = (Ok (), tr @ [StdinScan p])"
  by (simp add: GetUserApproveInTerminal_def run_io)

lemma demo_write [simp]:
  "has_suffix n ''.json'' \<Longrightarrow> WriteByJSON demo_pitr_env n b tr =
     (Ok (), tr @ [FileCreate (ls_path demo_pitr_env n), FileWrite (ls_path demo_pitr_env n) ''{}''])"
  by (simp add: WriteByJSON_def run_io)

lemma demo_random:
  "map_io (\<lambda>_. call RandomByte (\<lambda>tr. Inr (random_byte demo_pitr_env tr mod 256))) (replicate n ()) tr =
     (Ok (replicate n 0), tr @ replicate n RandomByte)"
  by (induction n arbitrary: tr) (simp_all add: bind_io_def call_def)

definition demo_filename :: string where
  "demo_filename = ''20230101_'' @ replicate 8 (CHR ''0'') @ ''.json''"

lemma demo_GenFilename [simp]:
  "GenFilename demo_pitr_env ''JSON'' tr = (Ok demo_filename, tr @ ClockNow # replicate 8 RandomByte)"
  using demo_random [of 8] by (simp add: GenFilename_def Random_def bind_io_def call_def demo_filename_def charSet_def)

lemma demo_suffix [simp]: "has_suffix demo_filename ''.json''"
  by (simp add: has_suffix_def demo_filename_def)

lemma demo_records [simp]:
  "validate demo_pitr_env demo_flags tr = (Ok [demo_record\<lparr>ls_Info := map_option (\<lambda>i. i\<lparr>info_FileName := ''a.json''\<rparr>) (ls_Info demo_record)\<rparr>],
     tr @ [DirRead (backup_dir (DefaultRootDir demo_pitr_env)), FileRead (ls_path demo_pitr_env ''a.json'')])"
  by (simp add: validate_def demo_flags_def ReadByID_def ReadAll_def read_entry_def has_suffix_def info_of_def
      demo_record_def run_io List.map_filter_simps)

lemmas agent_calls = CheckStatus_def Backup_def Restore_def ShowDetail_def ShowDiskSpace_def DeleteBackup_def

lemma demo_backup:
  "fst (backup demo_pitr_env demo_flags 4 []) = Ok (Some ())"
  "DbExec lock_statement \<in> set (added (backup demo_pitr_env demo_flags 4) [])"
  by (simp_all add: backup_def backup_steps_def or_end_def exportData_def time_now_def checkDiskSpace_def
    backup_exec_def execBackup_def do_execBackup_def backup_finish_def checkBackupStatus_def
    backup_checkProgress_def checkAgentServerStatus_def check_agent_def set_ss_status_def pick_def
    added_def run_io numeral_eq_Suc List.map_filter_simps demo_detail_def demo_db_node_def agent_calls)

lemma demo_restore:
  "fst (restore demo_pitr_env demo_flags 4 []) = Ok (Some ())"
  "DbExec (drop_statement ''shop'') \<in> set (added (restore demo_pitr_env demo_flags 4) [])"
  by (simp_all add: restore_def checkDatabaseExist_def execRestore_def restore_task_def restoreDataToSSProxy_def
    ImportMetaData_def DropDatabase_def db_Exec_def restore_checkProgress_def checkAgentServerStatus_def check_agent_def
    pick_def added_def run_io numeral_eq_Suc demo_record_def demo_data_node_def demo_db_node_def demo_cluster_def agent_calls)

lemma demo_delete:
  "fst (deleteRecord demo_pitr_env demo_flags 4 []) = Ok (Some ())"
  "FileRemove (ls_path demo_pitr_env ''.a.json'') \<in> set (added (deleteRecord demo_pitr_env demo_flags 4) [])"
  by (simp_all add: deleteRecord_def delete_record_steps_def do_execDelete_def delete_checkProgress_def doDelete_def
    HideByName_def DeleteByHidedName_def ls_deleteByName_def checkAgentServerStatus_def check_agent_def
    pick_def added_def run_io numeral_eq_Suc demo_record_def demo_data_node_def demo_db_node_def agent_calls)

end
