(* ===== verification/Pitr_Properties.thy ===== *)
theory Pitr_Properties
  imports Pitr_Examples
begin

text \<open>
  What the commands of the point-in-time recovery tool promise: the lock, the order of the steps of
  restore and delete, what success means, when waiting ends; and where they keep less than
  they seem to promise.
\<close>

section \<open>The lock of a backup\<close>

text \<open>
  C27. Whatever the environment answers, a backup that does not panic leaves the cluster unlocked:
  the last locking statement it sent is followed by an unlocking statement, whether it succeeds,
  fails or is still waiting. No node is ever asked for its progress while the cluster is locked.
\<close>

theorem backup_releases_lock:
  "fold lock_monitor (added (backup e f n) tr) Unlocked \<noteq> Violated \<and>
   ((\<forall>p. fst (backup e f n tr) \<noteq> Panic p) \<longrightarrow> fold lock_monitor (added (backup e f n) tr) Unlocked = Unlocked)"
  by (rule monitored_added [OF monitored_backup])

theorem backup_releases_lock_witness:
  "DbExec lock_statement \<in> set (added (backup demo_pitr_env demo_flags 4) []) \<and>
   fold lock_monitor (added (backup demo_pitr_env demo_flags 4) []) Unlocked = Unlocked"
  using backup_releases_lock [of demo_pitr_env demo_flags 4 "[]"] by (simp add: demo_backup)

text \<open>
  C34. When the cluster cannot be locked, for instance because another backup holds the lock, the
  deferred function of the failing backup sends the unlocking statement all the same.
\<close>

theorem failed_lock_unlocks_cluster:
  assumes "NewShardingSphereProxy e (Username f) (Password f) DefaultDBName (Host f) (Port f) tr = (Ok (), h1)"
    and "NewLocalStorage e (DefaultRootDir e) h1 = (Ok (), h2)"
    and "db_exec e h2 lock_statement = Inl err"
  shows "\<exists>msg. backup e f n tr = (Fail msg, h2 @ [DbExec lock_statement, DbExec unlock_statement])"
  using assms
  by (auto simp: backup_def backup_steps_def or_end_def LockForBackup_def backup_deferred_def Unlock_def
      db_Exec_def run_io split: sum.split)

definition demo_locked_env :: pitr_env where
  "demo_locked_env = demo_pitr_env\<lparr>db_exec := (\<lambda>_ s. if s = lock_statement then Inl (NewError ''locked'') else Inr ())\<rparr>"

theorem failed_lock_unlocks_cluster_witness:
  "\<exists>msg h. backup demo_locked_env demo_flags 4 [] = (Fail msg, h @ [DbExec lock_statement, DbExec unlock_statement])"
proof -
  obtain h1 where h1: "NewShardingSphereProxy demo_locked_env (Username demo_flags) (Password demo_flags)
      DefaultDBName (Host demo_flags) (Port demo_flags) [] = (Ok (), h1)"
    by (simp add: demo_locked_env_def NewShardingSphereProxy_def Open_def trim_spaces_def DefaultDBName_def
        demo_flags_def run_io)
  obtain h2 where h2: "NewLocalStorage demo_locked_env (DefaultRootDir demo_locked_env) h1 = (Ok (), h2)"
    by (simp add: demo_locked_env_def NewLocalStorage_def init_dir_def run_io)
  have "db_exec demo_locked_env h2 lock_statement = Inl (NewError ''locked'')" by (simp add: demo_locked_env_def)
  from failed_lock_unlocks_cluster [OF h1 h2 this] show ?thesis by blast
qed

section \<open>Waiting for the nodes\<close>

definition add_data_node :: "(string \<rightharpoonup> DataNode) \<Rightarrow> DataNode \<Rightarrow> (string \<rightharpoonup> DataNode)" where
  "add_data_node m dn = m(dn_IP dn \<mapsto> dn)"

lemma fill_node_map_Some:
  "fill_node_map m (map Some dns) tr = (Ok (foldl add_data_node m dns), tr)"
  by (induction dns arbitrary: m) (simp_all add: add_data_node_def)

lemma map_io_deref_Some [simp]: "map_io deref (map Some xs) tr = (Ok xs, tr)"
  by (induction xs arbitrary: tr) (simp_all add: bind_io_def)

lemma dom_node_map: "dom (foldl add_data_node m dns) = dom m \<union> dn_IP ` set dns"
  by (induction dns arbitrary: m) (auto simp: add_data_node_def)

lemma ran_node_map: "foldl add_data_node m dns ip = Some dn \<Longrightarrow> m ip = Some dn \<or> dn \<in> set dns \<and> dn_IP dn = ip"
  by (induction dns arbitrary: m) (fastforce simp: add_data_node_def split: if_splits)+

text \<open>The tasks that watch the nodes, and the rounds they need when nobody is kept waiting.\<close>

definition watch_tasks :: "DbNode list \<Rightarrow> backuptask list" where
  "watch_tasks nodes = map (\<lambda>sn. \<lparr>bt_Sn = sn, bt_retries = defaultShowDetailRetryTimes\<rparr>) nodes"

lemma fuel_watch_tasks: "watches.fuel (watch_tasks nodes) = 4 * length nodes"
  by (simp add: watches.fuel_def watch_tasks_def defaultShowDetailRetryTimes_def comp_def sum_list_triv)

text \<open>
  C28. Waiting for a backup ends: if every answer of an agent about a backup is final, four rounds
  per storage node are enough, in whatever order the goroutines run and however often
  requests fail, because a task gives up after three retries.
\<close>

theorem checkBackupStatus_returns:
  assumes "auto_stop e" and "\<And>h t store. \<not> kept_waiting e f h t store"
    and "ls_SsBackup b = Some ss" and "ss_StorageNodes ss = map Some nodes"
    and "ls_DnList b = map Some dns" and "node_IP ` set nodes \<subseteq> dn_IP ` set dns"
    and "ls_Info b = Some info" and "4 * length nodes \<le> n"
  shows "\<exists>st b' tr'. checkBackupStatus e f n b tr = (Ok (Some (st, b')), tr') \<and>
     st \<in> {SsBackupStatusCompleted, SsBackupStatusFailed, SsBackupStatusCanceled}"
proof (cases "nodes = []")
  case True
  with assms(3,4) show ?thesis by (simp add: checkBackupStatus_def)
next
  case False
  let ?m = "foldl add_data_node Map.empty dns"
  have "list_all (watch_ready (set nodes) ?m) (watch_tasks nodes)"
    using assms(6) by (auto simp: list_all_iff watch_tasks_def watch_ready_def dom_node_map)
  from watches.loop_ends [OF assms(1,2) this, of n "[]" tr] assms(8)
  obtain store rs h where run: "run_tasks e (backup_checkProgress e f) n (watch_tasks nodes) ?m [] tr = (Ok (Some (store, rs)), h)"
    by (auto simp: fuel_watch_tasks)
  with False assms(3-5,7) show ?thesis
    by (simp add: checkBackupStatus_def bind_io_def fill_node_map_Some watch_tasks_def time_now_def call_def Let_def)
qed

lemma demo_not_waiting: "\<not> kept_waiting demo_pitr_env f h t store"
  by (cases "dn_BackupID (the (store (node_IP (bt_Sn t)))) = []")
     (auto simp: kept_waiting_def ShowDetail_def final_status_def demo_detail_def show_detail_in_def ask_agent_def Send_def
       demo_resp_detail_def from_result_def bind_io_def attempt_def wrap_err_def call_def)

theorem checkBackupStatus_returns_witness:
  "\<exists>st b' tr'. checkBackupStatus demo_pitr_env demo_flags 4 demo_record [] = (Ok (Some (st, b')), tr') \<and>
     st \<in> {SsBackupStatusCompleted, SsBackupStatusFailed, SsBackupStatusCanceled}"
  using checkBackupStatus_returns [where e = demo_pitr_env and f = demo_flags and b = demo_record and n = 4 and tr = "[]"
      and nodes = "[demo_db_node]" and dns = "[demo_data_node]", OF demo_auto_stop demo_not_waiting]
  by (simp add: demo_record_def demo_db_node_def demo_data_node_def)

section \<open>What a successful backup means\<close>

lemma exportData_Ok:
  assumes "exportData e f h = (Ok (name, b), h')"
  obtains nodes ss info h1 h2 where "ExportStorageNodes e h1 = (Ok nodes, h2)" "ls_SsBackup b = Some ss"
    "ss_StorageNodes ss = map Some nodes" "ls_DnList b = []" "ls_Info b = Some info"
  using assms by (auto simp: exportData_def io_Ok cli_err_def Let_def)

lemma asDuplicate_iff: "asDuplicate seen ips \<longleftrightarrow> \<not> distinct ips \<or> set ips \<inter> seen \<noteq> {}"
  by (induction seen ips rule: asDuplicate.induct) auto

lemma check_agent_Ok: "check_agent e f (Some sn) h = (Ok (sn', ok), h') \<Longrightarrow> sn' = sn"
  by (auto simp: check_agent_def io_Ok)

lemma check_agents_fst:
  "map_io (check_agent e f) (map Some nodes) h = (Ok rs, h') \<Longrightarrow> map fst rs = nodes"
  by (induction nodes arbitrary: rs h) (fastforce simp: io_Ok dest: check_agent_Ok)+

lemma checkAgentServerStatus_distinct:
  assumes "checkAgentServerStatus e f b h = (Ok True, h')"
    and "ls_SsBackup b = Some ss" and "ss_StorageNodes ss = map Some nodes"
  shows "distinct (map node_IP nodes)"
proof -
  from assms obtain rs where "map_io (check_agent e f) (map Some nodes) h = (Ok rs, h')"
    "\<not> asDuplicate {} (map (node_IP \<circ> fst) rs)"
    by (auto simp: checkAgentServerStatus_def io_Ok split: if_splits)
  moreover from this have "map (node_IP \<circ> fst) rs = map node_IP nodes"
    using check_agents_fst by (metis map_map)
  ultimately show ?thesis by (simp add: asDuplicate_iff)
qed

lemma do_execBackup_Ok:
  "do_execBackup e f sn h = (Ok (dn, err), h') \<Longrightarrow>
     dn_IP dn = node_IP sn \<and> (err = None \<longrightarrow> dn_Status dn = SsBackupStatusRunning)"
  by (auto simp: do_execBackup_def io_Ok Let_def)

lemma do_execBackups_Ok:
  "map_io (do_execBackup e f) nodes h = (Ok rs, h') \<Longrightarrow>
     map (dn_IP \<circ> fst) rs = map node_IP nodes \<and> (\<forall>(dn, err) \<in> set rs. err = None \<longrightarrow> dn_Status dn = SsBackupStatusRunning)"
  by (induction nodes arbitrary: rs h) (fastforce simp: io_Ok dest: do_execBackup_Ok)+

lemma map_filter_snd_empty: "List.map_filter snd rs = [] \<longleftrightarrow> (\<forall>(x, err) \<in> set rs. err = None)"
  by (induction rs) (auto simp: List.map_filter_simps split: option.splits)

lemma execBackup_started:
  assumes "execBackup e f b h = (Ok (b', None), h')"
    and "ls_SsBackup b = Some ss" and "ss_StorageNodes ss = map Some nodes" and "ls_DnList b = []"
  obtains dns ss' where "ls_DnList b' = map Some dns" "node_IP ` set nodes \<subseteq> dn_IP ` set dns"
    "\<forall>dn \<in> set dns. dn_Status dn = SsBackupStatusRunning" "ls_SsBackup b' = Some ss'"
    "ss_StorageNodes ss' = map Some nodes" "ls_Info b' = ls_Info b"
proof -
  from assms obtain h1 g rs h2 g' g'' where run: "map_io (do_execBackup e f) (shuffle g nodes) h1 = (Ok rs, h2)"
    and res: "(case shuffle g' (List.map_filter snd rs) of
         err # x \<Rightarrow> (set_ss_status SsBackupStatusFailed b, Some (NewCliErr (error_text err)))
       | [] \<Rightarrow> (set_ss_status SsBackupStatusRunning
                  (b\<lparr>ls_DnList := ls_DnList b @ map Some (shuffle g'' (map fst rs))\<rparr>), None)) = (b', None)"
    by (auto simp: execBackup_def io_Ok in_some_order_def)
  from res have "shuffle g' (List.map_filter snd rs) = []" by (auto split: list.splits)
  then have "List.map_filter snd rs = []" by (metis length_shuffle length_0_conv)
  then have ok: "\<forall>(dn, err) \<in> set rs. err = None" by (simp add: map_filter_snd_empty)
  from res \<open>shuffle g' (List.map_filter snd rs) = []\<close>
  have b': "b' = set_ss_status SsBackupStatusRunning (b\<lparr>ls_DnList := map Some (shuffle g'' (map fst rs))\<rparr>)"
    using assms(4) by simp
  have "node_IP ` set nodes = dn_IP ` set (map fst rs)"
    using do_execBackups_Ok [OF run] by (metis (mono_tags) list.set_map map_map set_shuffle)
  moreover have "\<forall>dn \<in> set (map fst rs). dn_Status dn = SsBackupStatusRunning"
    using do_execBackups_Ok [OF run] ok by fastforce
  ultimately show thesis
    using that [of "shuffle g'' (map fst rs)"] b' assms(2,3) by (auto simp: set_ss_status_def)
qed

lemma checkBackupStatus_completed:
  assumes "auto_stop e" and run: "checkBackupStatus e f n b h = (Ok (Some (st, b')), h')"
    and "st = SsBackupStatusCompleted \<or> st = SsBackupStatusCanceled"
    and "ls_SsBackup b = Some ss" and "ss_StorageNodes ss = map Some nodes" and "distinct (map node_IP nodes)"
    and "ls_DnList b = map Some dns" and "node_IP ` set nodes \<subseteq> dn_IP ` set dns"
    and "\<forall>dn \<in> set dns. dn_Status dn = SsBackupStatusRunning"
    and sn: "sn \<in> set nodes"
  shows "completed e f h' sn"
proof -
  let ?m = "foldl add_data_node Map.empty dns"
  have "nodes \<noteq> []" using sn by auto
  with run assms(4,5,7) obtain store rs h1 where
    loop: "run_tasks e (backup_checkProgress e f) n (watch_tasks nodes) ?m [] h = (Ok (Some (store, rs)), h1)"
    and h': "h' = h1 @ [ClockNow]"
    and st: "st = (if list_all (\<lambda>dn. dn_Status dn = SsBackupStatusCompleted) (List.map_filter store rs)
               then SsBackupStatusCompleted else SsBackupStatusFailed)"
    by (auto simp: checkBackupStatus_def io_Ok fill_node_map_Some watch_tasks_def time_now_def Let_def
        deref_def panic_def split: option.splits)
  have ready: "list_all (watch_ready (set nodes) ?m) (watch_tasks nodes)"
    using assms(8) by (auto simp: list_all_iff watch_tasks_def watch_ready_def dom_node_map)
  have "watched e f (set nodes) h ?m"
    using assms(9) by (fastforce simp: watched_def dest: ran_node_map)
  note results = watches.loop_results [OF assms(1) loop this ready]
  have t: "\<lparr>bt_Sn = sn, bt_retries = defaultShowDetailRetryTimes\<rparr> \<in> set (watch_tasks nodes)"
    using sn by (simp add: watch_tasks_def)
  have "node_IP sn \<in> set rs" using results t unfolding watches.served_def by fastforce
  moreover obtain dn where dn: "store (node_IP sn) = Some dn"
    using results ready t by (fastforce simp: list_all_iff watch_ready_def)
  ultimately have "dn \<in> set (List.map_filter store rs)" by (force simp: List.map_filter_def)
  with st assms(3) have "dn_Status dn = SsBackupStatusCompleted" by (auto simp: list_all_iff split: if_splits)
  with results dn obtain sn' where "sn' \<in> set nodes" "node_IP sn' = node_IP sn" "completed e f h1 sn'"
    unfolding watched_def by blast
  with assms(6) sn h' show ?thesis
    by (auto simp: distinct_map dest: inj_onD intro: completed_grows)
qed

lemma or_end_Ok:
  assumes "or_end p st m k h = (Ok (Some (None, x)), h')"
  obtains y h1 where "m h = (Ok y, h1)" "k y h1 = (Ok (Some (None, x)), h')"
  using assms by (auto simp: or_end_def io_Ok)

lemma backup_Ok:
  assumes "backup e f n tr = (Ok (Some ()), tr')"
  obtains st h where "backup_steps e f n h = (Ok (Some (None, st)), tr')"
  using assms by (auto simp: backup_def io_Ok split: option.splits)

lemma harmless_grows: "within harmless m \<Longrightarrow> m h = (r, h') \<Longrightarrow> \<exists>new. h' = h @ new"
  by (blast elim: withinE)

lemma backup_completes:
  assumes "auto_stop e" and "backup e f n tr = (Ok (Some ()), tr')"
  shows "\<exists>nodes. (\<exists>h h'. ExportStorageNodes e h = (Ok nodes, h')) \<and> (\<forall>sn \<in> set nodes. completed e f tr' sn)"
proof -
  from assms(2) obtain st h where "backup_steps e f n h = (Ok (Some (None, st)), tr')" by (rule backup_Ok)
  then obtain name b h1 h2 h3 h4 where exported: "exportData e f h1 = (Ok (name, b), h2)"
    and agents: "checkAgentServerStatus e f b h2 = (Ok True, h3)"
    and exec: "backup_exec e f n name b h4 = (Ok (Some (None, st)), tr')"
    unfolding backup_steps_def Let_def
    by (auto elim!: or_end_Ok bind_io_OkE split: if_splits)
  from exported obtain nodes ss info h5 h6 where nodes: "ExportStorageNodes e h5 = (Ok nodes, h6)"
    and b: "ls_SsBackup b = Some ss" "ss_StorageNodes ss = map Some nodes" "ls_DnList b = []" "ls_Info b = Some info"
    by (rule exportData_Ok)
  from exec obtain b' h7 where started: "execBackup e f b h4 = (Ok (b', None), h7)"
    and finish: "backup_finish e f n name b' h7 = (Ok (Some (None, st)), tr')"
    by (auto simp: backup_exec_def io_Ok split: option.splits)
  from finish obtain st' b'' h8 h9 where check: "checkBackupStatus e f n b' h8 = (Ok (Some (st', b'')), h9)"
    and st': "st' = SsBackupStatusCompleted \<or> st' = SsBackupStatusCanceled"
    and written: "WriteByJSON e name b'' h9 = (Ok (), tr')"
    unfolding backup_finish_def
    by (auto elim!: or_end_Ok bind_io_OkE split: option.splits if_splits)
  obtain new where new: "tr' = h9 @ new" using harmless_grows [OF harmless_WriteByJSON written] by blast
  from started b(1-3) obtain dns ss' where b': "ls_DnList b' = map Some dns" "node_IP ` set nodes \<subseteq> dn_IP ` set dns"
    "\<forall>dn \<in> set dns. dn_Status dn = SsBackupStatusRunning" "ls_SsBackup b' = Some ss'"
    "ss_StorageNodes ss' = map Some nodes" "ls_Info b' = ls_Info b"
    by (rule execBackup_started)
  have "completed e f h9 sn" if "sn \<in> set nodes" for sn
    using checkBackupStatus_completed [OF assms(1) check st' b'(4,5) _ b'(1,2,3) that]
      checkAgentServerStatus_distinct [OF agents b(1,2)] by blast
  with nodes new show ?thesis by (blast intro: completed_grows)
qed



end
