(* ===== verification/Pitr_Restore.thy ===== *)
theory Pitr_Restore
  imports Pitr_Properties
begin

text \<open>
  The order in which restore does its work, and which databases it drops.
\<close>

section \<open>Restore\<close>

lemma restore_task_Ok: "restore_task m p h = (Ok t, h') \<Longrightarrow> \<exists>sn dn. p = Some sn \<and> m (node_IP sn) = Some dn \<and> t = (sn, dn)"
  by (cases p; cases "m (node_IP (the p))") (auto simp: restore_task_def io_Ok)

lemma execRestore_restored:
  assumes "auto_stop e" and "execRestore e f n bak h = (Ok (Some ()), h')"
  obtains ss where "ls_SsBackup bak = Some ss"
    "\<forall>p \<in> set (ss_StorageNodes ss). \<exists>sn dn. p = Some sn \<and> restored e f h' (sn, dn)"
proof -
  obtain ss where ss: "ls_SsBackup bak = Some ss"
    using assms(2) by (cases "ls_SsBackup bak") (auto simp: execRestore_def)
  with assms(2) obtain m h1 ts h2 rs where tasks: "map_io (restore_task m) (ss_StorageNodes ss) h1 = (Ok ts, h2)"
    and run: "run_tasks e (restore_checkProgress e f) n ts () [] h2 = (Ok (Some ((), rs)), h')"
    and ok: "\<not> list_ex (\<lambda>r. rr_Status r \<noteq> ''Completed'') rs"
    by (auto simp: execRestore_def io_Ok split: if_splits option.splits)
  have served: "restores.served e f h' rs ts"
    using restores.loop_results [OF assms(1) run] by (simp add: list_all_iff)
  have "\<exists>sn dn. p = Some sn \<and> restored e f h' (sn, dn)" if "p \<in> set (ss_StorageNodes ss)" for p
  proof -
    from that obtain i where i: "i < length (ss_StorageNodes ss)" "p = ss_StorageNodes ss ! i"
      by (auto simp: in_set_conv_nth)
    with map_io_Ok [OF tasks] obtain sn dn where t: "p = Some sn" "ts ! i = (sn, dn)" "length ts = length (ss_StorageNodes ss)"
      by (metis restore_task_Ok)
    then have "(sn, dn) \<in> set ts" using i by (metis nth_mem)
    with served obtain r where "r \<in> set rs" "rr_Status r = ''Completed'' \<longrightarrow> restored e f h' (sn, dn)"
      unfolding restores.served_def by blast
    with ok t(1) show ?thesis by (auto simp: list_ex_iff)
  qed
  with ss that show thesis by blast
qed

fun is_exec :: "pitr_call \<Rightarrow> bool" where
  "is_exec (DbExec s) = True"
| "is_exec _ = False"

lemma harmless_no_exec: "harmless c \<Longrightarrow> \<not> is_exec c"
  by (cases c) auto

lemma no_exec:
  "within (\<lambda>c. \<not> is_exec c) (NewLocalStorage e root)"
  "within (\<lambda>c. \<not> is_exec c) (NewShardingSphereProxy e u w d h q)"
  "within (\<lambda>c. \<not> is_exec c) (validate e f)"
  "within (\<lambda>c. \<not> is_exec c) (checkDatabaseExist e)"
  "within (\<lambda>c. \<not> is_exec c) (GetUserApproveInTerminal e q')"
  "within (\<lambda>c. \<not> is_exec c) (checkAgentServerStatus e f b)"
  "within (\<lambda>c. \<not> is_exec c) (execRestore e f n b)"
  by (intro within_harmless within_execRestore; simp add: harmless_no_exec)+

lemma any_calls:
  "within (\<lambda>_. True) (NewShardingSphereProxy e u w d h q)" "within (\<lambda>_. True) (NewLocalStorage e root)"
  "within (\<lambda>_. True) (validate e f)" "within (\<lambda>_. True) (checkDatabaseExist e)"
  "within (\<lambda>_. True) (GetUserApproveInTerminal e q')" "within (\<lambda>_. True) (checkAgentServerStatus e f b)"
  "within (\<lambda>_. True) (execRestore e f n b)" "within (\<lambda>_. True) (restoreDataToSSProxy e names b)"
  by (intro within_harmless within_execRestore within_restoreDataToSSProxy; simp)+

text \<open>
  How a run of restore comes to a statement: all the steps before have succeeded.
\<close>

lemma restore_tail_exec:
  assumes "added (bind_io (cli_err p (execRestore e f n bak)) (\<lambda>w. case w of
       None \<Rightarrow> ret None
     | Some _ \<Rightarrow> bind_io (cli_err q (restoreDataToSSProxy e names bak)) (\<lambda>_. ret (Some ())))) h = ys @ c # after"
    and "B = h @ ys" and "is_exec c"
  shows "answered (execRestore e f n bak) (Some ()) B"
  using assms(1,2)
  by (rule class_in_second_part [where D = is_exec, OF _ _ assms(3)];
      (intro within_cli_err no_exec within_intros any_calls)?)
     (auto split: option.splits)

lemma restore_reaches_exec:
  assumes "added (restore e f n) tr = before @ c # after" and "is_exec c"
  shows "\<exists>bak names. answered (GetUserApproveInTerminal e (restorePrompt names)) () (tr @ before) \<and>
     answered (checkAgentServerStatus e f bak) True (tr @ before) \<and>
     answered (execRestore e f n bak) (Some ()) (tr @ before)"
proof -
  note second = class_in_second_part [where D = is_exec and B = "tr @ before", OF _ _ assms(2)]
  have start: "tr @ before = tr @ before" by simp
  show ?thesis
    using assms(1) start unfolding restore_def Let_def
    apply (elim second; (assumption | intro within_cli_err no_exec within_intros any_calls)?)
       apply assumption+
    apply (simp (no_asm_use) only: answered_cli_err split: if_splits)
     apply simp
    apply (drule restore_tail_exec [OF _ _ assms(2)], assumption)
    apply (metis (full_types) unit.exhaust)
    done
qed



lemma no_exec_filter: "within (\<lambda>c. \<not> is_exec c) m \<Longrightarrow> m h = (r, h') \<Longrightarrow> filter is_exec h' = filter is_exec h"
  by (erule withinE, assumption) (auto simp: list_all_iff)

lemma drops_trace:
  "seq_io (\<lambda>name. cli_err p (DropDatabase e name)) names h = (Ok (), h') \<Longrightarrow>
     h' = h @ map (\<lambda>d. DbExec (drop_statement d)) names"
  by (rule seq_io_trace) (auto simp: cli_err_def DropDatabase_def db_Exec_def io_Ok)

lemma ImportMetaData_Ok: "ImportMetaData e c h = (Ok (), h') \<Longrightarrow> \<exists>stmt. h' = h @ [DbExec stmt]"
  by (cases c; cases "marshal_cluster e (the c)") (auto simp: ImportMetaData_def cli_err_def db_Exec_def call_Ok_iff)

lemma restoreDataToSSProxy_trace:
  assumes "restoreDataToSSProxy e names b h = (Ok (), h')"
  obtains stmt where "h' = h @ map (\<lambda>d. DbExec (drop_statement d)) names @ [DbExec stmt]"
proof -
  from assms obtain h1 where drops: "seq_io (\<lambda>name. cli_err ''drop database failed. err: '' (DropDatabase e name)) names h = (Ok (), h1)"
    and "bind_io (deref (ls_SsBackup b)) (\<lambda>ss. cli_err ''Import metadata to ss-proxy failed. err: ''
       (ImportMetaData e (ss_ClusterInfo ss))) h1 = (Ok (), h')"
    unfolding restoreDataToSSProxy_def by (auto elim: bind_io_OkE)
  then obtain c where "ImportMetaData e c h1 = (Ok (), h')"
    by (auto simp: bind_io_Ok_iff cli_err_def)
  with drops that show thesis by (auto dest!: drops_trace ImportMetaData_Ok)
qed

text \<open>The names of the databases in a cluster.\<close>

definition database_names :: "ClusterInfo \<Rightarrow> string list" where
  "database_names c = (case Databases (ci_MetaData c) of None \<Rightarrow> [] | Some dbs \<Rightarrow> map fst dbs)"

lemma checkDatabaseExist_Ok:
  assumes "checkDatabaseExist e h = (Ok names, h')"
  obtains cluster g where "answered (ExportMetaData e) cluster h'" "names = shuffle g (database_names cluster)"
proof -
  from assms obtain cluster h1 where run: "ExportMetaData e h = (Ok cluster, h1)"
    and names: "(case Databases (ci_MetaData cluster) of None \<Rightarrow> ret []
       | Some dbs \<Rightarrow> in_some_order e ''databases'' (map fst dbs)) h1 = (Ok names, h')"
    by (auto simp: checkDatabaseExist_def cli_err_def elim!: bind_io_OkE)
  have "h' = h1" "\<exists>g. names = shuffle g (database_names cluster)"
    using names by (auto simp: database_names_def in_some_order_def split: option.splits)
  moreover have "answered (ExportMetaData e) cluster h1" using run by (rule answered_now)
  ultimately show thesis using that by blast
qed



end
