(* ===== verification/Pitr_Delete.thy ===== *)
theory Pitr_Delete
  imports Pitr_Restore
begin

text \<open>
  The order in which a backup record is deleted, what a deletion leaves behind, and the storage nodes
  that ShardingSphere-Proxy names.
\<close>

section \<open>Deleting the data\<close>

lemma fill_node_map_Ok:
  assumes "fill_node_map m ps h = (Ok m', h')"
  obtains dns where "ps = map Some dns" "m' = foldl add_data_node m dns"
  using assms
proof (induction ps arbitrary: m thesis)
  case Nil
  then show ?case by simp
next
  case (Cons p ps)
  then obtain dn where dn: "p = Some dn" "fill_node_map (m(dn_IP dn \<mapsto> dn)) ps h = (Ok m', h')"
    by (auto simp: bind_io_Ok_iff)
  from Cons.IH [OF _ dn(2)] obtain dns where "ps = map Some dns"
    "m' = foldl add_data_node (add_data_node m dn) dns" unfolding add_data_node_def by blast
  with dn(1) Cons.prems(1) [of "dn # dns"] show ?case by simp
qed

lemma delete_tasks_Ok:
  "delete_tasks m ps h = (Ok ts, h') \<Longrightarrow> Some sn \<in> set ps \<Longrightarrow> m (node_IP sn) = Some dn \<Longrightarrow> (sn, dn) \<in> set ts"
  by (induction ps arbitrary: ts h) (auto simp: bind_io_Ok_iff split: option.splits)

text \<open>The storage nodes of a record for which it has a data node, and that the data is deleted.\<close>

definition all_deleted :: "pitr_env \<Rightarrow> Flags \<Rightarrow> LsBackup \<Rightarrow> pitr_call list \<Rightarrow> bool" where
  "all_deleted e f bak h \<longleftrightarrow> (\<forall>ss sn dn. ls_SsBackup bak = Some ss \<and> Some sn \<in> set (ss_StorageNodes ss) \<and>
     Some dn \<in> set (ls_DnList bak) \<and> dn_IP dn = node_IP sn \<longrightarrow>
     (\<exists>dn'. Some dn' \<in> set (ls_DnList bak) \<and> dn_IP dn' = node_IP sn \<and> deleted e f h (sn, dn')))"

lemma execDelete_deleted:
  assumes "auto_stop e" and "do_execDelete e f n bak h = (Ok (Some ()), h')"
  shows "all_deleted e f bak h'"
  unfolding all_deleted_def
proof (intro allI impI, elim conjE)
  fix ss sn dn
  assume ss: "ls_SsBackup bak = Some ss" and sn: "Some sn \<in> set (ss_StorageNodes ss)"
    and dn: "Some dn \<in> set (ls_DnList bak)" "dn_IP dn = node_IP sn"
  have "ss_StorageNodes ss \<noteq> []" using sn by auto
  with assms(2) ss obtain m h1 ts h2 rs where nodes: "fill_node_map Map.empty (ls_DnList bak) h = (Ok m, h1)"
    and tasks: "delete_tasks m (ss_StorageNodes ss) h1 = (Ok ts, h2)"
    and run: "run_tasks e (delete_checkProgress e f) n ts () [] h2 = (Ok (Some ((), rs)), h')"
    and ok: "\<not> list_ex (\<lambda>r. dbr_Status r \<noteq> ''Completed'') rs"
    by (auto simp: do_execDelete_def io_Ok split: if_splits option.splits)
  from nodes obtain dns where dns: "ls_DnList bak = map Some dns" "m = foldl add_data_node Map.empty dns"
    by (rule fill_node_map_Ok)
  from dn dns(1) have "dn \<in> set dns" "node_IP sn = dn_IP dn" by auto
  then have "node_IP sn \<in> dom m" unfolding dns(2) dom_node_map by blast
  then obtain dn' where dn': "m (node_IP sn) = Some dn'" by auto
  then have in_list: "Some dn' \<in> set (ls_DnList bak)" "dn_IP dn' = node_IP sn"
    using ran_node_map [of Map.empty dns "node_IP sn" dn'] dns by auto
  have "deletions.served e f h' rs ts" using deletions.loop_results [OF assms(1) run] by (simp add: list_all_iff)
  with delete_tasks_Ok [OF tasks sn dn'] ok have "deleted e f h' (sn, dn')"
    unfolding deletions.served_def by (fastforce simp: list_ex_iff)
  with in_list show "\<exists>dn'. Some dn' \<in> set (ls_DnList bak) \<and> dn_IP dn' = node_IP sn \<and> deleted e f h' (sn, dn')" by blast
qed

section \<open>The order of a deletion\<close>

fun is_remove :: "pitr_call \<Rightarrow> bool" where
  "is_remove (FileRemove p) = True"
| "is_remove _ = False"

fun is_delete_request :: "pitr_call \<Rightarrow> bool" where
  "is_delete_request (HttpDo m u (DeleteBackupBody b)) = True"
| "is_delete_request _ = False"

lemma harmless_no_removal: "harmless c \<Longrightarrow> \<not> is_remove c" "harmless c \<Longrightarrow> \<not> is_delete_request c"
  by (cases c rule: is_delete_request.cases; auto)+

lemma within_HideByName: "(\<And>a b. P (FileRename a b)) \<Longrightarrow> within P (HideByName e name)"
  unfolding HideByName_def Let_def by (intro within_intros)

lemma within_DeleteByHidedName: "(\<And>p. P (FileRemove p)) \<Longrightarrow> within P (DeleteByHidedName e name)"
  unfolding DeleteByHidedName_def ls_deleteByName_def by (intro within_intros)

lemma no_removal:
  assumes "\<And>c. harmless c \<Longrightarrow> \<not> D c"
  shows "within (\<lambda>c. \<not> D c) (NewLocalStorage e root)" "within (\<lambda>c. \<not> D c) (validate e f)"
    "within (\<lambda>c. \<not> D c) (checkAgentServerStatus e f b)" "within (\<lambda>c. \<not> D c) (GetUserApproveInTerminal e q)"
  by (intro within_harmless; simp add: assms)+

lemma any_delete_calls:
  "within (\<lambda>_. True) (HideByName e name)" "within (\<lambda>_. True) (do_execDelete e f n bak)"
  "within (\<lambda>_. True) (DeleteByHidedName e name)" "within (\<lambda>_. True) (delete_record_steps e f n bak info)"
  unfolding delete_record_steps_def
  by (intro within_intros within_HideByName within_execDelete within_DeleteByHidedName; simp)+

lemma answered_attempt [simp]: "answered (attempt m) (Inr x) h \<longleftrightarrow> answered m x h"
  by (auto simp: answered_def attempt_Ok_iff)

lemma answered_deref: "answered (deref p) x h \<Longrightarrow> p = Some x"
  by (auto simp: answered_def)

text \<open>
  A run of \<^verbatim>\<open>deleteRecord\<close> that makes a call of a class \<open>D\<close> of file removals or deletion requests makes it in the
  last part, after the user agreed.
\<close>

lemma deleteRecord_reaches:
  assumes "added (deleteRecord e f n) tr = before @ c # after" and "D c" and "\<And>c. harmless c \<Longrightarrow> \<not> D c"
  shows "\<exists>bak info h ys. ls_Info bak = Some info \<and> answered (checkAgentServerStatus e f bak) True (tr @ before) \<and>
     answered (GetUserApproveInTerminal e (deletePrompt info)) () (tr @ before) \<and>
     added (delete_record_steps e f n bak info) h = ys @ c # after \<and> tr @ before = h @ ys"
proof -
  note second = class_in_second_part [where D = D and B = "tr @ before", OF _ _ assms(2)]
  have start: "tr @ before = tr @ before" by simp
  show ?thesis
    using assms(1) start unfolding deleteRecord_def Let_def
    apply (elim second; (assumption | intro within_cli_err no_removal [OF assms(3)] within_intros any_calls any_delete_calls)?)
     apply assumption+
    apply (simp (no_asm_use) only: answered_cli_err split: if_splits)
     apply simp
    apply (elim second; (assumption | intro within_cli_err no_removal [OF assms(3)] within_intros any_calls any_delete_calls)?)
     apply assumption+
    apply (simp (no_asm_use) only: answered_cli_err)
    apply (drule answered_deref)
    apply (metis (full_types) old.unit.exhaust)
    done
qed

lemma delete_steps_hidden:
  assumes "added (delete_record_steps e f n bak info) h = ys @ c # after" and "B = h @ ys"
    and "D c" and "\<And>a b. \<not> D (FileRename a b)"
  shows "FileRename (ls_path e (info_FileName info)) (ls_path e (''.'' @ info_FileName info)) \<in> set B"
proof -
  let ?file = "info_FileName info"
  have "answered (attempt (HideByName e ?file)) (Inr ()) B"
    using assms(1,2) unfolding delete_record_steps_def
    by (rule class_in_second_part [where D = D, OF _ _ assms(3)];
        (intro within_intros within_HideByName assms(4) any_delete_calls)?)
       (auto split: sum.splits)
  then have "answered (HideByName e ?file) () B" by simp
  then show ?thesis by (auto simp: answered_def HideByName_def cli_err_def call_Ok_iff Let_def)
qed

lemma delete_steps_remove:
  assumes "added (delete_record_steps e f n bak info) h = ys @ c # after" and "B = h @ ys" and "is_remove c"
  shows "c = FileRemove (ls_path e (''.'' @ info_FileName info)) \<and> answered (do_execDelete e f n bak) (Some ()) B"
proof -
  let ?file = "info_FileName info"
  note second = class_in_second_part [where D = is_remove and B = B, OF _ _ assms(3)]
  from assms(1,2) obtain h1 ys1 where
    "added (bind_io (cli_err ''exec delete failed. err: '' (do_execDelete e f n bak)) (\<lambda>waited. case waited of
         None \<Rightarrow> ret None
       | Some _ \<Rightarrow> bind_io (cli_err ''exec delete backup record failed. err: '' (DeleteByHidedName e ?file)) (\<lambda>_. ret (Some ())))) h1 =
       ys1 @ c # after" "B = h1 @ ys1"
    unfolding delete_record_steps_def
    by (rule second; (intro within_intros within_HideByName any_delete_calls)?) (auto split: sum.splits)
  then obtain w h2 ys2 where run: "answered (do_execDelete e f n bak) w B"
    and tail: "added (case w of None \<Rightarrow> ret None
       | Some _ \<Rightarrow> bind_io (cli_err ''exec delete backup record failed. err: '' (DeleteByHidedName e ?file)) (\<lambda>_. ret (Some ()))) h2 = ys2 @ c # after"
    by (rule second; (intro within_intros within_execDelete any_delete_calls)?) auto
  have "within (\<lambda>c. c = FileRemove (ls_path e (''.'' @ ?file)))
     (bind_io (cli_err ''exec delete backup record failed. err: '' (DeleteByHidedName e ?file)) (\<lambda>_. ret (Some ())))"
    unfolding DeleteByHidedName_def ls_deleteByName_def by (intro within_intros) simp
  from within_added [OF this, of c h2] tail have "w \<noteq> None \<and> c = FileRemove (ls_path e (''.'' @ ?file))"
    by (cases w) auto
  with run show ?thesis by (cases w) auto
qed



section \<open>A record that is hidden stays hidden\<close>

lemma within_deleteRecord_renames:
  "within (\<lambda>c. \<forall>a b. c = FileRename a b \<longrightarrow> (\<exists>file. a = ls_path e file \<and> b = ls_path e (''.'' @ file))) (deleteRecord e f n)"
proof -
  have "\<not> (\<exists>a b. c = FileRename a b)" if "harmless c" for c using that by auto
  then show ?thesis
    unfolding deleteRecord_def delete_record_steps_def HideByName_def Let_def
    by (intro within_intros within_harmless within_execDelete within_DeleteByHidedName) auto
qed

lemma no_rename_back: "ls_path e (''.'' @ file) = ls_path e g \<Longrightarrow> ls_path e file \<noteq> ls_path e (''.'' @ g)"
  by (auto simp: ls_path_def)



end
