(* ===== verification/Pitr_Nodes.thy ===== *)
theory Pitr_Nodes
  imports Pitr_Delete
begin

text \<open>
  The storage nodes a backup is made of, and what is left on them when a backup cannot be started.
\<close>

section \<open>Decimal numbers\<close>

lemma is_digit_digit_char: "d < 10 \<Longrightarrow> is_digit (digit_char d)"
  by (auto simp: is_digit_def digit_char_def)

lemma val_digit_char: "d < 10 \<Longrightarrow> (of_char (digit_char d) :: nat) - 48 = d"
  by (simp add: digit_char_def)

lemma digits_val_snoc: "digits_val (s @ [c]) = 10 * digits_val s + ((of_char c :: nat) - 48)"
  by (simp add: digits_val_def)

text \<open>Printing a number and reading its digits gives it back, so printing is injective.\<close>

lemma show_nat_digits: "list_all is_digit (show_nat n) \<and> digits_val (show_nat n) = n"
proof (induction n rule: less_induct)
  case (less n)
  show ?case
  proof (cases "n < 10")
    case True
    then show ?thesis
      by (simp add: show_nat.simps [of n] is_digit_digit_char val_digit_char digits_val_def)
  next
    case False
    then have "n div 10 < n" by simp
    from less [OF this] False show ?thesis
      by (simp add: show_nat.simps [of n] is_digit_digit_char val_digit_char digits_val_snoc)
  qed
qed

lemma show_nat_inj: "show_nat m = show_nat n \<Longrightarrow> m = n"
  using show_nat_digits by metis

text \<open>A text with no colon after the last colon determines both sides.\<close>

lemma last_colon_split:
  assumes "a @ CHR '':'' # b = c @ CHR '':'' # d" and "CHR '':'' \<notin> set b" and "CHR '':'' \<notin> set d"
  shows "a = c \<and> b = d"
  using assms(1)
proof (induction a arbitrary: c)
  case Nil
  then show ?case using assms by (cases c) auto
next
  case (Cons x a)
  then show ?case using assms by (cases c) auto
qed

lemma no_colon: "CHR '':'' \<notin> set (show_u16 p)"
proof
  assume "CHR '':'' \<in> set (show_u16 p)"
  then have "is_digit (CHR '':'')" using show_nat_digits by (auto simp: show_u16_def list_all_iff)
  then show False by (simp add: is_digit_def)
qed

text \<open>The key by which duplicates are found tells nodes apart exactly by address and port.\<close>

lemma node_key_iff: "node_key a = node_key b \<longleftrightarrow> node_IP a = node_IP b \<and> node_Port a = node_Port b"
proof
  assume "node_key a = node_key b"
  then have "node_IP a @ CHR '':'' # show_u16 (node_Port a) = node_IP b @ CHR '':'' # show_u16 (node_Port b)"
    by (simp add: node_key_def)
  from last_colon_split [OF this no_colon no_colon]
  have "node_IP a = node_IP b \<and> show_u16 (node_Port a) = show_u16 (node_Port b)" .
  then show "node_IP a = node_IP b \<and> node_Port a = node_Port b"
    by (metis show_u16_def show_nat_inj word_unat_eq_iff)
qed (simp add: node_key_def)

section \<open>Exported storage nodes\<close>

lemma filter_nodes_Ok:
  assumes "filter_nodes tmp acc vs h = (Ok (tmp', acc'), h')" and "tmp = node_key ` set acc" and "distinct (map node_key acc)"
  shows "tmp' = node_key ` set acc' \<and> distinct (map node_key acc') \<and> set acc \<subseteq> set acc' \<and>
    set acc' \<subseteq> set acc \<union> {v. Some v \<in> set vs} \<and> node_key ` {v. Some v \<in> set vs} \<subseteq> tmp'"
  using assms
proof (induction vs arbitrary: tmp acc)
  case Nil
  then show ?case by auto
next
  case (Cons p vs)
  then obtain v where p: "p = Some v"
    and rest: "(if node_key v \<in> tmp then filter_nodes tmp acc vs
       else filter_nodes (insert (node_key v) tmp) (acc @ [v]) vs) h = (Ok (tmp', acc'), h')"
    by (auto simp: bind_io_Ok_iff)
  show ?case
  proof (cases "node_key v \<in> tmp")
    case True
    with rest Cons.IH [of tmp acc] Cons.prems(2,3) p show ?thesis by auto
  next
    case False
    with rest Cons.IH [of "insert (node_key v) tmp" "acc @ [v]"] Cons.prems(2,3) p show ?thesis by auto
  qed
qed

text \<open>The nodes of all databases of an answer.\<close>

definition named_nodes :: "(string \<times> DbNode option list) list \<Rightarrow> DbNode set" where
  "named_nodes dbs = {v. \<exists>(k, vs) \<in> set dbs. Some v \<in> set vs}"

lemma named_nodes_Cons [simp]: "named_nodes ((k, vs) # dbs) = {v. Some v \<in> set vs} \<union> named_nodes dbs"
  by (auto simp: named_nodes_def)

lemma filter_databases_Ok:
  assumes "filter_databases tmp acc dbs h = (Ok nodes, h')" and "tmp = node_key ` set acc" and "distinct (map node_key acc)"
  shows "distinct (map node_key nodes) \<and> set acc \<subseteq> set nodes \<and> set nodes \<subseteq> set acc \<union> named_nodes dbs \<and>
    node_key ` named_nodes dbs \<subseteq> node_key ` set nodes"
  using assms
proof (induction dbs arbitrary: tmp acc h)
  case Nil
  then show ?case by (simp add: named_nodes_def)
next
  case (Cons kv dbs)
  obtain k vs where kv: "kv = (k, vs)" by fastforce
  with Cons.prems obtain tmp1 acc1 h1 where first: "filter_nodes tmp acc vs h = (Ok (tmp1, acc1), h1)"
    and rest: "filter_databases tmp1 acc1 dbs h1 = (Ok nodes, h')"
    by (auto simp: bind_io_Ok_iff)
  note f = filter_nodes_Ok [OF first Cons.prems(2,3)]
  from f have IH: "distinct (map node_key nodes) \<and> set acc1 \<subseteq> set nodes \<and> set nodes \<subseteq> set acc1 \<union> named_nodes dbs \<and>
    node_key ` named_nodes dbs \<subseteq> node_key ` set nodes" by (intro Cons.IH [OF rest]) simp_all
  then have mono: "node_key ` set acc1 \<subseteq> node_key ` set nodes" by (intro image_mono) simp
  have "node_key ` {v. Some v \<in> set vs} \<subseteq> node_key ` set nodes" using f mono by (metis order_trans)
  moreover have "set nodes \<subseteq> set acc \<union> ({v. Some v \<in> set vs} \<union> named_nodes dbs)"
  proof -
    from f have "set acc1 \<subseteq> set acc \<union> {v. Some v \<in> set vs}" by (elim conjE)
    moreover from IH have "set nodes \<subseteq> set acc1 \<union> named_nodes dbs" by (elim conjE)
    ultimately show ?thesis by auto
  qed
  moreover have "set acc \<subseteq> set nodes" using f IH by (metis order_trans)
  ultimately show ?case using IH by (simp add: kv image_Un)
qed

lemma ExportStorageNodes_Ok:
  assumes "ExportStorageNodes e tr = (Ok nodes, tr')"
  obtains data dbs g h where "json_nodes e data = Inr (Some dbs)" "filter_databases {} [] (shuffle g dbs) h = (Ok nodes, tr')"
  using assms
  by (auto simp: ExportStorageNodes_def io_Ok cli_err_def in_some_order_def)

text \<open>
  The storage nodes exported from ShardingSphere-Proxy are those of all databases in its answer,
  each once: no two of them have the same address and port, every node that some database names
  is there by its address and port, and no other. This holds for every order in which the databases are
  visited.
\<close>

theorem ExportStorageNodes_once:
  assumes "ExportStorageNodes e tr = (Ok nodes, tr')"
  shows "\<exists>data dbs. json_nodes e data = Inr (Some dbs) \<and>
     distinct (map (\<lambda>v. (node_IP v, node_Port v)) nodes) \<and> set nodes \<subseteq> named_nodes dbs \<and>
     (\<lambda>v. (node_IP v, node_Port v)) ` set nodes = (\<lambda>v. (node_IP v, node_Port v)) ` named_nodes dbs"
proof -
  let ?k = "\<lambda>v :: DbNode. (node_IP v, node_Port v)"
  from assms obtain data dbs g h where data: "json_nodes e data = Inr (Some dbs)"
    and run: "filter_databases {} [] (shuffle g dbs) h = (Ok nodes, tr')"
    by (rule ExportStorageNodes_Ok)
  have named: "named_nodes (shuffle g dbs) = named_nodes dbs" by (simp add: named_nodes_def)
  from filter_databases_Ok [OF run] have keys: "distinct (map node_key nodes)" "set nodes \<subseteq> named_nodes dbs"
    "node_key ` named_nodes dbs \<subseteq> node_key ` set nodes" by (auto simp: named)
  have "distinct (map ?k nodes)"
    using keys(1) by (auto simp: distinct_map inj_on_def node_key_iff)
  moreover have "?k v \<in> ?k ` set nodes" if "v \<in> named_nodes dbs" for v
  proof -
    from that keys(3) obtain w where "w \<in> set nodes" "node_key v = node_key w" by blast
    then show ?thesis by (force simp: node_key_iff)
  qed
  ultimately show ?thesis using data keys(2) by blast
qed

theorem ExportStorageNodes_once_witness:
  "\<exists>dbs. set [demo_db_node] \<subseteq> named_nodes dbs"
proof -
  have "ExportStorageNodes demo_pitr_env [] = (Ok [demo_db_node], [DbQuery ''EXPORT STORAGE NODES;''])" by simp
  from ExportStorageNodes_once [OF this] show ?thesis by blast
qed

section \<open>A backup that cannot be started\<close>

lemma execBackup_failed:
  assumes "execBackup e f b h = (Ok (b', Some err), h')"
  shows "ls_DnList b' = ls_DnList b" "map_option ss_StorageNodes (ls_SsBackup b') = map_option ss_StorageNodes (ls_SsBackup b)"
  using assms
  by (auto simp: execBackup_def set_ss_status_def option.map_comp comp_def elim!: bind_io_OkE split: list.splits)

lemma delete_tasks_empty: "delete_tasks Map.empty (map Some nodes) h = (Ok [], h)"
  by (induction nodes) (simp_all add: bind_io_def)

text \<open>
  When the backup of one node cannot be started, the ones that other nodes have started are
  neither recorded nor deleted: the cleaning up after the failure sends no request to any agent and
  removes the record.
\<close>

theorem failed_start_leaves_backups:
  assumes "execBackup e f b h = (Ok (b', Some err), h')"
    and "ls_SsBackup b = Some ss" and "ss_StorageNodes ss = map Some nodes" and "nodes \<noteq> []" and "ls_DnList b = []"
  shows "added (backup_deferred e f (Some (name, b'))) h' = [DbExec unlock_statement, FileRemove (ls_path e name)]"
proof -
  from execBackup_failed [OF assms(1)] assms(2,3,5) obtain ss' where b': "ls_DnList b' = []"
    "ls_SsBackup b' = Some ss'" "ss_StorageNodes ss' = map Some nodes" by auto
  have "deleteBackupFiles e f name b' g = (Ok (), g @ [FileRemove (ls_path e name)])" for g
    using b' assms(4)
    by (auto simp: deleteBackupFiles_def delete_started_def bind_io_def in_some_order_def delete_tasks_empty
        DeleteByName_def ls_deleteByName_def cli_err_def attempt_def flat_err_def call_def split: sum.split)
  then show ?thesis
    by (simp add: backup_deferred_def added_def bind_io_def attempt_def Unlock_def cli_err_def flat_err_def db_Exec_def
        call_def split: sum.split)
qed

definition demo_refusing_env :: pitr_env where
  "demo_refusing_env = demo_pitr_env\<lparr>json_resp_backup := (\<lambda>_. Inr \<lparr>Code = 1, Msg = ''no space'', Data = []\<rparr>)\<rparr>"

definition demo_fresh_record :: LsBackup where
  "demo_fresh_record = demo_record\<lparr>ls_DnList := []\<rparr>"

theorem failed_start_leaves_backups_witness:
  "\<exists>b' err h'. execBackup demo_refusing_env demo_flags demo_fresh_record [] = (Ok (b', Some err), h') \<and>
     added (backup_deferred demo_refusing_env demo_flags (Some (demo_filename, b'))) h' =
       [DbExec unlock_statement, FileRemove (ls_path demo_refusing_env demo_filename)]"
proof -
  have "\<exists>b' err h'. execBackup demo_refusing_env demo_flags demo_fresh_record [] = (Ok (b', Some err), h')"
    by (simp add: execBackup_def do_execBackup_def Backup_def ask_agent_def Send_def wrap_err_def demo_refusing_env_def
        demo_fresh_record_def demo_record_def time_now_def run_io List.map_filter_simps)
  then obtain b' err h' where run: "execBackup demo_refusing_env demo_flags demo_fresh_record [] = (Ok (b', Some err), h')"
    by blast
  from failed_start_leaves_backups [where nodes = "[demo_db_node]" and name = demo_filename, OF run] run
  show ?thesis by (simp add: demo_fresh_record_def demo_record_def)
qed

end
