(* ===== verification/Pitr_Agent.thy ===== *)
theory Pitr_Agent
  imports Pitr_Services
begin

text \<open>
  The agent of point-in-time recovery, \<^verbatim>\<open>solutions/opengauss/pitr/agent\<close>, which runs beside each openGauss
  server: the commands it runs (\<^verbatim>\<open>pkg/cmds/cmd.go\<close>), the connection to the local database
  (\<^verbatim>\<open>pkg/gsutil/conn.go\<close>) and the operations on openGauss (\<^verbatim>\<open>internal/pkg/opengauss.go\<close>).

  Outside the repository are the programs it starts through a shell, \<^verbatim>\<open>database/sql\<close>, the environment
  variables, the JSON decoder and the regular expressions; \<open>agent_env\<close> answers for them, as a function of the
  history of calls. Log lines are left out.
\<close>

section \<open>Errors\<close>

text \<open>\<^verbatim>\<open>xerror.New(code, msg)\<close> and \<^verbatim>\<open>errors.Is\<close>, which follows the wrapping.\<close>

fun error_is :: "gerror \<Rightarrow> gerror \<Rightarrow> bool" where
  "error_is (WrapError p e) t = (WrapError p e = t \<or> error_is e t)"
| "error_is e t = (e = t)"

fun FromError :: "gerror \<Rightarrow> (int \<times> string) option" where
  "FromError (WrapError p e) = FromError e"
| "FromError (CodedError code msg) = Some (code, msg)"
| "FromError e = None"

definition Internal :: gerror where "Internal = CodedError 10000 ''Agent server internal error.''"
definition InvalidHTTPHeader :: gerror where "InvalidHTTPHeader = CodedError 10001 ''Invalid http header.''"
definition CmdOperateFailed :: gerror where "CmdOperateFailed = CodedError 10003 ''Command operate failed.''"
definition NoPermission :: gerror where "NoPermission = CodedError 10005 ''No permission to operate.''"
definition InstanceAlreadyExist :: gerror where "InstanceAlreadyExist = CodedError 10006 ''The instance already exist.''"
definition InvalidDBPort :: gerror where "InvalidDBPort = CodedError 10011 ''Invalid db port or missing db port.''"
definition MissingUsername :: gerror where "MissingUsername = CodedError 10012 ''Missing username''"
definition MissingPassword :: gerror where "MissingPassword = CodedError 10013 ''Missing password.''"
definition MissingDnBackupPath :: gerror where "MissingDnBackupPath = CodedError 10014 ''Missing dn backup path.''"
definition InvalidDnThreadsNum :: gerror where "InvalidDnThreadsNum = CodedError 10015 ''Invalid dn threads num.''"
definition MissingDnBackupMode :: gerror where "MissingDnBackupMode = CodedError 10016 ''Missing dn backup mode.''"
definition InvalidDnBackupMode :: gerror where "InvalidDnBackupMode = CodedError 10017 ''Invalid dn backup mode.''"
definition MissingInstance :: gerror where "MissingInstance = CodedError 10018 ''Missing instance.''"
definition MissingDnBackupID :: gerror where "MissingDnBackupID = CodedError 10019 ''Missing dn backup id.''"
definition BodyParseFailed :: gerror where "BodyParseFailed = CodedError 10020 ''Invalid http request body.''"
definition MissingDBName :: gerror where "MissingDBName = CodedError 10021 ''Missing db name.''"
definition DBConnectionFailed :: gerror where "DBConnectionFailed = CodedError 10022 ''Database connection failed.''"
definition UnknownOgStatus :: gerror where "UnknownOgStatus = CodedError 10025 ''Unknown openGauss status.''"
definition MissingDiskPath :: gerror where "MissingDiskPath = CodedError 10029 ''Missing disk path.''"
definition MissingBackupID :: gerror where "MissingBackupID = CodedError 10030 ''Missing backup id.''"
definition MissingDBInformation :: gerror where "MissingDBInformation = CodedError 10031 ''Missing db information.''"
definition CmdAsyncBackupFailed :: gerror where
  "CmdAsyncBackupFailed = CodedError 10035 (''Command '' @ [CHR 0x60] @ ''gs_probackup backup'' @ [CHR 0x60] @ '' failed.'')"

section \<open>The environment\<close>

text \<open>
  The course of one command: whether its pipes could be opened and the shell started, what is
  read from them as a whole or line by line, and how waiting for it ends (\<open>Exited\<close> is a
  \<^verbatim>\<open>exec.ExitError\<close> with its text).
\<close>

datatype wait_answer = Succeeded | Exited string | WaitFailed gerror

record cmd_course =
  cc_stdout_pipe :: "gerror option"
  cc_stderr_pipe :: "gerror option"
  cc_start :: "gerror option"
  cc_stdout :: "gerror + string"
  cc_stderr :: "gerror + string"
  cc_lines :: "string list"
  cc_scan_err :: "gerror option"
  cc_wait :: wait_answer

datatype agent_call =
    RunCommand string string
  | OgOpen string
  | OgPing
  | OgClose
  | OgExec string
  | MkdirAll string

type_synonym 'a aio = "(agent_call, 'a) io"

text \<open>An entry of the output of \<^verbatim>\<open>gs_probackup show\<close>, with the fields that are used.\<close>

record OgBackup =
  ogb_ID :: string
  ogb_BackupMode :: string
  ogb_StartTime :: string
  ogb_EndTime :: string
  ogb_Status :: string

record BackupList =
  bl_Instance :: string
  bl_List :: "OgBackup option list"

record agent_env =
  cmd_run :: "agent_call list \<Rightarrow> string \<Rightarrow> string \<Rightarrow> cmd_course"
  cmd_String :: "string \<Rightarrow> string \<Rightarrow> string"
  lookup_env :: "string \<Rightarrow> string option"
  og_open :: "agent_call list \<Rightarrow> string \<Rightarrow> gerror + unit"
  og_ping :: "agent_call list \<Rightarrow> gerror + unit"
  og_close :: "agent_call list \<Rightarrow> gerror + unit"
  og_exec :: "agent_call list \<Rightarrow> string \<Rightarrow> gerror + unit"
  mkdir_all :: "agent_call list \<Rightarrow> string \<Rightarrow> gerror + unit"
  json_backups :: "string \<Rightarrow> gerror + BackupList option list"
  match_backup_id :: "string \<Rightarrow> gerror + string option"

section \<open>cmds.go\<close>

text \<open>\<^verbatim>\<open>strings.HasPrefix\<close> and \<^verbatim>\<open>strings.Contains\<close>.\<close>

definition has_prefix :: "string \<Rightarrow> string \<Rightarrow> bool" where
  "has_prefix s p = (take (length p) s = p)"

fun contains :: "string \<Rightarrow> string \<Rightarrow> bool" where
  "contains [] sub = (sub = [])"
| "contains (c # s) sub = (has_prefix (c # s) sub \<or> contains s sub)"

text \<open>A replaced command name stands at the front, so \<^verbatim>\<open>strings.Replace(arg, name, v, 1)\<close> replaces that.\<close>

definition loadArgs :: "agent_env \<Rightarrow> string \<Rightarrow> string" where
  "loadArgs e arg =
     (let args0 = (case lookup_env e ''gs_probackup'' of
            Some v \<Rightarrow> if has_prefix arg ''gs_probackup'' then v @ drop 12 arg else arg
          | None \<Rightarrow> arg)
      in case lookup_env e ''gs_ctrl'' of
           Some v \<Rightarrow> if has_prefix arg ''gs_ctrl'' then v @ drop 7 arg else args0
         | None \<Rightarrow> args0)"

definition args_text :: "string \<Rightarrow> string" where
  "args_text arg = ''[-c '' @ arg @ '']''"

definition run_command :: "agent_env \<Rightarrow> string \<Rightarrow> string \<Rightarrow> cmd_course aio" where
  "run_command e shell arg = call (RunCommand shell arg) (\<lambda>tr. Inr (cmd_run e tr shell arg))"

record Output =
  LineNo :: "32 word"
  Message :: string
  Error :: "gerror option"

fun scanned :: "32 word \<Rightarrow> string list \<Rightarrow> Output list" where
  "scanned index [] = []"
| "scanned index (line # rest) =
     \<lparr>LineNo = index, Message = line,
      Error = (if contains line ''No space left on device'' then Some (NewError ''No space left on device'') else None)\<rparr>
     # scanned (index + 1) rest"

text \<open>What the goroutine of \<^verbatim>\<open>AsyncExec\<close> sends until it closes the channel.\<close>

definition async_outputs :: "agent_env \<Rightarrow> string \<Rightarrow> string \<Rightarrow> cmd_course \<Rightarrow> Output list" where
  "async_outputs e shell arg c =
     scanned 1 (cc_lines c)
     @ (case cc_scan_err c of None \<Rightarrow> []
        | Some err \<Rightarrow> [\<lparr>LineNo = word_of_nat (Suc (length (cc_lines c))), Message = [], Error = Some err\<rparr>])
     @ (case cc_wait c of Succeeded \<Rightarrow> []
        | Exited ee \<Rightarrow> [\<lparr>LineNo = 0, Message = [],
            Error = Some (WrapError (''exec failure[ee='' @ ee @ ''], wrap='') CmdOperateFailed)\<rparr>]
        | WaitFailed err \<Rightarrow> [\<lparr>LineNo = 0, Message = [],
            Error = Some (NewError (cmd_String e shell arg @ '' err: '' @ error_text err))\<rparr>])"

definition AsyncExec :: "agent_env \<Rightarrow> string \<Rightarrow> string \<Rightarrow> Output list aio" where
  "AsyncExec e shell cmd =
     (let arg = loadArgs e cmd
      in bind_io (run_command e shell arg) (\<lambda>c. case cc_stdout_pipe c of
           Some err \<Rightarrow> fail (NewError (''can not obtain stdout pipe for command[args='' @ args_text arg @ '']:'' @ error_text err))
         | None \<Rightarrow> (case cc_start c of
             Some err \<Rightarrow> fail (NewError (''the command is err[args='' @ args_text arg @ '']:'' @ error_text err))
           | None \<Rightarrow> ret (async_outputs e shell arg c))))"

definition Exec_course :: "agent_env \<Rightarrow> string \<Rightarrow> string \<Rightarrow> cmd_course \<Rightarrow> gerror + string" where
  "Exec_course e shell arg c = (case cc_stdout_pipe c of
      Some err \<Rightarrow> Inl (NewError (''can not obtain stdout pipe for command[args='' @ args_text arg @ '']:'' @ error_text err))
    | None \<Rightarrow> (case cc_stderr_pipe c of
      Some err \<Rightarrow> Inl (NewError (''can not obtain stderr pipe for cmand[args='' @ args_text arg @ '']:'' @ error_text err))
    | None \<Rightarrow> (case cc_start c of
      Some err \<Rightarrow> Inl (NewError (''the command is err[args='' @ args_text arg @ '']:'' @ error_text err))
    | None \<Rightarrow> (case cc_stdout c of
      Inl err \<Rightarrow> Inl (WrapError ''io.ReadAll return err='' err)
    | Inr reader \<Rightarrow> (case cc_stderr c of
      Inl err \<Rightarrow> Inl (WrapError ''io.ReadAll return err='' err)
    | Inr ereader \<Rightarrow> (case cc_wait c of
      Succeeded \<Rightarrow> Inr reader
    | Exited ee \<Rightarrow> Inl (WrapError (''exec failure[ee='' @ ee @ '',stdout='' @ reader @ '',stderr='' @ ereader @ ''], wrap:'')
        CmdOperateFailed)
    | WaitFailed _ \<Rightarrow> Inl (NewError (cmd_String e shell arg @ '' err: '' @ ereader))))))))"

definition cmds_Exec :: "agent_env \<Rightarrow> string \<Rightarrow> string \<Rightarrow> string aio" where
  "cmds_Exec e shell cmd =
     (let arg = loadArgs e cmd
      in bind_io (run_command e shell arg) (\<lambda>c. from_result (Exec_course e shell arg c)))"

section \<open>conn.go\<close>

definition defaultOGHost :: string where "defaultOGHost = ''127.0.0.1''"

definition connection_text :: "string \<Rightarrow> string \<Rightarrow> string \<Rightarrow> string" where
  "connection_text user password dbName =
     ''[user='' @ user @ '',pwLen='' @ show_nat (length password) @ '',dbName='' @ dbName @ ''],err=''"

definition og_Open :: "agent_env \<Rightarrow> string \<Rightarrow> string \<Rightarrow> string \<Rightarrow> u16 \<Rightarrow> unit aio" where
  "og_Open e user password dbName dbPort =
     (if trim_spaces user = [] then fail (NewError ''user is empty'')
      else if trim_spaces password = [] then fail (NewError ''password is empty'')
      else if trim_spaces dbName = [] then fail (NewError ''db name is empty'')
      else let connStr = ''host='' @ defaultOGHost @ '' port='' @ show_u16 dbPort @ '' user='' @ user
                 @ '' password='' @ password @ '' dbname='' @ dbName @ '' sslmode=disable''
           in bind_io (attempt (call (OgOpen connStr) (\<lambda>tr. og_open e tr connStr))) (\<lambda>r. case r of
                Inl err \<Rightarrow> fail (WrapError (''sql:open fail'' @ connection_text user password dbName @ error_text err @ '',wrap='')
                                  DBConnectionFailed)
              | Inr _ \<Rightarrow> ret ()))"

definition og_Ping :: "agent_env \<Rightarrow> string \<Rightarrow> string \<Rightarrow> string \<Rightarrow> unit aio" where
  "og_Ping e user password dbName =
     bind_io (attempt (call OgPing (og_ping e))) (\<lambda>r. case r of
         Inl err \<Rightarrow> fail (WrapError (''db ping fail'' @ connection_text user password dbName @ error_text err @ '',wrap='')
                           DBConnectionFailed)
       | Inr _ \<Rightarrow> call OgClose (og_close e))"

definition conn_CheckSchema :: "agent_env \<Rightarrow> string \<Rightarrow> unit aio" where
  "conn_CheckSchema e s = bind_io (call (OgExec s) (\<lambda>tr. og_exec e tr s)) (\<lambda>_. call OgClose (og_close e))"

section \<open>opengauss.go\<close>

record openGauss =
  shell :: string
  pgData :: string
  pgDataTemp :: string

definition NewOpenGauss :: "string \<Rightarrow> string \<Rightarrow> openGauss" where
  "NewOpenGauss sh pg = \<lparr>shell = sh, pgData = pg,
     pgDataTemp = join ''/'' (butlast (split_on (CHR ''/'') pg) @ [''temp''])\<rparr>"

definition show_u8 :: "u8 \<Rightarrow> string" where "show_u8 w = show_nat (unat w)"

definition backup_cmd :: "openGauss \<Rightarrow> string \<Rightarrow> string \<Rightarrow> string \<Rightarrow> u8 \<Rightarrow> u16 \<Rightarrow> string" where
  "backup_cmd og path ins mode threads port = ''gs_probackup backup --backup-path='' @ path @ '' --instance='' @ ins
     @ '' --backup-mode='' @ mode @ '' --pgdata='' @ pgData og @ '' --threads='' @ show_u8 threads
     @ '' --pgport '' @ show_u16 port @ '' 2>&1''"

definition show_cmd :: "string \<Rightarrow> string \<Rightarrow> string \<Rightarrow> string" where
  "show_cmd ins path bid = ''gs_probackup show --instance='' @ ins @ '' --backup-path='' @ path
     @ '' --backup-id='' @ bid @ '' --format=json 2>&1''"

definition del_backup_cmd :: "string \<Rightarrow> string \<Rightarrow> string \<Rightarrow> string" where
  "del_backup_cmd path ins bid = ''gs_probackup delete --backup-path='' @ path @ '' --instance='' @ ins
     @ '' --backup-id='' @ bid @ '' 2>&1''"

definition restore_cmd :: "openGauss \<Rightarrow> string \<Rightarrow> string \<Rightarrow> string \<Rightarrow> u8 \<Rightarrow> string" where
  "restore_cmd og path ins bid threads = ''gs_probackup restore --backup-path='' @ path @ '' --instance='' @ ins
     @ '' --backup-id='' @ bid @ '' --pgdata='' @ pgData og @ '' --threads='' @ show_u8 threads @ '' 2>&1''"

definition init_cmd :: "string \<Rightarrow> string" where
  "init_cmd path = ''gs_probackup init --backup-path='' @ path @ '' 2>&1''"

definition rm_dir_cmd :: "string \<Rightarrow> string" where "rm_dir_cmd dir = ''rm -r '' @ dir"

definition add_instance_cmd :: "openGauss \<Rightarrow> string \<Rightarrow> string \<Rightarrow> string" where
  "add_instance_cmd og path ins = ''gs_probackup add-instance --backup-path='' @ path @ '' --instance='' @ ins
     @ '' --pgdata='' @ pgData og @ '' 2>&1''"

definition del_instance_cmd :: "string \<Rightarrow> string \<Rightarrow> string" where
  "del_instance_cmd path ins = ''gs_probackup del-instance --backup-path='' @ path @ '' --instance='' @ ins @ '' 2>&1''"

definition start_cmd :: "openGauss \<Rightarrow> string" where "start_cmd og = ''gs_ctl start --pgdata='' @ pgData og"
definition stop_cmd :: "openGauss \<Rightarrow> string" where "stop_cmd og = ''gs_ctl stop --pgdata='' @ pgData og"
definition status_cmd :: "openGauss \<Rightarrow> string" where "status_cmd og = ''gs_ctl status --pgdata='' @ pgData og"

definition show_list_cmd :: "string \<Rightarrow> string \<Rightarrow> string" where
  "show_list_cmd ins path = ''gs_probackup show --instance='' @ ins @ '' --backup-path='' @ path @ '' --format=json 2>&1''"

definition mv_cmd :: "string \<Rightarrow> string \<Rightarrow> string" where "mv_cmd a b = ''mv '' @ a @ '' '' @ b"

definition og_getBackupID :: "agent_env \<Rightarrow> string \<Rightarrow> string aio" where
  "og_getBackupID e msg = bind_io (from_result (match_backup_id e msg)) (\<lambda>m.
     ret (case m of None \<Rightarrow> [] | Some s \<Rightarrow> if length s = 0 then [] else s))"

text \<open>The loops over the channel: \<open>bid\<close> is the identifier found so far.\<close>

fun backup_outputs :: "agent_env \<Rightarrow> string \<Rightarrow> Output list \<Rightarrow> string aio" where
  "backup_outputs e bid [] = ret bid"
| "backup_outputs e bid (out # rest) = (case Error out of
       Some err \<Rightarrow> fail err
     | None \<Rightarrow> if contains (Message out) ''INFO: Backup start''
               then bind_io (og_getBackupID e (Message out)) (\<lambda>bid. backup_outputs e bid rest)
               else backup_outputs e bid rest)"

definition og_AsyncBackup :: "agent_env \<Rightarrow> openGauss \<Rightarrow> string \<Rightarrow> string \<Rightarrow> string \<Rightarrow> u8 \<Rightarrow> u16 \<Rightarrow> string aio" where
  "og_AsyncBackup e og path ins mode threads port =
     (let cmd = backup_cmd og path ins mode threads port
      in bind_io (attempt (AsyncExec e (shell og) cmd)) (\<lambda>r. case r of
           Inl _ \<Rightarrow> fail (WrapError (''cmds.AsyncExec[shell='' @ shell og @ '',cmd='' @ cmd @ ''] return err wrap: '')
                           CmdAsyncBackupFailed)
         | Inr outputs \<Rightarrow> backup_outputs e [] outputs))"

text \<open>
  \<^verbatim>\<open>showbackup\<close>: the backups of the first instance of that name. Where the code reports that there are
  none, its variable \<^verbatim>\<open>err\<close> is nil.
\<close>

fun instance_backups :: "string \<Rightarrow> BackupList option list \<Rightarrow> OgBackup option list aio" where
  "instance_backups name [] = ret []"
| "instance_backups name (p # ps) = bind_io (deref p) (\<lambda>ins.
     if bl_Instance ins = name then ret (bl_List ins) else instance_backups name ps)"

definition og_showbackup :: "agent_env \<Rightarrow> openGauss \<Rightarrow> string \<Rightarrow> string \<Rightarrow> OgBackup option list aio" where
  "og_showbackup e og cmd name =
     bind_io (cmds_Exec e (shell og) cmd) (\<lambda>output.
     bind_io (from_result (json_backups e output)) (\<lambda>list. instance_backups name list))"

definition og_ShowBackup :: "agent_env \<Rightarrow> openGauss \<Rightarrow> string \<Rightarrow> string \<Rightarrow> string \<Rightarrow> OgBackup option aio" where
  "og_ShowBackup e og path ins bid =
     bind_io (og_showbackup e og (show_cmd ins path bid) ins) (\<lambda>list.
       ret (if length list > 0 then list ! 0 else None))"

definition og_ShowBackupList :: "agent_env \<Rightarrow> openGauss \<Rightarrow> string \<Rightarrow> string \<Rightarrow> OgBackup option list aio" where
  "og_ShowBackupList e og path ins = og_showbackup e og (show_list_cmd ins path) ins"

text \<open>A command whose output is not looked at.\<close>

definition Exec_only :: "agent_env \<Rightarrow> openGauss \<Rightarrow> string \<Rightarrow> unit aio" where
  "Exec_only e og cmd = bind_io (cmds_Exec e (shell og) cmd) (\<lambda>_. ret ())"

definition og_DelBackup :: "agent_env \<Rightarrow> openGauss \<Rightarrow> string \<Rightarrow> string \<Rightarrow> string \<Rightarrow> unit aio" where
  "og_DelBackup e og path ins bid = Exec_only e og (del_backup_cmd path ins bid)"

definition og_Init :: "agent_env \<Rightarrow> openGauss \<Rightarrow> string \<Rightarrow> unit aio" where
  "og_Init e og path =
     bind_io (attempt (cmds_Exec e (shell og) (init_cmd path))) (\<lambda>r. case r of
         Inr _ \<Rightarrow> ret ()
       | Inl err \<Rightarrow>
           if error_is err CmdOperateFailed \<and>
              contains (error_text err) (''backup catalog already exist and it'' @ [CHR 0x27] @ ''s not empty'')
           then ret () else fail err)"

definition og_deinit :: "agent_env \<Rightarrow> openGauss \<Rightarrow> string \<Rightarrow> unit aio" where
  "og_deinit e og path =
     (if \<not> has_prefix path ''/home/omm/'' then fail NoPermission else Exec_only e og (rm_dir_cmd path))"

definition og_AddInstance :: "agent_env \<Rightarrow> openGauss \<Rightarrow> string \<Rightarrow> string \<Rightarrow> unit aio" where
  "og_AddInstance e og path ins =
     bind_io (attempt (cmds_Exec e (shell og) (add_instance_cmd og path ins))) (\<lambda>r. case r of
         Inr _ \<Rightarrow> ret ()
       | Inl err \<Rightarrow>
           if error_is err CmdOperateFailed
           then fail (WrapError (''add instance failure[output=], err: '' @ error_text err @ '', wrap: '') InstanceAlreadyExist)
           else fail err)"

definition og_DelInstance :: "agent_env \<Rightarrow> openGauss \<Rightarrow> string \<Rightarrow> string \<Rightarrow> unit aio" where
  "og_DelInstance e og path ins = Exec_only e og (del_instance_cmd path ins)"

definition og_Start :: "agent_env \<Rightarrow> openGauss \<Rightarrow> unit aio" where
  "og_Start e og = Exec_only e og (start_cmd og)"

definition og_Stop :: "agent_env \<Rightarrow> openGauss \<Rightarrow> unit aio" where
  "og_Stop e og = Exec_only e og (stop_cmd og)"

definition og_Status :: "agent_env \<Rightarrow> openGauss \<Rightarrow> string aio" where
  "og_Status e og =
     bind_io (attempt (cmds_Exec e (shell og) (status_cmd og))) (\<lambda>r. case r of
         Inl err \<Rightarrow>
           if error_is err CmdOperateFailed \<and> contains (error_text err) ''no server running''
           then ret ''Stopped'' else fail err
       | Inr output \<Rightarrow> if contains output ''server is running'' then ret ''Running'' else fail UnknownOgStatus)"

fun restore_outputs :: "Output list \<Rightarrow> unit aio" where
  "restore_outputs [] = ret ()"
| "restore_outputs (out # rest) = (case Error out of Some err \<Rightarrow> fail err | None \<Rightarrow> restore_outputs rest)"

text \<open>
  \<^verbatim>\<open>Restore\<close>: when the command cannot be started the channel is nil, and the loop that is to look at the
  error waits for a first message from it, forever. \<open>None\<close> is this waiting.
\<close>

definition og_Restore :: "agent_env \<Rightarrow> openGauss \<Rightarrow> string \<Rightarrow> string \<Rightarrow> string \<Rightarrow> u8 \<Rightarrow> unit option aio" where
  "og_Restore e og path ins bid threads =
     bind_io (attempt (AsyncExec e (shell og) (restore_cmd og path ins bid threads))) (\<lambda>r. case r of
         Inl _ \<Rightarrow> ret None
       | Inr outputs \<Rightarrow> bind_io (restore_outputs outputs) (\<lambda>_. ret (Some ())))"

definition og_Auth :: "agent_env \<Rightarrow> string \<Rightarrow> string \<Rightarrow> string \<Rightarrow> u16 \<Rightarrow> unit aio" where
  "og_Auth e user password dbName dbPort =
     (if trim_spaces user = [] \<or> trim_spaces password = [] \<or> trim_spaces dbName = [] \<or> dbPort = 0
      then fail (WrapError (''invalid inputs[user='' @ user @ '',password='' @ password @ '',dbName='' @ dbName
             @ '',dbPort='' @ show_u16 dbPort @ ''], err wrap: '') MissingDBInformation)
      else bind_io (og_Open e user password dbName dbPort) (\<lambda>_. og_Ping e user password dbName))"

definition og_CheckSchema :: "agent_env \<Rightarrow> string \<Rightarrow> string \<Rightarrow> string \<Rightarrow> u16 \<Rightarrow> string \<Rightarrow> unit aio" where
  "og_CheckSchema e user password dbName dbPort schema =
     bind_io (og_Open e user password dbName dbPort) (\<lambda>_. conn_CheckSchema e schema)"

definition og_MvPgDataToTemp :: "agent_env \<Rightarrow> openGauss \<Rightarrow> unit aio" where
  "og_MvPgDataToTemp e og = Exec_only e og (mv_cmd (pgData og) (pgDataTemp og))"

definition og_MvTempToPgData :: "agent_env \<Rightarrow> openGauss \<Rightarrow> unit aio" where
  "og_MvTempToPgData e og = Exec_only e og (mv_cmd (pgDataTemp og) (pgData og))"

definition og_CleanPgDataTemp :: "agent_env \<Rightarrow> openGauss \<Rightarrow> unit aio" where
  "og_CleanPgDataTemp e og = Exec_only e og (rm_dir_cmd (pgDataTemp og))"

end
