(* ===== verification/Pitr_Agent_Handlers.thy ===== *)
theory Pitr_Agent_Handlers
  imports Pitr_Agent
begin

text \<open>
  The HTTP interface of the agent: the checks of its requests (\<^verbatim>\<open>internal/handler/view\<close>), the handlers
  (\<^verbatim>\<open>internal/handler\<close>), the responses (\<^verbatim>\<open>pkg/responder\<close>), the middleware and the routes (\<^verbatim>\<open>main.go\<close>).

  The requests have the fields and the JSON names of the requests of the command line, so the records of
  \<open>Pitr_Types\<close> stand for both; only the health check has one field more. The framework parses the body of a
  request: a handler takes the result of that. Encoding a response of strings does not fail.
\<close>

section \<open>Requests\<close>

record HealthCheckIn = DbAccess +
  Schema :: string

definition db_checks :: "'a DbAccess_scheme \<Rightarrow> gerror option \<Rightarrow> gerror option" where
  "db_checks r rest =
     (if DBPort r = 0 then Some InvalidDBPort
      else if DBName r = [] then Some MissingDBName
      else if DBUser r = [] then Some MissingUsername
      else if DBPassword r = [] then Some MissingPassword
      else rest)"

definition BackupIn_Validate :: "BackupIn \<Rightarrow> gerror option" where
  "BackupIn_Validate r = db_checks r
     (if bk_DnBackupPath r = [] then Some MissingDnBackupPath
      else if bk_DnThreadsNum r = 0 then Some InvalidDnThreadsNum
      else if bk_DnBackupMode r = [] then Some MissingDnBackupMode
      else if bk_DnBackupMode r \<noteq> ''FULL'' \<and> bk_DnBackupMode r \<noteq> ''PTRACK'' then Some InvalidDnBackupMode
      else if bk_Instance r = [] then Some MissingInstance
      else None)"

definition DeleteBackupIn_Validate :: "DeleteBackupIn \<Rightarrow> gerror option" where
  "DeleteBackupIn_Validate r = db_checks r
     (if del_DnBackupPath r = [] then Some MissingDnBackupPath
      else if del_BackupID r = [] then Some MissingBackupID
      else if del_Instance r = [] then Some MissingInstance
      else None)"

definition DiskSpaceIn_Validate :: "string \<Rightarrow> gerror option" where
  "DiskSpaceIn_Validate path = (if path = [] then Some MissingDiskPath else None)"

definition RestoreIn_Validate :: "RestoreIn \<Rightarrow> gerror option" where
  "RestoreIn_Validate r = db_checks r
     (if rst_DnBackupPath r = [] then Some MissingDnBackupPath
      else if rst_DnBackupID r = [] then Some MissingDnBackupID
      else if rst_Instance r = [] then Some MissingInstance
      else None)"

definition ShowIn_Validate :: "ShowDetailIn \<Rightarrow> gerror option" where
  "ShowIn_Validate r = db_checks r
     (if sd_DnBackupPath r = [] then Some MissingDnBackupPath
      else if sd_DnBackupID r = [] then Some MissingDnBackupID
      else if sd_Instance r = [] then Some MissingInstance
      else None)"

definition ShowListIn_Validate :: "ShowListIn \<Rightarrow> gerror option" where
  "ShowListIn_Validate r = db_checks r
     (if sl_DnBackupPath r = [] then Some MissingDnBackupPath
      else if sl_Instance r = [] then Some MissingInstance
      else None)"

section \<open>Responses\<close>

datatype agent_data =
    NullData
  | TextData string
  | BackupOut string
  | InfoData BackupInfo
  | InfoListData "BackupInfo list"

type_synonym response = "agent_data agent_resp"

definition Success :: "agent_data \<Rightarrow> response" where
  "Success d = \<lparr>Code = 0, Msg = ''Success'', Data = d\<rparr>"

definition responder_Error :: "gerror \<Rightarrow> response" where
  "responder_Error err = (case FromError err of
       Some (code, msg) \<Rightarrow> \<lparr>Code = code, Msg = msg, Data = NullData\<rparr>
     | None \<Rightarrow> \<lparr>Code = -1, Msg = ''Unknown error'', Data = NullData\<rparr>)"

definition RawError :: "gerror \<Rightarrow> response" where
  "RawError err = \<lparr>Code = -1, Msg = error_text err, Data = NullData\<rparr>"

definition responder_NotFound :: "string \<Rightarrow> response" where
  "responder_NotFound msg = \<lparr>Code = 0, Msg = msg, Data = NullData\<rparr>"

definition statusTrans :: "string \<Rightarrow> string" where
  "statusTrans status =
     (if status = ''OK'' then ''Completed''
      else if status = ''ERROR'' then ''Failed''
      else if status = ''RUNNING'' then ''Running''
      else ''Other'')"

definition backup_info :: "OgBackup \<Rightarrow> string \<Rightarrow> string \<Rightarrow> BackupInfo" where
  "backup_info b path ins = \<lparr>bi_ID = ogb_ID b, bi_Path = path, bi_Mode = ogb_BackupMode b, bi_Instance = ins,
     bi_StartTime = ogb_StartTime b, bi_EndTime = ogb_EndTime b, bi_Status = statusTrans (ogb_Status b)\<rparr>"

text \<open>A nil pointer becomes the JSON value null.\<close>

definition NewBackupInfo :: "OgBackup option \<Rightarrow> string \<Rightarrow> string \<Rightarrow> agent_data" where
  "NewBackupInfo p path ins = (case p of None \<Rightarrow> NullData | Some b \<Rightarrow> InfoData (backup_info b path ins))"

fun NewBackupInfoList :: "OgBackup option list \<Rightarrow> string \<Rightarrow> string \<Rightarrow> BackupInfo list aio" where
  "NewBackupInfoList [] path ins = ret []"
| "NewBackupInfoList (p # ps) path ins =
     bind_io (deref p) (\<lambda>b. bind_io (NewBackupInfoList ps path ins) (\<lambda>is. ret (backup_info b path ins # is)))"

section \<open>Handlers\<close>

definition BodyParser :: "gerror + 'r \<Rightarrow> 'r aio" where
  "BodyParser parsed = (case parsed of
       Inl err \<Rightarrow> fail (WrapError (''body parse err: '' @ error_text err @ '', wrap: '') BodyParseFailed)
     | Inr r \<Rightarrow> ret r)"

definition check :: "string \<Rightarrow> gerror option \<Rightarrow> unit aio" where
  "check p err = (case err of None \<Rightarrow> ret () | Some err \<Rightarrow> fail (WrapError p err))"

definition handler_Auth :: "agent_env \<Rightarrow> string \<Rightarrow> 'a DbAccess_scheme \<Rightarrow> unit aio" where
  "handler_Auth e sep r =
     wrap_err (''pkg.OG.Auth failure[un='' @ DBUser r @ '',pw.len='' @ show_nat (length (DBPassword r))
         @ '',db='' @ DBName r @ ''], '' @ sep)
       (og_Auth e (DBUser r) (DBPassword r) (DBName r) (DBPort r))"

definition handle_HealthCheck :: "agent_env \<Rightarrow> gerror + HealthCheckIn \<Rightarrow> response aio" where
  "handle_HealthCheck e parsed =
     bind_io (BodyParser parsed) (\<lambda>r.
     bind_io (handler_Auth e ''err wrap: '' r) (\<lambda>_.
     bind_io (if Schema r \<noteq> []
              then bind_io (attempt (og_CheckSchema e (DBUser r) (DBPassword r) (DBName r) (DBPort r) (Schema r))) (\<lambda>c. case c of
                     Inl err \<Rightarrow> fail (WrapError (''pkg.OG.CheckSchema return err: '' @ error_text err @ '', err wrap: '') err)
                   | Inr _ \<Rightarrow> ret ())
              else ret ()) (\<lambda>_.
     ret (Success (TextData [])))))"

definition handle_Backup :: "agent_env \<Rightarrow> openGauss \<Rightarrow> gerror + BackupIn \<Rightarrow> response aio" where
  "handle_Backup e og parsed =
     bind_io (BodyParser parsed) (\<lambda>r.
     bind_io (check ''invalid parameter, err wrap: '' (BackupIn_Validate r)) (\<lambda>_.
     bind_io (handler_Auth e ''err wrap='' r) (\<lambda>_.
     bind_io (wrap_err ''init instance failed, err: '' (og_Init e og (bk_DnBackupPath r))) (\<lambda>_.
     bind_io (attempt (og_AddInstance e og (bk_DnBackupPath r) (bk_Instance r))) (\<lambda>a.
     bind_io (case a of
                Inr _ \<Rightarrow> ret ()
              | Inl err \<Rightarrow> if error_is err InstanceAlreadyExist then ret ()
                          else fail (WrapError ''add instance failed, err wrap: '' err)) (\<lambda>_.
     bind_io (wrap_err (''pkg.OG.AsyncBackup[path='' @ bk_DnBackupPath r @ '',instance='' @ bk_Instance r
                  @ '',mode='' @ bk_DnBackupMode r @ ''] failure, err wrap: '')
                (og_AsyncBackup e og (bk_DnBackupPath r) (bk_Instance r) (bk_DnBackupMode r) (bk_DnThreadsNum r) (DBPort r)))
       (\<lambda>backupID. ret (Success (BackupOut backupID)))))))))"

definition handle_DeleteBackup :: "agent_env \<Rightarrow> openGauss \<Rightarrow> gerror + DeleteBackupIn \<Rightarrow> response aio" where
  "handle_DeleteBackup e og parsed =
     bind_io (BodyParser parsed) (\<lambda>r.
     bind_io (check ''invalid parameter, err: '' (DeleteBackupIn_Validate r)) (\<lambda>_.
     bind_io (handler_Auth e ''err: '' r) (\<lambda>_.
     bind_io (wrap_err ''delete backup failure, err: ''
                (og_DelBackup e og (del_DnBackupPath r) (del_Instance r) (del_BackupID r))) (\<lambda>_.
     ret (Success (TextData []))))))"

definition handle_DiskSpace :: "agent_env \<Rightarrow> gerror + string \<Rightarrow> response aio" where
  "handle_DiskSpace e parsed =
     bind_io (BodyParser parsed) (\<lambda>path.
     bind_io (check ''invalid parameter, err wrap: '' (DiskSpaceIn_Validate path)) (\<lambda>_.
     bind_io (wrap_err (''mkdir ['' @ path @ ''] failure, err wrap: '')
                (call (MkdirAll path) (\<lambda>tr. mkdir_all e tr path))) (\<lambda>_.
     let cmd = ''df -h '' @ path
     in bind_io (wrap_err (''exec cmd ['' @ cmd @ ''] failure, err wrap: '')
                   (cmds_Exec e (case lookup_env e ''SHELL'' of None \<Rightarrow> [] | Some s \<Rightarrow> s) cmd)) (\<lambda>output.
        ret (Success (TextData output))))))"

text \<open>
  \<^verbatim>\<open>Restore\<close> after openGauss is stopped. \<open>restore_data\<close> is what happens once the data directory is moved away,
  with the deferred function that moves it back; \<open>restore_after_stop\<close> adds the deferred function that starts openGauss
  after an error. \<open>None\<close> is a handler that never returns.
\<close>

definition restore_data :: "agent_env \<Rightarrow> openGauss \<Rightarrow> RestoreIn \<Rightarrow> unit option aio" where
  "restore_data e og r =
     bind_io (attempt (og_Restore e og (rst_DnBackupPath r) (rst_Instance r) (rst_DnBackupID r) (rst_DnThreadsNum r))) (\<lambda>d. case d of
         Inl err \<Rightarrow>
           bind_io (attempt (og_MvTempToPgData e og)) (\<lambda>m. case m of
               Inl mvErr \<Rightarrow> fail (NewError (''restore failure[err='' @ error_text err
                   @ ''], pkg.OG.MvTempToPgData return err: '' @ error_text mvErr))
             | Inr _ \<Rightarrow> fail (NewError (''restore failure[err='' @ error_text err @ '']'')))
       | Inr None \<Rightarrow> ret None
       | Inr (Some _) \<Rightarrow>
           bind_io (wrap_err ''pkg.OG.CleanPgDataTemp return err wrap: '' (og_CleanPgDataTemp e og)) (\<lambda>_.
           bind_io (wrap_err ''pkg.OG.Start return err wrap: '' (og_Start e og)) (\<lambda>_. ret (Some ()))))"

definition restore_stopped :: "agent_env \<Rightarrow> openGauss \<Rightarrow> RestoreIn \<Rightarrow> unit option aio" where
  "restore_stopped e og r =
     bind_io (wrap_err ''pkg.OG.MvPgDataToTemp return err wrap: '' (og_MvPgDataToTemp e og)) (\<lambda>_.
       restore_data e og r)"

definition restore_after_stop :: "agent_env \<Rightarrow> openGauss \<Rightarrow> RestoreIn \<Rightarrow> response option aio" where
  "restore_after_stop e og r =
     bind_io (attempt (restore_stopped e og r)) (\<lambda>d. case d of
         Inr None \<Rightarrow> ret None
       | Inr (Some _) \<Rightarrow> ret (Some (Success NullData))
       | Inl err \<Rightarrow>
           bind_io (attempt (og_Start e og)) (\<lambda>s. case s of
               Inl startErr \<Rightarrow> fail (WrapError (''pkg.OG.Start() return err: '' @ error_text startErr @ '', wrap: '') err)
             | Inr _ \<Rightarrow> fail err))"

definition handle_Restore :: "agent_env \<Rightarrow> openGauss \<Rightarrow> gerror + RestoreIn \<Rightarrow> response option aio" where
  "handle_Restore e og parsed =
     bind_io (BodyParser parsed) (\<lambda>r.
     bind_io (check ''invalid parameter, err wrap: '' (RestoreIn_Validate r)) (\<lambda>_.
     bind_io (handler_Auth e ''err wrap: '' r) (\<lambda>_.
     bind_io (wrap_err ''stop openGauss failure, err wrap: '' (og_Stop e og)) (\<lambda>_.
     restore_after_stop e og r))))"

definition handle_Show :: "agent_env \<Rightarrow> openGauss \<Rightarrow> gerror + ShowDetailIn \<Rightarrow> response aio" where
  "handle_Show e og parsed =
     bind_io (BodyParser parsed) (\<lambda>r.
     bind_io (check ''invalid parameter, err wrap: '' (ShowIn_Validate r)) (\<lambda>_.
     bind_io (handler_Auth e ''err wrap: '' r) (\<lambda>_.
     bind_io (wrap_err (''pkg.OG.ShowBackupDetail failure[backupPath='' @ sd_DnBackupPath r @ '',instance='' @ sd_Instance r
                  @ '',backupID='' @ sd_DnBackupID r @ ''], err wrap: '')
                (og_ShowBackup e og (sd_DnBackupPath r) (sd_Instance r) (sd_DnBackupID r)))
       (\<lambda>data. ret (Success (NewBackupInfo data (sd_DnBackupPath r) (sd_Instance r)))))))"

definition handle_ShowList :: "agent_env \<Rightarrow> openGauss \<Rightarrow> gerror + ShowListIn \<Rightarrow> response aio" where
  "handle_ShowList e og parsed =
     bind_io (BodyParser parsed) (\<lambda>r.
     bind_io (check ''invalid parameter, err wrap: '' (ShowListIn_Validate r)) (\<lambda>_.
     bind_io (handler_Auth e ''err wrap: '' r) (\<lambda>_.
     bind_io (wrap_err (''pkg.OG.ShowBackupList failure[backupPath='' @ sl_DnBackupPath r @ '',instance='' @ sl_Instance r
                  @ ''], err wrap: '')
                (og_ShowBackupList e og (sl_DnBackupPath r) (sl_Instance r))) (\<lambda>list.
     bind_io (NewBackupInfoList list (sl_DnBackupPath r) (sl_Instance r)) (\<lambda>infos. ret (Success (InfoListData infos)))))))"

section \<open>Middleware and routes\<close>

text \<open>A handler that returns an answer has returned: \<open>answers\<close>.\<close>

definition answers :: "response aio \<Rightarrow> response option aio" where
  "answers h = bind_io h (\<lambda>r. ret (Some r))"

definition RequestIDChecker :: "string \<Rightarrow> response option aio \<Rightarrow> response option aio" where
  "RequestIDChecker reqid h = (if trim_spaces reqid = [] then ret (Some (responder_Error InvalidHTTPHeader)) else h)"

definition UniformRawErrResp :: "response option aio \<Rightarrow> response option aio" where
  "UniformRawErrResp h = bind_io (attempt h) (\<lambda>r. ret (case r of Inl err \<Rightarrow> Some (RawError err) | Inr a \<Rightarrow> a))"

definition UniformErrResp :: "response option aio \<Rightarrow> response option aio" where
  "UniformErrResp h = bind_io (attempt h) (\<lambda>r. ret (case r of
       Inl err \<Rightarrow> Some (case FromError err of
           Some (code, msg) \<Rightarrow> responder_Error (CodedError code msg) | None \<Rightarrow> responder_Error Internal)
     | Inr a \<Rightarrow> a))"

definition agent_Recover :: "response option aio \<Rightarrow> response option aio" where
  "agent_Recover h = (\<lambda>tr. case h tr of
       (Panic p, tr') \<Rightarrow> (Ok (Some (responder_Error Internal)), tr')
     | (r, tr') \<Rightarrow> (r, tr'))"

text \<open>What the framework makes of a body, for each type of request.\<close>

record body_parser =
  as_HealthCheckIn :: "string \<Rightarrow> gerror + HealthCheckIn"
  as_BackupIn :: "string \<Rightarrow> gerror + BackupIn"
  as_DeleteBackupIn :: "string \<Rightarrow> gerror + DeleteBackupIn"
  as_RestoreIn :: "string \<Rightarrow> gerror + RestoreIn"
  as_ShowIn :: "string \<Rightarrow> gerror + ShowDetailIn"
  as_ShowListIn :: "string \<Rightarrow> gerror + ShowListIn"
  as_DiskSpaceIn :: "string \<Rightarrow> gerror + string"

definition api_route :: "agent_env \<Rightarrow> openGauss \<Rightarrow> body_parser \<Rightarrow> string \<Rightarrow> string \<Rightarrow> string \<Rightarrow> response option aio option" where
  "api_route e og p verb path body =
     (if verb = ''POST'' \<and> path = ''/api/healthz'' then Some (answers (handle_HealthCheck e (as_HealthCheckIn p body)))
      else if verb = ''POST'' \<and> path = ''/api/backup'' then Some (answers (handle_Backup e og (as_BackupIn p body)))
      else if verb = ''DELETE'' \<and> path = ''/api/backup'' then Some (answers (handle_DeleteBackup e og (as_DeleteBackupIn p body)))
      else if verb = ''POST'' \<and> path = ''/api/restore'' then Some (handle_Restore e og (as_RestoreIn p body))
      else if verb = ''POST'' \<and> path = ''/api/show'' then Some (answers (handle_Show e og (as_ShowIn p body)))
      else if verb = ''POST'' \<and> path = ''/api/show/list'' then Some (answers (handle_ShowList e og (as_ShowListIn p body)))
      else if verb = ''POST'' \<and> path = ''/api/diskspace'' then Some (answers (handle_DiskSpace e (as_DiskSpaceIn p body)))
      else None)"

text \<open>A request with its header \<^verbatim>\<open>x-request-id\<close>; the answer has a status.\<close>

definition SetupApp :: "agent_env \<Rightarrow> openGauss \<Rightarrow> body_parser \<Rightarrow> string \<Rightarrow> string \<Rightarrow> string \<Rightarrow> string \<Rightarrow> (int \<times> response) option aio" where
  "SetupApp e og p reqid verb path body =
     (let status = (\<lambda>s. map_option (Pair s)) in
      case api_route e og p verb path body of
        Some h \<Rightarrow> bind_io (agent_Recover (UniformRawErrResp (RequestIDChecker reqid h))) (\<lambda>r. ret (status 200 r))
      | None \<Rightarrow>
          if verb = ''GET'' \<and> path = ''/ping'' then ret (status 200 (Some (Success (TextData ''pong''))))
          else if has_prefix path ''/api/'' \<and> trim_spaces reqid = []
          then ret (status 200 (Some (responder_Error InvalidHTTPHeader)))
          else ret (status 404 (Some (responder_NotFound ''API not found''))))"

text \<open>
  What \<^verbatim>\<open>main\<close> makes of its flags before it serves: it panics without a shell, a data directory or
  certificates. \<open>exists\<close> is \<^verbatim>\<open>os.Stat\<close> with \<^verbatim>\<open>os.IsNotExist\<close>.
\<close>

definition drop_last_slash :: "string \<Rightarrow> string" where
  "drop_last_slash s = (if has_suffix s ''/'' then join ''/'' (butlast (split_on (CHR ''/'') s)) else s)"

definition agent_main :: "agent_env \<Rightarrow> (string \<Rightarrow> bool) \<Rightarrow> string \<Rightarrow> string \<Rightarrow> string \<Rightarrow> openGauss aio" where
  "agent_main e exists_file pgdata_flag tlsCrt tlsKey =
     (let getenv = (\<lambda>k. case lookup_env e k of None \<Rightarrow> [] | Some v \<Rightarrow> v);
          pg = (if pgdata_flag = [] then getenv ''PGDATA'' else pgdata_flag)
      in if getenv ''SHELL'' = [] then panic ''shell does not exist''
         else if pg = [] then panic ''PGDATA: no database directory specified and environment variable PGDATA unset''
         else if \<not> exists_file pg then panic (''PGDATA: '' @ pg @ '' the database directory does not exist'')
         else if trim_spaces tlsCrt = [] \<or> trim_spaces tlsKey = [] then panic ''lack of HTTPs certificate''
         else if \<not> exists_file tlsCrt then panic ''TLS certificate file does not exist''
         else if \<not> exists_file tlsKey then panic ''TLS key file does not exist''
         else ret (NewOpenGauss (getenv ''SHELL'') (drop_last_slash (trim_spaces pg))))"

end
