(* ===== verification/Pitr_Agent_Properties.thy ===== *)
theory Pitr_Agent_Properties
  imports Pitr_Agent_Handlers Io_Calls
begin

text \<open>
  Properties of the recovery agent: what a restore does to the data directory and to the server on
  every path, also those with deferred functions, and two answers of the agent that its clients
  cannot expect.
\<close>

lemma error_is_refl [simp]: "error_is err err"
  by (cases err) simp_all

section \<open>Commands\<close>

definition command :: "agent_env \<Rightarrow> openGauss \<Rightarrow> string \<Rightarrow> agent_call" where
  "command e og cmd = RunCommand (shell og) (loadArgs e cmd)"

lemma Exec_run: "\<exists>r. cmds_Exec e (shell og) cmd tr = (case r of Inl err \<Rightarrow> Fail err | Inr x \<Rightarrow> Ok x, tr @ [command e og cmd])"
  by (auto simp: cmds_Exec_def run_command_def command_def from_result_def bind_io_def call_def Let_def split: sum.splits)

lemma Exec_only_cases:
  obtains (success) "Exec_only e og cmd tr = (Ok (), tr @ [command e og cmd])"
    | (failure) err where "Exec_only e og cmd tr = (Fail err, tr @ [command e og cmd])"
proof -
  obtain r where "cmds_Exec e (shell og) cmd tr = (case r of Inl err \<Rightarrow> Fail err | Inr x \<Rightarrow> Ok x, tr @ [command e og cmd])"
    using Exec_run by blast
  then show thesis by (cases r) (auto simp: Exec_only_def bind_io_def intro: success failure)
qed

lemma restore_outputs_cases: "restore_outputs outs tr = (Ok (), tr) \<or> (\<exists>err. restore_outputs outs tr = (Fail err, tr))"
  by (induction outs rule: restore_outputs.induct) (auto split: option.splits)

lemma AsyncExec_cases:
  "(\<exists>err. AsyncExec e (shell og) cmd tr = (Fail err, tr @ [command e og cmd])) \<or>
   (\<exists>outs. AsyncExec e (shell og) cmd tr = (Ok outs, tr @ [command e og cmd]))"
  by (auto simp: AsyncExec_def run_command_def command_def bind_io_def call_def Let_def split: option.split)

lemma og_Restore_cases:
  obtains (blocks) "og_Restore e og path ins bid n tr = (Ok None, tr @ [command e og (restore_cmd og path ins bid n)])"
    | (success) "og_Restore e og path ins bid n tr = (Ok (Some ()), tr @ [command e og (restore_cmd og path ins bid n)])"
    | (failure) err where "og_Restore e og path ins bid n tr = (Fail err, tr @ [command e og (restore_cmd og path ins bid n)])"
proof -
  let ?h = "tr @ [command e og (restore_cmd og path ins bid n)]"
  consider err where "AsyncExec e (shell og) (restore_cmd og path ins bid n) tr = (Fail err, ?h)"
    | outs where "AsyncExec e (shell og) (restore_cmd og path ins bid n) tr = (Ok outs, ?h)"
    using AsyncExec_cases by blast
  then show thesis
  proof cases
    case 1
    then show thesis by (intro blocks) (simp add: og_Restore_def bind_io_def attempt_def)
  next
    case (2 outs)
    then show thesis using restore_outputs_cases [of outs ?h]
      by (auto simp: og_Restore_def bind_io_def attempt_def intro: success failure)
  qed
qed

section \<open>The abstract restore\<close>

text \<open>
  What a restore is about: where the old data is, whether the directory of the server holds the data of
  the backup, and whether the server runs. A step that fails changes nothing.
\<close>

datatype restore_step = StopServer | MoveAway | RestoreData | MoveBack | RemoveOld | StartServer

datatype old_data = InPlace | Aside | Removed

record world =
  old :: old_data
  fresh :: bool
  running :: bool

fun effect :: "restore_step \<times> bool \<Rightarrow> world \<Rightarrow> world" where
  "effect (s, False) w = w"
| "effect (StopServer, True) w = w\<lparr>running := False\<rparr>"
| "effect (MoveAway, True) w = w\<lparr>old := Aside\<rparr>"
| "effect (RestoreData, True) w = w\<lparr>fresh := True\<rparr>"
| "effect (MoveBack, True) w = w\<lparr>old := InPlace\<rparr>"
| "effect (RemoveOld, True) w = w\<lparr>old := Removed\<rparr>"
| "effect (StartServer, True) w = w\<lparr>running := True\<rparr>"

definition before_restore :: world where
  "before_restore = \<lparr>old = InPlace, fresh = False, running = True\<rparr>"

fun step_cmd :: "openGauss \<Rightarrow> RestoreIn \<Rightarrow> restore_step \<Rightarrow> string" where
  "step_cmd og r StopServer = stop_cmd og"
| "step_cmd og r MoveAway = mv_cmd (pgData og) (pgDataTemp og)"
| "step_cmd og r RestoreData = restore_cmd og (rst_DnBackupPath r) (rst_Instance r) (rst_DnBackupID r) (rst_DnThreadsNum r)"
| "step_cmd og r MoveBack = mv_cmd (pgDataTemp og) (pgData og)"
| "step_cmd og r RemoveOld = rm_dir_cmd (pgDataTemp og)"
| "step_cmd og r StartServer = start_cmd og"

text \<open>Whether a step succeeds after a history, according to the environment.\<close>

definition succeeds :: "agent_env \<Rightarrow> openGauss \<Rightarrow> RestoreIn \<Rightarrow> restore_step \<Rightarrow> agent_call list \<Rightarrow> bool" where
  "succeeds e og r s h = (if s = RestoreData
     then fst (og_Restore e og (rst_DnBackupPath r) (rst_Instance r) (rst_DnBackupID r) (rst_DnThreadsNum r) h) = Ok (Some ())
     else fst (Exec_only e og (step_cmd og r s) h) = Ok ())"

definition step_call :: "agent_env \<Rightarrow> openGauss \<Rightarrow> RestoreIn \<Rightarrow> restore_step \<times> bool \<Rightarrow> agent_call" where
  "step_call e og r ev = command e og (step_cmd og r (fst ev))"

fun genuine :: "agent_env \<Rightarrow> openGauss \<Rightarrow> RestoreIn \<Rightarrow> agent_call list \<Rightarrow> (restore_step \<times> bool) list \<Rightarrow> bool" where
  "genuine e og r h [] = True"
| "genuine e og r h (ev # evs) =
     (snd ev = succeeds e og r (fst ev) h \<and> genuine e og r (h @ [step_call e og r ev]) evs)"

lemmas restore_ops = og_Stop_def og_Start_def og_MvPgDataToTemp_def og_MvTempToPgData_def og_CleanPgDataTemp_def

lemma step_cases:
  assumes "s \<noteq> RestoreData"
  obtains (success) "Exec_only e og (step_cmd og r s) h = (Ok (), h @ [step_call e og r (s, True)])" "succeeds e og r s h"
    | (failure) err where "Exec_only e og (step_cmd og r s) h = (Fail err, h @ [step_call e og r (s, False)])"
      "\<not> succeeds e og r s h"
  by (rule Exec_only_cases [of e og "step_cmd og r s" h]) (auto simp: step_call_def succeeds_def assms intro: success failure)

lemma restore_step_cases:
  obtains (blocks) "og_Restore e og (rst_DnBackupPath r) (rst_Instance r) (rst_DnBackupID r) (rst_DnThreadsNum r) h
      = (Ok None, h @ [step_call e og r (RestoreData, False)])" "\<not> succeeds e og r RestoreData h"
    | (success) "og_Restore e og (rst_DnBackupPath r) (rst_Instance r) (rst_DnBackupID r) (rst_DnThreadsNum r) h
      = (Ok (Some ()), h @ [step_call e og r (RestoreData, True)])" "succeeds e og r RestoreData h"
    | (failure) err where "og_Restore e og (rst_DnBackupPath r) (rst_Instance r) (rst_DnBackupID r) (rst_DnThreadsNum r) h
      = (Fail err, h @ [step_call e og r (RestoreData, False)])" "\<not> succeeds e og r RestoreData h"
  by (rule og_Restore_cases [of e og "rst_DnBackupPath r" "rst_Instance r" "rst_DnBackupID r" "rst_DnThreadsNum r" h])
     (auto simp: step_call_def succeeds_def intro: blocks success failure)

text \<open>The paths of a restore: the steps it makes, whether they succeed, and how it ends.\<close>

inductive data_path :: "(restore_step \<times> bool) list \<Rightarrow> unit option outcome \<Rightarrow> bool" where
  blocks: "data_path [(RestoreData, False)] (Ok None)"
| unrestored: "data_path [(RestoreData, False), (MoveBack, ok)] (Fail err)"
| uncleaned: "data_path [(RestoreData, True), (RemoveOld, False)] (Fail err)"
| unstarted: "data_path [(RestoreData, True), (RemoveOld, True), (StartServer, False)] (Fail err)"
| restored: "data_path [(RestoreData, True), (RemoveOld, True), (StartServer, True)] (Ok (Some ()))"

inductive restore_path :: "(restore_step \<times> bool) list \<Rightarrow> response option outcome \<Rightarrow> bool" where
  unstopped: "restore_path [(StopServer, False)] (Fail err)"
| unmoved: "restore_path [(StopServer, True), (MoveAway, False), (StartServer, ok)] (Fail err)"
| stuck: "data_path evs (Ok None) \<Longrightarrow> restore_path ((StopServer, True) # (MoveAway, True) # evs) (Ok None)"
| failed: "data_path evs (Fail err) \<Longrightarrow>
    restore_path ((StopServer, True) # (MoveAway, True) # evs @ [(StartServer, ok)]) (Fail err')"
| ended: "data_path evs (Ok (Some ())) \<Longrightarrow>
    restore_path ((StopServer, True) # (MoveAway, True) # evs) (Ok (Some (Success NullData)))"

inductive_cases data_path_endE: "data_path evs (Ok x)" "data_path evs (Fail err)"

lemmas run_step = bind_io_def attempt_def wrap_err_def restore_ops

lemma restore_data_path:
  "\<exists>evs. snd (restore_data e og r h) = h @ map (step_call e og r) evs \<and> genuine e og r h evs \<and>
     data_path evs (fst (restore_data e og r h))"
proof (cases rule: restore_step_cases [of e og r h])
  case blocks
  then show ?thesis
    by (intro exI [of _ "[(RestoreData, False)]"]) (simp add: restore_data_def run_step data_path.blocks)
next
  case (failure err)
  let ?h = "h @ [step_call e og r (RestoreData, False)]"
  note data = failure
  have "MoveBack \<noteq> RestoreData" by simp
  then show ?thesis
  proof (cases rule: step_cases [of _ e og r ?h])
    case success
    with data show ?thesis
      by (intro exI [of _ "[(RestoreData, False), (MoveBack, True)]"])
         (simp add: restore_data_def run_step data_path.unrestored)
  next
    case (failure err)
    with data show ?thesis
      by (intro exI [of _ "[(RestoreData, False), (MoveBack, False)]"])
         (simp add: restore_data_def run_step data_path.unrestored)
  qed
next
  case success
  let ?h = "h @ [step_call e og r (RestoreData, True)]"
  note data = success
  have "RemoveOld \<noteq> RestoreData" by simp
  then show ?thesis
  proof (cases rule: step_cases [of _ e og r ?h])
    case (failure err)
    with data show ?thesis
      by (intro exI [of _ "[(RestoreData, True), (RemoveOld, False)]"])
         (simp add: restore_data_def run_step data_path.uncleaned)
  next
    case success
    let ?h = "h @ [step_call e og r (RestoreData, True), step_call e og r (RemoveOld, True)]"
    note clean = success
    have "StartServer \<noteq> RestoreData" by simp
    then show ?thesis
    proof (cases rule: step_cases [of _ e og r ?h])
      case success
      with data clean show ?thesis
        by (intro exI [of _ "[(RestoreData, True), (RemoveOld, True), (StartServer, True)]"])
           (simp add: restore_data_def run_step data_path.restored)
    next
      case (failure err)
      with data clean show ?thesis
        by (intro exI [of _ "[(RestoreData, True), (RemoveOld, True), (StartServer, False)]"])
           (simp add: restore_data_def run_step data_path.unstarted)
    qed
  qed
qed


lemma genuine_append:
  "genuine e og r h (evs @ evs') \<longleftrightarrow> genuine e og r h evs \<and> genuine e og r (h @ map (step_call e og r) evs) evs'"
  by (induction evs arbitrary: h) simp_all

text \<open>The handler once openGauss is stopped, with its deferred start.\<close>

lemma after_stop_error:
  assumes "restore_stopped e og r h = (Fail err, h')"
  obtains ok err' where "restore_after_stop e og r h = (Fail err', h' @ [step_call e og r (StartServer, ok)])"
    "genuine e og r h' [(StartServer, ok)]"
proof -
  have "StartServer \<noteq> RestoreData" by simp
  then show thesis
  proof (cases rule: step_cases [of _ e og r h'])
    case success
    with assms show thesis by (intro that [of err True]) (simp_all add: restore_after_stop_def run_step)
  next
    case (failure startErr)
    with assms show thesis
      by (intro that [of "WrapError (''pkg.OG.Start() return err: '' @ error_text startErr @ '', wrap: '') err" False])
         (simp_all add: restore_after_stop_def run_step)
  qed
qed

lemma after_stop_path:
  assumes "succeeds e og r StopServer h0" and h: "h = h0 @ [step_call e og r (StopServer, True)]"
  shows "\<exists>evs. snd (restore_after_stop e og r h) = h0 @ map (step_call e og r) evs \<and> genuine e og r h0 evs \<and>
     restore_path evs (fst (restore_after_stop e og r h))"
proof -
  have "MoveAway \<noteq> RestoreData" by simp
  then show ?thesis
  proof (cases rule: step_cases [of _ e og r h])
    case (failure err)
    then have "\<exists>err. restore_stopped e og r h = (Fail err, h @ [step_call e og r (MoveAway, False)])"
      by (simp add: restore_stopped_def run_step)
    then obtain ok err' where "restore_after_stop e og r h = (Fail err', (h @ [step_call e og r (MoveAway, False)]) @ [step_call e og r (StartServer, ok)])"
      "genuine e og r (h @ [step_call e og r (MoveAway, False)]) [(StartServer, ok)]"
      by (blast elim: after_stop_error)
    with assms failure show ?thesis
      by (intro exI [of _ "[(StopServer, True), (MoveAway, False), (StartServer, ok)]"]) (auto intro: unmoved)
  next
    case success
    let ?h = "h @ [step_call e og r (MoveAway, True)]"
    from restore_data_path obtain evs where evs: "snd (restore_data e og r ?h) = ?h @ map (step_call e og r) evs"
      "genuine e og r ?h evs" "data_path evs (fst (restore_data e og r ?h))" by blast
    have run: "restore_stopped e og r h = restore_data e og r ?h" using success by (simp add: restore_stopped_def run_step)
    show ?thesis
    proof (cases "fst (restore_data e og r ?h)")
      case (Ok x)
      then have "restore_stopped e og r h = (Ok x, ?h @ map (step_call e og r) evs)" using run evs(1) by (simp add: prod_eq_iff)
      with Ok evs assms success show ?thesis
        by (intro exI [of _ "(StopServer, True) # (MoveAway, True) # evs"], cases x)
           (auto simp: restore_after_stop_def bind_io_def attempt_def intro: stuck ended)
    next
      case (Fail err)
      then have "restore_stopped e og r h = (Fail err, ?h @ map (step_call e og r) evs)" using run evs(1) by (simp add: prod_eq_iff)
      then obtain ok err' where "restore_after_stop e og r h = (Fail err', (?h @ map (step_call e og r) evs) @ [step_call e og r (StartServer, ok)])"
        "genuine e og r (?h @ map (step_call e og r) evs) [(StartServer, ok)]"
        by (rule after_stop_error)
      with Fail evs assms success show ?thesis
        by (intro exI [of _ "(StopServer, True) # (MoveAway, True) # evs @ [(StartServer, ok)]"])
           (auto simp: genuine_append intro: failed)
    next
      case (Panic p)
      with evs(3) show ?thesis by (auto elim: data_path.cases)
    qed
  qed
qed

lemma handle_Restore_path:
  assumes "RestoreIn_Validate r = None" and "handler_Auth e ''err wrap: '' r tr = (Ok (), h)"
  shows "\<exists>evs. snd (handle_Restore e og (Inr r) tr) = h @ map (step_call e og r) evs \<and> genuine e og r h evs \<and>
     restore_path evs (fst (handle_Restore e og (Inr r) tr))"
proof -
  have run: "handle_Restore e og (Inr r) tr =
      bind_io (wrap_err ''stop openGauss failure, err wrap: '' (og_Stop e og)) (\<lambda>_. restore_after_stop e og r) h"
    using assms by (simp add: handle_Restore_def BodyParser_def check_def bind_io_def)
  have "StopServer \<noteq> RestoreData" by simp
  then show ?thesis
  proof (cases rule: step_cases [of _ e og r h])
    case success
    with after_stop_path [OF success(2) refl] run show ?thesis by (simp add: run_step)
  next
    case (failure err)
    with run show ?thesis
      by (intro exI [of _ "[(StopServer, False)]"]) (simp add: run_step unstopped)
  qed
qed


section \<open>The properties\<close>

definition safe_end :: "(restore_step \<times> bool) list \<Rightarrow> response option outcome \<Rightarrow> bool" where
  "safe_end evs out = (let w = fold effect evs before_restore in
     (old w = Removed \<longrightarrow> fresh w) \<and>
     (case out of
        Ok (Some _) \<Rightarrow> w = \<lparr>old = Removed, fresh = True, running = True\<rparr>
      | Ok None \<Rightarrow> w = \<lparr>old = Aside, fresh = False, running = False\<rparr>
      | Fail _ \<Rightarrow> (MoveBack, False) \<notin> set evs \<and> last evs \<noteq> (StartServer, False) \<longrightarrow>
                   running w \<and> (old w = InPlace \<or> fresh w)
      | Panic _ \<Rightarrow> False))"

lemma effect_MoveBack: "effect (MoveBack, ok) w = (if ok then w\<lparr>old := InPlace\<rparr> else w)"
  by (cases ok) simp_all

lemma restore_path_safe: "restore_path evs out \<Longrightarrow> safe_end evs out"
proof (induction rule: restore_path.induct)
  case (unmoved ok err)
  then show ?case by (cases ok) (simp_all add: safe_end_def before_restore_def)
next
  case (failed evs err ok err')
  then show ?case by (cases ok) (auto simp: safe_end_def before_restore_def effect_MoveBack Let_def elim!: data_path_endE split: if_splits)
qed (auto simp: safe_end_def before_restore_def elim!: data_path_endE)


definition demo_course :: cmd_course where
  "demo_course = \<lparr>cc_stdout_pipe = None, cc_stderr_pipe = None, cc_start = None, cc_stdout = Inr [], cc_stderr = Inr [],
     cc_lines = [''INFO: done''], cc_scan_err = None, cc_wait = Succeeded\<rparr>"

definition demo_agent_env :: agent_env where
  "demo_agent_env = \<lparr>cmd_run = (\<lambda>_ _ _. demo_course), cmd_String = (\<lambda>_ c. c), lookup_env = (\<lambda>_. None),
     og_open = (\<lambda>_ _. Inr ()), og_ping = (\<lambda>_. Inr ()), og_close = (\<lambda>_. Inr ()), og_exec = (\<lambda>_ _. Inr ()),
     mkdir_all = (\<lambda>_ _. Inr ()), json_backups = (\<lambda>_. Inr []), match_backup_id = (\<lambda>_. Inr None)\<rparr>"

definition demo_og :: openGauss where
  "demo_og = NewOpenGauss ''/bin/sh'' ''/data/node''"

definition demo_restore_in :: RestoreIn where
  "demo_restore_in = \<lparr>DBPort = 5432, DBName = ''db'', DBUser = ''omm'', DBPassword = ''pw'', rst_Instance = ''ins'',
     rst_DnBackupPath = ''/backup'', rst_DnBackupID = ''B1'', rst_DnThreadsNum = 1\<rparr>"

lemma demo_restore_valid: "RestoreIn_Validate demo_restore_in = None"
  by (simp add: RestoreIn_Validate_def db_checks_def demo_restore_in_def)

lemma agent_auth_Ok:
  assumes "\<And>h s. og_open e h s = Inr ()" "\<And>h. og_ping e h = Inr ()" "\<And>h. og_close e h = Inr ()"
    and "trim_spaces (DBUser r) \<noteq> []" "trim_spaces (DBPassword r) \<noteq> []" "trim_spaces (DBName r) \<noteq> []" "DBPort r \<noteq> 0"
  shows "\<exists>conn. handler_Auth e sep r tr = (Ok (), tr @ [OgOpen conn, OgPing, OgClose])"
  using assms by (simp add: handler_Auth_def og_Auth_def og_Open_def og_Ping_def bind_io_def attempt_def wrap_err_def call_def Let_def)

lemma demo_auth: "\<exists>conn. handler_Auth demo_agent_env sep demo_restore_in tr = (Ok (), tr @ [OgOpen conn, OgPing, OgClose])"
  by (rule agent_auth_Ok) (simp_all add: demo_agent_env_def demo_restore_in_def trim_spaces_def)


text \<open>
  C38. When the command that restores the data cannot be started, the handler never returns: it waits on a
  channel that nobody made, with openGauss stopped and its data directory moved away.
\<close>

theorem unstartable_restore_blocks:
  assumes "RestoreIn_Validate r = None" and "handler_Auth e ''err wrap: '' r tr = (Ok (), h)"
    and "succeeds e og r StopServer h"
    and "succeeds e og r MoveAway (h @ [command e og (stop_cmd og)])"
    and "cc_start (cmd_run e (h @ [command e og (stop_cmd og), command e og (mv_cmd (pgData og) (pgDataTemp og))])
           (shell og) (loadArgs e (step_cmd og r RestoreData))) = Some err"
  shows "handle_Restore e og (Inr r) tr = (Ok None, h @ [command e og (stop_cmd og),
     command e og (mv_cmd (pgData og) (pgDataTemp og)), command e og (step_cmd og r RestoreData)])"
proof -
  let ?h = "h @ [command e og (stop_cmd og)]" let ?g = "?h @ [command e og (mv_cmd (pgData og) (pgDataTemp og))]"
  have stop: "og_Stop e og h = (Ok (), ?h)"
    using assms(3) by (rule_tac Exec_only_cases [of e og "stop_cmd og" h]) (auto simp: succeeds_def og_Stop_def)
  have away: "og_MvPgDataToTemp e og ?h = (Ok (), ?g)"
    using assms(4) by (rule_tac Exec_only_cases [of e og "mv_cmd (pgData og) (pgDataTemp og)" ?h])
      (auto simp: succeeds_def og_MvPgDataToTemp_def)
  have "\<exists>err. AsyncExec e (shell og) (step_cmd og r RestoreData) ?g = (Fail err, ?g @ [command e og (step_cmd og r RestoreData)])"
    using assms(5) by (auto simp: AsyncExec_def run_command_def command_def bind_io_def call_def Let_def split: option.split)
  then have "restore_data e og r ?g = (Ok None, ?g @ [command e og (step_cmd og r RestoreData)])"
    by (auto simp: restore_data_def og_Restore_def bind_io_def attempt_def)
  with assms(1,2) stop away show ?thesis
    by (simp add: handle_Restore_def restore_after_stop_def restore_stopped_def BodyParser_def check_def bind_io_def attempt_def wrap_err_def)
qed

definition demo_unstartable_env :: agent_env where
  "demo_unstartable_env = demo_agent_env\<lparr>cmd_run := (\<lambda>_ _ cmd.
     if has_prefix cmd ''gs_probackup'' then demo_course\<lparr>cc_start := Some (NewError ''no such file'')\<rparr> else demo_course)\<rparr>"

lemma demo_unstartable_simps [simp]:
  "loadArgs demo_unstartable_env c = c"
  "cmd_run demo_unstartable_env h sh c = (if has_prefix c ''gs_probackup'' then demo_course\<lparr>cc_start := Some (NewError ''no such file'')\<rparr> else demo_course)"
  by (simp_all add: demo_unstartable_env_def loadArgs_def demo_agent_env_def)

theorem unstartable_restore_blocks_witness:
  "\<exists>tr'. handle_Restore demo_unstartable_env demo_og (Inr demo_restore_in) [] = (Ok None, tr')"
proof -
  have "\<exists>conn. handler_Auth demo_unstartable_env ''err wrap: '' demo_restore_in [] = (Ok (), [] @ [OgOpen conn, OgPing, OgClose])"
    by (rule agent_auth_Ok) (simp_all add: demo_unstartable_env_def demo_agent_env_def demo_restore_in_def trim_spaces_def)
  then obtain h where auth: "handler_Auth demo_unstartable_env ''err wrap: '' demo_restore_in [] = (Ok (), h)" by blast
  have "succeeds demo_unstartable_env demo_og demo_restore_in s g" if "s = StopServer \<or> s = MoveAway" for s g
    using that by (auto simp: succeeds_def Exec_only_def cmds_Exec_def run_command_def Exec_course_def from_result_def
        bind_io_def call_def Let_def demo_course_def has_prefix_def stop_cmd_def mv_cmd_def)
  then show ?thesis
    using unstartable_restore_blocks [OF demo_restore_valid auth, where og = demo_og and err = "NewError ''no such file''"]
    by (simp add: has_prefix_def restore_cmd_def demo_course_def)
qed

lemma backup_outputs_empty:
  assumes "\<forall>out \<in> set outs. Error out = None \<and>
     (contains (Message out) ''INFO: Backup start'' \<longrightarrow> match_backup_id e (Message out) = Inr None)"
  shows "backup_outputs e [] outs tr = (Ok [], tr)"
  using assms by (induction outs) (auto simp: og_getBackupID_def from_result_def bind_io_def)

text \<open>
  When the output of \<^verbatim>\<open>gs_probackup backup\<close> shows no identifier, the agent answers that the backup was
  started, with an empty identifier. An instance that cannot be added does not stop it.
\<close>

theorem backup_without_id_succeeds:
  assumes "BackupIn_Validate r = None" and "handler_Auth e ''err wrap='' r tr = (Ok (), h)"
    and "og_Init e og (bk_DnBackupPath r) h = (Ok (), h1)"
    and "og_AddInstance e og (bk_DnBackupPath r) (bk_Instance r) h1 = (Fail err, h2)" and "error_is err InstanceAlreadyExist"
    and "AsyncExec e (shell og) (backup_cmd og (bk_DnBackupPath r) (bk_Instance r) (bk_DnBackupMode r) (bk_DnThreadsNum r) (DBPort r)) h2
       = (Ok outs, h3)"
    and "\<forall>out \<in> set outs. Error out = None \<and>
     (contains (Message out) ''INFO: Backup start'' \<longrightarrow> match_backup_id e (Message out) = Inr None)"
  shows "handle_Backup e og (Inr r) tr = (Ok (Success (BackupOut [])), h3)"
  using assms(1-6) backup_outputs_empty [OF assms(7), of h3]
  by (simp add: handle_Backup_def BodyParser_def check_def og_AsyncBackup_def bind_io_def attempt_def wrap_err_def Let_def)


definition demo_backup_in :: BackupIn where
  "demo_backup_in = \<lparr>DBPort = 5432, DBName = ''db'', DBUser = ''omm'', DBPassword = ''pw'', bk_DnBackupPath = ''/backup'',
     bk_DnThreadsNum = 1, bk_DnBackupMode = ''FULL'', bk_Instance = ''ins''\<rparr>"

definition demo_no_instance_env :: agent_env where
  "demo_no_instance_env = demo_agent_env\<lparr>cmd_run := (\<lambda>_ _ cmd.
     if has_prefix cmd ''gs_probackup add-instance'' then demo_course\<lparr>cc_wait := Exited ''exit status 1''\<rparr> else demo_course)\<rparr>"

lemma demo_no_instance_simps [simp]:
  "loadArgs demo_no_instance_env c = c"
  "cmd_run demo_no_instance_env h sh c = (if has_prefix c ''gs_probackup add-instance''
     then demo_course\<lparr>cc_wait := Exited ''exit status 1''\<rparr> else demo_course)"
  by (simp_all add: demo_no_instance_env_def loadArgs_def demo_agent_env_def)

lemmas demo_command_run = cmds_Exec_def run_command_def Exec_course_def from_result_def bind_io_def call_def Let_def
  attempt_def demo_course_def has_prefix_def

theorem backup_without_id_succeeds_witness:
  "\<exists>tr'. handle_Backup demo_no_instance_env demo_og (Inr demo_backup_in) [] = (Ok (Success (BackupOut [])), tr')"
proof -
  let ?e = demo_no_instance_env let ?r = demo_backup_in
  have "\<exists>conn. handler_Auth ?e ''err wrap='' ?r [] = (Ok (), [] @ [OgOpen conn, OgPing, OgClose])"
    by (rule agent_auth_Ok) (simp_all add: demo_no_instance_env_def demo_agent_env_def demo_backup_in_def trim_spaces_def)
  then obtain h where auth: "handler_Auth ?e ''err wrap='' ?r [] = (Ok (), h)" by blast
  have valid: "BackupIn_Validate ?r = None" by (simp add: BackupIn_Validate_def db_checks_def demo_backup_in_def)
  obtain h1 where init: "og_Init ?e demo_og (bk_DnBackupPath ?r) h = (Ok (), h1)"
    by (simp add: og_Init_def init_cmd_def demo_command_run)
  obtain err h2 where add: "og_AddInstance ?e demo_og (bk_DnBackupPath ?r) (bk_Instance ?r) h1 = (Fail err, h2)"
    "error_is err InstanceAlreadyExist"
    by (auto simp: og_AddInstance_def add_instance_cmd_def demo_command_run)
  obtain h3 where start: "AsyncExec ?e (shell demo_og) (backup_cmd demo_og (bk_DnBackupPath ?r) (bk_Instance ?r)
      (bk_DnBackupMode ?r) (bk_DnThreadsNum ?r) (DBPort ?r)) h2 = (Ok [\<lparr>LineNo = 1, Message = ''INFO: done'', Error = None\<rparr>], h3)"
    by (simp add: AsyncExec_def async_outputs_def backup_cmd_def demo_command_run)
  from backup_without_id_succeeds [OF valid auth init add start] show ?thesis by (simp add: has_prefix_def)
qed

end
