(* ===== verification/Pitr_System.thy ===== *)
theory Pitr_System
  imports Pitr_Nodes Pitr_Agent_Properties
begin

text \<open>
  The command line and the agents together: the requests for the state of a backup that the command line
  sends are answered by the handler of the agent. What is assumed of the wire is that the text of a
  response, decoded by the client, has the content the agent sent (\<open>exchange\<close>), the JSON value null giving the
  zero value.
\<close>

section \<open>The wire\<close>

fun decoded_info :: "agent_data \<Rightarrow> BackupInfo" where
  "decoded_info (InfoData i) = i"
| "decoded_info _ = zero_BackupInfo"

definition decoded :: "response \<Rightarrow> BackupInfo agent_resp" where
  "decoded r = \<lparr>Code = Code r, Msg = Msg r, Data = decoded_info (Data r)\<rparr>"

definition show_url :: "Flags \<Rightarrow> DbNode \<Rightarrow> string" where
  "show_url f sn = NewRequest_url (agent_addr f sn @ ''/api/show'')"

definition exchange :: "pitr_env \<Rightarrow> agent_env \<Rightarrow> openGauss \<Rightarrow> ShowDetailIn \<Rightarrow> string \<Rightarrow> response \<Rightarrow> bool" where
  "exchange e ae og req msg r \<longleftrightarrow> json_resp_detail e msg = Inr (decoded r) \<and>
     (\<exists>reqid h h'. trim_spaces reqid \<noteq> [] \<and>
        agent_Recover (UniformRawErrResp (RequestIDChecker reqid (answers (handle_Show ae og (Inr req))))) h = (Ok (Some r), h'))"

text \<open>Whatever the client receives from the address of a node was sent by its agent.\<close>

definition served :: "pitr_env \<Rightarrow> Flags \<Rightarrow> agent_env \<Rightarrow> openGauss \<Rightarrow> DbNode \<Rightarrow> bool" where
  "served e f ae og sn \<longleftrightarrow> (\<forall>tr dn code msg.
     http_do e tr MethodPost (show_url f sn) (ShowDetailBody (show_detail_in f sn dn)) = Inr (Inr (code, msg)) \<longrightarrow>
     (\<exists>r. exchange e ae og (show_detail_in f sn dn) msg r))"

lemma exchangeI:
  assumes "handle_Show ae og (Inr req) h = (out, h')" and "json_resp_detail e msg = Inr (decoded r)"
    and "out = Ok r \<or> (\<exists>err. out = Fail err \<and> r = RawError err)"
  shows "exchange e ae og req msg r"
proof -
  have "agent_Recover (UniformRawErrResp (RequestIDChecker ''id'' (answers (handle_Show ae og (Inr req))))) h = (Ok (Some r), h')"
    using assms(1,3) by (auto simp: agent_Recover_def RequestIDChecker_def UniformRawErrResp_def answers_def bind_io_def
        attempt_def trim_spaces_def)
  moreover have "trim_spaces ''id'' \<noteq> []" by (simp add: trim_spaces_def)
  ultimately show ?thesis using assms(2) unfolding exchange_def by blast
qed

text \<open>A response without an error code is the answer of the handler.\<close>

lemma exchange_answer:
  assumes "exchange e ae og req msg r" and "Code r = 0"
  obtains h h' where "handle_Show ae og (Inr req) h = (Ok r, h')"
proof -
  from assms(1) obtain reqid h h' where "trim_spaces reqid \<noteq> []"
    and "agent_Recover (UniformRawErrResp (RequestIDChecker reqid (answers (handle_Show ae og (Inr req))))) h = (Ok (Some r), h')"
    by (auto simp: exchange_def)
  then have run: "(case UniformRawErrResp (answers (handle_Show ae og (Inr req))) h of
       (Panic p, tr') \<Rightarrow> (Ok (Some (responder_Error Internal)), tr') | (r, tr') \<Rightarrow> (r, tr')) = (Ok (Some r), h')"
    by (simp add: agent_Recover_def RequestIDChecker_def)
  obtain out h1 where out: "handle_Show ae og (Inr req) h = (out, h1)" by fastforce
  show thesis
  proof (cases out)
    case (Ok x)
    with run out have "x = r" by (simp add: UniformRawErrResp_def answers_def bind_io_def attempt_def)
    with Ok out that show thesis by blast
  next
    case (Fail err)
    with run out have "r = RawError err" by (simp add: UniformRawErrResp_def answers_def bind_io_def attempt_def)
    with assms(2) show thesis by (simp add: RawError_def)
  next
    case (Panic p)
    with run out have "r = responder_Error Internal" by (simp add: UniformRawErrResp_def answers_def bind_io_def attempt_def)
    with assms(2) show thesis by (simp add: responder_Error_def Internal_def)
  qed
qed

lemma handle_Show_Ok:
  assumes "handle_Show ae og (Inr req) h = (Ok r, h')"
  obtains p h1 where "og_ShowBackup ae og (sd_DnBackupPath req) (sd_Instance req) (sd_DnBackupID req) h1 = (Ok p, h')"
    "r = Success (NewBackupInfo p (sd_DnBackupPath req) (sd_Instance req))"
  using assms
  by (auto simp: handle_Show_def BodyParser_def check_def elim!: bind_io_OkE split: option.splits)

lemma ask_agent_OkE:
  assumes "ask_agent e m u b d tr = (Ok x, tr')"
  obtains code msg out where "http_do e tr m (NewRequest_url u) b = Inr (Inr (code, msg))" "d msg = Inr out" "Code out = 0" "x = Data out"
proof (cases "http_new_request e (NewRequest_url u)")
  case new: (Inr _)
  note run = assms [unfolded ask_agent_def Send_def from_result_def bind_io_def attempt_def wrap_err_def call_def Let_def]
  show thesis
  proof (cases "http_do e tr m (NewRequest_url u) b")
    case resp: (Inr resp)
    show thesis
    proof (cases resp)
      case (Inr a)
      obtain code msg where a: "a = (code, msg)" by fastforce
      show thesis using run new resp Inr a that by (cases "d msg") (auto split: if_splits)
    qed (use run new resp in simp)
  qed (use run new in simp)
qed (use assms in \<open>simp add: ask_agent_def Send_def from_result_def bind_io_def attempt_def wrap_err_def\<close>)

lemma ShowDetail_served:
  assumes "ShowDetail e (agent_addr f sn) (show_detail_in f sn dn) tr = (Ok info, tr')" and "served e f ae og sn"
  obtains p h where "answered (og_ShowBackup ae og (BackupPath f) defaultInstance (dn_BackupID dn)) p h"
    "info = decoded_info (NewBackupInfo p (BackupPath f) defaultInstance)"
proof -
  from assms(1) obtain code msg out where
    "http_do e tr MethodPost (show_url f sn) (ShowDetailBody (show_detail_in f sn dn)) = Inr (Inr (code, msg))"
    "json_resp_detail e msg = Inr out" "Code out = 0" "info = Data out"
    unfolding ShowDetail_def show_url_def by (elim ask_agent_OkE) blast
  with assms(2) obtain r where r: "exchange e ae og (show_detail_in f sn dn) msg r" "out = decoded r"
    unfolding served_def by (metis exchange_def sum.inject(2))
  with \<open>Code out = 0\<close> obtain h h' where "handle_Show ae og (Inr (show_detail_in f sn dn)) h = (Ok r, h')"
    by (auto simp: decoded_def elim: exchange_answer)
  then obtain p h1 where "og_ShowBackup ae og (BackupPath f) defaultInstance (dn_BackupID dn) h1 = (Ok p, h')"
    "r = Success (NewBackupInfo p (BackupPath f) defaultInstance)"
    by (rule handle_Show_Ok) (simp add: show_detail_in_def)
  with that [of p h'] \<open>info = Data out\<close> r(2) show thesis
    by (auto simp: decoded_def Success_def intro: answered_now)
qed

lemma statusTrans_completed [simp]: "statusTrans st = SsBackupStatusCompleted \<longleftrightarrow> st = ''OK''"
  by (simp add: statusTrans_def)

lemma statusTrans_final: "final_status (statusTrans st) \<longleftrightarrow> st = ''OK'' \<or> st = ''ERROR''"
  by (simp add: statusTrans_def final_status_def)



definition demo_show_env :: agent_env where
  "demo_show_env = demo_agent_env\<lparr>json_backups := (\<lambda>_. Inr [Some \<lparr>bl_Instance = defaultInstance,
     bl_List = [Some \<lparr>ogb_ID = ''b1'', ogb_BackupMode = ''FULL'', ogb_StartTime = [], ogb_EndTime = [], ogb_Status = ''OK''\<rparr>]\<rparr>])\<rparr>"

abbreviation (input) demo_req :: "DataNode \<Rightarrow> ShowDetailIn" where
  "demo_req dn \<equiv> show_detail_in demo_flags demo_db_node dn"

lemma demo_req_valid: "ShowIn_Validate (demo_req dn) = (if dn_BackupID dn = [] then Some MissingDnBackupID else None)"
  by (simp add: ShowIn_Validate_def db_checks_def show_detail_in_def demo_flags_def demo_db_node_def defaultInstance_def)

lemma demo_show_auth: "\<exists>h'. handler_Auth (demo_agent_env\<lparr>json_backups := j\<rparr>) sep (demo_req dn) h = (Ok (), h')"
  using agent_auth_Ok [of "demo_agent_env\<lparr>json_backups := j\<rparr>" "demo_req dn" sep h]
  by (auto simp: demo_agent_env_def show_detail_in_def demo_db_node_def trim_spaces_def)

lemma demo_exec: "cmds_Exec (demo_agent_env\<lparr>json_backups := j\<rparr>) sh c h = (Ok [], h @ [RunCommand sh c])"
  by (simp add: demo_command_run loadArgs_def demo_agent_env_def)

lemma demo_show_answers [simp]:
  "cmds_Exec demo_show_env sh c h = (Ok [], h @ [RunCommand sh c])"
  "json_backups demo_show_env x = Inr [Some \<lparr>bl_Instance = defaultInstance,
     bl_List = [Some \<lparr>ogb_ID = ''b1'', ogb_BackupMode = ''FULL'', ogb_StartTime = [], ogb_EndTime = [], ogb_Status = ''OK''\<rparr>]\<rparr>]"
  unfolding demo_show_env_def by (rule demo_exec) simp

lemma demo_handle_Show:
  assumes "dn_BackupID dn \<noteq> []"
  shows "\<exists>h'. handle_Show demo_show_env demo_og (Inr (demo_req dn)) h = (Ok (Success (InfoData demo_detail)), h')"
proof -
  obtain h1 where "handler_Auth demo_show_env ''err wrap: '' (demo_req dn) h = (Ok (), h1)"
    using demo_show_auth unfolding demo_show_env_def by blast
  with assms show ?thesis
    by (simp add: handle_Show_def BodyParser_def check_def demo_req_valid og_ShowBackup_def og_showbackup_def
        bind_io_def wrap_err_def from_result_def NewBackupInfo_def backup_info_def statusTrans_def demo_detail_def)
       (simp add: demo_flags_def)
qed

lemma demo_code: "show_int 10019 = ''10019''"
  by (simp add: show_int_def show_nat.simps digit_char_def char_of_def bit_0)

lemma demo_served: "served demo_pitr_env demo_flags demo_show_env demo_og demo_db_node"
proof -
  have "exchange demo_pitr_env demo_show_env demo_og (demo_req dn) ''good'' (Success (InfoData demo_detail))"
    if id: "dn_BackupID dn \<noteq> []" for dn
  proof -
    obtain h' where "handle_Show demo_show_env demo_og (Inr (demo_req dn)) [] = (Ok (Success (InfoData demo_detail)), h')"
      using demo_handle_Show [OF id] by blast
    then show ?thesis by (rule exchangeI) (simp_all add: decoded_def Success_def demo_resp_detail_def)
  qed
  moreover have "exchange demo_pitr_env demo_show_env demo_og (demo_req dn) ''bad''
      (RawError (WrapError ''invalid parameter, err wrap: '' MissingDnBackupID))" if "dn_BackupID dn = []" for dn
    using that
    by (intro exchangeI [where h = "[]" and h' = "[]" and out = "Fail (WrapError ''invalid parameter, err wrap: '' MissingDnBackupID)"])
       (simp_all add: handle_Show_def BodyParser_def check_def demo_req_valid bind_io_def decoded_def RawError_def demo_resp_detail_def
         MissingDnBackupID_def demo_code)
  ultimately show ?thesis unfolding served_def by (auto split: if_splits)
qed


section \<open>Waiting forever\<close>

definition reachable :: "pitr_env \<Rightarrow> Flags \<Rightarrow> DbNode \<Rightarrow> string \<Rightarrow> bool" where
  "reachable e f sn bid \<longleftrightarrow> (\<forall>tr dn. dn_BackupID dn = bid \<longrightarrow> http_new_request e (show_url f sn) = Inr () \<and>
     (\<exists>msg. http_do e tr MethodPost (show_url f sn) (ShowDetailBody (show_detail_in f sn dn)) = Inr (Inr (200, msg))))"

definition open_state :: "OgBackup option \<Rightarrow> bool" where
  "open_state p = (case p of None \<Rightarrow> True | Some b \<Rightarrow> ogb_Status b \<noteq> ''OK'' \<and> ogb_Status b \<noteq> ''ERROR'')"

text \<open>The agent answers every request about a backup, and never with a state that is final.\<close>

definition unfinished :: "agent_env \<Rightarrow> openGauss \<Rightarrow> Flags \<Rightarrow> DbNode \<Rightarrow> string \<Rightarrow> bool" where
  "unfinished ae og f sn bid \<longleftrightarrow> (\<forall>h dn. dn_BackupID dn = bid \<longrightarrow> (\<exists>p h'. open_state p \<and>
     handle_Show ae og (Inr (show_detail_in f sn dn)) h = (Ok (Success (NewBackupInfo p (BackupPath f) defaultInstance)), h')))"

lemma ask_agent_OkI:
  assumes "http_new_request e (NewRequest_url u) = Inr ()" and "http_do e tr m (NewRequest_url u) b = Inr (Inr (200, msg))"
    and "d msg = Inr out" and "Code out = 0"
  shows "ask_agent e m u b d tr = (Ok (Data out), tr @ [HttpDo m (NewRequest_url u) b])"
  using assms by (simp add: ask_agent_def Send_def from_result_def bind_io_def attempt_def wrap_err_def call_def Let_def)

lemma ShowDetail_unfinished:
  assumes "served e f ae og sn" and "reachable e f sn bid" and "unfinished ae og f sn bid" and "dn_BackupID dn = bid"
  obtains info tr' where "ShowDetail e (agent_addr f sn) (show_detail_in f sn dn) tr = (Ok info, tr')"
    "\<not> final_status (bi_Status info)"
proof -
  let ?req = "show_detail_in f sn dn"
  from assms(2,4) obtain msg where send: "http_new_request e (show_url f sn) = Inr ()"
    "http_do e tr MethodPost (show_url f sn) (ShowDetailBody ?req) = Inr (Inr (200, msg))"
    unfolding reachable_def by blast
  with assms(1) obtain r where r: "exchange e ae og ?req msg r" unfolding served_def by blast
  then obtain reqid h h' where "trim_spaces reqid \<noteq> []" and
    "agent_Recover (UniformRawErrResp (RequestIDChecker reqid (answers (handle_Show ae og (Inr ?req))))) h = (Ok (Some r), h')"
    by (auto simp: exchange_def)
  moreover from assms(3,4) obtain p h1 where p: "open_state p"
    "handle_Show ae og (Inr ?req) h = (Ok (Success (NewBackupInfo p (BackupPath f) defaultInstance)), h1)"
    unfolding unfinished_def by blast
  ultimately have "r = Success (NewBackupInfo p (BackupPath f) defaultInstance)"
    by (simp add: agent_Recover_def RequestIDChecker_def UniformRawErrResp_def answers_def bind_io_def attempt_def)
  with r have msg: "json_resp_detail e msg = Inr (decoded (Success (NewBackupInfo p (BackupPath f) defaultInstance)))"
    by (simp add: exchange_def)
  have "\<not> final_status (bi_Status (decoded_info (NewBackupInfo p (BackupPath f) defaultInstance)))"
  proof (cases p)
    case None
    then show ?thesis by (simp add: NewBackupInfo_def zero_BackupInfo_def final_status_def)
  next
    case (Some b)
    with p(1) show ?thesis by (simp add: open_state_def NewBackupInfo_def backup_info_def statusTrans_final)
  qed
  with ask_agent_OkI [where d = "json_resp_detail e", OF send [unfolded show_url_def] msg] that show thesis
    by (simp add: ShowDetail_def decoded_def Success_def)
qed

lemma checkProgress_keeps_ID:
  assumes "backup_checkProgress e f t store tr = (Ok (store', out), tr')"
    and "\<forall>dn. store ip = Some dn \<longrightarrow> dn_BackupID dn = bid"
  shows "\<forall>dn. store' ip = Some dn \<longrightarrow> dn_BackupID dn = bid"
  using assms(1) by (cases rule: checkProgress_cases) (use assms(2) in auto)

lemma node_map_ID:
  "\<forall>dn \<in> set dns. dn_IP dn = ip \<longrightarrow> dn_BackupID dn = bid \<Longrightarrow> \<forall>dn. m ip = Some dn \<longrightarrow> dn_BackupID dn = bid \<Longrightarrow>
   \<forall>dn. foldl add_data_node m dns ip = Some dn \<longrightarrow> dn_BackupID dn = bid"
proof (induction dns arbitrary: m)
  case (Cons dn dns)
  have "\<forall>d. add_data_node m dn ip = Some d \<longrightarrow> dn_BackupID d = bid"
    using Cons.prems by (simp add: add_data_node_def)
  with Cons show ?case by simp
qed simp

text \<open>
  C37. If \<^verbatim>\<open>gs_probackup show\<close> on one storage node never shows the backup as \<^verbatim>\<open>OK\<close> or \<^verbatim>\<open>ERROR\<close>, for instance
  because the backup is corrupt or not there at all, the agent reports success with another state or with
  none, and the command that waits for the backups waits forever, whatever the other nodes answer.
\<close>

theorem unknown_status_waits_forever:
  assumes "auto_stop e" and "served e f ae og sn" and "reachable e f sn bid" and "unfinished ae og f sn bid"
    and "ls_SsBackup b = Some ss" and "ss_StorageNodes ss = map Some nodes" and "ls_DnList b = map Some dns"
    and "node_IP ` set nodes \<subseteq> dn_IP ` set dns" and "sn \<in> set nodes"
    and "\<forall>dn \<in> set dns. dn_IP dn = node_IP sn \<longrightarrow> dn_BackupID dn = bid"
  shows "\<exists>tr'. checkBackupStatus e f n b tr = (Ok None, tr')"
proof -
  let ?m = "foldl add_data_node Map.empty dns" let ?J = "\<lambda>store. \<forall>dn. store (node_IP sn) = Some dn \<longrightarrow> dn_BackupID dn = bid"
  let ?t = "\<lparr>bt_Sn = sn, bt_retries = defaultShowDetailRetryTimes\<rparr>"
  have stuck: "\<exists>s' tr'. backup_checkProgress e f ?t s tr = (Ok (s', Inl ?t), tr')" if "watch_ready (set nodes) s ?t" "?J s" for s tr
  proof -
    from that obtain dn where dn: "s (node_IP sn) = Some dn" "dn_BackupID dn = bid" by (auto simp: watch_ready_def)
    from assms(2-4) dn(2) obtain info h where "ShowDetail e (agent_addr f sn) (show_detail_in f sn dn) tr = (Ok info, h)"
      "\<not> final_status (bi_Status info)" by (rule ShowDetail_unfinished)
    with dn show ?thesis
      by (simp add: backup_checkProgress_def bind_io_def attempt_def time_now_def call_def final_status_def Let_def)
  qed
  have ready: "list_all (watch_ready (set nodes) ?m) (watch_tasks nodes)"
    using assms(8) by (auto simp: list_all_iff watch_tasks_def watch_ready_def dom_node_map)
  have "?t \<in> set (watch_tasks nodes)" using assms(9) by (auto simp: watch_tasks_def)
  have "\<exists>tr'. run_tasks e (backup_checkProgress e f) n (watch_tasks nodes) ?m [] tr = (Ok None, tr')"
    by (rule watches.loop_waits [where J = ?J and t = ?t and N = "set nodes"])
       (rule assms(1), erule (1) checkProgress_keeps_ID, erule (1) stuck, fact, rule ready,
        rule node_map_ID [OF assms(10)], simp)
  then obtain h where "run_tasks e (backup_checkProgress e f) n (watch_tasks nodes) ?m [] tr = (Ok None, h)" by blast
  moreover have "nodes \<noteq> []" using assms(9) by auto
  ultimately show ?thesis
    using assms(5-7) by (simp add: checkBackupStatus_def bind_io_def fill_node_map_Some watch_tasks_def)
qed


definition demo_lost_env :: pitr_env where
  "demo_lost_env = demo_pitr_env\<lparr>json_resp_detail := (\<lambda>_. Inr \<lparr>Code = 0, Msg = ''Success'', Data = zero_BackupInfo\<rparr>),
     http_do := (\<lambda>_ _ _ b. case b of ShowDetailBody r \<Rightarrow> if sd_DnBackupID r = [] then Inl (NewError ''closed'') else Inr (Inr (200, ''{}''))
        | _ \<Rightarrow> Inr (Inr (200, ''{}'')))\<rparr>"

lemma demo_lost_answers [simp]:
  "render_stops demo_lost_env = (\<lambda>k. k = 0)"
  "json_resp_detail demo_lost_env = (\<lambda>_. Inr \<lparr>Code = 0, Msg = ''Success'', Data = zero_BackupInfo\<rparr>)"
  "http_new_request demo_lost_env = (\<lambda>_. Inr ())"
  "http_do demo_lost_env tr m u (ShowDetailBody r) =
     (if sd_DnBackupID r = [] then Inl (NewError ''closed'') else Inr (Inr (200, ''{}'')))"
  by (simp_all add: demo_lost_env_def)

lemma demo_lost_Show:
  assumes "dn_BackupID dn \<noteq> []"
  shows "\<exists>h'. handle_Show demo_agent_env demo_og (Inr (demo_req dn)) h = (Ok (Success NullData), h')"
proof -
  obtain h1 where "handler_Auth demo_agent_env ''err wrap: '' (demo_req dn) h = (Ok (), h1)"
    using demo_show_auth [of "json_backups demo_agent_env" "''err wrap: ''" dn h] by auto
  with assms show ?thesis
    using demo_exec [of "json_backups demo_agent_env"]
    by (simp add: handle_Show_def BodyParser_def check_def demo_req_valid og_ShowBackup_def og_showbackup_def
        bind_io_def wrap_err_def from_result_def NewBackupInfo_def) (simp add: demo_agent_env_def)
qed

theorem unknown_status_waits_forever_witness:
  "\<exists>tr'. checkBackupStatus demo_lost_env demo_flags 1000 demo_record [] = (Ok None, tr')"
proof -
  have "exchange demo_lost_env demo_agent_env demo_og (demo_req dn) ''{}'' (Success NullData)" if id: "dn_BackupID dn \<noteq> []" for dn
  proof -
    obtain h' where "handle_Show demo_agent_env demo_og (Inr (demo_req dn)) [] = (Ok (Success NullData), h')"
      using demo_lost_Show [OF id] by blast
    then show ?thesis by (rule exchangeI) (simp_all add: decoded_def Success_def)
  qed
  then have served: "served demo_lost_env demo_flags demo_agent_env demo_og demo_db_node"
    by (auto simp: served_def split: if_splits)
  have unfinished: "unfinished demo_agent_env demo_og demo_flags demo_db_node ''b1''"
    using demo_lost_Show unfolding unfinished_def
    by (auto simp: open_state_def NewBackupInfo_def intro!: exI [of _ None])
  have "reachable demo_lost_env demo_flags demo_db_node ''b1''" by (simp add: reachable_def)
  from unknown_status_waits_forever [OF _ served this unfinished, where b = demo_record and nodes = "[demo_db_node]"
      and dns = "[demo_data_node]" and n = 1000 and tr = "[]"]
  show ?thesis by (simp add: auto_stop_def demo_record_def demo_data_node_def demo_db_node_def)
qed

end
