(* ===== verification/Distsql_Syntax.thy ===== *)
theory Distsql_Syntax
  imports Go_Prelude
begin

text \<open>
  What the DistSQL packages (\<^verbatim>\<open>pkg/distsql\<close>) stand on: parse trees as the ANTLR runtime hands
  them to the visitors, with the accessors of the generated contexts (\<^verbatim>\<open>GetToken\<close>,
  \<^verbatim>\<open>GetTypedRuleContext\<close>, \<^verbatim>\<open>GetTypedRuleContexts\<close>); the rules of the \<^verbatim>\<open>.g4\<close> grammars as
  expressions and the trees they derive; a lexer for statements, after the lexer rules of the
  grammars; and what it means that a text spells a sequence of tokens. The generated parsers
  themselves are not modelled: a statement enters as a tree its grammar derives.
\<close>

section \<open>Outcomes without effects\<close>

definition bind_oc :: "'a outcome \<Rightarrow> ('a \<Rightarrow> 'b outcome) \<Rightarrow> 'b outcome" where
  "bind_oc m f = (case m of Ok x \<Rightarrow> f x | Fail e \<Rightarrow> Fail e | Panic p \<Rightarrow> Panic p)"

fun map_oc :: "('a \<Rightarrow> 'b outcome) \<Rightarrow> 'a list \<Rightarrow> 'b list outcome" where
  "map_oc f [] = Ok []"
| "map_oc f (x # xs) = bind_oc (f x) (\<lambda>y. bind_oc (map_oc f xs) (\<lambda>ys. Ok (y # ys)))"

text \<open>
  A pointer is an option. \<open>deref f p\<close> is a method call or field access through \<open>p\<close>, \<open>if_set f p\<close>
  is \<^verbatim>\<open>if p != nil { s = p.ToString() }\<close> with \<open>s\<close> empty before, and \<open>visit_opt\<close> is
  \<^verbatim>\<open>if c != nil { stmt.F = v.Visit(c) }\<close>.
\<close>

type_synonym 'a ptr = "'a option"

definition nil_dereference :: string where
  "nil_dereference = ''invalid memory address or nil pointer dereference''"

definition deref :: "('a \<Rightarrow> 'b outcome) \<Rightarrow> 'a ptr \<Rightarrow> 'b outcome" where
  "deref f p = (case p of None \<Rightarrow> Panic nil_dereference | Some x \<Rightarrow> f x)"

definition if_set :: "('a \<Rightarrow> string outcome) \<Rightarrow> 'a ptr \<Rightarrow> string outcome" where
  "if_set f p = (case p of None \<Rightarrow> Ok [] | Some x \<Rightarrow> f x)"

definition visit_opt :: "('a \<Rightarrow> 'b outcome) \<Rightarrow> 'a option \<Rightarrow> 'b ptr outcome" where
  "visit_opt f c = (case c of None \<Rightarrow> Ok None | Some x \<Rightarrow> bind_oc (f x) (\<lambda>y. Ok (Some y)))"

text \<open>\<^verbatim>\<open>strings.Join(parts, ",")\<close> over the printed elements of a slice of pointers.\<close>

definition join_all :: "('a \<Rightarrow> string outcome) \<Rightarrow> 'a ptr list \<Rightarrow> string outcome" where
  "join_all f ps = bind_oc (map_oc (deref f) ps) (\<lambda>ss. Ok (join '','' ss))"

lemma bind_oc_Ok [simp]: "bind_oc (Ok x) f = f x"
  by (simp add: bind_oc_def)

lemma bind_oc_Panic [simp]: "bind_oc (Panic p) f = Panic p"
  by (simp add: bind_oc_def)

lemma bind_oc_Fail [simp]: "bind_oc (Fail e) f = Fail e"
  by (simp add: bind_oc_def)

lemma bind_oc_Ok_iff: "bind_oc m f = Ok y \<longleftrightarrow> (\<exists>x. m = Ok x \<and> f x = Ok y)"
  by (cases m) auto

lemma deref_simps [simp]: "deref f (Some x) = f x" "deref f None = Panic nil_dereference"
  by (simp_all add: deref_def)

lemma if_set_simps [simp]: "if_set f (Some x) = f x" "if_set f None = Ok []"
  by (simp_all add: if_set_def)

lemma visit_opt_simps [simp]:
  "visit_opt f (Some x) = bind_oc (f x) (\<lambda>y. Ok (Some y))" "visit_opt f None = Ok None"
  by (simp_all add: visit_opt_def)

lemma map_oc_Ok: "map_oc (\<lambda>x. Ok (f x)) xs = Ok (map f xs)"
  by (induction xs) auto

section \<open>Parse trees\<close>

text \<open>A terminal has the name of its token type and its text, an inner node the name of its rule.\<close>

datatype tree = Terminal string string | Node string "tree list"

fun terminal_of :: "string \<Rightarrow> tree \<Rightarrow> string option" where
  "terminal_of a (Terminal b x) = (if a = b then Some x else None)"
| "terminal_of a (Node r cs) = None"

fun is_rule :: "string \<Rightarrow> tree \<Rightarrow> bool" where
  "is_rule r (Node q cs) = (r = q)"
| "is_rule r (Terminal b x) = False"

fun children :: "tree \<Rightarrow> tree list" where
  "children (Node r cs) = cs"
| "children (Terminal b x) = []"

text \<open>\<^verbatim>\<open>ctx.IF()\<close>, \<^verbatim>\<open>ctx.AllRuleName()\<close>, \<^verbatim>\<open>ctx.IfExists()\<close> and \<^verbatim>\<open>ctx.ColumnName(0)\<close>.\<close>

definition token :: "string \<Rightarrow> tree \<Rightarrow> string option" where
  "token a t = (case List.map_filter (terminal_of a) (children t) of [] \<Rightarrow> None | x # _ \<Rightarrow> Some x)"

definition all_rules :: "string \<Rightarrow> tree \<Rightarrow> tree list" where
  "all_rules r t = filter (is_rule r) (children t)"

definition the_rule :: "string \<Rightarrow> tree \<Rightarrow> tree option" where
  "the_rule r t = (case all_rules r t of [] \<Rightarrow> None | c # _ \<Rightarrow> Some c)"

text \<open>\<^verbatim>\<open>GetText()\<close> of a terminal that may be missing.\<close>

definition GetText :: "string option \<Rightarrow> string outcome" where
  "GetText x = deref Ok x"

text \<open>The text of the first terminal that is there, as the \<^verbatim>\<open>switch\<close> statements pick it.\<close>

fun first_token :: "string list \<Rightarrow> tree \<Rightarrow> string" where
  "first_token [] t = []"
| "first_token (a # as) t = (case token a t of Some x \<Rightarrow> x | None \<Rightarrow> first_token as t)"

definition token_text :: "string \<Rightarrow> tree \<Rightarrow> string" where
  "token_text a t = (case token a t of Some x \<Rightarrow> x | None \<Rightarrow> [])"

fun terminals :: "tree \<Rightarrow> (string \<times> string) list" where
  "terminals (Terminal a x) = [(a, x)]"
| "terminals (Node r cs) = concat (map terminals cs)"

section \<open>Lexical structure\<close>

definition word_char :: "char \<Rightarrow> bool" where
  "word_char c = (let n = (of_char c :: nat) in
     (97 \<le> n \<and> n \<le> 122) \<or> (65 \<le> n \<and> n \<le> 90) \<or> (48 \<le> n \<and> n \<le> 57) \<or> n = 95 \<or> n = 36)"

definition space_char :: "char \<Rightarrow> bool" where
  "space_char c = (c = CHR '' '' \<or> c = CHR 0x09 \<or> c = CHR 0x0D \<or> c = CHR 0x0A)"

definition quote_char :: "char \<Rightarrow> bool" where
  "quote_char c = (c = CHR 0x22 \<or> c = CHR 0x27 \<or> c = CHR 0x60)"

text \<open>
  The rest of a quoted text after its opening quote \<open>q\<close>: the closing quote is the first one that
  is not doubled and not escaped; in a back-quoted identifier it is the first one. The result is
  the text up to and with the closing quote, and what follows.
\<close>

fun quoted :: "char \<Rightarrow> string \<Rightarrow> string \<times> string" where
  "quoted q [] = ([], [])"
| "quoted q [c] = ([c], [])"
| "quoted q (c # d # s) =
     (if q \<noteq> CHR 0x60 \<and> (c = CHR 0x5C \<or> c = q \<and> d = q)
      then (c # d # fst (quoted q s), snd (quoted q s))
      else if c = q then ([c], d # s)
      else (c # fst (quoted q (d # s)), snd (quoted q (d # s))))"

lemma length_quoted: "length (snd (quoted q s)) \<le> length s"
  by (induction q s rule: quoted.induct) auto

text \<open>The words, numbers, quoted texts and symbols of a statement; white space is skipped.\<close>

function lexer :: "string \<Rightarrow> string list" where
  "lexer [] = []"
| "lexer (c # s) =
     (if space_char c then lexer s
      else if word_char c then takeWhile word_char (c # s) # lexer (dropWhile word_char (c # s))
      else if quote_char c then (c # fst (quoted c s)) # lexer (snd (quoted c s))
      else [c] # lexer s)"
  by pat_completeness auto
termination
proof (relation "measure length"; simp)
  show "length (dropWhile word_char s) < Suc (length s)" for s
    using length_dropWhile_le [of word_char s] by simp
  show "length (snd (quoted c s)) < Suc (length s)" for c s
    using length_quoted [of c s] by simp
qed

text \<open>\<open>closed q s\<close>: \<open>s\<close> is the body of a text quoted with \<open>q\<close>, with its closing quote and nothing after it.\<close>

fun closed_by :: "char \<Rightarrow> string \<Rightarrow> bool" where
  "closed_by q [] = False"
| "closed_by q [c] = (c = q)"
| "closed_by q (c # d # s) =
     (if q \<noteq> CHR 0x60 \<and> (c = CHR 0x5C \<or> c = q \<and> d = q) then closed_by q s
      else c \<noteq> q \<and> closed_by q (d # s))"

definition string_lit :: "string \<Rightarrow> bool" where
  "string_lit x = (x \<noteq> [] \<and> (hd x = CHR 0x22 \<or> hd x = CHR 0x27) \<and> closed_by (hd x) (tl x))"

definition word :: "string \<Rightarrow> bool" where
  "word x = (x \<noteq> [] \<and> list_all word_char x)"

definition ident :: "string \<Rightarrow> bool" where
  "ident x = (word x \<and> \<not> list_all is_digit x \<or>
     2 < length x \<and> hd x = CHR 0x60 \<and> closed_by (CHR 0x60) (tl x))"

definition symbols :: "(string \<times> string) list" where
  "symbols = [(''LP_'', ''(''), (''RP_'', '')''), (''COMMA_'', '',''), (''EQ_'', ''=''), (''MINUS_'', ''-'')]"

text \<open>
  \<open>lexeme a x\<close>: \<open>x\<close> is a text the lexer gives the token type \<open>a\<close>. The names of the literals and
  symbols end in an underscore; every other token type is a keyword, which is its own spelling in
  any mixture of cases.
\<close>

definition keyword :: "string \<Rightarrow> bool" where
  "keyword a = (word a \<and> last a \<noteq> CHR ''_'')"

definition lexeme :: "string \<Rightarrow> string \<Rightarrow> bool" where
  "lexeme a x =
     (if a = ''IDENTIFIER_'' then ident x
      else if a = ''STRING_'' then string_lit x
      else if a = ''INT_'' then x \<noteq> [] \<and> list_all is_digit x
      else case map_of symbols a of Some s \<Rightarrow> x = s
           | None \<Rightarrow> keyword a \<and> to_lower x = to_lower a)"

section \<open>Grammars\<close>

text \<open>The right-hand sides of grammar rules, and the sequences of trees they derive.\<close>

datatype ebnf = T string | N string | Seq "ebnf list" | Alt "ebnf list" | Opt ebnf | Many ebnf

inductive derives :: "(string \<Rightarrow> ebnf) \<Rightarrow> ebnf \<Rightarrow> tree list \<Rightarrow> bool" for G where
  leaf: "lexeme a x \<Longrightarrow> derives G (T a) [Terminal a x]"
| inner: "derives G (G r) cs \<Longrightarrow> derives G (N r) [Node r cs]"
| empty: "derives G (Seq []) []"
| sequence: "derives G e ts \<Longrightarrow> derives G (Seq es) us \<Longrightarrow> derives G (Seq (e # es)) (ts @ us)"
| choice: "e \<in> set es \<Longrightarrow> derives G e ts \<Longrightarrow> derives G (Alt es) ts"
| skipped: "derives G (Opt e) []"
| taken: "derives G e ts \<Longrightarrow> derives G (Opt e) ts"
| none_left: "derives G (Many e) []"
| one_more: "derives G e ts \<Longrightarrow> derives G (Many e) us \<Longrightarrow> derives G (Many e) (ts @ us)"

inductive_simps derives_T [simp]: "derives G (T a) ts"
inductive_simps derives_N: "derives G (N r) ts"
inductive_simps derives_Nil [simp]: "derives G (Seq []) ts"
inductive_simps derives_Cons [simp]: "derives G (Seq (e # es)) ts"
inductive_simps derives_Alt [simp]: "derives G (Alt es) ts"
inductive_simps derives_Opt: "derives G (Opt e) ts"
inductive_cases derives_ManyE: "derives G (Many e) ts"

text \<open>
  A grammar is a list of rules. The congruence rule keeps the simplifier out of the list while it
  looks for a rule.
\<close>

fun rule_of :: "(string \<times> ebnf) list \<Rightarrow> string \<Rightarrow> ebnf" where
  "rule_of [] r = Alt []"
| "rule_of ((q, e) # rules) r = (if q = r then e else rule_of rules r)"

lemma rule_of_cong [cong]: "r = q \<Longrightarrow> rule_of rules r = rule_of rules q"
  by simp

text \<open>\<^verbatim>\<open>r (COMMA_ r)*\<close>\<close>

definition comma_list :: "string \<Rightarrow> ebnf" where
  "comma_list r = Seq [N r, Many (Seq [T ''COMMA_'', N r])]"

fun comma_trees :: "tree list \<Rightarrow> tree list" where
  "comma_trees [] = []"
| "comma_trees [t] = [t]"
| "comma_trees (t # u # ts) = t # Terminal ''COMMA_'' '','' # comma_trees (u # ts)"

fun comma_tokens :: "(string \<times> string) list list \<Rightarrow> (string \<times> string) list" where
  "comma_tokens [] = []"
| "comma_tokens [t] = t"
| "comma_tokens (t # u # ts) = t @ (''COMMA_'', '','') # comma_tokens (u # ts)"

lemma lexeme_symbol [simp]:
  "lexeme ''COMMA_'' x \<longleftrightarrow> x = '',''" "lexeme ''EQ_'' x \<longleftrightarrow> x = ''=''"
  "lexeme ''LP_'' x \<longleftrightarrow> x = ''(''" "lexeme ''RP_'' x \<longleftrightarrow> x = '')''" "lexeme ''MINUS_'' x \<longleftrightarrow> x = ''-''"
  by (simp_all add: lexeme_def symbols_def)

lemma lexeme_literal [simp]:
  "lexeme ''IDENTIFIER_'' x \<longleftrightarrow> ident x" "lexeme ''STRING_'' x \<longleftrightarrow> string_lit x"
  "lexeme ''INT_'' x \<longleftrightarrow> x \<noteq> [] \<and> list_all is_digit x"
  by (simp_all add: lexeme_def)

lemma lexeme_keyword:
  assumes "keyword a"
  shows "lexeme a x \<longleftrightarrow> to_lower x = to_lower a"
proof -
  have "a \<noteq> b" if "last b = CHR ''_''" for b using assms that by (auto simp: keyword_def)
  then have "a \<noteq> ''IDENTIFIER_''" "a \<noteq> ''STRING_''" "a \<noteq> ''INT_''" "map_of symbols a = None"
    by (simp_all add: symbols_def)
  with assms show ?thesis by (simp add: lexeme_def)
qed

lemma comma_trees_Cons: "comma_trees (t # ts) = t # concat (map (\<lambda>u. [Terminal ''COMMA_'' '','', u]) ts)"
  by (induction ts arbitrary: t) auto

lemma derives_Many_comma:
  "derives G (Many (Seq [T ''COMMA_'', N r])) ts \<longleftrightarrow>
     (\<exists>css. ts = concat (map (\<lambda>cs. [Terminal ''COMMA_'' '','', Node r cs]) css) \<and> (\<forall>cs \<in> set css. derives G (G r) cs))"
  (is "?l \<longleftrightarrow> ?r")
proof
  show ?r if ?l
    using that
  proof (induction "Many (Seq [T ''COMMA_'', N r])" ts rule: derives.induct)
    case none_left
    show ?case by (intro exI [of _ "[]"]) simp
  next
    case (one_more ts us)
    then obtain cs css where "ts = [Terminal ''COMMA_'' '','', Node r cs]" "derives G (G r) cs"
      "us = concat (map (\<lambda>cs. [Terminal ''COMMA_'' '','', Node r cs]) css)" "\<forall>cs \<in> set css. derives G (G r) cs"
      by (auto simp: derives_N)
    then show ?case by (intro exI [of _ "cs # css"]) simp
  qed
  show ?l if ?r
  proof -
    from that obtain css where css: "ts = concat (map (\<lambda>cs. [Terminal ''COMMA_'' '','', Node r cs]) css)"
      "\<forall>cs \<in> set css. derives G (G r) cs" by blast
    show ?l unfolding css(1) using css(2)
    proof (induction css)
      case (Cons cs css)
      then have "derives G (Many (Seq [T ''COMMA_'', N r]))
          ([Terminal ''COMMA_'' '','', Node r cs] @ concat (map (\<lambda>cs. [Terminal ''COMMA_'' '','', Node r cs]) css))"
        by (intro derives.one_more) (auto simp: derives_N)
      then show ?case by simp
    qed (simp add: derives.none_left)
  qed
qed

lemma derives_comma_list:
  "derives G (comma_list r) ts \<longleftrightarrow>
     (\<exists>css. css \<noteq> [] \<and> ts = comma_trees (map (Node r) css) \<and> (\<forall>cs \<in> set css. derives G (G r) cs))"
proof
  assume "derives G (comma_list r) ts"
  then obtain cs css where "derives G (G r) cs" "\<forall>cs \<in> set css. derives G (G r) cs"
      "ts = Node r cs # concat (map (\<lambda>cs. [Terminal ''COMMA_'' '','', Node r cs]) css)"
    by (auto simp: comma_list_def derives_N derives_Many_comma)
  then show "\<exists>css. css \<noteq> [] \<and> ts = comma_trees (map (Node r) css) \<and> (\<forall>cs \<in> set css. derives G (G r) cs)"
    by (intro exI [of _ "cs # css"]) (simp add: comma_trees_Cons o_def)
next
  assume "\<exists>css. css \<noteq> [] \<and> ts = comma_trees (map (Node r) css) \<and> (\<forall>cs \<in> set css. derives G (G r) cs)"
  then obtain cs css where ts: "ts = comma_trees (map (Node r) (cs # css))"
    and ok: "\<forall>cs \<in> set (cs # css). derives G (G r) cs" by (metis neq_Nil_conv)
  have "derives G (Seq [N r, Many (Seq [T ''COMMA_'', N r])])
      ([Node r cs] @ concat (map (\<lambda>cs. [Terminal ''COMMA_'' '','', Node r cs]) css) @ [])"
    by (intro derives.sequence derives.inner derives.empty) (use ok derives_Many_comma in auto)
  then show "derives G (comma_list r) ts" by (simp add: ts comma_list_def comma_trees_Cons o_def)
qed

text \<open>What the accessors find in a comma-separated list.\<close>

lemma filter_comma_trees [simp]: "filter (is_rule q) (comma_trees ts) = filter (is_rule q) ts"
  by (induction ts rule: comma_trees.induct) auto

lemma filter_Nodes [simp]: "filter (is_rule q) (map (Node r) css) = (if q = r then map (Node r) css else [])"
  by (induction css) auto

lemma map_filter_simps' [simp]: "List.map_filter f [] = []"
  "List.map_filter f (x # xs) = (case f x of None \<Rightarrow> List.map_filter f xs | Some y \<Rightarrow> y # List.map_filter f xs)"
  "List.map_filter f (xs @ ys) = List.map_filter f xs @ List.map_filter f ys"
  by (simp_all add: List.map_filter_def split: option.split)

lemma map_filter_concat: "List.map_filter f (concat (map g xs)) = concat (map (\<lambda>x. List.map_filter f (g x)) xs)"
  by (induction xs) simp_all

lemma tokens_comma_trees [simp]:
  "a \<noteq> ''COMMA_'' \<Longrightarrow> List.map_filter (terminal_of a) (comma_trees (map (Node r) css)) = []"
  by (cases css) (simp_all add: comma_trees_Cons map_filter_concat o_def)

lemma terminals_comma_trees [simp]: "concat (map terminals (comma_trees ts)) = comma_tokens (map terminals ts)"
  by (induction ts rule: comma_trees.induct) auto

section \<open>Deriving concrete trees\<close>

text \<open>Rewrite rules that recognise a concrete tree, from left to right.\<close>

lemma deriving_Seq:
  "derives G (Seq []) []"
  "lexeme a x \<Longrightarrow> derives G (Seq es) us \<Longrightarrow> derives G (Seq (T a # es)) (Terminal a x # us)"
  "derives G (G r) cs \<Longrightarrow> derives G (Seq es) us \<Longrightarrow> derives G (Seq (N r # es)) (Node r cs # us)"
  "derives G (Seq (fs @ es)) us \<Longrightarrow> derives G (Seq (Seq fs # es)) us"
  "derives G (Seq (e # es)) us \<Longrightarrow> derives G (Seq (Opt e # es)) us"
  "derives G (Seq es) us \<Longrightarrow> derives G (Seq (Opt e # es)) us"
  "derives G (G r) cs \<Longrightarrow> derives G (Seq (comma_list r # es)) us \<Longrightarrow>
     derives G (Seq (comma_list r # es)) (Node r cs # Terminal ''COMMA_'' '','' # us)"
  "derives G (Seq (N r # es)) us \<Longrightarrow> derives G (Seq (comma_list r # es)) us"
proof -
  show "derives G (Seq (Seq fs # es)) us" if "derives G (Seq (fs @ es)) us"
    using that
  proof (induction fs arbitrary: us)
    case (Cons f fs)
    then obtain a b where us: "us = a @ b" and a: "derives G f a" and b: "derives G (Seq (fs @ es)) b" by auto
    from Cons.IH [OF b] obtain c d where b': "b = c @ d" "derives G (Seq fs) c" "derives G (Seq es) d" by auto
    have "derives G (Seq (Seq (f # fs) # es)) ((a @ c) @ d)"
      by (intro derives.sequence a b')
    then show ?case by (simp add: us b')
  qed auto
  show "derives G (Seq (comma_list r # es)) (Node r cs # Terminal ''COMMA_'' '','' # us)"
    if cs: "derives G (G r) cs" and us: "derives G (Seq (comma_list r # es)) us"
  proof -
    from us obtain a b where ab: "us = a @ b" "derives G (comma_list r) a" "derives G (Seq es) b" by auto
    then obtain css where "css \<noteq> []" "a = comma_trees (map (Node r) css)" "\<forall>cs \<in> set css. derives G (G r) cs"
      by (auto simp: derives_comma_list)
    then have "derives G (comma_list r) (Node r cs # Terminal ''COMMA_'' '','' # a)"
      unfolding derives_comma_list using cs
      by (intro exI [of _ "cs # css"]) (cases css; simp)
    from derives.sequence [OF this ab(3)] show ?thesis by (simp add: ab)
  qed
  show "derives G (Seq (comma_list r # es)) us" if us: "derives G (Seq (N r # es)) us"
  proof -
    from us obtain cs b where b: "us = Node r cs # b" "derives G (G r) cs" "derives G (Seq es) b"
      by (auto simp: derives_N)
    then have "derives G (comma_list r) [Node r cs]"
      unfolding derives_comma_list by (intro exI [of _ "[cs]"]) simp
    from derives.sequence [OF this b(3)] show ?thesis by (simp add: b)
  qed
  show "derives G (Seq (T a # es)) (Terminal a x # us)" if "lexeme a x" "derives G (Seq es) us"
    using derives.sequence [OF derives.leaf that(2)] that(1) by fastforce
  show "derives G (Seq (N r # es)) (Node r cs # us)" if "derives G (G r) cs" "derives G (Seq es) us"
    using derives.sequence [OF derives.inner [OF that(1)] that(2)] by simp
qed (auto simp: derives_N intro: derives.skipped derives.taken)

lemma deriving_Seq_Alt:
  "derives G (Seq (e # fs)) us \<Longrightarrow> derives G (Seq (Alt (e # es) # fs)) us"
  "derives G (Seq (Alt es # fs)) us \<Longrightarrow> derives G (Seq (Alt (e # es) # fs)) us"
  by fastforce+

lemma deriving:
  "lexeme a x \<Longrightarrow> derives G (T a) [Terminal a x]"
  "derives G (G r) cs \<Longrightarrow> derives G (N r) [Node r cs]"
  "derives G (Seq [comma_list r]) us \<Longrightarrow> derives G (comma_list r) us"
  "derives G e us \<Longrightarrow> derives G (Alt (e # es)) us"
  "derives G (Alt es) us \<Longrightarrow> derives G (Alt (e # es)) us"
  by (auto simp: derives_N)

text \<open>Trees of names, keywords and quoted texts.\<close>

definition kw :: "string \<Rightarrow> tree" where
  "kw a = Terminal a a"

definition name_node :: "string \<Rightarrow> string \<Rightarrow> tree" where
  "name_node r x = Node r [Terminal ''IDENTIFIER_'' x]"

definition sq :: "string \<Rightarrow> string" where
  "sq x = CHR 0x27 # x @ [CHR 0x27]"

end
