(* ===== verification/Distsql_Spelling.thy ===== *)
theory Distsql_Spelling
  imports Distsql_Syntax
begin

text \<open>
  When a printed text spells a sequence of tokens: the lexer finds exactly these tokens in it,
  with the texts of the literals and symbols unchanged and the keywords up to their case. The
  rules are compositional, so the printers are verified part by part.
\<close>

named_theorems spelling \<open>how texts and tokens compose; usable as rewrite rules\<close>

section \<open>Texts and tokens\<close>

text \<open>After a token the next character must not continue it.\<close>

definition boundary :: "string \<Rightarrow> bool" where
  "boundary s = (s = [] \<or> \<not> word_char (hd s) \<and> \<not> quote_char (hd s))"

definition same_token :: "string \<times> string \<Rightarrow> string \<Rightarrow> bool" where
  "same_token t w = (w = snd t \<or> keyword (fst t) \<and> to_lower w = to_lower (fst t))"

definition spells :: "string \<Rightarrow> (string \<times> string) list \<Rightarrow> bool" where
  "spells s ts \<longleftrightarrow> (\<forall>rest. boundary rest \<longrightarrow> (\<exists>ws. lexer (s @ rest) = ws @ lexer rest \<and> list_all2 same_token ts ws))"

lemma spells_lex: "spells s ts \<Longrightarrow> list_all2 same_token ts (lexer s)"
  unfolding spells_def boundary_def by (drule spec [of _ "[]"]) auto

lemma boundary_simps [simp]: "boundary []" "boundary (c # s) \<longleftrightarrow> \<not> word_char c \<and> \<not> quote_char c"
  by (simp_all add: boundary_def)

lemma boundary_append: "boundary s \<Longrightarrow> (s = [] \<Longrightarrow> boundary r) \<Longrightarrow> boundary (s @ r)"
  by (cases s) auto

lemma boundary_takeWhile [simp]: "boundary s \<Longrightarrow> takeWhile word_char s = []"
  "boundary s \<Longrightarrow> dropWhile word_char s = s"
  by (cases s; simp)+

section \<open>Rules\<close>

lemma spells_Nil [simp, spelling]: "spells [] []"
  by (simp add: spells_def)

lemma spells_append [spelling]:
  assumes "spells s ts" "spells s' ts'" "boundary s'"
  shows "spells (s @ s') (ts @ ts')"
  unfolding spells_def
proof (intro allI impI)
  fix rest assume r: "boundary rest"
  with assms(3) have "boundary (s' @ rest)" by (intro boundary_append)
  with assms(1) obtain ws where "lexer (s @ s' @ rest) = ws @ lexer (s' @ rest)" "list_all2 same_token ts ws"
    unfolding spells_def by blast
  moreover from r assms(2) obtain ws' where "lexer (s' @ rest) = ws' @ lexer rest" "list_all2 same_token ts' ws'"
    unfolding spells_def by blast
  ultimately show "\<exists>ws. lexer ((s @ s') @ rest) = ws @ lexer rest \<and> list_all2 same_token (ts @ ts') ws"
    by (intro exI [of _ "ws @ ws'"]) (simp add: list_all2_appendI)
qed

lemma spells_space [spelling]: "space_char c \<Longrightarrow> spells s ts \<Longrightarrow> spells (c # s) ts"
  by (simp add: spells_def)

lemma word_char_class: "word_char c \<Longrightarrow> \<not> space_char c \<and> \<not> quote_char c"
  by (auto simp: space_char_def word_char_def quote_char_def)

lemma quote_char_class: "quote_char c \<Longrightarrow> \<not> space_char c \<and> \<not> word_char c"
  by (auto simp: space_char_def word_char_def quote_char_def)

lemma spells_symbol [spelling]:
  "\<not> space_char c \<Longrightarrow> \<not> word_char c \<Longrightarrow> \<not> quote_char c \<Longrightarrow> spells s ts \<Longrightarrow> spells (c # s) ((a, [c]) # ts)"
  unfolding spells_def by (fastforce simp: same_token_def)

lemma takeWhile_word: "list_all word_char w \<Longrightarrow> boundary r \<Longrightarrow> takeWhile word_char (w @ r) = w"
  "list_all word_char w \<Longrightarrow> boundary r \<Longrightarrow> dropWhile word_char (w @ r) = r"
  by (induction w) auto

lemma lex_word: "word w \<Longrightarrow> boundary r \<Longrightarrow> lexer (w @ r) = w # lexer r"
  using takeWhile_word [of w r] by (cases w) (auto simp: word_def dest: word_char_class)

lemma spells_word: "word w \<Longrightarrow> same_token t w \<Longrightarrow> spells w [t]"
  by (simp add: spells_def lex_word)

lemma quoted_closed:
  "closed_by q s \<Longrightarrow> quote_char q \<Longrightarrow> r = [] \<or> hd r \<noteq> q \<Longrightarrow> quoted q (s @ r) = (s, r)"
proof (induction q s rule: closed_by.induct)
  case (2 q c)
  then have "q \<noteq> CHR 0x5C" by (auto simp: quote_char_def)
  with 2 show ?case by (cases r) auto
qed (auto split: if_splits)

lemma spells_quoted:
  assumes "quote_char q" "closed_by q s"
  shows "spells (q # s) [(a, q # s)]"
  unfolding spells_def
proof (intro allI impI exI conjI)
  fix rest assume "boundary rest"
  then have "rest = [] \<or> hd rest \<noteq> q" using assms(1) by (auto simp: boundary_def)
  then show "lexer ((q # s) @ rest) = [q # s] @ lexer rest"
    using assms quote_char_class [of q] by (simp add: quoted_closed)
  show "list_all2 same_token [(a, q # s)] [q # s]" by (simp add: same_token_def)
qed

lemma spells_identifier: "ident x \<Longrightarrow> spells x [(a, x)]"
  using spells_quoted [of "CHR 0x60" "tl x" a] spells_word [of x "(a, x)"]
  by (cases x) (auto simp: ident_def same_token_def quote_char_def)

lemma spells_string: "string_lit x \<Longrightarrow> spells x [(a, x)]"
  using spells_quoted [of "hd x" "tl x" a]
  by (cases x) (auto simp: string_lit_def quote_char_def)

lemma spells_int: "x \<noteq> [] \<Longrightarrow> list_all is_digit x \<Longrightarrow> spells x [(a, x)]"
  by (rule spells_word) (auto simp: word_def same_token_def list_all_iff is_digit_def word_char_def)

lemma word_char_lower [simp]: "word_char (lower_char c) \<longleftrightarrow> word_char c"
  by (auto simp: word_char_def lower_char_def Let_def)

lemma word_to_lower: "word (to_lower w) \<longleftrightarrow> word w"
  by (auto simp: word_def to_lower_def list_all_iff)

lemma spells_keyword: "keyword a \<Longrightarrow> to_lower w = to_lower a \<Longrightarrow> spells w [(a, x)]"
  using word_to_lower [of w] word_to_lower [of a]
  by (intro spells_word) (auto simp: same_token_def keyword_def)

lemma spells_keyword_then [spelling]:
  assumes "word_char c" "keyword a" "to_lower (takeWhile word_char (c # s)) = to_lower a"
    and "spells (dropWhile word_char (c # s)) ts"
  shows "spells (c # s) ((a, x) # ts)"
  unfolding spells_def
proof (intro allI impI)
  fix rest assume r: "boundary rest"
  have split: "takeWhile word_char (c # s @ rest) = takeWhile word_char (c # s)"
    "dropWhile word_char (c # s @ rest) = dropWhile word_char (c # s) @ rest"
    using r by (induction s) (simp_all add: assms(1))
  from r assms(4) obtain ws where "lexer (dropWhile word_char (c # s) @ rest) = ws @ lexer rest" "list_all2 same_token ts ws"
    unfolding spells_def by blast
  moreover have "same_token (a, x) (takeWhile word_char (c # s))"
    using assms(2,3) by (simp add: same_token_def)
  ultimately show "\<exists>ws. lexer ((c # s) @ rest) = ws @ lexer rest \<and> list_all2 same_token ((a, x) # ts) ws"
    using split assms(1) word_char_class [OF assms(1)]
    by (intro exI [of _ "takeWhile word_char (c # s) # ws"]) simp
qed

text \<open>The same with the text still to be spelled after the token.\<close>

lemma spells_then [spelling]:
  "ident x \<Longrightarrow> boundary s \<Longrightarrow> spells s ts \<Longrightarrow> spells (x @ s) ((a, x) # ts)"
  "string_lit x \<Longrightarrow> boundary s \<Longrightarrow> spells s ts \<Longrightarrow> spells (x @ s) ((a, x) # ts)"
  "keyword a \<Longrightarrow> to_lower x = to_lower a \<Longrightarrow> boundary s \<Longrightarrow> spells s ts \<Longrightarrow> spells (x @ s) ((a, x) # ts)"
  using spells_append [of x "[(a, x)]" s ts]
  by (simp_all add: spells_identifier spells_string spells_keyword)

text \<open>Elements separated by commas.\<close>

lemma spells_join:
  assumes "list_all2 spells ss tss"
  shows "spells (join '','' ss) (comma_tokens tss)"
  using assms
proof (induction ss tss rule: list_all2_induct)
  case Nil
  then show ?case by simp
next
  case (Cons s ss t tss)
  show ?case
  proof (cases ss)
    case Nil
    with Cons show ?thesis by simp
  next
    case (Cons s' ss')
    then obtain t' tss' where tss: "tss = t' # tss'" using \<open>list_all2 spells ss tss\<close> by (cases tss) auto
    have "spells (join '','' ss) (comma_tokens tss)" using Cons.IH by (cases ss) auto
    then have "spells (CHR '','' # join '','' ss) ((''COMMA_'', '','') # comma_tokens tss)"
      by (intro spells_symbol) (simp_all add: space_char_def word_char_def quote_char_def)
    with Cons.hyps show ?thesis
      using spells_append [of s t "CHR '','' # join '','' ss"] by (simp add: Cons tss word_char_def quote_char_def)
  qed
qed

section \<open>Texts that do not come back\<close>

lemma lex_word_nonword: "word w \<Longrightarrow> r = [] \<or> \<not> word_char (hd r) \<Longrightarrow> lexer (w @ r) = w # lexer r"
proof -
  assume w: "word w" and r: "r = [] \<or> \<not> word_char (hd r)"
  have "takeWhile word_char (v @ r) = v \<and> dropWhile word_char (v @ r) = r" if "list_all word_char v" for v
    using that r by (induction v; cases r) auto
  from this [of w] w show ?thesis by (cases w) (auto simp: word_def dest: word_char_class)
qed

text \<open>A text quoted with \<open>q\<close> swallows what follows it when that begins with \<open>q\<close> again.\<close>

lemma quoted_swallows:
  "closed_by q s \<Longrightarrow> quote_char q \<Longrightarrow> q \<noteq> CHR 0x60 \<Longrightarrow> length s < length (fst (quoted q (s @ q # r)))"
proof (induction q s rule: closed_by.induct)
  case (2 q c)
  then have "q \<noteq> CHR 0x5C" by (auto simp: quote_char_def)
  with 2 show ?case by simp
qed (auto split: if_splits)

lemma lex_space: "lexer (CHR '' '' # s) = lexer s"
  by (simp add: space_char_def)

lemma lex_quoted: "quote_char c \<Longrightarrow> lexer (c # s) = (c # fst (quoted c s)) # lexer (snd (quoted c s))"
  using quote_char_class [of c] by simp

lemma string_lit_split:
  assumes "string_lit k"
  obtains q s where "k = q # s" "quote_char q" "q \<noteq> CHR 0x60" "closed_by q s"
  using assms by (cases k) (auto simp: string_lit_def quote_char_def)

lemma lex_string:
  assumes "string_lit k" "boundary r"
  shows "lexer (k @ r) = k # lexer r"
proof -
  obtain q s where k: "k = q # s" "quote_char q" "closed_by q s" using assms(1) by (rule string_lit_split)
  have "r = [] \<or> hd r \<noteq> q" using assms(2) k(2) by (auto simp: boundary_def)
  from quoted_closed [OF k(3,2) this] k show ?thesis by (simp add: lex_quoted del: lexer.simps)
qed

text \<open>Two literals with nothing between them are never two tokens with a comma between them.\<close>

lemma missing_comma:
  assumes x: "word x \<or> string_lit x" and k: "string_lit k"
    and same: "list_all2 same_token ((a, x) # (''COMMA_'', '','') # ts) (lexer (x @ k @ r))"
    and a: "string_lit x \<Longrightarrow> \<not> keyword a"
  shows False
proof -
  from k obtain q s where q: "k = q # s" "quote_char q" by (rule string_lit_split)
  have second: "lexer (x @ k @ r) \<noteq> x # lexer (k @ r)"
  proof
    assume "lexer (x @ k @ r) = x # lexer (k @ r)"
    with same have "same_token (''COMMA_'', '','') (q # fst (quoted q (s @ r)))"
      using q by (simp add: lex_quoted del: lexer.simps)
    then show False using q(2) by (auto simp: same_token_def keyword_def quote_char_def)
  qed
  show False
  proof (cases "word x")
    case True
    with lex_word_nonword [of x "k @ r"] q second show False by (auto dest: quote_char_class)
  next
    case False
    with x obtain p u where p: "x = p # u" "quote_char p" "p \<noteq> CHR 0x60" "closed_by p u"
      by (auto elim: string_lit_split)
    show False
    proof (cases "q = p")
      case True
      have "same_token (a, x) (p # fst (quoted p (u @ k @ r)))"
        using same p by (simp add: lex_quoted del: lexer.simps)
      moreover have "length u < length (fst (quoted p (u @ k @ r)))"
        using quoted_swallows [OF p(4,2,3), of "s @ r"] q True by simp
      ultimately show False using False x a p(1) by (auto simp: same_token_def)
    next
      case False
      with p q second show False
        using quoted_closed [OF p(4,2), of "k @ r"] by (simp add: lex_quoted del: lexer.simps)
    qed
  qed
qed

end
