(* ===== verification/Distsql_Common.thy ===== *)
theory Distsql_Common
  imports Distsql_Spelling
begin

text \<open>
  The parts of the syntax trees that all DistSQL statements share, from
  \<^verbatim>\<open>pkg/distsql/ast/encrypt_rdl_ast.go\<close>, with their printers. Every \<^verbatim>\<open>ToString\<close> method is a
  function to an outcome: a method called through a nil pointer that reads a field panics.

  The visitors of the five packages each have their own copy of the methods for literals,
  properties and algorithm definitions. The locales \<open>properties_visitor\<close> and \<open>algorithm_visitor\<close>
  state what these methods do, on the productions of \<^verbatim>\<open>BaseRule.g4\<close> all grammars have, and shows once that what they build
  prints as it was parsed.
\<close>

section \<open>Shared parts of the syntax trees\<close>

record IfExists =
  ie_IfExists :: string

record IfNotExists =
  ine_IfNotExists :: string

record CommonIdentifier =
  ci_Identifier :: string

record Literal =
  lit_Literal :: string

record Property =
  prop_Key :: string
  prop_Literal :: "Literal ptr"

record Properties =
  props_Properties :: "Property ptr list"

record PropertiesDefinition =
  pd_Properties :: "Properties ptr"

record BuildinAlgorithmTypeName =
  batn_AlgorithmTypeName :: string

record AlgorithmTypeName =
  atn_BuildinAlgorithmTypeName :: "BuildinAlgorithmTypeName ptr"
  atn_String :: string

record AlgorithmDefinition =
  ad_AlgorithmTypeName :: "AlgorithmTypeName ptr"
  ad_PropertiesDefinition :: "PropertiesDefinition ptr"

record DataType =
  dt_String :: string

record ColumnDefinition =
  cd_ColumnName :: "CommonIdentifier ptr"
  cd_DataType :: "DataType ptr"

section \<open>Their printers\<close>

definition IfExists_ToString :: "IfExists \<Rightarrow> string outcome" where
  "IfExists_ToString x = Ok (ie_IfExists x)"

definition IfNotExists_ToString :: "IfNotExists \<Rightarrow> string outcome" where
  "IfNotExists_ToString x = Ok (ine_IfNotExists x)"

definition CommonIdentifier_ToString :: "CommonIdentifier \<Rightarrow> string outcome" where
  "CommonIdentifier_ToString x = Ok (ci_Identifier x)"

definition Literal_ToString :: "Literal \<Rightarrow> string outcome" where
  "Literal_ToString x = Ok (lit_Literal x)"

definition Property_ToString :: "Property \<Rightarrow> string outcome" where
  "Property_ToString p =
     (case prop_Literal p of
        Some l \<Rightarrow> bind_oc (Literal_ToString l) (\<lambda>s. Ok (prop_Key p @ ''='' @ s))
      | None \<Rightarrow> Ok [])"

text \<open>The loop appends the properties with nothing between them.\<close>

definition Properties_ToString :: "Properties \<Rightarrow> string outcome" where
  "Properties_ToString ps =
     bind_oc (map_oc (deref Property_ToString) (props_Properties ps)) (\<lambda>ss. Ok (concat ss))"

definition PropertiesDefinition_ToString :: "PropertiesDefinition \<Rightarrow> string outcome" where
  "PropertiesDefinition_ToString d =
     (case pd_Properties d of
        Some ps \<Rightarrow> bind_oc (Properties_ToString ps) (\<lambda>s. Ok (''PROPERTIES('' @ s @ '')''))
      | None \<Rightarrow> Ok [])"

definition BuildinAlgorithmTypeName_ToString :: "BuildinAlgorithmTypeName \<Rightarrow> string outcome" where
  "BuildinAlgorithmTypeName_ToString x = Ok (batn_AlgorithmTypeName x)"

definition AlgorithmTypeName_ToString :: "AlgorithmTypeName \<Rightarrow> string outcome" where
  "AlgorithmTypeName_ToString x =
     (case atn_BuildinAlgorithmTypeName x of
        Some b \<Rightarrow> BuildinAlgorithmTypeName_ToString b
      | None \<Rightarrow> if atn_String x \<noteq> [] then Ok (atn_String x) else Ok [])"

definition AlgorithmDefinition_ToString :: "AlgorithmDefinition \<Rightarrow> string outcome" where
  "AlgorithmDefinition_ToString d =
     bind_oc (if_set (\<lambda>p. bind_oc (PropertiesDefinition_ToString p) (\<lambda>s. Ok ('','' @ s))) (ad_PropertiesDefinition d)) (\<lambda>ps.
     bind_oc (deref AlgorithmTypeName_ToString (ad_AlgorithmTypeName d)) (\<lambda>n.
       Ok (''TYPE(NAME='' @ n @ ps @ '')'')))"

definition DataType_ToString :: "DataType \<Rightarrow> string outcome" where
  "DataType_ToString x = Ok (dt_String x)"

definition ColumnDefinition_ToString :: "ColumnDefinition \<Rightarrow> string outcome" where
  "ColumnDefinition_ToString d =
     bind_oc (if_set (\<lambda>t. bind_oc (DataType_ToString t) (\<lambda>s. Ok ('',DATA_TYP='' @ s))) (cd_DataType d)) (\<lambda>t.
     bind_oc (deref CommonIdentifier_ToString (cd_ColumnName d)) (\<lambda>n.
       Ok (''NAME='' @ n @ t)))"

lemmas leaf_printers = IfExists_ToString_def IfNotExists_ToString_def CommonIdentifier_ToString_def
  Literal_ToString_def BuildinAlgorithmTypeName_ToString_def DataType_ToString_def

section \<open>Trees whose properties print well\<close>

text \<open>
  The printers lose the digits of a negative number, the commas between properties and the
  keyword of an empty property list; a tree is \<open>simple\<close> if it has none of these.
\<close>

fun simple :: "tree \<Rightarrow> bool" where
  "simple (Terminal a x) = (a \<noteq> ''MINUS_'')"
| "simple (Node r cs) =
     ((r = ''properties'' \<longrightarrow> length cs = 1) \<and>
      (r = ''propertiesDefinition'' \<longrightarrow> list_ex (is_rule ''properties'') cs) \<and>
      list_all simple cs)"

abbreviation terms :: "tree list \<Rightarrow> (string \<times> string) list" where
  "terms cs \<equiv> concat (map terminals cs)"

lemmas char_class_defs = word_char_def space_char_def quote_char_def Let_def

lemmas keyword_defs = keyword_def word_def

lemmas tree_access = token_def token_text_def all_rules_def the_rule_def GetText_def

section \<open>Visitors of literals, properties and algorithms\<close>

lemma map_oc_deref [simp]: "map_oc (deref f) (map (\<lambda>x. Some (v x)) xs) = map_oc f (map v xs)"
  by (induction xs) auto

locale properties_visitor =
  fixes G :: "string \<Rightarrow> ebnf"
    and visitLiteral :: "tree \<Rightarrow> Literal"
    and visitProperty :: "tree \<Rightarrow> Property"
    and visitProperties :: "tree \<Rightarrow> Properties"
    and visitPropertiesDefinition :: "tree \<Rightarrow> PropertiesDefinition"
  assumes G_literal: "G ''literal'' = Alt [T ''STRING_'', Seq [Opt (T ''MINUS_''), T ''INT_''], T ''TRUE'', T ''FALSE'']"
    and G_property: "G ''property'' = Seq [T ''STRING_'', T ''EQ_'', N ''literal'']"
    and G_properties: "G ''properties'' = comma_list ''property''"
    and G_propertiesDefinition: "G ''propertiesDefinition'' = Seq [T ''PROPERTIES'', T ''LP_'', Opt (N ''properties''), T ''RP_'']"
    and visitLiteral: "visitLiteral t = \<lparr>lit_Literal = first_token [''STRING_'', ''MINUS_'', ''INT_'', ''TRUE'', ''FALSE''] t\<rparr>"
    and visitProperty: "visitProperty t = \<lparr>prop_Key = token_text ''STRING_'' t,
        prop_Literal = map_option visitLiteral (the_rule ''literal'' t)\<rparr>"
    and visitProperties: "visitProperties t = \<lparr>props_Properties = map (\<lambda>p. Some (visitProperty p)) (all_rules ''property'' t)\<rparr>"
    and visitPropertiesDefinition: "visitPropertiesDefinition t =
        \<lparr>pd_Properties = map_option visitProperties (the_rule ''properties'' t)\<rparr>"
begin

lemma literal_prints:
  assumes "derives G (G ''literal'') cs" "list_all simple cs"
  shows "spells (lit_Literal (visitLiteral (Node ''literal'' cs))) (terms cs)"
  using assms
  by (auto simp: G_literal visitLiteral derives_Opt tree_access lexeme_keyword keyword_defs char_class_defs
      spells_string spells_int spells_keyword)

lemma property_prints:
  assumes "derives G (G ''property'') cs" "list_all simple cs"
  shows "\<exists>s. Property_ToString (visitProperty (Node ''property'' cs)) = Ok s \<and> spells s (terms cs)"
proof -
  from assms(1) obtain k ls where cs: "cs = [Terminal ''STRING_'' k, Terminal ''EQ_'' ''='', Node ''literal'' ls]"
    and k: "string_lit k" and ls: "derives G (G ''literal'') ls"
    by (auto simp: G_property derives_N)
  have "spells (lit_Literal (visitLiteral (Node ''literal'' ls))) (terms ls)"
    using literal_prints [OF ls] assms(2) by (simp add: cs)
  then show ?thesis
    by (simp add: cs visitProperty tree_access Property_ToString_def leaf_printers spelling k char_class_defs)
qed

text \<open>A list of two or more properties is printed without its commas.\<close>

lemma property_text:
  assumes "derives G (G ''property'') cs"
  obtains k ls where "string_lit k" "derives G (G ''literal'') ls"
    "terms cs = (''STRING_'', k) # (''EQ_'', ''='') # terms ls"
    "Property_ToString (visitProperty (Node ''property'' cs)) = Ok (k @ ''='' @ lit_Literal (visitLiteral (Node ''literal'' ls)))"
  using assms
  by (auto simp: G_property derives_N visitProperty tree_access Property_ToString_def leaf_printers intro!: that)

lemma literal_cases:
  assumes "derives G (G ''literal'') ls"
  obtains (one) a x where "terms ls = [(a, x)]" "lit_Literal (visitLiteral (Node ''literal'' ls)) = x"
      "word x \<or> string_lit x" "string_lit x \<Longrightarrow> \<not> keyword a"
    | (minus) x where "terms ls = [(''MINUS_'', ''-''), (''INT_'', x)]"
      "lit_Literal (visitLiteral (Node ''literal'' ls)) = ''-''" "list_all is_digit x"
proof -
  have kw: "word x \<and> \<not> string_lit x" if "to_lower x = to_lower a" "word a" for x a
  proof
    show "word x" using that word_to_lower [of x] word_to_lower [of a] by simp
    then show "\<not> string_lit x" by (cases x) (auto simp: word_def string_lit_def word_char_def)
  qed
  have words: "word ''TRUE''" "word ''FALSE''" by (simp_all add: word_def char_class_defs)
  from assms consider x where "string_lit x" "ls = [Terminal ''STRING_'' x]"
    | x where "x \<noteq> []" "list_all is_digit x" "ls = [Terminal ''INT_'' x]"
    | x where "list_all is_digit x" "ls = [Terminal ''MINUS_'' ''-'', Terminal ''INT_'' x]"
    | x where "lexeme ''TRUE'' x" "ls = [Terminal ''TRUE'' x]"
    | x where "lexeme ''FALSE'' x" "ls = [Terminal ''FALSE'' x]"
    by (auto simp: G_literal derives_Opt)
  then show thesis
  proof cases
    case (1 x)
    then show thesis by (intro one [of "''STRING_''" x]) (simp_all add: visitLiteral tree_access keyword_def)
  next
    case (2 x)
    moreover have "word x" using 2 by (auto simp: word_def list_all_iff is_digit_def word_char_def)
    ultimately show thesis by (intro one [of "''INT_''" x]) (simp_all add: visitLiteral tree_access keyword_def)
  next
    case (3 x)
    then show thesis by (intro minus [of x]) (simp_all add: visitLiteral tree_access)
  next
    case (4 x)
    then have "word x \<and> \<not> string_lit x" using kw words by (simp add: lexeme_keyword keyword_def)
    with 4 show thesis by (intro one [of "''TRUE''" x]) (simp_all add: visitLiteral tree_access)
  next
    case (5 x)
    then have "word x \<and> \<not> string_lit x" using kw words by (simp add: lexeme_keyword keyword_def)
    with 5 show thesis by (intro one [of "''FALSE''" x]) (simp_all add: visitLiteral tree_access)
  qed
qed

lemma properties_lose_commas:
  assumes "derives G (G ''properties'') cs" "1 < length cs"
  shows "\<exists>s. Properties_ToString (visitProperties (Node q cs)) = Ok s \<and> \<not> list_all2 same_token (terms cs) (lexer s)"
proof -
  from assms(1) obtain css where css: "cs = comma_trees (map (Node ''property'') css)" "\<forall>cs \<in> set css. derives G (G ''property'') cs"
    by (auto simp: G_properties derives_comma_list)
  with assms(2) obtain p1 p2 ps where ps: "css = p1 # p2 # ps" by (cases css; cases "tl css") auto
  have d: "derives G (G ''property'') p1" "derives G (G ''property'') p2" using css(2) ps by simp_all
  obtain k ls where k: "string_lit k" and ls: "derives G (G ''literal'') ls" and t1: "terms p1 = (''STRING_'', k) # (''EQ_'', ''='') # terms ls"
    and s1: "Property_ToString (visitProperty (Node ''property'' p1)) = Ok (k @ ''='' @ lit_Literal (visitLiteral (Node ''literal'' ls)))"
    by (rule property_text [OF d(1)])
  obtain k2 ls2 where k2: "string_lit k2"
    and s2: "Property_ToString (visitProperty (Node ''property'' p2)) = Ok (k2 @ ''='' @ lit_Literal (visitLiteral (Node ''literal'' ls2)))"
    by (rule property_text [OF d(2)])
  have "\<exists>ss. map_oc (deref Property_ToString) (map (\<lambda>p. Some (visitProperty p)) (map (Node ''property'') qs)) = Ok ss"
    if "\<forall>cs \<in> set qs. derives G (G ''property'') cs" for qs
    using that by (induction qs) (auto elim!: property_text)
  then obtain ss where "map_oc (deref Property_ToString) (map (\<lambda>p. Some (visitProperty p)) (map (Node ''property'') ps)) = Ok ss"
    using css(2) ps by auto
  moreover define r where "r = ''='' @ lit_Literal (visitLiteral (Node ''literal'' ls2)) @ concat ss"
  ultimately have print: "Properties_ToString (visitProperties (Node q cs)) =
      Ok (k @ CHR ''='' # lit_Literal (visitLiteral (Node ''literal'' ls)) @ k2 @ r)"
    using s1 s2 by (simp add: visitProperties tree_access css(1) ps Properties_ToString_def)
  have "\<not> list_all2 same_token (terms cs) (lexer (k @ CHR ''='' # lit_Literal (visitLiteral (Node ''literal'' ls)) @ k2 @ r))"
  proof
    assume same: "list_all2 same_token (terms cs) (lexer (k @ CHR ''='' # lit_Literal (visitLiteral (Node ''literal'' ls)) @ k2 @ r))"
    have "lexer (k @ CHR ''='' # v) = k # ''='' # lexer v" for v
      using lex_string [OF k, of "CHR ''='' # v"] by (simp add: char_class_defs)
    with same have rest: "list_all2 same_token (terms ls @ (''COMMA_'', '','') # comma_tokens (map terms (p2 # ps)))
        (lexer (lit_Literal (visitLiteral (Node ''literal'' ls)) @ k2 @ r))"
      by (simp add: css(1) ps t1 o_def del: lexer.simps)
    from ls show False
    proof (cases rule: literal_cases)
      case (one a x)
      with rest show False using missing_comma [of x k2 a] k2 by simp
    next
      case (minus x)
      obtain q u where "k2 = q # u" "quote_char q" using k2 by (auto elim: string_lit_split)
      then have "lexer (CHR ''-'' # k2 @ r) = ''-'' # (q # fst (quoted q (u @ r))) # lexer (snd (quoted q (u @ r)))"
        using lex_quoted [of q "u @ r"] by (simp add: char_class_defs del: quoted.simps)
      with rest minus have "same_token (''INT_'', x) (q # fst (quoted q (u @ r)))" by simp
      with minus(3) \<open>quote_char q\<close> show False
        by (auto simp: same_token_def keyword_def quote_char_def is_digit_def)
    qed
  qed
  with print show ?thesis by blast
qed

lemma propertiesDefinition_total:
  assumes "derives G (G ''propertiesDefinition'') cs"
  shows "\<exists>s. PropertiesDefinition_ToString (visitPropertiesDefinition (Node q cs)) = Ok s"
proof -
  have "\<exists>s. Properties_ToString (visitProperties (Node r ps)) = Ok s" if "derives G (G ''properties'') ps" for r ps
  proof -
    from that obtain css where ps: "ps = comma_trees (map (Node ''property'') css)" and css: "\<forall>cs \<in> set css. derives G (G ''property'') cs"
      by (auto simp: G_properties derives_comma_list)
    from css have "\<exists>ss. map_oc Property_ToString (map visitProperty (map (Node ''property'') css)) = Ok ss"
      by (induction css) (auto elim!: property_text)
    then show ?thesis by (auto simp: visitProperties ps Properties_ToString_def tree_access o_def)
  qed
  then show ?thesis
    using assms by (auto simp: G_propertiesDefinition derives_Opt derives_N visitPropertiesDefinition tree_access
        PropertiesDefinition_ToString_def bind_oc_Ok_iff)
qed

lemma propertiesDefinition_prints:
  assumes "derives G (G ''propertiesDefinition'') cs" "simple (Node ''propertiesDefinition'' cs)"
  shows "\<exists>s. PropertiesDefinition_ToString (visitPropertiesDefinition (Node ''propertiesDefinition'' cs)) = Ok s \<and>
    spells s (terms cs)"
proof -
  from assms obtain x ps where
    cs: "cs = [Terminal ''PROPERTIES'' x, Terminal ''LP_'' ''('', Node ''properties'' ps, Terminal ''RP_'' '')'']"
    and ps: "derives G (G ''properties'') ps" "simple (Node ''properties'' ps)"
    by (auto simp: G_propertiesDefinition derives_N derives_Opt)
  from ps(1) obtain css where css: "css \<noteq> []" "ps = comma_trees (map (Node ''property'') css)"
    "\<forall>cs \<in> set css. derives G (G ''property'') cs"
    by (auto simp: G_properties derives_comma_list)
  obtain p where p: "css = [p]"
    using css(1,2) ps(2) by (cases css) (auto simp: comma_trees_Cons split: list.splits)
  obtain s where s: "Property_ToString (visitProperty (Node ''property'' p)) = Ok s" "spells s (terms p)"
    using property_prints [of p] css ps(2) by (auto simp: p)
  then show ?thesis
    by (simp add: cs css(2) p visitPropertiesDefinition visitProperties tree_access PropertiesDefinition_ToString_def
        Properties_ToString_def spelling keyword_defs char_class_defs)
qed

end

text \<open>Algorithm definitions, as four of the five packages build them.\<close>

locale algorithm_visitor = properties_visitor G visitLiteral visitProperty visitProperties visitPropertiesDefinition
  for G visitLiteral visitProperty visitProperties visitPropertiesDefinition +
  fixes visitAlgorithmTypeName :: "tree \<Rightarrow> AlgorithmTypeName"
    and visitAlgorithmDefinition :: "tree \<Rightarrow> AlgorithmDefinition"
  assumes G_algorithmDefinition: "G ''algorithmDefinition'' = Seq [T ''TYPE'', T ''LP_'', T ''NAME'', T ''EQ_'',
        N ''algorithmTypeName'', Opt (Seq [T ''COMMA_'', N ''propertiesDefinition'']), T ''RP_'']"
    and visitAlgorithmDefinition: "visitAlgorithmDefinition t =
        \<lparr>ad_AlgorithmTypeName = map_option visitAlgorithmTypeName (the_rule ''algorithmTypeName'' t),
         ad_PropertiesDefinition = map_option visitPropertiesDefinition (the_rule ''propertiesDefinition'' t)\<rparr>"
    and typeName: "derives G (G ''algorithmTypeName'') cs \<Longrightarrow>
        \<exists>s. AlgorithmTypeName_ToString (visitAlgorithmTypeName (Node ''algorithmTypeName'' cs)) = Ok s \<and> spells s (terms cs)"
begin

lemma algorithmDefinition_prints:
  assumes "derives G (G ''algorithmDefinition'') cs" "list_all simple cs"
  shows "\<exists>s. AlgorithmDefinition_ToString (visitAlgorithmDefinition (Node ''algorithmDefinition'' cs)) = Ok s \<and>
    spells s (terms cs)"
proof -
  from assms(1) obtain x y ns ps where cs: "cs = [Terminal ''TYPE'' x, Terminal ''LP_'' ''('', Terminal ''NAME'' y,
      Terminal ''EQ_'' ''='', Node ''algorithmTypeName'' ns] @ ps @ [Terminal ''RP_'' '')'']"
    and ns: "derives G (G ''algorithmTypeName'') ns"
    and ps: "ps = [] \<or> (\<exists>ds. ps = [Terminal ''COMMA_'' '','', Node ''propertiesDefinition'' ds] \<and>
        derives G (G ''propertiesDefinition'') ds)"
    by (auto simp: G_algorithmDefinition derives_N derives_Opt)
  obtain n where n: "AlgorithmTypeName_ToString (visitAlgorithmTypeName (Node ''algorithmTypeName'' ns)) = Ok n"
    "spells n (terms ns)" using typeName [OF ns] by blast
  from ps show ?thesis
  proof (elim disjE exE conjE)
    assume "ps = []"
    then show ?thesis
      by (simp add: cs visitAlgorithmDefinition tree_access AlgorithmDefinition_ToString_def n spelling
          keyword_defs char_class_defs)
  next
    fix ds assume d: "ps = [Terminal ''COMMA_'' '','', Node ''propertiesDefinition'' ds]"
      "derives G (G ''propertiesDefinition'') ds"
    then obtain s where "PropertiesDefinition_ToString (visitPropertiesDefinition (Node ''propertiesDefinition'' ds)) = Ok s"
      "spells s (terms ds)" using propertiesDefinition_prints [OF d(2)] assms(2) by (auto simp: cs)
    then show ?thesis
      by (simp add: cs d(1) visitAlgorithmDefinition tree_access AlgorithmDefinition_ToString_def n spelling
          keyword_defs char_class_defs)
  qed
qed

lemma algorithmDefinition_total:
  assumes "derives G (G ''algorithmDefinition'') cs"
  shows "\<exists>s. AlgorithmDefinition_ToString (visitAlgorithmDefinition (Node q cs)) = Ok (''TYPE(NAME='' @ s)"
proof -
  from assms obtain x y ns ps where cs: "cs = [Terminal ''TYPE'' x, Terminal ''LP_'' ''('', Terminal ''NAME'' y,
      Terminal ''EQ_'' ''='', Node ''algorithmTypeName'' ns] @ ps @ [Terminal ''RP_'' '')'']"
    and ns: "derives G (G ''algorithmTypeName'') ns"
    and ps: "ps = [] \<or> (\<exists>ds. ps = [Terminal ''COMMA_'' '','', Node ''propertiesDefinition'' ds] \<and>
        derives G (G ''propertiesDefinition'') ds)"
    by (auto simp: G_algorithmDefinition derives_N derives_Opt)
  from typeName [OF ns] obtain n where n: "AlgorithmTypeName_ToString (visitAlgorithmTypeName (Node ''algorithmTypeName'' ns)) = Ok n"
    by blast
  from ps show ?thesis
  proof (elim disjE exE conjE)
    fix ds assume "ps = [Terminal ''COMMA_'' '','', Node ''propertiesDefinition'' ds]" "derives G (G ''propertiesDefinition'') ds"
    with propertiesDefinition_total [of ds "''propertiesDefinition''"] n show ?thesis
      by (auto simp: cs visitAlgorithmDefinition tree_access AlgorithmDefinition_ToString_def)
  qed (simp add: cs visitAlgorithmDefinition tree_access AlgorithmDefinition_ToString_def n)
qed

end

section \<open>Visitors of names and of existence clauses\<close>

lemma join_all_Ok:
  assumes "list_all2 (\<lambda>x t. \<exists>s. f x = Ok s \<and> spells s t) xs ts"
  shows "\<exists>s. join_all f (map Some xs) = Ok s \<and> spells s (comma_tokens ts)"
proof -
  have "\<exists>ss. map_oc (deref f) (map Some xs) = Ok ss \<and> list_all2 spells ss ts"
    using assms by (induction xs ts rule: list_all2_induct) (auto simp: list_all2_Cons2)
  then show ?thesis by (auto simp: join_all_def spells_join)
qed

lemma map_filter_Some [simp]: "List.map_filter id (map (\<lambda>x. Some (v x)) xs) = map v xs"
  by (induction xs) auto

text \<open>A list of children, each of which prints as it was parsed.\<close>

lemma comma_children:
  assumes "derives G (comma_list r) ts"
  obtains css where "ts = comma_trees (map (Node r) css)" "\<forall>cs \<in> set css. derives G (G r) cs \<and> Node r cs \<in> set ts"
proof -
  from assms obtain css where css: "ts = comma_trees (map (Node r) css)" "\<forall>cs \<in> set css. derives G (G r) cs"
    by (auto simp: derives_comma_list)
  have "set us \<subseteq> set (comma_trees us)" for us by (cases us) (auto simp: comma_trees_Cons)
  from subsetD [OF this [of "map (Node r) css"]] css show thesis by (intro that [of css]) auto
qed

lemma join_all_visited:
  assumes "derives G (comma_list r) ts"
    and "\<And>cs. derives G (G r) cs \<Longrightarrow> P cs \<Longrightarrow> \<exists>d s. v (Node r cs) = Ok d \<and> f d = Ok s \<and> spells s (terms cs)"
    and "\<And>cs. Node r cs \<in> set ts \<Longrightarrow> P cs"
  shows "\<exists>ds s. map_oc v (filter (is_rule r) ts) = Ok ds \<and> join_all f (map Some ds) = Ok s \<and> spells s (terms ts)"
proof -
  from assms(1) obtain css where ts: "ts = comma_trees (map (Node r) css)"
    and css: "\<forall>cs \<in> set css. derives G (G r) cs \<and> Node r cs \<in> set ts" by (rule comma_children)
  have "\<forall>cs \<in> set css. \<exists>d s. v (Node r cs) = Ok d \<and> f d = Ok s \<and> spells s (terms cs)" using css assms(2,3) by blast
  then have "\<exists>ds. map_oc v (map (Node r) css) = Ok ds \<and> list_all2 (\<lambda>x t. \<exists>s. f x = Ok s \<and> spells s t) ds (map terms css)"
    by (induction css) (auto simp: list_all2_Cons2)
  then show ?thesis by (auto simp: ts o_def dest!: join_all_Ok)
qed

lemma join_all_rules:
  assumes "derives G (comma_list r) ts" and "\<And>cs. derives G (G r) cs \<Longrightarrow> P cs \<Longrightarrow> \<exists>s. f (v (Node r cs)) = Ok s \<and> spells s (terms cs)"
    and "\<And>cs. Node r cs \<in> set ts \<Longrightarrow> P cs"
  shows "\<exists>s. join_all f (map (\<lambda>t. Some (v t)) (filter (is_rule r) ts)) = Ok s \<and> spells s (terms ts)"
  using join_all_visited [where v = "\<lambda>t. Ok (v t)" and P = P and f = f, OF assms(1) _ assms(3)] assms(2)
  by (auto simp: map_oc_Ok o_def)

locale name_visitor =
  fixes G :: "string \<Rightarrow> ebnf" and r :: string and visitName :: "tree \<Rightarrow> CommonIdentifier"
  assumes G_name: "G r = T ''IDENTIFIER_''"
    and visitName: "visitName t = \<lparr>ci_Identifier = token_text ''IDENTIFIER_'' t\<rparr>"
begin

lemma name_prints:
  "derives G (G r) cs \<Longrightarrow> \<exists>x. cs = [Terminal ''IDENTIFIER_'' x] \<and> ident x \<and> ci_Identifier (visitName (Node q cs)) = x"
  by (auto simp: G_name visitName tree_access)

lemma name_text:
  assumes "derives G (G r) cs"
  shows "\<exists>s. CommonIdentifier_ToString (visitName (Node q cs)) = Ok s \<and> spells s (terms cs)"
proof -
  from name_prints [OF assms] obtain x where "cs = [Terminal ''IDENTIFIER_'' x]" "ident x" "ci_Identifier (visitName (Node q cs)) = x"
    by blast
  then show ?thesis by (simp add: leaf_printers spells_identifier)
qed

lemma names_print:
  assumes "derives G (comma_list r) ts"
  shows "\<exists>s. join_all CommonIdentifier_ToString (map (\<lambda>t. Some (visitName t)) (filter (is_rule r) ts)) = Ok s \<and>
    spells s (terms ts)"
  by (rule join_all_rules [OF assms, where P = "\<lambda>_. True"]) (simp_all add: name_text)

end

locale exists_visitor =
  fixes G :: "string \<Rightarrow> ebnf" and visitIfExists :: "tree \<Rightarrow> IfExists outcome"
    and visitIfNotExists :: "tree \<Rightarrow> IfNotExists outcome"
  assumes G_ifExists: "G ''ifExists'' = Seq [T ''IF'', T ''EXISTS'']"
    and G_ifNotExists: "G ''ifNotExists'' = Seq [T ''IF'', T ''NOT'', T ''EXISTS'']"
    and visitIfExists: "visitIfExists t = bind_oc (GetText (token ''IF'' t)) (\<lambda>a. bind_oc (GetText (token ''EXISTS'' t)) (\<lambda>b.
        Ok \<lparr>ie_IfExists = a @ '' '' @ b\<rparr>))"
    and visitIfNotExists: "visitIfNotExists t = bind_oc (GetText (token ''IF'' t)) (\<lambda>a. bind_oc (GetText (token ''NOT'' t)) (\<lambda>b.
        bind_oc (GetText (token ''EXISTS'' t)) (\<lambda>c. Ok \<lparr>ine_IfNotExists = a @ '' '' @ b @ '' '' @ c\<rparr>)))"
begin

lemma ifExists_prints:
  assumes "derives G (Opt (N ''ifExists'')) ts"
  shows "\<exists>p s. visit_opt visitIfExists (case filter (is_rule ''ifExists'') ts of [] \<Rightarrow> None | c # _ \<Rightarrow> Some c) = Ok p \<and>
    if_set IfExists_ToString p = Ok s \<and> spells s (terms ts)"
  using assms
  by (auto simp: derives_Opt derives_N G_ifExists visitIfExists tree_access leaf_printers lexeme_keyword
      spelling keyword_defs char_class_defs spells_keyword)

lemma ifNotExists_prints:
  assumes "derives G (Opt (N ''ifNotExists'')) ts"
  shows "\<exists>p s. visit_opt visitIfNotExists (case filter (is_rule ''ifNotExists'') ts of [] \<Rightarrow> None | c # _ \<Rightarrow> Some c) = Ok p \<and>
    if_set IfNotExists_ToString p = Ok s \<and> spells s (terms ts)"
  using assms
  by (auto simp: derives_Opt derives_N G_ifNotExists visitIfNotExists tree_access leaf_printers lexeme_keyword
      spelling keyword_defs char_class_defs spells_keyword)

end

text \<open>\<^verbatim>\<open>ifExists? name (COMMA_ name)*\<close>, the end of every statement that drops something.\<close>

definition drop_list :: "string \<Rightarrow> ebnf" where
  "drop_list r = Seq [Opt (N ''ifExists''), comma_list r]"

locale drop_visitor = exists_visitor G visitIfExists visitIfNotExists + name_visitor G r visitName
  for G visitIfExists visitIfNotExists r visitName +
  assumes not_ifExists: "r \<noteq> ''ifExists''"
begin

lemma drop_prints:
  assumes "derives G (drop_list r) ts"
  shows "\<exists>p s ns. visit_opt visitIfExists (case filter (is_rule ''ifExists'') ts of [] \<Rightarrow> None | c # _ \<Rightarrow> Some c) = Ok p \<and>
    if_set IfExists_ToString p = Ok s \<and>
    join_all CommonIdentifier_ToString (map (\<lambda>t. Some (visitName t)) (filter (is_rule r) ts)) = Ok ns \<and>
    spells (s @ '' '' @ ns) (terms ts)"
proof -
  from assms obtain as bs where ts: "ts = as @ bs" "derives G (Opt (N ''ifExists'')) as" "derives G (comma_list r) bs"
    by (auto simp: drop_list_def)
  have "filter (is_rule r) as = []" using ts(2) not_ifExists by (auto simp: derives_Opt derives_N)
  moreover have "filter (is_rule ''ifExists'') bs = []"
    using ts(3) not_ifExists by (auto simp: derives_comma_list)
  moreover obtain p s where "visit_opt visitIfExists (case filter (is_rule ''ifExists'') as of [] \<Rightarrow> None | c # _ \<Rightarrow> Some c) = Ok p"
    "if_set IfExists_ToString p = Ok s" "spells s (terms as)" using ifExists_prints [OF ts(2)] by blast
  moreover obtain ns where "join_all CommonIdentifier_ToString (map (\<lambda>t. Some (visitName t)) (filter (is_rule r) bs)) = Ok ns"
    "spells ns (terms bs)" using names_print [OF ts(3)] by blast
  ultimately show ?thesis by (auto simp: ts(1) spelling char_class_defs)
qed

end

end
