(* ===== verification/Distsql_Statements.thy ===== *)
theory Distsql_Statements
  imports Distsql_Common
begin

text \<open>
  The shapes the statements of all five DistSQL packages have: some keywords, an optional existence
  clause, and a list of names or definitions. One lemma per shape says that such a statement prints
  as it was parsed if its elements do; another says how a difference is found.
\<close>

section \<open>Statements\<close>

fun avoids :: "string list \<Rightarrow> tree \<Rightarrow> bool" where
  "avoids bad (Terminal a x) = (a \<notin> set bad)"
| "avoids bad (Node r cs) = (r \<notin> set bad \<and> list_all (avoids bad) cs)"

lemma avoids_in: "list_all (avoids bad) ts \<Longrightarrow> Node r cs \<in> set ts \<Longrightarrow> list_all (avoids bad) cs"
  by (auto simp: list_all_iff dest: bspec)

lemma simple_in: "list_all simple ts \<Longrightarrow> Node r cs \<in> set ts \<Longrightarrow> list_all simple cs"
  by (auto simp: list_all_iff dest: bspec)

lemmas spelling_simps = spelling keyword_defs char_class_defs lexeme_keyword spells_keyword spells_string spells_identifier

definition heading :: "string list \<Rightarrow> string" where
  "heading ks = concat (map (\<lambda>k. k @ '' '') ks)"

lemma derives_heading:
  "derives G (Seq (map T ks @ es)) ts \<Longrightarrow>
   \<exists>xs us. length xs = length ks \<and> ts = map2 Terminal ks xs @ us \<and> derives G (Seq es) us"
proof (induction ks arbitrary: ts)
  case Nil
  then show ?case by simp
next
  case (Cons k ks)
  then obtain x us where us: "ts = Terminal k x # us" "derives G (Seq (map T ks @ es)) us" by auto
  from Cons.IH [OF us(2)] obtain xs vs where "length xs = length ks" "us = map2 Terminal ks xs @ vs" "derives G (Seq es) vs"
    by blast
  with us(1) show ?case by (intro exI [of _ "x # xs"] exI [of _ vs]) simp
qed

lemma spells_heading:
  "length xs = length ks \<Longrightarrow> list_all keyword ks \<Longrightarrow> spells r us \<Longrightarrow> spells (heading ks @ r) (zip ks xs @ us)"
proof (induction xs ks rule: list_induct2)
  case (Cons x xs k ks)
  then have "spells (CHR '' '' # heading ks @ r) (zip ks xs @ us)" by (intro spells_space) (simp_all add: space_char_def)
  with Cons.prems show ?case
    using spells_append [of k "[(k, x)]" "CHR '' '' # heading ks @ r"] spells_keyword [of k k x]
    by (simp add: heading_def char_class_defs)
qed (simp add: heading_def)

lemma heading_nodes [simp]: "filter (is_rule r) (map2 Terminal ks xs) = []"
  by (induction ks xs rule: list_induct2') auto

lemma heading_terms [simp]: "concat (map (terminals \<circ> (\<lambda>(x, y). Terminal x y)) ps) = ps"
  by (induction ps) auto

text \<open>One of several keywords, as the built-in algorithms are written.\<close>

lemma first_token_leaf: "a \<in> set ks \<Longrightarrow> first_token ks (Node q [Terminal a x]) = x"
  by (induction ks) (auto simp: token_def)

lemma keyword_prints:
  assumes "derives G (Alt (map T ks)) cs" "list_all keyword ks"
  shows "spells (first_token ks (Node q cs)) (terms cs)"
proof -
  from assms obtain a x where "a \<in> set ks" "cs = [Terminal a x]" "keyword a" "lexeme a x"
    by (auto simp: list_all_iff)
  then show ?thesis by (simp add: first_token_leaf lexeme_keyword spells_keyword)
qed

text \<open>Keywords and a list of definitions.\<close>

lemma list_statement:
  assumes "derives G (N q) [t]" "G q = Seq (map T ks @ [comma_list r])" "list_all keyword ks"
    and "\<And>cs. derives G (G r) cs \<Longrightarrow> P cs \<Longrightarrow> \<exists>d s. v (Node r cs) = Ok d \<and> f d = Ok s \<and> spells s (terms cs)"
    and "\<And>cs. Node r cs \<in> set (children t) \<Longrightarrow> P cs"
  shows "\<exists>ds s. map_oc v (all_rules r t) = Ok ds \<and> join_all f (map Some ds) = Ok s \<and> spells (heading ks @ s) (terminals t)"
proof -
  from assms(1,2) obtain ts where t: "t = Node q ts" and ts: "derives G (Seq (map T ks @ [comma_list r])) ts"
    by (auto simp: derives_N)
  from derives_heading [OF ts] obtain xs us where xs: "length xs = length ks" "ts = map2 Terminal ks xs @ us"
    "derives G (comma_list r) us" by auto
  from join_all_visited [where v = v and f = f and P = P, OF xs(3) assms(4)] assms(5) obtain ds s where
    "map_oc v (filter (is_rule r) us) = Ok ds" "join_all f (map Some ds) = Ok s" "spells s (terms us)"
    by (auto simp: t xs(2))
  then show ?thesis using spells_heading [OF xs(1) assms(3)] by (simp add: t xs(2) all_rules_def)
qed

context exists_visitor
begin

text \<open>Keywords, an optional \<^verbatim>\<open>IF NOT EXISTS\<close> and a list of definitions.\<close>

lemma create_statement:
  assumes "derives G (N q) [t]" "G q = Seq (map T ks @ [Opt (N ''ifNotExists''), comma_list r])" "list_all keyword ks"
    and "r \<noteq> ''ifNotExists''"
    and "\<And>cs. derives G (G r) cs \<Longrightarrow> P cs \<Longrightarrow> \<exists>d s. v (Node r cs) = Ok d \<and> f d = Ok s \<and> spells s (terms cs)"
    and "\<And>cs. Node r cs \<in> set (children t) \<Longrightarrow> P cs"
  shows "\<exists>p e ds s. visit_opt visitIfNotExists (the_rule ''ifNotExists'' t) = Ok p \<and> if_set IfNotExists_ToString p = Ok e \<and>
    map_oc v (all_rules r t) = Ok ds \<and> join_all f (map Some ds) = Ok s \<and> spells (heading ks @ e @ '' '' @ s) (terminals t)"
proof -
  from assms(1,2) obtain ts where t: "t = Node q ts"
    and ts: "derives G (Seq (map T ks @ [Opt (N ''ifNotExists''), comma_list r])) ts" by (auto simp: derives_N)
  from derives_heading [OF ts] obtain xs as bs where xs: "length xs = length ks" "ts = map2 Terminal ks xs @ as @ bs"
    "derives G (Opt (N ''ifNotExists'')) as" "derives G (comma_list r) bs" by auto
  have "filter (is_rule r) as = []" using xs(3) assms(4) by (auto simp: derives_Opt derives_N)
  moreover have "filter (is_rule ''ifNotExists'') bs = []" using xs(4) assms(4) by (auto simp: derives_comma_list)
  moreover from ifNotExists_prints [OF xs(3)] obtain p e where
    "visit_opt visitIfNotExists (case filter (is_rule ''ifNotExists'') as of [] \<Rightarrow> None | c # _ \<Rightarrow> Some c) = Ok p"
    "if_set IfNotExists_ToString p = Ok e" "spells e (terms as)" by blast
  moreover from join_all_visited [where v = v and f = f and P = P, OF xs(4) assms(5)] assms(6) obtain ds s where
    "map_oc v (filter (is_rule r) bs) = Ok ds" "join_all f (map Some ds) = Ok s" "spells s (terms bs)"
    by (auto simp: t xs(2))
  ultimately show ?thesis
    using spells_heading [OF xs(1) assms(3), of "e @ '' '' @ s" "terms as @ terms bs"]
    by (simp add: t xs(2) all_rules_def the_rule_def spelling char_class_defs)
qed

end

context drop_visitor
begin

lemma drop_statement:
  assumes "derives G (N q) [t]" "G q = Seq (map T ks @ [drop_list r])" "list_all keyword ks"
  shows "\<exists>p e ns. visit_opt visitIfExists (the_rule ''ifExists'' t) = Ok p \<and> if_set IfExists_ToString p = Ok e \<and>
    join_all CommonIdentifier_ToString (map (\<lambda>t. Some (visitName t)) (all_rules r t)) = Ok ns \<and>
    spells (heading ks @ e @ '' '' @ ns) (terminals t)"
proof -
  from assms(1,2) obtain ts where t: "t = Node q ts" and ts: "derives G (Seq (map T ks @ [drop_list r])) ts"
    by (auto simp: derives_N)
  from derives_heading [OF ts] obtain xs us where xs: "length xs = length ks" "ts = map2 Terminal ks xs @ us"
    "derives G (drop_list r) us" by auto
  from drop_prints [OF xs(3)] show ?thesis
    using spells_heading [OF xs(1) assms(3)] by (auto simp: t xs(2) all_rules_def the_rule_def)
qed

end

section \<open>Statements that differ\<close>

text \<open>What is spelled alike at the front can be cut off when a text is compared with tokens.\<close>

lemma spells_cancel:
  assumes "spells s ts" "boundary r"
  shows "list_all2 same_token (ts @ us) (lexer (s @ r)) \<longleftrightarrow> list_all2 same_token us (lexer r)"
proof -
  from assms obtain ws where "lexer (s @ r) = ws @ lexer r" "list_all2 same_token ts ws" unfolding spells_def by blast
  then show ?thesis by (simp add: list_all2_append list_all2_lengthD)
qed

lemma spells_not: "spells s ts \<Longrightarrow> \<not> list_all2 same_token us (lexer s) \<Longrightarrow> \<not> spells s us"
  using spells_lex by blast

text \<open>Whatever stands below a derived node is derived by its own rule.\<close>

fun within_tree :: "tree \<Rightarrow> tree list" where
  "within_tree (Terminal a x) = [Terminal a x]"
| "within_tree (Node r cs) = Node r cs # concat (map within_tree cs)"

lemma derives_inner: "derives G e ts \<Longrightarrow> \<forall>t \<in> set ts. \<forall>r cs. Node r cs \<in> set (within_tree t) \<longrightarrow> derives G (G r) cs"
  by (induction rule: derives.induct) auto

section \<open>Examples\<close>

abbreviation comma :: tree where "comma \<equiv> Terminal ''COMMA_'' '',''"
abbreviation lp :: tree where "lp \<equiv> Terminal ''LP_'' ''(''"
abbreviation rp :: tree where "rp \<equiv> Terminal ''RP_'' '')''"
abbreviation eq :: tree where "eq \<equiv> Terminal ''EQ_'' ''=''"

lemmas example_defs = kw_def name_node_def sq_def keyword_defs char_class_defs lexeme_keyword ident_def is_digit_def
  string_lit_def to_lower_def lower_char_def

end
