(* ===== verification/Distsql_Encrypt.thy ===== *)
theory Distsql_Encrypt
  imports Distsql_Statements
begin

text \<open>
  The encrypt rule statements: the grammar \<^verbatim>\<open>antlr4/encrypt/*.g4\<close>, the syntax tree and its
  printers in \<^verbatim>\<open>ast/encrypt_rdl_ast.go\<close>, and \<^verbatim>\<open>EncryptVisitor\<close> in \<^verbatim>\<open>visitor/encrypt_rdl.go\<close>,
  which builds the syntax tree from a parse tree.
\<close>

section \<open>Syntax trees\<close>

record ResourceDefinition =
  rd_ResourceName :: "CommonIdentifier ptr"

record PlainColumnDefinition =
  pcd_PlainColumnName :: "CommonIdentifier ptr"
  pcd_DataType :: "DataType ptr"

record CipherColumnDefinition =
  ccd_CipherColumnName :: "CommonIdentifier ptr"
  ccd_DataType :: "DataType ptr"

record AssistedQueryColumnDefinition =
  aqcd_AssistedQueryColumnName :: "CommonIdentifier ptr"
  aqcd_DataType :: "DataType ptr"

record LikeQueryColumnDefinition =
  lqcd_LikeQueryColumnName :: "CommonIdentifier ptr"
  lqcd_DataType :: "DataType ptr"

record EncryptAlgorithm =
  ea_AlgorithmDefinition :: "AlgorithmDefinition ptr"

record AssistedQueryAlgorithm =
  aqa_AlgorithmDefinition :: "AlgorithmDefinition ptr"

record LikeQueryAlgorithm =
  lqa_AlgorithmDefinition :: "AlgorithmDefinition ptr"

record QueryWithCipherColumn =
  qwcc_QueryWithCipherColumn :: string

record EncryptColumnDefinition =
  ecd_ColumnDefinition :: "ColumnDefinition ptr"
  ecd_PlainColumnDefinition :: "PlainColumnDefinition ptr"
  ecd_CipherColumnDefinition :: "CipherColumnDefinition ptr"
  ecd_AssistedQueryColumnDefinition :: "AssistedQueryColumnDefinition ptr"
  ecd_LikeQueryColumnDefinition :: "LikeQueryColumnDefinition ptr"
  ecd_EncryptAlgorithm :: "EncryptAlgorithm ptr"
  ecd_AssistedQueryAlgorithm :: "AssistedQueryAlgorithm ptr"
  ecd_LikeQueryAlgorithm :: "LikeQueryAlgorithm ptr"
  ecd_QueryWithCipherColumn :: "QueryWithCipherColumn ptr"

record EncryptRuleDefinition =
  erd_TableName :: "CommonIdentifier ptr"
  erd_ResourceDefinition :: "ResourceDefinition ptr"
  erd_EncryptColumnDefinition :: "EncryptColumnDefinition ptr"
  erd_AllEncryptColumnDefinition :: "EncryptColumnDefinition ptr list"
  erd_QueryWithCipherColumn :: "QueryWithCipherColumn ptr"

record CreateEncryptRule =
  cer_IfNotExists :: "IfNotExists ptr"
  cer_EncryptRuleDefinition :: "EncryptRuleDefinition ptr"
  cer_AllEncryptRuleDefinition :: "EncryptRuleDefinition ptr list"

record AlterEncryptRule =
  aer_EncryptRuleDefinition :: "EncryptRuleDefinition ptr"
  aer_AllEncryptRuleDefinitionList :: "EncryptRuleDefinition ptr list"

record DropEncryptRule =
  der_IfExists :: "IfExists ptr"
  der_AllTableName :: "CommonIdentifier ptr list"

section \<open>Printers\<close>

definition ResourceDefinition_ToString :: "ResourceDefinition \<Rightarrow> string outcome" where
  "ResourceDefinition_ToString d =
     (case rd_ResourceName d of
        Some n \<Rightarrow> bind_oc (CommonIdentifier_ToString n) (\<lambda>s. Ok (''RESOURCE='' @ s))
      | None \<Rightarrow> Ok [])"

definition PlainColumnDefinition_ToString :: "PlainColumnDefinition \<Rightarrow> string outcome" where
  "PlainColumnDefinition_ToString d =
     bind_oc (if_set (\<lambda>n. bind_oc (CommonIdentifier_ToString n) (\<lambda>s. Ok (''PLAIN='' @ s))) (pcd_PlainColumnName d)) (\<lambda>n.
     bind_oc (if_set DataType_ToString (pcd_DataType d)) (\<lambda>t.
       Ok (''PLAIN = '' @ n @ '', PLAIN_DATA_TYPE = '' @ t)))"

text \<open>The data type is formatted from the variable that is being assigned, which is still empty.\<close>

definition CipherColumnDefinition_ToString :: "CipherColumnDefinition \<Rightarrow> string outcome" where
  "CipherColumnDefinition_ToString d =
     bind_oc (deref CommonIdentifier_ToString (ccd_CipherColumnName d)) (\<lambda>n.
       Ok (''CIPHER='' @ n @ (if ccd_DataType d \<noteq> None then '',CIPHER_DATA_TYPE='' else [])))"

definition AssistedQueryColumnDefinition_ToString :: "AssistedQueryColumnDefinition \<Rightarrow> string outcome" where
  "AssistedQueryColumnDefinition_ToString d =
     bind_oc (if_set (\<lambda>t. bind_oc (DataType_ToString t) (\<lambda>s. Ok ('',ASSISTED_QUERY_DATA_TYPE='' @ s))) (aqcd_DataType d)) (\<lambda>t.
     bind_oc (deref CommonIdentifier_ToString (aqcd_AssistedQueryColumnName d)) (\<lambda>n.
       Ok (''ASSISTED_QUERY_COLUMN='' @ n @ t)))"

definition LikeQueryColumnDefinition_ToString :: "LikeQueryColumnDefinition \<Rightarrow> string outcome" where
  "LikeQueryColumnDefinition_ToString d =
     bind_oc (if_set (\<lambda>t. bind_oc (DataType_ToString t) (\<lambda>s. Ok ('', LIKE_QUERY_DATA_TYPE='' @ s))) (lqcd_DataType d)) (\<lambda>t.
     bind_oc (deref CommonIdentifier_ToString (lqcd_LikeQueryColumnName d)) (\<lambda>n.
       Ok (''LIKE_QUERY_COLUMN='' @ n @ t)))"

definition EncryptAlgorithm_ToString :: "EncryptAlgorithm \<Rightarrow> string outcome" where
  "EncryptAlgorithm_ToString a =
     bind_oc (deref AlgorithmDefinition_ToString (ea_AlgorithmDefinition a)) (\<lambda>s. Ok (''ENCRYPT_ALGORITHM('' @ s @ '')''))"

definition AssistedQueryAlgorithm_ToString :: "AssistedQueryAlgorithm \<Rightarrow> string outcome" where
  "AssistedQueryAlgorithm_ToString a = deref AlgorithmDefinition_ToString (aqa_AlgorithmDefinition a)"

text \<open>
  The method calls itself on the same receiver. The first argument is the number of frames the
  stack still has room for; running out of them is fatal.
\<close>

fun LikeQueryAlgorithm_ToString :: "nat \<Rightarrow> LikeQueryAlgorithm \<Rightarrow> string outcome" where
  "LikeQueryAlgorithm_ToString 0 a = Panic ''stack overflow''"
| "LikeQueryAlgorithm_ToString (Suc stk) a =
     (case lqa_AlgorithmDefinition a of
        Some _ \<Rightarrow> bind_oc (LikeQueryAlgorithm_ToString stk a) (\<lambda>s. Ok ([] @ s))
      | None \<Rightarrow> Ok [])"

definition QueryWithCipherColumn_ToString :: "QueryWithCipherColumn \<Rightarrow> string outcome" where
  "QueryWithCipherColumn_ToString q = Ok (qwcc_QueryWithCipherColumn q)"

definition after_comma :: "('a \<Rightarrow> string outcome) \<Rightarrow> 'a \<Rightarrow> string outcome" where
  "after_comma f x = bind_oc (f x) (\<lambda>s. Ok ('','' @ s))"

definition query_with_cipher :: "QueryWithCipherColumn \<Rightarrow> string outcome" where
  "query_with_cipher q =
     bind_oc (QueryWithCipherColumn_ToString q) (\<lambda>s. Ok ('',QUERY_WITH_CIPHER_COLUMN='' @ s))"

definition EncryptColumnDefinition_ToString :: "nat \<Rightarrow> EncryptColumnDefinition \<Rightarrow> string outcome" where
  "EncryptColumnDefinition_ToString stk d =
     bind_oc (if_set (after_comma PlainColumnDefinition_ToString) (ecd_PlainColumnDefinition d)) (\<lambda>plain.
     bind_oc (if_set CipherColumnDefinition_ToString (ecd_CipherColumnDefinition d)) (\<lambda>cipher.
     bind_oc (if_set (after_comma AssistedQueryColumnDefinition_ToString) (ecd_AssistedQueryColumnDefinition d)) (\<lambda>assisted.
     bind_oc (if_set (after_comma (LikeQueryAlgorithm_ToString stk)) (ecd_LikeQueryAlgorithm d)) (\<lambda>like.
     bind_oc (if_set (after_comma AssistedQueryAlgorithm_ToString) (ecd_AssistedQueryAlgorithm d)) (\<lambda>assistedAlg.
     bind_oc (if_set (after_comma (LikeQueryAlgorithm_ToString stk)) (ecd_LikeQueryAlgorithm d)) (\<lambda>likeAlg.
     bind_oc (if_set query_with_cipher (ecd_QueryWithCipherColumn d)) (\<lambda>query.
     bind_oc (deref ColumnDefinition_ToString (ecd_ColumnDefinition d)) (\<lambda>column.
     bind_oc (deref EncryptAlgorithm_ToString (ecd_EncryptAlgorithm d)) (\<lambda>alg.
       Ok (''('' @ column @ plain @ '','' @ cipher @ assisted @ like @ '','' @ alg @ assistedAlg @ likeAlg @ query @ '')''))))))))))"

definition EncryptRuleDefinition_ToString :: "nat \<Rightarrow> EncryptRuleDefinition \<Rightarrow> string outcome" where
  "EncryptRuleDefinition_ToString stk d =
     bind_oc (if_set CommonIdentifier_ToString (erd_TableName d)) (\<lambda>table.
     bind_oc (if_set ResourceDefinition_ToString (erd_ResourceDefinition d)) (\<lambda>resource.
     bind_oc (if_set (EncryptColumnDefinition_ToString stk) (erd_EncryptColumnDefinition d)) (\<lambda>column.
     bind_oc (join_all (EncryptColumnDefinition_ToString stk) (erd_AllEncryptColumnDefinition d)) (\<lambda>columns.
     bind_oc (if_set query_with_cipher (erd_QueryWithCipherColumn d)) (\<lambda>query.
       Ok (table @ '' ('' @ resource @ ''COLUMNS('' @ column @ columns @ '')'' @ query @ '')''))))))"

definition CreateEncryptRule_ToString :: "nat \<Rightarrow> CreateEncryptRule \<Rightarrow> string outcome" where
  "CreateEncryptRule_ToString stk r =
     bind_oc (if_set IfNotExists_ToString (cer_IfNotExists r)) (\<lambda>ifNotExists.
     bind_oc (map_oc (EncryptRuleDefinition_ToString stk) (List.map_filter id (cer_AllEncryptRuleDefinition r))) (\<lambda>rules.
       Ok (''CREATE ENCRYPT RULE'' @ ifNotExists @ '' '' @ join '','' rules @ '';'')))"

definition AlterEncryptRule_ToString :: "nat \<Rightarrow> AlterEncryptRule \<Rightarrow> string outcome" where
  "AlterEncryptRule_ToString stk r =
     bind_oc (if_set (EncryptRuleDefinition_ToString stk) (aer_EncryptRuleDefinition r)) (\<lambda>rule.
     bind_oc (join_all (EncryptRuleDefinition_ToString stk) (aer_AllEncryptRuleDefinitionList r)) (\<lambda>rules.
       Ok (''ALTER ENCRYPT RULE '' @ rule @ '' '' @ rules @ '';'')))"

definition DropEncryptRule_ToString :: "DropEncryptRule \<Rightarrow> string outcome" where
  "DropEncryptRule_ToString r =
     bind_oc (if_set IfExists_ToString (der_IfExists r)) (\<lambda>ifExists.
     bind_oc (join_all CommonIdentifier_ToString (der_AllTableName r)) (\<lambda>tables.
       Ok (''DROP ENCRYPT RULE '' @ ifExists @ '' '' @ tables @ '';'')))"

section \<open>The visitor\<close>

definition EncryptVisitor_VisitIfNotExists :: "tree \<Rightarrow> IfNotExists outcome" where
  "EncryptVisitor_VisitIfNotExists ctx =
     bind_oc (GetText (token ''IF'' ctx)) (\<lambda>a. bind_oc (GetText (token ''NOT'' ctx)) (\<lambda>b.
     bind_oc (GetText (token ''EXISTS'' ctx)) (\<lambda>c. Ok \<lparr>ine_IfNotExists = a @ '' '' @ b @ '' '' @ c\<rparr>)))"

definition EncryptVisitor_VisitIfExists :: "tree \<Rightarrow> IfExists outcome" where
  "EncryptVisitor_VisitIfExists ctx =
     bind_oc (GetText (token ''IF'' ctx)) (\<lambda>a. bind_oc (GetText (token ''EXISTS'' ctx)) (\<lambda>b.
       Ok \<lparr>ie_IfExists = a @ '' '' @ b\<rparr>))"

definition EncryptVisitor_VisitTableName :: "tree \<Rightarrow> CommonIdentifier" where
  "EncryptVisitor_VisitTableName ctx = \<lparr>ci_Identifier = token_text ''IDENTIFIER_'' ctx\<rparr>"

definition EncryptVisitor_VisitResourceName :: "tree \<Rightarrow> CommonIdentifier" where
  "EncryptVisitor_VisitResourceName ctx = \<lparr>ci_Identifier = token_text ''IDENTIFIER_'' ctx\<rparr>"

definition EncryptVisitor_VisitColumnName :: "tree \<Rightarrow> CommonIdentifier" where
  "EncryptVisitor_VisitColumnName ctx = \<lparr>ci_Identifier = token_text ''IDENTIFIER_'' ctx\<rparr>"

definition EncryptVisitor_VisitPlainColumnName :: "tree \<Rightarrow> CommonIdentifier" where
  "EncryptVisitor_VisitPlainColumnName ctx = \<lparr>ci_Identifier = token_text ''IDENTIFIER_'' ctx\<rparr>"

definition EncryptVisitor_VisitCipherColumnName :: "tree \<Rightarrow> CommonIdentifier" where
  "EncryptVisitor_VisitCipherColumnName ctx = \<lparr>ci_Identifier = token_text ''IDENTIFIER_'' ctx\<rparr>"

definition EncryptVisitor_VisitAssistedQueryColumnName :: "tree \<Rightarrow> CommonIdentifier" where
  "EncryptVisitor_VisitAssistedQueryColumnName ctx = \<lparr>ci_Identifier = token_text ''IDENTIFIER_'' ctx\<rparr>"

definition EncryptVisitor_VisitLikeQueryColumnName :: "tree \<Rightarrow> CommonIdentifier" where
  "EncryptVisitor_VisitLikeQueryColumnName ctx = \<lparr>ci_Identifier = token_text ''IDENTIFIER_'' ctx\<rparr>"

definition EncryptVisitor_VisitDataType :: "tree \<Rightarrow> DataType" where
  "EncryptVisitor_VisitDataType ctx = \<lparr>dt_String = token_text ''STRING_'' ctx\<rparr>"

definition EncryptVisitor_VisitResourceDefinition :: "tree \<Rightarrow> ResourceDefinition" where
  "EncryptVisitor_VisitResourceDefinition ctx =
     \<lparr>rd_ResourceName = map_option EncryptVisitor_VisitResourceName (the_rule ''resourceName'' ctx)\<rparr>"

definition EncryptVisitor_VisitLiteral :: "tree \<Rightarrow> Literal" where
  "EncryptVisitor_VisitLiteral ctx =
     \<lparr>lit_Literal = first_token [''STRING_'', ''MINUS_'', ''INT_'', ''TRUE'', ''FALSE''] ctx\<rparr>"

definition EncryptVisitor_VisitProperty :: "tree \<Rightarrow> Property" where
  "EncryptVisitor_VisitProperty ctx =
     \<lparr>prop_Key = token_text ''STRING_'' ctx,
      prop_Literal = map_option EncryptVisitor_VisitLiteral (the_rule ''literal'' ctx)\<rparr>"

definition EncryptVisitor_VisitProperties :: "tree \<Rightarrow> Properties" where
  "EncryptVisitor_VisitProperties ctx =
     \<lparr>props_Properties = map (\<lambda>p. Some (EncryptVisitor_VisitProperty p)) (all_rules ''property'' ctx)\<rparr>"

definition EncryptVisitor_VisitPropertiesDefinition :: "tree \<Rightarrow> PropertiesDefinition" where
  "EncryptVisitor_VisitPropertiesDefinition ctx =
     \<lparr>pd_Properties = map_option EncryptVisitor_VisitProperties (the_rule ''properties'' ctx)\<rparr>"

definition EncryptVisitor_VisitBuildinAlgorithmTypeName :: "tree \<Rightarrow> BuildinAlgorithmTypeName" where
  "EncryptVisitor_VisitBuildinAlgorithmTypeName ctx =
     \<lparr>batn_AlgorithmTypeName = first_token [''MD5'', ''AES'', ''RC4'', ''SM3'', ''SM4'', ''CHAR_DIGEST_LIKE''] ctx\<rparr>"

definition EncryptVisitor_VisitAlgorithmTypeName :: "tree \<Rightarrow> AlgorithmTypeName" where
  "EncryptVisitor_VisitAlgorithmTypeName ctx =
     (case token ''STRING_'' ctx of
        Some x \<Rightarrow> \<lparr>atn_BuildinAlgorithmTypeName = None, atn_String = x\<rparr>
      | None \<Rightarrow> \<lparr>atn_BuildinAlgorithmTypeName =
            map_option EncryptVisitor_VisitBuildinAlgorithmTypeName (the_rule ''buildinAlgorithmTypeName'' ctx),
          atn_String = []\<rparr>)"

definition EncryptVisitor_VisitAlgorithmDefinition :: "tree \<Rightarrow> AlgorithmDefinition" where
  "EncryptVisitor_VisitAlgorithmDefinition ctx =
     \<lparr>ad_AlgorithmTypeName = map_option EncryptVisitor_VisitAlgorithmTypeName (the_rule ''algorithmTypeName'' ctx),
      ad_PropertiesDefinition = map_option EncryptVisitor_VisitPropertiesDefinition (the_rule ''propertiesDefinition'' ctx)\<rparr>"

definition EncryptVisitor_VisitColumnDefinition :: "tree \<Rightarrow> ColumnDefinition" where
  "EncryptVisitor_VisitColumnDefinition ctx =
     \<lparr>cd_ColumnName = map_option EncryptVisitor_VisitColumnName (the_rule ''columnName'' ctx),
      cd_DataType = map_option EncryptVisitor_VisitDataType (the_rule ''dataType'' ctx)\<rparr>"

definition EncryptVisitor_VisitPlainColumnDefinition :: "tree \<Rightarrow> PlainColumnDefinition" where
  "EncryptVisitor_VisitPlainColumnDefinition ctx =
     \<lparr>pcd_PlainColumnName = map_option EncryptVisitor_VisitPlainColumnName (the_rule ''plainColumnName'' ctx),
      pcd_DataType = map_option EncryptVisitor_VisitDataType (the_rule ''dataType'' ctx)\<rparr>"

definition EncryptVisitor_VisitCipherColumnDefinition :: "tree \<Rightarrow> CipherColumnDefinition" where
  "EncryptVisitor_VisitCipherColumnDefinition ctx =
     \<lparr>ccd_CipherColumnName = map_option EncryptVisitor_VisitCipherColumnName (the_rule ''cipherColumnName'' ctx),
      ccd_DataType = map_option EncryptVisitor_VisitDataType (the_rule ''dataType'' ctx)\<rparr>"

definition EncryptVisitor_VisitAssistedQueryColumnDefinition :: "tree \<Rightarrow> AssistedQueryColumnDefinition" where
  "EncryptVisitor_VisitAssistedQueryColumnDefinition ctx =
     \<lparr>aqcd_AssistedQueryColumnName =
        map_option EncryptVisitor_VisitAssistedQueryColumnName (the_rule ''assistedQueryColumnName'' ctx),
      aqcd_DataType = map_option EncryptVisitor_VisitDataType (the_rule ''dataType'' ctx)\<rparr>"

definition EncryptVisitor_VisitLikeQueryColumnDefinition :: "tree \<Rightarrow> LikeQueryColumnDefinition" where
  "EncryptVisitor_VisitLikeQueryColumnDefinition ctx =
     \<lparr>lqcd_LikeQueryColumnName = map_option EncryptVisitor_VisitLikeQueryColumnName (the_rule ''likeQueryColumnName'' ctx),
      lqcd_DataType = map_option EncryptVisitor_VisitDataType (the_rule ''dataType'' ctx)\<rparr>"

definition EncryptVisitor_VisitAssistedQueryAlgorithm :: "tree \<Rightarrow> AssistedQueryAlgorithm" where
  "EncryptVisitor_VisitAssistedQueryAlgorithm ctx =
     \<lparr>aqa_AlgorithmDefinition = map_option EncryptVisitor_VisitAlgorithmDefinition (the_rule ''algorithmDefinition'' ctx)\<rparr>"

definition EncryptVisitor_VisitLikeQueryAlgorithm :: "tree \<Rightarrow> LikeQueryAlgorithm" where
  "EncryptVisitor_VisitLikeQueryAlgorithm ctx =
     \<lparr>lqa_AlgorithmDefinition = map_option EncryptVisitor_VisitAlgorithmDefinition (the_rule ''algorithmDefinition'' ctx)\<rparr>"

definition EncryptVisitor_VisitEncryptAlgorithm :: "tree \<Rightarrow> EncryptAlgorithm" where
  "EncryptVisitor_VisitEncryptAlgorithm ctx =
     \<lparr>ea_AlgorithmDefinition = map_option EncryptVisitor_VisitAlgorithmDefinition (the_rule ''algorithmDefinition'' ctx)\<rparr>"

definition EncryptVisitor_VisitQueryWithCipherColumn :: "tree \<Rightarrow> QueryWithCipherColumn" where
  "EncryptVisitor_VisitQueryWithCipherColumn ctx = \<lparr>qwcc_QueryWithCipherColumn = first_token [''TRUE'', ''FALSE''] ctx\<rparr>"

definition EncryptVisitor_VisitEncryptColumnDefinition :: "tree \<Rightarrow> EncryptColumnDefinition" where
  "EncryptVisitor_VisitEncryptColumnDefinition ctx =
     \<lparr>ecd_ColumnDefinition = map_option EncryptVisitor_VisitColumnDefinition (the_rule ''columnDefinition'' ctx),
      ecd_PlainColumnDefinition = map_option EncryptVisitor_VisitPlainColumnDefinition (the_rule ''plainColumnDefinition'' ctx),
      ecd_CipherColumnDefinition = map_option EncryptVisitor_VisitCipherColumnDefinition (the_rule ''cipherColumnDefinition'' ctx),
      ecd_AssistedQueryColumnDefinition =
        map_option EncryptVisitor_VisitAssistedQueryColumnDefinition (the_rule ''assistedQueryColumnDefinition'' ctx),
      ecd_LikeQueryColumnDefinition =
        map_option EncryptVisitor_VisitLikeQueryColumnDefinition (the_rule ''likeQueryColumnDefinition'' ctx),
      ecd_EncryptAlgorithm = map_option EncryptVisitor_VisitEncryptAlgorithm (the_rule ''encryptAlgorithm'' ctx),
      ecd_AssistedQueryAlgorithm = map_option EncryptVisitor_VisitAssistedQueryAlgorithm (the_rule ''assistedQueryAlgorithm'' ctx),
      ecd_LikeQueryAlgorithm = map_option EncryptVisitor_VisitLikeQueryAlgorithm (the_rule ''likeQueryAlgorithm'' ctx),
      ecd_QueryWithCipherColumn = map_option EncryptVisitor_VisitQueryWithCipherColumn (the_rule ''queryWithCipherColumn'' ctx)\<rparr>"

definition EncryptVisitor_VisitEncryptRuleDefinition :: "tree \<Rightarrow> EncryptRuleDefinition" where
  "EncryptVisitor_VisitEncryptRuleDefinition ctx =
     \<lparr>erd_TableName = map_option EncryptVisitor_VisitTableName (the_rule ''tableName'' ctx),
      erd_ResourceDefinition = map_option EncryptVisitor_VisitResourceDefinition (the_rule ''resourceDefinition'' ctx),
      erd_EncryptColumnDefinition = None,
      erd_AllEncryptColumnDefinition =
        map (\<lambda>c. Some (EncryptVisitor_VisitEncryptColumnDefinition c)) (all_rules ''encryptColumnDefinition'' ctx),
      erd_QueryWithCipherColumn = map_option EncryptVisitor_VisitQueryWithCipherColumn (the_rule ''queryWithCipherColumn'' ctx)\<rparr>"

definition EncryptVisitor_VisitCreateEncryptRule :: "tree \<Rightarrow> CreateEncryptRule outcome" where
  "EncryptVisitor_VisitCreateEncryptRule ctx =
     bind_oc (visit_opt EncryptVisitor_VisitIfNotExists (the_rule ''ifNotExists'' ctx)) (\<lambda>ifNotExists.
       Ok \<lparr>cer_IfNotExists = ifNotExists,
           cer_EncryptRuleDefinition =
             map_option EncryptVisitor_VisitEncryptRuleDefinition (the_rule ''encryptRuleDefinition'' ctx),
           cer_AllEncryptRuleDefinition =
             map (\<lambda>r. Some (EncryptVisitor_VisitEncryptRuleDefinition r)) (all_rules ''encryptRuleDefinition'' ctx)\<rparr>)"

definition EncryptVisitor_VisitAlterEncryptRule :: "tree \<Rightarrow> AlterEncryptRule" where
  "EncryptVisitor_VisitAlterEncryptRule ctx =
     \<lparr>aer_EncryptRuleDefinition = None,
      aer_AllEncryptRuleDefinitionList =
        map (\<lambda>r. Some (EncryptVisitor_VisitEncryptRuleDefinition r)) (all_rules ''encryptRuleDefinition'' ctx)\<rparr>"

definition EncryptVisitor_VisitDropEncryptRule :: "tree \<Rightarrow> DropEncryptRule outcome" where
  "EncryptVisitor_VisitDropEncryptRule ctx =
     bind_oc (visit_opt EncryptVisitor_VisitIfExists (the_rule ''ifExists'' ctx)) (\<lambda>ifExists.
       Ok \<lparr>der_IfExists = ifExists,
           der_AllTableName = map (\<lambda>t. Some (EncryptVisitor_VisitTableName t)) (all_rules ''tableName'' ctx)\<rparr>)"

section \<open>The grammar\<close>

definition encrypt_grammar :: "string \<Rightarrow> ebnf" where
  "encrypt_grammar r = rule_of
    [(''createEncryptRule'', Seq [T ''CREATE'', T ''ENCRYPT'', T ''RULE'', Opt (N ''ifNotExists''),
        comma_list ''encryptRuleDefinition'']),
     (''alterEncryptRule'', Seq [T ''ALTER'', T ''ENCRYPT'', T ''RULE'', comma_list ''encryptRuleDefinition'']),
     (''dropEncryptRule'', Seq [T ''DROP'', T ''ENCRYPT'', T ''RULE'', drop_list ''tableName'']),
     (''encryptRuleDefinition'', Seq [N ''tableName'', T ''LP_'', Opt (Seq [N ''resourceDefinition'', T ''COMMA_'']),
        T ''COLUMNS'', T ''LP_'', comma_list ''encryptColumnDefinition'', T ''RP_'',
        Opt (Seq [T ''COMMA_'', T ''QUERY_WITH_CIPHER_COLUMN'', T ''EQ_'', N ''queryWithCipherColumn'']), T ''RP_'']),
     (''resourceDefinition'', Seq [T ''RESOURCE'', T ''EQ_'', N ''resourceName'']),
     (''resourceName'', T ''IDENTIFIER_''),
     (''encryptColumnDefinition'', Seq [T ''LP_'', N ''columnDefinition'', Opt (Seq [T ''COMMA_'', N ''plainColumnDefinition'']),
        T ''COMMA_'', N ''cipherColumnDefinition'', Opt (Seq [T ''COMMA_'', N ''assistedQueryColumnDefinition'']),
        Opt (Seq [T ''COMMA_'', N ''likeQueryColumnDefinition'']), T ''COMMA_'', N ''encryptAlgorithm'',
        Opt (Seq [T ''COMMA_'', N ''assistedQueryAlgorithm'']), Opt (Seq [T ''COMMA_'', N ''likeQueryAlgorithm'']),
        Opt (Seq [T ''COMMA_'', T ''QUERY_WITH_CIPHER_COLUMN'', T ''EQ_'', N ''queryWithCipherColumn'']), T ''RP_'']),
     (''columnDefinition'', Seq [T ''NAME'', T ''EQ_'', N ''columnName'', Opt (Seq [T ''COMMA_'', T ''DATA_TYPE'', T ''EQ_'', N ''dataType''])]),
     (''columnName'', T ''IDENTIFIER_''),
     (''dataType'', T ''STRING_''),
     (''plainColumnDefinition'', Seq [T ''PLAIN'', T ''EQ_'', N ''plainColumnName'',
        Opt (Seq [T ''COMMA_'', T ''PLAIN_DATA_TYPE'', T ''EQ_'', N ''dataType''])]),
     (''plainColumnName'', T ''IDENTIFIER_''),
     (''cipherColumnDefinition'', Seq [T ''CIPHER'', T ''EQ_'', N ''cipherColumnName'',
        Opt (Seq [T ''COMMA_'', T ''CIPHER_DATA_TYPE'', T ''EQ_'', N ''dataType''])]),
     (''cipherColumnName'', T ''IDENTIFIER_''),
     (''assistedQueryColumnDefinition'', Seq [T ''ASSISTED_QUERY_COLUMN'', T ''EQ_'', N ''assistedQueryColumnName'',
        Opt (Seq [T ''COMMA_'', T ''ASSISTED_QUERY_DATA_TYPE'', T ''EQ_'', N ''dataType''])]),
     (''assistedQueryColumnName'', T ''IDENTIFIER_''),
     (''likeQueryColumnDefinition'', Seq [T ''LIKE_QUERY_COLUMN'', T ''EQ_'', N ''likeQueryColumnName'',
        Opt (Seq [T ''COMMA_'', T ''LIKE_QUERY_DATA_TYPE'', T ''EQ_'', N ''dataType''])]),
     (''likeQueryColumnName'', T ''IDENTIFIER_''),
     (''encryptAlgorithm'', Seq [T ''ENCRYPT_ALGORITHM'', T ''LP_'', N ''algorithmDefinition'', T ''RP_'']),
     (''assistedQueryAlgorithm'', Seq [T ''ASSISTED_QUERY_ALGORITHM'', T ''LP_'', N ''algorithmDefinition'', T ''RP_'']),
     (''likeQueryAlgorithm'', Seq [T ''LIKE_QUERY_ALGORITHM'', T ''LP_'', N ''algorithmDefinition'', T ''RP_'']),
     (''queryWithCipherColumn'', Alt [T ''TRUE'', T ''FALSE'']),
     (''ifExists'', Seq [T ''IF'', T ''EXISTS'']),
     (''ifNotExists'', Seq [T ''IF'', T ''NOT'', T ''EXISTS'']),
     (''literal'', Alt [T ''STRING_'', Seq [Opt (T ''MINUS_''), T ''INT_''], T ''TRUE'', T ''FALSE'']),
     (''algorithmDefinition'', Seq [T ''TYPE'', T ''LP_'', T ''NAME'', T ''EQ_'', N ''algorithmTypeName'',
        Opt (Seq [T ''COMMA_'', N ''propertiesDefinition'']), T ''RP_'']),
     (''algorithmTypeName'', Alt [N ''buildinAlgorithmTypeName'', T ''STRING_'']),
     (''buildinAlgorithmTypeName'', Alt [T ''MD5'', T ''AES'', T ''RC4'', T ''SM3'', T ''SM4'', T ''CHAR_DIGEST_LIKE'']),
     (''propertiesDefinition'', Seq [T ''PROPERTIES'', T ''LP_'', Opt (N ''properties''), T ''RP_'']),
     (''properties'', comma_list ''property''),
     (''property'', Seq [T ''STRING_'', T ''EQ_'', N ''literal'']),
     (''tableName'', T ''IDENTIFIER_'')] r"

lemmas encrypt_G = encrypt_grammar_def

interpretation encrypt_alg: algorithm_visitor encrypt_grammar EncryptVisitor_VisitLiteral EncryptVisitor_VisitProperty
  EncryptVisitor_VisitProperties EncryptVisitor_VisitPropertiesDefinition EncryptVisitor_VisitAlgorithmTypeName
  EncryptVisitor_VisitAlgorithmDefinition
proof (unfold_locales, goal_cases)
  case (11 cs)
  then show ?case
    by (auto simp: encrypt_G derives_N EncryptVisitor_VisitAlgorithmTypeName_def tree_access AlgorithmTypeName_ToString_def
        EncryptVisitor_VisitBuildinAlgorithmTypeName_def leaf_printers lexeme_keyword keyword_defs char_class_defs
        spells_keyword spells_string string_lit_def)
qed (simp_all add: encrypt_G EncryptVisitor_VisitLiteral_def EncryptVisitor_VisitProperty_def EncryptVisitor_VisitProperties_def
    EncryptVisitor_VisitPropertiesDefinition_def EncryptVisitor_VisitAlgorithmDefinition_def)

interpretation encrypt_drop: drop_visitor encrypt_grammar EncryptVisitor_VisitIfExists EncryptVisitor_VisitIfNotExists
  "''tableName''" EncryptVisitor_VisitTableName
  by unfold_locales (simp_all add: encrypt_G EncryptVisitor_VisitIfExists_def EncryptVisitor_VisitIfNotExists_def
      EncryptVisitor_VisitTableName_def)

end
