(* ===== verification/Distsql_Encrypt_Roundtrip.thy ===== *)
theory Distsql_Encrypt_Roundtrip
  imports Distsql_Encrypt
begin

text \<open>
  Printing what the encrypt visitor builds: which statements come back as they were parsed. What
  happens to the others is in the theory after this one.
\<close>

text \<open>The parts of encrypt rules that are printed wrongly or not at all.\<close>

definition unprintable :: "string list" where
  "unprintable = [''resourceDefinition'', ''plainColumnDefinition'', ''likeQueryColumnDefinition'',
     ''assistedQueryAlgorithm'', ''likeQueryAlgorithm'', ''DATA_TYPE'', ''CIPHER_DATA_TYPE'']"

definition printable :: "tree \<Rightarrow> bool" where
  "printable t = (simple t \<and> avoids unprintable t)"

lemma printable_simps [simp]:
  "printable (Terminal a x) \<longleftrightarrow> a \<noteq> ''MINUS_'' \<and> a \<notin> set unprintable"
  "printable (Node r cs) \<longleftrightarrow> (r = ''properties'' \<longrightarrow> length cs = 1) \<and>
      (r = ''propertiesDefinition'' \<longrightarrow> list_ex (is_rule ''properties'') cs) \<and> r \<notin> set unprintable \<and> list_all printable cs"
  by (auto simp: printable_def list_all_iff)

lemma printable_in: "list_all printable ts \<Longrightarrow> Node r cs \<in> set ts \<Longrightarrow> list_all printable cs"
  by (auto simp: list_all_iff dest: bspec)

lemma name_tokens:
  "derives encrypt_grammar (encrypt_grammar r) cs \<Longrightarrow> encrypt_grammar r = T ''IDENTIFIER_'' \<Longrightarrow>
   \<exists>x. cs = [Terminal ''IDENTIFIER_'' x] \<and> ident x"
  by auto

lemma columnDefinition_prints:
  assumes "derives encrypt_grammar (encrypt_grammar ''columnDefinition'') cs" "list_all printable cs"
  shows "\<exists>s. ColumnDefinition_ToString (EncryptVisitor_VisitColumnDefinition (Node q cs)) = Ok s \<and> spells s (terms cs)"
  using assms
  by (auto simp: encrypt_G derives_N derives_Opt unprintable_def EncryptVisitor_VisitColumnDefinition_def
      EncryptVisitor_VisitColumnName_def tree_access ColumnDefinition_ToString_def leaf_printers spelling_simps)

lemma cipherColumnDefinition_prints:
  assumes "derives encrypt_grammar (encrypt_grammar ''cipherColumnDefinition'') cs" "list_all printable cs"
  shows "\<exists>s. CipherColumnDefinition_ToString (EncryptVisitor_VisitCipherColumnDefinition (Node q cs)) = Ok s \<and> spells s (terms cs)"
  using assms
  by (auto simp: encrypt_G derives_N derives_Opt unprintable_def EncryptVisitor_VisitCipherColumnDefinition_def
      EncryptVisitor_VisitCipherColumnName_def tree_access CipherColumnDefinition_ToString_def leaf_printers spelling_simps)

lemma assistedQueryColumnDefinition_prints:
  assumes "derives encrypt_grammar (encrypt_grammar ''assistedQueryColumnDefinition'') cs" "list_all printable cs"
  shows "\<exists>s. AssistedQueryColumnDefinition_ToString (EncryptVisitor_VisitAssistedQueryColumnDefinition (Node q cs)) = Ok s \<and>
    spells s (terms cs)"
  using assms
  by (auto simp: encrypt_G derives_N derives_Opt unprintable_def EncryptVisitor_VisitAssistedQueryColumnDefinition_def
      EncryptVisitor_VisitAssistedQueryColumnName_def EncryptVisitor_VisitDataType_def tree_access
      AssistedQueryColumnDefinition_ToString_def leaf_printers spelling_simps)

lemma encryptAlgorithm_prints:
  assumes "derives encrypt_grammar (encrypt_grammar ''encryptAlgorithm'') cs" "list_all printable cs"
  shows "\<exists>s. EncryptAlgorithm_ToString (EncryptVisitor_VisitEncryptAlgorithm (Node q cs)) = Ok s \<and> spells s (terms cs)"
proof -
  from assms(1) obtain x as where
    cs: "cs = [Terminal ''ENCRYPT_ALGORITHM'' x, Terminal ''LP_'' ''('', Node ''algorithmDefinition'' as, Terminal ''RP_'' '')'']"
    and as: "derives encrypt_grammar (encrypt_grammar ''algorithmDefinition'') as"
    by (auto simp: encrypt_grammar_def [of "''encryptAlgorithm''"] derives_N)
  have "list_all simple as" using assms(2) by (auto simp: cs printable_def list_all_iff)
  from encrypt_alg.algorithmDefinition_prints [OF as this] show ?thesis
    by (auto simp: cs EncryptVisitor_VisitEncryptAlgorithm_def tree_access EncryptAlgorithm_ToString_def spelling_simps)
qed

lemma query_prints:
  assumes "derives encrypt_grammar (encrypt_grammar ''queryWithCipherColumn'') cs"
  shows "spells (qwcc_QueryWithCipherColumn (EncryptVisitor_VisitQueryWithCipherColumn (Node q cs))) (terms cs)"
  using assms
  by (auto simp: encrypt_G EncryptVisitor_VisitQueryWithCipherColumn_def tree_access spelling_simps)

text \<open>The optional last part of column and rule definitions.\<close>

definition query_clause :: "tree list \<Rightarrow> bool" where
  "query_clause ts \<longleftrightarrow> ts = [] \<or> (\<exists>x cs. ts = [Terminal ''COMMA_'' '','', Terminal ''QUERY_WITH_CIPHER_COLUMN'' x,
     Terminal ''EQ_'' ''='', Node ''queryWithCipherColumn'' cs] \<and>
     derives encrypt_grammar (encrypt_grammar ''queryWithCipherColumn'') cs)"

lemma query_clause_prints:
  assumes "query_clause ts"
  shows "\<exists>s. if_set query_with_cipher (map_option EncryptVisitor_VisitQueryWithCipherColumn
      (case filter (is_rule ''queryWithCipherColumn'') ts of [] \<Rightarrow> None | c # _ \<Rightarrow> Some c)) = Ok s \<and>
    spells s (terms ts) \<and> boundary s"
  using assms query_prints
  by (auto simp: query_clause_def query_with_cipher_def QueryWithCipherColumn_ToString_def spelling_simps)

lemma derives_query_clause:
  "derives encrypt_grammar (Opt (Seq [T ''COMMA_'', T ''QUERY_WITH_CIPHER_COLUMN'', T ''EQ_'', N ''queryWithCipherColumn''])) ts \<Longrightarrow>
   query_clause ts"
  by (auto simp: query_clause_def derives_Opt derives_N)

lemma unprintable_clause:
  "derives encrypt_grammar (Opt (Seq [T ''COMMA_'', N r])) ts \<Longrightarrow> list_all printable ts \<Longrightarrow> r \<in> set unprintable \<Longrightarrow> ts = []"
  by (auto simp: derives_Opt derives_N)

text \<open>The printable column definitions: name, cipher column, perhaps an assisted query column, algorithm, query clause.\<close>

definition assisted_clause :: "tree list \<Rightarrow> bool" where
  "assisted_clause ts \<longleftrightarrow> ts = [] \<or> (\<exists>cs. ts = [Terminal ''COMMA_'' '','', Node ''assistedQueryColumnDefinition'' cs] \<and>
     derives encrypt_grammar (encrypt_grammar ''assistedQueryColumnDefinition'') cs \<and> list_all printable cs)"

lemma assisted_clause_prints:
  assumes "assisted_clause ts"
  shows "\<exists>s. if_set (after_comma AssistedQueryColumnDefinition_ToString)
      (map_option EncryptVisitor_VisitAssistedQueryColumnDefinition
        (case filter (is_rule ''assistedQueryColumnDefinition'') ts of [] \<Rightarrow> None | c # _ \<Rightarrow> Some c)) = Ok s \<and>
    spells s (terms ts) \<and> boundary s"
proof (cases ts)
  case (Cons t us)
  then obtain cs where ts: "ts = [Terminal ''COMMA_'' '','', Node ''assistedQueryColumnDefinition'' cs]"
    and cs: "derives encrypt_grammar (encrypt_grammar ''assistedQueryColumnDefinition'') cs" "list_all printable cs"
    using assms by (auto simp: assisted_clause_def)
  from assistedQueryColumnDefinition_prints [OF cs, of "''assistedQueryColumnDefinition''"]
  show ?thesis by (auto simp: ts after_comma_def spelling_simps)
qed simp

lemma derives_encryptColumnDefinition:
  assumes "derives encrypt_grammar (encrypt_grammar ''encryptColumnDefinition'') cs" "list_all printable cs"
  obtains as bs cs1 ds es where
    "cs = [Terminal ''LP_'' ''('', Node ''columnDefinition'' as, Terminal ''COMMA_'' '','', Node ''cipherColumnDefinition'' bs] @
       cs1 @ [Terminal ''COMMA_'' '','', Node ''encryptAlgorithm'' ds] @ es @ [Terminal ''RP_'' '')'']"
    "derives encrypt_grammar (encrypt_grammar ''columnDefinition'') as" "list_all printable as"
    "derives encrypt_grammar (encrypt_grammar ''cipherColumnDefinition'') bs" "list_all printable bs"
    "assisted_clause cs1" "derives encrypt_grammar (encrypt_grammar ''encryptAlgorithm'') ds" "list_all printable ds"
    "query_clause es"
proof -
  let ?d = "derives encrypt_grammar"
  from assms(1) obtain as o1 bs o2 o3 ds o4 o5 o6 where
    cs: "cs = [Terminal ''LP_'' ''('', Node ''columnDefinition'' as] @ o1 @ [Terminal ''COMMA_'' '','', Node ''cipherColumnDefinition'' bs] @
       o2 @ o3 @ [Terminal ''COMMA_'' '','', Node ''encryptAlgorithm'' ds] @ o4 @ o5 @ o6 @ [Terminal ''RP_'' '')'']"
    and parts: "?d (encrypt_grammar ''columnDefinition'') as" "?d (encrypt_grammar ''cipherColumnDefinition'') bs"
      "?d (encrypt_grammar ''encryptAlgorithm'') ds"
    and opt: "?d (Opt (Seq [T ''COMMA_'', N ''plainColumnDefinition''])) o1"
      "?d (Opt (Seq [T ''COMMA_'', N ''likeQueryColumnDefinition''])) o3"
      "?d (Opt (Seq [T ''COMMA_'', N ''assistedQueryAlgorithm''])) o4"
      "?d (Opt (Seq [T ''COMMA_'', N ''likeQueryAlgorithm''])) o5"
    and o2: "?d (Opt (Seq [T ''COMMA_'', N ''assistedQueryColumnDefinition''])) o2"
    and o6: "?d (Opt (Seq [T ''COMMA_'', T ''QUERY_WITH_CIPHER_COLUMN'', T ''EQ_'', N ''queryWithCipherColumn''])) o6"
    by (auto simp: encrypt_grammar_def [of "''encryptColumnDefinition''"] derives_N)
  have "o1 = []" "o3 = []" "o4 = []" "o5 = []"
    using assms(2) unprintable_clause opt by (auto simp: cs unprintable_def)
  moreover have "assisted_clause o2"
    using o2 assms(2) by (auto simp: cs assisted_clause_def derives_Opt derives_N)
  ultimately show thesis
    using cs parts assms(2) derives_query_clause [OF o6] by (intro that [of as bs o2 ds o6]) simp_all
qed

lemma encryptColumnDefinition_prints:
  assumes "derives encrypt_grammar (encrypt_grammar ''encryptColumnDefinition'') cs" "list_all printable cs"
  shows "\<exists>s. EncryptColumnDefinition_ToString stk (EncryptVisitor_VisitEncryptColumnDefinition (Node q cs)) = Ok s \<and>
    spells s (terms cs)"
proof -
  from derives_encryptColumnDefinition [OF assms] obtain as bs cs1 ds es where
    cs: "cs = [Terminal ''LP_'' ''('', Node ''columnDefinition'' as, Terminal ''COMMA_'' '','', Node ''cipherColumnDefinition'' bs] @
       cs1 @ [Terminal ''COMMA_'' '','', Node ''encryptAlgorithm'' ds] @ es @ [Terminal ''RP_'' '')'']"
    and as: "derives encrypt_grammar (encrypt_grammar ''columnDefinition'') as" "list_all printable as"
    and bs: "derives encrypt_grammar (encrypt_grammar ''cipherColumnDefinition'') bs" "list_all printable bs"
    and cs1: "assisted_clause cs1"
    and ds: "derives encrypt_grammar (encrypt_grammar ''encryptAlgorithm'') ds" "list_all printable ds"
    and es: "query_clause es" .
  have others: "filter (is_rule r) cs1 = []" if "r \<noteq> ''assistedQueryColumnDefinition''" for r
    using cs1 that by (auto simp: assisted_clause_def)
  have others': "filter (is_rule r) es = []" if "r \<noteq> ''queryWithCipherColumn''" for r
    using es that by (auto simp: query_clause_def)
  from columnDefinition_prints [OF as, of "''columnDefinition''"] cipherColumnDefinition_prints [OF bs, of "''cipherColumnDefinition''"]
    encryptAlgorithm_prints [OF ds, of "''encryptAlgorithm''"] assisted_clause_prints [OF cs1] query_clause_prints [OF es]
  show ?thesis
    by (elim exE conjE) (simp add: cs EncryptVisitor_VisitEncryptColumnDefinition_def tree_access others others'
        EncryptColumnDefinition_ToString_def spelling_simps boundary_append)
qed

lemma encryptRuleDefinition_prints:
  assumes "derives encrypt_grammar (encrypt_grammar ''encryptRuleDefinition'') cs" "list_all printable cs"
  shows "\<exists>s. EncryptRuleDefinition_ToString stk (EncryptVisitor_VisitEncryptRuleDefinition (Node q cs)) = Ok s \<and>
    spells s (terms cs)"
proof -
  let ?d = "derives encrypt_grammar"
  from assms(1) obtain x o1 y cols o2 where
    cs: "cs = [Node ''tableName'' [Terminal ''IDENTIFIER_'' x], Terminal ''LP_'' ''(''] @ o1 @ [Terminal ''COLUMNS'' y, Terminal ''LP_'' ''(''] @
       cols @ [Terminal ''RP_'' '')''] @ o2 @ [Terminal ''RP_'' '')'']"
    and x: "ident x" and cols: "?d (comma_list ''encryptColumnDefinition'') cols"
    and o1: "?d (Opt (Seq [N ''resourceDefinition'', T ''COMMA_''])) o1"
    and o2: "?d (Opt (Seq [T ''COMMA_'', T ''QUERY_WITH_CIPHER_COLUMN'', T ''EQ_'', N ''queryWithCipherColumn''])) o2"
    by (auto simp: encrypt_grammar_def [of "''encryptRuleDefinition''"] encrypt_grammar_def [of "''tableName''"] derives_N)
  have "o1 = []" using o1 assms(2) by (auto simp: cs derives_Opt derives_N unprintable_def)
  obtain css where css: "cols = comma_trees (map (Node ''encryptColumnDefinition'') css)"
    using cols by (auto simp: derives_comma_list)
  have none: "filter (is_rule r) cols = []" if "r \<noteq> ''encryptColumnDefinition''" for r using that by (simp add: css)
  have none': "filter (is_rule r) o2 = []" if "r \<noteq> ''queryWithCipherColumn''" for r
    using derives_query_clause [OF o2] that by (auto simp: query_clause_def)
  have "\<exists>s. join_all (EncryptColumnDefinition_ToString stk)
      (map (\<lambda>t. Some (EncryptVisitor_VisitEncryptColumnDefinition t)) (filter (is_rule ''encryptColumnDefinition'') cols)) = Ok s \<and>
    spells s (terms cols)"
    using assms(2) encryptColumnDefinition_prints
    by (intro join_all_rules [OF cols, where P = "list_all printable"]) (auto simp: cs intro: printable_in)
  then obtain s where "join_all (EncryptColumnDefinition_ToString stk)
      (map (\<lambda>t. Some (EncryptVisitor_VisitEncryptColumnDefinition t)) (filter (is_rule ''encryptColumnDefinition'') cols)) = Ok s"
    "spells s (terms cols)" by blast
  with query_clause_prints [OF derives_query_clause [OF o2]] show ?thesis
    by (elim exE conjE) (simp add: cs \<open>o1 = []\<close> EncryptVisitor_VisitEncryptRuleDefinition_def tree_access none none' x
        EncryptVisitor_VisitTableName_def leaf_printers EncryptRuleDefinition_ToString_def spelling_simps boundary_append)
qed

section \<open>Statements that come back as they were parsed\<close>

text \<open>
  C39. An \<^verbatim>\<open>ALTER ENCRYPT RULE\<close> statement without the parts that are printed wrongly comes back
  from parsing, visiting and printing with the tokens it had, and a semicolon at the end.
\<close>

theorem alter_encrypt_roundtrip:
  assumes "derives encrypt_grammar (N ''alterEncryptRule'') [t]" and "printable t"
  shows "\<exists>s. AlterEncryptRule_ToString stk (EncryptVisitor_VisitAlterEncryptRule t) = Ok s \<and>
    spells s (terminals t @ [(''SEMI_'', '';'')])"
proof -
  from assms(1) obtain x y z rs where
    t: "t = Node ''alterEncryptRule'' ([Terminal ''ALTER'' x, Terminal ''ENCRYPT'' y, Terminal ''RULE'' z] @ rs)"
    and rs: "derives encrypt_grammar (comma_list ''encryptRuleDefinition'') rs"
    by (auto simp: encrypt_grammar_def [of "''alterEncryptRule''"] derives_N)
  have "\<exists>s. join_all (EncryptRuleDefinition_ToString stk)
      (map (\<lambda>t. Some (EncryptVisitor_VisitEncryptRuleDefinition t)) (filter (is_rule ''encryptRuleDefinition'') rs)) = Ok s \<and>
    spells s (terms rs)"
    using assms(2) encryptRuleDefinition_prints
    by (intro join_all_rules [OF rs, where P = "list_all printable"]) (auto simp: t intro: printable_in)
  then show ?thesis
    by (elim exE conjE) (simp add: t EncryptVisitor_VisitAlterEncryptRule_def tree_access AlterEncryptRule_ToString_def spelling_simps)
qed

text \<open>
  The same holds of \<^verbatim>\<open>CREATE ENCRYPT RULE\<close> statements without \<^verbatim>\<open>IF NOT EXISTS\<close>.
\<close>

theorem create_encrypt_roundtrip:
  assumes "derives encrypt_grammar (N ''createEncryptRule'') [t]" and "printable t" and "the_rule ''ifNotExists'' t = None"
  shows "\<exists>r s. EncryptVisitor_VisitCreateEncryptRule t = Ok r \<and> CreateEncryptRule_ToString stk r = Ok s \<and>
    spells s (terminals t @ [(''SEMI_'', '';'')])"
proof -
  from assms(1,3) obtain x y z rs where
    t: "t = Node ''createEncryptRule'' ([Terminal ''CREATE'' x, Terminal ''ENCRYPT'' y, Terminal ''RULE'' z] @ rs)"
    and rs: "derives encrypt_grammar (comma_list ''encryptRuleDefinition'') rs"
    by (auto simp: encrypt_grammar_def [of "''createEncryptRule''"] derives_N derives_Opt tree_access)
  let ?defs = "map EncryptVisitor_VisitEncryptRuleDefinition (filter (is_rule ''encryptRuleDefinition'') rs)"
  have "\<exists>s. join_all (EncryptRuleDefinition_ToString stk)
      (map (\<lambda>t. Some (EncryptVisitor_VisitEncryptRuleDefinition t)) (filter (is_rule ''encryptRuleDefinition'') rs)) = Ok s \<and>
    spells s (terms rs)"
    using assms(2) encryptRuleDefinition_prints
    by (intro join_all_rules [OF rs, where P = "list_all printable"]) (auto simp: t intro: printable_in)
  then obtain ss where "map_oc (EncryptRuleDefinition_ToString stk) ?defs = Ok ss" "spells (join '','' ss) (terms rs)"
    by (auto simp: join_all_def bind_oc_Ok_iff map_oc_deref)
  moreover have "filter (is_rule ''ifNotExists'') rs = []" using rs by (auto simp: derives_comma_list)
  ultimately show ?thesis
    by (simp add: t EncryptVisitor_VisitCreateEncryptRule_def tree_access CreateEncryptRule_ToString_def spelling_simps
        map_filter_Some)
qed

text \<open>
  Every \<^verbatim>\<open>DROP ENCRYPT RULE\<close> statement comes back from parsing, visiting and printing with
  the tokens it had, and a semicolon at the end.
\<close>

theorem drop_encrypt_roundtrip:
  assumes "derives encrypt_grammar (N ''dropEncryptRule'') [t]"
  shows "\<exists>r s. EncryptVisitor_VisitDropEncryptRule t = Ok r \<and> DropEncryptRule_ToString r = Ok s \<and>
    spells s (terminals t @ [(''SEMI_'', '';'')])"
proof -
  from encrypt_drop.drop_statement [OF assms, of "[''DROP'', ''ENCRYPT'', ''RULE'']"] obtain p e ns where
    "visit_opt EncryptVisitor_VisitIfExists (the_rule ''ifExists'' t) = Ok p" "if_set IfExists_ToString p = Ok e"
    "join_all CommonIdentifier_ToString (map (\<lambda>t. Some (EncryptVisitor_VisitTableName t)) (all_rules ''tableName'' t)) = Ok ns"
    "spells (''DROP ENCRYPT RULE '' @ e @ '' '' @ ns) (terminals t)"
    by (auto simp: encrypt_G heading_def keyword_defs char_class_defs)
  then show ?thesis
    using spells_append [of "''DROP ENCRYPT RULE '' @ e @ '' '' @ ns" "terminals t" "'';''" "[(''SEMI_'', '';'')]"]
    by (simp add: EncryptVisitor_VisitDropEncryptRule_def DropEncryptRule_ToString_def spelling_simps)
qed

section \<open>Examples\<close>

definition demo_drop_encrypt :: tree where
  "demo_drop_encrypt = Node ''dropEncryptRule'' [kw ''DROP'', kw ''ENCRYPT'', kw ''RULE'',
     Node ''ifExists'' [kw ''IF'', kw ''EXISTS''], name_node ''tableName'' ''t_user'', comma, name_node ''tableName'' ''t_order'']"

theorem drop_encrypt_roundtrip_witness:
  "\<exists>r s. EncryptVisitor_VisitDropEncryptRule demo_drop_encrypt = Ok r \<and> DropEncryptRule_ToString r = Ok s \<and>
    spells s (terminals demo_drop_encrypt @ [(''SEMI_'', '';'')])"
  by (rule drop_encrypt_roundtrip)
    (simp add: demo_drop_encrypt_def deriving deriving_Seq drop_list_def encrypt_G example_defs
      del: derives_Cons derives_T derives_Alt derives_Nil)

definition demo_algorithm :: "string \<Rightarrow> tree list \<Rightarrow> tree list" where
  "demo_algorithm n ps = [kw ''ENCRYPT_ALGORITHM'', lp, Node ''algorithmDefinition'' ([kw ''TYPE'', lp,
     kw ''NAME'', eq, Node ''algorithmTypeName'' [Terminal ''STRING_'' (sq n)]] @ ps @ [rp]), rp]"

definition demo_column :: "string \<Rightarrow> string \<Rightarrow> tree list \<Rightarrow> tree list" where
  "demo_column n c alg = [lp, Node ''columnDefinition'' [kw ''NAME'', eq, name_node ''columnName'' n],
     comma, Node ''cipherColumnDefinition'' [kw ''CIPHER'', eq, name_node ''cipherColumnName'' c], comma, Node ''encryptAlgorithm'' alg, rp]"

definition demo_key :: "tree list" where
  "demo_key = [comma, Node ''propertiesDefinition'' [kw ''PROPERTIES'', lp, Node ''properties'' [Node ''property''
     [Terminal ''STRING_'' (sq ''aes-key-value''), eq, Node ''literal'' [Terminal ''STRING_'' (sq ''123456abc'')]]], rp]]"

definition demo_encrypt_rule :: "tree list" where
  "demo_encrypt_rule = [name_node ''tableName'' ''t_encrypt'', lp, kw ''COLUMNS'', lp,
     Node ''encryptColumnDefinition'' (demo_column ''user_id'' ''user_cipher'' (demo_algorithm ''AES'' demo_key)), comma,
     Node ''encryptColumnDefinition'' (demo_column ''order_id'' ''order_cipher'' (demo_algorithm ''MD5'' [])), rp,
     comma, kw ''QUERY_WITH_CIPHER_COLUMN'', eq, Node ''queryWithCipherColumn'' [kw ''TRUE''], rp]"

lemmas demo_encrypt_defs = demo_encrypt_rule_def demo_column_def demo_algorithm_def demo_key_def

lemmas recognise = deriving deriving_Seq encrypt_grammar_def example_defs

lemma demo_algorithm_derived:
  "derives encrypt_grammar (encrypt_grammar ''encryptAlgorithm'') (demo_algorithm ''AES'' demo_key)"
  "derives encrypt_grammar (encrypt_grammar ''encryptAlgorithm'') (demo_algorithm ''MD5'' [])"
  by (simp_all add: demo_algorithm_def demo_key_def recognise del: derives_Cons derives_T derives_Alt derives_Nil)

lemma demo_column_derived:
  assumes "derives encrypt_grammar (encrypt_grammar ''encryptAlgorithm'') alg" "ident n" "ident c"
  shows "derives encrypt_grammar (encrypt_grammar ''encryptColumnDefinition'') (demo_column n c alg)"
proof -
  have "derives encrypt_grammar (encrypt_grammar ''columnDefinition'') [kw ''NAME'', eq, name_node ''columnName'' n]"
    "derives encrypt_grammar (encrypt_grammar ''cipherColumnDefinition'') [kw ''CIPHER'', eq, name_node ''cipherColumnName'' c]"
    using assms(2,3) by (simp_all add: recognise del: derives_Cons derives_T derives_Alt derives_Nil ident_def)
  with assms(1) show ?thesis
    by (simp add: demo_column_def deriving deriving_Seq encrypt_grammar_def [of "''encryptColumnDefinition''"]
        del: derives_Cons derives_T derives_Alt derives_Nil)
qed

lemma demo_encrypt_rule_derived: "derives encrypt_grammar (encrypt_grammar ''encryptRuleDefinition'') demo_encrypt_rule"
proof -
  have "ident ''user_id''" "ident ''user_cipher''" "ident ''order_id''" "ident ''order_cipher''"
    by (simp_all add: example_defs)
  note cols = demo_column_derived [OF demo_algorithm_derived(1) this(1,2)] demo_column_derived [OF demo_algorithm_derived(2) this(3,4)]
  have "derives encrypt_grammar (encrypt_grammar ''queryWithCipherColumn'') [kw ''TRUE'']"
    "derives encrypt_grammar (encrypt_grammar ''tableName'') [Terminal ''IDENTIFIER_'' ''t_encrypt'']"
    by (simp_all add: recognise del: derives_Cons derives_T derives_Alt derives_Nil)
  with cols show ?thesis
    by (simp add: demo_encrypt_rule_def name_node_def deriving deriving_Seq kw_def lexeme_keyword keyword_defs char_class_defs
        encrypt_grammar_def [of "''encryptRuleDefinition''"]
        del: derives_Cons derives_T derives_Alt derives_Nil)
qed

lemma demo_encrypt_rule_printable: "list_all printable demo_encrypt_rule"
  by (simp add: demo_encrypt_defs kw_def name_node_def unprintable_def)

definition demo_alter_encrypt :: tree where
  "demo_alter_encrypt = Node ''alterEncryptRule'' [kw ''ALTER'', kw ''ENCRYPT'', kw ''RULE'',
     Node ''encryptRuleDefinition'' demo_encrypt_rule]"

definition demo_create_encrypt :: tree where
  "demo_create_encrypt = Node ''createEncryptRule'' [kw ''CREATE'', kw ''ENCRYPT'', kw ''RULE'',
     Node ''encryptRuleDefinition'' demo_encrypt_rule]"

lemma demo_statements_derived:
  "derives encrypt_grammar (N ''alterEncryptRule'') [demo_alter_encrypt]" "printable demo_alter_encrypt"
  "derives encrypt_grammar (N ''createEncryptRule'') [demo_create_encrypt]" "printable demo_create_encrypt"
  using demo_encrypt_rule_derived demo_encrypt_rule_printable
  by (simp_all add: demo_alter_encrypt_def demo_create_encrypt_def deriving deriving_Seq kw_def lexeme_keyword keyword_defs
      char_class_defs encrypt_grammar_def [of "''alterEncryptRule''"] encrypt_grammar_def [of "''createEncryptRule''"] unprintable_def del: derives_Cons derives_T derives_Alt derives_Nil)

theorem alter_encrypt_roundtrip_witness:
  "\<exists>s. AlterEncryptRule_ToString 9 (EncryptVisitor_VisitAlterEncryptRule demo_alter_encrypt) = Ok s \<and>
    spells s (terminals demo_alter_encrypt @ [(''SEMI_'', '';'')])"
  by (rule alter_encrypt_roundtrip [OF demo_statements_derived(1,2)])

theorem create_encrypt_roundtrip_witness:
  "\<exists>r s. EncryptVisitor_VisitCreateEncryptRule demo_create_encrypt = Ok r \<and> CreateEncryptRule_ToString 9 r = Ok s \<and>
    spells s (terminals demo_create_encrypt @ [(''SEMI_'', '';'')])"
  by (rule create_encrypt_roundtrip [OF demo_statements_derived(3,4)])
    (simp add: demo_create_encrypt_def tree_access kw_def)

end
