(* ===== verification/Distsql_Encrypt_Losses.thy ===== *)
theory Distsql_Encrypt_Losses
  imports Distsql_Encrypt_Roundtrip
begin

text \<open>
  The encrypt statements that do not come back: like-query algorithms, whose printer never returns,
  \<^verbatim>\<open>IF NOT EXISTS\<close>, which is run together with the word before it, and property lists, which
  lose their commas.
\<close>

section \<open>Statements that do not come back\<close>

lemma map_oc_Ok_in: "map_oc f xs = Ok ys \<Longrightarrow> x \<in> set xs \<Longrightarrow> \<exists>y. f x = Ok y"
  by (induction xs arbitrary: ys) (auto simp: bind_oc_Ok_iff)

lemma join_all_Ok_in: "join_all f xs = Ok s \<Longrightarrow> Some x \<in> set xs \<Longrightarrow> \<exists>y. f x = Ok y"
  by (auto simp: join_all_def bind_oc_Ok_iff dest!: map_oc_Ok_in)

lemma LikeQueryAlgorithm_overflows: "lqa_AlgorithmDefinition a \<noteq> None \<Longrightarrow> LikeQueryAlgorithm_ToString stk a \<noteq> Ok s"
  by (induction stk arbitrary: s) (auto simp: bind_oc_Ok_iff)

lemma like_query_column_overflows:
  assumes "derives encrypt_grammar (encrypt_grammar ''encryptColumnDefinition'') cs" "the_rule ''likeQueryAlgorithm'' (Node q cs) \<noteq> None"
  shows "EncryptColumnDefinition_ToString stk (EncryptVisitor_VisitEncryptColumnDefinition (Node q cs)) \<noteq> Ok s"
proof -
  from assms(2) obtain as where as: "the_rule ''likeQueryAlgorithm'' (Node q cs) = Some (Node ''likeQueryAlgorithm'' as)"
    "Node ''likeQueryAlgorithm'' as \<in> set cs"
    by (auto simp: the_rule_def all_rules_def filter_eq_Cons_iff split: list.splits elim!: is_rule.elims)
  with derives_inner [OF assms(1)] have "derives encrypt_grammar (encrypt_grammar ''likeQueryAlgorithm'') as" by force
  then have "lqa_AlgorithmDefinition (EncryptVisitor_VisitLikeQueryAlgorithm (Node ''likeQueryAlgorithm'' as)) \<noteq> None"
    by (auto simp: encrypt_grammar_def [of "''likeQueryAlgorithm''"] derives_N
        EncryptVisitor_VisitLikeQueryAlgorithm_def tree_access)
  from LikeQueryAlgorithm_overflows [OF this] show ?thesis
    by (simp add: EncryptColumnDefinition_ToString_def EncryptVisitor_VisitEncryptColumnDefinition_def as after_comma_def bind_oc_Ok_iff)
qed

text \<open>
  A statement with a like-query algorithm is never printed: however many stack frames there
  are, the printer of the algorithm uses them up calling itself, and so the printer of every
  \<^verbatim>\<open>ALTER ENCRYPT RULE\<close> statement with such a column crashes.
\<close>

theorem like_query_never_prints:
  assumes "derives encrypt_grammar (N ''alterEncryptRule'') [t]" and "r \<in> set (all_rules ''encryptRuleDefinition'' t)"
    and "c \<in> set (all_rules ''encryptColumnDefinition'' r)" and "the_rule ''likeQueryAlgorithm'' c \<noteq> None"
  shows "AlterEncryptRule_ToString stk (EncryptVisitor_VisitAlterEncryptRule t) \<noteq> Ok s"
proof
  obtain q ts rs cs where t: "t = Node q ts" "r = Node ''encryptRuleDefinition'' rs" "r \<in> set ts"
      "c = Node ''encryptColumnDefinition'' cs" "c \<in> set rs"
    using assms(1-3) by (auto simp: all_rules_def derives_N elim!: is_rule.elims)
  then have "c \<in> set (within_tree t)" by force
  with derives_inner [OF assms(1)] t(4) have "derives encrypt_grammar (encrypt_grammar ''encryptColumnDefinition'') cs"
    by (metis list.set_intros(1))
  from like_query_column_overflows [OF this assms(4) [unfolded t(4)]]
  have "EncryptRuleDefinition_ToString stk (EncryptVisitor_VisitEncryptRuleDefinition r) \<noteq> Ok x" for x
    using assms(3) t(4) by (auto simp: EncryptRuleDefinition_ToString_def EncryptVisitor_VisitEncryptRuleDefinition_def bind_oc_Ok_iff
        dest!: join_all_Ok_in [where x = "EncryptVisitor_VisitEncryptColumnDefinition c"])
  moreover assume "AlterEncryptRule_ToString stk (EncryptVisitor_VisitAlterEncryptRule t) = Ok s"
  ultimately show False
    using assms(2) by (auto simp: AlterEncryptRule_ToString_def EncryptVisitor_VisitAlterEncryptRule_def bind_oc_Ok_iff
        dest!: join_all_Ok_in [where x = "EncryptVisitor_VisitEncryptRuleDefinition r"])
qed

text \<open>
  A \<^verbatim>\<open>CREATE ENCRYPT RULE IF NOT EXISTS\<close> statement, printable otherwise, is printed with the
  words \<^verbatim>\<open>RULE\<close> and \<^verbatim>\<open>IF\<close> run together, and so as a different sequence of tokens.
\<close>

theorem create_if_not_exists_runs_together:
  assumes "derives encrypt_grammar (N ''createEncryptRule'') [t]" and "printable t" and "the_rule ''ifNotExists'' t \<noteq> None"
  shows "\<exists>r s. EncryptVisitor_VisitCreateEncryptRule t = Ok r \<and> CreateEncryptRule_ToString stk r = Ok s \<and>
    \<not> spells s (terminals t @ [(''SEMI_'', '';'')])"
proof -
  from assms(1) obtain x y z as rs where
    t': "t = Node ''createEncryptRule'' ([Terminal ''CREATE'' x, Terminal ''ENCRYPT'' y, Terminal ''RULE'' z] @ as @ rs)"
    and as: "derives encrypt_grammar (Opt (N ''ifNotExists'')) as" and z: "lexeme ''RULE'' z"
    and rs: "derives encrypt_grammar (comma_list ''encryptRuleDefinition'') rs"
    by (auto simp: encrypt_grammar_def [of "''createEncryptRule''"] derives_N)
  have none: "filter (is_rule ''ifNotExists'') rs = []" using rs by (auto simp: derives_comma_list)
  with as assms(3) obtain a b c where as': "as = [Node ''ifNotExists'' [Terminal ''IF'' a, Terminal ''NOT'' b, Terminal ''EXISTS'' c]]"
    and a: "lexeme ''IF'' a"
    by (auto simp: t' derives_Opt derives_N tree_access encrypt_grammar_def [of "''ifNotExists''"])
  note t = t' [unfolded as']
  have lower: "to_lower z = to_lower ''RULE''" "to_lower a = to_lower ''IF''"
    using z a by (simp_all add: lexeme_keyword keyword_defs char_class_defs)
  have "\<exists>s. join_all (EncryptRuleDefinition_ToString stk)
      (map (\<lambda>t. Some (EncryptVisitor_VisitEncryptRuleDefinition t)) (filter (is_rule ''encryptRuleDefinition'') rs)) = Ok s \<and>
    spells s (terms rs)"
    using assms(2) encryptRuleDefinition_prints
    by (intro join_all_rules [OF rs, where P = "list_all printable"]) (auto simp: t intro: printable_in)
  then obtain ss where "map_oc (EncryptRuleDefinition_ToString stk)
      (map EncryptVisitor_VisitEncryptRuleDefinition (filter (is_rule ''encryptRuleDefinition'') rs)) = Ok ss"
    by (auto simp: join_all_def bind_oc_Ok_iff map_oc_deref)
  moreover have "\<not> spells (''CREATE ENCRYPT RULE'' @ a @ r) ((''CREATE'', x) # (''ENCRYPT'', y) # (''RULE'', z) # ts)" for r ts
  proof
    assume "spells (''CREATE ENCRYPT RULE'' @ a @ r) ((''CREATE'', x) # (''ENCRYPT'', y) # (''RULE'', z) # ts)"
    from spells_lex [OF this] have "same_token (''RULE'', z) (takeWhile word_char (''RULE'' @ a @ r))"
      by (simp add: char_class_defs)
    then have "to_lower (takeWhile word_char (''RULE'' @ a @ r)) = to_lower ''RULE''" using lower(1) by (auto simp: same_token_def)
    from arg_cong [OF this, of length] have "length (takeWhile word_char (''RULE'' @ a @ r)) = 4" by (simp add: to_lower_def)
    moreover obtain i a' where "a = i # a'" "word_char i"
      using lower(2) word_to_lower [of a] word_to_lower [of "''IF''"] by (cases a) (auto simp: word_def char_class_defs)
    ultimately show False by (simp add: char_class_defs)
  qed
  ultimately show ?thesis
    by (simp add: t EncryptVisitor_VisitCreateEncryptRule_def EncryptVisitor_VisitIfNotExists_def tree_access
        CreateEncryptRule_ToString_def leaf_printers map_filter_Some)
qed

text \<open>
  Two or more properties are printed without the commas between them, which is never the list
  of tokens they were parsed from.
\<close>

theorem encrypt_properties_lose_commas:
  assumes "derives encrypt_grammar (N ''properties'') [t]" and "1 < length (children t)"
  shows "\<exists>s. Properties_ToString (EncryptVisitor_VisitProperties t) = Ok s \<and> \<not> list_all2 same_token (terminals t) (lexer s)"
proof -
  from assms(1) obtain cs where "t = Node ''properties'' cs" "derives encrypt_grammar (encrypt_grammar ''properties'') cs"
    by (auto simp: derives_N)
  with encrypt_alg.properties_lose_commas [of cs "''properties''"] assms(2) show ?thesis by auto
qed

section \<open>Witnesses\<close>

definition demo_like_algorithm :: "tree list" where
  "demo_like_algorithm = [kw ''LIKE_QUERY_ALGORITHM'', lp, Node ''algorithmDefinition'' [kw ''TYPE'', lp, kw ''NAME'', eq,
     Node ''algorithmTypeName'' [Node ''buildinAlgorithmTypeName'' [kw ''CHAR_DIGEST_LIKE'']], rp], rp]"

definition demo_like_column :: "tree list" where
  "demo_like_column = [lp, Node ''columnDefinition'' [kw ''NAME'', eq, name_node ''columnName'' ''n''], comma,
     Node ''cipherColumnDefinition'' [kw ''CIPHER'', eq, name_node ''cipherColumnName'' ''c''], comma,
     Node ''encryptAlgorithm'' (demo_algorithm ''MD5'' []), comma, Node ''likeQueryAlgorithm'' demo_like_algorithm, rp]"

definition demo_like_encrypt :: tree where
  "demo_like_encrypt = Node ''alterEncryptRule'' [kw ''ALTER'', kw ''ENCRYPT'', kw ''RULE'',
     Node ''encryptRuleDefinition'' [name_node ''tableName'' ''t_user'', lp, kw ''COLUMNS'', lp,
       Node ''encryptColumnDefinition'' demo_like_column, rp, rp]]"

lemma demo_like_column_derived: "derives encrypt_grammar (encrypt_grammar ''encryptColumnDefinition'') demo_like_column"
proof -
  have "derives encrypt_grammar (encrypt_grammar ''columnDefinition'') [kw ''NAME'', eq, name_node ''columnName'' ''n'']"
    "derives encrypt_grammar (encrypt_grammar ''cipherColumnDefinition'') [kw ''CIPHER'', eq, name_node ''cipherColumnName'' ''c'']"
    "derives encrypt_grammar (encrypt_grammar ''likeQueryAlgorithm'') demo_like_algorithm"
    by (simp_all add: demo_like_algorithm_def recognise del: derives_Cons derives_T derives_Alt derives_Nil)
  with demo_algorithm_derived(2) show ?thesis
    by (simp add: demo_like_column_def deriving deriving_Seq encrypt_grammar_def [of "''encryptColumnDefinition''"]
        del: derives_Cons derives_T derives_Alt derives_Nil)
qed

lemma demo_like_encrypt_derived: "derives encrypt_grammar (N ''alterEncryptRule'') [demo_like_encrypt]"
  using demo_like_column_derived
  by (simp add: demo_like_encrypt_def deriving deriving_Seq encrypt_grammar_def [of "''encryptRuleDefinition''"]
      encrypt_grammar_def [of "''alterEncryptRule''"] encrypt_grammar_def [of "''tableName''"] example_defs
      del: derives_Cons derives_T derives_Alt derives_Nil)

theorem like_query_never_prints_witness:
  "AlterEncryptRule_ToString 1000 (EncryptVisitor_VisitAlterEncryptRule demo_like_encrypt) \<noteq> Ok ''ALTER''"
proof (rule like_query_never_prints [OF demo_like_encrypt_derived])
  let ?r = "Node ''encryptRuleDefinition'' [name_node ''tableName'' ''t_user'', lp, kw ''COLUMNS'', lp,
       Node ''encryptColumnDefinition'' demo_like_column, rp, rp]"
  show "?r \<in> set (all_rules ''encryptRuleDefinition'' demo_like_encrypt)" by (simp add: demo_like_encrypt_def all_rules_def kw_def)
  show "Node ''encryptColumnDefinition'' demo_like_column \<in> set (all_rules ''encryptColumnDefinition'' ?r)"
    by (simp add: all_rules_def kw_def name_node_def)
  show "the_rule ''likeQueryAlgorithm'' (Node ''encryptColumnDefinition'' demo_like_column) \<noteq> None"
    by (simp add: demo_like_column_def tree_access)
qed

definition demo_create_new_encrypt :: tree where
  "demo_create_new_encrypt = Node ''createEncryptRule'' [kw ''CREATE'', kw ''ENCRYPT'', kw ''RULE'',
     Node ''ifNotExists'' [kw ''IF'', kw ''NOT'', kw ''EXISTS''], Node ''encryptRuleDefinition'' demo_encrypt_rule]"

lemma demo_create_new_derived:
  "derives encrypt_grammar (N ''createEncryptRule'') [demo_create_new_encrypt]" "printable demo_create_new_encrypt"
  using demo_encrypt_rule_derived demo_encrypt_rule_printable
  by (simp_all add: demo_create_new_encrypt_def deriving deriving_Seq kw_def lexeme_keyword keyword_defs char_class_defs
      encrypt_grammar_def [of "''createEncryptRule''"] encrypt_grammar_def [of "''ifNotExists''"] unprintable_def
      del: derives_Cons derives_T derives_Alt derives_Nil)

theorem create_if_not_exists_runs_together_witness:
  "\<exists>r s. EncryptVisitor_VisitCreateEncryptRule demo_create_new_encrypt = Ok r \<and> CreateEncryptRule_ToString 9 r = Ok s \<and>
    \<not> spells s (terminals demo_create_new_encrypt @ [(''SEMI_'', '';'')])"
  by (rule create_if_not_exists_runs_together [OF demo_create_new_derived])
    (simp add: demo_create_new_encrypt_def tree_access kw_def)

definition demo_properties :: tree where
  "demo_properties = Node ''properties'' [Node ''property'' [Terminal ''STRING_'' (sq ''a''), eq, Node ''literal'' [Terminal ''INT_'' ''1'']],
     comma, Node ''property'' [Terminal ''STRING_'' (sq ''b''), eq, Node ''literal'' [Terminal ''INT_'' ''2'']]]"

theorem encrypt_properties_lose_commas_witness:
  "\<exists>s. Properties_ToString (EncryptVisitor_VisitProperties demo_properties) = Ok s \<and>
    \<not> list_all2 same_token (terminals demo_properties) (lexer s)"
  by (rule encrypt_properties_lose_commas)
    (simp_all add: demo_properties_def recognise del: derives_Cons derives_T derives_Alt derives_Nil)

end
