(* ===== verification/Distsql_Rwsplit.thy ===== *)
theory Distsql_Rwsplit
  imports Distsql_Statements
begin

text \<open>
  The read/write splitting rule statements: the grammar \<^verbatim>\<open>antlr4/read_write_splitting/*.g4\<close>, the
  syntax tree and its printers in \<^verbatim>\<open>ast/read_write_splitting_ast.go\<close>, and
  \<^verbatim>\<open>ReadWriteSplittingVisitor\<close> in \<^verbatim>\<open>visitor/read_write_splitting_rdl.go\<close>. Statements without the
  two optional parts of a rule come back as they were parsed; a rule with one of them loses a comma.
\<close>

section \<open>Syntax trees\<close>

record WriteStorageUnitName =
  wsn_StorageUnitName :: "CommonIdentifier ptr"

record WriteStorageUnit =
  wsu_WriteStorageUnitName :: "WriteStorageUnitName ptr"

record ReadStorageUnitsNames =
  rsn_AllStorageUnitName :: "CommonIdentifier ptr list"

record ReadStorageUnits =
  rsu_ReadStorageUnitsNames :: "ReadStorageUnitsNames ptr"

record DataSourceDefinition =
  dsd_WriteStorageUnit :: "WriteStorageUnit ptr"
  dsd_ReadStorageUnits :: "ReadStorageUnits ptr"

record TransactionalReadQueryStrategyName =
  trn_String :: string

record TransactionalReadQueryStrategy =
  trs_TransactionalReadQueryStrategyName :: "TransactionalReadQueryStrategyName ptr"

record ReadWriteSplittingRuleDefinition =
  rwd_RuleName :: "CommonIdentifier ptr"
  rwd_DataSourceDefinition :: "DataSourceDefinition ptr"
  rwd_TransactionalReadQueryStrategy :: "TransactionalReadQueryStrategy ptr"
  rwd_AlgorithmDefinition :: "AlgorithmDefinition ptr"

record CreateReadwriteSplittingRule =
  crr_IfNotExists :: "IfNotExists ptr"
  crr_AllReadwriteSplittingRuleDefinition :: "ReadWriteSplittingRuleDefinition ptr list"

record AlterReadwriteSplittingRule =
  arr_AllReadwriteSplittingRuleDefinition :: "ReadWriteSplittingRuleDefinition ptr list"

record DropReadwriteSplittingRule =
  drr_IfExists :: "IfExists ptr"
  drr_AllRuleName :: "CommonIdentifier ptr list"

section \<open>Printers\<close>

definition WriteStorageUnitName_ToString :: "WriteStorageUnitName \<Rightarrow> string outcome" where
  "WriteStorageUnitName_ToString n = deref CommonIdentifier_ToString (wsn_StorageUnitName n)"

definition WriteStorageUnit_ToString :: "WriteStorageUnit \<Rightarrow> string outcome" where
  "WriteStorageUnit_ToString u =
     bind_oc (deref WriteStorageUnitName_ToString (wsu_WriteStorageUnitName u)) (\<lambda>s. Ok (''WRITE_STORAGE_UNIT = '' @ s))"

definition ReadStorageUnitsNames_ToString :: "ReadStorageUnitsNames \<Rightarrow> string outcome" where
  "ReadStorageUnitsNames_ToString n = join_all CommonIdentifier_ToString (rsn_AllStorageUnitName n)"

definition ReadStorageUnits_ToString :: "ReadStorageUnits \<Rightarrow> string outcome" where
  "ReadStorageUnits_ToString u =
     bind_oc (deref ReadStorageUnitsNames_ToString (rsu_ReadStorageUnitsNames u)) (\<lambda>s. Ok (''READ_STORAGE_UNITS ('' @ s @ '')''))"

definition DataSourceDefinition_ToString :: "DataSourceDefinition \<Rightarrow> string outcome" where
  "DataSourceDefinition_ToString d =
     bind_oc (deref WriteStorageUnit_ToString (dsd_WriteStorageUnit d)) (\<lambda>w.
     bind_oc (deref ReadStorageUnits_ToString (dsd_ReadStorageUnits d)) (\<lambda>r. Ok (w @ '', '' @ r)))"

definition TransactionalReadQueryStrategyName_ToString :: "TransactionalReadQueryStrategyName \<Rightarrow> string outcome" where
  "TransactionalReadQueryStrategyName_ToString n = Ok (trn_String n)"

definition TransactionalReadQueryStrategy_ToString :: "TransactionalReadQueryStrategy \<Rightarrow> string outcome" where
  "TransactionalReadQueryStrategy_ToString s =
     deref TransactionalReadQueryStrategyName_ToString (trs_TransactionalReadQueryStrategyName s)"

definition ReadWriteSplittingRuleDefinition_ToString :: "ReadWriteSplittingRuleDefinition \<Rightarrow> string outcome" where
  "ReadWriteSplittingRuleDefinition_ToString d =
     bind_oc (if_set CommonIdentifier_ToString (rwd_RuleName d)) (\<lambda>ruleName.
     bind_oc (if_set DataSourceDefinition_ToString (rwd_DataSourceDefinition d)) (\<lambda>dataSource.
     bind_oc (if_set TransactionalReadQueryStrategy_ToString (rwd_TransactionalReadQueryStrategy d)) (\<lambda>strategy.
     bind_oc (if_set AlgorithmDefinition_ToString (rwd_AlgorithmDefinition d)) (\<lambda>algorithm.
       Ok (ruleName @ '' ('' @ dataSource @ '' '' @ strategy @ '' '' @ algorithm @ '')'')))))"

definition CreateReadwriteSplittingRule_ToString :: "CreateReadwriteSplittingRule \<Rightarrow> string outcome" where
  "CreateReadwriteSplittingRule_ToString r =
     bind_oc (if_set IfNotExists_ToString (crr_IfNotExists r)) (\<lambda>ifNotExists.
     bind_oc (join_all ReadWriteSplittingRuleDefinition_ToString (crr_AllReadwriteSplittingRuleDefinition r)) (\<lambda>rules.
       Ok (''CREATE READWRITE_SPLITTING RULE '' @ ifNotExists @ '' '' @ rules)))"

definition AlterReadwriteSplittingRule_ToString :: "AlterReadwriteSplittingRule \<Rightarrow> string outcome" where
  "AlterReadwriteSplittingRule_ToString r =
     bind_oc (join_all ReadWriteSplittingRuleDefinition_ToString (arr_AllReadwriteSplittingRuleDefinition r)) (\<lambda>rules.
       Ok (''ALTER READWRITE_SPLITTING RULE '' @ rules))"

definition DropReadwriteSplittingRule_ToString :: "DropReadwriteSplittingRule \<Rightarrow> string outcome" where
  "DropReadwriteSplittingRule_ToString r =
     bind_oc (if_set IfExists_ToString (drr_IfExists r)) (\<lambda>ifExists.
     bind_oc (join_all CommonIdentifier_ToString (drr_AllRuleName r)) (\<lambda>names.
       Ok (''DROP READWRITE_SPLITTING RULE '' @ ifExists @ '' '' @ names)))"

section \<open>The visitor\<close>

definition ReadWriteSplittingVisitor_VisitIfExists :: "tree \<Rightarrow> IfExists outcome" where
  "ReadWriteSplittingVisitor_VisitIfExists ctx =
     bind_oc (GetText (token ''IF'' ctx)) (\<lambda>a. bind_oc (GetText (token ''EXISTS'' ctx)) (\<lambda>b.
       Ok \<lparr>ie_IfExists = a @ '' '' @ b\<rparr>))"

definition ReadWriteSplittingVisitor_VisitIfNotExists :: "tree \<Rightarrow> IfNotExists outcome" where
  "ReadWriteSplittingVisitor_VisitIfNotExists ctx =
     bind_oc (GetText (token ''IF'' ctx)) (\<lambda>a. bind_oc (GetText (token ''NOT'' ctx)) (\<lambda>b.
     bind_oc (GetText (token ''EXISTS'' ctx)) (\<lambda>c. Ok \<lparr>ine_IfNotExists = a @ '' '' @ b @ '' '' @ c\<rparr>)))"

definition ReadWriteSplittingVisitor_VisitRuleName :: "tree \<Rightarrow> CommonIdentifier" where
  "ReadWriteSplittingVisitor_VisitRuleName ctx = \<lparr>ci_Identifier = token_text ''IDENTIFIER_'' ctx\<rparr>"

definition ReadWriteSplittingVisitor_VisitDatabaseName :: "tree \<Rightarrow> CommonIdentifier" where
  "ReadWriteSplittingVisitor_VisitDatabaseName ctx = \<lparr>ci_Identifier = token_text ''IDENTIFIER_'' ctx\<rparr>"

definition ReadWriteSplittingVisitor_VisitGroupName :: "tree \<Rightarrow> CommonIdentifier" where
  "ReadWriteSplittingVisitor_VisitGroupName ctx = \<lparr>ci_Identifier = token_text ''IDENTIFIER_'' ctx\<rparr>"

definition ReadWriteSplittingVisitor_VisitStorageUnitName :: "tree \<Rightarrow> CommonIdentifier" where
  "ReadWriteSplittingVisitor_VisitStorageUnitName ctx = \<lparr>ci_Identifier = token_text ''IDENTIFIER_'' ctx\<rparr>"

definition ReadWriteSplittingVisitor_VisitLiteral :: "tree \<Rightarrow> Literal" where
  "ReadWriteSplittingVisitor_VisitLiteral ctx =
     \<lparr>lit_Literal = first_token [''STRING_'', ''MINUS_'', ''INT_'', ''TRUE'', ''FALSE''] ctx\<rparr>"

definition ReadWriteSplittingVisitor_VisitProperty :: "tree \<Rightarrow> Property" where
  "ReadWriteSplittingVisitor_VisitProperty ctx =
     \<lparr>prop_Key = token_text ''STRING_'' ctx,
      prop_Literal = map_option ReadWriteSplittingVisitor_VisitLiteral (the_rule ''literal'' ctx)\<rparr>"

definition ReadWriteSplittingVisitor_VisitProperties :: "tree \<Rightarrow> Properties" where
  "ReadWriteSplittingVisitor_VisitProperties ctx =
     \<lparr>props_Properties = map (\<lambda>p. Some (ReadWriteSplittingVisitor_VisitProperty p)) (all_rules ''property'' ctx)\<rparr>"

definition ReadWriteSplittingVisitor_VisitPropertiesDefinition :: "tree \<Rightarrow> PropertiesDefinition" where
  "ReadWriteSplittingVisitor_VisitPropertiesDefinition ctx =
     \<lparr>pd_Properties = map_option ReadWriteSplittingVisitor_VisitProperties (the_rule ''properties'' ctx)\<rparr>"

definition ReadWriteSplittingVisitor_VisitBuildInReadQueryLoadBalanceAlgorithmType :: "tree \<Rightarrow> BuildinAlgorithmTypeName" where
  "ReadWriteSplittingVisitor_VisitBuildInReadQueryLoadBalanceAlgorithmType ctx =
     \<lparr>batn_AlgorithmTypeName = first_token [''ROUND_ROBIN'', ''RANDOM'', ''WEIGHT''] ctx\<rparr>"

definition ReadWriteSplittingVisitor_VisitAlgorithmTypeName :: "tree \<Rightarrow> AlgorithmTypeName" where
  "ReadWriteSplittingVisitor_VisitAlgorithmTypeName ctx =
     (case token ''STRING_'' ctx of
        Some x \<Rightarrow> \<lparr>atn_BuildinAlgorithmTypeName = None, atn_String = x\<rparr>
      | None \<Rightarrow> \<lparr>atn_BuildinAlgorithmTypeName = map_option ReadWriteSplittingVisitor_VisitBuildInReadQueryLoadBalanceAlgorithmType (the_rule ''buildInReadQueryLoadBalanceAlgorithmType'' ctx), atn_String = []\<rparr>)"

definition ReadWriteSplittingVisitor_VisitAlgorithmDefinition :: "tree \<Rightarrow> AlgorithmDefinition" where
  "ReadWriteSplittingVisitor_VisitAlgorithmDefinition ctx =
     \<lparr>ad_AlgorithmTypeName = map_option ReadWriteSplittingVisitor_VisitAlgorithmTypeName (the_rule ''algorithmTypeName'' ctx),
      ad_PropertiesDefinition = map_option ReadWriteSplittingVisitor_VisitPropertiesDefinition (the_rule ''propertiesDefinition'' ctx)\<rparr>"

definition ReadWriteSplittingVisitor_VisitWriteStorageUnitName :: "tree \<Rightarrow> WriteStorageUnitName" where
  "ReadWriteSplittingVisitor_VisitWriteStorageUnitName ctx = \<lparr>wsn_StorageUnitName = map_option ReadWriteSplittingVisitor_VisitStorageUnitName (the_rule ''storageUnitName'' ctx)\<rparr>"

definition ReadWriteSplittingVisitor_VisitWriteStorageUnit :: "tree \<Rightarrow> WriteStorageUnit" where
  "ReadWriteSplittingVisitor_VisitWriteStorageUnit ctx =
     \<lparr>wsu_WriteStorageUnitName = map_option ReadWriteSplittingVisitor_VisitWriteStorageUnitName (the_rule ''writeStorageUnitName'' ctx)\<rparr>"

definition ReadWriteSplittingVisitor_VisitReadStorageUnitsNames :: "tree \<Rightarrow> ReadStorageUnitsNames" where
  "ReadWriteSplittingVisitor_VisitReadStorageUnitsNames ctx =
     \<lparr>rsn_AllStorageUnitName = map (\<lambda>s. Some (ReadWriteSplittingVisitor_VisitStorageUnitName s)) (all_rules ''storageUnitName'' ctx)\<rparr>"

definition ReadWriteSplittingVisitor_VisitReadStorageUnits :: "tree \<Rightarrow> ReadStorageUnits" where
  "ReadWriteSplittingVisitor_VisitReadStorageUnits ctx =
     \<lparr>rsu_ReadStorageUnitsNames = map_option ReadWriteSplittingVisitor_VisitReadStorageUnitsNames (the_rule ''readStorageUnitsNames'' ctx)\<rparr>"

definition ReadWriteSplittingVisitor_VisitDataSourceDefinition :: "tree \<Rightarrow> DataSourceDefinition" where
  "ReadWriteSplittingVisitor_VisitDataSourceDefinition ctx =
     \<lparr>dsd_WriteStorageUnit = map_option ReadWriteSplittingVisitor_VisitWriteStorageUnit (the_rule ''writeStorageUnit'' ctx),
      dsd_ReadStorageUnits = map_option ReadWriteSplittingVisitor_VisitReadStorageUnits (the_rule ''readStorageUnits'' ctx)\<rparr>"

definition ReadWriteSplittingVisitor_VisitTransactionalReadQueryStrategyName :: "tree \<Rightarrow> TransactionalReadQueryStrategyName outcome" where
  "ReadWriteSplittingVisitor_VisitTransactionalReadQueryStrategyName ctx =
     bind_oc (GetText (token ''STRING_'' ctx)) (\<lambda>x. Ok \<lparr>trn_String = x\<rparr>)"

definition ReadWriteSplittingVisitor_VisitTransactionalReadQueryStrategy :: "tree \<Rightarrow> TransactionalReadQueryStrategy outcome" where
  "ReadWriteSplittingVisitor_VisitTransactionalReadQueryStrategy ctx =
     bind_oc (visit_opt ReadWriteSplittingVisitor_VisitTransactionalReadQueryStrategyName (the_rule ''transactionalReadQueryStrategyName'' ctx)) (\<lambda>n.
       Ok \<lparr>trs_TransactionalReadQueryStrategyName = n\<rparr>)"

definition ReadWriteSplittingVisitor_VisitReadwriteSplittingRuleDefinition :: "tree \<Rightarrow> ReadWriteSplittingRuleDefinition outcome" where
  "ReadWriteSplittingVisitor_VisitReadwriteSplittingRuleDefinition ctx =
     bind_oc (visit_opt ReadWriteSplittingVisitor_VisitTransactionalReadQueryStrategy (the_rule ''transactionalReadQueryStrategy'' ctx)) (\<lambda>strategy.
       Ok \<lparr>rwd_RuleName = map_option ReadWriteSplittingVisitor_VisitRuleName (the_rule ''ruleName'' ctx),
           rwd_DataSourceDefinition = map_option ReadWriteSplittingVisitor_VisitDataSourceDefinition (the_rule ''dataSourceDefinition'' ctx),
           rwd_TransactionalReadQueryStrategy = strategy,
           rwd_AlgorithmDefinition = map_option ReadWriteSplittingVisitor_VisitAlgorithmDefinition (the_rule ''algorithmDefinition'' ctx)\<rparr>)"

definition ReadWriteSplittingVisitor_VisitCreateReadwriteSplittingRule :: "tree \<Rightarrow> CreateReadwriteSplittingRule outcome" where
  "ReadWriteSplittingVisitor_VisitCreateReadwriteSplittingRule ctx =
     bind_oc (visit_opt ReadWriteSplittingVisitor_VisitIfNotExists (the_rule ''ifNotExists'' ctx)) (\<lambda>ifNotExists.
     bind_oc (map_oc ReadWriteSplittingVisitor_VisitReadwriteSplittingRuleDefinition (all_rules ''readwriteSplittingRuleDefinition'' ctx)) (\<lambda>rules.
       Ok \<lparr>crr_IfNotExists = ifNotExists, crr_AllReadwriteSplittingRuleDefinition = map Some rules\<rparr>))"

definition ReadWriteSplittingVisitor_VisitAlterReadwriteSplittingRule :: "tree \<Rightarrow> AlterReadwriteSplittingRule outcome" where
  "ReadWriteSplittingVisitor_VisitAlterReadwriteSplittingRule ctx =
     bind_oc (map_oc ReadWriteSplittingVisitor_VisitReadwriteSplittingRuleDefinition (all_rules ''readwriteSplittingRuleDefinition'' ctx)) (\<lambda>rules.
       Ok \<lparr>arr_AllReadwriteSplittingRuleDefinition = map Some rules\<rparr>)"

definition ReadWriteSplittingVisitor_VisitDropReadwriteSplittingRule :: "tree \<Rightarrow> DropReadwriteSplittingRule outcome" where
  "ReadWriteSplittingVisitor_VisitDropReadwriteSplittingRule ctx =
     bind_oc (visit_opt ReadWriteSplittingVisitor_VisitIfExists (the_rule ''ifExists'' ctx)) (\<lambda>ifExists.
       Ok \<lparr>drr_IfExists = ifExists,
           drr_AllRuleName = map (\<lambda>r. Some (ReadWriteSplittingVisitor_VisitRuleName r)) (all_rules ''ruleName'' ctx)\<rparr>)"

section \<open>The grammar\<close>

definition rwsplit_grammar :: "string \<Rightarrow> ebnf" where
  "rwsplit_grammar r = rule_of
    [(''createReadwriteSplittingRule'', Seq [T ''CREATE'', T ''READWRITE_SPLITTING'', T ''RULE'', Opt (N ''ifNotExists''),
        comma_list ''readwriteSplittingRuleDefinition'']),
     (''alterReadwriteSplittingRule'', Seq [T ''ALTER'', T ''READWRITE_SPLITTING'', T ''RULE'',
        comma_list ''readwriteSplittingRuleDefinition'']),
     (''dropReadwriteSplittingRule'', Seq [T ''DROP'', T ''READWRITE_SPLITTING'', T ''RULE'', drop_list ''ruleName'']),
     (''readwriteSplittingRuleDefinition'', Seq [N ''ruleName'', T ''LP_'', N ''dataSourceDefinition'',
        Opt (Seq [T ''COMMA_'', N ''transactionalReadQueryStrategy'']), Opt (Seq [T ''COMMA_'', N ''algorithmDefinition'']), T ''RP_'']),
     (''dataSourceDefinition'', Seq [N ''writeStorageUnit'', T ''COMMA_'', N ''readStorageUnits'']),
     (''ruleName'', T ''IDENTIFIER_''),
     (''writeStorageUnit'', Seq [T ''WRITE_STORAGE_UNIT'', T ''EQ_'', N ''writeStorageUnitName'']),
     (''readStorageUnits'', Seq [T ''READ_STORAGE_UNITS'', T ''LP_'', N ''readStorageUnitsNames'', T ''RP_'']),
     (''transactionalReadQueryStrategy'', Seq [T ''TRANSACTIONAL_READ_QUERY_STRATEGY'', T ''EQ_'', N ''transactionalReadQueryStrategyName'']),
     (''writeStorageUnitName'', N ''storageUnitName''),
     (''readStorageUnitsNames'', comma_list ''storageUnitName''),
     (''transactionalReadQueryStrategyName'', T ''STRING_''),
     (''ifExists'', Seq [T ''IF'', T ''EXISTS'']),
     (''ifNotExists'', Seq [T ''IF'', T ''NOT'', T ''EXISTS'']),
     (''literal'', Alt [T ''STRING_'', Seq [Opt (T ''MINUS_''), T ''INT_''], T ''TRUE'', T ''FALSE'']),
     (''algorithmDefinition'', Seq [T ''TYPE'', T ''LP_'', T ''NAME'', T ''EQ_'', N ''algorithmTypeName'',
        Opt (Seq [T ''COMMA_'', N ''propertiesDefinition'']), T ''RP_'']),
     (''algorithmTypeName'', Alt [T ''STRING_'', N ''buildInReadQueryLoadBalanceAlgorithmType'']),
     (''buildInReadQueryLoadBalanceAlgorithmType'', Alt [T ''ROUND_ROBIN'', T ''RANDOM'', T ''WEIGHT'']),
     (''propertiesDefinition'', Seq [T ''PROPERTIES'', T ''LP_'', Opt (N ''properties''), T ''RP_'']),
     (''properties'', comma_list ''property''),
     (''property'', Seq [T ''STRING_'', T ''EQ_'', N ''literal'']),
     (''databaseName'', T ''IDENTIFIER_''),
     (''groupName'', T ''IDENTIFIER_''),
     (''storageUnitName'', T ''IDENTIFIER_'')] r"

lemmas rwsplit_G = rwsplit_grammar_def

interpretation rwsplit_alg: algorithm_visitor rwsplit_grammar ReadWriteSplittingVisitor_VisitLiteral ReadWriteSplittingVisitor_VisitProperty
  ReadWriteSplittingVisitor_VisitProperties ReadWriteSplittingVisitor_VisitPropertiesDefinition ReadWriteSplittingVisitor_VisitAlgorithmTypeName ReadWriteSplittingVisitor_VisitAlgorithmDefinition
proof (unfold_locales, goal_cases)
  case (11 cs)
  then show ?case
    by (auto simp: rwsplit_G derives_N ReadWriteSplittingVisitor_VisitAlgorithmTypeName_def tree_access AlgorithmTypeName_ToString_def
        ReadWriteSplittingVisitor_VisitBuildInReadQueryLoadBalanceAlgorithmType_def leaf_printers lexeme_keyword keyword_defs char_class_defs spells_keyword spells_string string_lit_def)
qed (simp_all add: rwsplit_G ReadWriteSplittingVisitor_VisitLiteral_def ReadWriteSplittingVisitor_VisitProperty_def ReadWriteSplittingVisitor_VisitProperties_def
    ReadWriteSplittingVisitor_VisitPropertiesDefinition_def ReadWriteSplittingVisitor_VisitAlgorithmDefinition_def)

interpretation rwsplit_drop: drop_visitor rwsplit_grammar ReadWriteSplittingVisitor_VisitIfExists ReadWriteSplittingVisitor_VisitIfNotExists
  "''ruleName''" ReadWriteSplittingVisitor_VisitRuleName
  by unfold_locales (simp_all add: rwsplit_G ReadWriteSplittingVisitor_VisitIfExists_def ReadWriteSplittingVisitor_VisitIfNotExists_def ReadWriteSplittingVisitor_VisitRuleName_def)

interpretation rwsplit_units: name_visitor rwsplit_grammar "''storageUnitName''" ReadWriteSplittingVisitor_VisitStorageUnitName
  by unfold_locales (simp_all add: rwsplit_G ReadWriteSplittingVisitor_VisitStorageUnitName_def)

section \<open>Printing\<close>

lemma dataSourceDefinition_prints:
  assumes "derives rwsplit_grammar (rwsplit_grammar ''dataSourceDefinition'') cs"
  shows "\<exists>s. DataSourceDefinition_ToString (ReadWriteSplittingVisitor_VisitDataSourceDefinition (Node q cs)) = Ok s \<and> spells s (terms cs)"
proof -
  from assms obtain x y u ns where
    cs: "cs = [Node ''writeStorageUnit'' [Terminal ''WRITE_STORAGE_UNIT'' x, Terminal ''EQ_'' ''='',
        Node ''writeStorageUnitName'' [Node ''storageUnitName'' [Terminal ''IDENTIFIER_'' u]]], Terminal ''COMMA_'' '','',
      Node ''readStorageUnits'' [Terminal ''READ_STORAGE_UNITS'' y, Terminal ''LP_'' ''('', Node ''readStorageUnitsNames'' ns,
        Terminal ''RP_'' '')'']]"
    and u: "ident u" and ns: "derives rwsplit_grammar (comma_list ''storageUnitName'') ns"
    by (auto simp: rwsplit_G derives_N)
  from rwsplit_units.names_print [OF ns] u show ?thesis
    by (auto simp: cs ReadWriteSplittingVisitor_VisitDataSourceDefinition_def ReadWriteSplittingVisitor_VisitWriteStorageUnit_def ReadWriteSplittingVisitor_VisitWriteStorageUnitName_def
        ReadWriteSplittingVisitor_VisitStorageUnitName_def ReadWriteSplittingVisitor_VisitReadStorageUnits_def ReadWriteSplittingVisitor_VisitReadStorageUnitsNames_def tree_access
        DataSourceDefinition_ToString_def WriteStorageUnit_ToString_def WriteStorageUnitName_ToString_def leaf_printers
        ReadStorageUnits_ToString_def ReadStorageUnitsNames_ToString_def spelling_simps)
qed

text \<open>The parts of a rule definition, and what is printed for them.\<close>

lemma rule_definition_text:
  assumes "derives rwsplit_grammar (rwsplit_grammar ''readwriteSplittingRuleDefinition'') cs"
  obtains x ds o1 o2 s where
    "cs = [Node ''ruleName'' [Terminal ''IDENTIFIER_'' x], Terminal ''LP_'' ''('', Node ''dataSourceDefinition'' ds] @ o1 @ o2 @ [Terminal ''RP_'' '')'']"
    "ident x" "DataSourceDefinition_ToString (ReadWriteSplittingVisitor_VisitDataSourceDefinition (Node ''dataSourceDefinition'' ds)) = Ok s"
    "spells s (terms ds)"
    "o1 = [] \<or> (\<exists>y z. o1 = [Terminal ''COMMA_'' '','', Node ''transactionalReadQueryStrategy'' [Terminal ''TRANSACTIONAL_READ_QUERY_STRATEGY'' y,
       Terminal ''EQ_'' ''='', Node ''transactionalReadQueryStrategyName'' [Terminal ''STRING_'' z]]] \<and> string_lit z)"
    "o2 = [] \<or> (\<exists>as. o2 = [Terminal ''COMMA_'' '','', Node ''algorithmDefinition'' as] \<and>
       derives rwsplit_grammar (rwsplit_grammar ''algorithmDefinition'') as)"
proof -
  let ?d = "derives rwsplit_grammar"
  from assms obtain x ds o1 o2 where
    cs: "cs = [Node ''ruleName'' [Terminal ''IDENTIFIER_'' x], Terminal ''LP_'' ''('', Node ''dataSourceDefinition'' ds] @ o1 @ o2 @ [Terminal ''RP_'' '')'']"
    and x: "ident x" and ds: "?d (rwsplit_grammar ''dataSourceDefinition'') ds"
    and o1: "?d (Opt (Seq [T ''COMMA_'', N ''transactionalReadQueryStrategy''])) o1"
    and o2: "?d (Opt (Seq [T ''COMMA_'', N ''algorithmDefinition''])) o2"
    by (auto simp: rwsplit_grammar_def [of "''readwriteSplittingRuleDefinition''"] rwsplit_grammar_def [of "''ruleName''"] derives_N)
  from dataSourceDefinition_prints [OF ds] obtain s where
    "DataSourceDefinition_ToString (ReadWriteSplittingVisitor_VisitDataSourceDefinition (Node ''dataSourceDefinition'' ds)) = Ok s" "spells s (terms ds)"
    by blast
  moreover have "o1 = [] \<or> (\<exists>y z. o1 = [Terminal ''COMMA_'' '','', Node ''transactionalReadQueryStrategy''
      [Terminal ''TRANSACTIONAL_READ_QUERY_STRATEGY'' y, Terminal ''EQ_'' ''='',
       Node ''transactionalReadQueryStrategyName'' [Terminal ''STRING_'' z]]] \<and> string_lit z)"
    using o1 by (auto simp: derives_Opt derives_N rwsplit_grammar_def [of "''transactionalReadQueryStrategy''"]
        rwsplit_grammar_def [of "''transactionalReadQueryStrategyName''"])
  moreover have "o2 = [] \<or> (\<exists>as. o2 = [Terminal ''COMMA_'' '','', Node ''algorithmDefinition'' as] \<and>
      ?d (rwsplit_grammar ''algorithmDefinition'') as)"
    using o2 by (auto simp: derives_Opt derives_N)
  ultimately show thesis using cs x by (intro that) auto
qed

definition rwsplit_unprintable :: "string list" where
  "rwsplit_unprintable = [''transactionalReadQueryStrategy'', ''algorithmDefinition'']"

lemmas rule_visit_defs = ReadWriteSplittingVisitor_VisitReadwriteSplittingRuleDefinition_def ReadWriteSplittingVisitor_VisitRuleName_def
  ReadWriteSplittingVisitor_VisitTransactionalReadQueryStrategy_def ReadWriteSplittingVisitor_VisitTransactionalReadQueryStrategyName_def tree_access
  ReadWriteSplittingRuleDefinition_ToString_def leaf_printers TransactionalReadQueryStrategy_ToString_def
  TransactionalReadQueryStrategyName_ToString_def

lemma rwsplit_rule_prints:
  assumes "derives rwsplit_grammar (rwsplit_grammar ''readwriteSplittingRuleDefinition'') cs" "list_all (avoids rwsplit_unprintable) cs"
  shows "\<exists>d s. ReadWriteSplittingVisitor_VisitReadwriteSplittingRuleDefinition (Node q cs) = Ok d \<and>
    ReadWriteSplittingRuleDefinition_ToString d = Ok s \<and> spells s (terms cs)"
  using assms(1)
proof (rule rule_definition_text)
  fix x ds o1 o2 s
  assume cs: "cs = [Node ''ruleName'' [Terminal ''IDENTIFIER_'' x], Terminal ''LP_'' ''('', Node ''dataSourceDefinition'' ds] @ o1 @ o2 @ [Terminal ''RP_'' '')'']"
    and o1: "o1 = [] \<or> (\<exists>y z. o1 = [Terminal ''COMMA_'' '','', Node ''transactionalReadQueryStrategy'' [Terminal ''TRANSACTIONAL_READ_QUERY_STRATEGY'' y,
       Terminal ''EQ_'' ''='', Node ''transactionalReadQueryStrategyName'' [Terminal ''STRING_'' z]]] \<and> string_lit z)"
    and o2: "o2 = [] \<or> (\<exists>as. o2 = [Terminal ''COMMA_'' '','', Node ''algorithmDefinition'' as] \<and>
       derives rwsplit_grammar (rwsplit_grammar ''algorithmDefinition'') as)"
    and x: "ident x" "DataSourceDefinition_ToString (ReadWriteSplittingVisitor_VisitDataSourceDefinition (Node ''dataSourceDefinition'' ds)) = Ok s"
    "spells s (terms ds)"
  have "o1 = []" "o2 = []" using o1 o2 assms(2) by (auto simp: cs rwsplit_unprintable_def)
  then show ?thesis using x by (simp add: cs rule_visit_defs spelling_simps)
qed

section \<open>Statements that come back\<close>

text \<open>
  A \<^verbatim>\<open>CREATE READWRITE_SPLITTING RULE\<close> statement whose rules have neither a transactional read
  query strategy nor a load balancing algorithm comes back from visiting and printing with the
  tokens it had, with or without \<^verbatim>\<open>IF NOT EXISTS\<close>.
\<close>

theorem create_rwsplit_roundtrip:
  assumes "derives rwsplit_grammar (N ''createReadwriteSplittingRule'') [t]" and "avoids rwsplit_unprintable t"
  shows "\<exists>r s. ReadWriteSplittingVisitor_VisitCreateReadwriteSplittingRule t = Ok r \<and> CreateReadwriteSplittingRule_ToString r = Ok s \<and>
    spells s (terminals t)"
proof -
  have G: "rwsplit_grammar ''createReadwriteSplittingRule'' = Seq (map T [''CREATE'', ''READWRITE_SPLITTING'', ''RULE''] @
      [Opt (N ''ifNotExists''), comma_list ''readwriteSplittingRuleDefinition''])" by (simp add: rwsplit_G)
  have "list_all (avoids rwsplit_unprintable) cs" if "Node ''readwriteSplittingRuleDefinition'' cs \<in> set (children t)" for cs
    using assms(2) that by (cases t) (auto simp: list_all_iff dest: bspec)
  from rwsplit_drop.create_statement [OF assms(1) G _ _ rwsplit_rule_prints this] obtain p e ds s where
    "visit_opt ReadWriteSplittingVisitor_VisitIfNotExists (the_rule ''ifNotExists'' t) = Ok p" "if_set IfNotExists_ToString p = Ok e"
    "map_oc ReadWriteSplittingVisitor_VisitReadwriteSplittingRuleDefinition (all_rules ''readwriteSplittingRuleDefinition'' t) = Ok ds"
    "join_all ReadWriteSplittingRuleDefinition_ToString (map Some ds) = Ok s"
    "spells (heading [''CREATE'', ''READWRITE_SPLITTING'', ''RULE''] @ e @ '' '' @ s) (terminals t)"
    by (fastforce simp: keyword_defs char_class_defs)
  then show ?thesis
    by (simp add: ReadWriteSplittingVisitor_VisitCreateReadwriteSplittingRule_def CreateReadwriteSplittingRule_ToString_def heading_def)
qed

lemma alter_rwsplit_roundtrip:
  assumes "derives rwsplit_grammar (N ''alterReadwriteSplittingRule'') [t]" and "avoids rwsplit_unprintable t"
  shows "\<exists>r s. ReadWriteSplittingVisitor_VisitAlterReadwriteSplittingRule t = Ok r \<and> AlterReadwriteSplittingRule_ToString r = Ok s \<and>
    spells s (terminals t)"
proof -
  have G: "rwsplit_grammar ''alterReadwriteSplittingRule'' = Seq (map T [''ALTER'', ''READWRITE_SPLITTING'', ''RULE''] @
      [comma_list ''readwriteSplittingRuleDefinition''])" by (simp add: rwsplit_G)
  have "list_all (avoids rwsplit_unprintable) cs" if "Node ''readwriteSplittingRuleDefinition'' cs \<in> set (children t)" for cs
    using assms(2) that by (cases t) (auto simp: list_all_iff dest: bspec)
  from list_statement [OF assms(1) G _ rwsplit_rule_prints this] show ?thesis
    by (fastforce simp: ReadWriteSplittingVisitor_VisitAlterReadwriteSplittingRule_def AlterReadwriteSplittingRule_ToString_def heading_def
        keyword_defs char_class_defs)
qed

text \<open>
  Every \<^verbatim>\<open>DROP READWRITE_SPLITTING RULE\<close> statement comes back from visiting and printing with
  the tokens it had.
\<close>

theorem drop_rwsplit_roundtrip:
  assumes "derives rwsplit_grammar (N ''dropReadwriteSplittingRule'') [t]"
  shows "\<exists>r s. ReadWriteSplittingVisitor_VisitDropReadwriteSplittingRule t = Ok r \<and> DropReadwriteSplittingRule_ToString r = Ok s \<and> spells s (terminals t)"
  using rwsplit_drop.drop_statement [OF assms, of "[''DROP'', ''READWRITE_SPLITTING'', ''RULE'']"]
  by (auto simp: rwsplit_G heading_def keyword_defs char_class_defs ReadWriteSplittingVisitor_VisitDropReadwriteSplittingRule_def
      DropReadwriteSplittingRule_ToString_def)

section \<open>Rules that do not come back\<close>

lemma not_comma: "same_token (''COMMA_'', '','') w \<longleftrightarrow> w = '',''"
  by (simp add: same_token_def keyword_def)

text \<open>
  A rule with a transactional read query strategy or with a load balancing algorithm is
  printed without the comma in front of it (and, for a strategy, without its keyword): the printer
  returns, but never the tokens the rule was parsed from.
\<close>

theorem rwsplit_options_lose_comma:
  assumes "derives rwsplit_grammar (N ''readwriteSplittingRuleDefinition'') [t]"
    and "the_rule ''transactionalReadQueryStrategy'' t \<noteq> None \<or> the_rule ''algorithmDefinition'' t \<noteq> None"
  shows "\<exists>d s. ReadWriteSplittingVisitor_VisitReadwriteSplittingRuleDefinition t = Ok d \<and> ReadWriteSplittingRuleDefinition_ToString d = Ok s \<and>
    \<not> list_all2 same_token (terminals t) (lexer s)"
proof -
  from assms(1) obtain cs where t: "t = Node ''readwriteSplittingRuleDefinition'' cs"
    and cs: "derives rwsplit_grammar (rwsplit_grammar ''readwriteSplittingRuleDefinition'') cs" by (auto simp: derives_N)
  from cs show ?thesis
  proof (rule rule_definition_text)
    fix x ds o1 o2 s
    assume cs: "cs = [Node ''ruleName'' [Terminal ''IDENTIFIER_'' x], Terminal ''LP_'' ''('', Node ''dataSourceDefinition'' ds] @ o1 @ o2 @ [Terminal ''RP_'' '')'']"
      and o1: "o1 = [] \<or> (\<exists>y z. o1 = [Terminal ''COMMA_'' '','', Node ''transactionalReadQueryStrategy'' [Terminal ''TRANSACTIONAL_READ_QUERY_STRATEGY'' y,
         Terminal ''EQ_'' ''='', Node ''transactionalReadQueryStrategyName'' [Terminal ''STRING_'' z]]] \<and> string_lit z)"
      and o2: "o2 = [] \<or> (\<exists>as. o2 = [Terminal ''COMMA_'' '','', Node ''algorithmDefinition'' as] \<and>
         derives rwsplit_grammar (rwsplit_grammar ''algorithmDefinition'') as)"
      and x: "ident x" and s: "DataSourceDefinition_ToString (ReadWriteSplittingVisitor_VisitDataSourceDefinition (Node ''dataSourceDefinition'' ds)) = Ok s"
      "spells s (terms ds)"
    from o1 obtain z where strategy: "\<exists>p. visit_opt ReadWriteSplittingVisitor_VisitTransactionalReadQueryStrategy (the_rule ''transactionalReadQueryStrategy'' t) = Ok p \<and>
        if_set TransactionalReadQueryStrategy_ToString p = Ok z" "z = [] \<and> o1 = [] \<or> string_lit z \<and> o1 \<noteq> [] \<and> hd (terms o1) = (''COMMA_'', '','')"
      using o2 by (auto simp: t cs rule_visit_defs)
    from o2 obtain a where algorithm: "if_set AlgorithmDefinition_ToString (map_option ReadWriteSplittingVisitor_VisitAlgorithmDefinition (the_rule ''algorithmDefinition'' t)) = Ok a"
      "a = [] \<and> o2 = [] \<or> (\<exists>a'. a = ''TYPE(NAME='' @ a') \<and> o2 \<noteq> [] \<and> hd (terms o2) = (''COMMA_'', '','')"
      using o1 rwsplit_alg.algorithmDefinition_total by (fastforce simp: t cs tree_access)
    have some: "o1 \<noteq> [] \<or> o2 \<noteq> []" using assms(2) by (auto simp: t cs tree_access)
    have front: "spells (x @ '' ('' @ s) ((''IDENTIFIER_'', x) # (''LP_'', ''('') # terms ds)"
      using x s by (simp add: spelling_simps)
    let ?r = "CHR '' '' # z @ CHR '' '' # a @ '')''"
    obtain us where us: "terms (o1 @ o2 @ [Terminal ''RP_'' '')'']) = (''COMMA_'', '','') # us"
      using some strategy(2) algorithm(2) o1 o2 by fastforce
    have "\<not> list_all2 same_token ((''COMMA_'', '','') # us) (lexer ?r)"
    proof (cases "z = []")
      case True
      then obtain a' where "a = ''TYPE(NAME='' @ a'" using some strategy(2) algorithm(2) by (auto simp: string_lit_def)
      with True show ?thesis by (simp add: char_class_defs not_comma)
    next
      case False
      then have z: "string_lit z" using strategy(2) by auto
      have "boundary (CHR '' '' # a @ '')'')" by (simp add: char_class_defs)
      from lex_string [OF z this] z show ?thesis
        by (auto simp: lex_space not_comma string_lit_def simp del: lexer.simps)
    qed
    with spells_cancel [OF front, of ?r "(''COMMA_'', '','') # us"] us
    have "\<not> list_all2 same_token (terminals t) (lexer (x @ '' ('' @ s @ ?r))"
      by (simp add: t cs char_class_defs)
    then show ?thesis
      using strategy(1) algorithm(1) s(1)
      by (auto simp: ReadWriteSplittingVisitor_VisitReadwriteSplittingRuleDefinition_def ReadWriteSplittingRuleDefinition_ToString_def t cs
          tree_access ReadWriteSplittingVisitor_VisitRuleName_def leaf_printers)
  qed
qed

section \<open>Witnesses\<close>

definition demo_data_source :: "tree list" where
  "demo_data_source = [Node ''writeStorageUnit'' [kw ''WRITE_STORAGE_UNIT'', eq, Node ''writeStorageUnitName'' [name_node ''storageUnitName'' ''write_ds'']],
     comma, Node ''readStorageUnits'' [kw ''READ_STORAGE_UNITS'', lp, Node ''readStorageUnitsNames''
       [name_node ''storageUnitName'' ''read_ds_0'', comma, name_node ''storageUnitName'' ''read_ds_1''], rp]]"

definition demo_create_rwsplit :: tree where
  "demo_create_rwsplit = Node ''createReadwriteSplittingRule'' [kw ''CREATE'', kw ''READWRITE_SPLITTING'', kw ''RULE'',
     Node ''ifNotExists'' [kw ''IF'', kw ''NOT'', kw ''EXISTS''],
     Node ''readwriteSplittingRuleDefinition'' [name_node ''ruleName'' ''ms_group_0'', lp, Node ''dataSourceDefinition'' demo_data_source, rp]]"

definition demo_drop_rwsplit :: tree where
  "demo_drop_rwsplit = Node ''dropReadwriteSplittingRule'' [kw ''DROP'', kw ''READWRITE_SPLITTING'', kw ''RULE'',
     name_node ''ruleName'' ''ms_group_0'', comma, name_node ''ruleName'' ''ms_group_1'']"

definition demo_balanced_rule :: tree where
  "demo_balanced_rule = Node ''readwriteSplittingRuleDefinition'' [name_node ''ruleName'' ''ms_group_0'', lp,
     Node ''dataSourceDefinition'' demo_data_source, comma,
     Node ''algorithmDefinition'' [kw ''TYPE'', lp, kw ''NAME'', eq, Node ''algorithmTypeName'' [Terminal ''STRING_'' (sq ''random'')], rp], rp]"

lemmas rwsplit_recognise = deriving deriving_Seq drop_list_def example_defs rwsplit_G

lemma demo_data_source_derived: "derives rwsplit_grammar (rwsplit_grammar ''dataSourceDefinition'') demo_data_source"
  by (simp add: demo_data_source_def rwsplit_recognise del: derives_Cons derives_T derives_Alt derives_Nil)

lemma demo_rwsplit_derived:
  "derives rwsplit_grammar (N ''createReadwriteSplittingRule'') [demo_create_rwsplit]"
  "derives rwsplit_grammar (N ''dropReadwriteSplittingRule'') [demo_drop_rwsplit]"
  "derives rwsplit_grammar (N ''readwriteSplittingRuleDefinition'') [demo_balanced_rule]"
proof -
  show "derives rwsplit_grammar (N ''createReadwriteSplittingRule'') [demo_create_rwsplit]"
    using demo_data_source_derived
    by (simp add: demo_create_rwsplit_def deriving deriving_Seq example_defs rwsplit_grammar_def [of "''ifNotExists''"]
        rwsplit_grammar_def [of "''createReadwriteSplittingRule''"] rwsplit_grammar_def [of "''readwriteSplittingRuleDefinition''"]
        rwsplit_grammar_def [of "''ruleName''"] del: derives_Cons derives_T derives_Alt derives_Nil)
  show "derives rwsplit_grammar (N ''dropReadwriteSplittingRule'') [demo_drop_rwsplit]"
    by (simp add: demo_drop_rwsplit_def rwsplit_recognise del: derives_Cons derives_T derives_Alt derives_Nil)
  have "derives rwsplit_grammar (rwsplit_grammar ''algorithmDefinition'')
      [kw ''TYPE'', lp, kw ''NAME'', eq, Node ''algorithmTypeName'' [Terminal ''STRING_'' (sq ''random'')], rp]"
    by (simp add: rwsplit_recognise del: derives_Cons derives_T derives_Alt derives_Nil)
  with demo_data_source_derived show "derives rwsplit_grammar (N ''readwriteSplittingRuleDefinition'') [demo_balanced_rule]"
    by (simp add: demo_balanced_rule_def deriving deriving_Seq name_node_def ident_def keyword_defs char_class_defs is_digit_def
        rwsplit_grammar_def [of "''readwriteSplittingRuleDefinition''"]
        rwsplit_grammar_def [of "''ruleName''"] del: derives_Cons derives_T derives_Alt derives_Nil)
qed

theorem create_rwsplit_roundtrip_witness:
  "\<exists>r s. ReadWriteSplittingVisitor_VisitCreateReadwriteSplittingRule demo_create_rwsplit = Ok r \<and> CreateReadwriteSplittingRule_ToString r = Ok s \<and>
    spells s (terminals demo_create_rwsplit)"
  by (rule create_rwsplit_roundtrip [OF demo_rwsplit_derived(1)])
    (simp add: demo_create_rwsplit_def demo_data_source_def rwsplit_unprintable_def kw_def name_node_def)

theorem drop_rwsplit_roundtrip_witness:
  "\<exists>r s. ReadWriteSplittingVisitor_VisitDropReadwriteSplittingRule demo_drop_rwsplit = Ok r \<and> DropReadwriteSplittingRule_ToString r = Ok s \<and>
    spells s (terminals demo_drop_rwsplit)"
  by (rule drop_rwsplit_roundtrip [OF demo_rwsplit_derived(2)])

theorem rwsplit_options_lose_comma_witness:
  "\<exists>d s. ReadWriteSplittingVisitor_VisitReadwriteSplittingRuleDefinition demo_balanced_rule = Ok d \<and>
    ReadWriteSplittingRuleDefinition_ToString d = Ok s \<and> \<not> list_all2 same_token (terminals demo_balanced_rule) (lexer s)"
  by (rule rwsplit_options_lose_comma [OF demo_rwsplit_derived(3)])
    (simp add: demo_balanced_rule_def tree_access name_node_def)

end
