(* ===== verification/Distsql_Shadow.thy ===== *)
theory Distsql_Shadow
  imports Distsql_Statements
begin

text \<open>
  The shadow rule statements: the grammar \<^verbatim>\<open>antlr4/shadow/*.g4\<close>, the syntax tree and its printers
  in \<^verbatim>\<open>ast/shadow_rdl_ast.go\<close>, and \<^verbatim>\<open>ShadowVisitor\<close> in \<^verbatim>\<open>visitor/shadow_rdl.go\<close>. Dropping rules
  and algorithms and altering the default algorithm come back as they were parsed; the other
  statements about the default algorithm need their existence clause, and rule definitions are
  never printed at all.
\<close>

section \<open>Syntax trees\<close>

record ShadowTableRule =
  str_TableName :: "CommonIdentifier ptr"
  str_AllAlgorithmDefinition :: "AlgorithmDefinition ptr list"

record ShadowRuleDefinition =
  srd_RuleName :: "CommonIdentifier ptr"
  srd_Source :: "CommonIdentifier ptr"
  srd_Shadow :: "CommonIdentifier ptr"
  srd_AllShadowTableRule :: "ShadowTableRule ptr list"

record CreateShadowRule =
  csr_IfNotExists :: "IfNotExists ptr"
  csr_AllShadowRuleDefinition :: "ShadowRuleDefinition ptr list"

record AlterShadowRule =
  asr_AllShadowRuleDefinition :: "ShadowRuleDefinition ptr list"

record DropShadowRule =
  dsr_IfExists :: "IfExists ptr"
  dsr_AllRuleName :: "CommonIdentifier ptr list"

record DropShadowAlgorithm =
  dsa_IfExists :: "IfExists ptr"
  dsa_AllAlgorithmName :: "CommonIdentifier ptr list"

record CreateDefaultShadowAlgorithm =
  cdsa_IfNotExists :: "IfNotExists ptr"
  cdsa_AlgorithmDefinition :: "AlgorithmDefinition ptr"

record DropDefaultShadowAlgorithm =
  ddsa_IfExists :: "IfExists ptr"

record AlterDefaultShadowAlgorithm =
  adsa_AlgorithmDefinition :: "AlgorithmDefinition ptr"

section \<open>Printers\<close>

definition ShadowTableRule_ToString :: "ShadowTableRule \<Rightarrow> string outcome" where
  "ShadowTableRule_ToString r =
     bind_oc (if_set CommonIdentifier_ToString (str_TableName r)) (\<lambda>tableName.
     bind_oc (join_all AlgorithmDefinition_ToString (str_AllAlgorithmDefinition r)) (\<lambda>algorithms.
       Ok (tableName @ '' ('' @ algorithms @ '')'')))"

text \<open>
  Where the source is to be printed the method calls itself on the same receiver. The first
  argument is the number of frames the stack still has room for.
\<close>

fun ShadowRuleDefinition_ToString :: "nat \<Rightarrow> ShadowRuleDefinition \<Rightarrow> string outcome" where
  "ShadowRuleDefinition_ToString 0 d = Panic ''stack overflow''"
| "ShadowRuleDefinition_ToString (Suc stk) d =
     bind_oc (if_set (\<lambda>n. bind_oc (CommonIdentifier_ToString n) (\<lambda>s. Ok (s @ '' (''))) (srd_RuleName d)) (\<lambda>sql.
     bind_oc (case srd_Source d of
         Some _ \<Rightarrow> bind_oc (ShadowRuleDefinition_ToString stk d) (\<lambda>s. Ok (sql @ '' SOURCE = '' @ s @ '', ''))
       | None \<Rightarrow> Ok sql) (\<lambda>sql.
     bind_oc (case srd_Shadow d of
         Some n \<Rightarrow> bind_oc (CommonIdentifier_ToString n) (\<lambda>s. Ok (sql @ '' SHADOW = '' @ s @ '', ''))
       | None \<Rightarrow> Ok sql) (\<lambda>sql.
     bind_oc (join_all ShadowTableRule_ToString (srd_AllShadowTableRule d)) (\<lambda>rules.
       Ok (sql @ '' '' @ rules @ '')'')))))"

text \<open>The existence clause is formatted as a pointer to a structure, not printed with its method.\<close>

definition CreateShadowRule_ToString :: "nat \<Rightarrow> CreateShadowRule \<Rightarrow> string outcome" where
  "CreateShadowRule_ToString stk r =
     bind_oc (join_all (ShadowRuleDefinition_ToString stk) (csr_AllShadowRuleDefinition r)) (\<lambda>rules.
       Ok (''CREATE SHADOW RULE'' @
           (case csr_IfNotExists r of Some e \<Rightarrow> '' &{'' @ ine_IfNotExists e @ ''}'' | None \<Rightarrow> []) @ '' '' @ rules))"

definition AlterShadowRule_ToString :: "nat \<Rightarrow> AlterShadowRule \<Rightarrow> string outcome" where
  "AlterShadowRule_ToString stk r =
     bind_oc (join_all (ShadowRuleDefinition_ToString stk) (asr_AllShadowRuleDefinition r)) (\<lambda>rules.
       Ok (''ALTER SHADOW RULE '' @ rules))"

definition DropShadowRule_ToString :: "DropShadowRule \<Rightarrow> string outcome" where
  "DropShadowRule_ToString r =
     bind_oc (if_set IfExists_ToString (dsr_IfExists r)) (\<lambda>ifExists.
     bind_oc (join_all CommonIdentifier_ToString (dsr_AllRuleName r)) (\<lambda>names.
       Ok (''DROP SHADOW RULE '' @ ifExists @ '' '' @ names)))"

definition DropShadowAlgorithm_ToString :: "DropShadowAlgorithm \<Rightarrow> string outcome" where
  "DropShadowAlgorithm_ToString r =
     bind_oc (if_set IfExists_ToString (dsa_IfExists r)) (\<lambda>ifExists.
     bind_oc (join_all CommonIdentifier_ToString (dsa_AllAlgorithmName r)) (\<lambda>names.
       Ok (''DROP SHADOW ALGORITHM '' @ ifExists @ '' '' @ names)))"

definition CreateDefaultShadowAlgorithm_ToString :: "CreateDefaultShadowAlgorithm \<Rightarrow> string outcome" where
  "CreateDefaultShadowAlgorithm_ToString r =
     bind_oc (deref IfNotExists_ToString (cdsa_IfNotExists r)) (\<lambda>ifNotExists.
     bind_oc (deref AlgorithmDefinition_ToString (cdsa_AlgorithmDefinition r)) (\<lambda>algorithm.
       Ok (''CREATE DEFAULT SHADOW ALGORITHM '' @ ifNotExists @ '' '' @ algorithm)))"

definition DropDefaultShadowAlgorithm_ToString :: "DropDefaultShadowAlgorithm \<Rightarrow> string outcome" where
  "DropDefaultShadowAlgorithm_ToString r =
     bind_oc (deref IfExists_ToString (ddsa_IfExists r)) (\<lambda>ifExists. Ok (''DROP DEFAULT SHADOW ALGORITHM '' @ ifExists))"

definition AlterDefaultShadowAlgorithm_ToString :: "AlterDefaultShadowAlgorithm \<Rightarrow> string outcome" where
  "AlterDefaultShadowAlgorithm_ToString r =
     bind_oc (deref AlgorithmDefinition_ToString (adsa_AlgorithmDefinition r)) (\<lambda>algorithm.
       Ok (''ALTER DEFAULT SHADOW ALGORITHM '' @ algorithm))"

section \<open>The visitor\<close>

definition ShadowVisitor_VisitIfExists :: "tree \<Rightarrow> IfExists outcome" where
  "ShadowVisitor_VisitIfExists ctx =
     bind_oc (GetText (token ''IF'' ctx)) (\<lambda>a. bind_oc (GetText (token ''EXISTS'' ctx)) (\<lambda>b.
       Ok \<lparr>ie_IfExists = a @ '' '' @ b\<rparr>))"

definition ShadowVisitor_VisitIfNotExists :: "tree \<Rightarrow> IfNotExists outcome" where
  "ShadowVisitor_VisitIfNotExists ctx =
     bind_oc (GetText (token ''IF'' ctx)) (\<lambda>a. bind_oc (GetText (token ''NOT'' ctx)) (\<lambda>b.
     bind_oc (GetText (token ''EXISTS'' ctx)) (\<lambda>c. Ok \<lparr>ine_IfNotExists = a @ '' '' @ b @ '' '' @ c\<rparr>)))"

definition ShadowVisitor_VisitRuleName :: "tree \<Rightarrow> CommonIdentifier" where
  "ShadowVisitor_VisitRuleName ctx = \<lparr>ci_Identifier = token_text ''IDENTIFIER_'' ctx\<rparr>"

definition ShadowVisitor_VisitSource :: "tree \<Rightarrow> CommonIdentifier" where
  "ShadowVisitor_VisitSource ctx = \<lparr>ci_Identifier = token_text ''IDENTIFIER_'' ctx\<rparr>"

definition ShadowVisitor_VisitShadow :: "tree \<Rightarrow> CommonIdentifier" where
  "ShadowVisitor_VisitShadow ctx = \<lparr>ci_Identifier = token_text ''IDENTIFIER_'' ctx\<rparr>"

definition ShadowVisitor_VisitTableName :: "tree \<Rightarrow> CommonIdentifier" where
  "ShadowVisitor_VisitTableName ctx = \<lparr>ci_Identifier = token_text ''IDENTIFIER_'' ctx\<rparr>"

definition ShadowVisitor_VisitAlgorithmName :: "tree \<Rightarrow> CommonIdentifier" where
  "ShadowVisitor_VisitAlgorithmName ctx = \<lparr>ci_Identifier = token_text ''IDENTIFIER_'' ctx\<rparr>"

definition ShadowVisitor_VisitLiteral :: "tree \<Rightarrow> Literal" where
  "ShadowVisitor_VisitLiteral ctx =
     \<lparr>lit_Literal = first_token [''STRING_'', ''MINUS_'', ''INT_'', ''TRUE'', ''FALSE''] ctx\<rparr>"

definition ShadowVisitor_VisitProperty :: "tree \<Rightarrow> Property" where
  "ShadowVisitor_VisitProperty ctx =
     \<lparr>prop_Key = token_text ''STRING_'' ctx,
      prop_Literal = map_option ShadowVisitor_VisitLiteral (the_rule ''literal'' ctx)\<rparr>"

definition ShadowVisitor_VisitProperties :: "tree \<Rightarrow> Properties" where
  "ShadowVisitor_VisitProperties ctx =
     \<lparr>props_Properties = map (\<lambda>p. Some (ShadowVisitor_VisitProperty p)) (all_rules ''property'' ctx)\<rparr>"

definition ShadowVisitor_VisitPropertiesDefinition :: "tree \<Rightarrow> PropertiesDefinition" where
  "ShadowVisitor_VisitPropertiesDefinition ctx =
     \<lparr>pd_Properties = map_option ShadowVisitor_VisitProperties (the_rule ''properties'' ctx)\<rparr>"

definition ShadowVisitor_VisitBuildInShadowAlgorithmType :: "tree \<Rightarrow> BuildinAlgorithmTypeName" where
  "ShadowVisitor_VisitBuildInShadowAlgorithmType ctx =
     \<lparr>batn_AlgorithmTypeName = first_token [''VALUE_MATCH'', ''REGEX_MATCH'', ''SQL_HINT''] ctx\<rparr>"

definition ShadowVisitor_VisitAlgorithmTypeName :: "tree \<Rightarrow> AlgorithmTypeName" where
  "ShadowVisitor_VisitAlgorithmTypeName ctx =
     (case token ''STRING_'' ctx of
        Some x \<Rightarrow> \<lparr>atn_BuildinAlgorithmTypeName = None, atn_String = x\<rparr>
      | None \<Rightarrow> \<lparr>atn_BuildinAlgorithmTypeName = map_option ShadowVisitor_VisitBuildInShadowAlgorithmType (the_rule ''buildInShadowAlgorithmType'' ctx), atn_String = []\<rparr>)"

definition ShadowVisitor_VisitAlgorithmDefinition :: "tree \<Rightarrow> AlgorithmDefinition" where
  "ShadowVisitor_VisitAlgorithmDefinition ctx =
     \<lparr>ad_AlgorithmTypeName = map_option ShadowVisitor_VisitAlgorithmTypeName (the_rule ''algorithmTypeName'' ctx),
      ad_PropertiesDefinition = map_option ShadowVisitor_VisitPropertiesDefinition (the_rule ''propertiesDefinition'' ctx)\<rparr>"

definition ShadowVisitor_VisitShadowTableRule :: "tree \<Rightarrow> ShadowTableRule" where
  "ShadowVisitor_VisitShadowTableRule ctx =
     \<lparr>str_TableName = map_option ShadowVisitor_VisitTableName (the_rule ''tableName'' ctx),
      str_AllAlgorithmDefinition = map (\<lambda>a. Some (ShadowVisitor_VisitAlgorithmDefinition a)) (all_rules ''algorithmDefinition'' ctx)\<rparr>"

text \<open>The keyword \<^verbatim>\<open>SHADOW\<close> is looked for, and the child \<^verbatim>\<open>shadow\<close> then taken without looking.\<close>

definition ShadowVisitor_VisitShadowRuleDefinition :: "tree \<Rightarrow> ShadowRuleDefinition outcome" where
  "ShadowVisitor_VisitShadowRuleDefinition ctx =
     bind_oc (case token ''SHADOW'' ctx of
         Some _ \<Rightarrow> (case the_rule ''shadow'' ctx of
             Some c \<Rightarrow> Ok (Some (ShadowVisitor_VisitShadow c))
           | None \<Rightarrow> Panic ''interface conversion: interface is nil, not *parser.ShadowContext'')
       | None \<Rightarrow> Ok None) (\<lambda>shadow.
       Ok \<lparr>srd_RuleName = map_option ShadowVisitor_VisitRuleName (the_rule ''ruleName'' ctx),
           srd_Source = map_option ShadowVisitor_VisitSource (the_rule ''source'' ctx),
           srd_Shadow = shadow,
           srd_AllShadowTableRule = map (\<lambda>r. Some (ShadowVisitor_VisitShadowTableRule r)) (all_rules ''shadowTableRule'' ctx)\<rparr>)"

definition ShadowVisitor_VisitCreateShadowRule :: "tree \<Rightarrow> CreateShadowRule outcome" where
  "ShadowVisitor_VisitCreateShadowRule ctx =
     bind_oc (visit_opt ShadowVisitor_VisitIfNotExists (the_rule ''ifNotExists'' ctx)) (\<lambda>ifNotExists.
     bind_oc (map_oc ShadowVisitor_VisitShadowRuleDefinition (all_rules ''shadowRuleDefinition'' ctx)) (\<lambda>rules.
       Ok \<lparr>csr_IfNotExists = ifNotExists, csr_AllShadowRuleDefinition = map Some rules\<rparr>))"

definition ShadowVisitor_VisitAlterShadowRule :: "tree \<Rightarrow> AlterShadowRule outcome" where
  "ShadowVisitor_VisitAlterShadowRule ctx =
     bind_oc (map_oc ShadowVisitor_VisitShadowRuleDefinition (all_rules ''shadowRuleDefinition'' ctx)) (\<lambda>rules.
       Ok \<lparr>asr_AllShadowRuleDefinition = map Some rules\<rparr>)"

definition ShadowVisitor_VisitDropShadowRule :: "tree \<Rightarrow> DropShadowRule outcome" where
  "ShadowVisitor_VisitDropShadowRule ctx =
     bind_oc (visit_opt ShadowVisitor_VisitIfExists (the_rule ''ifExists'' ctx)) (\<lambda>ifExists.
       Ok \<lparr>dsr_IfExists = ifExists,
           dsr_AllRuleName = map (\<lambda>r. Some (ShadowVisitor_VisitRuleName r)) (all_rules ''ruleName'' ctx)\<rparr>)"

definition ShadowVisitor_VisitDropShadowAlgorithm :: "tree \<Rightarrow> DropShadowAlgorithm outcome" where
  "ShadowVisitor_VisitDropShadowAlgorithm ctx =
     bind_oc (visit_opt ShadowVisitor_VisitIfExists (the_rule ''ifExists'' ctx)) (\<lambda>ifExists.
       Ok \<lparr>dsa_IfExists = ifExists,
           dsa_AllAlgorithmName = map (\<lambda>a. Some (ShadowVisitor_VisitAlgorithmName a)) (all_rules ''algorithmName'' ctx)\<rparr>)"

definition ShadowVisitor_VisitCreateDefaultShadowAlgorithm :: "tree \<Rightarrow> CreateDefaultShadowAlgorithm outcome" where
  "ShadowVisitor_VisitCreateDefaultShadowAlgorithm ctx =
     bind_oc (visit_opt ShadowVisitor_VisitIfNotExists (the_rule ''ifNotExists'' ctx)) (\<lambda>ifNotExists.
       Ok \<lparr>cdsa_IfNotExists = ifNotExists,
           cdsa_AlgorithmDefinition = map_option ShadowVisitor_VisitAlgorithmDefinition (the_rule ''algorithmDefinition'' ctx)\<rparr>)"

definition ShadowVisitor_VisitDropDefaultShadowAlgorithm :: "tree \<Rightarrow> DropDefaultShadowAlgorithm outcome" where
  "ShadowVisitor_VisitDropDefaultShadowAlgorithm ctx =
     bind_oc (visit_opt ShadowVisitor_VisitIfExists (the_rule ''ifExists'' ctx)) (\<lambda>ifExists. Ok \<lparr>ddsa_IfExists = ifExists\<rparr>)"

definition ShadowVisitor_VisitAlterDefaultShadowAlgorithm :: "tree \<Rightarrow> AlterDefaultShadowAlgorithm" where
  "ShadowVisitor_VisitAlterDefaultShadowAlgorithm ctx =
     \<lparr>adsa_AlgorithmDefinition = map_option ShadowVisitor_VisitAlgorithmDefinition (the_rule ''algorithmDefinition'' ctx)\<rparr>"

section \<open>The grammar\<close>

definition shadow_grammar :: "string \<Rightarrow> ebnf" where
  "shadow_grammar r = rule_of
    [(''createShadowRule'', Seq [T ''CREATE'', T ''SHADOW'', T ''RULE'', Opt (N ''ifNotExists''), comma_list ''shadowRuleDefinition'']),
     (''alterShadowRule'', Seq [T ''ALTER'', T ''SHADOW'', T ''RULE'', comma_list ''shadowRuleDefinition'']),
     (''dropShadowRule'', Seq [T ''DROP'', T ''SHADOW'', T ''RULE'', drop_list ''ruleName'']),
     (''dropShadowAlgorithm'', Seq [T ''DROP'', T ''SHADOW'', T ''ALGORITHM'', drop_list ''algorithmName'']),
     (''createDefaultShadowAlgorithm'', Seq [T ''CREATE'', T ''DEFAULT'', T ''SHADOW'', T ''ALGORITHM'', Opt (N ''ifNotExists''),
        N ''algorithmDefinition'']),
     (''dropDefaultShadowAlgorithm'', Seq [T ''DROP'', T ''DEFAULT'', T ''SHADOW'', T ''ALGORITHM'', Opt (N ''ifExists'')]),
     (''alterDefaultShadowAlgorithm'', Seq [T ''ALTER'', T ''DEFAULT'', T ''SHADOW'', T ''ALGORITHM'', N ''algorithmDefinition'']),
     (''shadowRuleDefinition'', Seq [N ''ruleName'', T ''LP_'', T ''SOURCE'', T ''EQ_'', N ''source'', T ''COMMA_'', T ''SHADOW'', T ''EQ_'',
        N ''shadow'', T ''COMMA_'', comma_list ''shadowTableRule'', T ''RP_'']),
     (''shadowTableRule'', Seq [N ''tableName'', T ''LP_'', comma_list ''algorithmDefinition'', T ''RP_'']),
     (''source'', T ''IDENTIFIER_''),
     (''shadow'', T ''IDENTIFIER_''),
     (''tableName'', T ''IDENTIFIER_''),
     (''algorithmName'', T ''IDENTIFIER_''),
     (''ruleName'', T ''IDENTIFIER_''),
     (''ifExists'', Seq [T ''IF'', T ''EXISTS'']),
     (''ifNotExists'', Seq [T ''IF'', T ''NOT'', T ''EXISTS'']),
     (''literal'', Alt [T ''STRING_'', Seq [Opt (T ''MINUS_''), T ''INT_''], T ''TRUE'', T ''FALSE'']),
     (''algorithmDefinition'', Seq [T ''TYPE'', T ''LP_'', T ''NAME'', T ''EQ_'', N ''algorithmTypeName'',
        Opt (Seq [T ''COMMA_'', N ''propertiesDefinition'']), T ''RP_'']),
     (''algorithmTypeName'', Alt [T ''STRING_'', N ''buildInShadowAlgorithmType'']),
     (''buildInShadowAlgorithmType'', Alt [T ''VALUE_MATCH'', T ''REGEX_MATCH'', T ''SQL_HINT'']),
     (''propertiesDefinition'', Seq [T ''PROPERTIES'', T ''LP_'', Opt (N ''properties''), T ''RP_'']),
     (''properties'', comma_list ''property''),
     (''property'', Seq [T ''STRING_'', T ''EQ_'', N ''literal''])] r"

lemmas shadow_G = shadow_grammar_def

interpretation shadow_alg: algorithm_visitor shadow_grammar ShadowVisitor_VisitLiteral ShadowVisitor_VisitProperty
  ShadowVisitor_VisitProperties ShadowVisitor_VisitPropertiesDefinition ShadowVisitor_VisitAlgorithmTypeName ShadowVisitor_VisitAlgorithmDefinition
proof (unfold_locales, goal_cases)
  case (11 cs)
  then show ?case
    by (auto simp: shadow_G derives_N ShadowVisitor_VisitAlgorithmTypeName_def tree_access AlgorithmTypeName_ToString_def
        ShadowVisitor_VisitBuildInShadowAlgorithmType_def leaf_printers lexeme_keyword keyword_defs char_class_defs spells_keyword spells_string string_lit_def)
qed (simp_all add: shadow_G ShadowVisitor_VisitLiteral_def ShadowVisitor_VisitProperty_def ShadowVisitor_VisitProperties_def
    ShadowVisitor_VisitPropertiesDefinition_def ShadowVisitor_VisitAlgorithmDefinition_def)

interpretation shadow_drop: drop_visitor shadow_grammar ShadowVisitor_VisitIfExists ShadowVisitor_VisitIfNotExists
  "''ruleName''" ShadowVisitor_VisitRuleName
  by unfold_locales (simp_all add: shadow_G ShadowVisitor_VisitIfExists_def ShadowVisitor_VisitIfNotExists_def ShadowVisitor_VisitRuleName_def)

interpretation shadow_drop_algorithm: drop_visitor shadow_grammar ShadowVisitor_VisitIfExists ShadowVisitor_VisitIfNotExists
  "''algorithmName''" ShadowVisitor_VisitAlgorithmName
  by unfold_locales (simp_all add: shadow_G ShadowVisitor_VisitIfExists_def ShadowVisitor_VisitIfNotExists_def ShadowVisitor_VisitAlgorithmName_def)

section \<open>Statements that come back\<close>

text \<open>
  Every \<^verbatim>\<open>DROP SHADOW RULE\<close> statement comes back from visiting and printing with the tokens it
  had.
\<close>

theorem drop_shadow_roundtrip:
  assumes "derives shadow_grammar (N ''dropShadowRule'') [t]"
  shows "\<exists>r s. ShadowVisitor_VisitDropShadowRule t = Ok r \<and> DropShadowRule_ToString r = Ok s \<and> spells s (terminals t)"
  using shadow_drop.drop_statement [OF assms, of "[''DROP'', ''SHADOW'', ''RULE'']"]
  by (auto simp: shadow_G heading_def keyword_defs char_class_defs ShadowVisitor_VisitDropShadowRule_def DropShadowRule_ToString_def)

lemma drop_shadow_algorithm_roundtrip:
  assumes "derives shadow_grammar (N ''dropShadowAlgorithm'') [t]"
  shows "\<exists>r s. ShadowVisitor_VisitDropShadowAlgorithm t = Ok r \<and> DropShadowAlgorithm_ToString r = Ok s \<and> spells s (terminals t)"
  using shadow_drop_algorithm.drop_statement [OF assms, of "[''DROP'', ''SHADOW'', ''ALGORITHM'']"]
  by (auto simp: shadow_G heading_def keyword_defs char_class_defs ShadowVisitor_VisitDropShadowAlgorithm_def DropShadowAlgorithm_ToString_def)

lemma alter_default_shadow_roundtrip:
  assumes "derives shadow_grammar (N ''alterDefaultShadowAlgorithm'') [t]" and "simple t"
  shows "\<exists>s. AlterDefaultShadowAlgorithm_ToString (ShadowVisitor_VisitAlterDefaultShadowAlgorithm t) = Ok s \<and> spells s (terminals t)"
proof -
  from assms(1) obtain w x y z as where
    t: "t = Node ''alterDefaultShadowAlgorithm'' [Terminal ''ALTER'' w, Terminal ''DEFAULT'' x, Terminal ''SHADOW'' y, Terminal ''ALGORITHM'' z,
        Node ''algorithmDefinition'' as]" and as: "derives shadow_grammar (shadow_grammar ''algorithmDefinition'') as"
    by (auto simp: shadow_grammar_def [of "''alterDefaultShadowAlgorithm''"] derives_N)
  from shadow_alg.algorithmDefinition_prints [OF as] assms(2) show ?thesis
    by (auto simp: t ShadowVisitor_VisitAlterDefaultShadowAlgorithm_def tree_access AlterDefaultShadowAlgorithm_ToString_def spelling_simps)
qed

section \<open>Statements that crash\<close>

text \<open>
  A \<^verbatim>\<open>CREATE DEFAULT SHADOW ALGORITHM\<close> statement with \<^verbatim>\<open>IF NOT EXISTS\<close> comes back with the
  tokens it had; without that clause, which the grammar makes optional, the printer dereferences
  a nil pointer.
\<close>

theorem create_default_shadow_needs_clause:
  assumes "derives shadow_grammar (N ''createDefaultShadowAlgorithm'') [t]" and "simple t"
  shows "\<exists>r. ShadowVisitor_VisitCreateDefaultShadowAlgorithm t = Ok r \<and>
    (if the_rule ''ifNotExists'' t = None then CreateDefaultShadowAlgorithm_ToString r = Panic nil_dereference
     else \<exists>s. CreateDefaultShadowAlgorithm_ToString r = Ok s \<and> spells s (terminals t))"
proof -
  from assms(1) obtain w x y z es as where
    t: "t = Node ''createDefaultShadowAlgorithm'' ([Terminal ''CREATE'' w, Terminal ''DEFAULT'' x, Terminal ''SHADOW'' y, Terminal ''ALGORITHM'' z] @
        es @ [Node ''algorithmDefinition'' as])" and as: "derives shadow_grammar (shadow_grammar ''algorithmDefinition'') as"
    and es: "derives shadow_grammar (Opt (N ''ifNotExists'')) es"
    by (auto simp: shadow_grammar_def [of "''createDefaultShadowAlgorithm''"] derives_N)
  have "list_all simple as" using assms(2) by (auto simp: t)
  from shadow_alg.algorithmDefinition_prints [OF as this] obtain a where
    a: "AlgorithmDefinition_ToString (ShadowVisitor_VisitAlgorithmDefinition (Node ''algorithmDefinition'' as)) = Ok a" "spells a (terms as)" by blast
  from shadow_drop.ifNotExists_prints [OF es] obtain p e where
    p: "visit_opt ShadowVisitor_VisitIfNotExists (case filter (is_rule ''ifNotExists'') es of [] \<Rightarrow> None | c # _ \<Rightarrow> Some c) = Ok p"
    "if_set IfNotExists_ToString p = Ok e" "spells e (terms es)" by blast
  have "es = [] \<and> p = None \<or> (\<exists>cs q. es = [Node ''ifNotExists'' cs] \<and> p = Some q)"
    using es p(1) by (auto simp: derives_Opt derives_N bind_oc_Ok_iff)
  with a p show ?thesis
    by (auto simp: t ShadowVisitor_VisitCreateDefaultShadowAlgorithm_def tree_access CreateDefaultShadowAlgorithm_ToString_def spelling_simps)
qed

lemma drop_default_shadow_needs_clause:
  assumes "derives shadow_grammar (N ''dropDefaultShadowAlgorithm'') [t]" and "the_rule ''ifExists'' t = None"
  shows "\<exists>r. ShadowVisitor_VisitDropDefaultShadowAlgorithm t = Ok r \<and> DropDefaultShadowAlgorithm_ToString r = Panic nil_dereference"
  using assms by (auto simp: ShadowVisitor_VisitDropDefaultShadowAlgorithm_def DropDefaultShadowAlgorithm_ToString_def)

lemma ShadowRuleDefinition_overflows: "srd_Source d \<noteq> None \<Longrightarrow> ShadowRuleDefinition_ToString stk d \<noteq> Ok s"
proof (induction stk arbitrary: s)
  case (Suc stk)
  then show ?case by (auto simp: bind_oc_Ok_iff)
qed simp

lemma shadow_rule_visited:
  assumes "derives shadow_grammar (shadow_grammar ''shadowRuleDefinition'') cs"
  shows "\<exists>d. ShadowVisitor_VisitShadowRuleDefinition (Node q cs) = Ok d \<and> srd_Source d \<noteq> None"
proof -
  from assms obtain a b c d e f rs where
    cs: "cs = [Node ''ruleName'' a, Terminal ''LP_'' ''('', Terminal ''SOURCE'' b, Terminal ''EQ_'' ''='', Node ''source'' c, Terminal ''COMMA_'' '','',
       Terminal ''SHADOW'' d, Terminal ''EQ_'' ''='', Node ''shadow'' e, Terminal ''COMMA_'' '',''] @ rs @ [Terminal ''RP_'' '')'']"
    by (auto simp: shadow_grammar_def [of "''shadowRuleDefinition''"] derives_N)
  then show ?thesis by (simp add: cs ShadowVisitor_VisitShadowRuleDefinition_def tree_access)
qed

text \<open>
  No \<^verbatim>\<open>CREATE SHADOW RULE\<close> statement is ever printed. The visitor accepts every one of them,
  but the printer of the rules calls itself where it should print the source, and uses up any
  number of stack frames.
\<close>

theorem shadow_rule_never_prints:
  assumes "derives shadow_grammar (N ''createShadowRule'') [t]"
  shows "\<exists>r. ShadowVisitor_VisitCreateShadowRule t = Ok r \<and> (\<forall>stk s. CreateShadowRule_ToString stk r \<noteq> Ok s)"
proof -
  from assms obtain x y z es rs where
    t: "t = Node ''createShadowRule'' ([Terminal ''CREATE'' x, Terminal ''SHADOW'' y, Terminal ''RULE'' z] @ es @ rs)"
    and es: "derives shadow_grammar (Opt (N ''ifNotExists'')) es" and rs: "derives shadow_grammar (comma_list ''shadowRuleDefinition'') rs"
    by (auto simp: shadow_grammar_def [of "''createShadowRule''"] derives_N)
  from rs obtain css where css: "css \<noteq> []" "rs = comma_trees (map (Node ''shadowRuleDefinition'') css)"
    "\<forall>cs \<in> set css. derives shadow_grammar (shadow_grammar ''shadowRuleDefinition'') cs" by (auto simp: derives_comma_list)
  have none: "filter (is_rule ''shadowRuleDefinition'') es = []" using es by (auto simp: derives_Opt derives_N)
  from shadow_drop.ifNotExists_prints [OF es] obtain p where
    p: "visit_opt ShadowVisitor_VisitIfNotExists (case filter (is_rule ''ifNotExists'') es of [] \<Rightarrow> None | c # _ \<Rightarrow> Some c) = Ok p" by blast
  have "\<exists>ds. map_oc ShadowVisitor_VisitShadowRuleDefinition (map (Node ''shadowRuleDefinition'') css) = Ok ds \<and>
      length ds = length css \<and> (\<forall>d \<in> set ds. srd_Source d \<noteq> None)"
    using css(3)
  proof (induction css)
    case (Cons cs css)
    then obtain ds where ds: "map_oc ShadowVisitor_VisitShadowRuleDefinition (map (Node ''shadowRuleDefinition'') css) = Ok ds"
        "length ds = length css" "\<forall>d \<in> set ds. srd_Source d \<noteq> None" by auto
    from Cons.prems shadow_rule_visited [of cs "''shadowRuleDefinition''"] obtain d where
      "ShadowVisitor_VisitShadowRuleDefinition (Node ''shadowRuleDefinition'' cs) = Ok d" "srd_Source d \<noteq> None" by auto
    with ds show ?case by simp
  qed simp
  then obtain ds where ds: "map_oc ShadowVisitor_VisitShadowRuleDefinition (map (Node ''shadowRuleDefinition'') css) = Ok ds"
    "length ds = length css" "\<forall>d \<in> set ds. srd_Source d \<noteq> None" by blast
  then obtain d ds' where "ds = d # ds'" "srd_Source d \<noteq> None" using css(1) by (cases ds) auto
  then have "join_all (ShadowRuleDefinition_ToString stk) (map Some ds) \<noteq> Ok s" for stk s
    using ShadowRuleDefinition_overflows by (auto simp: join_all_def bind_oc_Ok_iff)
  then show ?thesis
    using p ds(1) none by (auto simp: t css(2) ShadowVisitor_VisitCreateShadowRule_def CreateShadowRule_ToString_def tree_access bind_oc_Ok_iff)
qed

section \<open>Witnesses\<close>

definition demo_drop_shadow :: tree where
  "demo_drop_shadow = Node ''dropShadowRule'' [kw ''DROP'', kw ''SHADOW'', kw ''RULE'',
     Node ''ifExists'' [kw ''IF'', kw ''EXISTS''], name_node ''ruleName'' ''shadow_rule'']"

definition demo_hint :: "tree list" where
  "demo_hint = [kw ''TYPE'', lp, kw ''NAME'', eq, Node ''algorithmTypeName'' [Node ''buildInShadowAlgorithmType'' [kw ''SQL_HINT'']], rp]"

definition demo_default_shadow :: tree where
  "demo_default_shadow = Node ''createDefaultShadowAlgorithm''
     [kw ''CREATE'', kw ''DEFAULT'', kw ''SHADOW'', kw ''ALGORITHM'', Node ''algorithmDefinition'' demo_hint]"

definition demo_create_shadow :: tree where
  "demo_create_shadow = Node ''createShadowRule'' [kw ''CREATE'', kw ''SHADOW'', kw ''RULE'', Node ''shadowRuleDefinition''
     [name_node ''ruleName'' ''shadow_rule'', lp, kw ''SOURCE'', eq, name_node ''source'' ''ds'', comma, kw ''SHADOW'', eq,
      name_node ''shadow'' ''ds_shadow'', comma, Node ''shadowTableRule'' [name_node ''tableName'' ''t_order'', lp,
        Node ''algorithmDefinition'' demo_hint, rp], rp]]"

lemmas shadow_recognise = deriving deriving_Seq drop_list_def example_defs shadow_G

lemma demo_hint_derived: "derives shadow_grammar (shadow_grammar ''algorithmDefinition'') demo_hint"
  by (simp add: demo_hint_def shadow_recognise del: derives_Cons derives_T derives_Alt derives_Nil)

lemma demo_shadow_derived:
  "derives shadow_grammar (N ''dropShadowRule'') [demo_drop_shadow]"
  "derives shadow_grammar (N ''createDefaultShadowAlgorithm'') [demo_default_shadow]"
  "derives shadow_grammar (N ''createShadowRule'') [demo_create_shadow]"
proof -
  show "derives shadow_grammar (N ''dropShadowRule'') [demo_drop_shadow]"
    by (simp add: demo_drop_shadow_def shadow_recognise del: derives_Cons derives_T derives_Alt derives_Nil)
  show "derives shadow_grammar (N ''createDefaultShadowAlgorithm'') [demo_default_shadow]"
    using demo_hint_derived
    by (simp add: demo_default_shadow_def deriving deriving_Seq kw_def lexeme_keyword keyword_defs char_class_defs
        shadow_grammar_def [of "''createDefaultShadowAlgorithm''"] del: derives_Cons derives_T derives_Alt derives_Nil)
  show "derives shadow_grammar (N ''createShadowRule'') [demo_create_shadow]"
    using demo_hint_derived
    by (simp add: demo_create_shadow_def deriving deriving_Seq example_defs shadow_grammar_def [of "''createShadowRule''"]
        shadow_grammar_def [of "''shadowRuleDefinition''"] shadow_grammar_def [of "''shadowTableRule''"] shadow_grammar_def [of "''source''"]
        shadow_grammar_def [of "''shadow''"] shadow_grammar_def [of "''tableName''"] shadow_grammar_def [of "''ruleName''"]
        del: derives_Cons derives_T derives_Alt derives_Nil)
qed

theorem drop_shadow_roundtrip_witness:
  "\<exists>r s. ShadowVisitor_VisitDropShadowRule demo_drop_shadow = Ok r \<and> DropShadowRule_ToString r = Ok s \<and> spells s (terminals demo_drop_shadow)"
  by (rule drop_shadow_roundtrip [OF demo_shadow_derived(1)])

theorem create_default_shadow_needs_clause_witness:
  "\<exists>r. ShadowVisitor_VisitCreateDefaultShadowAlgorithm demo_default_shadow = Ok r \<and>
    CreateDefaultShadowAlgorithm_ToString r = Panic nil_dereference"
  using create_default_shadow_needs_clause [OF demo_shadow_derived(2)]
  by (simp add: demo_default_shadow_def demo_hint_def tree_access kw_def)

theorem shadow_rule_never_prints_witness:
  "\<exists>r. ShadowVisitor_VisitCreateShadowRule demo_create_shadow = Ok r \<and> (\<forall>stk s. CreateShadowRule_ToString stk r \<noteq> Ok s)"
  by (rule shadow_rule_never_prints [OF demo_shadow_derived(3)])

end
