(* ===== verification/Distsql_Mask.thy ===== *)
theory Distsql_Mask
  imports Distsql_Statements
begin

text \<open>
  The mask rule statements: the grammar \<^verbatim>\<open>antlr4/mask/*.g4\<close>, the syntax tree and its printers in
  \<^verbatim>\<open>ast/mask_rdl_ast.go\<close>, and \<^verbatim>\<open>MaskVisitor\<close> in \<^verbatim>\<open>visitor/mask_rdl.go\<close>. What is printed is never
  what was parsed: the keyword \<^verbatim>\<open>RULE\<close> is lost from statements that drop, and the visitor forgets
  the columns of a rule.
\<close>

section \<open>Syntax trees\<close>

record MaskRuleDefinition =
  mrd_RuleName :: "CommonIdentifier ptr"
  mrd_ColumnDefinition :: "ColumnDefinition ptr list"

record CreateMaskRule =
  cmr_AllMaskRuleDefinition :: "MaskRuleDefinition ptr list"
  cmr_Table :: string
  cmr_IfNotExists :: "IfNotExists ptr"

record AlterMaskRule =
  amr_Table :: string
  amr_AllMaskRuleDefinition :: "MaskRuleDefinition ptr list"

record DropMaskRule =
  dmr_IfExists :: "IfExists ptr"
  dmr_Table :: string
  dmr_AllRuleName :: "CommonIdentifier ptr list"

section \<open>Printers\<close>

definition MaskRuleDefinition_ToString :: "MaskRuleDefinition \<Rightarrow> string outcome" where
  "MaskRuleDefinition_ToString d =
     bind_oc (join_all ColumnDefinition_ToString (mrd_ColumnDefinition d)) (\<lambda>columns.
     bind_oc (deref CommonIdentifier_ToString (mrd_RuleName d)) (\<lambda>name.
       Ok (name @ '' (( '' @ columns @ '' ))'')))"

definition CreateMaskRule_ToString :: "CreateMaskRule \<Rightarrow> string outcome" where
  "CreateMaskRule_ToString r =
     bind_oc (if_set (\<lambda>e. bind_oc (IfNotExists_ToString e) (\<lambda>s. Ok ('' '' @ s))) (cmr_IfNotExists r)) (\<lambda>ifNotExists.
     bind_oc (join_all MaskRuleDefinition_ToString (cmr_AllMaskRuleDefinition r)) (\<lambda>rules.
       Ok (''CREATE MASK'' @ (if cmr_Table r \<noteq> [] then '' '' @ cmr_Table r else []) @ ifNotExists @ '' '' @ rules)))"

definition AlterMaskRule_ToString :: "AlterMaskRule \<Rightarrow> string outcome" where
  "AlterMaskRule_ToString r =
     bind_oc (join_all MaskRuleDefinition_ToString (amr_AllMaskRuleDefinition r)) (\<lambda>rules.
       Ok (''ALTER MASK '' @ amr_Table r @ '' RULE'' @ '' '' @ rules))"

definition DropMaskRule_ToString :: "DropMaskRule \<Rightarrow> string outcome" where
  "DropMaskRule_ToString r =
     bind_oc (if_set (\<lambda>e. bind_oc (IfExists_ToString e) (\<lambda>s. Ok ('' '' @ s))) (dmr_IfExists r)) (\<lambda>ifExists.
     bind_oc (join_all CommonIdentifier_ToString (dmr_AllRuleName r)) (\<lambda>names.
       Ok (''DROP MASK'' @ (if dmr_Table r \<noteq> [] then '' '' @ dmr_Table r else []) @ ifExists @ '' '' @ names)))"

section \<open>The visitor\<close>

definition MaskVisitor_VisitIfExists :: "tree \<Rightarrow> IfExists outcome" where
  "MaskVisitor_VisitIfExists ctx =
     bind_oc (GetText (token ''IF'' ctx)) (\<lambda>a. bind_oc (GetText (token ''EXISTS'' ctx)) (\<lambda>b.
       Ok \<lparr>ie_IfExists = a @ '' '' @ b\<rparr>))"

definition MaskVisitor_VisitIfNotExists :: "tree \<Rightarrow> IfNotExists outcome" where
  "MaskVisitor_VisitIfNotExists ctx =
     bind_oc (GetText (token ''IF'' ctx)) (\<lambda>a. bind_oc (GetText (token ''NOT'' ctx)) (\<lambda>b.
     bind_oc (GetText (token ''EXISTS'' ctx)) (\<lambda>c. Ok \<lparr>ine_IfNotExists = a @ '' '' @ b @ '' '' @ c\<rparr>)))"

definition MaskVisitor_VisitRuleName :: "tree \<Rightarrow> CommonIdentifier" where
  "MaskVisitor_VisitRuleName ctx = \<lparr>ci_Identifier = token_text ''IDENTIFIER_'' ctx\<rparr>"

definition MaskVisitor_VisitColumnName :: "tree \<Rightarrow> CommonIdentifier" where
  "MaskVisitor_VisitColumnName ctx = \<lparr>ci_Identifier = token_text ''IDENTIFIER_'' ctx\<rparr>"

definition MaskVisitor_VisitLiteral :: "tree \<Rightarrow> Literal" where
  "MaskVisitor_VisitLiteral ctx =
     \<lparr>lit_Literal = first_token [''STRING_'', ''MINUS_'', ''INT_'', ''TRUE'', ''FALSE''] ctx\<rparr>"

definition MaskVisitor_VisitProperty :: "tree \<Rightarrow> Property" where
  "MaskVisitor_VisitProperty ctx =
     \<lparr>prop_Key = token_text ''STRING_'' ctx,
      prop_Literal = map_option MaskVisitor_VisitLiteral (the_rule ''literal'' ctx)\<rparr>"

definition MaskVisitor_VisitProperties :: "tree \<Rightarrow> Properties" where
  "MaskVisitor_VisitProperties ctx =
     \<lparr>props_Properties = map (\<lambda>p. Some (MaskVisitor_VisitProperty p)) (all_rules ''property'' ctx)\<rparr>"

definition MaskVisitor_VisitPropertiesDefinition :: "tree \<Rightarrow> PropertiesDefinition" where
  "MaskVisitor_VisitPropertiesDefinition ctx =
     \<lparr>pd_Properties = map_option MaskVisitor_VisitProperties (the_rule ''properties'' ctx)\<rparr>"

definition MaskVisitor_VisitBuildInMaskAlgorithmType :: "tree \<Rightarrow> BuildinAlgorithmTypeName" where
  "MaskVisitor_VisitBuildInMaskAlgorithmType ctx =
     \<lparr>batn_AlgorithmTypeName = first_token [''MD5'', ''KEEP_FIRST_N_LAST_M'', ''KEEP_FROM_X_TO_Y'', ''MASK_FIRST_N_LAST_M'', ''MASK_FROM_X_TO_Y'', ''MASK_BEFORE_SPECIAL_CHARS'', ''MASK_AFTER_SPECIAL_CHARS'', ''PERSONAL_IDENTITY_NUMBER_RANDOM_REPLACE'', ''MILITARY_IDENTITY_NUMBER_RANDOM_REPLACE'', ''LANDLINE_NUMBER_RANDOM_REPLACE'', ''TELEPHONE_RANDOM_REPLACE'', ''UNIFIED_CREDIT_CODE_RANDOM_REPLACE'', ''GENERIC_TABLE_RANDOM_REPLACE''] ctx\<rparr>"

definition MaskVisitor_VisitAlgorithmTypeName :: "tree \<Rightarrow> AlgorithmTypeName" where
  "MaskVisitor_VisitAlgorithmTypeName ctx =
     (case token ''STRING_'' ctx of
        Some x \<Rightarrow> \<lparr>atn_BuildinAlgorithmTypeName = None, atn_String = x\<rparr>
      | None \<Rightarrow> \<lparr>atn_BuildinAlgorithmTypeName = map_option MaskVisitor_VisitBuildInMaskAlgorithmType (the_rule ''buildInMaskAlgorithmType'' ctx), atn_String = []\<rparr>)"

definition MaskVisitor_VisitAlgorithmDefinition :: "tree \<Rightarrow> AlgorithmDefinition" where
  "MaskVisitor_VisitAlgorithmDefinition ctx =
     \<lparr>ad_AlgorithmTypeName = map_option MaskVisitor_VisitAlgorithmTypeName (the_rule ''algorithmTypeName'' ctx),
      ad_PropertiesDefinition = map_option MaskVisitor_VisitPropertiesDefinition (the_rule ''propertiesDefinition'' ctx)\<rparr>"

text \<open>Only the name of a column is kept, and of a rule only its name.\<close>

definition MaskVisitor_VisitColumnDefinition :: "tree \<Rightarrow> ColumnDefinition" where
  "MaskVisitor_VisitColumnDefinition ctx =
     \<lparr>cd_ColumnName = map_option MaskVisitor_VisitColumnName (the_rule ''columnName'' ctx), cd_DataType = None\<rparr>"

definition MaskVisitor_VisitMaskRuleDefinition :: "tree \<Rightarrow> MaskRuleDefinition" where
  "MaskVisitor_VisitMaskRuleDefinition ctx =
     \<lparr>mrd_RuleName = map_option MaskVisitor_VisitRuleName (the_rule ''ruleName'' ctx), mrd_ColumnDefinition = []\<rparr>"

definition MaskVisitor_VisitCreateMaskRule :: "tree \<Rightarrow> CreateMaskRule outcome" where
  "MaskVisitor_VisitCreateMaskRule ctx =
     bind_oc (visit_opt MaskVisitor_VisitIfNotExists (the_rule ''ifNotExists'' ctx)) (\<lambda>ifNotExists.
       Ok \<lparr>cmr_AllMaskRuleDefinition = map (\<lambda>r. Some (MaskVisitor_VisitMaskRuleDefinition r)) (all_rules ''maskRuleDefinition'' ctx),
           cmr_Table = token_text ''TABLE'' ctx, cmr_IfNotExists = ifNotExists\<rparr>)"

definition MaskVisitor_VisitAlterMaskRule :: "tree \<Rightarrow> AlterMaskRule" where
  "MaskVisitor_VisitAlterMaskRule ctx =
     \<lparr>amr_Table = token_text ''TABLE'' ctx,
      amr_AllMaskRuleDefinition = map (\<lambda>r. Some (MaskVisitor_VisitMaskRuleDefinition r)) (all_rules ''maskRuleDefinition'' ctx)\<rparr>"

definition MaskVisitor_VisitDropMaskRule :: "tree \<Rightarrow> DropMaskRule outcome" where
  "MaskVisitor_VisitDropMaskRule ctx =
     bind_oc (visit_opt MaskVisitor_VisitIfExists (the_rule ''ifExists'' ctx)) (\<lambda>ifExists.
       Ok \<lparr>dmr_IfExists = ifExists, dmr_Table = token_text ''TABLE'' ctx,
           dmr_AllRuleName = map (\<lambda>r. Some (MaskVisitor_VisitRuleName r)) (all_rules ''ruleName'' ctx)\<rparr>)"

section \<open>The grammar\<close>

definition mask_grammar :: "string \<Rightarrow> ebnf" where
  "mask_grammar r = rule_of
    [(''createMaskRule'', Seq [T ''CREATE'', T ''MASK'', Opt (T ''TABLE''), T ''RULE'', Opt (N ''ifNotExists''), comma_list ''maskRuleDefinition'']),
     (''alterMaskRule'', Seq [T ''ALTER'', T ''MASK'', Opt (T ''TABLE''), T ''RULE'', comma_list ''maskRuleDefinition'']),
     (''dropMaskRule'', Seq [T ''DROP'', T ''MASK'', Opt (T ''TABLE''), T ''RULE'', drop_list ''ruleName'']),
     (''maskRuleDefinition'', Seq [N ''ruleName'', T ''LP_'', T ''COLUMNS'', T ''LP_'', comma_list ''columnDefinition'', T ''RP_'', T ''RP_'']),
     (''columnDefinition'', Seq [T ''LP_'', T ''NAME'', T ''EQ_'', N ''columnName'', T ''COMMA_'', N ''algorithmDefinition'', T ''RP_'']),
     (''columnName'', T ''IDENTIFIER_''),
     (''ruleName'', T ''IDENTIFIER_''),
     (''ifExists'', Seq [T ''IF'', T ''EXISTS'']),
     (''ifNotExists'', Seq [T ''IF'', T ''NOT'', T ''EXISTS'']),
     (''literal'', Alt [T ''STRING_'', Seq [Opt (T ''MINUS_''), T ''INT_''], T ''TRUE'', T ''FALSE'']),
     (''algorithmDefinition'', Seq [T ''TYPE'', T ''LP_'', T ''NAME'', T ''EQ_'', N ''algorithmTypeName'',
        Opt (Seq [T ''COMMA_'', N ''propertiesDefinition'']), T ''RP_'']),
     (''algorithmTypeName'', Alt [T ''STRING_'', N ''buildInMaskAlgorithmType'']),
     (''buildInMaskAlgorithmType'', Alt [T ''MD5'', T ''KEEP_FIRST_N_LAST_M'', T ''KEEP_FROM_X_TO_Y'', T ''MASK_FIRST_N_LAST_M'', T ''MASK_FROM_X_TO_Y'', T ''MASK_BEFORE_SPECIAL_CHARS'', T ''MASK_AFTER_SPECIAL_CHARS'', T ''PERSONAL_IDENTITY_NUMBER_RANDOM_REPLACE'', T ''MILITARY_IDENTITY_NUMBER_RANDOM_REPLACE'', T ''LANDLINE_NUMBER_RANDOM_REPLACE'', T ''TELEPHONE_RANDOM_REPLACE'', T ''UNIFIED_CREDIT_CODE_RANDOM_REPLACE'', T ''GENERIC_TABLE_RANDOM_REPLACE'']),
     (''propertiesDefinition'', Seq [T ''PROPERTIES'', T ''LP_'', Opt (N ''properties''), T ''RP_'']),
     (''properties'', comma_list ''property''),
     (''property'', Seq [T ''STRING_'', T ''EQ_'', N ''literal''])] r"

lemmas mask_G = mask_grammar_def

interpretation mask_alg: algorithm_visitor mask_grammar MaskVisitor_VisitLiteral MaskVisitor_VisitProperty
  MaskVisitor_VisitProperties MaskVisitor_VisitPropertiesDefinition MaskVisitor_VisitAlgorithmTypeName MaskVisitor_VisitAlgorithmDefinition
proof (unfold_locales, goal_cases)
  case (11 cs)
  then show ?case
    by (auto simp: mask_G derives_N MaskVisitor_VisitAlgorithmTypeName_def tree_access AlgorithmTypeName_ToString_def
        MaskVisitor_VisitBuildInMaskAlgorithmType_def leaf_printers lexeme_keyword keyword_defs char_class_defs spells_keyword spells_string string_lit_def)
qed (simp_all add: mask_G MaskVisitor_VisitLiteral_def MaskVisitor_VisitProperty_def MaskVisitor_VisitProperties_def
    MaskVisitor_VisitPropertiesDefinition_def MaskVisitor_VisitAlgorithmDefinition_def)

interpretation mask_drop: drop_visitor mask_grammar MaskVisitor_VisitIfExists MaskVisitor_VisitIfNotExists
  "''ruleName''" MaskVisitor_VisitRuleName
  by unfold_locales (simp_all add: mask_G MaskVisitor_VisitIfExists_def MaskVisitor_VisitIfNotExists_def MaskVisitor_VisitRuleName_def)

lemma in_comma_trees: "t \<in> set (comma_trees ts) \<Longrightarrow> t = Terminal ''COMMA_'' '','' \<or> t \<in> set ts"
  by (cases ts) (auto simp: comma_trees_Cons split: if_splits)

section \<open>What is lost\<close>

text \<open>
  Every \<^verbatim>\<open>DROP MASK RULE\<close> statement is printed as its tokens without the keyword \<^verbatim>\<open>RULE\<close>, which
  the grammar requires: no such statement comes back as it was parsed.
\<close>

theorem drop_mask_loses_rule:
  assumes "derives mask_grammar (N ''dropMaskRule'') [t]"
  shows "\<exists>r s. MaskVisitor_VisitDropMaskRule t = Ok r \<and> DropMaskRule_ToString r = Ok s \<and>
    spells s (filter (\<lambda>(a, x). a \<noteq> ''RULE'') (terminals t)) \<and> \<not> list_all2 same_token (terminals t) (lexer s)"
proof -
  from assms obtain w x os y rs where
    t: "t = Node ''dropMaskRule'' ([Terminal ''DROP'' w, Terminal ''MASK'' x] @ os @ [Terminal ''RULE'' y] @ rs)"
    and os': "derives mask_grammar (Opt (T ''TABLE'')) os" and rs: "derives mask_grammar (drop_list ''ruleName'') rs"
    by (auto simp: mask_grammar_def [of "''dropMaskRule''"] derives_N)
  have os: "os = [] \<or> (\<exists>z. os = [Terminal ''TABLE'' z] \<and> lexeme ''TABLE'' z)" using os' by (auto simp: derives_Opt)
  from mask_drop.drop_prints [OF rs] obtain p e ns where
    p: "visit_opt MaskVisitor_VisitIfExists (case filter (is_rule ''ifExists'') rs of [] \<Rightarrow> None | c # _ \<Rightarrow> Some c) = Ok p"
    "if_set IfExists_ToString p = Ok e"
    "join_all CommonIdentifier_ToString (map (\<lambda>t. Some (MaskVisitor_VisitRuleName t)) (filter (is_rule ''ruleName'') rs)) = Ok ns"
    "spells (e @ '' '' @ ns) (terms rs)" by blast
  have none: "List.map_filter (terminal_of ''TABLE'') rs = []" "\<forall>(a, x) \<in> set (terms rs). a \<noteq> ''RULE''"
    using rs by (auto simp: drop_list_def derives_Opt derives_N derives_comma_list mask_G dest!: in_comma_trees)
      (drule (1) bspec, force)+
  define table where "table = (case os of [Terminal _ z] \<Rightarrow> '' '' @ z | _ \<Rightarrow> [])"
  define clause where "clause = (case p of None \<Rightarrow> [] | Some i \<Rightarrow> '' '' @ ie_IfExists i)"
  have clause: "clause @ '' '' @ ns = '' '' @ e @ '' '' @ ns \<or> clause @ '' '' @ ns = e @ '' '' @ ns"
    using p(2) by (auto simp: clause_def leaf_printers split: option.splits)
  then have after: "spells (clause @ '' '' @ ns) (terms rs)" "boundary (clause @ '' '' @ ns)"
    using p(2,4) by (auto simp: clause_def leaf_printers spells_space char_class_defs split: option.splits)
  have table: "spells (table @ r) (terms os @ ts)" "boundary (table @ r)" if "spells r ts" "boundary r" for r ts
    using os that by (auto simp: table_def spelling_simps)
  let ?toks = "(''DROP'', w) # (''MASK'', x) # terms os @ terms rs"
  define s where "s = ''DROP MASK'' @ table @ clause @ '' '' @ ns"
  have spells: "spells s ?toks" using table [OF after] by (simp add: s_def spelling_simps)
  have "length (terminals t) \<noteq> length ?toks" by (simp add: t)
  then have differs: "\<not> list_all2 same_token (terminals t) (lexer s)"
    using list_all2_lengthD [OF spells_lex [OF spells]] by (auto dest: list_all2_lengthD simp del: lexer.simps)
  have toks: "filter (\<lambda>(a, x). a \<noteq> ''RULE'') (terminals t) = ?toks"
    using os none(2) by (auto simp: t case_prod_unfold intro!: filter_True)
  have visit: "MaskVisitor_VisitDropMaskRule t = Ok \<lparr>dmr_IfExists = p, dmr_Table = token_text ''TABLE'' t,
      dmr_AllRuleName = map (\<lambda>t. Some (MaskVisitor_VisitRuleName t)) (filter (is_rule ''ruleName'') rs)\<rparr>"
    using p(1) os by (auto simp: t MaskVisitor_VisitDropMaskRule_def tree_access)
  have "(if token_text ''TABLE'' t \<noteq> [] then '' '' @ token_text ''TABLE'' t else []) = table"
    using os none(1) by (auto simp: t table_def tree_access lexeme_keyword keyword_defs char_class_defs to_lower_def)
  moreover have "if_set (\<lambda>e. bind_oc (IfExists_ToString e) (\<lambda>s. Ok ('' '' @ s))) p = Ok clause"
    by (auto simp: clause_def leaf_printers split: option.splits)
  ultimately have "DropMaskRule_ToString \<lparr>dmr_IfExists = p, dmr_Table = token_text ''TABLE'' t,
      dmr_AllRuleName = map (\<lambda>t. Some (MaskVisitor_VisitRuleName t)) (filter (is_rule ''ruleName'') rs)\<rparr> = Ok s"
    using p(3) by (auto simp: DropMaskRule_ToString_def s_def)
  with visit spells toks differs show ?thesis by metis
qed

text \<open>
  What is printed for an \<^verbatim>\<open>ALTER MASK RULE\<close> statement is determined by the optional keyword
  \<^verbatim>\<open>TABLE\<close> and the names of the rules: the columns and their algorithms leave no trace.
\<close>

theorem alter_mask_loses_columns:
  assumes "derives mask_grammar (N ''alterMaskRule'') [t]"
  shows "AlterMaskRule_ToString (MaskVisitor_VisitAlterMaskRule t) =
    Ok (''ALTER MASK '' @ token_text ''TABLE'' t @ '' RULE '' @
      join '','' (map (\<lambda>d. token_text ''IDENTIFIER_'' (the (the_rule ''ruleName'' d)) @ '' ((  ))'') (all_rules ''maskRuleDefinition'' t)))"
proof -
  from assms obtain w x os y rs where
    t: "t = Node ''alterMaskRule'' ([Terminal ''ALTER'' w, Terminal ''MASK'' x] @ os @ [Terminal ''RULE'' y] @ rs)"
    and os': "derives mask_grammar (Opt (T ''TABLE'')) os" and rs: "derives mask_grammar (comma_list ''maskRuleDefinition'') rs"
    by (auto simp: mask_grammar_def [of "''alterMaskRule''"] derives_N)
  have os: "os = [] \<or> (\<exists>z. os = [Terminal ''TABLE'' z])" using os' by (auto simp: derives_Opt)
  from rs obtain css where css: "rs = comma_trees (map (Node ''maskRuleDefinition'') css)"
    "\<forall>cs \<in> set css. derives mask_grammar (mask_grammar ''maskRuleDefinition'') cs" by (auto simp: derives_comma_list)
  have "MaskRuleDefinition_ToString (MaskVisitor_VisitMaskRuleDefinition (Node ''maskRuleDefinition'' cs)) =
      Ok (token_text ''IDENTIFIER_'' (the (the_rule ''ruleName'' (Node ''maskRuleDefinition'' cs))) @ '' ((  ))'')"
    if "derives mask_grammar (mask_grammar ''maskRuleDefinition'') cs" for cs
  proof -
    from that obtain ns us where "cs = Node ''ruleName'' ns # us"
      by (auto simp: mask_grammar_def [of "''maskRuleDefinition''"] derives_N)
    then show ?thesis
      by (simp add: MaskVisitor_VisitMaskRuleDefinition_def MaskRuleDefinition_ToString_def join_all_def leaf_printers MaskVisitor_VisitRuleName_def the_rule_def all_rules_def)
  qed
  then have "map_oc MaskRuleDefinition_ToString (map (\<lambda>cs. MaskVisitor_VisitMaskRuleDefinition (Node ''maskRuleDefinition'' cs)) css) =
      Ok (map (\<lambda>cs. token_text ''IDENTIFIER_'' (the (the_rule ''ruleName'' (Node ''maskRuleDefinition'' cs))) @ '' ((  ))'') css)"
    using css(2) by (induction css) auto
  then show ?thesis
    using os by (auto simp: AlterMaskRule_ToString_def MaskVisitor_VisitAlterMaskRule_def t css(1) all_rules_def join_all_def o_def)
qed

section \<open>Witnesses\<close>

definition demo_drop_mask :: tree where
  "demo_drop_mask = Node ''dropMaskRule'' [kw ''DROP'', kw ''MASK'', kw ''RULE'', Node ''ifExists'' [kw ''IF'', kw ''EXISTS''],
     name_node ''ruleName'' ''t_mask'', comma, name_node ''ruleName'' ''t_order'']"

definition demo_mask_column :: "tree list" where
  "demo_mask_column = [lp, kw ''NAME'', eq, name_node ''columnName'' ''phone'', comma, Node ''algorithmDefinition'' [kw ''TYPE'', lp, kw ''NAME'', eq,
     Node ''algorithmTypeName'' [Node ''buildInMaskAlgorithmType'' [kw ''MD5'']], rp], rp]"

definition demo_alter_mask :: tree where
  "demo_alter_mask = Node ''alterMaskRule'' [kw ''ALTER'', kw ''MASK'', kw ''RULE'', Node ''maskRuleDefinition''
     [name_node ''ruleName'' ''t_mask'', lp, kw ''COLUMNS'', lp, Node ''columnDefinition'' demo_mask_column, rp, rp]]"

lemmas mask_recognise = deriving deriving_Seq drop_list_def example_defs mask_G

lemma demo_mask_derived:
  "derives mask_grammar (N ''dropMaskRule'') [demo_drop_mask]" "derives mask_grammar (N ''alterMaskRule'') [demo_alter_mask]"
proof -
  show "derives mask_grammar (N ''dropMaskRule'') [demo_drop_mask]"
    by (simp add: demo_drop_mask_def mask_recognise del: derives_Cons derives_T derives_Alt derives_Nil)
  have "derives mask_grammar (mask_grammar ''columnDefinition'') demo_mask_column"
    by (simp add: demo_mask_column_def mask_recognise del: derives_Cons derives_T derives_Alt derives_Nil)
  then show "derives mask_grammar (N ''alterMaskRule'') [demo_alter_mask]"
    by (simp add: demo_alter_mask_def deriving deriving_Seq example_defs mask_grammar_def [of "''alterMaskRule''"]
        mask_grammar_def [of "''maskRuleDefinition''"] mask_grammar_def [of "''ruleName''"]
        del: derives_Cons derives_T derives_Alt derives_Nil)
qed

theorem drop_mask_loses_rule_witness:
  "\<exists>r s. MaskVisitor_VisitDropMaskRule demo_drop_mask = Ok r \<and> DropMaskRule_ToString r = Ok s \<and>
    \<not> list_all2 same_token (terminals demo_drop_mask) (lexer s)"
  using drop_mask_loses_rule [OF demo_mask_derived(1)] by blast

theorem alter_mask_loses_columns_witness:
  "AlterMaskRule_ToString (MaskVisitor_VisitAlterMaskRule demo_alter_mask) = Ok ''ALTER MASK  RULE t_mask ((  ))''"
  using alter_mask_loses_columns [OF demo_mask_derived(2)]
  by (simp add: demo_alter_mask_def tree_access kw_def name_node_def)

end
