(* ===== verification/Distsql_Sharding.thy ===== *)
theory Distsql_Sharding
  imports Distsql_Statements
begin

text \<open>
  The sharding rule statements: the grammar \<^verbatim>\<open>antlr4/sharding/*.g4\<close>, the syntax tree and its
  printers in \<^verbatim>\<open>ast/sharding_rdl_ast.go\<close>, and \<^verbatim>\<open>ShardingVisitor\<close> in \<^verbatim>\<open>visitor/sharding_rdl.go\<close>.
\<close>

section \<open>Syntax trees\<close>

record BuildInCommon =
  bic_String :: string

record ShardingAlgorithmTypeName =
  satn_String :: string
  satn_BuildInShardingAlgorithmType :: "BuildInCommon ptr"
  satn_BuildInKeyGenerateAlgorithmType :: "BuildInCommon ptr"
  satn_BuildInShardingAuditAlgorithmType :: "BuildInCommon ptr"

record ShardingAlgorithmDefinition =
  shad_ShardingAlgorithmTypeName :: "ShardingAlgorithmTypeName ptr"
  shad_PropertiesDefinition :: "PropertiesDefinition ptr"

record StorageUnit =
  su_String :: string
  su_Identifier :: string

record StorageUnits =
  sus_AllStorageUnit :: "StorageUnit ptr list"

record DataNode =
  dn_String :: string

record DataNodes =
  dns_AllDataNode :: "CommonIdentifier ptr list"

record ShardingColumn =
  sc_ColumnName :: "CommonIdentifier ptr"

record ShardingColumns =
  scs_ColumnName :: "CommonIdentifier ptr"
  scs_AllColumnName :: "CommonIdentifier ptr list"

record ShardingColumnDefinition =
  scd_ShardingColumn :: "ShardingColumn ptr"
  scd_ShardingColumns :: "ShardingColumns ptr"

record AutoShardingColumnDefinition =
  ascd_ShardingColumn :: "ShardingColumn ptr"

record ShardingAlgorithm =
  sa_AlgorithmDefinition :: "ShardingAlgorithmDefinition ptr"

record BuildInStrategyType =
  bist_BuildInStrategyType :: string

record StrategyType =
  st_BuildInStrategyType :: "BuildInStrategyType ptr"
  st_String :: string

record ShardingStrategy =
  ss_StrategyType :: "StrategyType ptr"
  ss_ShardingColumnDefinition :: "ShardingColumnDefinition ptr"
  ss_ShardingAlgorithm :: "ShardingAlgorithm ptr"

record DatabaseStrategy =
  dbs_ShardingStrategy :: "ShardingStrategy ptr"

record TableStrategy =
  ts_ShardingStrategy :: "ShardingStrategy ptr"

record KeyGenerateDefinition =
  kgd_ColumnName :: "CommonIdentifier ptr"
  kgd_AlgorithmDefinition :: "ShardingAlgorithmDefinition ptr"

record SingleAuditDefinition =
  sad_AlgorithmDefinition :: "ShardingAlgorithmDefinition ptr"

record MultiAuditDefinition =
  mad_AllSingleAuditDefinition :: "SingleAuditDefinition ptr list"

record AuditAllowHintDisable =
  aahd_AuditAllowHintDisable :: string

record AuditDefinition =
  aud_MultiAuditDefinition :: "MultiAuditDefinition ptr"
  aud_AuditAllowHintDisable :: "AuditAllowHintDisable ptr"

record AuditorDefinition =
  aurd_AuditorName :: "CommonIdentifier ptr"
  aurd_AlgorithmDefinition :: "ShardingAlgorithmDefinition ptr"

record ShardingAutoTableRule =
  satr_TableName :: "CommonIdentifier ptr"
  satr_StorageUnits :: "StorageUnits ptr"
  satr_AutoShardingColumnDefinition :: "AutoShardingColumnDefinition ptr"
  satr_AlgorithmDefinition :: "ShardingAlgorithmDefinition ptr"
  satr_KeyGenerateDefinition :: "KeyGenerateDefinition ptr"
  satr_AuditDefinition :: "AuditDefinition ptr"

record ShardingTableRule =
  shtr_TableName :: "CommonIdentifier ptr"
  shtr_DataNodes :: "DataNodes ptr"
  shtr_DatabaseStrategy :: "DatabaseStrategy ptr"
  shtr_TableStrategy :: "TableStrategy ptr"
  shtr_KeyGenerateDefinition :: "KeyGenerateDefinition ptr"
  shtr_AuditDefinition :: "AuditDefinition ptr"

record ShardingTableRuleDefinition =
  strd_ShardingAutoTableRule :: "ShardingAutoTableRule ptr"
  strd_ShardingTableRule :: "ShardingTableRule ptr"

record TableReferenceRuleDefinition =
  trrd_RuleName :: "CommonIdentifier ptr"
  trrd_AllTableName :: "CommonIdentifier ptr list"

record CreateShardingTableRule =
  cstr_IfNotExists :: "IfNotExists ptr"
  cstr_AllShardingTableRuleDefinition :: "ShardingTableRuleDefinition ptr list"

record AlterShardingTableRule =
  astr_AllShardingTableRuleDefinition :: "ShardingTableRuleDefinition ptr list"

record DropShardingTableRule =
  dstr_IfExists :: "IfExists ptr"
  dstr_AllTableName :: "CommonIdentifier ptr list"

record CreateShardingTableReferenceRule =
  csrr_IfNotExists :: "IfNotExists ptr"
  csrr_AllTableReferenceRuleDefinition :: "TableReferenceRuleDefinition ptr list"

record AlterShardingTableReferenceRule =
  asrr_AllTableReferenceRuleDefinition :: "TableReferenceRuleDefinition ptr list"

record DropShardingTableReferenceRule =
  dsrr_IfExists :: "IfExists ptr"
  dsrr_AllRuleNames :: "CommonIdentifier ptr list"

record CreateBroadcastTableRule =
  cbtr_IfNotExists :: "IfNotExists ptr"
  cbtr_AllTableName :: "CommonIdentifier ptr list"

record DropBroadcastTableRule =
  dbtr_IfExists :: "IfExists ptr"
  dbtr_AllTableName :: "CommonIdentifier ptr list"

record DropShardingAlgorithm =
  dsha_IfExists :: "IfExists ptr"
  dsha_AllShardingAlgorithmName :: "CommonIdentifier ptr list"

record CreateDefaultShardingStrategy =
  cdss_IfNotExists :: "IfNotExists ptr"
  cdss_ShardingStrategy :: "ShardingStrategy ptr"

record AlterDefaultShardingStrategy =
  adss_ShardingStrategy :: "ShardingStrategy ptr"

record DropDefaultShardingStrategy =
  ddss_IfExists :: "IfExists ptr"

record DropShardingKeyGenerator =
  dskg_IfExists :: "IfExists ptr"
  dskg_AllKeyGeneratorName :: "CommonIdentifier ptr list"

record DropShardingAuditor =
  dsau_IfExists :: "IfExists ptr"
  dsau_AllAuditorName :: "CommonIdentifier ptr list"

section \<open>Printers\<close>

definition BuildInCommon_ToString :: "BuildInCommon \<Rightarrow> string outcome" where
  "BuildInCommon_ToString x =
     Ok (bic_String x)"

definition ShardingAlgorithmTypeName_ToString :: "ShardingAlgorithmTypeName \<Rightarrow> string outcome" where
  "ShardingAlgorithmTypeName_ToString x =
     (if satn_String x \<noteq> [] then Ok (satn_String x)
      else case satn_BuildInShardingAlgorithmType x of Some b \<Rightarrow> BuildInCommon_ToString b | None \<Rightarrow>
        (case satn_BuildInKeyGenerateAlgorithmType x of Some b \<Rightarrow> BuildInCommon_ToString b | None \<Rightarrow>
          (case satn_BuildInShardingAuditAlgorithmType x of Some b \<Rightarrow> BuildInCommon_ToString b | None \<Rightarrow> Ok [])))"

text \<open>The comma is there whether or not properties follow.\<close>

definition ShardingAlgorithmDefinition_ToString :: "ShardingAlgorithmDefinition \<Rightarrow> string outcome" where
  "ShardingAlgorithmDefinition_ToString x =
     bind_oc (if_set ShardingAlgorithmTypeName_ToString (shad_ShardingAlgorithmTypeName x)) (\<lambda>name.
     bind_oc (if_set PropertiesDefinition_ToString (shad_PropertiesDefinition x)) (\<lambda>properties.
       Ok (''TYPE ( NAME = '' @ name @ '' ,'' @ properties @ '')'')))"

definition StorageUnit_ToString :: "StorageUnit \<Rightarrow> string outcome" where
  "StorageUnit_ToString x =
     (if su_String x \<noteq> [] then Ok (su_String x) else if su_Identifier x \<noteq> [] then Ok (su_Identifier x) else Ok [])"

definition StorageUnits_ToString :: "StorageUnits \<Rightarrow> string outcome" where
  "StorageUnits_ToString x =
     bind_oc (join_all StorageUnit_ToString (sus_AllStorageUnit x)) (\<lambda>units.
       Ok (''STORAGE_UNITS ('' @ units @ '')''))"

definition DataNode_ToString :: "DataNode \<Rightarrow> string outcome" where
  "DataNode_ToString x =
     Ok (dn_String x)"

definition DataNodes_ToString :: "DataNodes \<Rightarrow> string outcome" where
  "DataNodes_ToString x =
     bind_oc (join_all CommonIdentifier_ToString (dns_AllDataNode x)) (\<lambda>nodes.
       Ok (''DATANODES('' @ nodes @ '')''))"

definition ShardingColumn_ToString :: "ShardingColumn \<Rightarrow> string outcome" where
  "ShardingColumn_ToString x =
     bind_oc (deref CommonIdentifier_ToString (sc_ColumnName x)) (\<lambda>name.
       Ok (''SHARDING_COLUMN EQ_ '' @ name))"

definition ShardingColumns_ToString :: "ShardingColumns \<Rightarrow> string outcome" where
  "ShardingColumns_ToString x =
     bind_oc (if_set CommonIdentifier_ToString (scs_ColumnName x)) (\<lambda>name.
     bind_oc (join_all CommonIdentifier_ToString (scs_AllColumnName x)) (\<lambda>names.
       Ok (''SHARDING_COLUMNS = '' @ name @ '','' @ names)))"

definition ShardingColumnDefinition_ToString :: "ShardingColumnDefinition \<Rightarrow> string outcome" where
  "ShardingColumnDefinition_ToString x =
     (case scd_ShardingColumn x of Some c \<Rightarrow> ShardingColumn_ToString c | None \<Rightarrow>
        (case scd_ShardingColumns x of Some c \<Rightarrow> ShardingColumns_ToString c | None \<Rightarrow> Ok []))"

definition AutoShardingColumnDefinition_ToString :: "AutoShardingColumnDefinition \<Rightarrow> string outcome" where
  "AutoShardingColumnDefinition_ToString x =
     deref ShardingColumn_ToString (ascd_ShardingColumn x)"

definition ShardingAlgorithm_ToString :: "ShardingAlgorithm \<Rightarrow> string outcome" where
  "ShardingAlgorithm_ToString x =
     bind_oc (deref ShardingAlgorithmDefinition_ToString (sa_AlgorithmDefinition x)) (\<lambda>algorithm.
       Ok (''SHARDING_ALGORITHM ('' @ algorithm @ '')''))"

definition BuildInStrategyType_ToString :: "BuildInStrategyType \<Rightarrow> string outcome" where
  "BuildInStrategyType_ToString x =
     Ok (bist_BuildInStrategyType x)"

definition StrategyType_ToString :: "StrategyType \<Rightarrow> string outcome" where
  "StrategyType_ToString x =
     (if st_String x \<noteq> [] then Ok (st_String x)
      else case st_BuildInStrategyType x of Some b \<Rightarrow> BuildInStrategyType_ToString b | None \<Rightarrow> Ok [])"

definition ShardingStrategy_ToString :: "ShardingStrategy \<Rightarrow> string outcome" where
  "ShardingStrategy_ToString x =
     bind_oc (if_set StrategyType_ToString (ss_StrategyType x)) (\<lambda>strategyType.
     bind_oc (if_set ShardingColumnDefinition_ToString (ss_ShardingColumnDefinition x)) (\<lambda>columns.
     bind_oc (if_set ShardingAlgorithm_ToString (ss_ShardingAlgorithm x)) (\<lambda>algorithm.
       Ok (''TYPE = '' @ strategyType @ '','' @ columns @ '','' @ algorithm))))"

definition DatabaseStrategy_ToString :: "DatabaseStrategy \<Rightarrow> string outcome" where
  "DatabaseStrategy_ToString x =
     bind_oc (deref ShardingStrategy_ToString (dbs_ShardingStrategy x)) (\<lambda>strategy.
       Ok (''DATABASE_STRATEGY ('' @ strategy @ '')''))"

definition TableStrategy_ToString :: "TableStrategy \<Rightarrow> string outcome" where
  "TableStrategy_ToString x =
     bind_oc (deref ShardingStrategy_ToString (ts_ShardingStrategy x)) (\<lambda>strategy.
       Ok (''TABLE_STRATEGY ('' @ strategy @ '')''))"

definition KeyGenerateDefinition_ToString :: "KeyGenerateDefinition \<Rightarrow> string outcome" where
  "KeyGenerateDefinition_ToString x =
     bind_oc (if_set CommonIdentifier_ToString (kgd_ColumnName x)) (\<lambda>name.
     bind_oc (if_set ShardingAlgorithmDefinition_ToString (kgd_AlgorithmDefinition x)) (\<lambda>algorithm.
       Ok (''KEY_GENERATE_STRATEGY (COLUMN = '' @ name @ '', '' @ algorithm @ '')'')))"

definition SingleAuditDefinition_ToString :: "SingleAuditDefinition \<Rightarrow> string outcome" where
  "SingleAuditDefinition_ToString x =
     deref ShardingAlgorithmDefinition_ToString (sad_AlgorithmDefinition x)"

definition MultiAuditDefinition_ToString :: "MultiAuditDefinition \<Rightarrow> string outcome" where
  "MultiAuditDefinition_ToString x =
     join_all SingleAuditDefinition_ToString (mad_AllSingleAuditDefinition x)"

definition AuditAllowHintDisable_ToString :: "AuditAllowHintDisable \<Rightarrow> string outcome" where
  "AuditAllowHintDisable_ToString x =
     Ok (aahd_AuditAllowHintDisable x)"

definition AuditDefinition_ToString :: "AuditDefinition \<Rightarrow> string outcome" where
  "AuditDefinition_ToString x =
     bind_oc (deref MultiAuditDefinition_ToString (aud_MultiAuditDefinition x)) (\<lambda>audits.
     bind_oc (deref AuditAllowHintDisable_ToString (aud_AuditAllowHintDisable x)) (\<lambda>disable.
       Ok (''AUDIT_STRATEGY ('' @ audits @ '', ALLOW_HINT_DISABLE = '' @ disable @ '')'')))"

definition AuditorDefinition_ToString :: "AuditorDefinition \<Rightarrow> string outcome" where
  "AuditorDefinition_ToString x =
     bind_oc (deref CommonIdentifier_ToString (aurd_AuditorName x)) (\<lambda>name.
     bind_oc (deref ShardingAlgorithmDefinition_ToString (aurd_AlgorithmDefinition x)) (\<lambda>algorithm.
       Ok (name @ '' ('' @ algorithm @ '')'')))"

definition ShardingAutoTableRule_ToString :: "ShardingAutoTableRule \<Rightarrow> string outcome" where
  "ShardingAutoTableRule_ToString x =
     bind_oc (if_set CommonIdentifier_ToString (satr_TableName x)) (\<lambda>table.
     bind_oc (if_set StorageUnits_ToString (satr_StorageUnits x)) (\<lambda>units.
     bind_oc (if_set AutoShardingColumnDefinition_ToString (satr_AutoShardingColumnDefinition x)) (\<lambda>column.
     bind_oc (if_set ShardingAlgorithmDefinition_ToString (satr_AlgorithmDefinition x)) (\<lambda>algorithm.
     bind_oc (if_set KeyGenerateDefinition_ToString (satr_KeyGenerateDefinition x)) (\<lambda>key.
     bind_oc (if_set AuditDefinition_ToString (satr_AuditDefinition x)) (\<lambda>audit.
       Ok (table @ '' ('' @ units @ '','' @ column @ '','' @ algorithm @ '','' @ key @ '','' @ audit @ '')'')))))))"

definition ShardingTableRule_ToString :: "ShardingTableRule \<Rightarrow> string outcome" where
  "ShardingTableRule_ToString x =
     bind_oc (if_set CommonIdentifier_ToString (shtr_TableName x)) (\<lambda>table.
     bind_oc (if_set DataNodes_ToString (shtr_DataNodes x)) (\<lambda>nodes.
     bind_oc (if_set DatabaseStrategy_ToString (shtr_DatabaseStrategy x)) (\<lambda>database.
     bind_oc (if_set TableStrategy_ToString (shtr_TableStrategy x)) (\<lambda>strategy.
     bind_oc (if_set KeyGenerateDefinition_ToString (shtr_KeyGenerateDefinition x)) (\<lambda>key.
     bind_oc (if_set AuditDefinition_ToString (shtr_AuditDefinition x)) (\<lambda>audit.
       Ok (table @ ''('' @ nodes @ '','' @ database @ '','' @ strategy @ '','' @ key @ '','' @ audit @ '')'')))))))"

definition ShardingTableRuleDefinition_ToString :: "ShardingTableRuleDefinition \<Rightarrow> string outcome" where
  "ShardingTableRuleDefinition_ToString x =
     (case strd_ShardingAutoTableRule x of Some r \<Rightarrow> ShardingAutoTableRule_ToString r | None \<Rightarrow>
        (case strd_ShardingTableRule x of Some r \<Rightarrow> ShardingTableRule_ToString r | None \<Rightarrow> Ok []))"

definition TableReferenceRuleDefinition_ToString :: "TableReferenceRuleDefinition \<Rightarrow> string outcome" where
  "TableReferenceRuleDefinition_ToString x =
     bind_oc (if_set CommonIdentifier_ToString (trrd_RuleName x)) (\<lambda>name.
     bind_oc (join_all CommonIdentifier_ToString (trrd_AllTableName x)) (\<lambda>tables.
       Ok (name @ '' ('' @ tables @ '')'')))"

definition CreateShardingTableRule_ToString :: "CreateShardingTableRule \<Rightarrow> string outcome" where
  "CreateShardingTableRule_ToString x =
     bind_oc (if_set IfNotExists_ToString (cstr_IfNotExists x)) (\<lambda>exists.
     bind_oc (join_all ShardingTableRuleDefinition_ToString (cstr_AllShardingTableRuleDefinition x)) (\<lambda>elements.
       Ok (''CREATE SHARDING TABLE RULE '' @ exists @ '' '' @ elements)))"

definition AlterShardingTableRule_ToString :: "AlterShardingTableRule \<Rightarrow> string outcome" where
  "AlterShardingTableRule_ToString x =
     bind_oc (join_all ShardingTableRuleDefinition_ToString (astr_AllShardingTableRuleDefinition x)) (\<lambda>elements.
       Ok (''ALTER SHARDING TABLE RULE '' @ elements))"

definition DropShardingTableRule_ToString :: "DropShardingTableRule \<Rightarrow> string outcome" where
  "DropShardingTableRule_ToString x =
     bind_oc (if_set IfExists_ToString (dstr_IfExists x)) (\<lambda>exists.
     bind_oc (join_all CommonIdentifier_ToString (dstr_AllTableName x)) (\<lambda>elements.
       Ok (''DROP SHARDING TABLE RULE '' @ exists @ '' '' @ elements)))"

definition CreateShardingTableReferenceRule_ToString :: "CreateShardingTableReferenceRule \<Rightarrow> string outcome" where
  "CreateShardingTableReferenceRule_ToString x =
     bind_oc (if_set IfNotExists_ToString (csrr_IfNotExists x)) (\<lambda>exists.
     bind_oc (join_all TableReferenceRuleDefinition_ToString (csrr_AllTableReferenceRuleDefinition x)) (\<lambda>elements.
       Ok (''CREATE SHARDING TABLE REFERENCE RULE '' @ exists @ '' '' @ elements)))"

definition AlterShardingTableReferenceRule_ToString :: "AlterShardingTableReferenceRule \<Rightarrow> string outcome" where
  "AlterShardingTableReferenceRule_ToString x =
     bind_oc (join_all TableReferenceRuleDefinition_ToString (asrr_AllTableReferenceRuleDefinition x)) (\<lambda>elements.
       Ok (''ALTER SHARDING TABLE REFERENCE RULE '' @ elements))"

definition DropShardingTableReferenceRule_ToString :: "DropShardingTableReferenceRule \<Rightarrow> string outcome" where
  "DropShardingTableReferenceRule_ToString x =
     bind_oc (if_set IfExists_ToString (dsrr_IfExists x)) (\<lambda>exists.
     bind_oc (join_all CommonIdentifier_ToString (dsrr_AllRuleNames x)) (\<lambda>elements.
       Ok (''DROP SHARDING TABLE REFERENCE RULE '' @ exists @ '' '' @ elements)))"

definition CreateBroadcastTableRule_ToString :: "CreateBroadcastTableRule \<Rightarrow> string outcome" where
  "CreateBroadcastTableRule_ToString x =
     bind_oc (if_set IfNotExists_ToString (cbtr_IfNotExists x)) (\<lambda>exists.
     bind_oc (join_all CommonIdentifier_ToString (cbtr_AllTableName x)) (\<lambda>elements.
       Ok (''CREATE BROADCAST TABLE RULE '' @ exists @ '' '' @ elements)))"

definition DropBroadcastTableRule_ToString :: "DropBroadcastTableRule \<Rightarrow> string outcome" where
  "DropBroadcastTableRule_ToString x =
     bind_oc (if_set IfExists_ToString (dbtr_IfExists x)) (\<lambda>exists.
     bind_oc (join_all CommonIdentifier_ToString (dbtr_AllTableName x)) (\<lambda>elements.
       Ok (''DROP BROADCAST TABLE RULE '' @ exists @ '' '' @ elements)))"

text \<open>The keywords are those of the statement before.\<close>

definition DropShardingAlgorithm_ToString :: "DropShardingAlgorithm \<Rightarrow> string outcome" where
  "DropShardingAlgorithm_ToString x =
     bind_oc (if_set IfExists_ToString (dsha_IfExists x)) (\<lambda>exists.
     bind_oc (join_all CommonIdentifier_ToString (dsha_AllShardingAlgorithmName x)) (\<lambda>elements.
       Ok (''DROP BROADCAST TABLE RULE '' @ exists @ '' '' @ elements)))"

text \<open>The alternative of the grammar rule is printed, not the keyword that was parsed.\<close>

definition CreateDefaultShardingStrategy_ToString :: "CreateDefaultShardingStrategy \<Rightarrow> string outcome" where
  "CreateDefaultShardingStrategy_ToString x =
     bind_oc (if_set IfNotExists_ToString (cdss_IfNotExists x)) (\<lambda>exists.
     bind_oc (if_set ShardingStrategy_ToString (cdss_ShardingStrategy x)) (\<lambda>strategy.
       Ok (''CREATE DEFAULT SHARDING type=(DATABASE | TABLE) STRATEGY '' @ exists @ ''('' @ strategy @ '')'')))"

definition AlterDefaultShardingStrategy_ToString :: "AlterDefaultShardingStrategy \<Rightarrow> string outcome" where
  "AlterDefaultShardingStrategy_ToString x =
     bind_oc (deref ShardingStrategy_ToString (adss_ShardingStrategy x)) (\<lambda>strategy.
       Ok (''ALTER DEFAULT SHARDING type=(DATABASE | TABLE) STRATEGY ('' @ strategy @ '')''))"

definition DropDefaultShardingStrategy_ToString :: "DropDefaultShardingStrategy \<Rightarrow> string outcome" where
  "DropDefaultShardingStrategy_ToString x =
     bind_oc (deref IfExists_ToString (ddss_IfExists x)) (\<lambda>exists.
       Ok (''DROP DEFAULT SHARDING type=(DATABASE | TABLE) STRATEGY '' @ exists))"

definition DropShardingKeyGenerator_ToString :: "DropShardingKeyGenerator \<Rightarrow> string outcome" where
  "DropShardingKeyGenerator_ToString x =
     bind_oc (if_set IfExists_ToString (dskg_IfExists x)) (\<lambda>exists.
     bind_oc (join_all CommonIdentifier_ToString (dskg_AllKeyGeneratorName x)) (\<lambda>elements.
       Ok (''DROP SHARDING KEY GENERATOR '' @ exists @ '' '' @ elements)))"

definition DropShardingAuditor_ToString :: "DropShardingAuditor \<Rightarrow> string outcome" where
  "DropShardingAuditor_ToString x =
     bind_oc (if_set IfExists_ToString (dsau_IfExists x)) (\<lambda>exists.
     bind_oc (join_all CommonIdentifier_ToString (dsau_AllAuditorName x)) (\<lambda>elements.
       Ok (''DROP SHARDING AUDITOR '' @ exists @ '' '' @ elements)))"

section \<open>The visitor\<close>

definition ShardingVisitor_VisitIfExists :: "tree \<Rightarrow> IfExists outcome" where
  "ShardingVisitor_VisitIfExists ctx =
     bind_oc (GetText (token ''IF'' ctx)) (\<lambda>a. bind_oc (GetText (token ''EXISTS'' ctx)) (\<lambda>b.
       Ok \<lparr>ie_IfExists = a @ '' '' @ b\<rparr>))"

definition ShardingVisitor_VisitIfNotExists :: "tree \<Rightarrow> IfNotExists outcome" where
  "ShardingVisitor_VisitIfNotExists ctx =
     bind_oc (GetText (token ''IF'' ctx)) (\<lambda>a. bind_oc (GetText (token ''NOT'' ctx)) (\<lambda>b.
     bind_oc (GetText (token ''EXISTS'' ctx)) (\<lambda>c. Ok \<lparr>ine_IfNotExists = a @ '' '' @ b @ '' '' @ c\<rparr>)))"

definition ShardingVisitor_VisitColumnName :: "tree \<Rightarrow> CommonIdentifier" where
  "ShardingVisitor_VisitColumnName ctx = \<lparr>ci_Identifier = token_text ''IDENTIFIER_'' ctx\<rparr>"

definition ShardingVisitor_VisitTableName :: "tree \<Rightarrow> CommonIdentifier" where
  "ShardingVisitor_VisitTableName ctx = \<lparr>ci_Identifier = token_text ''IDENTIFIER_'' ctx\<rparr>"

definition ShardingVisitor_VisitShardingAlgorithmName :: "tree \<Rightarrow> CommonIdentifier" where
  "ShardingVisitor_VisitShardingAlgorithmName ctx = \<lparr>ci_Identifier = token_text ''IDENTIFIER_'' ctx\<rparr>"

definition ShardingVisitor_VisitRuleName :: "tree \<Rightarrow> CommonIdentifier" where
  "ShardingVisitor_VisitRuleName ctx = \<lparr>ci_Identifier = token_text ''IDENTIFIER_'' ctx\<rparr>"

definition ShardingVisitor_VisitKeyGeneratorName :: "tree \<Rightarrow> CommonIdentifier" where
  "ShardingVisitor_VisitKeyGeneratorName ctx = \<lparr>ci_Identifier = token_text ''IDENTIFIER_'' ctx\<rparr>"

definition ShardingVisitor_VisitAuditorName :: "tree \<Rightarrow> CommonIdentifier" where
  "ShardingVisitor_VisitAuditorName ctx = \<lparr>ci_Identifier = token_text ''IDENTIFIER_'' ctx\<rparr>"

definition ShardingVisitor_VisitLiteral :: "tree \<Rightarrow> Literal" where
  "ShardingVisitor_VisitLiteral ctx =
     \<lparr>lit_Literal = first_token [''STRING_'', ''MINUS_'', ''INT_'', ''TRUE'', ''FALSE''] ctx\<rparr>"

definition ShardingVisitor_VisitProperty :: "tree \<Rightarrow> Property" where
  "ShardingVisitor_VisitProperty ctx =
     \<lparr>prop_Key = token_text ''STRING_'' ctx,
      prop_Literal = map_option ShardingVisitor_VisitLiteral (the_rule ''literal'' ctx)\<rparr>"

definition ShardingVisitor_VisitProperties :: "tree \<Rightarrow> Properties" where
  "ShardingVisitor_VisitProperties ctx =
     \<lparr>props_Properties = map (\<lambda>p. Some (ShardingVisitor_VisitProperty p)) (all_rules ''property'' ctx)\<rparr>"

definition ShardingVisitor_VisitPropertiesDefinition :: "tree \<Rightarrow> PropertiesDefinition" where
  "ShardingVisitor_VisitPropertiesDefinition ctx =
     \<lparr>pd_Properties = map_option ShardingVisitor_VisitProperties (the_rule ''properties'' ctx)\<rparr>"

definition ShardingVisitor_VisitBuildInShardingAlgorithmType :: "tree \<Rightarrow> BuildInCommon" where
  "ShardingVisitor_VisitBuildInShardingAlgorithmType ctx =
     \<lparr>bic_String = first_token [''MOD'', ''HASH_MOD'', ''VOLUME_RANGE'', ''BOUNDARY_RANGE'', ''AUTO_INTERVAL'', ''INLINE'', ''INTERVAL'', ''COSID_MOD'', ''COSID_INTERVAL'', ''COSID_INTERVAL_SNOWFLAKE'', ''COMPLEX_INLINE'', ''HINT_INLINE'', ''CLASS_BASED''] ctx\<rparr>"

definition ShardingVisitor_VisitBuildInKeyGenerateAlgorithmType :: "tree \<Rightarrow> BuildInCommon" where
  "ShardingVisitor_VisitBuildInKeyGenerateAlgorithmType ctx =
     \<lparr>bic_String = first_token [''SNOWFLAKE'', ''NANOID'', ''UUID'', ''COSID'', ''COSID_SNOWFLAKE''] ctx\<rparr>"

definition ShardingVisitor_VisitBuildInShardingAuditAlgorithmType :: "tree \<Rightarrow> BuildInCommon" where
  "ShardingVisitor_VisitBuildInShardingAuditAlgorithmType ctx =
     \<lparr>bic_String = first_token [''DML_SHARDING_CONDITIONS''] ctx\<rparr>"

definition ShardingVisitor_VisitAlgorithmTypeName :: "tree \<Rightarrow> ShardingAlgorithmTypeName" where
  "ShardingVisitor_VisitAlgorithmTypeName ctx =
     (let empty = \<lparr>satn_String = [], satn_BuildInShardingAlgorithmType = None, satn_BuildInKeyGenerateAlgorithmType = None,
          satn_BuildInShardingAuditAlgorithmType = None\<rparr> in
      case token ''STRING_'' ctx of Some s \<Rightarrow> empty\<lparr>satn_String := s\<rparr> | None \<Rightarrow>
      (case the_rule ''buildInShardingAlgorithmType'' ctx of
         Some c \<Rightarrow> empty\<lparr>satn_BuildInShardingAlgorithmType := Some (ShardingVisitor_VisitBuildInShardingAlgorithmType c)\<rparr> | None \<Rightarrow>
      (case the_rule ''buildInKeyGenerateAlgorithmType'' ctx of
         Some c \<Rightarrow> empty\<lparr>satn_BuildInKeyGenerateAlgorithmType := Some (ShardingVisitor_VisitBuildInKeyGenerateAlgorithmType c)\<rparr> | None \<Rightarrow>
      (case the_rule ''buildInShardingAuditAlgorithmType'' ctx of
         Some c \<Rightarrow> empty\<lparr>satn_BuildInShardingAuditAlgorithmType := Some (ShardingVisitor_VisitBuildInShardingAuditAlgorithmType c)\<rparr> | None \<Rightarrow> empty))))"

definition ShardingVisitor_VisitAlgorithmDefinition :: "tree \<Rightarrow> ShardingAlgorithmDefinition" where
  "ShardingVisitor_VisitAlgorithmDefinition ctx =
     \<lparr>shad_ShardingAlgorithmTypeName = map_option ShardingVisitor_VisitAlgorithmTypeName (the_rule ''algorithmTypeName'' ctx),
      shad_PropertiesDefinition = map_option ShardingVisitor_VisitPropertiesDefinition (the_rule ''propertiesDefinition'' ctx)\<rparr>"

definition ShardingVisitor_VisitStorageUnit :: "tree \<Rightarrow> StorageUnit" where
  "ShardingVisitor_VisitStorageUnit ctx =
     (case token ''STRING_'' ctx of
        Some s \<Rightarrow> \<lparr>su_String = s, su_Identifier = []\<rparr>
      | None \<Rightarrow> \<lparr>su_String = [], su_Identifier = token_text ''IDENTIFIER_'' ctx\<rparr>)"

definition ShardingVisitor_VisitStorageUnits :: "tree \<Rightarrow> StorageUnits" where
  "ShardingVisitor_VisitStorageUnits ctx =
     \<lparr>sus_AllStorageUnit = map (\<lambda>c. Some (ShardingVisitor_VisitStorageUnit c)) (all_rules ''storageUnit'' ctx)\<rparr>"

definition ShardingVisitor_VisitDataNode :: "tree \<Rightarrow> CommonIdentifier" where
  "ShardingVisitor_VisitDataNode ctx = \<lparr>ci_Identifier = token_text ''STRING_'' ctx\<rparr>"

definition ShardingVisitor_VisitDataNodes :: "tree \<Rightarrow> DataNodes" where
  "ShardingVisitor_VisitDataNodes ctx =
     \<lparr>dns_AllDataNode = map (\<lambda>c. Some (ShardingVisitor_VisitDataNode c)) (all_rules ''dataNode'' ctx)\<rparr>"

definition ShardingVisitor_VisitShardingColumn :: "tree \<Rightarrow> ShardingColumn" where
  "ShardingVisitor_VisitShardingColumn ctx =
     \<lparr>sc_ColumnName = map_option ShardingVisitor_VisitColumnName (the_rule ''columnName'' ctx)\<rparr>"

definition ShardingVisitor_VisitShardingColumns :: "tree \<Rightarrow> ShardingColumns" where
  "ShardingVisitor_VisitShardingColumns ctx =
     \<lparr>scs_ColumnName = map_option ShardingVisitor_VisitColumnName (the_rule ''columnName'' ctx),
      scs_AllColumnName = map (\<lambda>c. Some (ShardingVisitor_VisitColumnName c)) (all_rules ''columnName'' ctx)\<rparr>"

definition ShardingVisitor_VisitShardingColumnDefinition :: "tree \<Rightarrow> ShardingColumnDefinition" where
  "ShardingVisitor_VisitShardingColumnDefinition ctx =
     (case the_rule ''shardingColumn'' ctx of
        Some c \<Rightarrow> \<lparr>scd_ShardingColumn = Some (ShardingVisitor_VisitShardingColumn c), scd_ShardingColumns = None\<rparr>
      | None \<Rightarrow> \<lparr>scd_ShardingColumn = None,
          scd_ShardingColumns = map_option ShardingVisitor_VisitShardingColumns (the_rule ''shardingColumns'' ctx)\<rparr>)"

definition ShardingVisitor_VisitAutoShardingColumnDefinition :: "tree \<Rightarrow> AutoShardingColumnDefinition" where
  "ShardingVisitor_VisitAutoShardingColumnDefinition ctx =
     \<lparr>ascd_ShardingColumn = map_option ShardingVisitor_VisitShardingColumn (the_rule ''shardingColumn'' ctx)\<rparr>"

definition ShardingVisitor_VisitShardingAlgorithm :: "tree \<Rightarrow> ShardingAlgorithm" where
  "ShardingVisitor_VisitShardingAlgorithm ctx =
     \<lparr>sa_AlgorithmDefinition = map_option ShardingVisitor_VisitAlgorithmDefinition (the_rule ''algorithmDefinition'' ctx)\<rparr>"

definition ShardingVisitor_VisitBuildInStrategyType :: "tree \<Rightarrow> BuildInStrategyType" where
  "ShardingVisitor_VisitBuildInStrategyType ctx =
     \<lparr>bist_BuildInStrategyType = first_token [''STANDARD'', ''COMPLEX'', ''HINT'', ''NONE''] ctx\<rparr>"

definition ShardingVisitor_VisitStrategyType :: "tree \<Rightarrow> StrategyType" where
  "ShardingVisitor_VisitStrategyType ctx =
     \<lparr>st_BuildInStrategyType = map_option ShardingVisitor_VisitBuildInStrategyType (the_rule ''buildInStrategyType'' ctx),
      st_String = token_text ''STRING_'' ctx\<rparr>"

definition ShardingVisitor_VisitShardingStrategy :: "tree \<Rightarrow> ShardingStrategy" where
  "ShardingVisitor_VisitShardingStrategy ctx =
     \<lparr>ss_StrategyType = map_option ShardingVisitor_VisitStrategyType (the_rule ''strategyType'' ctx),
      ss_ShardingColumnDefinition = map_option ShardingVisitor_VisitShardingColumnDefinition (the_rule ''shardingColumnDefinition'' ctx),
      ss_ShardingAlgorithm = map_option ShardingVisitor_VisitShardingAlgorithm (the_rule ''shardingAlgorithm'' ctx)\<rparr>"

definition ShardingVisitor_VisitDatabaseStrategy :: "tree \<Rightarrow> DatabaseStrategy" where
  "ShardingVisitor_VisitDatabaseStrategy ctx =
     \<lparr>dbs_ShardingStrategy = map_option ShardingVisitor_VisitShardingStrategy (the_rule ''shardingStrategy'' ctx)\<rparr>"

definition ShardingVisitor_VisitTableStrategy :: "tree \<Rightarrow> TableStrategy" where
  "ShardingVisitor_VisitTableStrategy ctx =
     \<lparr>ts_ShardingStrategy = map_option ShardingVisitor_VisitShardingStrategy (the_rule ''shardingStrategy'' ctx)\<rparr>"

definition ShardingVisitor_VisitKeyGenerateDefinition :: "tree \<Rightarrow> KeyGenerateDefinition" where
  "ShardingVisitor_VisitKeyGenerateDefinition ctx =
     \<lparr>kgd_ColumnName = map_option ShardingVisitor_VisitColumnName (the_rule ''columnName'' ctx),
      kgd_AlgorithmDefinition = map_option ShardingVisitor_VisitAlgorithmDefinition (the_rule ''algorithmDefinition'' ctx)\<rparr>"

definition ShardingVisitor_VisitSingleAuditDefinition :: "tree \<Rightarrow> SingleAuditDefinition" where
  "ShardingVisitor_VisitSingleAuditDefinition ctx =
     \<lparr>sad_AlgorithmDefinition = map_option ShardingVisitor_VisitAlgorithmDefinition (the_rule ''algorithmDefinition'' ctx)\<rparr>"

definition ShardingVisitor_VisitMultiAuditDefinition :: "tree \<Rightarrow> MultiAuditDefinition" where
  "ShardingVisitor_VisitMultiAuditDefinition ctx =
     \<lparr>mad_AllSingleAuditDefinition = map (\<lambda>c. Some (ShardingVisitor_VisitSingleAuditDefinition c)) (all_rules ''singleAuditDefinition'' ctx)\<rparr>"

definition ShardingVisitor_VisitAuditAllowHintDisable :: "tree \<Rightarrow> AuditAllowHintDisable" where
  "ShardingVisitor_VisitAuditAllowHintDisable ctx =
     \<lparr>aahd_AuditAllowHintDisable = first_token [''TRUE'', ''FALSE''] ctx\<rparr>"

definition ShardingVisitor_VisitAuditDefinition :: "tree \<Rightarrow> AuditDefinition" where
  "ShardingVisitor_VisitAuditDefinition ctx =
     \<lparr>aud_MultiAuditDefinition = map_option ShardingVisitor_VisitMultiAuditDefinition (the_rule ''multiAuditDefinition'' ctx),
      aud_AuditAllowHintDisable = map_option ShardingVisitor_VisitAuditAllowHintDisable (the_rule ''auditAllowHintDisable'' ctx)\<rparr>"

definition ShardingVisitor_VisitAuditorDefinition :: "tree \<Rightarrow> AuditorDefinition" where
  "ShardingVisitor_VisitAuditorDefinition ctx =
     \<lparr>aurd_AuditorName = map_option ShardingVisitor_VisitAuditorName (the_rule ''auditorName'' ctx),
      aurd_AlgorithmDefinition = map_option ShardingVisitor_VisitAlgorithmDefinition (the_rule ''algorithmDefinition'' ctx)\<rparr>"

definition ShardingVisitor_VisitShardingAutoTableRule :: "tree \<Rightarrow> ShardingAutoTableRule" where
  "ShardingVisitor_VisitShardingAutoTableRule ctx =
     \<lparr>satr_TableName = map_option ShardingVisitor_VisitTableName (the_rule ''tableName'' ctx),
      satr_StorageUnits = map_option ShardingVisitor_VisitStorageUnits (the_rule ''storageUnits'' ctx),
      satr_AutoShardingColumnDefinition = map_option ShardingVisitor_VisitAutoShardingColumnDefinition (the_rule ''autoShardingColumnDefinition'' ctx),
      satr_AlgorithmDefinition = map_option ShardingVisitor_VisitAlgorithmDefinition (the_rule ''algorithmDefinition'' ctx),
      satr_KeyGenerateDefinition = map_option ShardingVisitor_VisitKeyGenerateDefinition (the_rule ''keyGenerateDefinition'' ctx),
      satr_AuditDefinition = map_option ShardingVisitor_VisitAuditDefinition (the_rule ''auditDefinition'' ctx)\<rparr>"

definition ShardingVisitor_VisitShardingTableRule :: "tree \<Rightarrow> ShardingTableRule" where
  "ShardingVisitor_VisitShardingTableRule ctx =
     \<lparr>shtr_TableName = map_option ShardingVisitor_VisitTableName (the_rule ''tableName'' ctx),
      shtr_DataNodes = map_option ShardingVisitor_VisitDataNodes (the_rule ''dataNodes'' ctx),
      shtr_DatabaseStrategy = map_option ShardingVisitor_VisitDatabaseStrategy (the_rule ''databaseStrategy'' ctx),
      shtr_TableStrategy = map_option ShardingVisitor_VisitTableStrategy (the_rule ''tableStrategy'' ctx),
      shtr_KeyGenerateDefinition = map_option ShardingVisitor_VisitKeyGenerateDefinition (the_rule ''keyGenerateDefinition'' ctx),
      shtr_AuditDefinition = map_option ShardingVisitor_VisitAuditDefinition (the_rule ''auditDefinition'' ctx)\<rparr>"

definition ShardingVisitor_VisitShardingTableRuleDefinition :: "tree \<Rightarrow> ShardingTableRuleDefinition" where
  "ShardingVisitor_VisitShardingTableRuleDefinition ctx =
     \<lparr>strd_ShardingAutoTableRule = map_option ShardingVisitor_VisitShardingAutoTableRule (the_rule ''shardingAutoTableRule'' ctx),
      strd_ShardingTableRule = map_option ShardingVisitor_VisitShardingTableRule (the_rule ''shardingTableRule'' ctx)\<rparr>"

definition ShardingVisitor_VisitTableReferenceRuleDefinition :: "tree \<Rightarrow> TableReferenceRuleDefinition" where
  "ShardingVisitor_VisitTableReferenceRuleDefinition ctx =
     \<lparr>trrd_RuleName = map_option ShardingVisitor_VisitRuleName (the_rule ''ruleName'' ctx),
      trrd_AllTableName = map (\<lambda>c. Some (ShardingVisitor_VisitTableName c)) (all_rules ''tableName'' ctx)\<rparr>"

definition ShardingVisitor_VisitCreateShardingTableRule :: "tree \<Rightarrow> CreateShardingTableRule outcome" where
  "ShardingVisitor_VisitCreateShardingTableRule ctx =
     bind_oc (visit_opt ShardingVisitor_VisitIfNotExists (the_rule ''ifNotExists'' ctx)) (\<lambda>exists.
       Ok \<lparr>cstr_IfNotExists = exists, cstr_AllShardingTableRuleDefinition = map (\<lambda>c. Some (ShardingVisitor_VisitShardingTableRuleDefinition c)) (all_rules ''shardingTableRuleDefinition'' ctx)\<rparr>)"

definition ShardingVisitor_VisitAlterShardingTableRule :: "tree \<Rightarrow> AlterShardingTableRule" where
  "ShardingVisitor_VisitAlterShardingTableRule ctx =
     \<lparr>astr_AllShardingTableRuleDefinition = map (\<lambda>c. Some (ShardingVisitor_VisitShardingTableRuleDefinition c)) (all_rules ''shardingTableRuleDefinition'' ctx)\<rparr>"

definition ShardingVisitor_VisitDropShardingTableRule :: "tree \<Rightarrow> DropShardingTableRule outcome" where
  "ShardingVisitor_VisitDropShardingTableRule ctx =
     bind_oc (visit_opt ShardingVisitor_VisitIfExists (the_rule ''ifExists'' ctx)) (\<lambda>exists.
       Ok \<lparr>dstr_IfExists = exists, dstr_AllTableName = map (\<lambda>c. Some (ShardingVisitor_VisitTableName c)) (all_rules ''tableName'' ctx)\<rparr>)"

definition ShardingVisitor_VisitCreateShardingTableReferenceRule :: "tree \<Rightarrow> CreateShardingTableReferenceRule outcome" where
  "ShardingVisitor_VisitCreateShardingTableReferenceRule ctx =
     bind_oc (visit_opt ShardingVisitor_VisitIfNotExists (the_rule ''ifNotExists'' ctx)) (\<lambda>exists.
       Ok \<lparr>csrr_IfNotExists = exists, csrr_AllTableReferenceRuleDefinition = map (\<lambda>c. Some (ShardingVisitor_VisitTableReferenceRuleDefinition c)) (all_rules ''tableReferenceRuleDefinition'' ctx)\<rparr>)"

definition ShardingVisitor_VisitAlterShardingTableReferenceRule :: "tree \<Rightarrow> AlterShardingTableReferenceRule" where
  "ShardingVisitor_VisitAlterShardingTableReferenceRule ctx =
     \<lparr>asrr_AllTableReferenceRuleDefinition = map (\<lambda>c. Some (ShardingVisitor_VisitTableReferenceRuleDefinition c)) (all_rules ''tableReferenceRuleDefinition'' ctx)\<rparr>"

definition ShardingVisitor_VisitDropShardingTableReferenceRule :: "tree \<Rightarrow> DropShardingTableReferenceRule outcome" where
  "ShardingVisitor_VisitDropShardingTableReferenceRule ctx =
     bind_oc (visit_opt ShardingVisitor_VisitIfExists (the_rule ''ifExists'' ctx)) (\<lambda>exists.
       Ok \<lparr>dsrr_IfExists = exists, dsrr_AllRuleNames = map (\<lambda>c. Some (ShardingVisitor_VisitRuleName c)) (all_rules ''ruleName'' ctx)\<rparr>)"

definition ShardingVisitor_VisitCreateBroadcastTableRule :: "tree \<Rightarrow> CreateBroadcastTableRule outcome" where
  "ShardingVisitor_VisitCreateBroadcastTableRule ctx =
     bind_oc (visit_opt ShardingVisitor_VisitIfNotExists (the_rule ''ifNotExists'' ctx)) (\<lambda>exists.
       Ok \<lparr>cbtr_IfNotExists = exists, cbtr_AllTableName = map (\<lambda>c. Some (ShardingVisitor_VisitTableName c)) (all_rules ''tableName'' ctx)\<rparr>)"

definition ShardingVisitor_VisitDropBroadcastTableRule :: "tree \<Rightarrow> DropBroadcastTableRule outcome" where
  "ShardingVisitor_VisitDropBroadcastTableRule ctx =
     bind_oc (visit_opt ShardingVisitor_VisitIfExists (the_rule ''ifExists'' ctx)) (\<lambda>exists.
       Ok \<lparr>dbtr_IfExists = exists, dbtr_AllTableName = map (\<lambda>c. Some (ShardingVisitor_VisitTableName c)) (all_rules ''tableName'' ctx)\<rparr>)"

definition ShardingVisitor_VisitDropShardingAlgorithm :: "tree \<Rightarrow> DropShardingAlgorithm outcome" where
  "ShardingVisitor_VisitDropShardingAlgorithm ctx =
     bind_oc (visit_opt ShardingVisitor_VisitIfExists (the_rule ''ifExists'' ctx)) (\<lambda>exists.
       Ok \<lparr>dsha_IfExists = exists, dsha_AllShardingAlgorithmName = map (\<lambda>c. Some (ShardingVisitor_VisitShardingAlgorithmName c)) (all_rules ''shardingAlgorithmName'' ctx)\<rparr>)"

definition ShardingVisitor_VisitCreateDefaultShardingStrategy :: "tree \<Rightarrow> CreateDefaultShardingStrategy outcome" where
  "ShardingVisitor_VisitCreateDefaultShardingStrategy ctx =
     bind_oc (visit_opt ShardingVisitor_VisitIfNotExists (the_rule ''ifNotExists'' ctx)) (\<lambda>exists.
       Ok \<lparr>cdss_IfNotExists = exists, cdss_ShardingStrategy = map_option ShardingVisitor_VisitShardingStrategy (the_rule ''shardingStrategy'' ctx)\<rparr>)"

definition ShardingVisitor_VisitAlterDefaultShardingStrategy :: "tree \<Rightarrow> AlterDefaultShardingStrategy" where
  "ShardingVisitor_VisitAlterDefaultShardingStrategy ctx =
     \<lparr>adss_ShardingStrategy = map_option ShardingVisitor_VisitShardingStrategy (the_rule ''shardingStrategy'' ctx)\<rparr>"

definition ShardingVisitor_VisitDropDefaultShardingStrategy :: "tree \<Rightarrow> DropDefaultShardingStrategy outcome" where
  "ShardingVisitor_VisitDropDefaultShardingStrategy ctx =
     bind_oc (visit_opt ShardingVisitor_VisitIfExists (the_rule ''ifExists'' ctx)) (\<lambda>exists.
       Ok \<lparr>ddss_IfExists = exists\<rparr>)"

definition ShardingVisitor_VisitDropShardingKeyGenerator :: "tree \<Rightarrow> DropShardingKeyGenerator outcome" where
  "ShardingVisitor_VisitDropShardingKeyGenerator ctx =
     bind_oc (visit_opt ShardingVisitor_VisitIfExists (the_rule ''ifExists'' ctx)) (\<lambda>exists.
       Ok \<lparr>dskg_IfExists = exists, dskg_AllKeyGeneratorName = map (\<lambda>c. Some (ShardingVisitor_VisitKeyGeneratorName c)) (all_rules ''keyGeneratorName'' ctx)\<rparr>)"

definition ShardingVisitor_VisitDropShardingAuditor :: "tree \<Rightarrow> DropShardingAuditor outcome" where
  "ShardingVisitor_VisitDropShardingAuditor ctx =
     bind_oc (visit_opt ShardingVisitor_VisitIfExists (the_rule ''ifExists'' ctx)) (\<lambda>exists.
       Ok \<lparr>dsau_IfExists = exists, dsau_AllAuditorName = map (\<lambda>c. Some (ShardingVisitor_VisitAuditorName c)) (all_rules ''auditorName'' ctx)\<rparr>)"

section \<open>The grammar\<close>

definition sharding_grammar :: "string \<Rightarrow> ebnf" where
  "sharding_grammar r = rule_of
    [(''createShardingTableRule'', Seq [T ''CREATE'', T ''SHARDING'', T ''TABLE'', T ''RULE'', Opt (N ''ifNotExists''), comma_list ''shardingTableRuleDefinition'']),
     (''alterShardingTableRule'', Seq [T ''ALTER'', T ''SHARDING'', T ''TABLE'', T ''RULE'', comma_list ''shardingTableRuleDefinition'']),
     (''dropShardingTableRule'', Seq [T ''DROP'', T ''SHARDING'', T ''TABLE'', T ''RULE'', drop_list ''tableName'']),
     (''createShardingTableReferenceRule'', Seq [T ''CREATE'', T ''SHARDING'', T ''TABLE'', T ''REFERENCE'', T ''RULE'', Opt (N ''ifNotExists''),
        comma_list ''tableReferenceRuleDefinition'']),
     (''alterShardingTableReferenceRule'', Seq [T ''ALTER'', T ''SHARDING'', T ''TABLE'', T ''REFERENCE'', T ''RULE'', comma_list ''tableReferenceRuleDefinition'']),
     (''dropShardingTableReferenceRule'', Seq [T ''DROP'', T ''SHARDING'', T ''TABLE'', T ''REFERENCE'', T ''RULE'', drop_list ''ruleName'']),
     (''createBroadcastTableRule'', Seq [T ''CREATE'', T ''BROADCAST'', T ''TABLE'', T ''RULE'', Opt (N ''ifNotExists''), comma_list ''tableName'']),
     (''dropBroadcastTableRule'', Seq [T ''DROP'', T ''BROADCAST'', T ''TABLE'', T ''RULE'', drop_list ''tableName'']),
     (''dropShardingAlgorithm'', Seq [T ''DROP'', T ''SHARDING'', T ''ALGORITHM'', drop_list ''shardingAlgorithmName'']),
     (''createDefaultShardingStrategy'', Seq [T ''CREATE'', T ''DEFAULT'', T ''SHARDING'', Alt [T ''DATABASE'', T ''TABLE''], T ''STRATEGY'',
        Opt (N ''ifNotExists''), T ''LP_'', N ''shardingStrategy'', T ''RP_'']),
     (''alterDefaultShardingStrategy'', Seq [T ''ALTER'', T ''DEFAULT'', T ''SHARDING'', Alt [T ''DATABASE'', T ''TABLE''], T ''STRATEGY'',
        T ''LP_'', N ''shardingStrategy'', T ''RP_'']),
     (''dropDefaultShardingStrategy'', Seq [T ''DROP'', T ''DEFAULT'', T ''SHARDING'', Alt [T ''DATABASE'', T ''TABLE''], T ''STRATEGY'', Opt (N ''ifExists'')]),
     (''dropShardingKeyGenerator'', Seq [T ''DROP'', T ''SHARDING'', T ''KEY'', T ''GENERATOR'', drop_list ''keyGeneratorName'']),
     (''dropShardingAuditor'', Seq [T ''DROP'', T ''SHARDING'', T ''AUDITOR'', drop_list ''auditorName'']),
     (''shardingTableRuleDefinition'', Alt [N ''shardingAutoTableRule'', N ''shardingTableRule'']),
     (''shardingAutoTableRule'', Seq [N ''tableName'', T ''LP_'', N ''storageUnits'', T ''COMMA_'', N ''autoShardingColumnDefinition'', T ''COMMA_'',
        N ''algorithmDefinition'', Opt (Seq [T ''COMMA_'', N ''keyGenerateDefinition'']), Opt (Seq [T ''COMMA_'', N ''auditDefinition'']), T ''RP_'']),
     (''shardingTableRule'', Seq [N ''tableName'', T ''LP_'', N ''dataNodes'', Opt (Seq [T ''COMMA_'', N ''databaseStrategy'']),
        Opt (Seq [T ''COMMA_'', N ''tableStrategy'']), Opt (Seq [T ''COMMA_'', N ''keyGenerateDefinition'']),
        Opt (Seq [T ''COMMA_'', N ''auditDefinition'']), T ''RP_'']),
     (''keyGeneratorName'', T ''IDENTIFIER_''),
     (''auditorDefinition'', Seq [N ''auditorName'', T ''LP_'', N ''algorithmDefinition'', T ''RP_'']),
     (''auditorName'', T ''IDENTIFIER_''),
     (''storageUnits'', Seq [T ''STORAGE_UNITS'', T ''LP_'', comma_list ''storageUnit'', T ''RP_'']),
     (''storageUnit'', Alt [T ''IDENTIFIER_'', T ''STRING_'']),
     (''dataNodes'', Seq [T ''DATANODES'', T ''LP_'', comma_list ''dataNode'', T ''RP_'']),
     (''dataNode'', T ''STRING_''),
     (''autoShardingColumnDefinition'', N ''shardingColumn''),
     (''shardingColumnDefinition'', Alt [N ''shardingColumn'', N ''shardingColumns'']),
     (''shardingColumn'', Seq [T ''SHARDING_COLUMN'', T ''EQ_'', N ''columnName'']),
     (''shardingColumns'', Seq [T ''SHARDING_COLUMNS'', T ''EQ_'', N ''columnName'', T ''COMMA_'', comma_list ''columnName'']),
     (''shardingAlgorithm'', Seq [T ''SHARDING_ALGORITHM'', T ''LP_'', N ''algorithmDefinition'', T ''RP_'']),
     (''shardingStrategy'', Seq [T ''TYPE'', T ''EQ_'', N ''strategyType'',
        Opt (Seq [Opt (Seq [T ''COMMA_'', N ''shardingColumnDefinition'']), T ''COMMA_'', N ''shardingAlgorithm''])]),
     (''databaseStrategy'', Seq [T ''DATABASE_STRATEGY'', T ''LP_'', N ''shardingStrategy'', T ''RP_'']),
     (''tableStrategy'', Seq [T ''TABLE_STRATEGY'', T ''LP_'', N ''shardingStrategy'', T ''RP_'']),
     (''keyGenerateDefinition'', Seq [T ''KEY_GENERATE_STRATEGY'', T ''LP_'', T ''COLUMN'', T ''EQ_'', N ''columnName'', T ''COMMA_'',
        N ''algorithmDefinition'', T ''RP_'']),
     (''auditDefinition'', Seq [T ''AUDIT_STRATEGY'', T ''LP_'', N ''multiAuditDefinition'', T ''COMMA_'', T ''ALLOW_HINT_DISABLE'', T ''EQ_'',
        N ''auditAllowHintDisable'', T ''RP_'']),
     (''multiAuditDefinition'', comma_list ''singleAuditDefinition''),
     (''singleAuditDefinition'', N ''algorithmDefinition''),
     (''auditAllowHintDisable'', Alt [T ''TRUE'', T ''FALSE'']),
     (''columnName'', T ''IDENTIFIER_''),
     (''tableReferenceRuleDefinition'', Seq [N ''ruleName'', T ''LP_'', comma_list ''tableName'', T ''RP_'']),
     (''strategyType'', Alt [T ''STRING_'', N ''buildInStrategyType'']),
     (''buildInStrategyType'', Alt [T ''STANDARD'', T ''COMPLEX'', T ''HINT'', T ''NONE'']),
     (''ifExists'', Seq [T ''IF'', T ''EXISTS'']),
     (''ifNotExists'', Seq [T ''IF'', T ''NOT'', T ''EXISTS'']),
     (''literal'', Alt [T ''STRING_'', Seq [Opt (T ''MINUS_''), T ''INT_''], T ''TRUE'', T ''FALSE'']),
     (''algorithmDefinition'', Seq [T ''TYPE'', T ''LP_'', T ''NAME'', T ''EQ_'', N ''algorithmTypeName'',
        Opt (Seq [T ''COMMA_'', N ''propertiesDefinition'']), T ''RP_'']),
     (''algorithmTypeName'', Alt [T ''STRING_'', N ''buildInShardingAlgorithmType'', N ''buildInKeyGenerateAlgorithmType'',
        N ''buildInShardingAuditAlgorithmType'']),
     (''buildInShardingAlgorithmType'', Alt [T ''MOD'', T ''HASH_MOD'', T ''VOLUME_RANGE'', T ''BOUNDARY_RANGE'', T ''AUTO_INTERVAL'', T ''INLINE'', T ''INTERVAL'', T ''COSID_MOD'', T ''COSID_INTERVAL'', T ''COSID_INTERVAL_SNOWFLAKE'', T ''COMPLEX_INLINE'', T ''HINT_INLINE'', T ''CLASS_BASED'']),
     (''buildInKeyGenerateAlgorithmType'', Alt [T ''SNOWFLAKE'', T ''NANOID'', T ''UUID'', T ''COSID'', T ''COSID_SNOWFLAKE'']),
     (''buildInShardingAuditAlgorithmType'', Alt [T ''DML_SHARDING_CONDITIONS'']),
     (''propertiesDefinition'', Seq [T ''PROPERTIES'', T ''LP_'', Opt (N ''properties''), T ''RP_'']),
     (''properties'', comma_list ''property''),
     (''property'', Seq [T ''STRING_'', T ''EQ_'', N ''literal'']),
     (''tableName'', T ''IDENTIFIER_''),
     (''shardingAlgorithmName'', T ''IDENTIFIER_''),
     (''ruleName'', T ''IDENTIFIER_'')] r"

lemmas sharding_G = sharding_grammar_def

interpretation sharding_properties: properties_visitor sharding_grammar ShardingVisitor_VisitLiteral ShardingVisitor_VisitProperty
  ShardingVisitor_VisitProperties ShardingVisitor_VisitPropertiesDefinition
  by unfold_locales (simp_all add: sharding_G ShardingVisitor_VisitLiteral_def ShardingVisitor_VisitProperty_def ShardingVisitor_VisitProperties_def
      ShardingVisitor_VisitPropertiesDefinition_def)

interpretation sharding_drop_table: drop_visitor sharding_grammar ShardingVisitor_VisitIfExists ShardingVisitor_VisitIfNotExists
  "''tableName''" ShardingVisitor_VisitTableName
  by unfold_locales (simp_all add: sharding_G ShardingVisitor_VisitIfExists_def ShardingVisitor_VisitIfNotExists_def ShardingVisitor_VisitTableName_def)

interpretation sharding_drop_rule: drop_visitor sharding_grammar ShardingVisitor_VisitIfExists ShardingVisitor_VisitIfNotExists
  "''ruleName''" ShardingVisitor_VisitRuleName
  by unfold_locales (simp_all add: sharding_G ShardingVisitor_VisitIfExists_def ShardingVisitor_VisitIfNotExists_def ShardingVisitor_VisitRuleName_def)

interpretation sharding_drop_algorithm: drop_visitor sharding_grammar ShardingVisitor_VisitIfExists ShardingVisitor_VisitIfNotExists
  "''shardingAlgorithmName''" ShardingVisitor_VisitShardingAlgorithmName
  by unfold_locales (simp_all add: sharding_G ShardingVisitor_VisitIfExists_def ShardingVisitor_VisitIfNotExists_def ShardingVisitor_VisitShardingAlgorithmName_def)

interpretation sharding_drop_generator: drop_visitor sharding_grammar ShardingVisitor_VisitIfExists ShardingVisitor_VisitIfNotExists
  "''keyGeneratorName''" ShardingVisitor_VisitKeyGeneratorName
  by unfold_locales (simp_all add: sharding_G ShardingVisitor_VisitIfExists_def ShardingVisitor_VisitIfNotExists_def ShardingVisitor_VisitKeyGeneratorName_def)

interpretation sharding_drop_auditor: drop_visitor sharding_grammar ShardingVisitor_VisitIfExists ShardingVisitor_VisitIfNotExists
  "''auditorName''" ShardingVisitor_VisitAuditorName
  by unfold_locales (simp_all add: sharding_G ShardingVisitor_VisitIfExists_def ShardingVisitor_VisitIfNotExists_def ShardingVisitor_VisitAuditorName_def)

interpretation sharding_columns: name_visitor sharding_grammar "''columnName''" ShardingVisitor_VisitColumnName
  by unfold_locales (simp_all add: sharding_G ShardingVisitor_VisitColumnName_def)

end
