(* ===== verification/Distsql_Sharding_Roundtrip.thy ===== *)
theory Distsql_Sharding_Roundtrip
  imports Distsql_Sharding
begin

text \<open>
  Which sharding statements come back from visiting and printing as they were parsed, and what
  becomes of the others.
\<close>

section \<open>Statements that come back\<close>

lemmas name_defs = ShardingVisitor_VisitColumnName_def ShardingVisitor_VisitTableName_def ShardingVisitor_VisitShardingAlgorithmName_def ShardingVisitor_VisitRuleName_def
  ShardingVisitor_VisitKeyGeneratorName_def ShardingVisitor_VisitAuditorName_def

lemma tableReference_prints:
  assumes "derives sharding_grammar (sharding_grammar ''tableReferenceRuleDefinition'') cs"
  shows "\<exists>s. TableReferenceRuleDefinition_ToString (ShardingVisitor_VisitTableReferenceRuleDefinition (Node q cs)) = Ok s \<and> spells s (terms cs)"
proof -
  from assms obtain x ns where cs: "cs = [Node ''ruleName'' [Terminal ''IDENTIFIER_'' x], Terminal ''LP_'' ''(''] @ ns @ [Terminal ''RP_'' '')'']"
    and x: "ident x" and ns: "derives sharding_grammar (comma_list ''tableName'') ns"
    by (auto simp: sharding_grammar_def [of "''tableReferenceRuleDefinition''"] sharding_grammar_def [of "''ruleName''"] derives_N)
  have "filter (is_rule ''ruleName'') ns = []" using ns by (auto simp: derives_comma_list)
  with sharding_drop_table.names_print [OF ns] x show ?thesis
    by (auto simp: cs ShardingVisitor_VisitTableReferenceRuleDefinition_def name_defs tree_access TableReferenceRuleDefinition_ToString_def
        leaf_printers spelling_simps)
qed

text \<open>
  Every \<^verbatim>\<open>CREATE SHARDING TABLE REFERENCE RULE\<close> statement comes back from visiting and printing
  with the tokens it had.
\<close>

theorem create_reference_roundtrip:
  assumes "derives sharding_grammar (N ''createShardingTableReferenceRule'') [t]"
  shows "\<exists>r s. ShardingVisitor_VisitCreateShardingTableReferenceRule t = Ok r \<and> CreateShardingTableReferenceRule_ToString r = Ok s \<and> spells s (terminals t)"
proof -
  have G: "sharding_grammar ''createShardingTableReferenceRule'' = Seq (map T [''CREATE'', ''SHARDING'', ''TABLE'', ''REFERENCE'', ''RULE''] @
      [Opt (N ''ifNotExists''), comma_list ''tableReferenceRuleDefinition''])" by (simp add: sharding_G)
  from sharding_drop_table.create_statement [where P = "\<lambda>_. True" and f = TableReferenceRuleDefinition_ToString
      and v = "\<lambda>t. Ok (ShardingVisitor_VisitTableReferenceRuleDefinition t)", OF assms G] tableReference_prints
  show ?thesis
    by (fastforce simp: map_oc_Ok o_def ShardingVisitor_VisitCreateShardingTableReferenceRule_def CreateShardingTableReferenceRule_ToString_def
        heading_def keyword_defs char_class_defs)
qed

lemma create_broadcast_roundtrip:
  assumes "derives sharding_grammar (N ''createBroadcastTableRule'') [t]"
  shows "\<exists>r s. ShardingVisitor_VisitCreateBroadcastTableRule t = Ok r \<and> CreateBroadcastTableRule_ToString r = Ok s \<and> spells s (terminals t)"
proof -
  have G: "sharding_grammar ''createBroadcastTableRule'' = Seq (map T [''CREATE'', ''BROADCAST'', ''TABLE'', ''RULE''] @
      [Opt (N ''ifNotExists''), comma_list ''tableName''])" by (simp add: sharding_G)
  from sharding_drop_table.create_statement [where P = "\<lambda>_. True" and f = CommonIdentifier_ToString
      and v = "\<lambda>t. Ok (ShardingVisitor_VisitTableName t)", OF assms G] sharding_drop_table.name_text
  show ?thesis
    by (fastforce simp: map_oc_Ok o_def ShardingVisitor_VisitCreateBroadcastTableRule_def CreateBroadcastTableRule_ToString_def
        heading_def keyword_defs char_class_defs)
qed

text \<open>
  C40. The statements that drop sharding table rules, reference rules, broadcast tables, key
  generators and auditors all come back from visiting and printing with the tokens they had.
\<close>

theorem sharding_drops_roundtrip:
  "(derives sharding_grammar (N ''dropShardingTableRule'') [t] \<longrightarrow>
     (\<exists>r s. ShardingVisitor_VisitDropShardingTableRule t = Ok r \<and> DropShardingTableRule_ToString r = Ok s \<and> spells s (terminals t))) \<and>
   (derives sharding_grammar (N ''dropShardingTableReferenceRule'') [t] \<longrightarrow>
     (\<exists>r s. ShardingVisitor_VisitDropShardingTableReferenceRule t = Ok r \<and> DropShardingTableReferenceRule_ToString r = Ok s \<and> spells s (terminals t))) \<and>
   (derives sharding_grammar (N ''dropBroadcastTableRule'') [t] \<longrightarrow>
     (\<exists>r s. ShardingVisitor_VisitDropBroadcastTableRule t = Ok r \<and> DropBroadcastTableRule_ToString r = Ok s \<and> spells s (terminals t))) \<and>
   (derives sharding_grammar (N ''dropShardingKeyGenerator'') [t] \<longrightarrow>
     (\<exists>r s. ShardingVisitor_VisitDropShardingKeyGenerator t = Ok r \<and> DropShardingKeyGenerator_ToString r = Ok s \<and> spells s (terminals t))) \<and>
   (derives sharding_grammar (N ''dropShardingAuditor'') [t] \<longrightarrow>
     (\<exists>r s. ShardingVisitor_VisitDropShardingAuditor t = Ok r \<and> DropShardingAuditor_ToString r = Ok s \<and> spells s (terminals t)))"
proof (intro conjI impI)
  note unfold = sharding_G heading_def keyword_defs char_class_defs
  show "\<exists>r s. ShardingVisitor_VisitDropShardingTableRule t = Ok r \<and> DropShardingTableRule_ToString r = Ok s \<and> spells s (terminals t)"
    if "derives sharding_grammar (N ''dropShardingTableRule'') [t]"
    using sharding_drop_table.drop_statement [OF that, of "[''DROP'', ''SHARDING'', ''TABLE'', ''RULE'']"]
    by (auto simp: unfold ShardingVisitor_VisitDropShardingTableRule_def DropShardingTableRule_ToString_def)
  show "\<exists>r s. ShardingVisitor_VisitDropShardingTableReferenceRule t = Ok r \<and> DropShardingTableReferenceRule_ToString r = Ok s \<and> spells s (terminals t)"
    if "derives sharding_grammar (N ''dropShardingTableReferenceRule'') [t]"
    using sharding_drop_rule.drop_statement [OF that, of "[''DROP'', ''SHARDING'', ''TABLE'', ''REFERENCE'', ''RULE'']"]
    by (auto simp: unfold ShardingVisitor_VisitDropShardingTableReferenceRule_def DropShardingTableReferenceRule_ToString_def)
  show "\<exists>r s. ShardingVisitor_VisitDropBroadcastTableRule t = Ok r \<and> DropBroadcastTableRule_ToString r = Ok s \<and> spells s (terminals t)"
    if "derives sharding_grammar (N ''dropBroadcastTableRule'') [t]"
    using sharding_drop_table.drop_statement [OF that, of "[''DROP'', ''BROADCAST'', ''TABLE'', ''RULE'']"]
    by (auto simp: unfold ShardingVisitor_VisitDropBroadcastTableRule_def DropBroadcastTableRule_ToString_def)
  show "\<exists>r s. ShardingVisitor_VisitDropShardingKeyGenerator t = Ok r \<and> DropShardingKeyGenerator_ToString r = Ok s \<and> spells s (terminals t)"
    if "derives sharding_grammar (N ''dropShardingKeyGenerator'') [t]"
    using sharding_drop_generator.drop_statement [OF that, of "[''DROP'', ''SHARDING'', ''KEY'', ''GENERATOR'']"]
    by (auto simp: unfold ShardingVisitor_VisitDropShardingKeyGenerator_def DropShardingKeyGenerator_ToString_def)
  show "\<exists>r s. ShardingVisitor_VisitDropShardingAuditor t = Ok r \<and> DropShardingAuditor_ToString r = Ok s \<and> spells s (terminals t)"
    if "derives sharding_grammar (N ''dropShardingAuditor'') [t]"
    using sharding_drop_auditor.drop_statement [OF that, of "[''DROP'', ''SHARDING'', ''AUDITOR'']"]
    by (auto simp: unfold ShardingVisitor_VisitDropShardingAuditor_def DropShardingAuditor_ToString_def)
qed

section \<open>Statements that become others\<close>

text \<open>
  A \<^verbatim>\<open>DROP SHARDING ALGORITHM\<close> statement is printed as a \<^verbatim>\<open>DROP BROADCAST TABLE RULE\<close> statement:
  the names of the algorithms become names of broadcast tables to drop.
\<close>

theorem drop_algorithm_becomes_drop_broadcast:
  assumes "derives sharding_grammar (N ''dropShardingAlgorithm'') [t]"
  shows "\<exists>r s a b c us. ShardingVisitor_VisitDropShardingAlgorithm t = Ok r \<and> DropShardingAlgorithm_ToString r = Ok s \<and>
    terminals t = (''DROP'', a) # (''SHARDING'', b) # (''ALGORITHM'', c) # us \<and>
    spells s ((''DROP'', a) # (''BROADCAST'', ''BROADCAST'') # (''TABLE'', ''TABLE'') # (''RULE'', ''RULE'') # us)"
proof -
  from assms obtain a b c rs where
    t: "t = Node ''dropShardingAlgorithm'' ([Terminal ''DROP'' a, Terminal ''SHARDING'' b, Terminal ''ALGORITHM'' c] @ rs)"
    and rs: "derives sharding_grammar (drop_list ''shardingAlgorithmName'') rs"
    by (auto simp: sharding_grammar_def [of "''dropShardingAlgorithm''"] derives_N)
  from sharding_drop_algorithm.drop_prints [OF rs] show ?thesis
    by (auto simp: t ShardingVisitor_VisitDropShardingAlgorithm_def tree_access DropShardingAlgorithm_ToString_def spelling_simps)
qed

text \<open>
  The columns of a sharding strategy over several columns are printed with the first one
  twice.
\<close>

theorem sharding_columns_repeat_first:
  assumes "derives sharding_grammar (N ''shardingColumns'') [t]"
  shows "\<exists>s k c us. ShardingColumns_ToString (ShardingVisitor_VisitShardingColumns t) = Ok s \<and>
    terminals t = (''SHARDING_COLUMNS'', k) # (''EQ_'', ''='') # (''IDENTIFIER_'', c) # us \<and>
    spells s ((''SHARDING_COLUMNS'', k) # (''EQ_'', ''='') # (''IDENTIFIER_'', c) # (''COMMA_'', '','') # (''IDENTIFIER_'', c) # us)"
proof -
  from assms obtain k c ns where
    t: "t = Node ''shardingColumns'' ([Terminal ''SHARDING_COLUMNS'' k, Terminal ''EQ_'' ''='', Node ''columnName'' [Terminal ''IDENTIFIER_'' c],
       Terminal ''COMMA_'' '',''] @ ns)" and c: "ident c" and ns: "derives sharding_grammar (comma_list ''columnName'') ns"
    by (auto simp: sharding_grammar_def [of "''shardingColumns''"] sharding_grammar_def [of "''columnName''"] derives_N)
  have "derives sharding_grammar (comma_list ''columnName'') (Node ''columnName'' [Terminal ''IDENTIFIER_'' c] # Terminal ''COMMA_'' '','' # ns)"
    using c ns deriving_Seq(7) [of sharding_grammar "''columnName''" _ "[]" ns]
    by (auto simp: sharding_grammar_def [of "''columnName''"])
  from sharding_columns.names_print [OF this] show ?thesis
    using c by (auto simp: t ShardingVisitor_VisitShardingColumns_def tree_access ShardingVisitor_VisitColumnName_def ShardingColumns_ToString_def leaf_printers spelling_simps)
qed

section \<open>Statements that are never right\<close>

text \<open>
  A \<^verbatim>\<open>DROP DEFAULT SHARDING STRATEGY\<close> statement without \<^verbatim>\<open>IF EXISTS\<close>, a clause the grammar makes
  optional, crashes the printer with a nil dereference. With the clause it is printed with the text
  of the grammar's alternative in place of \<^verbatim>\<open>DATABASE\<close> or \<^verbatim>\<open>TABLE\<close>, which is never the tokens it had.
\<close>

theorem drop_default_strategy_never_right:
  assumes "derives sharding_grammar (N ''dropDefaultShardingStrategy'') [t]"
  shows "\<exists>r. ShardingVisitor_VisitDropDefaultShardingStrategy t = Ok r \<and>
    (if the_rule ''ifExists'' t = None then DropDefaultShardingStrategy_ToString r = Panic nil_dereference
     else \<exists>s. DropDefaultShardingStrategy_ToString r = Ok s \<and> \<not> list_all2 same_token (terminals t) (lexer s))"
proof -
  from assms obtain a b c k x d es where
    t: "t = Node ''dropDefaultShardingStrategy'' ([Terminal ''DROP'' a, Terminal ''DEFAULT'' b, Terminal ''SHARDING'' c, Terminal k x,
        Terminal ''STRATEGY'' d] @ es)" and k: "k = ''DATABASE'' \<or> k = ''TABLE''" "lexeme k x"
    and es: "derives sharding_grammar (Opt (N ''ifExists'')) es"
    by (auto simp: sharding_grammar_def [of "''dropDefaultShardingStrategy''"] derives_N)
  from sharding_drop_table.ifExists_prints [OF es] obtain p e where
    p: "visit_opt ShardingVisitor_VisitIfExists (case filter (is_rule ''ifExists'') es of [] \<Rightarrow> None | c # _ \<Rightarrow> Some c) = Ok p"
    "if_set IfExists_ToString p = Ok e" by blast
  have "es = [] \<and> p = None \<or> (\<exists>cs q. es = [Node ''ifExists'' cs] \<and> p = Some q)"
    using es p(1) by (auto simp: derives_Opt derives_N bind_oc_Ok_iff)
  moreover have "\<not> list_all2 same_token (terminals t) (lexer (''DROP DEFAULT SHARDING type=(DATABASE | TABLE) STRATEGY '' @ e))"
  proof
    assume "list_all2 same_token (terminals t) (lexer (''DROP DEFAULT SHARDING type=(DATABASE | TABLE) STRATEGY '' @ e))"
    then have "same_token (k, x) ''type''" by (simp add: t char_class_defs)
    with k have "to_lower ''type'' = to_lower k" by (auto simp: same_token_def lexeme_keyword keyword_defs char_class_defs)
    from arg_cong [OF this, of "\<lambda>s. (length s, nth s 1)"] k(1) show False by (auto simp: to_lower_def lower_char_def)
  qed
  ultimately show ?thesis
    using p by (auto simp: t ShardingVisitor_VisitDropDefaultShardingStrategy_def tree_access DropDefaultShardingStrategy_ToString_def simp del: lexer.simps)
qed

lemma sharding_builtins_print:
  "derives sharding_grammar (sharding_grammar ''buildInShardingAlgorithmType'') cs \<Longrightarrow>
     spells (bic_String (ShardingVisitor_VisitBuildInShardingAlgorithmType (Node q cs))) (terms cs)"
  "derives sharding_grammar (sharding_grammar ''buildInKeyGenerateAlgorithmType'') cs \<Longrightarrow>
     spells (bic_String (ShardingVisitor_VisitBuildInKeyGenerateAlgorithmType (Node q cs))) (terms cs)"
  "derives sharding_grammar (sharding_grammar ''buildInShardingAuditAlgorithmType'') cs \<Longrightarrow>
     spells (bic_String (ShardingVisitor_VisitBuildInShardingAuditAlgorithmType (Node q cs))) (terms cs)"
proof -
  let ?sharding = "[''MOD'', ''HASH_MOD'', ''VOLUME_RANGE'', ''BOUNDARY_RANGE'', ''AUTO_INTERVAL'', ''INLINE'',
    ''INTERVAL'', ''COSID_MOD'', ''COSID_INTERVAL'', ''COSID_INTERVAL_SNOWFLAKE'', ''COMPLEX_INLINE'', ''HINT_INLINE'', ''CLASS_BASED'']"
  have "sharding_grammar ''buildInShardingAlgorithmType'' = Alt (map T ?sharding)" "list_all keyword ?sharding"
    by (simp_all add: sharding_G keyword_defs char_class_defs)
  then show "derives sharding_grammar (sharding_grammar ''buildInShardingAlgorithmType'') cs \<Longrightarrow>
      spells (bic_String (ShardingVisitor_VisitBuildInShardingAlgorithmType (Node q cs))) (terms cs)"
    using keyword_prints [of sharding_grammar ?sharding cs q] by (simp add: ShardingVisitor_VisitBuildInShardingAlgorithmType_def del: derives_Alt)
  let ?key = "[''SNOWFLAKE'', ''NANOID'', ''UUID'', ''COSID'', ''COSID_SNOWFLAKE'']"
  have "sharding_grammar ''buildInKeyGenerateAlgorithmType'' = Alt (map T ?key)" "list_all keyword ?key"
    by (simp_all add: sharding_G keyword_defs char_class_defs)
  then show "derives sharding_grammar (sharding_grammar ''buildInKeyGenerateAlgorithmType'') cs \<Longrightarrow>
      spells (bic_String (ShardingVisitor_VisitBuildInKeyGenerateAlgorithmType (Node q cs))) (terms cs)"
    using keyword_prints [of sharding_grammar ?key cs q] by (simp add: ShardingVisitor_VisitBuildInKeyGenerateAlgorithmType_def del: derives_Alt)
  have "sharding_grammar ''buildInShardingAuditAlgorithmType'' = Alt (map T [''DML_SHARDING_CONDITIONS''])" "keyword ''DML_SHARDING_CONDITIONS''"
    by (simp_all add: sharding_G keyword_defs char_class_defs)
  then show "derives sharding_grammar (sharding_grammar ''buildInShardingAuditAlgorithmType'') cs \<Longrightarrow>
      spells (bic_String (ShardingVisitor_VisitBuildInShardingAuditAlgorithmType (Node q cs))) (terms cs)"
    using keyword_prints [of sharding_grammar "[''DML_SHARDING_CONDITIONS'']" cs q]
    by (simp add: ShardingVisitor_VisitBuildInShardingAuditAlgorithmType_def del: derives_Alt)
qed

lemma sharding_type_name_prints:
  assumes "derives sharding_grammar (sharding_grammar ''algorithmTypeName'') cs"
  shows "\<exists>s. ShardingAlgorithmTypeName_ToString (ShardingVisitor_VisitAlgorithmTypeName (Node q cs)) = Ok s \<and> spells s (terms cs)"
proof -
  from assms consider x where "cs = [Terminal ''STRING_'' x]" "string_lit x"
    | bs where "cs = [Node ''buildInShardingAlgorithmType'' bs]" "derives sharding_grammar (sharding_grammar ''buildInShardingAlgorithmType'') bs"
    | bs where "cs = [Node ''buildInKeyGenerateAlgorithmType'' bs]" "derives sharding_grammar (sharding_grammar ''buildInKeyGenerateAlgorithmType'') bs"
    | bs where "cs = [Node ''buildInShardingAuditAlgorithmType'' bs]" "derives sharding_grammar (sharding_grammar ''buildInShardingAuditAlgorithmType'') bs"
    by (auto simp: sharding_grammar_def [of "''algorithmTypeName''"] derives_N)
  then show ?thesis
    by cases (auto simp: ShardingVisitor_VisitAlgorithmTypeName_def tree_access ShardingAlgorithmTypeName_ToString_def BuildInCommon_ToString_def
        spells_string sharding_builtins_print)
qed

text \<open>
  The definition of a sharding algorithm with properties comes back from visiting and printing
  with the tokens it had; one without them is printed with a comma before the closing parenthesis,
  which the grammar does not allow.
\<close>

theorem sharding_algorithm_extra_comma:
  assumes "derives sharding_grammar (N ''algorithmDefinition'') [t]" and "simple t"
  shows "\<exists>s front. ShardingAlgorithmDefinition_ToString (ShardingVisitor_VisitAlgorithmDefinition t) = Ok s \<and>
    terminals t = front @ [(''RP_'', '')'')] \<and>
    spells s (front @ (if the_rule ''propertiesDefinition'' t = None then [(''COMMA_'', '','')] else []) @ [(''RP_'', '')'')])"
proof -
  from assms(1) obtain x y ns ps where
    t: "t = Node ''algorithmDefinition'' ([Terminal ''TYPE'' x, Terminal ''LP_'' ''('', Terminal ''NAME'' y, Terminal ''EQ_'' ''='',
      Node ''algorithmTypeName'' ns] @ ps @ [Terminal ''RP_'' '')''])"
    and ns: "derives sharding_grammar (sharding_grammar ''algorithmTypeName'') ns"
    and ps: "derives sharding_grammar (Opt (Seq [T ''COMMA_'', N ''propertiesDefinition''])) ps"
    by (auto simp: sharding_grammar_def [of "''algorithmDefinition''"] derives_N)
  from sharding_type_name_prints [OF ns] obtain n where
    n: "ShardingAlgorithmTypeName_ToString (ShardingVisitor_VisitAlgorithmTypeName (Node ''algorithmTypeName'' ns)) = Ok n" "spells n (terms ns)" by blast
  note unfold = t ShardingVisitor_VisitAlgorithmDefinition_def tree_access ShardingAlgorithmDefinition_ToString_def n spelling_simps
  from ps consider "ps = []" | ds where "ps = [Terminal ''COMMA_'' '','', Node ''propertiesDefinition'' ds]"
      "derives sharding_grammar (sharding_grammar ''propertiesDefinition'') ds" by (auto simp: derives_Opt derives_N)
  then show ?thesis
  proof cases
    case 1
    then show ?thesis
      by (intro exI [of _ "''TYPE ( NAME = '' @ n @ '' ,)''"] exI [of _ "(''TYPE'', x) # (''LP_'', ''('') # (''NAME'', y) # (''EQ_'', ''='') # terms ns"])
        (simp add: unfold)
  next
    case (2 ds)
    then obtain d where "PropertiesDefinition_ToString (ShardingVisitor_VisitPropertiesDefinition (Node ''propertiesDefinition'' ds)) = Ok d" "spells d (terms ds)"
      using sharding_properties.propertiesDefinition_prints [OF 2(2)] assms(2) by (auto simp: t)
    with 2 show ?thesis
      by (intro exI [of _ "''TYPE ( NAME = '' @ n @ '' ,'' @ d @ '')''"]
          exI [of _ "(''TYPE'', x) # (''LP_'', ''('') # (''NAME'', y) # (''EQ_'', ''='') # terms ns @ (''COMMA_'', '','') # terms ds"])
        (simp add: unfold)
  qed
qed

section \<open>Witnesses\<close>

definition demo_reference :: tree where
  "demo_reference = Node ''createShardingTableReferenceRule'' [kw ''CREATE'', kw ''SHARDING'', kw ''TABLE'', kw ''REFERENCE'', kw ''RULE'',
     Node ''tableReferenceRuleDefinition'' [name_node ''ruleName'' ''ref_0'', lp, name_node ''tableName'' ''t_order'', comma,
       name_node ''tableName'' ''t_order_item'', rp]]"

definition demo_drop_table :: tree where
  "demo_drop_table = Node ''dropShardingTableRule'' [kw ''DROP'', kw ''SHARDING'', kw ''TABLE'', kw ''RULE'', name_node ''tableName'' ''t_order'']"

definition demo_drop_algorithm :: tree where
  "demo_drop_algorithm = Node ''dropShardingAlgorithm'' [kw ''DROP'', kw ''SHARDING'', kw ''ALGORITHM'',
     name_node ''shardingAlgorithmName'' ''t_order_hash_mod'']"

definition demo_columns :: tree where
  "demo_columns = Node ''shardingColumns'' [kw ''SHARDING_COLUMNS'', eq, name_node ''columnName'' ''user_id'', comma,
     name_node ''columnName'' ''order_id'']"

definition demo_drop_default :: tree where
  "demo_drop_default = Node ''dropDefaultShardingStrategy'' [kw ''DROP'', kw ''DEFAULT'', kw ''SHARDING'', kw ''TABLE'', kw ''STRATEGY'']"

definition demo_snowflake :: tree where
  "demo_snowflake = Node ''algorithmDefinition'' [kw ''TYPE'', lp, kw ''NAME'', eq,
     Node ''algorithmTypeName'' [Node ''buildInKeyGenerateAlgorithmType'' [kw ''SNOWFLAKE'']], rp]"

lemmas sharding_recognise = deriving deriving_Seq drop_list_def example_defs

lemma demo_sharding_derived:
  "derives sharding_grammar (N ''createShardingTableReferenceRule'') [demo_reference]"
  "derives sharding_grammar (N ''dropShardingTableRule'') [demo_drop_table]"
  "derives sharding_grammar (N ''dropShardingAlgorithm'') [demo_drop_algorithm]"
  "derives sharding_grammar (N ''shardingColumns'') [demo_columns]"
  "derives sharding_grammar (N ''dropDefaultShardingStrategy'') [demo_drop_default]"
  "derives sharding_grammar (N ''algorithmDefinition'') [demo_snowflake]"
proof -
  show "derives sharding_grammar (N ''createShardingTableReferenceRule'') [demo_reference]"
    by (simp add: demo_reference_def sharding_recognise sharding_grammar_def [of "''createShardingTableReferenceRule''"]
        sharding_grammar_def [of "''tableReferenceRuleDefinition''"] sharding_grammar_def [of "''ruleName''"] sharding_grammar_def [of "''tableName''"]
        del: derives_Cons derives_T derives_Alt derives_Nil)
  show "derives sharding_grammar (N ''dropShardingTableRule'') [demo_drop_table]"
    by (simp add: demo_drop_table_def sharding_recognise sharding_grammar_def [of "''dropShardingTableRule''"]
        sharding_grammar_def [of "''tableName''"] del: derives_Cons derives_T derives_Alt derives_Nil)
  show "derives sharding_grammar (N ''dropShardingAlgorithm'') [demo_drop_algorithm]"
    by (simp add: demo_drop_algorithm_def sharding_recognise sharding_grammar_def [of "''dropShardingAlgorithm''"]
        sharding_grammar_def [of "''shardingAlgorithmName''"] del: derives_Cons derives_T derives_Alt derives_Nil)
  show "derives sharding_grammar (N ''shardingColumns'') [demo_columns]"
    by (simp add: demo_columns_def sharding_recognise sharding_grammar_def [of "''shardingColumns''"]
        sharding_grammar_def [of "''columnName''"] del: derives_Cons derives_T derives_Alt derives_Nil)
  show "derives sharding_grammar (N ''dropDefaultShardingStrategy'') [demo_drop_default]"
    by (simp add: demo_drop_default_def sharding_recognise deriving_Seq_Alt sharding_grammar_def [of "''dropDefaultShardingStrategy''"]
        del: derives_Cons derives_T derives_Alt derives_Nil)
  show "derives sharding_grammar (N ''algorithmDefinition'') [demo_snowflake]"
    by (simp add: demo_snowflake_def sharding_recognise sharding_grammar_def [of "''algorithmDefinition''"]
        sharding_grammar_def [of "''algorithmTypeName''"] sharding_grammar_def [of "''buildInKeyGenerateAlgorithmType''"]
        del: derives_Cons derives_T derives_Alt derives_Nil)
qed

theorem create_reference_roundtrip_witness:
  "\<exists>r s. ShardingVisitor_VisitCreateShardingTableReferenceRule demo_reference = Ok r \<and> CreateShardingTableReferenceRule_ToString r = Ok s \<and>
    spells s (terminals demo_reference)"
  by (rule create_reference_roundtrip [OF demo_sharding_derived(1)])

theorem sharding_drops_roundtrip_witness:
  "\<exists>r s. ShardingVisitor_VisitDropShardingTableRule demo_drop_table = Ok r \<and> DropShardingTableRule_ToString r = Ok s \<and> spells s (terminals demo_drop_table)"
  using sharding_drops_roundtrip [of demo_drop_table] demo_sharding_derived(2) by blast

theorem drop_algorithm_becomes_drop_broadcast_witness:
  "\<exists>r s. ShardingVisitor_VisitDropShardingAlgorithm demo_drop_algorithm = Ok r \<and> DropShardingAlgorithm_ToString r = Ok s \<and>
    spells s [(''DROP'', ''DROP''), (''BROADCAST'', ''BROADCAST''), (''TABLE'', ''TABLE''), (''RULE'', ''RULE''), (''IDENTIFIER_'', ''t_order_hash_mod'')]"
  using drop_algorithm_becomes_drop_broadcast [OF demo_sharding_derived(3)]
  by (auto simp: demo_drop_algorithm_def kw_def name_node_def)

theorem sharding_columns_repeat_first_witness:
  "\<exists>s k c us. ShardingColumns_ToString (ShardingVisitor_VisitShardingColumns demo_columns) = Ok s \<and>
    terminals demo_columns = (''SHARDING_COLUMNS'', k) # (''EQ_'', ''='') # (''IDENTIFIER_'', c) # us \<and>
    spells s ((''SHARDING_COLUMNS'', k) # (''EQ_'', ''='') # (''IDENTIFIER_'', c) # (''COMMA_'', '','') # (''IDENTIFIER_'', c) # us)"
  by (rule sharding_columns_repeat_first [OF demo_sharding_derived(4)])

theorem drop_default_strategy_never_right_witness:
  "\<exists>r. ShardingVisitor_VisitDropDefaultShardingStrategy demo_drop_default = Ok r \<and> DropDefaultShardingStrategy_ToString r = Panic nil_dereference"
  using drop_default_strategy_never_right [OF demo_sharding_derived(5)]
  by (simp add: demo_drop_default_def tree_access kw_def del: lexer.simps)

theorem sharding_algorithm_extra_comma_witness:
  "\<exists>s front. ShardingAlgorithmDefinition_ToString (ShardingVisitor_VisitAlgorithmDefinition demo_snowflake) = Ok s \<and>
    terminals demo_snowflake = front @ [(''RP_'', '')'')] \<and> spells s (front @ [(''COMMA_'', '',''), (''RP_'', '')'')])"
  using sharding_algorithm_extra_comma [OF demo_sharding_derived(6)]
  by (simp add: demo_snowflake_def tree_access kw_def)

end
