(* ===== verification/Spec2Isabelle.thy ===== *)
theory Spec2Isabelle
  imports Rds_Properties Compute_Node_Properties Ssproxy_Passes Proxy_Config Autoscaler Pitr_System Distsql_Encrypt_Losses Distsql_Rwsplit Distsql_Shadow Distsql_Mask Distsql_Sharding_Roundtrip
begin

text \<open>
  A verification development for ShardingSphere-on-Cloud. All paths below are under
  \<^verbatim>\<open>src/shardingsphere-operator/\<close> unless they start with \<^verbatim>\<open>solutions/\<close>.

  \<^bold>\<open>The program.\<close> The operator runs Apache ShardingSphere on Kubernetes. It watches custom
  resources and, for every change, runs a \<^verbatim>\<open>Reconcile\<close> method that compares the resource with what
  exists and makes calls until they agree. A \<^emph>\<open>compute node\<close> is a ShardingSphere-Proxy: a
  deployment, a service and a config map; the older resource \<^verbatim>\<open>ShardingSphereProxy\<close> asks for the
  same, with its configuration in a resource of its own, and an autoscaler is meant to scale them. A \<^emph>\<open>storage node\<close> is a database: an RDS instance, an RDS
  or Aurora cluster of AWS, or a CloudNativePG cluster; when it is ready the operator registers it
  with the proxy of a compute node by DistSQL statements, and on deletion it unregisters it, deletes
  the database and drops its finalizer. The package \<^verbatim>\<open>pkg/distsql\<close> parses DistSQL statements
  into syntax trees and prints the trees back. Beside the operator there is a tool for
  point-in-time recovery of openGauss: a command line that asks the agents of all storage nodes to
  take, restore or delete backups and keeps a record of each backup on the local disk, and the agent
  that runs beside each openGauss server and does so with \<^verbatim>\<open>gs_probackup\<close> and \<^verbatim>\<open>gs_ctl\<close>.

  \<^bold>\<open>Effects.\<close> A handler of a controller is a function from the history of calls made so far to a
  longer history and a result (\<open>io\<close> in \<open>Go_Prelude\<close>). What is outside the repository (the API
  server, AWS, \<^verbatim>\<open>database/sql\<close>, the clock, random numbers, YAML, semantic versions) is a record of
  answer functions (\<open>env\<close> in \<open>Environment\<close>, \<open>cn_env\<close> in \<open>Compute_Node_Controller\<close>, and so on) which see the
  history, so that an answer may depend on everything that happened before and the properties hold
  in every environment. Go errors are values of \<open>gerror\<close> with their wrapping, a result is
  \<open>gerror + 'a\<close>, panics are the constructor \<open>Panic\<close> of \<open>outcome\<close>; deferred calls are made on every path. Nil
  and empty slices differ (\<open>goslice\<close>), maps are partial functions, \<^verbatim>\<open>int32\<close> values are words of 32
  bits and a conversion to them wraps.

  \<^bold>\<open>Shared theories.\<close>
  \<^item> \<open>Go_Prelude\<close>: the fragments of Go and its standard library, the collections of rules that
    the call-trace proofs use (\<open>within\<close>, \<open>keeps\<close>), string and word lemmas.
  \<^item> \<open>Api_Types\<close>: \<^verbatim>\<open>api/v1alpha1\<close> (storage nodes, storage providers, server configuration). The
    locale \<open>keyed_store\<close> is the contract of the many slices that are updated by key (a lookup after an
    update, keys stay distinct, a \<open>view\<close> as a map); \<open>keyed_entries\<close> extends it by removal. They are
    interpreted on the conditions of storage nodes here and on the containers, init containers,
    volumes and mounts of a pod in \<open>Pod_Builders\<close>.
  \<^item> \<open>Io_Calls\<close>: how to reason about the calls of a computation, whatever makes them: which calls it
    can add (\<open>within\<close>), what was answered before a given call (\<open>answered\<close>), and monitors, automata that
    read the calls and for which \<open>monitored\<close> is a weakest-precondition calculus.
  \<^item> \<open>Environment\<close>: the calls and answers of the storage node controller and the results of a
    reconcile pass, and what all controllers do with a missing or an existing object.

  \<^bold>\<open>Storage nodes.\<close>
  \<^item> \<open>Rds_Client\<close> (\<^verbatim>\<open>pkg/reconcile/storagenode/aws\<close>), \<open>Proxy_Server\<close>
    (\<^verbatim>\<open>pkg/shardingsphere/shardingsphere.go\<close>), \<open>Storage_Node_Status\<close> and
    \<open>Storage_Node_Controller\<close> (\<^verbatim>\<open>pkg/controllers/storage_node_controller.go\<close>): all operations.
  \<^item> \<open>Storage_Node_Safety\<close> and \<open>Storage_Node_Lifecycle\<close> (C1 to C10): databases are deleted
    only in finalization and only after the proxy has forgotten them, the finalizer goes only when
    the deletion is complete, written statuses agree with their conditions, a deletion ends, the proxy is
    contacted only to register, data source names are valid and injective; and two behaviours the
    controller does not want: an unhealthy CloudNativePG cluster that is reported ready, and a
    deleted node that is provisioned again. \<open>Storage_Node_Examples\<close> holds concrete environments.
  \<^item> \<open>Rds_Properties\<close> (C11 to C15): what a request to AWS can contain, with the 32-bit bounds, the
    validations, the statements sent to the proxy, and that a retained RDS cluster blocks
    finalization.

  \<^bold>\<open>Compute nodes.\<close>
  \<^item> \<open>Compute_Node_Types\<close> (\<^verbatim>\<open>api/v1alpha1/compute_node_types.go\<close>), \<open>Pod_Builders\<close>
    (\<^verbatim>\<open>pkg/kubernetes/{metadata,container,pod,deployment}\<close>), \<open>Compute_Node_Constants\<close>,
    \<open>Compute_Node_Builders\<close> and \<open>Compute_Node_Objects\<close> (\<^verbatim>\<open>pkg/reconcile/computenode\<close>,
    \<^verbatim>\<open>pkg/kubernetes/{service,configmap}\<close>), \<open>Compute_Node_Status\<close> and
    \<open>Compute_Node_Controller\<close> (\<^verbatim>\<open>pkg/controllers/compute_node_controller.go\<close>): all operations. The
    builders share containers by pointer; the model updates the container at its position in the pod.
  \<^item> \<open>Compute_Node_Deployment\<close> and \<open>Compute_Node_Properties\<close> (C16 to C20): every compute node
    gives a well-formed pod without a panic, all created objects carry the name and the owner of
    the node, the list of conditions refines a map from condition types to statuses, the phase is
    ready exactly when a proxy container is, and where the controller does less than it seems:
    services that are never updated, ready conditions that outlive the pods, annotations of the
    pod template that are lost.

  \<^bold>\<open>Proxies, their configuration and autoscalers.\<close>
  \<^item> \<open>Ssproxy_Types\<close> (\<^verbatim>\<open>api/v1alpha1/{proxy_types,proxy_status}.go\<close>), \<open>Ssproxy_Deployment\<close> and
    \<open>Ssproxy_Objects\<close> (\<^verbatim>\<open>pkg/reconcile/proxy\<close>) and \<open>Ssproxy_Controller\<close>
    (\<^verbatim>\<open>pkg/controllers/proxy_controller.go\<close>): all operations, with the panics of indices out of range
    and nil pointers. \<open>Scaling_Types\<close> has the autoscaling objects of Kubernetes.
  \<^item> \<open>Ssproxy_Updates\<close>, \<open>Ssproxy_Properties\<close> (C22 to C24): an update of a deployment is idempotent; no
    sequence of updates (\<open>made_for\<close>, an inductive relation) adds the download of a driver; and a proxy is
    never reported ready, since the container that is counted has another name.
  \<^item> \<open>Ssproxy_Passes\<close> (C21): on an API server that keeps what it is sent (\<open>px_stored\<close>: its answers are
    read off the state the calls lead to; \<open>server_defaults\<close>: what it may fill in) two passes create the
    objects of a proxy and fail, and all later passes succeed.
  \<^item> \<open>Proxy_Config\<close> (C25): \<^verbatim>\<open>api/v1alpha1/{proxyconfig_types,serverconfig}.go\<close>,
    \<^verbatim>\<open>pkg/reconcile/proxyconfig\<close>, \<^verbatim>\<open>pkg/controllers/proxyconfig_controller.go\<close>; one pass reaches the
    wanted state from every state, and the next one sends nothing.
  \<^item> \<open>Autoscaler\<close> (C26): \<^verbatim>\<open>api/v1alpha1/autoscaler_types.go\<close>, \<^verbatim>\<open>pkg/kubernetes/{hpa,vpa}\<close>,
    \<^verbatim>\<open>pkg/reconcile/autoscaler\<close>, \<^verbatim>\<open>pkg/controllers/auto_scaler_controller.go\<close>; every policy that is acted
    on ends in a panic of its builder.

  \<^bold>\<open>Point-in-time recovery\<close> (\<^verbatim>\<open>solutions/opengauss/pitr/cli\<close>).
  \<^item> \<open>Pitr_Types\<close> (\<^verbatim>\<open>internal/pkg/model\<close>, the flags of \<^verbatim>\<open>internal/cmd/root.go\<close>), \<open>Pitr_Services\<close>
    (\<^verbatim>\<open>internal/pkg/{shardingsphere-proxy,agent-server,local-storage}.go\<close>, \<^verbatim>\<open>internal/pkg/xerr\<close>,
    \<^verbatim>\<open>pkg/{gsutil,httputils,promptutil,stringutil,timeutil}\<close>) and \<open>Pitr_Commands\<close>
    (\<^verbatim>\<open>internal/cmd/{common,backup,restore,delete,show}.go\<close>, \<^verbatim>\<open>pkg/prettyoutput\<close>): all operations. The
    environment is \<open>pitr_env\<close>; it also decides in which order goroutines run and send and in which
    order maps are visited.
  \<^item> Waiting: \<open>run_tasks\<close> runs the goroutines of a command step by step until the progress writer, a
    library, stops. Its number of rounds is fuel, and \<open>None\<close> means that the command still waits.
    Four rounds per storage node are enough when no agent keeps a task waiting (C28), since a task
    retries three times. What the commands rely on in the writer is the hypothesis \<open>auto_stop\<close>.
    The locale \<open>tasks\<close> in \<open>Pitr_Tasks\<close> is the contract of a goroutine (what a step keeps, what its result
    promises); it proves once that waiting ends and that there is one good result per task, and is
    interpreted on the tasks of backup, restore and delete.
  \<^item> \<open>Pitr_Calls\<close>, \<open>Pitr_Lock\<close>: which calls each service can make, and the monitor of the
    cluster lock. \<open>Pitr_Examples\<close> has a concrete environment and runs of the commands.
  \<^item> \<open>Pitr_Properties\<close>, \<open>Pitr_Restore\<close>, \<open>Pitr_Delete\<close>, \<open>Pitr_Nodes\<close> (C27 to C34, and theorems beside them): a backup leaves
    the cluster unlocked and is complete when it succeeds; databases are dropped only after all data
    is restored; a record is removed only after its data; exported nodes are distinct; and what
    goes wrong on errors: a backup that fails to lock releases the lock of another, a failed start
    leaves backups behind, a failed deletion hides its record for good.

  \<^bold>\<open>The recovery agent\<close> (\<^verbatim>\<open>solutions/opengauss/pitr/agent\<close>).
  \<^item> \<open>Pitr_Agent\<close> (\<^verbatim>\<open>internal/pkg/opengauss.go\<close>, \<^verbatim>\<open>internal/cons\<close>, \<^verbatim>\<open>pkg/{cmds,gsutil,xerror}\<close>) and
    \<open>Pitr_Agent_Handlers\<close> (\<^verbatim>\<open>internal/handler\<close> with its views and middleware, \<^verbatim>\<open>pkg/responder\<close>,
    \<^verbatim>\<open>main.go\<close>): all operations. The environment \<open>agent_env\<close> tells the course of every command that is
    run. A handler that never returns has the value \<open>None\<close>.
  \<^item> \<open>Pitr_Agent_Properties\<close> (C35, C38): the restore handler with its two deferred functions follows an
    abstract protocol (\<open>restore_path\<close>, an inductive relation over steps and their success) whose effect on an
    abstract \<open>world\<close> never loses the data; it blocks when the restoring command cannot be started; and a
    backup without an identifier counts as started.
  \<^item> \<open>Pitr_System\<close> (C36, C37): command line and agents composed, with \<open>served\<close> as what the wire
    between them does. A backup reported as successful is \<^verbatim>\<open>OK\<close> on every node; a backup whose state is
    neither \<^verbatim>\<open>OK\<close> nor \<^verbatim>\<open>ERROR\<close> is waited for without end.

  \<^bold>\<open>DistSQL.\<close>
  \<^item> \<open>Distsql_Syntax\<close>, \<open>Distsql_Spelling\<close>, \<open>Distsql_Common\<close>, \<open>Distsql_Statements\<close>: a grammar is
    data (the rules of the \<^verbatim>\<open>.g4\<close> files), a parse tree fits a grammar, a text spells a sequence of
    tokens; the locales \<open>properties_visitor\<close>, \<open>algorithm_visitor\<close>, \<open>name_visitor\<close>,
    \<open>exists_visitor\<close> and \<open>drop_visitor\<close> state what the five visitors have in common and prove
    the round trips of the shared parts once; each package interprets them on its own visitor.
  \<^item> \<open>Distsql_Encrypt\<close>, \<open>Distsql_Rwsplit\<close>, \<open>Distsql_Shadow\<close>, \<open>Distsql_Mask\<close>,
    \<open>Distsql_Sharding\<close>: grammar, syntax tree, printers (\<^verbatim>\<open>pkg/distsql/ast\<close>) and visitor
    (\<^verbatim>\<open>pkg/distsql/visitor\<close>) of each package.
  \<^item> The properties (C39, C40 and the theorems beside them) say for every group of statements whether visiting a parse tree and
    printing the result spells the tokens of the tree, and if not, which tokens are lost or added.
    A printer that may call itself without end takes the depth of the stack as an argument and
    yields \<open>Panic ''stack overflow''\<close> when it is used up; the properties are about every depth, so no bound is
    chosen.

  \<^bold>\<open>Not modelled.\<close> Generated code (ANTLR parsers and lexers, deep copies, mocks) is represented by
  its input or left out. The CloudNativePG builder fills types of a third party. Start-up, metrics and
  the webhook hand values to libraries. Log lines are left out. The controller of chaos experiments
  injects faults and load for tests; it is the next part to add. The tables, log lines and the look of the progress bars of the command line
  are left out, and so is what a failed program of the agent leaves behind.
\<close>

end
